(* ===== verification/Kit_Prelude.thy ===== *)
theory Kit_Prelude
  imports Complex_Main "HOL-Library.Word" "HOL-Library.AList" "HOL-Library.Multiset"
begin

text \<open>
  Shared vocabulary of the development: byte buffers, results that carry a thrown error,
  the JavaScript containers and string operations the SDK uses, and stable sorting by a
  three-way comparison function.

  Strings are lists of characters, one character per UTF-8 byte, so that
  \<^verbatim>\<open>Buffer.byteLength(s, "utf8")\<close> is \<open>length s\<close>; on the ASCII strings the code slices and
  compares (hex digits, strkeys, symbols) this agrees with the UTF-16 view of JavaScript.
  A JavaScript \<^verbatim>\<open>Map\<close> is an association list in insertion order: \<open>AList.update\<close> replaces
  in place or appends, as \<^verbatim>\<open>Map.set\<close> does, and \<open>AList.delete\<close> is \<^verbatim>\<open>Map.delete\<close>.
\<close>

named_theorems result_simps \<open>unfolding a chain of fallible steps\<close>
named_theorems sort_facts \<open>facts about sorting by a comparison function\<close>

section \<open>Bytes and results\<close>

type_synonym byte = "8 word"
type_synonym buffer = "8 word list"

definition bindE :: "'e + 'a \<Rightarrow> ('a \<Rightarrow> 'e + 'b) \<Rightarrow> 'e + 'b" where
  "bindE m f = (case m of Inl e \<Rightarrow> Inl e | Inr x \<Rightarrow> f x)"

lemma bindE_simps [simp]: "bindE (Inl e) f = Inl e" "bindE (Inr x) f = f x"
  by (simp_all add: bindE_def)

lemma bindE_Inr [result_simps]: "bindE m f = Inr y \<longleftrightarrow> (\<exists>x. m = Inr x \<and> f x = Inr y)"
  by (cases m) auto

lemma bindE_Inl [result_simps]:
  "bindE m f = Inl e \<longleftrightarrow> m = Inl e \<or> (\<exists>x. m = Inr x \<and> f x = Inl e)"
  by (cases m) auto

definition guardE :: "bool \<Rightarrow> 'e \<Rightarrow> 'e + unit" where
  "guardE bad e = (if bad then Inl e else Inr ())"

lemma guardE_Inr [simp]: "guardE bad e = Inr u \<longleftrightarrow> \<not> bad"
  by (simp add: guardE_def)

lemma guardE_Inl [simp]: "guardE bad e = Inl e' \<longleftrightarrow> bad \<and> e' = e"
  by (auto simp: guardE_def)

lemma guardE_bool [simp]: "guardE False e = Inr ()" "guardE True e = Inl e"
  by (simp_all add: guardE_def)

definition isOk :: "'e + 'a \<Rightarrow> bool" where
  "isOk r = (case r of Inl _ \<Rightarrow> False | Inr _ \<Rightarrow> True)"

lemma isOk_simps [simp]: "isOk (Inr x)" "\<not> isOk (Inl e)"
  by (simp_all add: isOk_def)

lemma isOk_iff: "isOk r \<longleftrightarrow> (\<exists>x. r = Inr x)"
  by (cases r) auto

lemma isOk_unit: "isOk (r :: 'e + unit) \<longleftrightarrow> r = Inr ()"
  by (cases r) auto

lemma isOk_bindE [result_simps]: "isOk (bindE m f) \<longleftrightarrow> (\<exists>x. m = Inr x \<and> isOk (f x))"
  by (cases m) auto

text \<open>A loop that runs a fallible step on every element and stops at the first error.\<close>

fun mapE :: "('a \<Rightarrow> 'e + 'b) \<Rightarrow> 'a list \<Rightarrow> 'e + 'b list" where
  "mapE f [] = Inr []"
| "mapE f (x # xs) = bindE (f x) (\<lambda>y. bindE (mapE f xs) (\<lambda>ys. Inr (y # ys)))"

lemma mapE_Inr: "mapE f xs = Inr ys \<longleftrightarrow> list_all2 (\<lambda>x y. f x = Inr y) xs ys"
  by (induction xs arbitrary: ys) (auto simp: bindE_Inr list_all2_Cons1)

lemma mapE_total: "(\<And>x. x \<in> set xs \<Longrightarrow> f x = Inr (g x)) \<Longrightarrow> mapE f xs = Inr (map g xs)"
  by (induction xs) auto

lemma mapE_Inl: "mapE f xs = Inl e \<Longrightarrow> \<exists>x\<in>set xs. f x = Inl e"
  by (induction xs) (auto simp: bindE_Inl)

fun forE :: "('a \<Rightarrow> 'e + unit) \<Rightarrow> 'a list \<Rightarrow> 'e + unit" where
  "forE f [] = Inr ()"
| "forE f (x # xs) = bindE (f x) (\<lambda>_. forE f xs)"

lemma forE_Inr: "forE f xs = Inr u \<longleftrightarrow> (\<forall>x\<in>set xs. f x = Inr ())"
  by (induction xs) (auto simp: bindE_Inr)

lemma forE_Inl: "forE f xs = Inl e \<Longrightarrow> \<exists>x\<in>set xs. f x = Inl e"
  by (induction xs) (auto simp: bindE_Inl)

section \<open>JavaScript numbers\<close>

text \<open>
  A JavaScript number that is not an integer by construction: the three non-finite values,
  or a finite one, whose value is a rational number.
\<close>

datatype jsnum = NaN | PosInf | NegInf | Fin rat

definition isFinite :: "jsnum \<Rightarrow> bool" where
  "isFinite x = (case x of Fin _ \<Rightarrow> True | _ \<Rightarrow> False)"

section \<open>Hexadecimal and decimal text\<close>

text \<open>\<^verbatim>\<open>Buffer.toString("hex")\<close>, \<^verbatim>\<open>String.toLowerCase\<close> on ASCII, and the decimal text of a number.\<close>

definition hexDigits :: string where
  "hexDigits = ''0123456789abcdef''"

definition hexDigit :: "nat \<Rightarrow> char" where
  "hexDigit n = hexDigits ! (n mod 16)"

definition hexByte :: "byte \<Rightarrow> string" where
  "hexByte b = [hexDigit (unat b div 16), hexDigit (unat b mod 16)]"

definition toHex :: "buffer \<Rightarrow> string" where
  "toHex bs = concat (map hexByte bs)"

lemma hexDigit_inj: "m < 16 \<Longrightarrow> n < 16 \<Longrightarrow> hexDigit m = hexDigit n \<longleftrightarrow> m = n"
proof -
  assume "m < 16" "n < 16"
  moreover have "distinct hexDigits" and "length hexDigits = 16"
    by (simp_all add: hexDigits_def)
  ultimately show ?thesis
    by (simp add: hexDigit_def nth_eq_iff_index_eq)
qed

lemma hexByte_inj: "hexByte a = hexByte b \<longleftrightarrow> a = b"
proof
  assume "hexByte a = hexByte b"
  moreover have "unat a < 256" "unat b < 256"
    using unsigned_less [of a, where 'a = nat] unsigned_less [of b, where 'a = nat] by simp_all
  ultimately have "unat a div 16 = unat b div 16" "unat a mod 16 = unat b mod 16"
    by (simp_all add: hexByte_def hexDigit_inj less_mult_imp_div_less)
  then have "unat a = unat b"
    by (metis div_mult_mod_eq)
  then show "a = b" by (simp add: word_unat_eq_iff)
qed simp

lemma length_hexByte [simp]: "length (hexByte b) = 2"
  by (simp add: hexByte_def)

lemma length_toHex [simp]: "length (toHex bs) = 2 * length bs"
  by (induction bs) (simp_all add: toHex_def)

lemma toHex_Nil [simp]: "toHex [] = []"
  by (simp add: toHex_def)

lemma toHex_Cons: "toHex (b # bs) = hexByte b @ toHex bs"
  by (simp add: toHex_def)

lemma hexByte_append_inj: "hexByte a @ xs = hexByte b @ ys \<longleftrightarrow> a = b \<and> xs = ys"
  by (simp add: append_eq_append_conv hexByte_inj)

lemma hexByte_not_Nil: "hexByte a @ xs \<noteq> []"
  by (simp add: hexByte_def)

lemma toHex_inj [simp]: "toHex as = toHex bs \<longleftrightarrow> as = bs"
proof (induction as arbitrary: bs)
  case Nil
  then show ?case by (cases bs) (simp_all add: toHex_Cons hexByte_def)
next
  case (Cons a as)
  then show ?case
    by (cases bs) (simp_all only: toHex_Cons hexByte_append_inj toHex_Nil hexByte_not_Nil
        list.inject list.distinct simp_thms)
qed

lemma hexDigit_set: "hexDigit n \<in> set hexDigits"
  unfolding hexDigit_def by (rule nth_mem) (simp add: hexDigits_def)

lemma toHex_set: "set (toHex bs) \<subseteq> set hexDigits"
  by (induction bs) (auto simp: toHex_Cons hexByte_def hexDigit_set)

definition toLowerChar :: "char \<Rightarrow> char" where
  "toLowerChar c = (let n = of_char c :: nat in
     if 65 \<le> n \<and> n \<le> 90 then char_of (n + 32) else c)"

definition toLower :: "string \<Rightarrow> string" where
  "toLower s = map toLowerChar s"

lemma toLowerChar_idem [simp]: "toLowerChar (toLowerChar c) = toLowerChar c"
  by (simp add: toLowerChar_def Let_def)

lemma toLower_idem [simp]: "toLower (toLower s) = toLower s"
  by (simp add: toLower_def)

lemma length_toLower [simp]: "length (toLower s) = length s"
  by (simp add: toLower_def)

lemma toLower_hex: "set s \<subseteq> set hexDigits \<Longrightarrow> toLower s = s"
proof -
  have "\<forall>c\<in>set hexDigits. toLowerChar c = c"
    by (simp add: hexDigits_def toLowerChar_def)
  then show "set s \<subseteq> set hexDigits \<Longrightarrow> toLower s = s"
    by (simp add: toLower_def subset_iff map_idI)
qed

definition digitChar :: "nat \<Rightarrow> char" where
  "digitChar n = char_of (48 + n mod 10)"

fun decimal :: "nat \<Rightarrow> string" where
  "decimal n = (if n < 10 then [digitChar n] else decimal (n div 10) @ [digitChar n])"

declare decimal.simps [simp del]

lemma digitChar_inj: "m < 10 \<Longrightarrow> n < 10 \<Longrightarrow> digitChar m = digitChar n \<longleftrightarrow> m = n"
  by (auto simp: digitChar_def dest: arg_cong [where f = "of_char :: char \<Rightarrow> nat"])

lemma digitChar_mod [simp]: "digitChar (n mod 10) = digitChar n"
  by (simp add: digitChar_def)

lemma decimal_nonempty [simp]: "decimal n \<noteq> []"
  by (subst decimal.simps) simp

lemma decimal_nonempty' [simp]: "[] \<noteq> decimal n"
  by (metis decimal_nonempty)

lemma decimal_inj [simp]: "decimal m = decimal n \<longleftrightarrow> m = n"
proof
  show "decimal m = decimal n \<Longrightarrow> m = n"
  proof (induction m arbitrary: n rule: decimal.induct)
    case (1 m)
    show ?case
    proof (cases "m < 10 \<or> n < 10")
      case True
      with "1.prems" have "m < 10 \<and> n < 10"
        by (auto simp: decimal.simps [of m] decimal.simps [of n] split: if_splits)
      with "1.prems" show ?thesis
        by (simp add: decimal.simps [of m] decimal.simps [of n] digitChar_inj)
    next
      case False
      with "1.prems" have "decimal (m div 10) = decimal (n div 10)"
        and "digitChar (m mod 10) = digitChar (n mod 10)"
        by (auto simp: decimal.simps [of m] decimal.simps [of n])
      with "1.IH" False have "m div 10 = n div 10" "m mod 10 = n mod 10"
        by (simp_all add: digitChar_inj del: digitChar_mod)
      then show ?thesis by (metis div_mult_mod_eq)
    qed
  qed
qed simp

lemma decimal_no_comma: "CHR '','' \<notin> set (decimal n)"
proof (induction n rule: decimal.induct)
  case (1 n)
  have "digitChar n \<noteq> CHR '',''"
    by (auto simp: digitChar_def dest: arg_cong [where f = "of_char :: char \<Rightarrow> nat"])
  with 1 show ?case by (subst decimal.simps) auto
qed

text \<open>\<^verbatim>\<open>ids.join(",")\<close> on a list of rule ids.\<close>

fun joinIds :: "nat list \<Rightarrow> string" where
  "joinIds [] = []"
| "joinIds [n] = decimal n"
| "joinIds (n # ns) = decimal n @ CHR '','' # joinIds ns"

lemma append_sep_inj:
  assumes "c \<notin> set xs" "c \<notin> set ys" "xs @ c # us = ys @ c # vs"
  shows "xs = ys \<and> us = vs"
  using assms by (induction xs arbitrary: ys) (case_tac ys; auto)+

lemma joinIds_Cons: "joinIds (n # ns) = decimal n @ (if ns = [] then [] else CHR '','' # joinIds ns)"
  by (cases ns) simp_all

lemma joinIds_inj: "joinIds ms = joinIds ns \<longleftrightarrow> ms = ns"
proof
  show "joinIds ms = joinIds ns \<Longrightarrow> ms = ns"
  proof (induction ms arbitrary: ns)
    case Nil
    then show ?case by (cases ns) (auto simp: joinIds_Cons)
  next
    case (Cons m ms)
    then obtain n ns' where ns: "ns = n # ns'"
      by (cases ns) (auto simp: joinIds_Cons)
    have nc: "CHR '','' \<notin> set (decimal m)" "CHR '','' \<notin> set (decimal n)"
      by (simp_all add: decimal_no_comma)
    show ?case
    proof (cases "ms = [] \<or> ns' = []")
      case True
      with Cons.prems nc have "ms = [] \<and> ns' = []"
        by (auto simp: ns joinIds_Cons split: if_splits) (metis in_set_conv_decomp)+
      with Cons.prems show ?thesis by (simp add: ns joinIds_Cons)
    next
      case False
      with Cons.prems have "decimal m @ CHR '','' # joinIds ms = decimal n @ CHR '','' # joinIds ns'"
        by (simp add: ns joinIds_Cons)
      with nc have "decimal m = decimal n \<and> joinIds ms = joinIds ns'"
        by (metis append_sep_inj)
      with Cons.IH show ?thesis by (simp add: ns)
    qed
  qed
qed simp

end
