(* ===== verification/Kit_Order.thy ===== *)
theory Kit_Order
  imports Kit_Prelude
begin

text \<open>
  Three-way comparison functions and the stable sort that JavaScript's \<^verbatim>\<open>Array.sort(cmp)\<close>
  performs. The interface \<open>comparator\<close> states what a comparison function must satisfy;
  its lemmas give the sorted result, the independence of the result from the input order, and
  the fixpoint on sorted input. \<open>lexCmp\<close> and \<open>pairCmp\<close> are the element-by-element loops of
  the code, \<open>bufferCompare\<close> is \<^verbatim>\<open>Buffer.compare\<close>.
\<close>

section \<open>Sorting by a comparison function\<close>

fun insertBy :: "('a \<Rightarrow> 'a \<Rightarrow> int) \<Rightarrow> 'a \<Rightarrow> 'a list \<Rightarrow> 'a list" where
  "insertBy cmp x [] = [x]"
| "insertBy cmp x (y # ys) = (if cmp x y \<le> 0 then x # y # ys else y # insertBy cmp x ys)"

definition sortBy :: "('a \<Rightarrow> 'a \<Rightarrow> int) \<Rightarrow> 'a list \<Rightarrow> 'a list" where
  "sortBy cmp xs = foldr (insertBy cmp) xs []"

lemma sortBy_simps [simp]: "sortBy cmp [] = []" "sortBy cmp (x # xs) = insertBy cmp x (sortBy cmp xs)"
  by (simp_all add: sortBy_def)

lemma mset_insertBy [simp]: "mset (insertBy cmp x ys) = add_mset x (mset ys)"
  by (induction ys) auto

lemma mset_sortBy [simp, sort_facts]: "mset (sortBy cmp xs) = mset xs"
  by (induction xs) auto

lemma set_insertBy [simp]: "set (insertBy cmp x ys) = insert x (set ys)"
  by (induction ys) auto

lemma set_sortBy [simp, sort_facts]: "set (sortBy cmp xs) = set xs"
  by (induction xs) auto

lemma length_sortBy [simp, sort_facts]: "length (sortBy cmp xs) = length xs"
  by (metis mset_sortBy size_mset)

lemma distinct_sortBy [simp, sort_facts]: "distinct (sortBy cmp xs) = distinct xs"
  by (metis mset_sortBy mset_eq_imp_distinct_iff)

abbreviation sortedBy :: "('a \<Rightarrow> 'a \<Rightarrow> int) \<Rightarrow> 'a list \<Rightarrow> bool" where
  "sortedBy cmp \<equiv> sorted_wrt (\<lambda>x y. cmp x y \<le> 0)"

lemma insertBy_map:
  "(\<And>y. y \<in> set ys \<Longrightarrow> cmp (f x) (f y) = cmp' x y) \<Longrightarrow>
   insertBy cmp (f x) (map f ys) = map f (insertBy cmp' x ys)"
  by (induction ys) auto

lemma sortBy_map:
  "(\<And>x y. cmp (f x) (f y) = cmp' x y) \<Longrightarrow> sortBy cmp (map f xs) = map f (sortBy cmp' xs)"
  by (induction xs) (auto simp: insertBy_map)

locale comparator =
  fixes cmp :: "'a \<Rightarrow> 'a \<Rightarrow> int"
  assumes cmp_sym: "sgn (cmp x y) = - sgn (cmp y x)"
    and cmp_trans: "cmp x y \<le> 0 \<Longrightarrow> cmp y z \<le> 0 \<Longrightarrow> cmp x z \<le> 0"
begin

lemma cmp_refl [simp]: "cmp x x = 0"
  using cmp_sym [of x x] by (simp add: sgn_if split: if_splits)

lemma cmp_flip: "\<not> cmp x y \<le> 0 \<Longrightarrow> cmp y x \<le> 0"
  using cmp_sym [of x y] by (auto simp: sgn_if split: if_splits)

lemma cmp_neg_iff: "cmp x y < 0 \<longleftrightarrow> 0 < cmp y x"
  using cmp_sym [of x y] by (auto simp: sgn_if split: if_splits)

lemma cmp_zero_iff: "cmp x y = 0 \<longleftrightarrow> cmp x y \<le> 0 \<and> cmp y x \<le> 0"
  using cmp_sym [of x y] by (auto simp: sgn_if split: if_splits)

lemma sorted_insertBy: "sortedBy cmp ys \<Longrightarrow> sortedBy cmp (insertBy cmp x ys)"
  by (induction ys) (auto intro: cmp_trans cmp_flip)

lemma sortBy_sorted: "sortedBy cmp (sortBy cmp xs)"
  by (induction xs) (auto simp: sorted_insertBy)

lemma insertBy_sorted_id: "\<forall>y\<in>set ys. cmp x y \<le> 0 \<Longrightarrow> insertBy cmp x ys = x # ys"
  by (cases ys) auto

lemma sortBy_sorted_id: "sortedBy cmp xs \<Longrightarrow> sortBy cmp xs = xs"
  by (induction xs) (auto simp: insertBy_sorted_id)

lemma sortBy_idem: "sortBy cmp (sortBy cmp xs) = sortBy cmp xs"
  by (simp add: sortBy_sorted sortBy_sorted_id)

lemma sorted_unique:
  assumes "sortedBy cmp xs" "sortedBy cmp ys" "mset xs = mset ys"
    and eq: "\<And>x y. x \<in> set xs \<Longrightarrow> y \<in> set xs \<Longrightarrow> cmp x y = 0 \<Longrightarrow> x = y"
  shows "xs = ys"
  using assms
proof (induction xs arbitrary: ys)
  case Nil
  then show ?case by simp
next
  case (Cons x xs)
  then obtain y ys' where ys: "ys = y # ys'"
    by (cases ys) auto
  have "x \<in> set ys" "y \<in> set (x # xs)"
    using Cons.prems(3) by (metis list.set_intros(1) set_mset_mset ys)+
  with Cons.prems(1,2) have "cmp x y \<le> 0" "cmp y x \<le> 0"
    by (auto simp: ys)
  with Cons.prems(4) \<open>y \<in> set (x # xs)\<close> have "x = y"
    by (metis cmp_zero_iff list.set_intros(1))
  with Cons show ?case by (simp add: ys)
qed

lemma sortBy_canonical:
  assumes "mset xs = mset ys"
    and "\<And>x y. x \<in> set xs \<Longrightarrow> y \<in> set xs \<Longrightarrow> cmp x y = 0 \<Longrightarrow> x = y"
  shows "sortBy cmp xs = sortBy cmp ys"
  by (rule sorted_unique) (use assms in \<open>auto simp: sortBy_sorted\<close>)

lemma sortBy_strict:
  assumes "distinct xs" and "\<And>x y. x \<in> set xs \<Longrightarrow> y \<in> set xs \<Longrightarrow> cmp x y = 0 \<Longrightarrow> x = y"
  shows "sorted_wrt (\<lambda>x y. cmp x y < 0) (sortBy cmp xs)"
proof -
  have strict: "sortedBy cmp ys \<Longrightarrow> distinct ys \<Longrightarrow>
      (\<And>x y. x \<in> set ys \<Longrightarrow> y \<in> set ys \<Longrightarrow> cmp x y = 0 \<Longrightarrow> x = y) \<Longrightarrow>
      sorted_wrt (\<lambda>x y. cmp x y < 0) ys" for ys
    by (induction ys) (auto simp: less_le)
  show ?thesis
    by (rule strict) (use assms in \<open>auto simp: sortBy_sorted\<close>)
qed

end

text \<open>A comparison function on a key of the element.\<close>

lemma comparator_key: "comparator cmp \<Longrightarrow> comparator (\<lambda>x y. cmp (f x) (f y))"
  unfolding comparator_def by blast

section \<open>Lexicographic comparison\<close>

text \<open>
  The laws of a comparison function with one argument fixed: the form that goes through an
  induction on nested values.
\<close>

definition cmpAt :: "('a \<Rightarrow> 'a \<Rightarrow> int) \<Rightarrow> 'a \<Rightarrow> bool" where
  "cmpAt cmp x \<longleftrightarrow> (\<forall>y. sgn (cmp x y) = - sgn (cmp y x)) \<and>
     (\<forall>y z. cmp x y = 0 \<longrightarrow> sgn (cmp x z) = sgn (cmp y z)) \<and>
     (\<forall>y z. cmp x y < 0 \<longrightarrow> cmp y z \<le> 0 \<longrightarrow> cmp x z < 0)"

lemma cmpAtD:
  assumes "cmpAt cmp x"
  shows "sgn (cmp x y) = - sgn (cmp y x)"
    and "cmp x y = 0 \<Longrightarrow> sgn (cmp x z) = sgn (cmp y z)"
    and "cmp x y < 0 \<Longrightarrow> cmp y z \<le> 0 \<Longrightarrow> cmp x z < 0"
  using assms unfolding cmpAt_def by blast+

lemma sgn_int_cases:
  "(sgn (a :: int) = - sgn b) \<longleftrightarrow> (a < 0 \<longleftrightarrow> 0 < b) \<and> (a = 0 \<longleftrightarrow> b = 0)"
  "(sgn (a :: int) = sgn b) \<longleftrightarrow> (a < 0 \<longleftrightarrow> b < 0) \<and> (a = 0 \<longleftrightarrow> b = 0)"
  by (auto simp: sgn_if split: if_splits)

lemma comparator_cmpAt: "(\<And>x. cmpAt cmp x) \<Longrightarrow> comparator cmp"
proof
  fix x y z
  assume at: "\<And>x. cmpAt cmp x"
  show "sgn (cmp x y) = - sgn (cmp y x)" using at by (rule cmpAtD(1))
  assume "cmp x y \<le> 0" "cmp y z \<le> 0"
  then show "cmp x z \<le> 0"
    using cmpAtD(2) [OF at, of x y z] cmpAtD(3) [OF at, of x y z]
    by (cases "cmp x y = 0") (auto simp: sgn_int_cases)
qed

fun lexCmp :: "('a \<Rightarrow> 'a \<Rightarrow> int) \<Rightarrow> 'a list \<Rightarrow> 'a list \<Rightarrow> int" where
  "lexCmp cmp (x # xs) (y # ys) = (let c = cmp x y in if c \<noteq> 0 then c else lexCmp cmp xs ys)"
| "lexCmp cmp xs ys = int (length xs) - int (length ys)"

lemma lexCmp_cong [fundef_cong]:
  assumes "xs = xs'" "ys = ys'" "\<And>x y. x \<in> set xs' \<Longrightarrow> y \<in> set ys' \<Longrightarrow> f x y = g x y"
  shows "lexCmp f xs ys = lexCmp g xs' ys'"
proof -
  have "(\<And>x y. x \<in> set xs \<Longrightarrow> y \<in> set ys \<Longrightarrow> f x y = g x y) \<Longrightarrow> lexCmp f xs ys = lexCmp g xs ys"
    by (induction f xs ys rule: lexCmp.induct) (auto simp: Let_def)
  with assms show ?thesis by blast
qed

lemma lexCmp_sgn:
  "(\<And>x. x \<in> set xs \<Longrightarrow> cmpAt cmp x) \<Longrightarrow> sgn (lexCmp cmp xs ys) = - sgn (lexCmp cmp ys xs)"
proof (induction cmp xs ys rule: lexCmp.induct)
  case (1 cmp x xs y ys)
  have s: "sgn (cmp x y) = - sgn (cmp y x)" using "1.prems" by (intro cmpAtD(1)) simp
  with 1 show ?case by (auto simp: Let_def sgn_int_cases)
qed (auto simp: sgn_if split: list.splits)

lemma lexCmp_eq:
  "(\<And>x. x \<in> set xs \<Longrightarrow> cmpAt cmp x) \<Longrightarrow> lexCmp cmp xs ys = 0 \<Longrightarrow>
   sgn (lexCmp cmp xs zs) = sgn (lexCmp cmp ys zs)"
proof (induction cmp xs ys arbitrary: zs rule: lexCmp.induct)
  case (1 cmp x xs y ys)
  show ?case
  proof (cases zs)
    case Nil
    with 1 show ?thesis by simp
  next
    case (Cons z zs')
    have at: "cmpAt cmp x" using "1.prems"(1) by simp
    have z0: "cmp x y = 0" and r0: "lexCmp cmp xs ys = 0"
      using "1.prems"(2) by (auto simp: Let_def split: if_splits)
    have "sgn (lexCmp cmp xs zs') = sgn (lexCmp cmp ys zs')"
      using "1.IH" z0 r0 "1.prems"(1) by simp
    with cmpAtD(2) [OF at z0, of z] show ?thesis
      by (auto simp: Cons Let_def sgn_int_cases)
  qed
qed (auto split: list.splits)

lemma lexCmp_less:
  "(\<And>x. x \<in> set xs \<Longrightarrow> cmpAt cmp x) \<Longrightarrow> lexCmp cmp xs ys < 0 \<Longrightarrow> lexCmp cmp ys zs \<le> 0 \<Longrightarrow>
   lexCmp cmp xs zs < 0"
proof (induction cmp xs ys arbitrary: zs rule: lexCmp.induct)
  case (1 cmp x xs y ys)
  from "1.prems"(3) obtain z zs' where zs: "zs = z # zs'"
    by (cases zs) auto
  have at: "cmpAt cmp x" using "1.prems"(1) by simp
  show ?case
  proof (cases "cmp x y = 0")
    case True
    with "1.prems"(2) have r: "lexCmp cmp xs ys < 0" by simp
    have "cmp y z = 0 \<Longrightarrow> lexCmp cmp xs zs' < 0"
      using "1.IH" [OF refl _ _ r] True "1.prems"(1,3) by (simp add: zs)
    with cmpAtD(2) [OF at True, of z] "1.prems"(3) show ?thesis
      by (auto simp: zs Let_def sgn_int_cases split: if_splits)
  next
    case False
    with "1.prems"(2) have l: "cmp x y < 0" by (simp add: Let_def)
    moreover have "cmp y z \<le> 0" using "1.prems"(3) by (auto simp: zs Let_def split: if_splits)
    ultimately have "cmp x z < 0" using cmpAtD(3) [OF at] by blast
    then show ?thesis by (simp add: zs Let_def)
  qed
qed (auto elim!: lexCmp.elims simp: Let_def split: if_splits list.splits)

lemma cmpAt_lexCmp: "(\<And>x. x \<in> set xs \<Longrightarrow> cmpAt cmp x) \<Longrightarrow> cmpAt (lexCmp cmp) xs"
  unfolding cmpAt_def [of "lexCmp cmp"]
  using lexCmp_sgn lexCmp_eq lexCmp_less by metis

lemma lexCmp_zero:
  "(\<And>x y. x \<in> set xs \<Longrightarrow> y \<in> set ys \<Longrightarrow> cmp x y = 0 \<Longrightarrow> x = y) \<Longrightarrow> lexCmp cmp xs ys = 0 \<Longrightarrow> xs = ys"
  by (induction cmp xs ys rule: lexCmp.induct) (auto simp: Let_def split: if_splits)

text \<open>Two entries of a map: first the keys, then the values.\<close>

fun pairCmp :: "('a \<Rightarrow> 'a \<Rightarrow> int) \<Rightarrow> 'a \<times> 'a \<Rightarrow> 'a \<times> 'a \<Rightarrow> int" where
  "pairCmp cmp (k, v) (k', v') = (let c = cmp k k' in if c \<noteq> 0 then c else cmp v v')"

lemma pairCmp_cong [fundef_cong]:
  assumes "p = p'" "q = q'"
    and "\<And>x y. x \<in> {fst p', snd p'} \<Longrightarrow> y \<in> {fst q', snd q'} \<Longrightarrow> f x y = g x y"
  shows "pairCmp f p q = pairCmp g p' q'"
  using assms by (cases p; cases q) (auto simp: Let_def)

lemma cmpAt_pairCmp:
  assumes "cmpAt cmp k" "cmpAt cmp v"
  shows "cmpAt (pairCmp cmp) (k, v)"
proof -
  have s: "sgn (cmp x y) = - sgn (cmp y x)" if "x = k \<or> x = v" for x y
    using assms that cmpAtD(1) by metis
  have e: "cmp x y = 0 \<Longrightarrow> sgn (cmp x z) = sgn (cmp y z)" if "x = k \<or> x = v" for x y z
    using assms that cmpAtD(2) by metis
  have l: "cmp x y < 0 \<Longrightarrow> cmp y z \<le> 0 \<Longrightarrow> cmp x z < 0" if "x = k \<or> x = v" for x y z
    using assms that cmpAtD(3) by metis
  have "sgn (pairCmp cmp (k, v) q) = - sgn (pairCmp cmp q (k, v))" for q
    using s [of k "fst q"] s [of v "snd q"] by (cases q) (auto simp: Let_def sgn_int_cases)
  moreover have "sgn (pairCmp cmp (k, v) r) = sgn (pairCmp cmp q r)"
    if "pairCmp cmp (k, v) q = 0" for q r
    using that e [of k "fst q" "fst r"] e [of v "snd q" "snd r"]
    by (cases q; cases r) (auto simp: Let_def sgn_int_cases split: if_splits)
  moreover have "pairCmp cmp (k, v) r < 0"
    if "pairCmp cmp (k, v) q < 0" "pairCmp cmp q r \<le> 0" for q r
    using that l [of k "fst q" "fst r"] l [of v "snd q" "snd r"] e [of k "fst q" "fst r"]
    by (cases q; cases r) (auto simp: Let_def sgn_int_cases split: if_splits)
  ultimately show ?thesis unfolding cmpAt_def by blast
qed

section \<open>Buffer.compare\<close>

text \<open>Byte-wise comparison; a proper prefix is smaller. Node returns one of -1, 0 and 1.\<close>

definition byteCmp :: "byte \<Rightarrow> byte \<Rightarrow> int" where
  "byteCmp a b = uint a - uint b"

definition bufferCompare :: "buffer \<Rightarrow> buffer \<Rightarrow> int" where
  "bufferCompare a b = sgn (lexCmp byteCmp a b)"

lemma cmpAt_byteCmp: "cmpAt byteCmp x"
  by (auto simp: cmpAt_def byteCmp_def sgn_if)

lemma sgn_int_facts:
  "sgn (sgn (n :: int)) = sgn n" "sgn n < 0 \<longleftrightarrow> n < 0" "sgn n \<le> 0 \<longleftrightarrow> n \<le> 0" "sgn n = 0 \<longleftrightarrow> n = 0"
  by (simp_all add: sgn_if)

lemma cmpAt_bufferCompare: "cmpAt bufferCompare a"
proof -
  have "cmpAt (lexCmp byteCmp) a" by (rule cmpAt_lexCmp) (rule cmpAt_byteCmp)
  then show ?thesis
    unfolding cmpAt_def bufferCompare_def sgn_int_facts .
qed

lemma bufferCompare_zero: "bufferCompare a b = 0 \<longleftrightarrow> a = b"
proof
  assume "bufferCompare a b = 0"
  then have "lexCmp byteCmp a b = 0" by (simp add: bufferCompare_def sgn_0_0)
  then show "a = b"
    by (rule lexCmp_zero [rotated]) (simp add: byteCmp_def word_uint_eq_iff)
next
  assume "a = b"
  then show "bufferCompare a b = 0"
    using cmpAtD(1) [OF cmpAt_bufferCompare, of a b] by (auto simp: sgn_if split: if_splits)
qed

interpretation buffer_order: comparator bufferCompare
  by (rule comparator_cmpAt) (rule cmpAt_bufferCompare)

end
