(* ===== verification/Kit_Errors.thy ===== *)
theory Kit_Errors
  imports Kit_Order
begin

text \<open>
  \<^verbatim>\<open>src/errors.ts\<close> and \<^verbatim>\<open>src/contract-errors.ts\<close>: the error classes as a datatype with their
  codes and messages, \<^verbatim>\<open>wrapError\<close>, the registry of contract error codes, the decoder of
  simulation diagnostics, the unwrapping of SDK results and the failure results.
\<close>

section \<open>Error classes\<close>

datatype error_code =
    INVALID_CONFIG
  | MISSING_CONFIG
  | WALLET_NOT_CONNECTED
  | WALLET_ALREADY_EXISTS
  | WALLET_NOT_FOUND
  | WALLET_CODE_NOT_ACCEPTED
  | WALLET_PROVENANCE_UNVERIFIED
  | WALLET_OWNERSHIP_UNVERIFIED
  | WALLET_AMBIGUOUS
  | AUTH_DIGEST_SCHEME_UNKNOWN
  | CREDENTIAL_NOT_FOUND
  | CREDENTIAL_ALREADY_EXISTS
  | CREDENTIAL_INVALID
  | CREDENTIAL_DEPLOYMENT_FAILED
  | WEBAUTHN_REGISTRATION_FAILED
  | WEBAUTHN_AUTHENTICATION_FAILED
  | WEBAUTHN_NOT_SUPPORTED
  | WEBAUTHN_CANCELLED
  | TRANSACTION_SIMULATION_FAILED
  | TRANSACTION_SIGNING_FAILED
  | TRANSACTION_SUBMISSION_FAILED
  | TRANSACTION_TIMEOUT
  | SIGNER_NOT_FOUND
  | SIGNER_INVALID
  | POLICY_NOT_FOUND
  | INVALID_ADDRESS
  | INVALID_AMOUNT
  | INVALID_INPUT
  | STORAGE_READ_FAILED
  | STORAGE_WRITE_FAILED
  | SESSION_EXPIRED
  | SESSION_INVALID
  | CONTRACT_ERROR

fun errorCodeValue :: "error_code \<Rightarrow> nat" where
  "errorCodeValue INVALID_CONFIG = 1001"
| "errorCodeValue MISSING_CONFIG = 1002"
| "errorCodeValue WALLET_NOT_CONNECTED = 2001"
| "errorCodeValue WALLET_ALREADY_EXISTS = 2002"
| "errorCodeValue WALLET_NOT_FOUND = 2003"
| "errorCodeValue WALLET_CODE_NOT_ACCEPTED = 2004"
| "errorCodeValue WALLET_PROVENANCE_UNVERIFIED = 2005"
| "errorCodeValue WALLET_OWNERSHIP_UNVERIFIED = 2006"
| "errorCodeValue WALLET_AMBIGUOUS = 2007"
| "errorCodeValue AUTH_DIGEST_SCHEME_UNKNOWN = 2008"
| "errorCodeValue CREDENTIAL_NOT_FOUND = 3001"
| "errorCodeValue CREDENTIAL_ALREADY_EXISTS = 3002"
| "errorCodeValue CREDENTIAL_INVALID = 3003"
| "errorCodeValue CREDENTIAL_DEPLOYMENT_FAILED = 3004"
| "errorCodeValue WEBAUTHN_REGISTRATION_FAILED = 4001"
| "errorCodeValue WEBAUTHN_AUTHENTICATION_FAILED = 4002"
| "errorCodeValue WEBAUTHN_NOT_SUPPORTED = 4003"
| "errorCodeValue WEBAUTHN_CANCELLED = 4004"
| "errorCodeValue TRANSACTION_SIMULATION_FAILED = 5001"
| "errorCodeValue TRANSACTION_SIGNING_FAILED = 5002"
| "errorCodeValue TRANSACTION_SUBMISSION_FAILED = 5003"
| "errorCodeValue TRANSACTION_TIMEOUT = 5004"
| "errorCodeValue SIGNER_NOT_FOUND = 6001"
| "errorCodeValue SIGNER_INVALID = 6002"
| "errorCodeValue POLICY_NOT_FOUND = 6003"
| "errorCodeValue INVALID_ADDRESS = 7001"
| "errorCodeValue INVALID_AMOUNT = 7002"
| "errorCodeValue INVALID_INPUT = 7003"
| "errorCodeValue STORAGE_READ_FAILED = 8001"
| "errorCodeValue STORAGE_WRITE_FAILED = 8002"
| "errorCodeValue SESSION_EXPIRED = 9001"
| "errorCodeValue SESSION_INVALID = 9002"
| "errorCodeValue CONTRACT_ERROR = 10000"

datatype deployment_status = StatusPending | StatusFailed | StatusDeployed | StatusOccupied

text \<open>
  One constructor per class thrown by the SDK. \<open>JsError\<close> is a plain \<^verbatim>\<open>Error\<close> with its message,
  \<open>JsThrown\<close> a thrown value that is not an \<^verbatim>\<open>Error\<close>, with its \<^verbatim>\<open>String()\<close> text. Free-form context
  objects attached for logging are not carried.
\<close>

datatype kit_error =
    SmartAccountError string error_code
  | WalletNotConnectedError "string option"
  | CredentialNotFoundError string
  | SignerNotFoundError string "string option"
  | WalletCodeNotAcceptedError string string
  | AuthDigestSchemeError string string
  | WalletProvenanceError string string
  | WalletOwnershipError string
  | WalletAmbiguousError "string list"
  | PolicyNotFoundError string "nat option"
  | SimulationError string
  | SubmissionError string "string option"
  | ValidationError string error_code
  | WebAuthnError string error_code
  | ContractError nat string string string
  | SessionError string error_code
  | TransactionConfirmationError deployment_status "string option" string
  | JsError string
  | JsThrown string

type_synonym 'a result = "kit_error + 'a"

fun errorCode :: "kit_error \<Rightarrow> error_code option" where
  "errorCode (SmartAccountError m c) = Some c"
| "errorCode (WalletNotConnectedError op) = Some WALLET_NOT_CONNECTED"
| "errorCode (CredentialNotFoundError c) = Some CREDENTIAL_NOT_FOUND"
| "errorCode (SignerNotFoundError i h) = Some SIGNER_NOT_FOUND"
| "errorCode (WalletCodeNotAcceptedError c a) = Some WALLET_CODE_NOT_ACCEPTED"
| "errorCode (AuthDigestSchemeError c a) = Some AUTH_DIGEST_SCHEME_UNKNOWN"
| "errorCode (WalletProvenanceError c m) = Some WALLET_PROVENANCE_UNVERIFIED"
| "errorCode (WalletOwnershipError m) = Some WALLET_OWNERSHIP_UNVERIFIED"
| "errorCode (WalletAmbiguousError ids) = Some WALLET_AMBIGUOUS"
| "errorCode (PolicyNotFoundError p r) = Some POLICY_NOT_FOUND"
| "errorCode (SimulationError m) = Some TRANSACTION_SIMULATION_FAILED"
| "errorCode (SubmissionError m h) = Some TRANSACTION_SUBMISSION_FAILED"
| "errorCode (ValidationError m c) = Some c"
| "errorCode (WebAuthnError m c) = Some c"
| "errorCode (ContractError k n f m) = Some CONTRACT_ERROR"
| "errorCode (SessionError m c) = Some c"
| "errorCode (TransactionConfirmationError s h m) = None"
| "errorCode (JsError m) = None"
| "errorCode (JsThrown m) = None"

text \<open>\<^verbatim>\<open>err instanceof SmartAccountError\<close>: every class of the hierarchy carries a code.\<close>

definition isSmartAccountError :: "kit_error \<Rightarrow> bool" where
  "isSmartAccountError e = (errorCode e \<noteq> None)"

fun errorMessage :: "kit_error \<Rightarrow> string" where
  "errorMessage (SmartAccountError m c) = m"
| "errorMessage (WalletNotConnectedError (Some op)) =
     (if op = [] then ''Wallet not connected'' else ''Wallet must be connected to '' @ op)"
| "errorMessage (WalletNotConnectedError None) = ''Wallet not connected''"
| "errorMessage (CredentialNotFoundError c) = ''Credential not found: '' @ c"
| "errorMessage (SignerNotFoundError i (Some h)) =
     (if h = [] then ''No signer found for: '' @ i else ''No signer found for: '' @ i @ ''. '' @ h)"
| "errorMessage (SignerNotFoundError i None) = ''No signer found for: '' @ i"
| "errorMessage (WalletCodeNotAcceptedError c a) =
     ''Smart account '' @ c @ '' runs unaccepted code ('' @ a @ ''). '' @
     ''If this is a legitimate upgrade, add its WASM hash to `acceptedWasmHashes`.''"
| "errorMessage (AuthDigestSchemeError c a) =
     ''Smart account '' @ c @ '' runs code ('' @ a @ '') with an unknown authorization digest scheme. '' @
     ''Map its WASM hash in `authDigestSchemes`.''"
| "errorMessage (WalletProvenanceError c m) =
     ''Wallet '' @ c @ '' has unverified birth provenance. '' @ m"
| "errorMessage (WalletOwnershipError m) = m"
| "errorMessage (WalletAmbiguousError ids) =
     ''Multiple wallet candidates require an explicit contract selection''"
| "errorMessage (PolicyNotFoundError p (Some r)) =
     ''Policy '' @ p @ '' not found on context rule '' @ decimal r"
| "errorMessage (PolicyNotFoundError p None) = ''Policy not found: '' @ p"
| "errorMessage (SimulationError m) = m"
| "errorMessage (SubmissionError m h) = m"
| "errorMessage (ValidationError m c) = m"
| "errorMessage (WebAuthnError m c) = m"
| "errorMessage (ContractError k n f m) = m"
| "errorMessage (SessionError m c) = m"
| "errorMessage (TransactionConfirmationError s h m) = m"
| "errorMessage (JsError m) = m"
| "errorMessage (JsThrown m) = m"

definition wrapError :: "kit_error \<Rightarrow> error_code \<Rightarrow> kit_error" where
  "wrapError err defaultCode =
     (if isSmartAccountError err then err else SmartAccountError (errorMessage err) defaultCode)"

lemma wrapError_sa [simp]: "isSmartAccountError (wrapError e c)"
  by (simp add: wrapError_def isSmartAccountError_def)

lemma wrapError_id: "isSmartAccountError e \<Longrightarrow> wrapError e c = e"
  by (simp add: wrapError_def)

section \<open>Contract error registry\<close>

datatype contract_family = FamSmartAccount | FamWebAuthn | FamSimpleThreshold
  | FamWeightedThreshold | FamSpendingLimit

fun familyName :: "contract_family \<Rightarrow> string" where
  "familyName FamSmartAccount = ''SmartAccount''"
| "familyName FamWebAuthn = ''WebAuthn''"
| "familyName FamSimpleThreshold = ''SimpleThreshold''"
| "familyName FamWeightedThreshold = ''WeightedThreshold''"
| "familyName FamSpendingLimit = ''SpendingLimit''"

text \<open>The entries in ascending code order, the order of \<^verbatim>\<open>Object.values\<close> on integer keys.\<close>

definition CONTRACT_ERROR_REGISTRY :: "(nat \<times> string \<times> contract_family \<times> string) list" where
  "CONTRACT_ERROR_REGISTRY =
    [
     (3000, ''ContextRuleNotFound'', FamSmartAccount, ''The specified context rule does not exist.''),
     (3002, ''UnvalidatedContext'', FamSmartAccount, ''The provided context could not be validated against any rule.''),
     (3003, ''ExternalVerificationFailed'', FamSmartAccount, ''External signature verification failed.''),
     (3004, ''NoSignersAndPolicies'', FamSmartAccount, ''A context rule must retain at least one signer or policy.''),
     (3005, ''PastValidUntil'', FamSmartAccount, ''The valid_until ledger is already in the past.''),
     (3006, ''SignerNotFound'', FamSmartAccount, ''The specified signer was not found.''),
     (3007, ''DuplicateSigner'', FamSmartAccount, ''The signer already exists in the context rule.''),
     (3008, ''PolicyNotFound'', FamSmartAccount, ''The specified policy was not found.''),
     (3009, ''DuplicatePolicy'', FamSmartAccount, ''The policy already exists in the context rule.''),
     (3010, ''TooManySigners'', FamSmartAccount, ''The context rule exceeds the maximum of 15 signers.''),
     (3011, ''TooManyPolicies'', FamSmartAccount, ''The context rule exceeds the maximum of 5 policies.''),
     (3012, ''MathOverflow'', FamSmartAccount, ''An internal ID counter reached its maximum value.''),
     (3013, ''KeyDataTooLarge'', FamSmartAccount, ''The external signer key data exceeds the maximum of 256 bytes.''),
     (3014, ''ContextRuleIdsLengthMismatch'', FamSmartAccount, ''The number of context rule IDs does not match the number of auth contexts.''),
     (3015, ''NameTooLong'', FamSmartAccount, ''The context rule name exceeds the maximum of 20 bytes.''),
     (3016, ''UnauthorizedSigner'', FamSmartAccount, ''A provided signer is not part of any validated context rule.''),
     (3017, ''DelegatedSignerIsContextContract'', FamSmartAccount, ''A delegated signer is the contract of a context being authorized.''),
     (3018, ''SelfDelegatedSigner'', FamSmartAccount, ''A smart account cannot be its own delegated signer.''),
     (3110, ''SignaturePayloadInvalid'', FamWebAuthn, ''The signature payload was malformed.''),
     (3111, ''ClientDataTooLong'', FamWebAuthn, ''The WebAuthn clientDataJSON exceeded the 1024-byte limit.''),
     (3112, ''JsonParseError'', FamWebAuthn, ''The WebAuthn clientDataJSON could not be parsed.''),
     (3113, ''TypeFieldInvalid'', FamWebAuthn, ''The clientData `type` was not \"webauthn.get\".''),
     (3114, ''ChallengeInvalid'', FamWebAuthn, ''The clientData challenge did not match the auth digest.''),
     (3115, ''AuthDataFormatInvalid'', FamWebAuthn, ''The authenticator data was shorter than the required 37 bytes.''),
     (3116, ''PresentBitNotSet'', FamWebAuthn, ''The authenticator User Present (UP) flag was not set.''),
     (3117, ''VerifiedBitNotSet'', FamWebAuthn, ''The authenticator User Verified (UV) flag was not set.''),
     (3118, ''BackupEligibilityAndStateNotSet'', FamWebAuthn, ''The authenticator backup eligibility/state flags were rejected.''),
     (3119, ''KeyDataInvalid'', FamWebAuthn, ''The external signer key data was not a valid secp256r1 public key.''),
     (3200, ''SmartAccountNotInstalled'', FamSimpleThreshold, ''The threshold policy is not installed for this smart account.''),
     (3201, ''InvalidThreshold'', FamSimpleThreshold, ''The threshold must be greater than zero and at most the signer count.''),
     (3202, ''NotAllowed'', FamSimpleThreshold, ''The caller is not allowed to perform this policy operation.''),
     (3203, ''AlreadyInstalled'', FamSimpleThreshold, ''The threshold policy is already installed for this smart account.''),
     (3210, ''SmartAccountNotInstalled'', FamWeightedThreshold, ''The weighted-threshold policy is not installed for this smart account.''),
     (3211, ''InvalidThreshold'', FamWeightedThreshold, ''The threshold must be greater than zero and at most the sum of signer weights.''),
     (3212, ''MathOverflow'', FamWeightedThreshold, ''Summing signer weights overflowed.''),
     (3213, ''NotAllowed'', FamWeightedThreshold, ''The caller is not allowed to perform this policy operation.''),
     (3214, ''AlreadyInstalled'', FamWeightedThreshold, ''The weighted-threshold policy is already installed for this smart account.''),
     (3220, ''SmartAccountNotInstalled'', FamSpendingLimit, ''The spending-limit policy is not installed for this smart account.''),
     (3221, ''SpendingLimitExceeded'', FamSpendingLimit, ''The transfer would exceed the spending limit for the current period.''),
     (3222, ''InvalidLimitOrPeriod'', FamSpendingLimit, ''The spending limit and period ledgers must both be greater than zero.''),
     (3223, ''NotAllowed'', FamSpendingLimit, ''The caller is not allowed to perform this policy operation.''),
     (3224, ''HistoryCapacityExceeded'', FamSpendingLimit, ''The spending history exceeded its maximum capacity.''),
     (3225, ''AlreadyInstalled'', FamSpendingLimit, ''The spending-limit policy is already installed for this smart account.''),
     (3226, ''LessThanZero'', FamSpendingLimit, ''The transfer amount was negative.''),
     (3227, ''OnlyCallContractAllowed'', FamSpendingLimit, ''The spending-limit policy only applies to CallContract context rules.'')]"

definition contractErrorFromCode :: "nat \<Rightarrow> kit_error option" where
  "contractErrorFromCode code =
     (case map_of CONTRACT_ERROR_REGISTRY code of
        None \<Rightarrow> None
      | Some (name, family, message) \<Rightarrow> Some (ContractError code name (familyName family) message))"

section \<open>Diagnostics\<close>

text \<open>
  What a caller may hand to the decoder: nothing, a string, an \<^verbatim>\<open>Error\<close>, or another value with its
  JSON (or \<^verbatim>\<open>String()\<close>) text.
\<close>

datatype diagnostic = DNone | DString string | DError kit_error | DOther string

fun diagnosticToString :: "diagnostic \<Rightarrow> string" where
  "diagnosticToString DNone = []"
| "diagnosticToString (DString s) = s"
| "diagnosticToString (DError e) = errorMessage e"
| "diagnosticToString (DOther s) = s"

definition isDigitChar :: "char \<Rightarrow> bool" where
  "isDigitChar c = (let n = of_char c :: nat in 48 \<le> n \<and> n \<le> 57)"

definition isSpaceChar :: "char \<Rightarrow> bool" where
  "isSpaceChar c = (let n = of_char c :: nat in n = 32 \<or> (9 \<le> n \<and> n \<le> 13))"

definition parseDigits :: "string \<Rightarrow> nat" where
  "parseDigits s = foldl (\<lambda>n c. 10 * n + (of_char c - 48)) 0 s"

text \<open>\<^verbatim>\<open>/Error\(Contract,\s*#(\d+)\)/\<close> at the start of a text, and its leftmost match anywhere in it.\<close>

definition contractErrorAt :: "string \<Rightarrow> nat option" where
  "contractErrorAt s =
     (if take 15 s = ''Error(Contract,'' then
        (case dropWhile isSpaceChar (drop 15 s) of
           [] \<Rightarrow> None
         | c # rest \<Rightarrow>
             (let ds = takeWhile isDigitChar rest in
              if c = CHR ''#'' \<and> ds \<noteq> [] \<and> take 1 (dropWhile isDigitChar rest) = '')''
              then Some (parseDigits ds) else None))
      else None)"

fun matchContractError :: "string \<Rightarrow> nat option" where
  "matchContractError [] = None"
| "matchContractError (c # s) =
     (case contractErrorAt (c # s) of Some n \<Rightarrow> Some n | None \<Rightarrow> matchContractError s)"

definition decodeContractError :: "diagnostic \<Rightarrow> kit_error option" where
  "decodeContractError d =
     (case matchContractError (diagnosticToString d) of
        None \<Rightarrow> None
      | Some code \<Rightarrow> contractErrorFromCode code)"

text \<open>
  A value a contract method returns: a plain value, or an SDK \<^verbatim>\<open>Ok\<close>/\<^verbatim>\<open>Err\<close> wrapper. \<^verbatim>\<open>unwrap()\<close> on an
  \<^verbatim>\<open>Err\<close> throws an \<^verbatim>\<open>Error\<close> with its message.
\<close>

datatype 'a contract_result = Plain 'a | RustOk 'a | RustErr string

fun unwrapContractResult :: "'a contract_result \<Rightarrow> (kit_error \<Rightarrow> kit_error) \<Rightarrow> 'a result" where
  "unwrapContractResult (Plain x) mapError = Inr x"
| "unwrapContractResult (RustOk x) mapError = Inr x"
| "unwrapContractResult (RustErr message) mapError =
     (case List.find (\<lambda>(code, name, family, m). m = message) CONTRACT_ERROR_REGISTRY of
        None \<Rightarrow> Inl (JsError message)
      | Some (code, _) \<Rightarrow>
          (case contractErrorFromCode code of
             Some e \<Rightarrow> Inl (mapError e)
           | None \<Rightarrow> Inl (JsError message)))"

section \<open>Failure results\<close>

datatype tx_result = TxSuccess string "nat option" | TxFailure kit_error "string option"

definition truthy :: "string option \<Rightarrow> bool" where
  "truthy h = (case h of None \<Rightarrow> False | Some s \<Rightarrow> s \<noteq> [])"

definition failedTransaction :: "kit_error \<Rightarrow> string option \<Rightarrow> tx_result" where
  "failedTransaction e h = TxFailure e (if truthy h then h else None)"

definition orElse :: "string \<Rightarrow> string \<Rightarrow> string" where
  "orElse s d = (if s = [] then d else s)"

definition simulationFailure :: "diagnostic \<Rightarrow> string option \<Rightarrow> tx_result" where
  "simulationFailure d h = failedTransaction
     (case decodeContractError d of
        Some e \<Rightarrow> e
      | None \<Rightarrow> SimulationError (orElse (diagnosticToString d) ''Simulation failed'')) h"

definition submissionFailure :: "diagnostic \<Rightarrow> string option \<Rightarrow> tx_result" where
  "submissionFailure d h = failedTransaction
     (case decodeContractError d of
        Some e \<Rightarrow> e
      | None \<Rightarrow> SubmissionError (orElse (diagnosticToString d) ''Submission failed'') h) h"

end
