(* ===== verification/Kit_Xdr.thy ===== *)
theory Kit_Xdr
  imports Kit_Errors "HOL-Library.Countable"
begin

text \<open>
  The XDR values the SDK takes apart and builds (addresses, \<^verbatim>\<open>ScVal\<close>s, invocation trees,
  authorization entries, host functions), with one constructor per arm the code switches on,
  and the record of functions of \<^verbatim>\<open>@stellar/stellar-sdk\<close> and \<^verbatim>\<open>base64url\<close> the code calls. Those
  packages are not part of the repository: every definition that uses one takes the record
  as an argument, and \<open>sdk_xdr_ok\<close>, \<open>sdk_strkey_ok\<close> name what the code relies on.
\<close>

section \<open>XDR values\<close>

text \<open>An address: an account (its Ed25519 key), a contract, or another arm with its name.\<close>

datatype scaddress = AddrAccount buffer | AddrContract buffer | AddrOther string buffer

datatype sckind = KBool | KError | KI32 | KU64 | KI64 | KTimepoint | KDuration | KU128
  | KU256 | KI256 | KContractInstance | KLedgerKeyContractInstance | KLedgerKeyNonce

text \<open>
  The payload of a vector or map is optional in XDR, hence the \<^verbatim>\<open>?? []\<close> of the code. \<open>ScvScalar\<close>
  stands for the shapes the code never looks into, with their kind and encoded body.
\<close>

datatype scval =
    ScvVoid
  | ScvU32 nat
  | ScvI128 int
  | ScvBytes buffer
  | ScvString string
  | ScvSymbol string
  | ScvVec "scval list option"
  | ScvMap "(scval \<times> scval) list option"
  | ScvAddress scaddress
  | ScvScalar sckind buffer

definition items :: "'a list option \<Rightarrow> 'a list" where
  "items v = (case v of None \<Rightarrow> [] | Some xs \<Rightarrow> xs)"

lemma items_simps [simp]: "items None = []" "items (Some xs) = xs"
  by (simp_all add: items_def)

text \<open>The discriminants of the XDR enum \<^verbatim>\<open>ScValType\<close>.\<close>

fun kindValue :: "sckind \<Rightarrow> nat" where
  "kindValue KBool = 0"
| "kindValue KError = 2"
| "kindValue KI32 = 4"
| "kindValue KU64 = 5"
| "kindValue KI64 = 6"
| "kindValue KTimepoint = 7"
| "kindValue KDuration = 8"
| "kindValue KU128 = 9"
| "kindValue KU256 = 11"
| "kindValue KI256 = 12"
| "kindValue KContractInstance = 19"
| "kindValue KLedgerKeyContractInstance = 20"
| "kindValue KLedgerKeyNonce = 21"

fun switchValue :: "scval \<Rightarrow> nat" where
  "switchValue ScvVoid = 1"
| "switchValue (ScvU32 n) = 3"
| "switchValue (ScvI128 n) = 10"
| "switchValue (ScvBytes b) = 13"
| "switchValue (ScvString s) = 14"
| "switchValue (ScvSymbol s) = 15"
| "switchValue (ScvVec v) = 16"
| "switchValue (ScvMap m) = 17"
| "switchValue (ScvAddress a) = 18"
| "switchValue (ScvScalar k b) = kindValue k"

record invoke_args =
  iaContract :: scaddress
  iaFunction :: string
  iaArgs :: "scval list"

datatype executable = ExecWasm buffer | ExecStellarAsset | ExecExternalRef scaddress string

datatype id_preimage = FromAddress scaddress buffer | FromAsset buffer

record create_args =
  caPreimage :: id_preimage
  caExecutable :: executable
  caConstructorArgs :: "scval list"

datatype auth_function =
    ContractFn invoke_args
  | CreateContractHostFn id_preimage executable
  | CreateContractV2HostFn create_args

datatype invocation = Invocation (invFunction: auth_function) (subInvocations: "invocation list")

record addr_credentials =
  acAddress :: scaddress
  acNonce :: int
  acExpiration :: nat
  acSignature :: scval

datatype credentials =
    SourceAccount
  | CredAddress addr_credentials
  | CredAddressV2 addr_credentials
  | CredWithDelegates addr_credentials buffer

record auth_entry =
  aeCredentials :: credentials
  aeRoot :: invocation

datatype host_function =
    InvokeContract invoke_args
  | CreateContract id_preimage executable
  | CreateContractV2 create_args
  | UploadWasm buffer

section \<open>The functions of the SDK packages\<close>

record sdk =
  hash :: "buffer \<Rightarrow> buffer"
  scvalToXDR :: "scval \<Rightarrow> buffer"
  scaddressToXDR :: "scaddress \<Rightarrow> buffer"
  invokeToXDR :: "invoke_args \<Rightarrow> buffer"
  createToXDR :: "create_args \<Rightarrow> buffer"
  invocationToXDR :: "invocation \<Rightarrow> buffer"
  authPreimageToXDR :: "auth_entry \<Rightarrow> nat \<Rightarrow> string \<Rightarrow> buffer"
  fromScAddress :: "scaddress \<Rightarrow> string option"
  fromStrkey :: "string \<Rightarrow> scaddress option"
  isValidEd25519PublicKey :: "string \<Rightarrow> bool"
  isValidContract :: "string \<Rightarrow> bool"
  encodeContract :: "buffer \<Rightarrow> string"
  publicKeyOfSeed :: "buffer \<Rightarrow> string"
  contractIdToXDR :: "buffer \<Rightarrow> id_preimage \<Rightarrow> buffer"
  base64urlEncode :: "buffer \<Rightarrow> string"
  base64urlToBuffer :: "string \<Rightarrow> buffer"

text \<open>XDR encodings are injective: a value can be decoded from its bytes.\<close>

definition sdk_xdr_ok :: "sdk \<Rightarrow> bool" where
  "sdk_xdr_ok K \<longleftrightarrow> inj (scvalToXDR K) \<and> inj (scaddressToXDR K) \<and> inj (invokeToXDR K) \<and>
     inj (createToXDR K) \<and> inj (invocationToXDR K)"

text \<open>Strkeys round-trip on every address they can express.\<close>

definition sdk_strkey_ok :: "sdk \<Rightarrow> bool" where
  "sdk_strkey_ok K \<longleftrightarrow> (\<forall>s a. fromStrkey K s = Some a \<longleftrightarrow> fromScAddress K a = Some s)"

lemma sdk_xdr_okD:
  assumes "sdk_xdr_ok K"
  shows "scvalToXDR K v = scvalToXDR K w \<longleftrightarrow> v = w"
    and "scaddressToXDR K a = scaddressToXDR K b \<longleftrightarrow> a = b"
    and "invokeToXDR K i = invokeToXDR K j \<longleftrightarrow> i = j"
    and "createToXDR K c = createToXDR K d \<longleftrightarrow> c = d"
    and "invocationToXDR K t = invocationToXDR K u \<longleftrightarrow> t = u"
  using assms by (simp_all add: sdk_xdr_ok_def inj_eq)

lemma sdk_strkeyD: "sdk_strkey_ok K \<Longrightarrow> fromStrkey K s = Some a \<longleftrightarrow> fromScAddress K a = Some s"
  by (simp add: sdk_strkey_ok_def)

text \<open>Text of a strkey or symbol as the bytes of its UTF-8 encoding, \<^verbatim>\<open>Buffer.from(s, "utf8")\<close>.\<close>

definition charByte :: "char \<Rightarrow> byte" where
  "charByte c = word_of_nat (of_char c)"

definition byteChar :: "byte \<Rightarrow> char" where
  "byteChar b = char_of (unat b)"

lemma byteChar_charByte [simp]: "byteChar (charByte c) = c"
proof -
  have "(of_char c :: nat) < 256" using nat_of_char_less_256 [of c] by simp
  then show ?thesis by (simp add: byteChar_def charByte_def unat_of_nat)
qed

lemma charByte_byteChar [simp]: "charByte (byteChar b) = b"
proof -
  have "unat b < 256" using unsigned_less [of b, where 'a = nat] by simp
  then show ?thesis by (simp add: byteChar_def charByte_def of_char_of)
qed

definition utf8 :: "string \<Rightarrow> buffer" where
  "utf8 s = map charByte s"

definition fromUtf8 :: "buffer \<Rightarrow> string" where
  "fromUtf8 b = map byteChar b"

lemma fromUtf8_utf8 [simp]: "fromUtf8 (utf8 s) = s"
  by (simp add: utf8_def fromUtf8_def comp_def)

lemma utf8_fromUtf8 [simp]: "utf8 (fromUtf8 b) = b"
  by (simp add: utf8_def fromUtf8_def comp_def)

lemma utf8_inj [simp]: "utf8 s = utf8 t \<longleftrightarrow> s = t"
  by (metis fromUtf8_utf8)

text \<open>The order of object keys: JavaScript's \<open><\<close> on strings.\<close>

definition stringCompare :: "string \<Rightarrow> string \<Rightarrow> int" where
  "stringCompare a b = bufferCompare (utf8 a) (utf8 b)"

interpretation string_order: comparator stringCompare
  unfolding stringCompare_def by (rule comparator_key) (rule buffer_order.comparator_axioms)

lemma stringCompare_zero: "stringCompare a b = 0 \<longleftrightarrow> a = b"
  by (simp add: stringCompare_def bufferCompare_zero)

section \<open>A concrete SDK for closed examples\<close>

text \<open>
  A toy instance with which closed theorems are evaluated: accounts and contracts have
  one-letter prefixes, other addresses have no strkey.
\<close>

definition demoStrkey :: "scaddress \<Rightarrow> string option" where
  "demoStrkey a = (case a of AddrAccount b \<Rightarrow> Some (CHR ''G'' # fromUtf8 b)
     | AddrContract b \<Rightarrow> Some (CHR ''C'' # fromUtf8 b)
     | AddrOther n b \<Rightarrow> None)"

definition demoFromStrkey :: "string \<Rightarrow> scaddress option" where
  "demoFromStrkey s = (case s of [] \<Rightarrow> None
     | c # cs \<Rightarrow> if c = CHR ''G'' then Some (AddrAccount (utf8 cs))
                else if c = CHR ''C'' then Some (AddrContract (utf8 cs)) else None)"

instance word :: (len) countable
  by (rule countable_classI [of unat]) (simp add: word_unat_eq_iff)

instance scaddress :: countable by countable_datatype
instance sckind :: countable by countable_datatype
instance scval :: countable by countable_datatype
instance executable :: countable by countable_datatype
instance id_preimage :: countable by countable_datatype

definition demoXDR :: "'a::countable \<Rightarrow> buffer" where
  "demoXDR x = replicate (to_nat x) 0"

lemma demoXDR_inj: "demoXDR x = demoXDR y \<longleftrightarrow> x = y"
  by (simp add: demoXDR_def)

definition demoInvokeXDR :: "invoke_args \<Rightarrow> buffer" where
  "demoInvokeXDR i = demoXDR (iaContract i, iaFunction i, iaArgs i)"

definition demoCreateXDR :: "create_args \<Rightarrow> buffer" where
  "demoCreateXDR c = demoXDR (caPreimage c, caExecutable c, caConstructorArgs c)"

fun demoFunctionRep :: "auth_function \<Rightarrow>
    (scaddress \<times> string \<times> scval list) + (id_preimage \<times> executable) + (id_preimage \<times> executable \<times> scval list)" where
  "demoFunctionRep (ContractFn i) = Inl (iaContract i, iaFunction i, iaArgs i)"
| "demoFunctionRep (CreateContractHostFn p e) = Inr (Inl (p, e))"
| "demoFunctionRep (CreateContractV2HostFn c) =
     Inr (Inr (caPreimage c, caExecutable c, caConstructorArgs c))"

fun demoInvocationXDR :: "invocation \<Rightarrow> buffer" where
  "demoInvocationXDR (Invocation f subs) = demoXDR (demoFunctionRep f, map demoInvocationXDR subs)"

definition demoSdk :: sdk where
  "demoSdk = \<lparr>hash = (\<lambda>b. b), scvalToXDR = demoXDR, scaddressToXDR = demoXDR,
     invokeToXDR = demoInvokeXDR, createToXDR = demoCreateXDR, invocationToXDR = demoInvocationXDR,
     authPreimageToXDR = (\<lambda>e n p. demoXDR (demoInvocationXDR (aeRoot e), n, p)),
     fromScAddress = demoStrkey, fromStrkey = demoFromStrkey,
     isValidEd25519PublicKey = (\<lambda>s. take 1 s = ''G''), isValidContract = (\<lambda>s. take 1 s = ''C''),
     encodeContract = (\<lambda>b. CHR ''C'' # fromUtf8 b),
     publicKeyOfSeed = (\<lambda>b. CHR ''G'' # fromUtf8 b),
     contractIdToXDR = (\<lambda>n p. case p of FromAddress a salt \<Rightarrow> n @ salt | FromAsset b \<Rightarrow> n @ b),
     base64urlEncode = fromUtf8, base64urlToBuffer = utf8\<rparr>"

lemma demoFunctionRep_inj: "demoFunctionRep f = demoFunctionRep g \<longleftrightarrow> f = g"
  by (cases f; cases g) (auto intro: invoke_args.equality create_args.equality)

lemma demoInvocationXDR_inj: "demoInvocationXDR t = demoInvocationXDR u \<Longrightarrow> t = u"
proof (induction t arbitrary: u)
  case (Invocation f subs)
  then obtain g us where u: "u = Invocation g us" by (cases u)
  have "f = g" and m: "map demoInvocationXDR subs = map demoInvocationXDR us"
    using Invocation.prems by (simp_all add: u demoXDR_inj demoFunctionRep_inj)
  from m have "subs = us"
    using Invocation.IH by (auto simp: list_eq_iff_nth_eq map_eq_conv dest: map_eq_imp_length_eq)
  with \<open>f = g\<close> show ?case by (simp add: u)
qed

lemma demoSdk_xdr: "sdk_xdr_ok demoSdk"
  by (auto simp: sdk_xdr_ok_def demoSdk_def inj_def demoXDR_inj demoInvokeXDR_def demoCreateXDR_def
      intro: invoke_args.equality create_args.equality demoInvocationXDR_inj)

lemma demoSdk_strkey: "sdk_strkey_ok demoSdk"
  by (auto simp: sdk_strkey_ok_def demoSdk_def demoStrkey_def demoFromStrkey_def
      split: list.splits scaddress.splits)

end
