(* ===== verification/Kit_Signers.thy ===== *)
theory Kit_Signers
  imports Kit_Xdr
begin

text \<open>
  The data of the contract bindings (\<^verbatim>\<open>Signer\<close>, \<^verbatim>\<open>ContextRuleType\<close>, \<^verbatim>\<open>ContextRule\<close>) and the signer
  helpers of \<^verbatim>\<open>src/signer-utils.ts\<close> and \<^verbatim>\<open>src/utils.ts\<close>: credential ids inside key data, equality,
  deduplication keys, key data, the derived contract address, address and hash checks.
\<close>

datatype signer = Delegated string | External string buffer

datatype context_rule_type =
    DefaultRule
  | CallContract string
  | CreateContractRule buffer
  | CreateContractExternalRef string string

record context_rule =
  crType :: context_rule_type
  crId :: nat
  crName :: string
  crPolicies :: "string list"
  crPolicyIds :: "nat list"
  crSignerIds :: "nat list"
  crSigners :: "signer list"
  crValidUntil :: "nat option"

section \<open>Constants\<close>

definition SECP256R1_PUBLIC_KEY_SIZE :: nat where "SECP256R1_PUBLIC_KEY_SIZE = 65"
definition UNCOMPRESSED_PUBKEY_PREFIX :: byte where "UNCOMPRESSED_PUBKEY_PREFIX = 4"
definition ED25519_PUBLIC_KEY_SIZE :: nat where "ED25519_PUBLIC_KEY_SIZE = 32"
definition ED25519_SIGNATURE_SIZE :: nat where "ED25519_SIGNATURE_SIZE = 64"
definition MAX_SIGNERS :: nat where "MAX_SIGNERS = 15"
definition MAX_POLICIES :: nat where "MAX_POLICIES = 5"
definition MAX_NAME_SIZE :: nat where "MAX_NAME_SIZE = 20"
definition MAX_EXTERNAL_KEY_SIZE :: nat where "MAX_EXTERNAL_KEY_SIZE = 256"
definition LEDGERS_PER_HOUR :: nat where "LEDGERS_PER_HOUR = 720"
definition AUTH_ENTRY_EXPIRATION_BUFFER :: nat where "AUTH_ENTRY_EXPIRATION_BUFFER = 100"
definition U32_MAX :: nat where "U32_MAX = 4294967295"

definition DEFAULT_DEPLOYER_SEED :: string where
  "DEFAULT_DEPLOYER_SEED = ''openzeppelin-smart-account-kit''"

definition DEFAULT_DEPLOYER_PUBLIC_KEY :: "sdk \<Rightarrow> string" where
  "DEFAULT_DEPLOYER_PUBLIC_KEY K = publicKeyOfSeed K (hash K (utf8 DEFAULT_DEPLOYER_SEED))"

definition isDefaultDeployer :: "sdk \<Rightarrow> string \<Rightarrow> bool" where
  "isDefaultDeployer K publicKey = (publicKey = DEFAULT_DEPLOYER_PUBLIC_KEY K)"

section \<open>Signer helpers\<close>

definition getCredentialIdFromSigner :: "sdk \<Rightarrow> signer \<Rightarrow> string option" where
  "getCredentialIdFromSigner K s = (case s of
     Delegated a \<Rightarrow> None
   | External v keyData \<Rightarrow>
       if length keyData \<le> SECP256R1_PUBLIC_KEY_SIZE then None
       else Some (base64urlEncode K (drop SECP256R1_PUBLIC_KEY_SIZE keyData)))"

fun signersEqual :: "signer \<Rightarrow> signer \<Rightarrow> bool" where
  "signersEqual (Delegated a) (Delegated b) = (a = b)"
| "signersEqual (External v k) (External w l) = (v = w \<and> k = l)"
| "signersEqual _ _ = False"

lemma signersEqual_iff [simp]: "signersEqual a b \<longleftrightarrow> a = b"
  by (cases a; cases b) auto

fun getSignerKey :: "signer \<Rightarrow> string" where
  "getSignerKey (Delegated a) = ''delegated:'' @ a"
| "getSignerKey (External v keyData) = ''external:'' @ v @ '':'' @ toHex keyData"

lemma colon_not_hex: "CHR '':'' \<notin> set (toHex b)"
  using toHex_set [of b] by (auto simp: hexDigits_def)

lemma external_key_inj:
  "v @ CHR '':'' # toHex k = w @ CHR '':'' # toHex l \<longleftrightarrow> v = w \<and> k = l"
proof
  assume e: "v @ CHR '':'' # toHex k = w @ CHR '':'' # toHex l"
  have "rev (toHex k) @ CHR '':'' # rev v = rev (toHex l) @ CHR '':'' # rev w"
    using arg_cong [OF e, of rev] by simp
  then have "rev (toHex k) = rev (toHex l) \<and> rev v = rev w"
    by (rule append_sep_inj [rotated 2]) (simp_all add: colon_not_hex)
  then show "v = w \<and> k = l" by (simp add: toHex_inj)
qed simp

lemma getSignerKey_inj: "getSignerKey a = getSignerKey b \<longleftrightarrow> a = b"
  by (cases a; cases b) (simp_all add: external_key_inj)

text \<open>First occurrence of every key, in order: a \<^verbatim>\<open>Map\<close> filled only where the key is absent.\<close>

fun collectInto :: "(string \<times> signer) list \<Rightarrow> signer list \<Rightarrow> (string \<times> signer) list" where
  "collectInto signerMap [] = signerMap"
| "collectInto signerMap (s # ss) =
     (let key = getSignerKey s in
      collectInto (if map_of signerMap key = None then AList.update key s signerMap else signerMap) ss)"

definition collectUniqueSigners :: "signer list \<Rightarrow> signer list" where
  "collectUniqueSigners signers = map snd (collectInto [] signers)"

lemma update_fresh: "map_of m k = None \<Longrightarrow> AList.update k v m = m @ [(k, v)]"
  by (induction m) (auto split: if_splits)

lemma collectInto_append:
  assumes "\<forall>(k, s)\<in>set m. k = getSignerKey s" "distinct (map snd m)"
  shows "\<exists>new. collectInto m ss = m @ map (\<lambda>s. (getSignerKey s, s)) new \<and>
     distinct (map snd m @ new) \<and> set (map snd m @ new) = set (map snd m) \<union> set ss"
  using assms
proof (induction ss arbitrary: m)
  case Nil
  then show ?case by (intro exI [of _ "[]"]) simp
next
  case (Cons s ss)
  have absent: "map_of m (getSignerKey s) = None \<longleftrightarrow> s \<notin> snd ` set m"
    using Cons.prems(1) by (force simp: map_of_eq_None_iff getSignerKey_inj)
  show ?case
  proof (cases "s \<in> snd ` set m")
    case True
    then show ?thesis
      using Cons.IH [OF Cons.prems] absent by (auto simp: Let_def)
  next
    case False
    let ?m = "m @ [(getSignerKey s, s)]"
    have "\<forall>(k, s)\<in>set ?m. k = getSignerKey s" "distinct (map snd ?m)"
      using Cons.prems False by auto
    from Cons.IH [OF this] obtain new where
      "collectInto ?m ss = ?m @ map (\<lambda>s. (getSignerKey s, s)) new"
      "distinct (map snd ?m @ new)" "set (map snd ?m @ new) = set (map snd ?m) \<union> set ss"
      by blast
    then show ?thesis
      using False absent by (intro exI [of _ "s # new"]) (auto simp: Let_def update_fresh)
  qed
qed

lemma collectUniqueSigners_spec:
  "distinct (collectUniqueSigners ss) \<and> set (collectUniqueSigners ss) = set ss"
proof -
  obtain new where "collectInto [] ss = map (\<lambda>s. (getSignerKey s, s)) new" "distinct new"
    "set new = set ss"
    using collectInto_append [of "[]" ss] by auto
  then show ?thesis by (simp add: collectUniqueSigners_def comp_def)
qed

section \<open>Key data, addresses, hashes\<close>

definition buildKeyData :: "buffer \<Rightarrow> buffer \<Rightarrow> buffer" where
  "buildKeyData publicKey credentialId = publicKey @ credentialId"

definition deriveContractAddress :: "sdk \<Rightarrow> buffer \<Rightarrow> string \<Rightarrow> string \<Rightarrow> string result" where
  "deriveContractAddress K credentialId deployerPublicKey networkPassphrase =
     (case fromStrkey K deployerPublicKey of
        None \<Rightarrow> Inl (JsError ''Unsupported address type'')
      | Some deployer \<Rightarrow> Inr (encodeContract K (hash K (contractIdToXDR K
          (hash K (utf8 networkPassphrase)) (FromAddress deployer (hash K credentialId))))))"

text \<open>\<^verbatim>\<open>normalizeHashHex\<close>: lowercase, and accept exactly 64 hex digits.\<close>

definition normalizeHashHex :: "string \<Rightarrow> string option" where
  "normalizeHashHex value =
     (let normalized = toLower value in
      if length normalized = 64 \<and> list_all (\<lambda>c. c \<in> set hexDigits) normalized
      then Some normalized else None)"

lemma normalizeHashHex_Some:
  "normalizeHashHex v = Some h \<longleftrightarrow> h = toLower v \<and> length v = 64 \<and> set (toLower v) \<subseteq> set hexDigits"
  by (auto simp: normalizeHashHex_def Let_def list_all_iff subset_iff)

lemma normalizeHashHex_idem: "normalizeHashHex v = Some h \<Longrightarrow> normalizeHashHex h = Some h"
  by (simp add: normalizeHashHex_Some)

lemma normalizeHashHex_toHex: "length b = 32 \<Longrightarrow> normalizeHashHex (toHex b) = Some (toHex b)"
  by (simp add: normalizeHashHex_Some toLower_hex toHex_set)

definition validateAddress :: "sdk \<Rightarrow> string \<Rightarrow> string \<Rightarrow> unit result" where
  "validateAddress K address fieldName =
     (if address = [] then Inl (ValidationError (fieldName @ '' is required'') INVALID_ADDRESS)
      else if \<not> isValidEd25519PublicKey K address \<and> \<not> isValidContract K address
      then Inl (ValidationError (''Invalid '' @ fieldName @
        '': must be a valid Stellar account (G...) or contract (C...) address'') INVALID_ADDRESS)
      else Inr ())"

definition validateAmount :: "jsnum \<Rightarrow> string \<Rightarrow> unit result" where
  "validateAmount amount fieldName =
     (case amount of
        Fin q \<Rightarrow> if q \<le> 0 then Inl (ValidationError (fieldName @ '' must be positive'') INVALID_AMOUNT)
                 else Inr ()
      | _ \<Rightarrow> Inl (ValidationError (fieldName @ '' must be a number'') INVALID_AMOUNT))"

lemma validateAmount_ok: "validateAmount a f = Inr u \<longleftrightarrow> (\<exists>q. a = Fin q \<and> 0 < q)"
  by (auto simp: validateAmount_def split: jsnum.splits)

text \<open>\<^verbatim>\<open>readInstanceWasmHash\<close> on the executable of a contract instance.\<close>

definition readInstanceWasmHash :: "executable \<Rightarrow> string option" where
  "readInstanceWasmHash e = (case e of ExecWasm h \<Rightarrow> Some (toHex h) | _ \<Rightarrow> None)"

end
