(* ===== verification/Kit_Validation.thy ===== *)
theory Kit_Validation
  imports Kit_Signers
begin

text \<open>
  \<^verbatim>\<open>src/validation.ts\<close>: the contract limits checked before submission. A JavaScript number
  is a \<open>jsnum\<close> where the code tests whether it is an integer. The lemmas characterise each
  check completely: the inputs it accepts, and that a refusal is a \<open>ValidationError\<close>.
\<close>

definition invalidInput :: "string \<Rightarrow> kit_error" where
  "invalidInput m = ValidationError m INVALID_INPUT"

lemma invalidInput_neq [simp]: "invalidInput m = ValidationError m' c \<longleftrightarrow> m = m' \<and> c = INVALID_INPUT"
  by (auto simp: invalidInput_def)

definition validateContextRuleName :: "string \<Rightarrow> unit result" where
  "validateContextRuleName name =
     (let byteLength = length name in
      if byteLength = 0 then Inl (invalidInput ''Context rule name must not be empty'')
      else if byteLength > MAX_NAME_SIZE
      then Inl (invalidInput (''Context rule name must be at most 20 UTF-8 bytes (got '' @
        decimal byteLength @ '')''))
      else Inr ())"

definition validateExternalKeySize :: "buffer \<Rightarrow> unit result" where
  "validateExternalKeySize keyData =
     (if length keyData > MAX_EXTERNAL_KEY_SIZE
      then Inl (invalidInput (''External signer key data must be at most 256 bytes (got '' @
        decimal (length keyData) @ '')''))
      else Inr ())"

definition validateSigner :: "sdk \<Rightarrow> signer \<Rightarrow> string option \<Rightarrow> unit result" where
  "validateSigner K s account = (case s of
     Delegated address \<Rightarrow>
       if isDefaultDeployer K address
       then Inl (invalidInput ''The shared default deployer cannot be a delegated signer'')
       else if account \<noteq> None \<and> account = Some address
       then Inl (invalidInput ''A smart account cannot be its own delegated signer'')
       else if \<not> isValidEd25519PublicKey K address
       then Inl (ValidationError (''A delegated signer must be a Stellar account (G-address). '' @
         ''Delegating to a contract can let anyone authorize the account.'') INVALID_ADDRESS)
       else Inr ()
   | External v keyData \<Rightarrow> validateExternalKeySize keyData)"

definition validateSigners :: "sdk \<Rightarrow> signer list \<Rightarrow> nat \<Rightarrow> string option \<Rightarrow> unit result" where
  "validateSigners K signers existingCount account =
     (let total = existingCount + length signers in
      if total > MAX_SIGNERS
      then Inl (invalidInput (''A context rule may have at most 15 signers (would have '' @
        decimal total @ '')''))
      else forE (\<lambda>s. validateSigner K s account) signers)"

definition validatePolicyCount :: "nat \<Rightarrow> nat \<Rightarrow> unit result" where
  "validatePolicyCount policyCount existingCount =
     (let total = existingCount + policyCount in
      if total > MAX_POLICIES
      then Inl (invalidInput (''A context rule may have at most 5 policies (would have '' @
        decimal total @ '')''))
      else Inr ())"

definition isIntegerNum :: "jsnum \<Rightarrow> bool" where
  "isIntegerNum x = (case x of Fin q \<Rightarrow> of_int \<lfloor>q\<rfloor> = q | _ \<Rightarrow> False)"

definition validateValidUntil :: "jsnum option \<Rightarrow> nat option \<Rightarrow> unit result" where
  "validateValidUntil validUntil currentLedger = (case validUntil of
     None \<Rightarrow> Inr ()
   | Some n \<Rightarrow>
       (case n of
          Fin q \<Rightarrow>
            if of_int \<lfloor>q\<rfloor> \<noteq> q \<or> q < 0 \<or> q > of_nat U32_MAX
            then Inl (invalidInput ''valid_until must be a u32 ledger sequence'')
            else (case currentLedger of
                Some l \<Rightarrow> if q < of_nat l then Inl (invalidInput ''valid_until is in the past'')
                  else Inr ()
              | None \<Rightarrow> Inr ())
        | _ \<Rightarrow> Inl (invalidInput ''valid_until must be a u32 ledger sequence'')))"

record context_rule_args =
  argName :: string
  argSigners :: "signer list"
  argPolicyCount :: nat
  argValidUntil :: "jsnum option"
  argCurrentLedger :: "nat option"
  argAccount :: "string option"

definition validateContextRule :: "sdk \<Rightarrow> context_rule_args \<Rightarrow> unit result" where
  "validateContextRule K args =
     bindE (validateContextRuleName (argName args)) (\<lambda>_.
     bindE (validateSigners K (argSigners args) 0 (argAccount args)) (\<lambda>_.
     bindE (validatePolicyCount (argPolicyCount args) 0) (\<lambda>_.
     bindE (validateValidUntil (argValidUntil args) (argCurrentLedger args)) (\<lambda>_.
     if length (argSigners args) = 0 \<and> argPolicyCount args = 0
     then Inl (invalidInput ''A context rule must have at least one signer or policy'')
     else Inr ()))))"

section \<open>What each check accepts\<close>

text \<open>A signer the contract can accept for the given wallet.\<close>

fun acceptableSigner :: "sdk \<Rightarrow> string option \<Rightarrow> signer \<Rightarrow> bool" where
  "acceptableSigner K account (Delegated a) \<longleftrightarrow>
     isValidEd25519PublicKey K a \<and> a \<noteq> DEFAULT_DEPLOYER_PUBLIC_KEY K \<and> account \<noteq> Some a"
| "acceptableSigner K account (External v k) \<longleftrightarrow> length k \<le> MAX_EXTERNAL_KEY_SIZE"

lemma validateSigner_ok: "validateSigner K s account = Inr u \<longleftrightarrow> acceptableSigner K account s"
  by (cases s) (auto simp: validateSigner_def validateExternalKeySize_def isDefaultDeployer_def)

lemma validateSigners_ok:
  "validateSigners K ss n account = Inr u \<longleftrightarrow>
     n + length ss \<le> MAX_SIGNERS \<and> (\<forall>s\<in>set ss. acceptableSigner K account s)"
  by (simp add: validateSigners_def Let_def forE_Inr validateSigner_ok)

lemma validateContextRuleName_ok:
  "validateContextRuleName name = Inr u \<longleftrightarrow> 0 < length name \<and> length name \<le> MAX_NAME_SIZE"
  by (auto simp: validateContextRuleName_def Let_def)

lemma validatePolicyCount_ok: "validatePolicyCount n m = Inr u \<longleftrightarrow> m + n \<le> MAX_POLICIES"
  by (simp add: validatePolicyCount_def Let_def)

lemma isIntegerNum_iff: "isIntegerNum x \<longleftrightarrow> (\<exists>i. x = Fin (of_int i))"
  by (cases x) (auto simp: isIntegerNum_def intro: sym)

lemma validateValidUntil_ok:
  "validateValidUntil v cur = Inr u \<longleftrightarrow>
     (case v of None \<Rightarrow> True
      | Some x \<Rightarrow> \<exists>n. x = Fin (of_nat n) \<and> n \<le> U32_MAX \<and> (\<forall>l. cur = Some l \<longrightarrow> l \<le> n))"
proof (cases v)
  case None
  then show ?thesis by (simp add: validateValidUntil_def)
next
  case (Some x)
  show ?thesis
  proof (cases "\<exists>i. x = Fin (of_int i) \<and> 0 \<le> i")
    case True
    then obtain n where x: "x = Fin (of_nat n)"
      by (metis int_nat_eq of_int_of_nat_eq)
    have f: "of_int \<lfloor>of_nat n :: rat\<rfloor> = (of_nat n :: rat)" by simp
    have c: "(of_nat n :: rat) < of_nat l \<longleftrightarrow> n < l" for l by simp
    have "(of_nat U32_MAX :: rat) < of_nat n \<longleftrightarrow> U32_MAX < n" by simp
    with f show ?thesis
      by (auto simp: Some x validateValidUntil_def c not_less split: option.splits)
  next
    case False
    have "\<not> (of_int \<lfloor>q\<rfloor> = q \<and> 0 \<le> q)" if "x = Fin q" for q
      using False that by (metis of_int_0_le_iff)
    moreover have "x \<noteq> Fin (of_nat n)" for n
      using False by (metis of_int_of_nat_eq of_nat_0_le_iff)
    ultimately show ?thesis
      by (cases x) (auto simp: Some validateValidUntil_def)
  qed
qed

text \<open>Every refusal of this module is a \<open>ValidationError\<close>.\<close>

definition isValidationError :: "kit_error \<Rightarrow> bool" where
  "isValidationError e = (case e of ValidationError m c \<Rightarrow> True | _ \<Rightarrow> False)"

lemma isValidationError_simps [simp]:
  "isValidationError (ValidationError m c)" "isValidationError (invalidInput m)"
  by (simp_all add: isValidationError_def invalidInput_def)

lemma validateSigner_error: "validateSigner K s account = Inl e \<Longrightarrow> isValidationError e"
  by (cases s) (auto simp: validateSigner_def validateExternalKeySize_def split: if_splits)

lemma validateSigners_error: "validateSigners K ss n account = Inl e \<Longrightarrow> isValidationError e"
  by (auto simp: validateSigners_def Let_def split: if_splits dest!: forE_Inl validateSigner_error)

lemma validateValidUntil_error: "validateValidUntil v cur = Inl e \<Longrightarrow> isValidationError e"
  by (auto simp: validateValidUntil_def split: option.splits jsnum.splits if_splits)

lemma validateContextRuleName_error: "validateContextRuleName n = Inl e \<Longrightarrow> isValidationError e"
  by (auto simp: validateContextRuleName_def Let_def split: if_splits)

lemma validatePolicyCount_error: "validatePolicyCount n m = Inl e \<Longrightarrow> isValidationError e"
  by (auto simp: validatePolicyCount_def Let_def split: if_splits)

lemmas validate_errors = validateSigner_error validateSigners_error validateValidUntil_error
  validateContextRuleName_error validatePolicyCount_error

section \<open>Properties\<close>

text \<open>
  Adding a context rule passes client-side validation exactly when every contract limit
  holds: a name of 1 to 20 bytes, at most 15 signers each acceptable for the wallet (key data of at
  most 256 bytes; a delegated signer is a G-address that is neither the shared deployer nor the
  wallet itself), at most 5 policies, an expiry that is a u32 not before the current ledger, and at
  least one signer or policy.
\<close>

theorem validateContextRule_exact:
  "validateContextRule K args = Inr () \<longleftrightarrow>
     0 < length (argName args) \<and> length (argName args) \<le> 20 \<and>
     length (argSigners args) \<le> 15 \<and>
     filter (\<lambda>s. \<not> acceptableSigner K (argAccount args) s) (argSigners args) = [] \<and>
     argPolicyCount args \<le> 5 \<and>
     (case argValidUntil args of None \<Rightarrow> True
      | Some x \<Rightarrow> (\<exists>n. x = Fin (of_nat n) \<and> n < 2 ^ 32 \<and>
          (case argCurrentLedger args of None \<Rightarrow> True | Some l \<Rightarrow> l \<le> n))) \<and>
     \<not> (argSigners args = [] \<and> argPolicyCount args = 0)"
proof -
  have u: "n \<le> U32_MAX \<longleftrightarrow> n < 2 ^ 32" for n by (simp add: U32_MAX_def less_Suc_eq_le [symmetric])
  have l: "(\<forall>l. c = Some l \<longrightarrow> l \<le> n) \<longleftrightarrow> (case c of None \<Rightarrow> True | Some l \<Rightarrow> l \<le> n)"
    for c and n :: nat by (auto split: option.splits)
  show ?thesis
    by (cases "argValidUntil args")
      (auto simp: validateContextRule_def bindE_Inr validateContextRuleName_ok validateSigners_ok
        validatePolicyCount_ok validateValidUntil_ok u l MAX_NAME_SIZE_def MAX_SIGNERS_def
        MAX_POLICIES_def filter_empty_conv)
qed

text \<open>
  A refusal of the context-rule validation is always a \<open>ValidationError\<close>, never an untyped error.
\<close>

theorem validateContextRule_errors:
  "validateContextRule K args = Inl e \<Longrightarrow> isValidationError e"
  by (auto simp: validateContextRule_def bindE_Inl split: if_splits dest: validate_errors)

lemma validateContextRule_errors_witness:
  "isValidationError (invalidInput ''Context rule name must not be empty'')"
  by (rule validateContextRule_errors [of demoSdk "\<lparr>argName = [], argSigners = [], argPolicyCount = 0,
        argValidUntil = None, argCurrentLedger = None, argAccount = None\<rparr>"])
     (simp add: validateContextRule_def validateContextRuleName_def)

end
