(* ===== verification/Kit_Text.thy ===== *)
theory Kit_Text
  imports Kit_Prelude
begin

text \<open>
  The text tests of the program: \<^verbatim>\<open>trim\<close>, the digit patterns of its regular expressions, the
  integer that \<^verbatim>\<open>BigInt\<close> or \<^verbatim>\<open>Number\<close> reads from digits, and the decimal text of a number as their
  inverse. White space is the ASCII white space.
\<close>

definition isWhite :: "char \<Rightarrow> bool" where
  "isWhite c \<longleftrightarrow> of_char c \<in> {9, 10, 11, 12, 13, 32 :: nat}"

definition trim :: "string \<Rightarrow> string" where
  "trim s = rev (dropWhile isWhite (rev (dropWhile isWhite s)))"

definition isDigit :: "char \<Rightarrow> bool" where
  "isDigit c \<longleftrightarrow> 48 \<le> (of_char c :: nat) \<and> (of_char c :: nat) \<le> 57"

text \<open>\<^verbatim>\<open>/^\d+$/\<close> and the integer its matches spell.\<close>

definition isDigits :: "string \<Rightarrow> bool" where
  "isDigits s \<longleftrightarrow> s \<noteq> [] \<and> list_all isDigit s"

definition digitsValue :: "string \<Rightarrow> nat" where
  "digitsValue s = foldl (\<lambda>n c. 10 * n + (of_char c - 48)) 0 s"

lemma digitsValue_Nil [simp]: "digitsValue [] = 0"
  by (simp add: digitsValue_def)

lemma digitsValue_foldl:
  "foldl (\<lambda>n c. 10 * n + (of_char c - 48)) a s = a * 10 ^ length s + digitsValue s"
proof (induction s arbitrary: a)
  case (Cons c s)
  have "digitsValue (c # s) = (of_char c - 48) * 10 ^ length s + digitsValue s"
    using Cons [of "of_char c - 48"] by (simp add: digitsValue_def)
  then show ?case using Cons [of "10 * a + (of_char c - 48)"] by (simp add: algebra_simps)
qed simp

lemma digitsValue_append: "digitsValue (s @ t) = digitsValue s * 10 ^ length t + digitsValue t"
proof -
  have "digitsValue (s @ t) = foldl (\<lambda>n c. 10 * n + (of_char c - 48)) (digitsValue s) t"
    by (simp add: digitsValue_def)
  then show ?thesis by (simp add: digitsValue_foldl)
qed

lemma digitsValue_single [simp]: "digitsValue [c] = of_char c - 48"
  by (simp add: digitsValue_def)

lemma digitsValue_zeros [simp]: "digitsValue (replicate n CHR ''0'') = 0"
proof (induction n)
  case (Suc n)
  have "digitsValue (replicate (Suc n) CHR ''0'') = digitsValue ([CHR ''0''] @ replicate n CHR ''0'')" by simp
  then show ?case using Suc by (simp only: digitsValue_append digitsValue_single) simp
qed simp

lemma digitsValue_Cons: "digitsValue (c # s) = (of_char c - 48) * 10 ^ length s + digitsValue s"
  using digitsValue_append [of "[c]" s] by simp

lemma isDigit_digitChar [simp]: "isDigit (digitChar n)"
  and of_char_digitChar [simp]: "of_char (digitChar n) = 48 + n mod 10"
proof -
  have "48 + n mod 10 < 256" by (rule less_le_trans [of _ 58]) auto
  then show "of_char (digitChar n) = 48 + n mod 10" by (simp add: digitChar_def)
  then show "isDigit (digitChar n)" by (simp add: isDigit_def)
qed

lemma isDigits_decimal [simp]: "isDigits (decimal n)"
proof (induction n rule: decimal.induct)
  case (1 n)
  then show ?case by (subst decimal.simps) (auto simp: isDigits_def)
qed

lemma digitsValue_decimal [simp]: "digitsValue (decimal n) = n"
proof (induction n rule: decimal.induct)
  case (1 n)
  then show ?case by (subst decimal.simps) (auto simp: digitsValue_append)
qed

lemma digit_not_white: "isDigit c \<Longrightarrow> \<not> isWhite c"
  by (auto simp: isDigit_def isWhite_def)

lemma trim_id: "s \<noteq> [] \<Longrightarrow> \<not> isWhite (hd s) \<Longrightarrow> \<not> isWhite (last s) \<Longrightarrow> trim s = s"
proof -
  assume s: "s \<noteq> []" "\<not> isWhite (hd s)" "\<not> isWhite (last s)"
  then have "dropWhile isWhite s = s" by (cases s) auto
  moreover have "dropWhile isWhite (rev s) = rev s" using s by (cases s rule: rev_cases) auto
  ultimately show ?thesis by (simp add: trim_def)
qed

lemma trim_digits: "isDigits s \<Longrightarrow> trim s = s"
  by (rule trim_id) (auto simp: isDigits_def list_all_iff digit_not_white)

end
