(* ===== verification/Kit_TokenAmount.thy ===== *)
theory Kit_TokenAmount
  imports Kit_Text Kit_Validation
begin

text \<open>
  The scaling of a token amount to raw units (\<^verbatim>\<open>expandDecimal\<close>, \<^verbatim>\<open>tokenAmountToRawUnits\<close> of
  \<^verbatim>\<open>src/kit/tx-ops.ts\<close>). The code works on the text of the number. A positive finite JavaScript
  number prints as the shortest decimal that reads back as it; \<open>dec_number\<close> holds that decimal as
  ECMA-262 does, by its digits and the position of the point, and \<open>numberToString\<close> prints it.
  Comparisons of the number with 1 and \<open>2 ^ 53\<close>, which are doubles, agree with comparisons of
  that decimal.
\<close>

section \<open>Numbers and their text\<close>

record dec_number =
  dnDigits :: nat
  dnPoint :: int

definition dn_ok :: "dec_number \<Rightarrow> bool" where
  "dn_ok x \<longleftrightarrow> 0 < dnDigits x \<and> \<not> 10 dvd dnDigits x"

definition dnLength :: "dec_number \<Rightarrow> nat" where
  "dnLength x = length (decimal (dnDigits x))"

text \<open>\<open>10 ^ z\<close> for an integer exponent.\<close>

definition tenPow :: "int \<Rightarrow> rat" where
  "tenPow z = (if 0 \<le> z then 10 ^ nat z else 1 / 10 ^ nat (- z))"

definition dnValue :: "dec_number \<Rightarrow> rat" where
  "dnValue x = of_nat (dnDigits x) * tenPow (dnPoint x - int (dnLength x))"

definition zeros :: "nat \<Rightarrow> string" where
  "zeros n = replicate n CHR ''0''"

definition exponentText :: "int \<Rightarrow> string" where
  "exponentText e = (if e < 0 then ''-'' else ''+'') @ decimal (nat \<bar>e\<bar>)"

definition numberToString :: "dec_number \<Rightarrow> string" where
  "numberToString x =
     (let s = decimal (dnDigits x); k = int (length s); n = dnPoint x in
      if k \<le> n \<and> n \<le> 21 then s @ zeros (nat (n - k))
      else if 0 < n \<and> n \<le> 21 then take (nat n) s @ ''.'' @ drop (nat n) s
      else if - 6 < n \<and> n \<le> 0 then ''0.'' @ zeros (nat (- n)) @ s
      else if k = 1 then s @ ''e'' @ exponentText (n - 1)
      else take 1 s @ ''.'' @ drop 1 s @ ''e'' @ exponentText (n - 1))"

section \<open>Plain decimal text\<close>

definition splitDigits :: "string \<Rightarrow> string \<times> string" where
  "splitDigits s = (takeWhile isDigit s, dropWhile isDigit s)"

text \<open>\<^verbatim>\<open>/^\d+(\.\d+)?$/\<close>\<close>

definition isPlainDecimal :: "string \<Rightarrow> bool" where
  "isPlainDecimal t = (case splitDigits t of (w, r) \<Rightarrow> w \<noteq> [] \<and>
     (case r of [] \<Rightarrow> True | c # f \<Rightarrow> c = CHR ''.'' \<and> isDigits f))"

definition signedDigits :: "string \<Rightarrow> int option" where
  "signedDigits t = (case t of [] \<Rightarrow> None
     | c # ds \<Rightarrow>
        if c = CHR ''+'' then (if isDigits ds then Some (int (digitsValue ds)) else None)
        else if c = CHR ''-'' then (if isDigits ds then Some (- int (digitsValue ds)) else None)
        else if isDigits t then Some (int (digitsValue t)) else None)"

text \<open>\<^verbatim>\<open>/^(\d+)(?:\.(\d+))?[eE]([+-]?\d+)$/\<close>: the two digit groups and the exponent.\<close>

definition matchExponent :: "string \<Rightarrow> (string \<times> string \<times> int) option" where
  "matchExponent t = (case splitDigits t of (w, r) \<Rightarrow>
     if w = [] then None
     else (case r of
         [] \<Rightarrow> None
       | c # rest \<Rightarrow>
           (case (if c = CHR ''.'' then splitDigits rest else ([], r)) of (f, r') \<Rightarrow>
             if c = CHR ''.'' \<and> f = [] then None
             else (case r' of
                 [] \<Rightarrow> None
               | e # ex \<Rightarrow>
                   if e = CHR ''e'' \<or> e = CHR ''E''
                   then (case signedDigits ex of None \<Rightarrow> None | Some z \<Rightarrow> Some (w, f, z))
                   else None))))"

definition expandDecimal :: "string \<Rightarrow> string result" where
  "expandDecimal text =
     (if isPlainDecimal text then Inr text
      else (case matchExponent text of
          None \<Rightarrow> Inl (ValidationError ''amount must be a positive number'' INVALID_AMOUNT)
        | Some (m1, m2, ex) \<Rightarrow>
            let digits = m1 @ m2; point = int (length m1) + ex in
            if point \<le> 0 then Inr (''0.'' @ zeros (nat (- point)) @ digits)
            else if point \<ge> int (length digits)
            then Inr (digits @ zeros (nat (point - int (length digits))))
            else Inr (take (nat point) digits @ ''.'' @ drop (nat point) digits)))"

section \<open>Scaling\<close>

text \<open>\<^verbatim>\<open>text.split(".")\<close> on plain decimal text: the part before the point and the one after.\<close>

definition wholePart :: "string \<Rightarrow> string" where
  "wholePart t = takeWhile (\<lambda>c. c \<noteq> CHR ''.'') t"

definition fractionPart :: "string \<Rightarrow> string" where
  "fractionPart t = takeWhile (\<lambda>c. c \<noteq> CHR ''.'') (drop 1 (dropWhile (\<lambda>c. c \<noteq> CHR ''.'') t))"

definition padEnd :: "string \<Rightarrow> nat \<Rightarrow> string" where
  "padEnd s n = s @ zeros (n - length s)"

text \<open>\<^verbatim>\<open>replace(/^0+(?=\d)/, "")\<close>: leading zeros go while a digit follows.\<close>

fun stripZeros :: "string \<Rightarrow> string" where
  "stripZeros (c # d # s) = (if c = CHR ''0'' \<and> isDigit d then stripZeros (d # s) else c # d # s)"
| "stripZeros s = s"

definition validDecimals :: "jsnum \<Rightarrow> nat option" where
  "validDecimals decimals = (case decimals of
     Fin q \<Rightarrow> if of_int \<lfloor>q\<rfloor> = q \<and> 0 \<le> q \<and> q \<le> 18 then Some (nat \<lfloor>q\<rfloor>) else None
   | _ \<Rightarrow> None)"

text \<open>
  The message about invalid decimals leaves out the number it ends with. The amount is \<open>None\<close> when it is not a positive finite number.
\<close>

definition tokenAmountToRawUnits :: "dec_number option \<Rightarrow> jsnum \<Rightarrow> nat result" where
  "tokenAmountToRawUnits amount decimals = (case amount of
     None \<Rightarrow> Inl (ValidationError ''amount must be a positive number'' INVALID_AMOUNT)
   | Some x \<Rightarrow>
       (case validDecimals decimals of
          None \<Rightarrow> Inl (SimulationError ''Invalid token decimals'')
        | Some d \<Rightarrow>
            if dnValue x \<ge> 1 \<and> \<lfloor>dnValue x\<rfloor> > 2 ^ 53 - 1
            then Inl (ValidationError ''amount exceeds safe integer precision; use a smaller value'' INVALID_AMOUNT)
            else bindE (expandDecimal (numberToString x)) (\<lambda>text.
              let whole = wholePart text; fraction = fractionPart text in
              if length fraction > d
              then Inl (ValidationError (''amount has more precision than the token supports ('' @
                decimal d @ '' decimals)'') INVALID_AMOUNT)
              else let padded = stripZeros (whole @ padEnd fraction d);
                  raw = digitsValue (if padded = [] then ''0'' else padded) in
                if raw = 0 then Inl (ValidationError ''amount must be positive'' INVALID_AMOUNT)
                else Inr raw)))"

section \<open>The text of a number in the supported range\<close>

lemma digits_zeros [simp]: "list_all isDigit (zeros n)"
  by (simp add: zeros_def list_all_iff isDigit_def)

lemma digits_decimal [simp]: "list_all isDigit (decimal n)"
  using isDigits_decimal [of n] by (simp add: isDigits_def)

lemma digits_take_drop:
  "list_all isDigit s \<Longrightarrow> list_all isDigit (take n s)"
  "list_all isDigit s \<Longrightarrow> list_all isDigit (drop n s)"
  by (auto simp: list_all_iff dest: in_set_takeD in_set_dropD)

lemma point_not_digit [simp]:
  "\<not> isDigit CHR ''.''" "\<not> isDigit CHR ''e''" "\<not> isDigit CHR ''-''" "isDigit CHR ''0''"
  by (simp_all add: isDigit_def)

lemma digit_not_point: "isDigit c \<Longrightarrow> c \<noteq> CHR ''.''"
  by auto

lemma splitDigits_append:
  "list_all isDigit w \<Longrightarrow> \<not> isDigit c \<Longrightarrow> splitDigits (w @ c # r) = (w, c # r)"
  "list_all isDigit w \<Longrightarrow> splitDigits w = (w, [])"
  by (auto simp: splitDigits_def list_all_iff takeWhile_eq_all_conv dropWhile_eq_Nil_conv)

lemma plain_whole: "isDigits w \<Longrightarrow> isPlainDecimal w"
  by (simp add: isPlainDecimal_def splitDigits_append isDigits_def)

lemma plain_point: "isDigits w \<Longrightarrow> isDigits f \<Longrightarrow> isPlainDecimal (w @ CHR ''.'' # f)"
  by (simp add: isPlainDecimal_def splitDigits_append isDigits_def)

lemma exponent_not_plain: "list_all isDigit w \<Longrightarrow> \<not> isPlainDecimal (w @ CHR ''e'' # r)"
  "list_all isDigit w \<Longrightarrow> list_all isDigit f \<Longrightarrow> \<not> isPlainDecimal (w @ CHR ''.'' # f @ CHR ''e'' # r)"
  by (simp_all add: isPlainDecimal_def splitDigits_append isDigits_def)

lemma signedDigits_exponent: "signedDigits (exponentText e) = Some e"
  by (simp add: signedDigits_def exponentText_def)

lemma match_exponent:
  "isDigits w \<Longrightarrow> matchExponent (w @ CHR ''e'' # exponentText e) = Some (w, [], e)"
  "isDigits w \<Longrightarrow> isDigits f \<Longrightarrow>
     matchExponent (w @ CHR ''.'' # f @ CHR ''e'' # exponentText e) = Some (w, f, e)"
  by (simp_all add: matchExponent_def splitDigits_append isDigits_def signedDigits_exponent)

definition plainText :: "dec_number \<Rightarrow> string" where
  "plainText x = (let s = decimal (dnDigits x); n = dnPoint x in
     if int (dnLength x) \<le> n then s @ zeros (nat (n - int (dnLength x)))
     else if 0 < n then take (nat n) s @ CHR ''.'' # drop (nat n) s
     else ''0.'' @ zeros (nat (- n)) @ s)"

lemma dnLength_pos: "0 < dnLength x"
  by (simp add: dnLength_def)

lemma expand_number:
  assumes "dnPoint x \<le> 21"
  shows "expandDecimal (numberToString x) = Inr (plainText x)"
proof -
  let ?s = "decimal (dnDigits x)" and ?n = "dnPoint x"
  have s: "isDigits ?s" "list_all isDigit ?s" "?s \<noteq> []" by simp_all
  consider (whole) "int (dnLength x) \<le> ?n" | (split) "0 < ?n" "?n < int (dnLength x)"
    | (small) "- 6 < ?n" "?n \<le> 0" | (one) "?n \<le> - 6" "dnLength x = 1"
    | (more) "?n \<le> - 6" "dnLength x \<noteq> 1" by linarith
  then show ?thesis
  proof cases
    case whole
    then have "isPlainDecimal (?s @ zeros (nat (?n - int (dnLength x))))"
      by (intro plain_whole) (simp add: isDigits_def)
    then show ?thesis
      using whole assms by (simp add: numberToString_def plainText_def expandDecimal_def Let_def dnLength_def)
  next
    case split
    then have "isDigits (take (nat ?n) ?s)" "isDigits (drop (nat ?n) ?s)"
      by (auto simp: isDigits_def digits_take_drop dnLength_def)
    then have "isPlainDecimal (take (nat ?n) ?s @ CHR ''.'' # drop (nat ?n) ?s)" by (rule plain_point)
    then show ?thesis
      using split assms by (simp add: numberToString_def plainText_def expandDecimal_def Let_def dnLength_def)
  next
    case small
    have "isPlainDecimal (''0'' @ CHR ''.'' # zeros (nat (- ?n)) @ ?s)"
      by (rule plain_point) (simp_all add: isDigits_def)
    moreover have "\<not> int (length ?s) \<le> ?n"
      using small dnLength_pos [of x] by (simp add: dnLength_def del: length_greater_0_conv)
    ultimately show ?thesis
      using small
      by (simp add: numberToString_def plainText_def expandDecimal_def Let_def dnLength_def)
  next
    case one
    have l: "length ?s = 1" using one by (simp add: dnLength_def)
    have t: "numberToString x = ?s @ CHR ''e'' # exponentText (?n - 1)"
      using one l by (simp add: numberToString_def Let_def)
    show ?thesis
      using one l by (simp add: t expandDecimal_def exponent_not_plain match_exponent plainText_def Let_def dnLength_def)
  next
    case more
    have "0 < length ?s" by simp
    with more have l: "1 < length ?s" unfolding dnLength_def by linarith
    then obtain a b r where ab: "?s = a # b # r" by (cases ?s rule: list.exhaust; cases "tl ?s") auto
    then have d: "isDigits [a]" "isDigits (b # r)" using s by (auto simp: isDigits_def)
    have t: "numberToString x = [a] @ CHR ''.'' # (b # r) @ CHR ''e'' # exponentText (?n - 1)"
      using more l by (simp add: numberToString_def Let_def ab)
    have np: "\<not> isPlainDecimal (numberToString x)"
      unfolding t using d by (intro exponent_not_plain) (simp_all add: isDigits_def)
    have "matchExponent (numberToString x) = Some ([a], b # r, ?n - 1)"
      unfolding t by (rule match_exponent (2) [OF d])
    then show ?thesis
      using more l np by (simp add: expandDecimal_def plainText_def Let_def dnLength_def ab)
  qed
qed

section \<open>The digits carry the value\<close>

lemma no_point: "list_all isDigit w \<Longrightarrow> takeWhile (\<lambda>c. c \<noteq> CHR ''.'') w = w"
  "list_all isDigit w \<Longrightarrow> dropWhile (\<lambda>c. c \<noteq> CHR ''.'') w = []"
  by (auto simp: takeWhile_eq_all_conv dropWhile_eq_Nil_conv list_all_iff)

lemma no_point_append:
  "list_all isDigit w \<Longrightarrow> takeWhile (\<lambda>c. c \<noteq> CHR ''.'') (w @ CHR ''.'' # f) = w"
  "list_all isDigit w \<Longrightarrow> dropWhile (\<lambda>c. c \<noteq> CHR ''.'') (w @ CHR ''.'' # f) = CHR ''.'' # f"
  by (induction w) auto

lemma parts_whole:
  "list_all isDigit w \<Longrightarrow> wholePart w = w" "list_all isDigit w \<Longrightarrow> fractionPart w = []"
  by (simp_all add: wholePart_def fractionPart_def no_point)

lemma parts_point:
  "list_all isDigit w \<Longrightarrow> wholePart (w @ CHR ''.'' # f) = w"
  "list_all isDigit w \<Longrightarrow> list_all isDigit f \<Longrightarrow> fractionPart (w @ CHR ''.'' # f) = f"
  by (simp_all add: wholePart_def fractionPart_def no_point_append no_point)

lemma zeros_value [simp]: "digitsValue (zeros n) = 0" "length (zeros n) = n"
  by (simp_all add: zeros_def)

lemma tenPow_minus: "0 \<le> z \<Longrightarrow> tenPow (- z) * 10 ^ nat z = 1"
  by (simp add: tenPow_def)

lemma plain_value:
  assumes "dn_ok x"
  defines "w \<equiv> wholePart (plainText x)" and "f \<equiv> fractionPart (plainText x)"
  shows "of_nat (digitsValue (w @ f)) = dnValue x * 10 ^ length f"
    and "list_all isDigit (w @ f)" and "w \<noteq> []"
    and "f \<noteq> [] \<Longrightarrow> \<not> 10 dvd digitsValue (w @ f)"
proof -
  let ?s = "decimal (dnDigits x)" and ?n = "dnPoint x" and ?k = "dnLength x"
  have "of_nat (digitsValue (w @ f)) = dnValue x * 10 ^ length f \<and> list_all isDigit (w @ f) \<and> w \<noteq> [] \<and>
      (f \<noteq> [] \<longrightarrow> \<not> 10 dvd digitsValue (w @ f))"
  proof -
    consider (whole) "int ?k \<le> ?n" | (split) "0 < ?n" "?n < int ?k" | (small) "?n \<le> 0" by linarith
    then show ?thesis
    proof cases
      case whole
      then have wf: "w = ?s @ zeros (nat (?n - int ?k))" "f = []"
        by (simp_all add: w_def f_def plainText_def Let_def parts_whole)
      then show ?thesis using whole by (simp add: digitsValue_append dnValue_def tenPow_def)
    next
      case split
      then have wf: "w = take (nat ?n) ?s" "f = drop (nat ?n) ?s"
        by (simp_all add: w_def f_def plainText_def Let_def parts_point digits_take_drop)
      have e: "length f = nat (int ?k - ?n)" using split by (simp add: wf dnLength_def)
      have "dnValue x * 10 ^ length f = of_nat (dnDigits x) * (tenPow (- (int ?k - ?n)) * 10 ^ nat (int ?k - ?n))"
        unfolding e dnValue_def by simp
      also have "\<dots> = of_nat (dnDigits x)" using split by (subst tenPow_minus) simp_all
      finally show ?thesis using split assms (1) by (simp add: wf dn_ok_def dnLength_def)
    next
      case small
      then have "\<not> int ?k \<le> ?n" using dnLength_pos [of x] by linarith
      then have "plainText x = ''0'' @ CHR ''.'' # zeros (nat (- ?n)) @ ?s"
        using small by (simp add: plainText_def Let_def)
      moreover have "list_all isDigit ''0''" "list_all isDigit (zeros (nat (- ?n)) @ ?s)" by simp_all
      ultimately have wf: "w = ''0''" "f = zeros (nat (- ?n)) @ ?s"
        unfolding w_def f_def by (simp_all only: parts_point)
      have e: "length f = nat (int ?k - ?n)" using small by (simp add: wf dnLength_def nat_diff_distrib')
      have "dnValue x * 10 ^ length f = of_nat (dnDigits x) * (tenPow (- (int ?k - ?n)) * 10 ^ nat (int ?k - ?n))"
        unfolding e dnValue_def by simp
      also have "\<dots> = of_nat (dnDigits x)" using small by (subst tenPow_minus) simp_all
      finally show ?thesis
        using assms (1) digitsValue_Cons [of "CHR ''0''" f] by (simp add: wf dn_ok_def digitsValue_append)
    qed
  qed
  then show "of_nat (digitsValue (w @ f)) = dnValue x * 10 ^ length f"
    and "list_all isDigit (w @ f)" and "w \<noteq> []"
    and "f \<noteq> [] \<Longrightarrow> \<not> 10 dvd digitsValue (w @ f)" by blast+
qed

lemma stripZeros_value: "list_all isDigit t \<Longrightarrow> digitsValue (stripZeros t) = digitsValue t"
proof (induction t rule: stripZeros.induct)
  case (1 c d s)
  then show ?case using digitsValue_Cons [of "CHR ''0''" "d # s"] by simp
qed simp_all

lemma stripZeros_nonempty: "t \<noteq> [] \<Longrightarrow> stripZeros t \<noteq> []"
  by (induction t rule: stripZeros.induct) simp_all

text \<open>A number with the point beyond 21 digits is out of the safe range.\<close>

lemma decimal_lower: "0 < n \<Longrightarrow> 10 ^ (length (decimal n) - 1) \<le> n"
proof (induction n rule: decimal.induct)
  case (1 n)
  show ?case
  proof (cases "n < 10")
    case True
    then show ?thesis using 1 (2) by (simp add: decimal.simps [of n])
  next
    case False
    then have "10 ^ (length (decimal (n div 10)) - 1) \<le> n div 10" using 1 by simp
    then have "10 ^ (length (decimal (n div 10)) - 1) * 10 \<le> n div 10 * 10" by simp
    also have "\<dots> \<le> n" by simp
    finally have "10 ^ (length (decimal (n div 10)) - 1) * 10 \<le> n" .
    moreover have "length (decimal (n div 10)) = Suc (length (decimal (n div 10)) - 1)"
      by (simp add: Suc_pred')
    ultimately show ?thesis
      using False by (metis decimal.simps length_append_singleton diff_Suc_1 power_Suc2)
  qed
qed

lemma value_bound:
  assumes "dn_ok x" "dnValue x < 2 ^ 53"
  shows "dnPoint x \<le> 21"
proof (rule ccontr)
  assume "\<not> dnPoint x \<le> 21"
  then have n: "21 < dnPoint x" by simp
  let ?k = "dnLength x"
  have d: "10 ^ (?k - 1) \<le> (of_nat (dnDigits x) :: rat)"
    using decimal_lower [of "dnDigits x"] assms (1)
    by (metis dn_ok_def dnLength_def of_nat_le_iff of_nat_numeral of_nat_power)
  have "(10 :: rat) ^ 21 \<le> 10 ^ (?k - 1) * tenPow (dnPoint x - int ?k)"
  proof (cases "int ?k \<le> dnPoint x")
    case True
    then have "10 ^ (?k - 1) * tenPow (dnPoint x - int ?k) = 10 ^ (?k - 1 + nat (dnPoint x - int ?k))"
      by (simp add: tenPow_def power_add)
    moreover have "21 \<le> ?k - 1 + nat (dnPoint x - int ?k)" using n dnLength_pos [of x] True by linarith
    ultimately show ?thesis by (simp only: power_increasing one_le_numeral)
  next
    case False
    define m where "m = nat (int ?k - dnPoint x)"
    have "?k - 1 = m + (?k - 1 - m)" "21 \<le> ?k - 1 - m" using n False by (auto simp: m_def)
    moreover from this have "(10 :: rat) ^ (?k - 1) = 10 ^ m * 10 ^ (?k - 1 - m)" by (metis power_add)
    moreover have "(10 :: rat) ^ m * 10 ^ (?k - 1 - m) * tenPow (dnPoint x - int ?k) = 10 ^ (?k - 1 - m)"
      using False by (simp add: tenPow_def m_def)
    ultimately show ?thesis by (simp only: power_increasing one_le_numeral)
  qed
  also have "\<dots> \<le> dnValue x"
    unfolding dnValue_def by (rule mult_right_mono [OF d]) (simp add: tenPow_def)
  finally have "(10 :: rat) ^ 21 < 2 ^ 53" using assms (2) by simp
  then show False by simp
qed

section \<open>Properties\<close>

lemma validDecimals_nat: "validDecimals (Fin (of_nat d)) = (if d \<le> 18 then Some d else None)"
proof -
  have "(of_nat d :: rat) \<le> 18 \<longleftrightarrow> d \<le> 18" by (metis of_nat_le_iff of_nat_numeral)
  then show ?thesis by (simp add: validDecimals_def)
qed

lemma raw_units:
  assumes "dn_ok x" "d \<le> 18" "dnValue x < 2 ^ 53"
  defines "w \<equiv> wholePart (plainText x)" and "f \<equiv> fractionPart (plainText x)"
  shows "tokenAmountToRawUnits (Some x) (Fin (of_nat d)) =
    (if length f > d then Inl (ValidationError (''amount has more precision than the token supports ('' @
        decimal d @ '' decimals)'') INVALID_AMOUNT)
     else if digitsValue (w @ f) * 10 ^ (d - length f) = 0
     then Inl (ValidationError ''amount must be positive'' INVALID_AMOUNT)
     else Inr (digitsValue (w @ f) * 10 ^ (d - length f)))"
proof -
  have "(dnValue x \<ge> 1 \<and> \<lfloor>dnValue x\<rfloor> > 2 ^ 53 - 1) = False"
    using assms (3) by (simp add: not_less floor_le_iff)
  moreover note expand_number [OF value_bound [OF assms (1,3)]]
  moreover have "digitsValue (stripZeros (w @ padEnd f d)) = digitsValue (w @ f) * 10 ^ (d - length f)"
    using plain_value (2) [OF assms (1), folded w_def f_def]
    by (subst stripZeros_value) (simp_all add: padEnd_def digitsValue_append power_add algebra_simps)
  moreover have "stripZeros (w @ padEnd f d) \<noteq> []"
    using plain_value (3) [OF assms (1), folded w_def] by (simp add: stripZeros_nonempty)
  ultimately show ?thesis
    using assms (2) unfolding tokenAmountToRawUnits_def option.case validDecimals_nat
    by (simp only: if_True if_False option.case bindE_simps Let_def w_def f_def)
qed

lemma tokenAmount_scaled:
  assumes "dn_ok x" "d \<le> 18"
  shows "tokenAmountToRawUnits (Some x) (Fin (of_nat d)) = Inr raw \<longleftrightarrow>
     of_nat raw = dnValue x * 10 ^ d \<and> dnValue x < 2 ^ 53"
proof (cases "dnValue x < 2 ^ 53")
  case False
  then have "dnValue x \<ge> 1 \<and> \<lfloor>dnValue x\<rfloor> > 2 ^ 53 - 1" by (simp add: less_floor_iff)
  then have "tokenAmountToRawUnits (Some x) (Fin (of_nat d)) \<noteq> Inr raw"
    using assms (2) by (simp add: tokenAmountToRawUnits_def validDecimals_nat)
  then show ?thesis using False by blast
next
  case True
  let ?w = "wholePart (plainText x)" and ?f = "fractionPart (plainText x)"
  let ?D = "digitsValue (?w @ ?f)"
  note pv = plain_value [OF assms (1)] and ru = raw_units [OF assms True]
  have pos: "0 < dnValue x" using assms (1) by (simp add: dnValue_def dn_ok_def tenPow_def)
  show ?thesis
  proof (cases "length ?f > d")
    case True
    have "of_nat raw \<noteq> dnValue x * 10 ^ d"
    proof
      assume r: "of_nat raw = dnValue x * 10 ^ d"
      have p: "(10 :: rat) ^ length ?f = 10 ^ d * 10 ^ (length ?f - d)"
        using True by (simp flip: power_add)
      have "(of_nat ?D :: rat) = of_nat raw * 10 ^ (length ?f - d)"
        unfolding pv (1) r p by simp
      also have "\<dots> = of_nat (raw * 10 ^ (length ?f - d))" by simp
      finally have "?D = raw * 10 ^ (length ?f - d)" by (simp only: of_nat_eq_iff)
      then have "10 dvd ?D" using True by (simp add: dvd_power)
      moreover have "?f \<noteq> []" using True by auto
      ultimately show False using pv (4) by blast
    qed
    then show ?thesis using ru True by simp
  next
    case False
    have "(of_nat (?D * 10 ^ (d - length ?f)) :: rat) = of_nat ?D * 10 ^ (d - length ?f)" by simp
    also have "\<dots> = dnValue x * (10 ^ length ?f * 10 ^ (d - length ?f))" unfolding pv (1) by simp
    also have "(10 :: rat) ^ length ?f * 10 ^ (d - length ?f) = 10 ^ d"
      using False by (simp flip: power_add)
    finally have e: "of_nat (?D * 10 ^ (d - length ?f)) = dnValue x * 10 ^ d" .
    moreover have "?D * 10 ^ (d - length ?f) \<noteq> 0"
    proof
      assume "?D * 10 ^ (d - length ?f) = 0"
      with e have "dnValue x * 10 ^ d = 0" by (simp only: of_nat_0)
      with pos show False by simp
    qed
    moreover have "of_nat raw = dnValue x * 10 ^ d \<longleftrightarrow> ?D * 10 ^ (d - length ?f) = raw"
      unfolding e [symmetric] of_nat_eq_iff by blast
    ultimately show ?thesis
      using ru False \<open>dnValue x < 2 ^ 53\<close> by (simp only: if_False if_True) simp
  qed
qed

text \<open>A token amount is scaled exactly or refused: the raw amount is the number times
  \<open>10 ^ decimals\<close>, and the code refuses precisely the numbers for which that is not an integer
  and those from \<open>2 ^ 53\<close> up. No rounding, for every text form a number prints in.\<close>

theorem tokenAmount_exact:
  assumes "dn_ok x" "d \<le> 18"
  shows "tokenAmountToRawUnits (Some x) (Fin (of_nat d)) = Inr raw \<longleftrightarrow>
     of_nat raw = dnValue x * 10 ^ d \<and> dnValue x < 2 ^ 53"
  using assms by (rule tokenAmount_scaled)

lemma tokenAmount_exact_witness:
  "tokenAmountToRawUnits (Some \<lparr>dnDigits = 15, dnPoint = 1\<rparr>) (Fin (of_nat 7)) = Inr 15000000 \<and>
   tokenAmountToRawUnits (Some \<lparr>dnDigits = 1, dnPoint = - 6\<rparr>) (Fin (of_nat 7)) = Inr 1"
proof -
  have "dnValue \<lparr>dnDigits = 15, dnPoint = 1\<rparr> = 3 / 2" "dnValue \<lparr>dnDigits = 1, dnPoint = - 6\<rparr> = 1 / 10000000"
    by (simp_all add: dnValue_def dnLength_def decimal.simps tenPow_def)
  then show ?thesis
    using tokenAmount_exact [of "\<lparr>dnDigits = 15, dnPoint = 1\<rparr>" 7 15000000]
      tokenAmount_exact [of "\<lparr>dnDigits = 1, dnPoint = - 6\<rparr>" 7 1]
    by (simp add: dn_ok_def)
qed

end
