(* ===== verification/Kit_Storage.thy ===== *)
theory Kit_Storage
  imports Kit_Signers Kit_Text
begin

text \<open>
  The credential and session stores of \<^verbatim>\<open>src/storage\<close>: \<^verbatim>\<open>MemoryStorage\<close>, \<^verbatim>\<open>LocalStorageAdapter\<close> and
  \<^verbatim>\<open>IndexedDBStorage\<close>. The \<^verbatim>\<open>StorageAdapter\<close> interface of \<^verbatim>\<open>src/types.ts\<close> is the locale
  \<open>credential_store\<close>, with the laws its clients rely on; each adapter interprets it.
\<close>

section \<open>Stored data\<close>

record stored_credential =
  scCredentialId :: string
  scPublicKey :: buffer
  scContractId :: string
  scNickname :: "string option"
  scCreatedAt :: nat
  scLastUsedAt :: "nat option"
  scTransports :: "string list option"
  scDeviceType :: "string option"
  scBackedUp :: "bool option"
  scContextRuleId :: "nat option"
  scIsPrimary :: "bool option"
  scStatus :: "deployment_status option"
  scError :: "string option"
  scBirthWasmHash :: "string option"
  scCreationTx :: "string option"
  scDeploymentTx :: "string option"
  scCreationLedger :: "nat option"
  scBirthArgsHash :: "string option"
  scAssociationVerified :: "bool option"

record stored_session =
  ssContractId :: string
  ssCredentialId :: string
  ssConnectedAt :: nat
  ssExpiresAt :: "nat option"

text \<open>
  The fields an update may set: all but the id and the public key. \<open>None\<close> keeps the stored
  field; \<open>Some v\<close> sets it, to \<^verbatim>\<open>undefined\<close> when \<open>v\<close> is \<open>None\<close> for an optional field.
\<close>

record credential_update =
  upContractId :: "string option"
  upNickname :: "string option option"
  upLastUsedAt :: "nat option option"
  upContextRuleId :: "nat option option"
  upIsPrimary :: "bool option option"
  upStatus :: "deployment_status option option"
  upError :: "string option option"
  upBirthWasmHash :: "string option option"
  upCreationTx :: "string option option"
  upDeploymentTx :: "string option option"
  upCreationLedger :: "nat option option"
  upBirthArgsHash :: "string option option"
  upAssociationVerified :: "bool option option"

definition noUpdate :: credential_update where
  "noUpdate = \<lparr>upContractId = None, upNickname = None, upLastUsedAt = None, upContextRuleId = None,
     upIsPrimary = None, upStatus = None, upError = None, upBirthWasmHash = None, upCreationTx = None,
     upDeploymentTx = None, upCreationLedger = None, upBirthArgsHash = None, upAssociationVerified = None\<rparr>"

definition override :: "'a option \<Rightarrow> 'a \<Rightarrow> 'a" where
  "override u x = (case u of None \<Rightarrow> x | Some y \<Rightarrow> y)"

lemma override_simps [simp]: "override None x = x" "override (Some y) x = y"
  by (simp_all add: override_def)

text \<open>\<^verbatim>\<open>{ ...credential, ...updates }\<close>\<close>

definition applyUpdate :: "credential_update \<Rightarrow> stored_credential \<Rightarrow> stored_credential" where
  "applyUpdate u c = c\<lparr>
     scContractId := override (upContractId u) (scContractId c),
     scNickname := override (upNickname u) (scNickname c),
     scLastUsedAt := override (upLastUsedAt u) (scLastUsedAt c),
     scContextRuleId := override (upContextRuleId u) (scContextRuleId c),
     scIsPrimary := override (upIsPrimary u) (scIsPrimary c),
     scStatus := override (upStatus u) (scStatus c),
     scError := override (upError u) (scError c),
     scBirthWasmHash := override (upBirthWasmHash u) (scBirthWasmHash c),
     scCreationTx := override (upCreationTx u) (scCreationTx c),
     scDeploymentTx := override (upDeploymentTx u) (scDeploymentTx c),
     scCreationLedger := override (upCreationLedger u) (scCreationLedger c),
     scBirthArgsHash := override (upBirthArgsHash u) (scBirthArgsHash c),
     scAssociationVerified := override (upAssociationVerified u) (scAssociationVerified c)\<rparr>"

lemma applyUpdate_id [simp]:
  "scCredentialId (applyUpdate u c) = scCredentialId c" "scPublicKey (applyUpdate u c) = scPublicKey c"
  by (simp_all add: applyUpdate_def)

lemma applyUpdate_noUpdate: "applyUpdate noUpdate c = c"
  by (simp add: applyUpdate_def noUpdate_def)

section \<open>The interface\<close>

locale credential_store =
  fixes ok :: "'m \<Rightarrow> bool"
    and save :: "stored_credential \<Rightarrow> 'm \<Rightarrow> 'm"
    and get :: "string \<Rightarrow> 'm \<Rightarrow> stored_credential option"
    and getAll :: "'m \<Rightarrow> stored_credential list"
    and erase :: "string \<Rightarrow> 'm \<Rightarrow> 'm"
    and update :: "string \<Rightarrow> credential_update \<Rightarrow> 'm \<Rightarrow> 'm"
  assumes ok_save: "ok m \<Longrightarrow> ok (save c m)"
    and ok_erase: "ok m \<Longrightarrow> ok (erase k m)"
    and get_save: "ok m \<Longrightarrow> get k (save c m) = (if k = scCredentialId c then Some c else get k m)"
    and get_erase: "ok m \<Longrightarrow> get k' (erase k m) = (if k' = k then None else get k' m)"
    and get_key: "ok m \<Longrightarrow> get k m = Some c \<Longrightarrow> scCredentialId c = k"
    and getAll_get: "ok m \<Longrightarrow> c \<in> set (getAll m) \<longleftrightarrow> get (scCredentialId c) m = Some c"
    and getAll_distinct: "ok m \<Longrightarrow> distinct (map scCredentialId (getAll m))"
    and ok_update: "ok m \<Longrightarrow> ok (update k u m)"
    and get_update: "ok m \<Longrightarrow>
      get k' (update k u m) = (if k' = k then map_option (applyUpdate u) (get k m) else get k' m)"
begin

text \<open>An update never creates a credential, and never changes one's id or public key.\<close>

lemma update_keeps_keys: "ok m \<Longrightarrow> get k' (update k u m) = None \<longleftrightarrow> get k' m = None"
  by (simp add: get_update)

lemma save_overwrites: "ok m \<Longrightarrow> scCredentialId c = scCredentialId d \<Longrightarrow> get k (save c (save d m)) = get k (save c m)"
  by (simp add: get_save ok_save)

lemma erase_save: "ok m \<Longrightarrow> get k (erase (scCredentialId c) (save c m)) = get k (erase (scCredentialId c) m)"
  by (simp add: get_erase get_save ok_save)

lemma getAll_save:
  assumes "ok m"
  shows "set (getAll (save c m)) = insert c {d \<in> set (getAll m). scCredentialId d \<noteq> scCredentialId c}"
  using assms by (auto simp: getAll_get get_save ok_save split: if_splits)

lemma getAll_erase:
  assumes "ok m"
  shows "set (getAll (erase k m)) = {d \<in> set (getAll m). scCredentialId d \<noteq> k}"
  using assms by (auto simp: getAll_get get_erase ok_erase split: if_splits)

end

section \<open>The map a sequence of operations leaves\<close>

datatype storage_op = OpSave stored_credential | OpDelete string | OpUpdate string credential_update

fun specOp :: "storage_op \<Rightarrow> (string \<Rightarrow> stored_credential option) \<Rightarrow> string \<Rightarrow> stored_credential option" where
  "specOp (OpSave c) g = g(scCredentialId c := Some c)"
| "specOp (OpDelete k) g = g(k := None)"
| "specOp (OpUpdate k u) g = g(k := map_option (applyUpdate u) (g k))"

fun runOp :: "(stored_credential \<Rightarrow> 'm \<Rightarrow> 'm) \<Rightarrow> (string \<Rightarrow> 'm \<Rightarrow> 'm) \<Rightarrow>
    (string \<Rightarrow> credential_update \<Rightarrow> 'm \<Rightarrow> 'm) \<Rightarrow> storage_op \<Rightarrow> 'm \<Rightarrow> 'm" where
  "runOp save erase update (OpSave c) m = save c m"
| "runOp save erase update (OpDelete k) m = erase k m"
| "runOp save erase update (OpUpdate k u) m = update k u m"

context credential_store begin

lemma runOp_ok: "ok m \<Longrightarrow> ok (runOp save erase update x m)"
  by (cases x) (simp_all add: ok_save ok_erase ok_update)

lemma runOp_get: "ok m \<Longrightarrow> (\<lambda>k. get k (runOp save erase update x m)) = specOp x (\<lambda>k. get k m)"
  by (cases x) (auto simp: get_save get_erase get_update)

lemma run_get:
  "ok m \<Longrightarrow> (\<lambda>k. get k (fold (runOp save erase update) xs m)) = fold specOp xs (\<lambda>k. get k m)"
proof (induction xs arbitrary: m)
  case (Cons x xs)
  then show ?case using runOp_ok [of m x] runOp_get [of m x] by simp
qed simp

end

section \<open>Memory\<close>

record memory_storage =
  msCredentials :: "(string \<times> stored_credential) list"
  msSession :: "stored_session option"

definition memSave :: "stored_credential \<Rightarrow> memory_storage \<Rightarrow> memory_storage" where
  "memSave c m = m\<lparr>msCredentials := AList.update (scCredentialId c) c (msCredentials m)\<rparr>"

definition memGet :: "string \<Rightarrow> memory_storage \<Rightarrow> stored_credential option" where
  "memGet k m = map_of (msCredentials m) k"

definition memGetAll :: "memory_storage \<Rightarrow> stored_credential list" where
  "memGetAll m = map snd (msCredentials m)"

definition memGetByContract :: "string \<Rightarrow> memory_storage \<Rightarrow> stored_credential list" where
  "memGetByContract contractId m = filter (\<lambda>c. scContractId c = contractId) (map snd (msCredentials m))"

definition memDelete :: "string \<Rightarrow> memory_storage \<Rightarrow> memory_storage" where
  "memDelete k m = m\<lparr>msCredentials := AList.delete k (msCredentials m)\<rparr>"

definition memUpdate :: "string \<Rightarrow> credential_update \<Rightarrow> memory_storage \<Rightarrow> memory_storage" where
  "memUpdate k u m = (case map_of (msCredentials m) k of
     None \<Rightarrow> m
   | Some c \<Rightarrow> m\<lparr>msCredentials := AList.update k (applyUpdate u c) (msCredentials m)\<rparr>)"

definition memClear :: "memory_storage \<Rightarrow> memory_storage" where
  "memClear m = \<lparr>msCredentials = [], msSession = None\<rparr>"

definition memSaveSession :: "stored_session \<Rightarrow> memory_storage \<Rightarrow> memory_storage" where
  "memSaveSession s m = m\<lparr>msSession := Some s\<rparr>"

definition memGetSession :: "memory_storage \<Rightarrow> stored_session option" where
  "memGetSession m = msSession m"

definition memClearSession :: "memory_storage \<Rightarrow> memory_storage" where
  "memClearSession m = m\<lparr>msSession := None\<rparr>"

text \<open>Every credential is stored under its own id, once.\<close>

definition credentialsOk :: "(string \<times> stored_credential) list \<Rightarrow> bool" where
  "credentialsOk cs \<longleftrightarrow> distinct (map fst cs) \<and> list_all (\<lambda>(k, c). scCredentialId c = k) cs"

definition memOk :: "memory_storage \<Rightarrow> bool" where
  "memOk m = credentialsOk (msCredentials m)"

lemma credentialsOk_update:
  "credentialsOk cs \<Longrightarrow> credentialsOk (AList.update (scCredentialId c) c cs)"
proof -
  have "list_all (\<lambda>(k, c). scCredentialId c = k) cs \<Longrightarrow>
      list_all (\<lambda>(k, c). scCredentialId c = k) (AList.update (scCredentialId c) c cs)"
    by (induction cs) auto
  then show "credentialsOk cs \<Longrightarrow> credentialsOk (AList.update (scCredentialId c) c cs)"
    by (simp add: credentialsOk_def distinct_update)
qed

lemma credentialsOk_delete: "credentialsOk cs \<Longrightarrow> credentialsOk (AList.delete k cs)"
proof -
  assume ok: "credentialsOk cs"
  then have "distinct (map fst (AList.delete k cs))" by (simp add: credentialsOk_def distinct_delete)
  moreover have "list_all (\<lambda>(k, c). scCredentialId c = k) (AList.delete k cs)"
    using ok by (auto simp: credentialsOk_def list_all_iff AList.delete_eq)
  ultimately show ?thesis by (simp add: credentialsOk_def)
qed

lemma credentialsOk_get: "credentialsOk cs \<Longrightarrow> map_of cs k = Some c \<Longrightarrow> scCredentialId c = k"
  by (auto simp: credentialsOk_def list_all_iff dest!: map_of_SomeD)

lemma credentialsOk_values:
  "credentialsOk cs \<Longrightarrow> c \<in> set (map snd cs) \<longleftrightarrow> map_of cs (scCredentialId c) = Some c"
  by (force simp: credentialsOk_def list_all_iff image_iff)

lemma credentialsOk_ids: "credentialsOk cs \<Longrightarrow> map scCredentialId (map snd cs) = map fst cs"
  by (auto simp: credentialsOk_def list_all_iff)

interpretation memory: credential_store memOk memSave memGet memGetAll memDelete memUpdate
proof
  fix m :: memory_storage and k k' c u
  show "memOk m \<Longrightarrow> memOk (memSave c m)" by (simp add: memOk_def memSave_def credentialsOk_update)
  show "memOk m \<Longrightarrow> memOk (memDelete k m)" by (simp add: memOk_def memDelete_def credentialsOk_delete)
  show "memGet k (memSave c m) = (if k = scCredentialId c then Some c else memGet k m)"
    by (simp add: memGet_def memSave_def update_conv)
  show "memGet k' (memDelete k m) = (if k' = k then None else memGet k' m)"
    by (simp add: memGet_def memDelete_def delete_conv)
  show "memOk m \<Longrightarrow> memGet k m = Some c \<Longrightarrow> scCredentialId c = k"
    by (simp add: memOk_def memGet_def credentialsOk_get)
  show "memOk m \<Longrightarrow> c \<in> set (memGetAll m) \<longleftrightarrow> memGet (scCredentialId c) m = Some c"
    by (simp only: memOk_def memGet_def memGetAll_def credentialsOk_values)
  show "memOk m \<Longrightarrow> distinct (map scCredentialId (memGetAll m))"
    by (simp only: memOk_def memGetAll_def credentialsOk_ids) (simp add: credentialsOk_def)
  show "memOk m \<Longrightarrow> memOk (memUpdate k u m)"
    using credentialsOk_update [of "msCredentials m" "applyUpdate u c" for c]
    by (auto simp: memUpdate_def memOk_def dest: credentialsOk_get split: option.splits)
  show "memGet k' (memUpdate k u m) = (if k' = k then map_option (applyUpdate u) (memGet k m) else memGet k' m)"
    by (simp add: memUpdate_def memGet_def update_conv split: option.splits)
qed

section \<open>Browser local storage\<close>

text \<open>A credential as JSON: the public key as a list of numbers.\<close>

type_synonym serialized = "stored_credential \<times> nat list"

definition serializeCredential :: "stored_credential \<Rightarrow> serialized" where
  "serializeCredential c = (c\<lparr>scPublicKey := []\<rparr>, map unat (scPublicKey c))"

definition deserializeCredential :: "serialized \<Rightarrow> stored_credential" where
  "deserializeCredential d = (fst d)\<lparr>scPublicKey := map word_of_nat (snd d)\<rparr>"

lemma deserialize_serialize [simp]: "deserializeCredential (serializeCredential c) = c"
  by (simp add: deserializeCredential_def serializeCredential_def comp_def)

text \<open>
  The item under the key: absent, text that is not JSON, or an object. An object lists its
  integer keys first, in ascending order, then the others as they were added.
\<close>

datatype 'a ls_item = NoItem | CorruptItem | JsonItem 'a

definition isIndexKey :: "string \<Rightarrow> bool" where
  "isIndexKey k \<longleftrightarrow> isDigits k \<and> decimal (digitsValue k) = k \<and> digitsValue k < 2 ^ 32 - 1"

definition objectOrder :: "(string \<times> 'v) list \<Rightarrow> (string \<times> 'v) list" where
  "objectOrder es = sort_key (\<lambda>e. digitsValue (fst e)) (filter (\<lambda>e. isIndexKey (fst e)) es) @
     filter (\<lambda>e. \<not> isIndexKey (fst e)) es"

record local_storage =
  lsAvailable :: bool
  lsCredentials :: "(string \<times> serialized) list ls_item"
  lsSession :: "stored_session ls_item"

definition lsGetStorage :: "local_storage \<Rightarrow> (string \<times> stored_credential) list result" where
  "lsGetStorage m =
     (if \<not> lsAvailable m then Inl (JsError ''localStorage is not available in this environment'')
      else (case lsCredentials m of
          NoItem \<Rightarrow> Inr []
        | CorruptItem \<Rightarrow> Inr []
        | JsonItem obj \<Rightarrow> Inr (map (\<lambda>(k, d). (k, deserializeCredential d)) obj)))"

definition lsSetStorage :: "(string \<times> stored_credential) list \<Rightarrow> local_storage \<Rightarrow> local_storage" where
  "lsSetStorage cs m = m\<lparr>lsCredentials := JsonItem (objectOrder (map (\<lambda>(k, c). (k, serializeCredential c)) cs))\<rparr>"

definition lsSave :: "stored_credential \<Rightarrow> local_storage \<Rightarrow> local_storage result" where
  "lsSave c m = bindE (lsGetStorage m) (\<lambda>cs. Inr (lsSetStorage (AList.update (scCredentialId c) c cs) m))"

definition lsGet :: "string \<Rightarrow> local_storage \<Rightarrow> stored_credential option result" where
  "lsGet k m = bindE (lsGetStorage m) (\<lambda>cs. Inr (map_of cs k))"

definition lsGetByContract :: "string \<Rightarrow> local_storage \<Rightarrow> stored_credential list result" where
  "lsGetByContract contractId m =
     bindE (lsGetStorage m) (\<lambda>cs. Inr (filter (\<lambda>c. scContractId c = contractId) (map snd cs)))"

definition lsGetAll :: "local_storage \<Rightarrow> stored_credential list result" where
  "lsGetAll m = bindE (lsGetStorage m) (\<lambda>cs. Inr (map snd cs))"

definition lsDelete :: "string \<Rightarrow> local_storage \<Rightarrow> local_storage result" where
  "lsDelete k m = bindE (lsGetStorage m) (\<lambda>cs. Inr (lsSetStorage (AList.delete k cs) m))"

definition lsUpdate :: "string \<Rightarrow> credential_update \<Rightarrow> local_storage \<Rightarrow> local_storage result" where
  "lsUpdate k u m = bindE (lsGetStorage m) (\<lambda>cs. Inr (case map_of cs k of
     None \<Rightarrow> m
   | Some c \<Rightarrow> lsSetStorage (AList.update k (applyUpdate u c) cs) m))"

definition lsClear :: "local_storage \<Rightarrow> local_storage result" where
  "lsClear m = (if \<not> lsAvailable m then Inl (JsError ''localStorage is not defined'')
     else Inr (m\<lparr>lsCredentials := NoItem, lsSession := NoItem\<rparr>))"

definition lsSaveSession :: "stored_session \<Rightarrow> local_storage \<Rightarrow> local_storage result" where
  "lsSaveSession s m =
     (if \<not> lsAvailable m then Inl (JsError ''localStorage is not available in this environment'')
      else Inr (m\<lparr>lsSession := JsonItem s\<rparr>))"

definition lsGetSession :: "local_storage \<Rightarrow> stored_session option" where
  "lsGetSession m = (if \<not> lsAvailable m then None
     else (case lsSession m of JsonItem s \<Rightarrow> Some s | _ \<Rightarrow> None))"

definition lsClearSession :: "local_storage \<Rightarrow> local_storage" where
  "lsClearSession m = (if lsAvailable m then m\<lparr>lsSession := NoItem\<rparr> else m)"

text \<open>The operations of an available store, without the error.\<close>

definition orSame :: "'m \<Rightarrow> 'm result \<Rightarrow> 'm" where
  "orSame m r = (case r of Inr m' \<Rightarrow> m' | Inl e \<Rightarrow> m)"

definition orNone :: "'a \<Rightarrow> 'a result \<Rightarrow> 'a" where
  "orNone d r = (case r of Inr x \<Rightarrow> x | Inl e \<Rightarrow> d)"

lemma or_simps [simp]: "orSame m (Inr x) = x" "orNone d (Inr y) = y"
  by (simp_all add: orSame_def orNone_def)

definition lsEntries :: "local_storage \<Rightarrow> (string \<times> stored_credential) list" where
  "lsEntries m = orNone [] (lsGetStorage m)"

definition lsOk :: "local_storage \<Rightarrow> bool" where
  "lsOk m \<longleftrightarrow> lsAvailable m \<and> credentialsOk (lsEntries m)"

lemma lsOk_get: "lsOk m \<Longrightarrow> lsGetStorage m = Inr (lsEntries m)"
  by (auto simp: lsOk_def lsEntries_def lsGetStorage_def split: ls_item.splits)

lemma mset_objectOrder: "mset (objectOrder es) = mset es"
proof -
  have "mset (objectOrder es) = filter_mset (\<lambda>e. isIndexKey (fst e)) (mset es) +
      filter_mset (\<lambda>e. \<not> isIndexKey (fst e)) (mset es)"
    by (simp add: objectOrder_def)
  then show ?thesis using multiset_partition [of "mset es" "\<lambda>e. isIndexKey (fst e)"] by simp
qed

lemma credentialsOk_mset:
  assumes "mset cs = mset ds"
  shows "credentialsOk cs \<longleftrightarrow> credentialsOk ds"
    and "credentialsOk ds \<Longrightarrow> map_of cs = map_of ds"
proof -
  have k: "distinct (map fst cs) \<longleftrightarrow> distinct (map fst ds)"
    using assms by (metis mset_map mset_eq_imp_distinct_iff)
  have s: "set cs = set ds" using assms by (rule mset_eq_setD)
  show "credentialsOk cs \<longleftrightarrow> credentialsOk ds" using k s by (simp add: credentialsOk_def list_all_iff)
  show "credentialsOk ds \<Longrightarrow> map_of cs = map_of ds"
    using k s by (simp add: credentialsOk_def map_of_inject_set)
qed

lemma lsEntries_set:
  assumes "lsAvailable m"
  shows "lsAvailable (lsSetStorage cs m)" "mset (lsEntries (lsSetStorage cs m)) = mset cs"
proof -
  show "lsAvailable (lsSetStorage cs m)" using assms by (simp add: lsSetStorage_def)
  have "mset (lsEntries (lsSetStorage cs m)) =
      image_mset (\<lambda>(k, d). (k, deserializeCredential d)) (mset (map (\<lambda>(k, c). (k, serializeCredential c)) cs))"
    using assms by (simp add: lsEntries_def lsGetStorage_def lsSetStorage_def mset_objectOrder)
  also have "\<dots> = mset (map ((\<lambda>(k, d). (k, deserializeCredential d)) \<circ> (\<lambda>(k, c). (k, serializeCredential c))) cs)"
    by (simp only: mset_map multiset.map_comp)
  also have "(\<lambda>(k, d). (k, deserializeCredential d)) \<circ> (\<lambda>(k, c). (k, serializeCredential c)) = id"
    by (rule ext) (simp add: case_prod_beta)
  finally show "mset (lsEntries (lsSetStorage cs m)) = mset cs" by simp
qed

lemma lsSet_ok:
  assumes "lsOk m" "credentialsOk cs"
  shows "lsOk (lsSetStorage cs m)" "map_of (lsEntries (lsSetStorage cs m)) = map_of cs"
  using lsEntries_set [of m cs] credentialsOk_mset [of "lsEntries (lsSetStorage cs m)" cs] assms
  by (simp_all add: lsOk_def)

abbreviation "lsSave' c m \<equiv> orSame m (lsSave c m)"
abbreviation "lsGet' k m \<equiv> orNone None (lsGet k m)"
abbreviation "lsGetAll' m \<equiv> orNone [] (lsGetAll m)"
abbreviation "lsDelete' k m \<equiv> orSame m (lsDelete k m)"
abbreviation "lsUpdate' k u m \<equiv> orSame m (lsUpdate k u m)"

lemma lsOps:
  assumes "lsOk m"
  shows "lsSave' c m = lsSetStorage (AList.update (scCredentialId c) c (lsEntries m)) m"
    "lsGet' k m = map_of (lsEntries m) k" "lsGetAll' m = map snd (lsEntries m)"
    "lsDelete' k m = lsSetStorage (AList.delete k (lsEntries m)) m"
    "lsUpdate' k u m = (case map_of (lsEntries m) k of None \<Rightarrow> m
      | Some c \<Rightarrow> lsSetStorage (AList.update k (applyUpdate u c) (lsEntries m)) m)"
  using lsOk_get [OF assms]
  by (simp_all add: lsSave_def lsGet_def lsGetAll_def lsDelete_def lsUpdate_def)

interpretation local: credential_store lsOk lsSave' lsGet' lsGetAll' lsDelete' lsUpdate'
proof
  fix m :: local_storage and k k' c u
  assume m: "lsOk m"
  then have e: "credentialsOk (lsEntries m)" by (simp add: lsOk_def)
  note s = lsSet_ok [OF m credentialsOk_update [OF e]] and d = lsSet_ok [OF m credentialsOk_delete [OF e]]
  show "lsOk (lsSave' c m)" by (simp add: lsOps [OF m] s)
  show "lsOk (lsDelete' k m)" by (simp add: lsOps [OF m] d)
  show "lsGet' k (lsSave' c m) = (if k = scCredentialId c then Some c else lsGet' k m)"
    using lsOps (2) [OF s(1)] by (simp add: lsOps [OF m] s update_conv)
  show "lsGet' k' (lsDelete' k m) = (if k' = k then None else lsGet' k' m)"
    using lsOps (2) [OF d(1)] by (simp add: lsOps [OF m] d delete_conv)
  show "lsGet' k m = Some c \<Longrightarrow> scCredentialId c = k"
    using e by (simp add: lsOps [OF m] credentialsOk_get)
  show "c \<in> set (lsGetAll' m) \<longleftrightarrow> lsGet' (scCredentialId c) m = Some c"
    using e by (simp only: lsOps [OF m] credentialsOk_values)
  show "distinct (map scCredentialId (lsGetAll' m))"
    using e by (simp only: lsOps [OF m] credentialsOk_ids) (simp add: credentialsOk_def)
  show "lsOk (lsUpdate' k u m)"
    using m lsSet_ok (1) [OF m credentialsOk_update [OF e, of "applyUpdate u c" for c]]
    by (auto simp: lsOps [OF m] dest: credentialsOk_get [OF e] split: option.splits)
  show "lsGet' k' (lsUpdate' k u m) = (if k' = k then map_option (applyUpdate u) (lsGet' k m) else lsGet' k' m)"
  proof (cases "map_of (lsEntries m) k")
    case None
    then show ?thesis by (simp add: lsOps [OF m])
  next
    case (Some d)
    then have "scCredentialId d = k" by (rule credentialsOk_get [OF e])
    then have "credentialsOk (AList.update k (applyUpdate u d) (lsEntries m))"
      using credentialsOk_update [OF e, of "applyUpdate u d"] by simp
    note w = lsSet_ok [OF m this]
    show ?thesis using Some lsOps (2) [OF w(1)] by (simp add: lsOps [OF m] w update_conv)
  qed
qed

section \<open>IndexedDB\<close>

text \<open>
  The database connection is opened once and its promise kept, also when it was rejected.
  \<open>idbOpenOutcome\<close> is what the browser answers to the next \<^verbatim>\<open>indexedDB.open\<close>, \<open>idbRequest\<close> what it
  answers to a request. Records are kept by key; a listing is in key order.
\<close>

record indexed_db =
  idbPromise :: "unit result option"
  idbOpenOutcome :: "unit result"
  idbRequest :: "unit result"
  idbRecords :: "(string \<times> stored_credential) list"
  idbSession :: "stored_session option"

definition idbGetDB :: "indexed_db \<Rightarrow> unit result \<times> indexed_db" where
  "idbGetDB m = (case idbPromise m of
     Some r \<Rightarrow> (r, m)
   | None \<Rightarrow> (idbOpenOutcome m, m\<lparr>idbPromise := Some (idbOpenOutcome m)\<rparr>))"

definition idbWithStore :: "(indexed_db \<Rightarrow> 'a \<times> indexed_db) \<Rightarrow> indexed_db \<Rightarrow> 'a result \<times> indexed_db" where
  "idbWithStore callback m = (case idbGetDB m of (r, m') \<Rightarrow>
     (case r of
        Inl e \<Rightarrow> (Inl e, m')
      | Inr u \<Rightarrow>
          (case idbRequest m' of
             Inl e \<Rightarrow> (Inl (JsError (''IndexedDB operation failed: '' @ errorMessage e)), m')
           | Inr u' \<Rightarrow> (case callback m' of (x, m'') \<Rightarrow> (Inr x, m'')))))"

definition byKey :: "(string \<times> stored_credential) list \<Rightarrow> stored_credential list" where
  "byKey rs = map snd (sortBy (\<lambda>a b. stringCompare (fst a) (fst b)) rs)"

definition idbSave :: "stored_credential \<Rightarrow> indexed_db \<Rightarrow> unit result \<times> indexed_db" where
  "idbSave c = idbWithStore (\<lambda>m. ((), m\<lparr>idbRecords := AList.update (scCredentialId c) c (idbRecords m)\<rparr>))"

definition idbGet :: "string \<Rightarrow> indexed_db \<Rightarrow> stored_credential option result \<times> indexed_db" where
  "idbGet k = idbWithStore (\<lambda>m. (map_of (idbRecords m) k, m))"

definition idbGetByContract :: "string \<Rightarrow> indexed_db \<Rightarrow> stored_credential list result \<times> indexed_db" where
  "idbGetByContract contractId =
     idbWithStore (\<lambda>m. (filter (\<lambda>c. scContractId c = contractId) (byKey (idbRecords m)), m))"

definition idbGetAll :: "indexed_db \<Rightarrow> stored_credential list result \<times> indexed_db" where
  "idbGetAll = idbWithStore (\<lambda>m. (byKey (idbRecords m), m))"

definition idbDelete :: "string \<Rightarrow> indexed_db \<Rightarrow> unit result \<times> indexed_db" where
  "idbDelete k = idbWithStore (\<lambda>m. ((), m\<lparr>idbRecords := AList.delete k (idbRecords m)\<rparr>))"

definition idbUpdate :: "string \<Rightarrow> credential_update \<Rightarrow> indexed_db \<Rightarrow> unit result \<times> indexed_db" where
  "idbUpdate k u m = (case idbGet k m of (r, m') \<Rightarrow>
     (case r of
        Inl e \<Rightarrow> (Inl e, m')
      | Inr existing \<Rightarrow> (case existing of None \<Rightarrow> (Inr (), m') | Some c \<Rightarrow> idbSave (applyUpdate u c) m')))"

definition idbSaveSession :: "stored_session \<Rightarrow> indexed_db \<Rightarrow> unit result \<times> indexed_db" where
  "idbSaveSession s = idbWithStore (\<lambda>m. ((), m\<lparr>idbSession := Some s\<rparr>))"

definition idbGetSession :: "indexed_db \<Rightarrow> stored_session option result \<times> indexed_db" where
  "idbGetSession = idbWithStore (\<lambda>m. (idbSession m, m))"

definition idbClearSession :: "indexed_db \<Rightarrow> unit result \<times> indexed_db" where
  "idbClearSession = idbWithStore (\<lambda>m. ((), m\<lparr>idbSession := None\<rparr>))"

definition idbClear :: "indexed_db \<Rightarrow> unit result \<times> indexed_db" where
  "idbClear m = (case idbWithStore (\<lambda>m. ((), m\<lparr>idbRecords := []\<rparr>)) m of (r, m') \<Rightarrow>
     (case r of Inl e \<Rightarrow> (Inl e, m') | Inr u \<Rightarrow> idbClearSession m'))"

text \<open>\<^verbatim>\<open>close()\<close> awaits the promise first: after a failed open it throws and forgets nothing.\<close>

definition idbClose :: "indexed_db \<Rightarrow> unit result \<times> indexed_db" where
  "idbClose m = (case idbPromise m of
     None \<Rightarrow> (Inr (), m)
   | Some r \<Rightarrow> (case r of Inl e \<Rightarrow> (Inl e, m) | Inr u \<Rightarrow> (Inr (), m\<lparr>idbPromise := None\<rparr>)))"

definition idbOk :: "indexed_db \<Rightarrow> bool" where
  "idbOk m \<longleftrightarrow> (idbPromise m = Some (Inr ()) \<or> idbPromise m = None \<and> idbOpenOutcome m = Inr ()) \<and>
     idbRequest m = Inr () \<and> credentialsOk (idbRecords m)"

abbreviation "idbSave' c m \<equiv> snd (idbSave c m)"
abbreviation "idbGet' k m \<equiv> orNone None (fst (idbGet k m))"
abbreviation "idbGetAll' m \<equiv> orNone [] (fst (idbGetAll m))"
abbreviation "idbDelete' k m \<equiv> snd (idbDelete k m)"
abbreviation "idbUpdate' k u m \<equiv> snd (idbUpdate k u m)"

text \<open>What an access that succeeds leaves: an open connection.\<close>

definition opened :: "indexed_db \<Rightarrow> indexed_db" where
  "opened m = m\<lparr>idbPromise := Some (Inr ())\<rparr>"

lemma opened_simps [simp]: "idbRecords (opened m) = idbRecords m" "idbSession (opened m) = idbSession m"
  "opened (opened m) = opened m" "idbOk m \<Longrightarrow> idbOk (opened m)"
  by (simp_all add: opened_def idbOk_def)

lemma idbGetDB_ok: "idbOk m \<Longrightarrow> idbGetDB m = (Inr (), opened m)"
  by (cases m) (auto simp: idbOk_def idbGetDB_def opened_def)

lemma idbWithStore_ok: "idbOk m \<Longrightarrow> idbWithStore f m = (Inr (fst (f (opened m))), snd (f (opened m)))"
proof -
  assume m: "idbOk m"
  then have "idbRequest (opened m) = Inr ()" by (simp add: idbOk_def opened_def)
  then show ?thesis by (simp add: idbWithStore_def idbGetDB_ok [OF m] case_prod_beta)
qed

lemma idbOps:
  assumes "idbOk m"
  shows "idbSave' c m = (opened m)\<lparr>idbRecords := AList.update (scCredentialId c) c (idbRecords m)\<rparr>"
    "idbGet' k m = map_of (idbRecords m) k" "idbGetAll' m = byKey (idbRecords m)"
    "idbDelete' k m = (opened m)\<lparr>idbRecords := AList.delete k (idbRecords m)\<rparr>"
    "idbUpdate' k u m = (case map_of (idbRecords m) k of None \<Rightarrow> opened m
      | Some c \<Rightarrow> (opened m)\<lparr>idbRecords := AList.update (scCredentialId c) (applyUpdate u c) (idbRecords m)\<rparr>)"
  using assms
  by (simp_all add: idbSave_def idbGet_def idbGetAll_def idbDelete_def idbUpdate_def idbWithStore_ok
      split: option.splits)

lemma idbOk_records: "idbOk m \<Longrightarrow> credentialsOk rs \<Longrightarrow> idbOk ((opened m)\<lparr>idbRecords := rs\<rparr>)"
  by (simp add: idbOk_def opened_def)

lemma byKey_set [simp]: "set (byKey rs) = set (map snd rs)"
  by (simp add: byKey_def)

lemma byKey_ids:
  assumes "credentialsOk rs"
  shows "distinct (map scCredentialId (byKey rs))"
proof -
  let ?s = "sortBy (\<lambda>a b. stringCompare (fst a) (fst b)) rs"
  have "credentialsOk ?s" using assms credentialsOk_mset (1) [of ?s rs] by simp
  then show ?thesis unfolding byKey_def by (simp only: credentialsOk_ids) (simp add: credentialsOk_def)
qed

interpretation idb: credential_store idbOk idbSave' idbGet' idbGetAll' idbDelete' idbUpdate'
proof
  fix m :: indexed_db and k k' c u
  assume m: "idbOk m"
  then have e: "credentialsOk (idbRecords m)" by (simp add: idbOk_def)
  note s = idbOk_records [OF m credentialsOk_update [OF e]] and d = idbOk_records [OF m credentialsOk_delete [OF e]]
  show "idbOk (idbSave' c m)" by (simp add: idbOps [OF m] s)
  show "idbOk (idbDelete' k m)" by (simp add: idbOps [OF m] d)
  show "idbGet' k (idbSave' c m) = (if k = scCredentialId c then Some c else idbGet' k m)"
    using idbOps (2) [OF s] by (simp add: idbOps [OF m] update_conv)
  show "idbGet' k' (idbDelete' k m) = (if k' = k then None else idbGet' k' m)"
    using idbOps (2) [OF d] by (simp add: idbOps [OF m] delete_conv)
  show "idbGet' k m = Some c \<Longrightarrow> scCredentialId c = k"
    using e by (simp add: idbOps [OF m] credentialsOk_get)
  show "c \<in> set (idbGetAll' m) \<longleftrightarrow> idbGet' (scCredentialId c) m = Some c"
    using e by (simp only: idbOps [OF m] byKey_set credentialsOk_values)
  show "distinct (map scCredentialId (idbGetAll' m))"
    using e by (simp add: idbOps [OF m] byKey_ids)
  show "idbOk (idbUpdate' k u m)"
    using m s [of "applyUpdate u c" for c] by (auto simp: idbOps [OF m] split: option.splits)
  show "idbGet' k' (idbUpdate' k u m) = (if k' = k then map_option (applyUpdate u) (idbGet' k m) else idbGet' k' m)"
  proof (cases "map_of (idbRecords m) k")
    case None
    then show ?thesis using m by (simp add: idbOps [OF m] idbOps (2) [of "opened m"])
  next
    case (Some d)
    then have "scCredentialId d = k" by (rule credentialsOk_get [OF e])
    then show ?thesis
      using Some idbOps (2) [OF s [of "applyUpdate u d"]] by (simp add: idbOps [OF m] update_conv)
  qed
qed

section \<open>Properties\<close>


text \<open>Local storage whose text cannot be parsed is read as empty, and the next write replaces
  the unreadable data for good: a save keeps only the new credential, a deletion keeps nothing.\<close>

theorem corrupt_storage_is_overwritten:
  "lsGetAll \<lparr>lsAvailable = True, lsCredentials = CorruptItem, lsSession = s\<rparr> = Inr [] \<and>
   lsDelete k \<lparr>lsAvailable = True, lsCredentials = CorruptItem, lsSession = s\<rparr> =
     Inr \<lparr>lsAvailable = True, lsCredentials = JsonItem [], lsSession = s\<rparr> \<and>
   bindE (lsSave c \<lparr>lsAvailable = True, lsCredentials = CorruptItem, lsSession = s\<rparr>) lsGetAll = Inr [c]"
  by (auto simp: lsGetAll_def lsGetStorage_def lsDelete_def lsSave_def lsSetStorage_def objectOrder_def)

text \<open>A database that failed to open once stays unusable: every later access repeats the
  first error, whatever the browser would answer now, and \<^verbatim>\<open>close()\<close> does not reset it.\<close>

theorem failed_open_is_kept:
  assumes "idbPromise m = None" "idbOpenOutcome m = Inl e"
  shows "fst (idbGet k m) = Inl e \<and>
     (let m' = (snd (idbGet k m))\<lparr>idbOpenOutcome := Inr ()\<rparr> in
      fst (idbGet k m') = Inl e \<and> idbClose m' = (Inl e, m') \<and> fst (idbSave c m') = Inl e)"
  using assms by (simp add: idbGet_def idbSave_def idbWithStore_def idbGetDB_def idbClose_def Let_def)

lemma failed_open_is_kept_witness:
  "fst (idbGet ''k'' \<lparr>idbPromise = None, idbOpenOutcome = Inl (JsError ''blocked''), idbRequest = Inr (),
     idbRecords = [], idbSession = None\<rparr>) = Inl (JsError ''blocked'')"
  using failed_open_is_kept [of "\<lparr>idbPromise = None, idbOpenOutcome = Inl (JsError ''blocked''),
    idbRequest = Inr (), idbRecords = [], idbSession = None\<rparr>" "JsError ''blocked''" "''k''"] by simp

end
