(* ===== verification/Kit_World.thy ===== *)
theory Kit_World
  imports Kit_Storage
begin

text \<open>
  The stateful part of the kit as explicit state passing. A computation takes the world and
  returns its result or the error it throws, with the world it leaves. The world holds the
  credential store, the kit's connection state and the trace of everything the kit did to the
  outside: requests to services, signatures, events. Services are not part of the repository:
  \<open>services\<close> holds their answers, each a function of the trace so far and of the request, so that
  they may change over time and may throw.
\<close>

section \<open>Transactions\<close>

datatype operation =
    InvokeHostFunction host_function "auth_entry list option"
  | OtherOperation string

record transaction =
  txSource :: string
  txOps :: "operation list"
  txBody :: buffer

text \<open>\<^verbatim>\<open>contract.AssembledTransaction\<close>: what the code reads of it.\<close>

record assembled =
  atBuilt :: "transaction option"
  atSimAuth :: "auth_entry list option"
  atLatestLedger :: "nat option"
  atSigned :: "transaction option"

section \<open>Effects\<close>

text \<open>JSON values, as \<^verbatim>\<open>JSON.parse\<close> and \<^verbatim>\<open>JSON.stringify\<close> see them.\<close>

datatype json = JNull | JBool bool | JNum jsnum | JStr string | JArr "json list" | JObj "(string \<times> json) list"

text \<open>
  An HTTP response: its status line, the text of its body (\<open>None\<close> where reading it fails) and the
  JSON it parses to, or the error of parsing it. A request may also be aborted by its timer or fail.
\<close>

record http_response =
  hrOk :: bool
  hrStatus :: nat
  hrStatusText :: string
  hrText :: "string option"
  hrJson :: "json result"

datatype fetch_answer = Fetched http_response | FetchAborted | FetchFailed kit_error

datatype kit_event =
    WalletConnected string string
  | WalletDisconnected string
  | CredentialCreated stored_credential
  | CredentialDeleted string
  | SessionExpired string string
  | TransactionSigned string "string option"
  | TransactionSubmitted string bool

datatype effect =
    FxRelayerSend host_function "auth_entry list"
  | FxRelayerSendXdr transaction
  | FxRpcSend transaction
  | FxRpcPoll string
  | FxRpcGetTransaction string
  | FxRpcGetAccount string
  | FxRpcSimulate transaction
  | FxRpcGetContractData string
  | FxSignTransaction string transaction
  | FxSignAuth string auth_entry
  | FxPasskey string
  | FxHistory string
  | FxDeploySend "transaction option"
  | FxRpcLatestLedger
  | FxFetch string "json option"
  | FxEvent kit_event

record world =
  wStorage :: memory_storage
  wContractId :: "string option"
  wCredentialId :: "string option"
  wWallet :: "string option"
  wRules :: "context_rule list result option"
  wSigner :: "signer result option"
  wTrace :: "effect list"

section \<open>Computations\<close>

type_synonym 'a act = "world \<Rightarrow> 'a result \<times> world"

definition returnA :: "'a \<Rightarrow> 'a act" where
  "returnA x w = (Inr x, w)"

definition throwA :: "kit_error \<Rightarrow> 'a act" where
  "throwA e w = (Inl e, w)"

definition bindA :: "'a act \<Rightarrow> ('a \<Rightarrow> 'b act) \<Rightarrow> 'b act" where
  "bindA m f w = (case m w of (r, w') \<Rightarrow> (case r of Inl e \<Rightarrow> (Inl e, w') | Inr x \<Rightarrow> f x w'))"

text \<open>\<^verbatim>\<open>try { m } catch (err) { h(err) }\<close>: what \<open>m\<close> did before it threw stays done.\<close>

definition catchA :: "'a act \<Rightarrow> (kit_error \<Rightarrow> 'a act) \<Rightarrow> 'a act" where
  "catchA m h w = (case m w of (r, w') \<Rightarrow> (case r of Inl e \<Rightarrow> h e w' | Inr x \<Rightarrow> (Inr x, w')))"

definition liftA :: "'a result \<Rightarrow> 'a act" where
  "liftA r w = (r, w)"

definition askA :: "(world \<Rightarrow> 'a) \<Rightarrow> 'a act" where
  "askA f w = (Inr (f w), w)"

definition modifyA :: "(world \<Rightarrow> world) \<Rightarrow> unit act" where
  "modifyA f w = (Inr (), f w)"

definition doA :: "effect \<Rightarrow> unit act" where
  "doA x = modifyA (\<lambda>w. w\<lparr>wTrace := wTrace w @ [x]\<rparr>)"

text \<open>A request: it is recorded, and answered by the service, which sees the trace before it.\<close>

definition requestA :: "effect \<Rightarrow> (effect list \<Rightarrow> 'a result) \<Rightarrow> 'a act" where
  "requestA x answer w = (answer (wTrace w), w\<lparr>wTrace := wTrace w @ [x]\<rparr>)"

fun mapA :: "('a \<Rightarrow> 'b act) \<Rightarrow> 'a list \<Rightarrow> 'b list act" where
  "mapA f [] = returnA []"
| "mapA f (x # xs) = bindA (f x) (\<lambda>y. bindA (mapA f xs) (\<lambda>ys. returnA (y # ys)))"

definition emitA :: "kit_event \<Rightarrow> unit act" where
  "emitA e = doA (FxEvent e)"

section \<open>Storage access\<close>

definition storageGet :: "string \<Rightarrow> stored_credential option act" where
  "storageGet k = askA (\<lambda>w. memGet k (wStorage w))"

definition storageGetAll :: "stored_credential list act" where
  "storageGetAll = askA (\<lambda>w. memGetAll (wStorage w))"

definition storageGetByContract :: "string \<Rightarrow> stored_credential list act" where
  "storageGetByContract c = askA (\<lambda>w. memGetByContract c (wStorage w))"

definition storageSave :: "stored_credential \<Rightarrow> unit act" where
  "storageSave c = modifyA (\<lambda>w. w\<lparr>wStorage := memSave c (wStorage w)\<rparr>)"

definition storageDelete :: "string \<Rightarrow> unit act" where
  "storageDelete k = modifyA (\<lambda>w. w\<lparr>wStorage := memDelete k (wStorage w)\<rparr>)"

definition storageUpdate :: "string \<Rightarrow> credential_update \<Rightarrow> unit act" where
  "storageUpdate k u = modifyA (\<lambda>w. w\<lparr>wStorage := memUpdate k u (wStorage w)\<rparr>)"

definition storageSaveSession :: "stored_session \<Rightarrow> unit act" where
  "storageSaveSession s = modifyA (\<lambda>w. w\<lparr>wStorage := memSaveSession s (wStorage w)\<rparr>)"

definition storageGetSession :: "stored_session option act" where
  "storageGetSession = askA (\<lambda>w. memGetSession (wStorage w))"

definition storageClearSession :: "unit act" where
  "storageClearSession = modifyA (\<lambda>w. w\<lparr>wStorage := memClearSession (wStorage w)\<rparr>)"

section \<open>Services\<close>

record relayer_response =
  rrSuccess :: bool
  rrError :: "string option"
  rrHash :: "string option"

datatype send_response = SendError "string option" string | SendAccepted string

datatype poll_response = PollSuccess "nat option" | PollFailed "string option" | PollNotFound

text \<open>\<^verbatim>\<open>getTransaction\<close>: on success its ledger, the hash of the envelope and the inner transaction.\<close>

datatype get_transaction = GotTransaction nat buffer transaction | FailedTransaction | NoTransaction

text \<open>A simulation: its error text, or its resource data and the value the call returned.\<close>

datatype simulate_response = SimFailed string | SimOk buffer "scval option"

text \<open>
  \<^verbatim>\<open>AssembledTransaction.send\<close>: the transaction is still pending when the SDK stops waiting, or the
  hash the network returned and what it then reports (\<open>None\<close>: nothing yet).
\<close>

datatype sent_tx = StillPending | SentTx "string option" "poll_response option"

text \<open>\<open>svAssemble\<close> is \<^verbatim>\<open>rpc.assembleTransaction\<close> of the SDK on a transaction and simulation data.\<close>

record services =
  svRelayer :: bool
  svRelayerSend :: "effect list \<Rightarrow> host_function \<Rightarrow> auth_entry list \<Rightarrow> relayer_response result"
  svRelayerSendXdr :: "effect list \<Rightarrow> transaction \<Rightarrow> relayer_response result"
  svRpcSend :: "effect list \<Rightarrow> transaction \<Rightarrow> send_response result"
  svRpcPoll :: "effect list \<Rightarrow> string \<Rightarrow> poll_response result"
  svRpcGetTransaction :: "effect list \<Rightarrow> string \<Rightarrow> get_transaction result"
  svRpcGetAccount :: "effect list \<Rightarrow> string \<Rightarrow> unit result"
  svRpcSimulate :: "effect list \<Rightarrow> transaction \<Rightarrow> simulate_response result"
  svRpcGetContractData :: "effect list \<Rightarrow> string \<Rightarrow> executable result"
  svRpcLatestLedger :: "effect list \<Rightarrow> nat result"
  svDeploySend :: "effect list \<Rightarrow> transaction option \<Rightarrow> sent_tx result"
  svFetch :: "effect list \<Rightarrow> string \<Rightarrow> json option \<Rightarrow> fetch_answer"
  svNow :: "effect list \<Rightarrow> nat"
  svAssemble :: "transaction \<Rightarrow> buffer \<Rightarrow> transaction"

text \<open>The configured kit: the SDK packages, its services, its network and its deployer's public key.\<close>

record kit_env =
  keSdk :: sdk
  keServices :: services
  keNetwork :: string
  keDeployer :: string

section \<open>Running a computation\<close>

named_theorems act_simps \<open>the result and the world of a computation, step by step\<close>

lemma run_simps [act_simps]:
  "returnA y w = (Inr y, w)" "throwA e w = (Inl e, w)" "liftA r w = (r, w)" "askA g w = (Inr (g w), w)"
  "modifyA f w = (Inr (), f w)" "requestA x a w = (a (wTrace w), w\<lparr>wTrace := wTrace w @ [x]\<rparr>)"
  by (simp_all add: returnA_def throwA_def liftA_def askA_def modifyA_def requestA_def)

lemma bindA_Inr:
  "bindA m f w = (Inr y, w') \<longleftrightarrow> (\<exists>x w1. m w = (Inr x, w1) \<and> f x w1 = (Inr y, w'))"
  by (auto simp: bindA_def split: prod.splits sum.splits)

lemma bindA_InrE:
  "bindA m f w = (Inr y, w') \<Longrightarrow> (\<And>x w1. m w = (Inr x, w1) \<Longrightarrow> f x w1 = (Inr y, w') \<Longrightarrow> P) \<Longrightarrow> P"
  by (auto simp: bindA_Inr)

lemma bindA_Inl:
  "bindA m f w = (Inl e, w') \<longleftrightarrow> m w = (Inl e, w') \<or> (\<exists>x w1. m w = (Inr x, w1) \<and> f x w1 = (Inl e, w'))"
  by (auto simp: bindA_def split: prod.splits sum.splits)

lemma catchA_Inr:
  "catchA m h w = (Inr y, w') \<longleftrightarrow> m w = (Inr y, w') \<or> (\<exists>e w1. m w = (Inl e, w1) \<and> h e w1 = (Inr y, w'))"
  by (auto simp: catchA_def split: prod.splits sum.splits)

lemma catchA_Inl:
  "catchA m h w = (Inl e, w') \<longleftrightarrow> (\<exists>e1 w1. m w = (Inl e1, w1) \<and> h e1 w1 = (Inl e, w'))"
  by (auto simp: catchA_def split: prod.splits sum.splits)

lemmas act_cases = bindA_Inr bindA_Inl catchA_Inr catchA_Inl

section \<open>What a computation may do\<close>

text \<open>
  \<open>onlyDoes P m\<close>: whatever the world and however \<open>m\<close> ends, it only appends effects that satisfy
  \<open>P\<close> to the trace. \<open>keeps f m\<close>: it leaves the part \<open>f\<close> of the world alone. Both are proved along
  the structure of a computation by the rules below.
\<close>

definition onlyDoes :: "(effect \<Rightarrow> bool) \<Rightarrow> 'a act \<Rightarrow> bool" where
  "onlyDoes P m \<longleftrightarrow> (\<forall>w. \<exists>es. wTrace (snd (m w)) = wTrace w @ es \<and> list_all P es)"

definition keeps :: "(world \<Rightarrow> 'b) \<Rightarrow> 'a act \<Rightarrow> bool" where
  "keeps f m \<longleftrightarrow> (\<forall>w. f (snd (m w)) = f w)"

named_theorems does_rules \<open>rules for \<open>onlyDoes\<close>\<close>
named_theorems keeps_rules \<open>rules for \<open>keeps\<close>\<close>

lemma onlyDoesD:
  "onlyDoes P m \<Longrightarrow> m w = (r, w') \<Longrightarrow> \<exists>es. wTrace w' = wTrace w @ es \<and> list_all P es"
  by (metis onlyDoes_def snd_conv)

lemma onlyDoes_basic [does_rules]:
  "onlyDoes P (returnA x)" "onlyDoes P (throwA e)" "onlyDoes P (liftA r)" "onlyDoes P (askA f)"
  by (simp_all add: onlyDoes_def run_simps)

lemma onlyDoes_modify: "(\<And>w. wTrace (f w) = wTrace w) \<Longrightarrow> onlyDoes P (modifyA f)"
  by (simp add: onlyDoes_def run_simps)

lemma onlyDoes_doA [does_rules]: "P x \<Longrightarrow> onlyDoes P (doA x)"
  by (simp add: onlyDoes_def doA_def run_simps)

lemma onlyDoes_request [does_rules]: "P x \<Longrightarrow> onlyDoes P (requestA x a)"
  by (simp add: onlyDoes_def run_simps)

lemma onlyDoes_bind [does_rules]:
  assumes "onlyDoes P m" "\<And>x. onlyDoes P (f x)"
  shows "onlyDoes P (bindA m f)"
  unfolding onlyDoes_def
proof
  fix w
  obtain r w1 where m: "m w = (r, w1)" by (cases "m w")
  obtain es where es: "wTrace w1 = wTrace w @ es" "list_all P es" using onlyDoesD [OF assms(1) m] by blast
  show "\<exists>es. wTrace (snd (bindA m f w)) = wTrace w @ es \<and> list_all P es"
  proof (cases r)
    case (Inr x)
    obtain r2 w2 where f: "f x w1 = (r2, w2)" by (cases "f x w1")
    then obtain es2 where "wTrace w2 = wTrace w1 @ es2" "list_all P es2"
      using onlyDoesD [OF assms(2) f] by blast
    with m f es Inr show ?thesis by (simp add: bindA_def)
  qed (use m es in \<open>simp add: bindA_def\<close>)
qed

text \<open>The same, where the continuation matters only for results the first part can return.\<close>

lemma onlyDoes_bind_result:
  assumes "onlyDoes P m" "\<And>x w w'. m w = (Inr x, w') \<Longrightarrow> onlyDoes P (f x)"
  shows "onlyDoes P (bindA m f)"
  unfolding onlyDoes_def
proof
  fix w
  obtain r w1 where m: "m w = (r, w1)" by (cases "m w")
  obtain es where es: "wTrace w1 = wTrace w @ es" "list_all P es" using onlyDoesD [OF assms(1) m] by blast
  show "\<exists>es. wTrace (snd (bindA m f w)) = wTrace w @ es \<and> list_all P es"
  proof (cases r)
    case (Inr x)
    obtain r2 w2 where f: "f x w1 = (r2, w2)" by (cases "f x w1")
    then obtain es2 where "wTrace w2 = wTrace w1 @ es2" "list_all P es2"
      using onlyDoesD [OF assms(2) f] m Inr by blast
    with m f es Inr show ?thesis by (simp add: bindA_def)
  qed (use m es in \<open>simp add: bindA_def\<close>)
qed

lemma onlyDoes_catch [does_rules]:
  assumes "onlyDoes P m" "\<And>e. onlyDoes P (h e)"
  shows "onlyDoes P (catchA m h)"
  unfolding onlyDoes_def
proof
  fix w
  obtain r w1 where m: "m w = (r, w1)" by (cases "m w")
  obtain es where es: "wTrace w1 = wTrace w @ es" "list_all P es" using onlyDoesD [OF assms(1) m] by blast
  show "\<exists>es. wTrace (snd (catchA m h w)) = wTrace w @ es \<and> list_all P es"
  proof (cases r)
    case (Inl e)
    obtain r2 w2 where h: "h e w1 = (r2, w2)" by (cases "h e w1")
    then obtain es2 where "wTrace w2 = wTrace w1 @ es2" "list_all P es2"
      using onlyDoesD [OF assms(2) h] by blast
    with m h es Inl show ?thesis by (simp add: catchA_def)
  qed (use m es in \<open>simp add: catchA_def\<close>)
qed

lemma onlyDoes_map [does_rules]: "(\<And>x. onlyDoes P (f x)) \<Longrightarrow> onlyDoes P (mapA f xs)"
  by (induction xs) (simp_all add: does_rules)

lemma onlyDoes_if [does_rules]: "(b \<Longrightarrow> onlyDoes P m) \<Longrightarrow> (\<not> b \<Longrightarrow> onlyDoes P n) \<Longrightarrow> onlyDoes P (if b then m else n)"
  by simp

lemma onlyDoes_let [does_rules]: "(\<And>y. y = x \<Longrightarrow> onlyDoes P (f y)) \<Longrightarrow> onlyDoes P (let y = x in f y)"
  by simp

lemma onlyDoes_mono: "onlyDoes P m \<Longrightarrow> (\<And>x. P x \<Longrightarrow> Q x) \<Longrightarrow> onlyDoes Q m"
  unfolding onlyDoes_def by (metis list.pred_mono_strong)

lemma onlyDoes_cases [does_rules]:
  "(x = None \<Longrightarrow> onlyDoes P m) \<Longrightarrow> (\<And>y. x = Some y \<Longrightarrow> onlyDoes P (f y)) \<Longrightarrow>
     onlyDoes P (case x of None \<Rightarrow> m | Some y \<Rightarrow> f y)"
  "(\<And>a b. p = (a, b) \<Longrightarrow> onlyDoes P (g a b)) \<Longrightarrow> onlyDoes P (case p of (a, b) \<Rightarrow> g a b)"
  "(\<And>e. r = Inl e \<Longrightarrow> onlyDoes P (h e)) \<Longrightarrow> (\<And>y. r = Inr y \<Longrightarrow> onlyDoes P (k y)) \<Longrightarrow>
     onlyDoes P (case r of Inl e \<Rightarrow> h e | Inr y \<Rightarrow> k y)"
  "(l = [] \<Longrightarrow> onlyDoes P m) \<Longrightarrow> (\<And>y ys. l = y # ys \<Longrightarrow> onlyDoes P (c y ys)) \<Longrightarrow>
     onlyDoes P (case l of [] \<Rightarrow> m | y # ys \<Rightarrow> c y ys)"
  by (simp_all split: option.splits prod.splits sum.splits list.splits)

lemma onlyDoes_storage [does_rules]:
  "onlyDoes P (storageGet k)" "onlyDoes P storageGetAll" "onlyDoes P (storageGetByContract k)"
  "onlyDoes P (storageSave c)" "onlyDoes P (storageDelete k)" "onlyDoes P (storageUpdate k u)"
  "onlyDoes P (storageSaveSession s)" "onlyDoes P storageGetSession" "onlyDoes P storageClearSession"
  by (simp_all add: storageGet_def storageGetAll_def storageGetByContract_def storageSave_def
      storageDelete_def storageUpdate_def storageSaveSession_def storageGetSession_def
      storageClearSession_def does_rules onlyDoes_modify)

lemma onlyDoes_emit [does_rules]: "P (FxEvent e) \<Longrightarrow> onlyDoes P (emitA e)"
  by (simp add: emitA_def does_rules)

lemma keepsD: "keeps f m \<Longrightarrow> m w = (r, w') \<Longrightarrow> f w' = f w"
  by (metis keeps_def snd_conv)

lemma keeps_basic [keeps_rules]:
  "keeps f (returnA x)" "keeps f (throwA e)" "keeps f (liftA r)" "keeps f (askA g)"
  by (simp_all add: keeps_def run_simps)

lemma keeps_modify [keeps_rules]: "(\<And>w. f (g w) = f w) \<Longrightarrow> keeps f (modifyA g)"
  by (simp add: keeps_def run_simps)

lemma keeps_request [keeps_rules]: "(\<And>w es. f (w\<lparr>wTrace := es\<rparr>) = f w) \<Longrightarrow> keeps f (requestA x a)"
  "(\<And>w es. f (w\<lparr>wTrace := es\<rparr>) = f w) \<Longrightarrow> keeps f (doA x)"
  "(\<And>w es. f (w\<lparr>wTrace := es\<rparr>) = f w) \<Longrightarrow> keeps f (emitA e)"
  by (simp_all add: keeps_def doA_def emitA_def run_simps)

lemma keeps_bind [keeps_rules]: "keeps f m \<Longrightarrow> (\<And>x. keeps f (g x)) \<Longrightarrow> keeps f (bindA m g)"
  unfolding keeps_def bindA_def by (auto split: prod.splits sum.splits) (metis snd_conv)+

lemma keeps_catch [keeps_rules]: "keeps f m \<Longrightarrow> (\<And>e. keeps f (h e)) \<Longrightarrow> keeps f (catchA m h)"
  unfolding keeps_def catchA_def by (auto split: prod.splits sum.splits) (metis snd_conv)+

lemma keeps_map [keeps_rules]: "(\<And>x. keeps f (g x)) \<Longrightarrow> keeps f (mapA g xs)"
  by (induction xs) (simp_all add: keeps_rules)

lemma keeps_if [keeps_rules]: "(b \<Longrightarrow> keeps f m) \<Longrightarrow> (\<not> b \<Longrightarrow> keeps f n) \<Longrightarrow> keeps f (if b then m else n)"
  by simp

lemma keeps_cases [keeps_rules]:
  "(x = None \<Longrightarrow> keeps q m) \<Longrightarrow> (\<And>y. x = Some y \<Longrightarrow> keeps q (f y)) \<Longrightarrow>
     keeps q (case x of None \<Rightarrow> m | Some y \<Rightarrow> f y)"
  "(\<And>a b. p = (a, b) \<Longrightarrow> keeps q (g a b)) \<Longrightarrow> keeps q (case p of (a, b) \<Rightarrow> g a b)"
  "(\<And>e. r = Inl e \<Longrightarrow> keeps q (h e)) \<Longrightarrow> (\<And>y. r = Inr y \<Longrightarrow> keeps q (k y)) \<Longrightarrow>
     keeps q (case r of Inl e \<Rightarrow> h e | Inr y \<Rightarrow> k y)"
  "(l = [] \<Longrightarrow> keeps q m) \<Longrightarrow> (\<And>y ys. l = y # ys \<Longrightarrow> keeps q (c y ys)) \<Longrightarrow>
     keeps q (case l of [] \<Rightarrow> m | y # ys \<Rightarrow> c y ys)"
  by (simp_all split: option.splits prod.splits sum.splits list.splits)

end
