(* ===== verification/Kit_DigestScheme.thy ===== *)
theory Kit_DigestScheme
  imports Kit_Validation
begin

text \<open>
  \<^verbatim>\<open>src/kit/auth-digest-scheme.ts\<close>: which digest formula a wallet's code expects, the table of known
  code hashes merged with the configured one, the check on upgrade targets and the lookup of
  the scheme of the code a wallet runs now. A table is a \<^verbatim>\<open>Map\<close> from lowercase hex hashes.
\<close>

datatype auth_digest_scheme = LegacyConcat | PreimageV1

fun schemeName :: "auth_digest_scheme \<Rightarrow> string" where
  "schemeName LegacyConcat = ''legacy-concat''"
| "schemeName PreimageV1 = ''preimage-v1''"

definition AUTH_DIGEST_SCHEMES :: "auth_digest_scheme list" where
  "AUTH_DIGEST_SCHEMES = [LegacyConcat, PreimageV1]"

type_synonym scheme_table = "(string \<times> auth_digest_scheme) list"

definition KNOWN_AUTH_DIGEST_SCHEMES :: scheme_table where
  "KNOWN_AUTH_DIGEST_SCHEMES =
    [(''1b5f4534a76322da2ad7c745f6900857a6802b0ca79850c35a03561df997785a'', LegacyConcat),
     (''203e2970d9fed24fb5fca2e0aeebb3c1e4648b76dd6601567178e6474c9fec6f'', LegacyConcat),
     (''c514d35ea67eaea9bfc1fb3327854c0c06111bc1ddebd4fe217c504c1004b9e1'', PreimageV1)]"

text \<open>A value given as a scheme, by its text; \<open>None\<close> when \<^verbatim>\<open>isAuthDigestScheme\<close> is false.\<close>

definition isAuthDigestScheme :: "string \<Rightarrow> auth_digest_scheme option" where
  "isAuthDigestScheme value = List.find (\<lambda>s. schemeName s = value) AUTH_DIGEST_SCHEMES"

lemma isAuthDigestScheme_name [simp]: "isAuthDigestScheme (schemeName s) = Some s"
  by (cases s) (simp_all add: isAuthDigestScheme_def AUTH_DIGEST_SCHEMES_def)

lemma isAuthDigestScheme_Some: "isAuthDigestScheme v = Some s \<Longrightarrow> v = schemeName s"
  by (auto simp: isAuthDigestScheme_def AUTH_DIGEST_SCHEMES_def split: if_splits)

datatype hash_field = AccountWasmHash | NewWasmHash

fun fieldText :: "hash_field \<Rightarrow> string" where
  "fieldText AccountWasmHash = ''accountWasmHash''"
| "fieldText NewWasmHash = ''newWasmHash''"

definition assertKnownAuthDigestScheme :: "scheme_table \<Rightarrow> string \<Rightarrow> hash_field \<Rightarrow> unit result" where
  "assertKnownAuthDigestScheme schemes wasmHash field =
     (let normalizedHash = toLower wasmHash in
      if map_of schemes normalizedHash = None
      then Inl (ValidationError (fieldText field @ '' '' @ normalizedHash @
          '' has no known authorization digest scheme'')
        (if field = AccountWasmHash then INVALID_CONFIG else INVALID_INPUT))
      else Inr ())"

record upgrade_policy =
  acceptedWasmHashes :: "string list"
  authDigestSchemes :: scheme_table

text \<open>\<^verbatim>\<open>Buffer.from(s, "hex")\<close>: pairs of hex digits up to the first pair that is not one.\<close>

definition hexValue :: "char \<Rightarrow> nat option" where
  "hexValue c = (let n = of_char c :: nat in
     if 48 \<le> n \<and> n \<le> 57 then Some (n - 48)
     else if 97 \<le> n \<and> n \<le> 102 then Some (n - 87)
     else if 65 \<le> n \<and> n \<le> 70 then Some (n - 55) else None)"

fun fromHex :: "string \<Rightarrow> buffer" where
  "fromHex (a # b # s) = (case (hexValue a, hexValue b) of
     (Some x, Some y) \<Rightarrow> word_of_nat (16 * x + y) # fromHex s
   | _ \<Rightarrow> [])"
| "fromHex _ = []"

lemma hexValue_hexDigit: "n < 16 \<Longrightarrow> hexValue (hexDigit n) = Some n"
proof -
  have "list_all (\<lambda>n. hexValue (hexDigit n) = Some n) [0..<16]"
    by (simp add: upt_rec hexDigit_def hexDigits_def hexValue_def)
  then show "n < 16 \<Longrightarrow> hexValue (hexDigit n) = Some n" by (simp add: list_all_iff)
qed

lemma fromHex_toHex [simp]: "fromHex (toHex b) = b"
proof (induction b)
  case (Cons x b)
  have "unat x < 256" using unsigned_less [of x, where 'a = nat] by simp
  then have "hexValue (hexDigit (unat x div 16)) = Some (unat x div 16)"
    "hexValue (hexDigit (unat x mod 16)) = Some (unat x mod 16)"
    by (simp_all add: hexValue_hexDigit less_mult_imp_div_less)
  with Cons show ?case by (simp add: toHex_Cons hexByte_def)
qed simp

datatype hash_input = HexText string | HashBytes buffer

fun hashInputBytes :: "hash_input \<Rightarrow> buffer" where
  "hashInputBytes (HexText s) = fromHex s"
| "hashInputBytes (HashBytes b) = b"

definition assertUpgradeTarget :: "upgrade_policy \<Rightarrow> hash_input \<Rightarrow> buffer result" where
  "assertUpgradeTarget policy newWasmHash =
     (let wasmHash = hashInputBytes newWasmHash in
      if length wasmHash \<noteq> 32
      then Inl (invalidInput (''newWasmHash must be a 32-byte hash (got '' @
        decimal (length wasmHash) @ '' bytes)''))
      else let targetHash = toHex wasmHash in
      if targetHash \<notin> set (acceptedWasmHashes policy)
      then Inl (invalidInput (''newWasmHash '' @ targetHash @ '' is not in `acceptedWasmHashes`''))
      else bindE (assertKnownAuthDigestScheme (authDigestSchemes policy) targetHash NewWasmHash)
        (\<lambda>_. Inr wasmHash))"

lemma assertUpgradeTarget_ok:
  "assertUpgradeTarget p t = Inr b \<longleftrightarrow> b = hashInputBytes t \<and> length b = 32 \<and>
     toHex b \<in> set (acceptedWasmHashes p) \<and> map_of (authDigestSchemes p) (toHex b) \<noteq> None"
proof -
  have "toLower (toHex x) = toHex x" for x by (simp add: toLower_hex toHex_set)
  then show ?thesis
    by (auto simp: assertUpgradeTarget_def assertKnownAuthDigestScheme_def Let_def bindE_Inr)
qed

fun mergeSchemes :: "scheme_table \<Rightarrow> (string \<times> string) list \<Rightarrow> scheme_table result" where
  "mergeSchemes table [] = Inr table"
| "mergeSchemes table ((wasmHash, value) # rest) =
     (case normalizeHashHex wasmHash of
        None \<Rightarrow> Inl (ValidationError (''authDigestSchemes key must be a 32-byte hex WASM hash (got \"'' @
          wasmHash @ ''\")'') INVALID_CONFIG)
      | Some normalizedHash \<Rightarrow>
          (case isAuthDigestScheme value of
             None \<Rightarrow> Inl (ValidationError (''authDigestSchemes value for '' @ normalizedHash @
               '' must be one of legacy-concat, preimage-v1'') INVALID_CONFIG)
           | Some scheme \<Rightarrow> mergeSchemes (AList.update normalizedHash scheme table) rest))"

definition buildAuthDigestSchemeTable :: "(string \<times> string) list \<Rightarrow> scheme_table result" where
  "buildAuthDigestSchemeTable overrides = mergeSchemes KNOWN_AUTH_DIGEST_SCHEMES overrides"

text \<open>
  The executable of the contract instance comes from \<^verbatim>\<open>rpc.getContractData\<close>, which may throw.
\<close>

definition resolveAuthDigestScheme ::
    "executable result \<Rightarrow> scheme_table \<Rightarrow> string \<Rightarrow> auth_digest_scheme result" where
  "resolveAuthDigestScheme instanceData schemes contractId =
     bindE instanceData (\<lambda>executable.
       (case readInstanceWasmHash executable of
          None \<Rightarrow> Inl (AuthDigestSchemeError contractId ''not-a-wasm-contract'')
        | Some wasmHash \<Rightarrow>
            (case map_of schemes wasmHash of
               None \<Rightarrow> Inl (AuthDigestSchemeError contractId wasmHash)
             | Some scheme \<Rightarrow> Inr scheme)))"

section \<open>Lemmas\<close>

text \<open>The last override for a hash wins over earlier ones and over the built-in table.\<close>

fun lastOverride :: "(string \<times> string) list \<Rightarrow> string \<Rightarrow> string option" where
  "lastOverride [] h = None"
| "lastOverride ((k, v) # rest) h =
     (case lastOverride rest h of Some x \<Rightarrow> Some x
      | None \<Rightarrow> if toLower k = h then Some v else None)"

lemma mergeSchemes_lookup:
  "mergeSchemes t os = Inr t' \<Longrightarrow>
   map_of t' h = (case lastOverride os h of Some v \<Rightarrow> isAuthDigestScheme v | None \<Rightarrow> map_of t h)"
proof (induction t os arbitrary: t' rule: mergeSchemes.induct)
  case (1 t)
  then show ?case by simp
next
  case (2 t k v rest)
  obtain n s where n: "normalizeHashHex k = Some n" and s: "isAuthDigestScheme v = Some s"
    and m: "mergeSchemes (AList.update n s t) rest = Inr t'"
    using "2.prems" by (auto split: option.splits)
  have nk: "n = toLower k" using n by (simp add: normalizeHashHex_Some)
  have "map_of t' h = (case lastOverride rest h of Some v \<Rightarrow> isAuthDigestScheme v
      | None \<Rightarrow> map_of (AList.update n s t) h)"
    by (rule "2.IH" [OF n s m])
  then show ?case
    by (auto simp: nk s update_conv split: option.splits)
qed

lemma mergeSchemes_ok:
  "isOk (mergeSchemes t os) \<longleftrightarrow>
     list_all (\<lambda>(k, v). normalizeHashHex k \<noteq> None \<and> isAuthDigestScheme v \<noteq> None) os"
  by (induction t os rule: mergeSchemes.induct) (auto split: option.splits)

section \<open>Properties\<close>

text \<open>
  A table is built exactly when every configured key is a 32-byte hex hash and every
  value names a scheme; a lookup in it gives the last configured scheme for that hash, and
  the built-in one otherwise.
\<close>

theorem scheme_table_lookup:
  "(case buildAuthDigestSchemeTable os of
      Inl e \<Rightarrow> \<not> list_all (\<lambda>(k, v). normalizeHashHex k \<noteq> None \<and> isAuthDigestScheme v \<noteq> None) os
    | Inr t \<Rightarrow> list_all (\<lambda>(k, v). normalizeHashHex k \<noteq> None \<and> isAuthDigestScheme v \<noteq> None) os \<and>
        map_of t h = (case lastOverride os h of Some v \<Rightarrow> isAuthDigestScheme v
           | None \<Rightarrow> map_of KNOWN_AUTH_DIGEST_SCHEMES h))"
proof (cases "buildAuthDigestSchemeTable os")
  case (Inl e)
  then have "\<not> isOk (mergeSchemes KNOWN_AUTH_DIGEST_SCHEMES os)"
    by (simp add: buildAuthDigestSchemeTable_def)
  with Inl show ?thesis by (simp add: mergeSchemes_ok)
next
  case (Inr t)
  then have t: "mergeSchemes KNOWN_AUTH_DIGEST_SCHEMES os = Inr t"
    by (simp add: buildAuthDigestSchemeTable_def)
  then have "isOk (mergeSchemes KNOWN_AUTH_DIGEST_SCHEMES os)" by simp
  with Inr mergeSchemes_lookup [OF t, of h] show ?thesis by (simp add: mergeSchemes_ok)
qed

text \<open>
  The SDK resolves a scheme only for WASM code found in the table, and the scheme is the
  table's entry for that code's lowercase hex hash; for every other code it throws
  \<open>AuthDigestSchemeError\<close> instead of signing.
\<close>

theorem resolveAuthDigestScheme_exact:
  "resolveAuthDigestScheme (Inr exec) schemes cid = r \<longleftrightarrow>
     (case exec of
        ExecWasm h \<Rightarrow> (case map_of schemes (toHex h) of
            Some s \<Rightarrow> r = Inr s | None \<Rightarrow> r = Inl (AuthDigestSchemeError cid (toHex h)))
      | _ \<Rightarrow> r = Inl (AuthDigestSchemeError cid ''not-a-wasm-contract''))"
  by (auto simp: resolveAuthDigestScheme_def readInstanceWasmHash_def
      split: executable.splits option.splits)

end
