(* ===== verification/Kit_Builders.thy ===== *)
theory Kit_Builders
  imports Kit_DigestScheme "HOL-Library.Log_Nat"
begin

text \<open>
  \<^verbatim>\<open>src/builders.ts\<close>: the constructors an application uses for signers, context rule types and
  policy parameters, with their checks, and the text helpers that show signers and rule types.
\<close>

section \<open>Signers\<close>

definition invalidAddress :: "string \<Rightarrow> kit_error" where
  "invalidAddress m = ValidationError m INVALID_ADDRESS"

definition createDelegatedSigner :: "sdk \<Rightarrow> string \<Rightarrow> signer result" where
  "createDelegatedSigner K publicKey =
     (if \<not> isValidEd25519PublicKey K publicKey
      then Inl (invalidAddress ''Invalid Stellar account address. Must be a valid G... account address.'')
      else Inr (Delegated publicKey))"

definition createExternalSigner :: "sdk \<Rightarrow> string \<Rightarrow> buffer \<Rightarrow> signer result" where
  "createExternalSigner K verifierAddress keyData =
     (if \<not> isValidContract K verifierAddress
      then Inl (invalidAddress ''Invalid contract address. Must be a valid C... contract address.'')
      else Inr (External verifierAddress keyData))"

definition createWebAuthnSigner :: "sdk \<Rightarrow> string \<Rightarrow> buffer \<Rightarrow> buffer \<Rightarrow> signer result" where
  "createWebAuthnSigner K webauthnVerifierAddress publicKey credentialId =
     (let keyData = buildKeyData publicKey credentialId in
      createExternalSigner K webauthnVerifierAddress keyData)"

definition createEd25519Signer :: "sdk \<Rightarrow> string \<Rightarrow> buffer \<Rightarrow> signer result" where
  "createEd25519Signer K ed25519VerifierAddress publicKey =
     (if length publicKey \<noteq> 32 then Inl (invalidInput ''Ed25519 public key must be 32 bytes'')
      else createExternalSigner K ed25519VerifierAddress publicKey)"

section \<open>Context rule types\<close>

definition createDefaultContext :: context_rule_type where
  "createDefaultContext = DefaultRule"

definition createCallContractContext :: "sdk \<Rightarrow> string \<Rightarrow> context_rule_type result" where
  "createCallContractContext K contractAddress =
     (if \<not> isValidContract K contractAddress
      then Inl (invalidAddress ''Invalid contract address. Must be a valid C... contract address.'')
      else Inr (CallContract contractAddress))"

definition createCreateContractContext :: "hash_input \<Rightarrow> context_rule_type result" where
  "createCreateContractContext wasmHash = (case wasmHash of
     HexText text \<Rightarrow>
       (let cleanHash = if take 2 text = ''0x'' then drop 2 text else text in
        if length cleanHash \<noteq> 64
        then Inl (invalidInput ''WASM hash must be 32 bytes (64 hex characters)'')
        else Inr (CreateContractRule (fromHex cleanHash)))
   | HashBytes bytes \<Rightarrow>
       if length bytes \<noteq> 32 then Inl (invalidInput ''WASM hash must be 32 bytes'')
       else Inr (CreateContractRule bytes))"

text \<open>The tag of a caller without types may be something other than a string: \<open>None\<close>.\<close>

definition createCreateContractExternalRefContext ::
    "sdk \<Rightarrow> string \<Rightarrow> string option \<Rightarrow> context_rule_type result" where
  "createCreateContractExternalRefContext K owner tag =
     (if \<not> isValidContract K owner
      then Inl (invalidAddress ''Invalid executable owner. Must be a valid C... contract address.'')
      else (case tag of
          None \<Rightarrow> Inl (invalidInput ''Executable reference tag must be a string'')
        | Some t \<Rightarrow> Inr (CreateContractExternalRef owner t)))"

section \<open>JavaScript arithmetic on policy parameters\<close>

text \<open>
  A sum of integers is rounded to the 53 bits of a double, half to even. \<open>toDouble\<close> is the
  double nearest to a natural number; it is exact up to \<open>2 ^ 53\<close>.
\<close>

definition toDouble :: "nat \<Rightarrow> jsnum" where
  "toDouble n =
     (if n \<le> 2 ^ 53 then Fin (of_nat n)
      else let e = floorlog 2 n - 53; q = n div 2 ^ e; r = n mod 2 ^ e;
          up = 2 * r > 2 ^ e \<or> (2 * r = 2 ^ e \<and> odd q);
          v = (if up then q + 1 else q) * 2 ^ e
        in if v \<ge> 2 ^ 1024 then PosInf else Fin (of_nat v))"

fun jsLess :: "jsnum \<Rightarrow> jsnum \<Rightarrow> bool" where
  "jsLess (Fin p) (Fin q) = (p < q)"
| "jsLess (Fin p) PosInf = True"
| "jsLess NegInf (Fin q) = True"
| "jsLess NegInf PosInf = True"
| "jsLess _ _ = False"

text \<open>\<^verbatim>\<open>totalWeight += weight\<close> for a non-negative total and an integer weight.\<close>

definition addWeight :: "jsnum \<Rightarrow> rat \<Rightarrow> jsnum" where
  "addWeight acc w = (case acc of Fin t \<Rightarrow> toDouble (nat (\<lfloor>t\<rfloor> + \<lfloor>w\<rfloor>)) | x \<Rightarrow> x)"

fun sumWeights :: "jsnum \<Rightarrow> (signer \<times> jsnum) list \<Rightarrow> jsnum result" where
  "sumWeights acc [] = Inr acc"
| "sumWeights acc ((s, weight) # rest) =
     (if jsLess weight (Fin 1) \<or> \<not> isIntegerNum weight
      then Inl (invalidInput ''All weights must be positive integers'')
      else (case weight of Fin w \<Rightarrow> sumWeights (addWeight acc w) rest
            | _ \<Rightarrow> Inl (invalidInput ''All weights must be positive integers'')))"

definition positiveThreshold :: "jsnum \<Rightarrow> unit result" where
  "positiveThreshold threshold =
     (if jsLess threshold (Fin 1) then Inl (invalidInput ''Threshold must be at least 1'')
      else if \<not> isIntegerNum threshold then Inl (invalidInput ''Threshold must be an integer'')
      else Inr ())"

definition createThresholdParams :: "jsnum \<Rightarrow> jsnum result" where
  "createThresholdParams threshold = bindE (positiveThreshold threshold) (\<lambda>_. Inr threshold)"

text \<open>The text of an integral number below \<open>10 ^ 21\<close>, where it has no exponent.\<close>

definition numText :: "jsnum \<Rightarrow> string" where
  "numText x = (case x of Fin q \<Rightarrow> decimal (nat \<lfloor>q\<rfloor>) | PosInf \<Rightarrow> ''Infinity''
     | NegInf \<Rightarrow> ''-Infinity'' | NaN \<Rightarrow> ''NaN'')"

record weighted_params =
  wpSignerWeights :: "(signer \<times> jsnum) list"
  wpThreshold :: jsnum

definition createWeightedThresholdParams ::
    "jsnum \<Rightarrow> (signer \<times> jsnum) list \<Rightarrow> weighted_params result" where
  "createWeightedThresholdParams threshold signerWeights =
     bindE (positiveThreshold threshold) (\<lambda>_.
       if signerWeights = [] then Inl (invalidInput ''At least one signer weight must be provided'')
       else bindE (sumWeights (Fin 0) signerWeights) (\<lambda>totalWeight.
         if jsLess totalWeight threshold
         then Inl (invalidInput (''Sum of weights ('' @ numText totalWeight @ '') must be >= threshold ('' @
           numText threshold @ '')''))
         else Inr \<lparr>wpSignerWeights = signerWeights, wpThreshold = threshold\<rparr>))"

datatype js_amount = BigAmount int | NumAmount jsnum

text \<open>\<^verbatim>\<open>BigInt(number)\<close> throws on a number that is not an integer.\<close>

definition toBigInt :: "js_amount \<Rightarrow> int result" where
  "toBigInt a = (case a of BigAmount n \<Rightarrow> Inr n
   | NumAmount x \<Rightarrow> (case x of
       Fin q \<Rightarrow> if of_int \<lfloor>q\<rfloor> = q then Inr \<lfloor>q\<rfloor>
         else Inl (JsError ''The number cannot be converted to a BigInt because it is not an integer'')
     | _ \<Rightarrow> Inl (JsError ''The number cannot be converted to a BigInt because it is not an integer'')))"

record spending_params =
  spPeriodLedgers :: jsnum
  spSpendingLimit :: int

definition createSpendingLimitParams :: "js_amount \<Rightarrow> jsnum \<Rightarrow> spending_params result" where
  "createSpendingLimitParams spendingLimit periodLedgers =
     (if jsLess periodLedgers (Fin 1) then Inl (invalidInput ''Period must be at least 1 ledger'')
      else if \<not> isIntegerNum periodLedgers
      then Inl (invalidInput ''Period must be an integer number of ledgers'')
      else bindE (toBigInt spendingLimit) (\<lambda>limitBigInt.
        if limitBigInt < 1 then Inl (ValidationError ''Spending limit must be positive'' INVALID_AMOUNT)
        else Inr \<lparr>spPeriodLedgers = periodLedgers, spSpendingLimit = limitBigInt\<rparr>))"

section \<open>Text for display\<close>

text \<open>\<^verbatim>\<open>s.slice(-n)\<close> keeps the last \<^verbatim>\<open>n\<close> characters, and the whole string when \<^verbatim>\<open>n\<close> is 0.\<close>

definition sliceEnd :: "nat \<Rightarrow> string \<Rightarrow> string" where
  "sliceEnd n s = (if n = 0 then s else drop (length s - n) s)"

definition truncateAddress :: "string \<Rightarrow> nat \<Rightarrow> string" where
  "truncateAddress address chars =
     (if length address \<le> chars * 2 + 3 then address
      else take chars address @ ''...'' @ sliceEnd chars address)"

definition describeSignerType :: "sdk \<Rightarrow> signer \<Rightarrow> string" where
  "describeSignerType K s = (case s of
     Delegated a \<Rightarrow> ''Stellar Account''
   | External v keyData \<Rightarrow>
       if truthy (getCredentialIdFromSigner K s) then ''Passkey (WebAuthn)''
       else if length keyData = 32 then ''Ed25519''
       else ''External Verifier'')"

record signer_display =
  sdType :: string
  sdDisplay :: string

definition formatSignerForDisplay :: "sdk \<Rightarrow> signer \<Rightarrow> signer_display" where
  "formatSignerForDisplay K s = (case s of
     Delegated a \<Rightarrow> \<lparr>sdType = ''G-Address'', sdDisplay = truncateAddress a 6\<rparr>
   | External v keyData \<Rightarrow>
       (case getCredentialIdFromSigner K s of
          Some (c # cs) \<Rightarrow> \<lparr>sdType = ''Passkey'', sdDisplay = ''cred:'' @ take 8 (c # cs) @ ''...''\<rparr>
        | _ \<Rightarrow>
          if length keyData = 32
          then \<lparr>sdType = ''Ed25519'', sdDisplay = ''key:'' @ take 8 (toHex keyData) @ ''...''\<rparr>
          else \<lparr>sdType = ''External'', sdDisplay = truncateAddress v 4\<rparr>))"

definition formatContextType :: "context_rule_type \<Rightarrow> string" where
  "formatContextType contextType = (case contextType of
     DefaultRule \<Rightarrow> ''Default (Any Operation)''
   | CallContract c \<Rightarrow> ''Call Contract: '' @ truncateAddress c 4
   | CreateContractRule h \<Rightarrow> ''Create Contract: '' @ take 8 (toHex h) @ ''...''
   | CreateContractExternalRef owner tag \<Rightarrow>
       ''Create Contract from Ref: '' @ truncateAddress owner 4 @ '' / '' @ tag)"

section \<open>What the checks accept\<close>

definition positiveInteger :: "jsnum \<Rightarrow> bool" where
  "positiveInteger x \<longleftrightarrow> (\<exists>n > 0. x = Fin (of_nat n))"

lemma positiveInteger_iff: "positiveInteger x \<longleftrightarrow> \<not> jsLess x (Fin 1) \<and> isIntegerNum x"
proof (cases x)
  case (Fin q)
  have "(\<exists>n > 0. q = of_nat n) \<longleftrightarrow> 1 \<le> q \<and> of_int \<lfloor>q\<rfloor> = q"
  proof
    assume "\<exists>n > 0. q = of_nat n"
    then obtain n where "n > 0" "q = of_nat n" by blast
    then show "1 \<le> q \<and> of_int \<lfloor>q\<rfloor> = q" by (simp del: of_int_floor_cancel)
  next
    assume q: "1 \<le> q \<and> of_int \<lfloor>q\<rfloor> = q"
    then have f: "1 \<le> \<lfloor>q\<rfloor>" by simp
    have "of_nat (nat \<lfloor>q\<rfloor>) = (of_int \<lfloor>q\<rfloor> :: rat)" using f by simp
    then have "q = of_nat (nat \<lfloor>q\<rfloor>)" using q by argo
    moreover have "0 < nat \<lfloor>q\<rfloor>" using f by linarith
    ultimately show "\<exists>n > 0. q = of_nat n" by blast
  qed
  then show ?thesis
    unfolding Fin positiveInteger_def isIntegerNum_def jsnum.case jsnum.inject jsLess.simps not_less .
qed (simp_all add: positiveInteger_def isIntegerNum_def)

lemma positiveThreshold_ok: "positiveThreshold x = Inr u \<longleftrightarrow> positiveInteger x"
  by (simp add: positiveThreshold_def positiveInteger_iff)

definition weightValue :: "jsnum \<Rightarrow> nat" where
  "weightValue x = (case x of Fin q \<Rightarrow> nat \<lfloor>q\<rfloor> | _ \<Rightarrow> 0)"

definition totalOf :: "(signer \<times> jsnum) list \<Rightarrow> nat" where
  "totalOf ws = sum_list (map (weightValue \<circ> snd) ws)"

lemma sumWeights_ok:
  assumes "t + totalOf ws \<le> 2 ^ 53"
  shows "sumWeights (Fin (of_nat t)) ws = Inr r \<longleftrightarrow>
     list_all (positiveInteger \<circ> snd) ws \<and> r = Fin (of_nat (t + totalOf ws))"
  using assms
proof (induction ws arbitrary: t)
  case Nil
  then show ?case by (auto simp: totalOf_def)
next
  case (Cons p ws)
  obtain s w where p: "p = (s, w)" by (cases p)
  show ?case
  proof (cases "positiveInteger w")
    case True
    then obtain n where n: "n > 0" "w = Fin (of_nat n)" by (auto simp: positiveInteger_def)
    have t: "totalOf (p # ws) = n + totalOf ws" by (simp add: totalOf_def p n weightValue_def)
    then have le: "t + n \<le> 2 ^ 53" "(t + n) + totalOf ws \<le> 2 ^ 53" using Cons.prems by simp_all
    have "addWeight (Fin (of_nat t)) (of_nat n) = Fin (of_nat (t + n))"
      using le(1) by (simp add: addWeight_def toDouble_def nat_add_distrib)
    then have "sumWeights (Fin (of_nat t)) (p # ws) = sumWeights (Fin (of_nat (t + n))) ws"
      using True n (1) by (simp add: p n (2) positiveInteger_iff)
    then show ?thesis using Cons.IH [OF le(2)] True t by (simp add: p add.assoc)
  qed (auto simp: p positiveInteger_iff)
qed

section \<open>Properties\<close>

text \<open>Weighted threshold parameters are accepted exactly when the threshold and every weight
  are positive integers, there is a weight, and the signers together reach the threshold, as
  long as the weights add up to at most \<open>2 ^ 53\<close>, where double arithmetic is exact.\<close>

theorem weighted_params_exact:
  assumes "totalOf ws \<le> 2 ^ 53"
  shows "createWeightedThresholdParams threshold ws = Inr p \<longleftrightarrow>
     positiveInteger threshold \<and> ws \<noteq> [] \<and> list_all (positiveInteger \<circ> snd) ws \<and>
     weightValue threshold \<le> totalOf ws \<and> p = \<lparr>wpSignerWeights = ws, wpThreshold = threshold\<rparr>"
proof -
  have s: "sumWeights (Fin 0) ws = Inr r \<longleftrightarrow>
      list_all (positiveInteger \<circ> snd) ws \<and> r = Fin (of_nat (totalOf ws))" for r
    using sumWeights_ok [of 0 ws] assms by simp
  have t: "\<not> jsLess (Fin (of_nat (totalOf ws))) threshold \<longleftrightarrow> weightValue threshold \<le> totalOf ws"
    if "positiveInteger threshold"
    using that by (auto simp: positiveInteger_def weightValue_def)
  show ?thesis
    unfolding createWeightedThresholdParams_def bindE_Inr positiveThreshold_ok
    using t by (auto simp: bindE_Inr s)
qed

text \<open>The WASM hash of a \<^verbatim>\<open>CreateContract\<close> rule given as text is the 32 bytes it spells, with
  or without the \<^verbatim>\<open>0x\<close> prefix.\<close>

theorem createContract_hex:
  assumes "length b = 32"
  shows "createCreateContractContext (HexText (toHex b)) = Inr (CreateContractRule b) \<and>
     createCreateContractContext (HexText (''0x'' @ toHex b)) = Inr (CreateContractRule b)"
proof -
  have "CHR ''x'' \<notin> set (toHex b)" using toHex_set [of b] by (auto simp: hexDigits_def)
  then have "take 2 (toHex b) \<noteq> ''0x''" by (metis in_set_takeD list.set_intros)
  then show ?thesis using assms by (simp add: createCreateContractContext_def Let_def length_toHex)
qed

text \<open>The check of that text is only on its length: 64 characters that are not hex digits are
  accepted, and give a rule with an empty hash.\<close>

theorem createContract_accepts_non_hex:
  "createCreateContractContext (HexText (replicate 64 CHR ''z'')) = Inr (CreateContractRule [])"
  by (simp add: createCreateContractContext_def Let_def hexValue_def numeral_eq_Suc)

lemma weighted_params_exact_witness:
  "createWeightedThresholdParams (Fin 3) [(Delegated ''GA'', Fin 2), (Delegated ''GB'', Fin 1)] =
     Inr \<lparr>wpSignerWeights = [(Delegated ''GA'', Fin 2), (Delegated ''GB'', Fin 1)], wpThreshold = Fin 3\<rparr>"
  (is "_ = Inr ?p")
proof -
  have "positiveInteger (Fin 3)" "positiveInteger (Fin 2)" "positiveInteger (Fin 1)"
    by (auto simp: positiveInteger_iff isIntegerNum_def)
  then show ?thesis
    using weighted_params_exact [of "wpSignerWeights ?p" "Fin 3" ?p]
    by (simp add: totalOf_def weightValue_def)
qed

lemma createContract_hex_witness:
  "createCreateContractContext (HexText (toHex (replicate 32 7))) = Inr (CreateContractRule (replicate 32 7))"
  using createContract_hex [of "replicate 32 7"] by simp

end
