(* ===== verification/Kit_ScVal.thy ===== *)
theory Kit_ScVal
  imports Kit_DigestScheme
begin

text \<open>
  The host order on \<^verbatim>\<open>ScVal\<close>s and the encoding of signers (\<^verbatim>\<open>compareScVal\<close>, \<^verbatim>\<open>signerToScVal\<close>,
  \<^verbatim>\<open>parseSignerScVal\<close>, \<^verbatim>\<open>scAddressToString\<close> of \<^verbatim>\<open>src/kit/auth-payload.ts\<close>). The comparison is shown
  to be a total preorder, so it interprets the \<open>comparator\<close> interface of sorting.
\<close>

section \<open>Addresses\<close>

fun addressTypeName :: "scaddress \<Rightarrow> string" where
  "addressTypeName (AddrAccount b) = ''scAddressTypeAccount''"
| "addressTypeName (AddrContract b) = ''scAddressTypeContract''"
| "addressTypeName (AddrOther n b) = n"

definition scAddressToString :: "sdk \<Rightarrow> scaddress \<Rightarrow> string \<Rightarrow> string result" where
  "scAddressToString K address field = (case fromScAddress K address of
     Some s \<Rightarrow> Inr s
   | None \<Rightarrow> Inl (invalidInput (field @ '' has an unsupported address type: '' @ addressTypeName address)))"

lemma scAddressToString_ok: "scAddressToString K a f = Inr s \<longleftrightarrow> fromScAddress K a = Some s"
  by (simp add: scAddressToString_def split: option.splits)

section \<open>Host order\<close>

lemma size_items [termination_simp]: "x \<in> set (items v) \<Longrightarrow> size x < Suc (size_option (size_list size) v)"
  by (cases v) (auto dest: size_list_estimation' [where f = size])

lemma size_entries [termination_simp]:
  assumes "p \<in> set (items m)"
  shows "size (fst p) < Suc (size_option (size_list (size_prod size size)) m)"
    and "size (snd p) < Suc (size_option (size_list (size_prod size size)) m)"
proof -
  have "size_prod size size p \<le> size_list (size_prod size size) (items m)"
    using assms by (intro size_list_estimation') auto
  then show "size (fst p) < Suc (size_option (size_list (size_prod size size)) m)"
    "size (snd p) < Suc (size_option (size_list (size_prod size size)) m)"
    using assms by (cases m; cases p; auto)+
qed

function compareScVal :: "sdk \<Rightarrow> scval \<Rightarrow> scval \<Rightarrow> int" where
  "compareScVal K a b =
     (if switchValue a \<noteq> switchValue b then (if switchValue a < switchValue b then -1 else 1)
      else (case (a, b) of
          (ScvVec av, ScvVec bv) \<Rightarrow> lexCmp (compareScVal K) (items av) (items bv)
        | (ScvMap am, ScvMap bm) \<Rightarrow> lexCmp (pairCmp (compareScVal K)) (items am) (items bm)
        | (ScvSymbol s, ScvSymbol t) \<Rightarrow> bufferCompare (utf8 s) (utf8 t)
        | (ScvString s, ScvString t) \<Rightarrow> bufferCompare (utf8 s) (utf8 t)
        | (ScvBytes x, ScvBytes y) \<Rightarrow> bufferCompare x y
        | (ScvAddress x, ScvAddress y) \<Rightarrow> bufferCompare (scaddressToXDR K x) (scaddressToXDR K y)
        | _ \<Rightarrow> bufferCompare (scvalToXDR K a) (scvalToXDR K b)))"
  by pat_completeness auto
termination
  by (relation "measure (\<lambda>(K, a, b). size a)") (auto intro: size_items dest: size_entries)

declare compareScVal.simps [simp del]

lemma kindValue_range: "kindValue k \<notin> {1, 3, 10, 13, 14, 15, 16, 17, 18}"
  by (cases k) simp_all

lemma kindValue_inj [simp]: "kindValue k = kindValue l \<longleftrightarrow> k = l"
  by (cases k; cases l) simp_all

lemma kindValue_neq [simp]:
  "kindValue k \<noteq> 1" "kindValue k \<noteq> 3" "kindValue k \<noteq> 10" "kindValue k \<noteq> 13" "kindValue k \<noteq> 14"
  "kindValue k \<noteq> 15" "kindValue k \<noteq> 16" "kindValue k \<noteq> 17" "kindValue k \<noteq> 18"
  "kindValue k \<noteq> Suc 0"
  using kindValue_range [of k] by auto

lemmas kindValue_neq' [simp] = kindValue_neq [symmetric]

text \<open>Comparison first by a rank, then, within a rank, by a body.\<close>

lemma cmpAt_rank:
  fixes r :: "'a \<Rightarrow> nat"
  assumes cmp: "\<And>x y. cmp x y = (if r x \<noteq> r y then (if r x < r y then -1 else 1) else body x y)"
    and sym: "\<And>y. r y = r x \<Longrightarrow> sgn (body x y) = - sgn (body y x)"
    and eq: "\<And>y z. r y = r x \<Longrightarrow> r z = r x \<Longrightarrow> body x y = 0 \<Longrightarrow> sgn (body x z) = sgn (body y z)"
    and less: "\<And>y z. r y = r x \<Longrightarrow> r z = r x \<Longrightarrow> body x y < 0 \<Longrightarrow> body y z \<le> 0 \<Longrightarrow> body x z < 0"
  shows "cmpAt cmp x"
proof -
  have "sgn (cmp x y) = - sgn (cmp y x)" for y
    using sym [of y] by (cases "r x = r y") (auto simp: cmp)
  moreover have "sgn (cmp x z) = sgn (cmp y z)" if "cmp x y = 0" for y z
    using that eq [of y z] by (cases "r x = r y") (auto simp: cmp split: if_splits)
  moreover have "cmp x z < 0" if "cmp x y < 0" "cmp y z \<le> 0" for y z
    using that less [of y z] by (auto simp: cmp split: if_splits)
  ultimately show ?thesis unfolding cmpAt_def by blast
qed

text \<open>The same-type part of the comparison.\<close>

definition bodyCompare :: "sdk \<Rightarrow> scval \<Rightarrow> scval \<Rightarrow> int" where
  "bodyCompare K a b = (case (a, b) of
      (ScvVec av, ScvVec bv) \<Rightarrow> lexCmp (compareScVal K) (items av) (items bv)
    | (ScvMap am, ScvMap bm) \<Rightarrow> lexCmp (pairCmp (compareScVal K)) (items am) (items bm)
    | (ScvSymbol s, ScvSymbol t) \<Rightarrow> bufferCompare (utf8 s) (utf8 t)
    | (ScvString s, ScvString t) \<Rightarrow> bufferCompare (utf8 s) (utf8 t)
    | (ScvBytes x, ScvBytes y) \<Rightarrow> bufferCompare x y
    | (ScvAddress x, ScvAddress y) \<Rightarrow> bufferCompare (scaddressToXDR K x) (scaddressToXDR K y)
    | _ \<Rightarrow> bufferCompare (scvalToXDR K a) (scvalToXDR K b))"

lemma compareScVal_rank:
  "compareScVal K a b = (if switchValue a \<noteq> switchValue b
     then (if switchValue a < switchValue b then -1 else 1) else bodyCompare K a b)"
  unfolding bodyCompare_def by (rule compareScVal.simps)

lemma same_switch:
  "switchValue b = 16 \<longleftrightarrow> (\<exists>v. b = ScvVec v)" "switchValue b = 17 \<longleftrightarrow> (\<exists>m. b = ScvMap m)"
  "switchValue b = 15 \<longleftrightarrow> (\<exists>s. b = ScvSymbol s)" "switchValue b = 14 \<longleftrightarrow> (\<exists>s. b = ScvString s)"
  "switchValue b = 13 \<longleftrightarrow> (\<exists>x. b = ScvBytes x)" "switchValue b = 18 \<longleftrightarrow> (\<exists>a. b = ScvAddress a)"
  "switchValue b = 3 \<longleftrightarrow> (\<exists>n. b = ScvU32 n)" "switchValue b = 10 \<longleftrightarrow> (\<exists>n. b = ScvI128 n)"
  "switchValue b = 1 \<longleftrightarrow> b = ScvVoid" "switchValue b = Suc 0 \<longleftrightarrow> b = ScvVoid" "switchValue b = kindValue k \<longleftrightarrow> (\<exists>x. b = ScvScalar k x)"
  by (cases b; auto; fail)+

text \<open>On values of one type the body is a comparison function pulled back along a projection.\<close>

lemma body_pullback:
  assumes at: "cmpAt c (f x)"
    and b: "\<And>a b. switchValue a = switchValue x \<Longrightarrow> switchValue b = switchValue x \<Longrightarrow>
      bodyCompare K a b = c (f a) (f b)"
  shows "cmpAt (compareScVal K) x"
proof (rule cmpAt_rank [where body = "bodyCompare K", OF compareScVal_rank])
  fix y assume y: "switchValue y = switchValue x"
  then have e: "bodyCompare K x y = c (f x) (f y)" "bodyCompare K y x = c (f y) (f x)"
    by (simp_all add: b)
  show "sgn (bodyCompare K x y) = - sgn (bodyCompare K y x)"
    unfolding e by (rule cmpAtD(1) [OF at])
  fix z assume z: "switchValue z = switchValue x"
  with y have e': "bodyCompare K x z = c (f x) (f z)" "bodyCompare K y z = c (f y) (f z)"
    by (simp_all add: b)
  show "bodyCompare K x y = 0 \<Longrightarrow> sgn (bodyCompare K x z) = sgn (bodyCompare K y z)"
    unfolding e e' by (rule cmpAtD(2) [OF at])
  show "bodyCompare K x y < 0 \<Longrightarrow> bodyCompare K y z \<le> 0 \<Longrightarrow> bodyCompare K x z < 0"
    unfolding e e' by (rule cmpAtD(3) [OF at])
qed

lemma cmpAt_compareScVal: "cmpAt (compareScVal K) a"
proof (induction a)
  case (ScvVec v)
  have at: "cmpAt (lexCmp (compareScVal K)) (items v)"
    by (rule cmpAt_lexCmp) (use ScvVec in \<open>cases v; auto\<close>)
  show ?case
    by (rule body_pullback [where c = "lexCmp (compareScVal K)"
        and f = "\<lambda>b. case b of ScvVec v \<Rightarrow> items v"])
       (use at in \<open>auto simp: bodyCompare_def same_switch\<close>)
next
  case (ScvMap m)
  have at: "cmpAt (lexCmp (pairCmp (compareScVal K))) (items m)"
  proof (rule cmpAt_lexCmp)
    fix p assume p: "p \<in> set (items m)"
    then have m: "items m \<in> set_option m" by (cases m) auto
    have "cmpAt (compareScVal K) (fst p)" "cmpAt (compareScVal K) (snd p)"
      using ScvMap [OF m p] by (cases p; simp)+
    then show "cmpAt (pairCmp (compareScVal K)) p"
      using cmpAt_pairCmp [of "compareScVal K" "fst p" "snd p"] by simp
  qed
  show ?case
    by (rule body_pullback [where c = "lexCmp (pairCmp (compareScVal K))"
        and f = "\<lambda>b. case b of ScvMap m \<Rightarrow> items m"])
       (use at in \<open>auto simp: bodyCompare_def same_switch\<close>)
next
  case (ScvSymbol s)
  show ?case
    by (rule body_pullback [where c = bufferCompare
        and f = "\<lambda>b. case b of ScvSymbol s \<Rightarrow> utf8 s", OF cmpAt_bufferCompare])
       (auto simp: bodyCompare_def same_switch)
next
  case (ScvString s)
  show ?case
    by (rule body_pullback [where c = bufferCompare
        and f = "\<lambda>b. case b of ScvString s \<Rightarrow> utf8 s", OF cmpAt_bufferCompare])
       (auto simp: bodyCompare_def same_switch)
next
  case (ScvBytes x)
  show ?case
    by (rule body_pullback [where c = bufferCompare
        and f = "\<lambda>b. case b of ScvBytes s \<Rightarrow> s", OF cmpAt_bufferCompare])
       (auto simp: bodyCompare_def same_switch)
next
  case (ScvAddress x)
  show ?case
    by (rule body_pullback [where c = bufferCompare
        and f = "\<lambda>b. case b of ScvAddress s \<Rightarrow> scaddressToXDR K s", OF cmpAt_bufferCompare])
       (auto simp: bodyCompare_def same_switch)
qed (rule body_pullback [where c = bufferCompare and f = "scvalToXDR K", OF cmpAt_bufferCompare],
     auto simp: bodyCompare_def same_switch)+

interpretation scval_order: comparator "compareScVal K" for K
  by (rule comparator_cmpAt) (rule cmpAt_compareScVal)

section \<open>Signers as map keys\<close>

definition addressFromString :: "sdk \<Rightarrow> string \<Rightarrow> scaddress result" where
  "addressFromString K s = (case fromStrkey K s of
     Some a \<Rightarrow> Inr a | None \<Rightarrow> Inl (JsError (''Unsupported address type: '' @ s)))"

lemma addressFromString_ok: "addressFromString K s = Inr a \<longleftrightarrow> fromStrkey K s = Some a"
  by (simp add: addressFromString_def split: option.splits)

definition signerToScVal :: "sdk \<Rightarrow> signer \<Rightarrow> scval result" where
  "signerToScVal K s = (case s of
     Delegated a \<Rightarrow> bindE (addressFromString K a) (\<lambda>addr.
       Inr (ScvVec (Some [ScvSymbol ''Delegated'', ScvAddress addr])))
   | External v keyData \<Rightarrow> bindE (addressFromString K v) (\<lambda>addr.
       Inr (ScvVec (Some [ScvSymbol ''External'', ScvAddress addr, ScvBytes keyData]))))"

text \<open>
  The order of the tests is the code's: shape, length and variant symbol, then the fields of
  the variant.
\<close>

definition parseSignerItems :: "sdk \<Rightarrow> scval list \<Rightarrow> signer result" where
  "parseSignerItems K xs = (case xs of
     ScvSymbol variant # v1 # rest \<Rightarrow>
       if variant = ''Delegated'' then
         (case v1 of
            ScvAddress a \<Rightarrow> bindE (scAddressToString K a ''Delegated signer address'') (\<lambda>s. Inr (Delegated s))
          | _ \<Rightarrow> Inl (JsError ''Delegated signer is missing an address''))
       else if variant = ''External'' then
         (case (v1, rest) of
            (ScvAddress a, ScvBytes k # _) \<Rightarrow>
              bindE (scAddressToString K a ''External signer verifier address'') (\<lambda>s. Inr (External s k))
          | _ \<Rightarrow> Inl (JsError ''External signer is missing required verifier or key data''))
       else Inl (JsError (''Unknown signer variant: '' @ variant))
   | _ \<Rightarrow> Inl (JsError ''Signer key is not a valid enum encoding''))"

definition parseSignerScVal :: "sdk \<Rightarrow> scval \<Rightarrow> signer result" where
  "parseSignerScVal K value = (case value of
     ScvVec v \<Rightarrow> parseSignerItems K (items v)
   | _ \<Rightarrow> Inl (JsError ''Signer key is not encoded as a vector''))"

definition signerAddress :: "signer \<Rightarrow> string" where
  "signerAddress s = (case s of Delegated a \<Rightarrow> a | External v k \<Rightarrow> v)"

lemma signerToScVal_ok:
  "isOk (signerToScVal K s) \<longleftrightarrow> fromStrkey K (signerAddress s) \<noteq> None"
  by (cases s) (auto simp: signerToScVal_def signerAddress_def isOk_bindE addressFromString_ok)

lemma parse_signerToScVal:
  assumes "sdk_strkey_ok K" "signerToScVal K s = Inr v"
  shows "parseSignerScVal K v = Inr s"
  using assms(2)
  by (cases s) (auto simp: signerToScVal_def parseSignerScVal_def parseSignerItems_def bindE_Inr
      addressFromString_ok sdk_strkeyD [OF assms(1)] scAddressToString_ok)

lemma signerToScVal_inj:
  assumes "sdk_strkey_ok K" "signerToScVal K s = Inr v" "signerToScVal K t = Inr v"
  shows "s = t"
  using parse_signerToScVal [OF assms(1,2)] parse_signerToScVal [OF assms(1,3)] by simp

lemma compareScVal_basic [simp]:
  "compareScVal K (ScvSymbol s) (ScvSymbol t) = bufferCompare (utf8 s) (utf8 t)"
  "compareScVal K (ScvBytes x) (ScvBytes y) = bufferCompare x y"
  "compareScVal K (ScvAddress a) (ScvAddress b) = bufferCompare (scaddressToXDR K a) (scaddressToXDR K b)"
  "compareScVal K (ScvVec v) (ScvVec w) = lexCmp (compareScVal K) (items v) (items w)"
  by (simp_all add: compareScVal.simps)

text \<open>Two encoded signers compare equal only when they are the same signer.\<close>

lemma compareScVal_signers_zero:
  assumes "sdk_xdr_ok K" "sdk_strkey_ok K"
    and "signerToScVal K s = Inr v" "signerToScVal K t = Inr w" "compareScVal K v w = 0"
  shows "s = t"
proof -
  have "v = w"
    using assms(3-5)
    by (cases s; cases t) (auto simp: signerToScVal_def bindE_Inr bufferCompare_zero Let_def
        sdk_xdr_okD [OF assms(1)] split: if_splits)
  with signerToScVal_inj [OF assms(2)] assms(3,4) show ?thesis by blast
qed

section \<open>Properties\<close>

text \<open>
  The host-order comparison of \<^verbatim>\<open>ScVal\<close>s is a total preorder, for every encoding the SDK package
  may use: it is antisymmetric up to sign, every value compares equal to itself, and it is
  transitive, so sorting map keys with it is well defined.
\<close>

theorem compareScVal_preorder:
  "sgn (compareScVal K a b) = - sgn (compareScVal K b a) \<and> compareScVal K a a = 0 \<and>
   \<not> (compareScVal K a b \<le> 0 \<and> compareScVal K b c \<le> 0 \<and> compareScVal K a c > 0)"
  using scval_order.cmp_sym [of K a b] scval_order.cmp_refl [of K a]
    scval_order.cmp_trans [of K a b c] scval_order.cmp_trans [of K c b a]
    scval_order.cmp_sym [of K a c] scval_order.cmp_sym [of K b c]
  by (auto simp: sgn_if split: if_splits)

text \<open>
  Two External signer keys of one verifier are ordered by the content of their key data
  (byte by byte, a proper prefix first), not by their length-prefixed encoding: with
  key data [2] and [1, 1] the shorter one sorts after the longer one.
\<close>

theorem signer_keys_content_order:
  "bindE (signerToScVal K (External v k)) (\<lambda>x. bindE (signerToScVal K (External v l)) (\<lambda>y.
      Inr (compareScVal K x y))) =
   bindE (addressFromString K v) (\<lambda>_. Inr (bufferCompare k l)) \<and>
   bufferCompare [2] [1, 1] = 1"
  by (cases "addressFromString K v")
     (simp_all add: signerToScVal_def bufferCompare_def byteCmp_def Let_def)

text \<open>
  Encoding a signer as a map key and parsing it back gives the same signer, and encoding
  fails exactly when its address is not a strkey.
\<close>

theorem signer_roundtrip:
  assumes "sdk_strkey_ok K"
  shows "bindE (signerToScVal K s) (parseSignerScVal K) =
    (case fromStrkey K (signerAddress s) of
       None \<Rightarrow> Inl (JsError (''Unsupported address type: '' @ signerAddress s))
     | Some a \<Rightarrow> Inr s)"
proof (cases "signerToScVal K s")
  case (Inl e)
  then show ?thesis
    by (cases s) (auto simp: signerToScVal_def signerAddress_def bindE_Inl addressFromString_def
        split: option.splits)
next
  case (Inr v)
  then have "fromStrkey K (signerAddress s) \<noteq> None"
    using signerToScVal_ok [of K s] by simp
  with Inr parse_signerToScVal [OF assms Inr] show ?thesis by auto
qed

lemma signer_roundtrip_witness:
  "bindE (signerToScVal demoSdk (External ''Cv'' [4, 7])) (parseSignerScVal demoSdk)
     = Inr (External ''Cv'' [4, 7])"
  unfolding signer_roundtrip [OF demoSdk_strkey]
  by (simp add: signerAddress_def demoSdk_def demoFromStrkey_def)

end
