(* ===== verification/Kit_Store.thy ===== *)
theory Kit_Store
  imports Kit_Prelude
begin

text \<open>
  The interface of a keyed store, as the signing loops and the credential managers use one: an
  insertion that replaces and a lookup. A stored object is inserted under a key computed from
  it. The lemmas hold for every store that keeps the laws; the payload of signatures interprets it.
\<close>

fun putAll :: "('o \<Rightarrow> 'v \<Rightarrow> 'm \<Rightarrow> 'm) \<Rightarrow> ('o \<times> 'v) list \<Rightarrow> 'm \<Rightarrow> 'm" where
  "putAll put [] m = m"
| "putAll put ((x, v) # xs) m = putAll put xs (put x v m)"

text \<open>The value a list of insertions leaves under a key: the last one.\<close>

fun lastPut :: "('o \<Rightarrow> 'k) \<Rightarrow> ('o \<times> 'v) list \<Rightarrow> 'k \<Rightarrow> 'v option" where
  "lastPut key [] k = None"
| "lastPut key ((x, v) # xs) k =
     (case lastPut key xs k of Some w \<Rightarrow> Some w | None \<Rightarrow> if key x = k then Some v else None)"

lemma lastPut_None: "lastPut key xs k = None \<longleftrightarrow> k \<notin> key ` fst ` set xs"
  by (induction xs) (auto split: option.splits)

lemma lastPut_distinct:
  "distinct (map (key \<circ> fst) xs) \<Longrightarrow> (x, v) \<in> set xs \<Longrightarrow> lastPut key xs (key x) = Some v"
proof (induction xs)
  case (Cons a xs)
  obtain y w where a: "a = (y, w)" by (cases a)
  show ?case
  proof (cases "(x, v) = (y, w)")
    case True
    with Cons.prems(1) have "lastPut key xs (key x) = None"
      by (auto simp: a lastPut_None image_comp)
    with True show ?thesis by (simp add: a)
  next
    case False
    with Cons show ?thesis by (auto simp: a)
  qed
qed simp

locale keyed_store =
  fixes inv :: "'m \<Rightarrow> bool"
    and key :: "'o \<Rightarrow> 'k"
    and put :: "'o \<Rightarrow> 'v \<Rightarrow> 'm \<Rightarrow> 'm"
    and get :: "'m \<Rightarrow> 'k \<Rightarrow> 'v option"
  assumes inv_put: "inv m \<Longrightarrow> inv (put x v m)"
    and get_put: "inv m \<Longrightarrow> get (put x v m) k = (if k = key x then Some v else get m k)"
begin

lemma putAll_inv: "inv m \<Longrightarrow> inv (putAll put xs m)"
  by (induction xs arbitrary: m) (auto simp: inv_put)

lemma putAll_get:
  "inv m \<Longrightarrow> get (putAll put xs m) k =
     (case lastPut key xs k of Some v \<Rightarrow> Some v | None \<Rightarrow> get m k)"
proof (induction xs arbitrary: m)
  case (Cons a xs)
  obtain x v where a: "a = (x, v)" by (cases a)
  show ?case
    using Cons.IH [of "put x v m"] Cons.prems by (auto simp: a inv_put get_put split: option.splits)
qed simp

lemma put_put: "inv m \<Longrightarrow> get (put x w (put x v m)) = get (put x w m)"
  by (rule ext) (simp add: inv_put get_put)

lemma put_commute:
  "inv m \<Longrightarrow> key x \<noteq> key y \<Longrightarrow> get (put x v (put y w m)) = get (put y w (put x v m))"
  by (rule ext) (simp add: inv_put get_put)

end

end
