(* ===== verification/Kit_AuthPayload.thy ===== *)
theory Kit_AuthPayload
  imports Kit_ScVal Kit_Store
begin

text \<open>
  The signature payload of an authorization entry (\<^verbatim>\<open>src/kit/auth-payload.ts\<close>): reading it from and
  writing it to an \<^verbatim>\<open>ScVal\<close>, replacing a signer's entry, the digests signers commit to, and
  the credentials an entry carries.

  The \<^verbatim>\<open>signers\<close> map of a payload is a JavaScript \<^verbatim>\<open>Map\<close> whose keys are signer objects compared
  by reference. A key is therefore a signer together with its reference: \<open>Parsed i\<close> for the
  \<open>i\<close>-th object the parser allocates, \<open>Caller i\<close> for an object handed in from outside.
\<close>

datatype object_ref = Parsed nat | Caller nat

type_synonym signer_object = "object_ref \<times> signer"

record auth_payload =
  apRuleIds :: "nat list"
  apSigners :: "(signer_object \<times> buffer) list"

definition emptyAuthPayload :: auth_payload where
  "emptyAuthPayload = \<lparr>apRuleIds = [], apSigners = []\<rparr>"

section \<open>Reading\<close>

definition readRuleId :: "scval \<Rightarrow> nat result" where
  "readRuleId item = (case item of
     ScvU32 n \<Rightarrow> Inr n
   | _ \<Rightarrow> Inl (JsError ''AuthPayload.context_rule_ids contains a non-u32 value''))"

fun readSigners :: "sdk \<Rightarrow> (scval \<times> scval) list \<Rightarrow> (signer_object \<times> buffer) list \<Rightarrow>
    (signer_object \<times> buffer) list result" where
  "readSigners K [] acc = Inr acc"
| "readSigners K ((key, val) # rest) acc =
     bindE (parseSignerScVal K key) (\<lambda>signer.
       (case val of
          ScvBytes b \<Rightarrow> readSigners K rest (acc @ [((Parsed (length acc), signer), b)])
        | _ \<Rightarrow> Inl (JsError ''AuthPayload.signers contains a non-bytes signature value'')))"

definition readField :: "sdk \<Rightarrow> string \<Rightarrow> scval \<Rightarrow> auth_payload \<Rightarrow> auth_payload result" where
  "readField K field val p =
     (if field = ''context_rule_ids'' then
        (case val of
           ScvVec v \<Rightarrow> bindE (mapE readRuleId (items v)) (\<lambda>ids. Inr (p\<lparr>apRuleIds := ids\<rparr>))
         | _ \<Rightarrow> Inl (JsError ''AuthPayload.context_rule_ids is not a vector''))
      else if field = ''signers'' then
        (case val of
           ScvMap m \<Rightarrow> bindE (readSigners K (items m) (apSigners p)) (\<lambda>ss. Inr (p\<lparr>apSigners := ss\<rparr>))
         | _ \<Rightarrow> Inl (JsError ''AuthPayload.signers is not a map''))
      else Inr p)"

fun readEntries :: "sdk \<Rightarrow> (scval \<times> scval) list \<Rightarrow> auth_payload \<Rightarrow> auth_payload result" where
  "readEntries K [] p = Inr p"
| "readEntries K ((key, val) # rest) p =
     (case key of
        ScvSymbol field \<Rightarrow> bindE (readField K field val p) (readEntries K rest)
      | _ \<Rightarrow> readEntries K rest p)"

definition readAuthPayload :: "sdk \<Rightarrow> scval \<Rightarrow> auth_payload result" where
  "readAuthPayload K signature = (case signature of
     ScvVoid \<Rightarrow> Inr emptyAuthPayload
   | ScvMap m \<Rightarrow> readEntries K (items m) emptyAuthPayload
   | _ \<Rightarrow> Inl (JsError ''Smart account auth signature is not encoded as AuthPayload''))"

section \<open>Writing\<close>

definition ruleIdsScVal :: "nat list \<Rightarrow> scval" where
  "ruleIdsScVal ids = ScvVec (Some (map ScvU32 ids))"

definition writeSignerEntry :: "sdk \<Rightarrow> signer_object \<times> buffer \<Rightarrow> (scval \<times> scval) result" where
  "writeSignerEntry K e = bindE (signerToScVal K (snd (fst e))) (\<lambda>k. Inr (k, ScvBytes (snd e)))"

definition entryCompare :: "sdk \<Rightarrow> scval \<times> scval \<Rightarrow> scval \<times> scval \<Rightarrow> int" where
  "entryCompare K a b = compareScVal K (fst a) (fst b)"

definition writeAuthPayload :: "sdk \<Rightarrow> auth_payload \<Rightarrow> scval result" where
  "writeAuthPayload K p =
     bindE (mapE (writeSignerEntry K) (apSigners p)) (\<lambda>signerEntries.
       Inr (ScvMap (Some
         [(ScvSymbol ''context_rule_ids'', ruleIdsScVal (apRuleIds p)),
          (ScvSymbol ''signers'', ScvMap (Some (sortBy (entryCompare K) signerEntries)))])))"

interpretation entry_order: comparator "entryCompare K" for K
  unfolding entryCompare_def by (rule comparator_key) (rule scval_order.comparator_axioms)

section \<open>Replacing a signer\<close>

fun deleteEqual :: "signer \<Rightarrow> (signer_object \<times> buffer) list \<Rightarrow> (signer_object \<times> buffer) list" where
  "deleteEqual s [] = []"
| "deleteEqual s (e # es) = (if signersEqual (snd (fst e)) s then es else e # deleteEqual s es)"

definition upsertAuthPayloadSigner :: "auth_payload \<Rightarrow> signer_object \<Rightarrow> buffer \<Rightarrow> auth_payload" where
  "upsertAuthPayloadSigner p so bytes =
     p\<lparr>apSigners := AList.update so bytes (deleteEqual (snd so) (apSigners p))\<rparr>"

section \<open>Digests and signature values\<close>

definition buildLegacyAuthDigest :: "sdk \<Rightarrow> buffer \<Rightarrow> nat list \<Rightarrow> buffer" where
  "buildLegacyAuthDigest K signaturePayload contextRuleIds =
     hash K (signaturePayload @ scvalToXDR K (ruleIdsScVal contextRuleIds))"

definition buildAuthDigestPreimage :: "sdk \<Rightarrow> string \<Rightarrow> buffer \<Rightarrow> nat list \<Rightarrow> scval result" where
  "buildAuthDigestPreimage K account signaturePayload contextRuleIds =
     (if length signaturePayload \<noteq> 32
      then Inl (JsError (''Signature payload must be 32 bytes (got '' @
        decimal (length signaturePayload) @ '')''))
      else bindE (addressFromString K account) (\<lambda>addr.
        Inr (ScvMap (Some
          [(ScvSymbol ''account'', ScvAddress addr),
           (ScvSymbol ''context_rule_ids'', ruleIdsScVal contextRuleIds),
           (ScvSymbol ''signature_payload'', ScvBytes signaturePayload)]))))"

definition buildPreimageAuthDigest :: "sdk \<Rightarrow> scval \<Rightarrow> buffer" where
  "buildPreimageAuthDigest K preimage = hash K (scvalToXDR K preimage)"

record webauthn_sig_data =
  wsAuthenticatorData :: buffer
  wsClientData :: buffer
  wsSignature :: buffer

definition buildWebAuthnSignatureBytes :: "sdk \<Rightarrow> webauthn_sig_data \<Rightarrow> buffer" where
  "buildWebAuthnSignatureBytes K d = scvalToXDR K (ScvMap (Some
     [(ScvSymbol ''authenticator_data'', ScvBytes (wsAuthenticatorData d)),
      (ScvSymbol ''client_data'', ScvBytes (wsClientData d)),
      (ScvSymbol ''signature'', ScvBytes (wsSignature d))]))"

definition buildAddressSignatureScVal :: "buffer \<Rightarrow> buffer \<Rightarrow> scval" where
  "buildAddressSignatureScVal publicKeyBytes signatureBytes = ScvVec (Some [ScvMap (Some
     [(ScvSymbol ''public_key'', ScvBytes publicKeyBytes),
      (ScvSymbol ''signature'', ScvBytes signatureBytes)])])"

section \<open>Credentials and expiration\<close>

fun credentialTypeName :: "credentials \<Rightarrow> string" where
  "credentialTypeName SourceAccount = ''sorobanCredentialsSourceAccount''"
| "credentialTypeName (CredAddress c) = ''sorobanCredentialsAddress''"
| "credentialTypeName (CredAddressV2 c) = ''sorobanCredentialsAddressV2''"
| "credentialTypeName (CredWithDelegates c d) = ''sorobanCredentialsAddressWithDelegates''"

fun getAddressCredentials :: "credentials \<Rightarrow> addr_credentials result" where
  "getAddressCredentials (CredAddress c) = Inr c"
| "getAddressCredentials (CredAddressV2 c) = Inr c"
| "getAddressCredentials (CredWithDelegates c d) = Inr c"
| "getAddressCredentials SourceAccount =
     Inl (JsError ''Soroban credentials do not contain address credentials: sorobanCredentialsSourceAccount'')"

text \<open>The setters of the shared credentials object, seen from the entry that holds it.\<close>

fun mapCredentials :: "(addr_credentials \<Rightarrow> addr_credentials) \<Rightarrow> credentials \<Rightarrow> credentials" where
  "mapCredentials f (CredAddress c) = CredAddress (f c)"
| "mapCredentials f (CredAddressV2 c) = CredAddressV2 (f c)"
| "mapCredentials f (CredWithDelegates c d) = CredWithDelegates (f c) d"
| "mapCredentials f SourceAccount = SourceAccount"

definition setExpiration :: "nat \<Rightarrow> auth_entry \<Rightarrow> auth_entry" where
  "setExpiration n e = e\<lparr>aeCredentials := mapCredentials (\<lambda>c. c\<lparr>acExpiration := n\<rparr>) (aeCredentials e)\<rparr>"

definition setSignature :: "scval \<Rightarrow> auth_entry \<Rightarrow> auth_entry" where
  "setSignature v e = e\<lparr>aeCredentials := mapCredentials (\<lambda>c. c\<lparr>acSignature := v\<rparr>) (aeCredentials e)\<rparr>"

definition getAuthEntryAddress :: "sdk \<Rightarrow> auth_entry \<Rightarrow> string result" where
  "getAuthEntryAddress K e = bindE (getAddressCredentials (aeCredentials e)) (\<lambda>c.
     scAddressToString K (acAddress c) ''Auth entry credential address'')"

definition createAddressCredentials :: "addr_credentials \<Rightarrow> credentials" where
  "createAddressCredentials c = CredAddress c"

definition normalizeSignatureExpirationLedger :: "jsnum \<Rightarrow> nat result" where
  "normalizeSignatureExpirationLedger expiration = (case expiration of
     Fin q \<Rightarrow>
       if q < 0 then Inl (JsError ''Signature expiration ledger must fit in u32'')
       else let n = \<lceil>q\<rceil> in
         if n > int U32_MAX then Inl (JsError ''Signature expiration ledger must fit in u32'')
         else Inr (nat n)
   | _ \<Rightarrow> Inl (JsError ''Signature expiration ledger must be a finite number''))"

text \<open>
  Building the preimage writes the normalised expiration into the entry: the function
  returns the entry it leaves behind and the encoded preimage.
\<close>

definition buildSignaturePreimage ::
    "sdk \<Rightarrow> string \<Rightarrow> auth_entry \<Rightarrow> jsnum \<Rightarrow> (auth_entry \<times> buffer) result" where
  "buildSignaturePreimage K networkPassphrase e expiration =
     bindE (getAddressCredentials (aeCredentials e)) (\<lambda>_.
     bindE (normalizeSignatureExpirationLedger expiration) (\<lambda>n.
       let e' = setExpiration n e in Inr (e', authPreimageToXDR K e' n networkPassphrase)))"

definition buildSignaturePayload ::
    "sdk \<Rightarrow> string \<Rightarrow> auth_entry \<Rightarrow> jsnum \<Rightarrow> (auth_entry \<times> buffer) result" where
  "buildSignaturePayload K networkPassphrase e expiration =
     bindE (buildSignaturePreimage K networkPassphrase e expiration) (\<lambda>(e', pre). Inr (e', hash K pre))"

text \<open>\<^verbatim>\<open>randomAuthEntryNonce\<close>: eight random bytes read as a big-endian signed 64-bit integer.\<close>

definition beNat :: "buffer \<Rightarrow> nat" where
  "beNat b = foldl (\<lambda>n x. 256 * n + unat x) 0 b"

definition randomAuthEntryNonce :: "buffer \<Rightarrow> int" where
  "randomAuthEntryNonce bytes = sint (word_of_nat (beNat bytes) :: 64 word)"

section \<open>The payload as a map from signers to signatures\<close>

definition payloadSigners :: "auth_payload \<Rightarrow> signer list" where
  "payloadSigners p = map (snd \<circ> fst) (apSigners p)"

definition payload_ok :: "auth_payload \<Rightarrow> bool" where
  "payload_ok p = distinct (payloadSigners p)"

definition sigEntries :: "auth_payload \<Rightarrow> (signer \<times> buffer) list" where
  "sigEntries p = map (\<lambda>e. (snd (fst e), snd e)) (apSigners p)"

definition sigOf :: "auth_payload \<Rightarrow> signer \<Rightarrow> buffer option" where
  "sigOf p s = map_of (sigEntries p) s"

lemma fst_sigEntries: "map fst (sigEntries p) = payloadSigners p"
  by (auto simp: sigEntries_def payloadSigners_def)

lemma deleteEqual_distinct:
  assumes "distinct (map (snd \<circ> fst) es)"
  shows "deleteEqual s es = filter (\<lambda>e. snd (fst e) \<noteq> s) es"
  using assms
proof (induction es)
  case (Cons e es)
  have "snd (fst e) = s \<Longrightarrow> filter (\<lambda>e. snd (fst e) \<noteq> s) es = es"
    by (rule filter_True) (use Cons.prems in \<open>force simp: image_iff\<close>)
  with Cons show ?case by simp
qed simp

lemma upsert_entries:
  assumes "payload_ok p"
  shows "apSigners (upsertAuthPayloadSigner p so b) =
    filter (\<lambda>e. snd (fst e) \<noteq> snd so) (apSigners p) @ [(so, b)]"
proof -
  let ?es = "filter (\<lambda>e. snd (fst e) \<noteq> snd so) (apSigners p)"
  have "map_of ?es so = None" by (force simp: map_of_eq_None_iff)
  moreover have "AList.update so b es = es @ [(so, b)]" if "map_of es so = None" for es :: "(signer_object \<times> buffer) list"
    using that by (induction es) (auto split: if_splits)
  ultimately show ?thesis
    using assms by (simp add: upsertAuthPayloadSigner_def deleteEqual_distinct payload_ok_def payloadSigners_def)
qed

lemma upsert_ok: "payload_ok p \<Longrightarrow> payload_ok (upsertAuthPayloadSigner p so b)"
  by (auto simp: payload_ok_def payloadSigners_def upsert_entries [unfolded payload_ok_def payloadSigners_def]
      distinct_map_filter)

lemma map_of_filter_neq:
  "map_of (map (\<lambda>e. (snd (fst e), snd e)) (filter (\<lambda>e. snd (fst e) \<noteq> t) es)) s =
   (if s = t then None else map_of (map (\<lambda>e. (snd (fst e), snd e)) es) s)"
  by (induction es) auto

lemma upsert_sigOf:
  assumes "payload_ok p"
  shows "sigOf (upsertAuthPayloadSigner p so b) s = (if s = snd so then Some b else sigOf p s)"
  by (simp add: sigOf_def sigEntries_def upsert_entries [OF assms] map_add_def map_of_filter_neq
      split: option.splits)

lemma upsert_ruleIds [simp]: "apRuleIds (upsertAuthPayloadSigner p so b) = apRuleIds p"
  by (simp add: upsertAuthPayloadSigner_def)

interpretation payload_store: keyed_store payload_ok "snd :: signer_object \<Rightarrow> signer"
  "\<lambda>so b p. upsertAuthPayloadSigner p so b" sigOf
  by unfold_locales (simp_all add: upsert_ok upsert_sigOf)

section \<open>Round trip through the written value\<close>

lemma mapE_readRuleId: "mapE readRuleId (map ScvU32 ids) = Inr ids"
  by (induction ids) (simp_all add: readRuleId_def)

lemma readSigners_written:
  assumes "sdk_strkey_ok K"
    and "list_all2 (\<lambda>(k, v) (s, b). signerToScVal K s = Inr k \<and> v = ScvBytes b) es ps"
  shows "readSigners K es acc = Inr (acc @ map (\<lambda>(i, s, b). ((Parsed i, s), b))
    (zip [length acc ..< length acc + length ps] ps))"
  using assms(2)
proof (induction es arbitrary: ps acc)
  case Nil
  then show ?case by simp
next
  case (Cons e es)
  obtain k v where e: "e = (k, v)" by (cases e)
  with Cons.prems obtain s b ps' where ps: "ps = (s, b) # ps'" and s: "signerToScVal K s = Inr k"
    and v: "v = ScvBytes b"
    and rest: "list_all2 (\<lambda>(k, v) (s, b). signerToScVal K s = Inr k \<and> v = ScvBytes b) es ps'"
    by (auto simp: list_all2_Cons1)
  show ?case
    using Cons.IH [OF rest, of "acc @ [((Parsed (length acc), s), b)]"]
      parse_signerToScVal [OF assms(1) s]
    by (simp add: e ps v upt_rec)
qed

text \<open>The entries written for a payload, and what sorting does to the signers behind them.\<close>

lemma written_entries:
  assumes "mapE (writeSignerEntry K) (apSigners p) = Inr es"
  shows "list_all2 (\<lambda>(k, v) (s, b). signerToScVal K s = Inr k \<and> v = ScvBytes b) es (sigEntries p)"
  using assms
  by (auto simp: mapE_Inr writeSignerEntry_def bindE_Inr sigEntries_def list_all2_conv_all_nth
      split: prod.splits)

lemma list_all2_permute:
  assumes "list_all2 P xs ys" "mset xs' = mset xs"
  shows "\<exists>ys'. list_all2 P xs' ys' \<and> mset ys' = mset ys"
proof -
  from list_all2_reorder_left_invariance [OF assms(1), of xs'] assms(2)
  show ?thesis by metis
qed

lemma mapE_permute:
  assumes "mapE f xs = Inr ys" "mset xs' = mset xs"
  shows "\<exists>ys'. mapE f xs' = Inr ys' \<and> mset ys' = mset ys"
  using list_all2_permute [OF assms(1) [unfolded mapE_Inr] assms(2)] by (simp add: mapE_Inr)

lemma mapE_map: "mapE f (map g xs) = mapE (\<lambda>x. f (g x)) xs"
  by (induction xs) simp_all

lemma writeSignerEntries:
  "mapE (writeSignerEntry K) (apSigners p) =
     mapE (\<lambda>(s, b). bindE (signerToScVal K s) (\<lambda>k. Inr (k, ScvBytes b))) (sigEntries p)"
proof -
  have "writeSignerEntry K = (\<lambda>e. case (snd (fst e), snd e) of
      (s, b) \<Rightarrow> bindE (signerToScVal K s) (\<lambda>k. Inr (k, ScvBytes b)))"
    by (rule ext) (simp add: writeSignerEntry_def)
  then show ?thesis by (simp add: sigEntries_def mapE_map)
qed

definition sortedSigners :: "sdk \<Rightarrow> scval \<Rightarrow> bool" where
  "sortedSigners K v = (case v of
     ScvMap (Some [(k1, ids), (k2, ScvMap (Some es))]) \<Rightarrow>
       sorted_wrt (\<lambda>a b. compareScVal K (fst a) (fst b) < 0) es
   | _ \<Rightarrow> False)"

lemma written_distinct:
  assumes "sdk_strkey_ok K" "payload_ok p" "mapE (writeSignerEntry K) (apSigners p) = Inr es"
  shows "distinct (map fst es)"
proof -
  have l: "list_all2 (\<lambda>(k, v) (s, b). signerToScVal K s = Inr k \<and> v = ScvBytes b) es (sigEntries p)"
    by (rule written_entries [OF assms(3)])
  have d: "distinct (map fst (sigEntries p))"
    using assms(2) by (simp add: fst_sigEntries payload_ok_def)
  show ?thesis
    unfolding distinct_conv_nth
  proof (intro allI impI)
    fix i j assume "i < length (map fst es)" "j < length (map fst es)" "i \<noteq> j"
    then have ij: "i < length es" "j < length es" "i < length (sigEntries p)" "j < length (sigEntries p)"
      using list_all2_lengthD [OF l] by simp_all
    have "signerToScVal K (fst (sigEntries p ! i)) = Inr (fst (es ! i))"
      "signerToScVal K (fst (sigEntries p ! j)) = Inr (fst (es ! j))"
      using list_all2_nthD [OF l ij(1)] list_all2_nthD [OF l ij(2)] by (auto split: prod.splits)
    moreover have "fst (sigEntries p ! i) \<noteq> fst (sigEntries p ! j)"
      using d ij(3,4) \<open>i \<noteq> j\<close> by (simp add: distinct_conv_nth)
    ultimately have "fst (es ! i) \<noteq> fst (es ! j)"
      using signerToScVal_inj [OF assms(1)] by metis
    with ij show "map fst es ! i \<noteq> map fst es ! j" by simp
  qed
qed

text \<open>Entries with equal keys under the host order are the same entry.\<close>

lemma written_keys_equal:
  assumes "sdk_xdr_ok K" "sdk_strkey_ok K" "payload_ok p"
    and es: "mapE (writeSignerEntry K) (apSigners p) = Inr es"
    and xy: "x \<in> set es" "y \<in> set es" "entryCompare K x y = 0"
  shows "x = y"
proof -
  have l: "list_all2 (\<lambda>(k, v) (s, b). signerToScVal K s = Inr k \<and> v = ScvBytes b) es (sigEntries p)"
    by (rule written_entries [OF es])
  have "\<exists>s. signerToScVal K s = Inr (fst e)" if "e \<in> set es" for e
  proof -
    from that obtain i where i: "i < length es" "e = es ! i" by (metis in_set_conv_nth)
    then show ?thesis
      using list_all2_nthD [OF l i(1)] by (auto split: prod.splits)
  qed
  then obtain s t where "signerToScVal K s = Inr (fst x)" "signerToScVal K t = Inr (fst y)"
    using xy(1,2) by blast
  then have "fst x = fst y"
    using compareScVal_signers_zero [OF assms(1,2)] xy(3) by (fastforce simp: entryCompare_def)
  with written_distinct [OF assms(2,3) es] xy(1,2) show ?thesis
    by (metis eq_key_imp_eq_value prod.collapse)
qed

lemma sigOf_mset:
  assumes "payload_ok p" "mset (sigEntries q) = mset (sigEntries p)"
  shows "payload_ok q" "sigOf q = sigOf p"
proof -
  have "mset (payloadSigners q) = mset (payloadSigners p)"
    using arg_cong [OF assms(2), of "image_mset fst"] by (simp only: fst_sigEntries mset_map [symmetric])
  then have d: "distinct (payloadSigners q)" using assms(1) using mset_eq_imp_distinct_iff by (auto simp only: payload_ok_def)
  then show "payload_ok q" by (simp add: payload_ok_def)
  have "set (sigEntries q) = set (sigEntries p)" using assms(2) by (rule mset_eq_setD)
  moreover have "distinct (map fst (sigEntries q))" "distinct (map fst (sigEntries p))"
    using d assms(1) by (simp_all only: fst_sigEntries payload_ok_def)
  ultimately have "map_of (sigEntries q) = map_of (sigEntries p)"
    using map_of_inject_set by blast
  then show "sigOf q = sigOf p" by (intro ext) (simp add: sigOf_def)
qed

lemma read_written:
  assumes "sdk_strkey_ok K" "writeAuthPayload K p = Inr v"
  shows "\<exists>q. readAuthPayload K v = Inr q \<and> apRuleIds q = apRuleIds p \<and>
    mset (sigEntries q) = mset (sigEntries p)"
proof -
  obtain es where es: "mapE (writeSignerEntry K) (apSigners p) = Inr es"
    and v: "v = ScvMap (Some [(ScvSymbol ''context_rule_ids'', ruleIdsScVal (apRuleIds p)),
      (ScvSymbol ''signers'', ScvMap (Some (sortBy (entryCompare K) es)))])"
    using assms(2) by (auto simp: writeAuthPayload_def bindE_Inr)
  obtain ps where ps: "list_all2 (\<lambda>(k, v) (s, b). signerToScVal K s = Inr k \<and> v = ScvBytes b)
      (sortBy (entryCompare K) es) ps" and m: "mset ps = mset (sigEntries p)"
    using list_all2_permute [OF written_entries [OF es] mset_sortBy] by blast
  let ?q = "\<lparr>apRuleIds = apRuleIds p, apSigners = map (\<lambda>(i, s, b). ((Parsed i, s), b)) (zip [0 ..< length ps] ps)\<rparr>"
  have "readAuthPayload K v = Inr ?q"
    using readSigners_written [OF assms(1) ps, of "[]"]
    by (simp add: v readAuthPayload_def readField_def ruleIdsScVal_def mapE_readRuleId emptyAuthPayload_def)
  moreover have "sigEntries ?q = ps"
    by (auto simp: sigEntries_def case_prod_unfold comp_def intro: nth_equalityI)
  ultimately show ?thesis using m by (intro exI [of _ ?q]) simp
qed

lemma payload_rules [simp]:
  "payload_ok (p\<lparr>apRuleIds := ids\<rparr>) \<longleftrightarrow> payload_ok p" "sigOf (p\<lparr>apRuleIds := ids\<rparr>) = sigOf p"
  by (simp_all add: payload_ok_def payloadSigners_def sigOf_def sigEntries_def fun_eq_iff)

text \<open>What a written payload reads back as, seen as a map from signers to signatures.\<close>

lemma read_back:
  assumes "sdk_strkey_ok K" "payload_ok p" "writeAuthPayload K p = Inr v"
  obtains q where "readAuthPayload K v = Inr q" "apRuleIds q = apRuleIds p" "sigOf q = sigOf p" "payload_ok q"
  using read_written [OF assms(1,3)] sigOf_mset [OF assms(2)] by blast

section \<open>Properties\<close>

text \<open>
  C21. Reading back a written payload gives the same rule ids and exactly the same signer and
  signature pairs, whatever order they were added in.
\<close>

theorem auth_payload_roundtrip:
  assumes "sdk_strkey_ok K" "writeAuthPayload K p = Inr v"
  shows "\<exists>q. readAuthPayload K v = Inr q \<and> apRuleIds q = apRuleIds p \<and>
    mset (sigEntries q) = mset (sigEntries p)"
  by (rule read_written [OF assms])

text \<open>
  The signers of a written payload are strictly ascending in the host order, so the host
  accepts the map: no duplicate and no misplaced key.
\<close>

theorem written_payload_sorted:
  assumes "sdk_xdr_ok K" "sdk_strkey_ok K" "payload_ok p" "writeAuthPayload K p = Inr v"
  shows "sortedSigners K v"
proof -
  obtain es where es: "mapE (writeSignerEntry K) (apSigners p) = Inr es"
    and v: "v = ScvMap (Some [(ScvSymbol ''context_rule_ids'', ruleIdsScVal (apRuleIds p)),
      (ScvSymbol ''signers'', ScvMap (Some (sortBy (entryCompare K) es)))])"
    using assms(4) by (auto simp: writeAuthPayload_def bindE_Inr)
  have "distinct es" using written_distinct [OF assms(2,3) es] by (simp add: distinct_map)
  then have "sorted_wrt (\<lambda>x y. entryCompare K x y < 0) (sortBy (entryCompare K) es)"
    by (rule entry_order.sortBy_strict) (rule written_keys_equal [OF assms(1-3) es])
  then show ?thesis by (simp add: v sortedSigners_def entryCompare_def)
qed

text \<open>
  The written value does not depend on the order in which signers signed: two payloads
  with the same rule ids and the same signatures are written as the same \<^verbatim>\<open>ScVal\<close>.
\<close>

theorem written_payload_canonical:
  assumes "sdk_xdr_ok K" "sdk_strkey_ok K" "payload_ok p"
    and "apRuleIds p = apRuleIds q" "mset (sigEntries p) = mset (sigEntries q)"
    and "writeAuthPayload K p = Inr v"
  shows "writeAuthPayload K q = Inr v"
proof -
  obtain es where es: "mapE (writeSignerEntry K) (apSigners p) = Inr es"
    and v: "v = ScvMap (Some [(ScvSymbol ''context_rule_ids'', ruleIdsScVal (apRuleIds p)),
      (ScvSymbol ''signers'', ScvMap (Some (sortBy (entryCompare K) es)))])"
    using assms(6) by (auto simp: writeAuthPayload_def bindE_Inr)
  then obtain es' where es': "mapE (writeSignerEntry K) (apSigners q) = Inr es'" and "mset es' = mset es"
    using mapE_permute [OF es [unfolded writeSignerEntries]] assms(5)
    by (metis writeSignerEntries)
  then have "sortBy (entryCompare K) es' = sortBy (entryCompare K) es"
    using entry_order.sortBy_canonical [of es es' K] written_keys_equal [OF assms(1-3) es] by metis
  with es' show ?thesis by (simp add: v writeAuthPayload_def assms(4))
qed

text \<open>
  Adding a signature replaces the signer's previous one and leaves every other signature as it
  was, and keeps one entry per signer.
\<close>

theorem upsert_replaces:
  assumes "payload_ok p"
  shows "sigOf (upsertAuthPayloadSigner p so b) = (sigOf p)(snd so \<mapsto> b) \<and>
    payload_ok (upsertAuthPayloadSigner p so b) \<and>
    apRuleIds (upsertAuthPayloadSigner p so b) = apRuleIds p"
  using assms by (auto simp: payload_store.get_put payload_store.inv_put)

text \<open>
  An accepted expiration is the requested one rounded up to the next ledger, within u32;
  a value that is not finite, negative or beyond u32 is refused.
\<close>

theorem normalizeExpiration_exact:
  "normalizeSignatureExpirationLedger x = Inr n \<longleftrightarrow>
     (\<exists>q. x = Fin q \<and> 0 \<le> q \<and> of_nat n - 1 < q \<and> q \<le> of_nat n \<and> n < 2 ^ 32)"
proof (cases x)
  case (Fin q)
  have "(0 \<le> q \<and> of_nat n - 1 < q \<and> q \<le> of_nat n) \<longleftrightarrow> 0 \<le> q \<and> \<lceil>q\<rceil> = int n"
    by (auto simp: ceiling_eq_iff)
  moreover have "0 \<le> q \<Longrightarrow> nat \<lceil>q\<rceil> = n \<longleftrightarrow> \<lceil>q\<rceil> = int n"
    using zero_le_ceiling [of q] by linarith
  ultimately show ?thesis
    by (auto simp: Fin normalizeSignatureExpirationLedger_def Let_def U32_MAX_def)
qed (simp_all add: normalizeSignatureExpirationLedger_def)

text \<open>
  C22. What a signer commits to under \<^verbatim>\<open>preimage-v1\<close> determines the account, the signature payload and
  the context rule ids: two preimages with the same encoding are about the same three values.
\<close>

theorem preimage_binds:
  assumes "sdk_xdr_ok K" "sdk_strkey_ok K"
    and "buildAuthDigestPreimage K a pay ids = Inr v" "buildAuthDigestPreimage K b pay' ids' = Inr w"
    and "scvalToXDR K v = scvalToXDR K w"
  shows "a = b \<and> pay = pay' \<and> ids = ids'"
proof -
  have "v = w" using assms(1,5) by (simp add: sdk_xdr_okD)
  with assms(3,4) obtain x where x: "addressFromString K a = Inr x" "addressFromString K b = Inr x"
    and r: "pay = pay'" "map ScvU32 ids = map ScvU32 ids'"
    by (auto simp: buildAuthDigestPreimage_def bindE_Inr ruleIdsScVal_def split: if_splits)
  from x have "fromStrkey K a = Some x" "fromStrkey K b = Some x"
    by (auto simp: addressFromString_def split: option.splits)
  then have "a = b" using assms(2) by (simp add: sdk_strkeyD)
  moreover have "ids = ids'" using r(2) by (rule map_injective) (simp add: inj_def)
  ultimately show ?thesis using r(1) by simp
qed

section \<open>Witnesses\<close>

definition demoPayload :: auth_payload where
  "demoPayload = \<lparr>apRuleIds = [3], apSigners =
     [((Caller 1, External ''Cv'' [2]), [9]), ((Caller 0, External ''Cv'' [1, 1]), [8])]\<rparr>"

lemma demoPayload_ok: "payload_ok demoPayload"
  by (simp add: payload_ok_def payloadSigners_def demoPayload_def)

lemma demoPayload_written: "\<exists>v. writeAuthPayload demoSdk demoPayload = Inr v"
  by (simp add: writeAuthPayload_def demoPayload_def writeSignerEntry_def signerToScVal_def
      addressFromString_def demoSdk_def demoFromStrkey_def)

lemma auth_payload_roundtrip_witness:
  "\<exists>v q. writeAuthPayload demoSdk demoPayload = Inr v \<and> readAuthPayload demoSdk v = Inr q \<and>
     apRuleIds q = [3] \<and> mset (sigEntries q) = {#(External ''Cv'' [2], [9]), (External ''Cv'' [1, 1], [8])#}"
proof -
  obtain v where v: "writeAuthPayload demoSdk demoPayload = Inr v" using demoPayload_written by blast
  show ?thesis
    using auth_payload_roundtrip [OF demoSdk_strkey v] v by (auto simp: demoPayload_def sigEntries_def)
qed

lemma written_payload_sorted_witness:
  "\<exists>v. writeAuthPayload demoSdk demoPayload = Inr v \<and> sortedSigners demoSdk v"
  using demoPayload_written written_payload_sorted [OF demoSdk_xdr demoSdk_strkey demoPayload_ok] by blast

lemma written_payload_canonical_witness:
  "\<exists>v. writeAuthPayload demoSdk demoPayload = Inr v \<and>
     writeAuthPayload demoSdk (demoPayload\<lparr>apSigners := rev (apSigners demoPayload)\<rparr>) = Inr v"
proof -
  obtain v where v: "writeAuthPayload demoSdk demoPayload = Inr v" using demoPayload_written by blast
  show ?thesis
    using written_payload_canonical [OF demoSdk_xdr demoSdk_strkey demoPayload_ok, of
        "demoPayload\<lparr>apSigners := rev (apSigners demoPayload)\<rparr>"] v
    by (auto simp: sigEntries_def rev_map [symmetric])
qed

lemma upsert_replaces_witness:
  "sigOf (upsertAuthPayloadSigner demoPayload (Caller 5, External ''Cv'' [2]) [7]) (External ''Cv'' [2]) = Some [7]"
  using upsert_replaces [OF demoPayload_ok, of "(Caller 5, External ''Cv'' [2])" "[7]"] by simp

lemma demoPreimage: "buildAuthDigestPreimage demoSdk (CHR ''C'' # a) (replicate 32 1) [4] =
   Inr (ScvMap (Some [(ScvSymbol ''account'', ScvAddress (AddrContract (utf8 a))),
     (ScvSymbol ''context_rule_ids'', ruleIdsScVal [4]),
     (ScvSymbol ''signature_payload'', ScvBytes (replicate 32 1))]))"
  by (simp add: buildAuthDigestPreimage_def addressFromString_def demoSdk_def demoFromStrkey_def)

lemma preimage_binds_witness:
  "\<exists>v w. buildAuthDigestPreimage demoSdk ''CW'' (replicate 32 1) [4] = Inr v \<and>
     buildAuthDigestPreimage demoSdk ''CX'' (replicate 32 1) [4] = Inr w \<and>
     scvalToXDR demoSdk v \<noteq> scvalToXDR demoSdk w"
  using preimage_binds [OF demoSdk_xdr demoSdk_strkey demoPreimage [of "''W''"] demoPreimage [of "''X''"]]
    demoPreimage by auto

end
