(* ===== verification/Kit_Mutation.thy ===== *)
theory Kit_Mutation
  imports Kit_AuthPayload
begin

text \<open>
  The guard every signing path runs before it signs: \<^verbatim>\<open>assertWalletMutationIntent\<close> of
  \<^verbatim>\<open>src/kit/auth-payload.ts\<close>. It walks the invocation tree of an authorization entry, collects the
  calls that change the wallet's authority, and refuses them on a generic path; an admin path
  must declare the transaction's host function, which the single root mutation must match.
\<close>

definition WALLET_MUTATION_FUNCTIONS :: "string list" where
  "WALLET_MUTATION_FUNCTIONS =
    [''execute'', ''upgrade'', ''add_policy'', ''remove_policy'', ''add_signer'', ''remove_signer'',
     ''add_context_rule'', ''remove_context_rule'', ''batch_add_signer'', ''update_context_rule_name'',
     ''update_context_rule_valid_until'']"

section \<open>The walk\<close>

text \<open>A mutation: the call's arguments and the depth of its node.\<close>

type_synonym mutation = "invoke_args \<times> nat"

definition mutationHere :: "sdk \<Rightarrow> string \<Rightarrow> nat \<Rightarrow> auth_function \<Rightarrow> mutation list result" where
  "mutationHere K contractId depth fn = (case fn of
     ContractFn args \<Rightarrow>
       bindE (scAddressToString K (iaContract args) ''Authorized invocation target'') (\<lambda>target.
         Inr (if target = contractId \<and> iaFunction args \<in> set WALLET_MUTATION_FUNCTIONS
              then [(args, depth)] else []))
   | _ \<Rightarrow> Inr [])"

fun walkMutations :: "sdk \<Rightarrow> string \<Rightarrow> nat \<Rightarrow> invocation \<Rightarrow> mutation list result"
  and walkChildren :: "sdk \<Rightarrow> string \<Rightarrow> nat \<Rightarrow> invocation list \<Rightarrow> mutation list result" where
  "walkMutations K contractId depth (Invocation fn subs) =
     bindE (mutationHere K contractId depth fn) (\<lambda>here.
     bindE (walkChildren K contractId (Suc depth) subs) (\<lambda>below. Inr (here @ below)))"
| "walkChildren K contractId depth [] = Inr []"
| "walkChildren K contractId depth (t # ts) =
     bindE (walkMutations K contractId depth t) (\<lambda>ms.
     bindE (walkChildren K contractId depth ts) (\<lambda>rest. Inr (ms @ rest)))"

section \<open>Signers a mutation adds\<close>

text \<open>Argument position and whether it is a list, per signer-adding function.\<close>

definition SIGNER_ARGUMENTS :: "(string \<times> nat \<times> bool) list" where
  "SIGNER_ARGUMENTS =
    [(''add_signer'', 1, False), (''batch_add_signer'', 1, True), (''add_context_rule'', 3, True)]"

definition assertAddedSignersValid :: "sdk \<Rightarrow> invoke_args \<Rightarrow> string \<Rightarrow> unit result" where
  "assertAddedSignersValid K args contractId =
     (case map_of SIGNER_ARGUMENTS (iaFunction args) of
        None \<Rightarrow> Inr ()
      | Some (index, isList) \<Rightarrow>
          if length (iaArgs args) \<le> index then Inr ()
          else let value = iaArgs args ! index in
            bindE (if isList
                then (case value of ScvVec v \<Rightarrow> Inr (items v) | _ \<Rightarrow> Inl (JsError ''vec not set''))
                else Inr [value])
              (forE (\<lambda>signer. bindE (parseSignerScVal K signer)
                 (\<lambda>s. validateSigner K s (Some contractId)))))"

section \<open>The guard\<close>

definition assertUpgradeArgs :: "sdk \<Rightarrow> invoke_args \<Rightarrow> string \<Rightarrow> upgrade_policy option \<Rightarrow> unit result" where
  "assertUpgradeArgs K rootArgs contractId upgradeTargetPolicy =
     (case iaArgs rootArgs of
        ScvBytes target # rest \<Rightarrow>
          (case upgradeTargetPolicy of
             None \<Rightarrow> Inl (invalidInput ''The admin signing path requires an upgrade target policy.'')
           | Some policy \<Rightarrow>
               bindE (assertUpgradeTarget policy (HashBytes target)) (\<lambda>_.
               (case rest of
                  ScvAddress operator # _ \<Rightarrow>
                    bindE (scAddressToString K operator ''Upgrade operator'') (\<lambda>s.
                      if s \<noteq> contractId
                      then Inl (invalidInput ''The upgrade operator must be the wallet itself, as kit.upgrade() sets it.'')
                      else Inr ())
                | _ \<Rightarrow> Inl (invalidInput ''The upgrade operator must be the wallet itself, as kit.upgrade() sets it.''))))
      | _ \<Rightarrow> Inl (invalidInput ''The upgrade target must be a 32-byte WASM hash.''))"

definition assertAdminIntent ::
    "sdk \<Rightarrow> string \<Rightarrow> mutation list \<Rightarrow> host_function \<Rightarrow> upgrade_policy option \<Rightarrow> unit result" where
  "assertAdminIntent K contractId mutations hostFunction upgradeTargetPolicy =
     (case mutations of
        [(rootArgs, 0)] \<Rightarrow>
          (case hostFunction of
             InvokeContract transactionArgs \<Rightarrow>
               if invokeToXDR K rootArgs \<noteq> invokeToXDR K transactionArgs
               then Inl (invalidInput ''The admin authorization root does not match the transaction host function.'')
               else bindE (assertAddedSignersValid K rootArgs contractId) (\<lambda>_.
                 if iaFunction rootArgs = ''upgrade''
                 then assertUpgradeArgs K rootArgs contractId upgradeTargetPolicy
                 else Inr ())
           | _ \<Rightarrow> Inl (invalidInput ''The admin authorization root does not match an invokeContract transaction.''))
      | _ \<Rightarrow> Inl (invalidInput ''Refusing nested or multiple smart-account mutations in one authorization tree.''))"

definition assertWalletMutationIntent ::
    "sdk \<Rightarrow> auth_entry \<Rightarrow> string \<Rightarrow> host_function option \<Rightarrow> upgrade_policy option \<Rightarrow> unit result" where
  "assertWalletMutationIntent K e contractId hostFunction upgradeTargetPolicy =
     bindE (walkMutations K contractId 0 (aeRoot e)) (\<lambda>mutations.
       if mutations = [] then Inr ()
       else (case hostFunction of
          None \<Rightarrow> Inl (invalidInput ''Refusing a smart-account mutation on a generic signing path. Use the dedicated admin signing method.'')
        | Some adminHostFunction \<Rightarrow>
            assertAdminIntent K contractId mutations adminHostFunction upgradeTargetPolicy))"

section \<open>What the walk finds\<close>

text \<open>All calls of a tree, root first, with their depth: the specification of the walk.\<close>

fun callsOf :: "nat \<Rightarrow> invocation \<Rightarrow> (invoke_args \<times> nat) list" where
  "callsOf depth (Invocation fn subs) =
     (case fn of ContractFn args \<Rightarrow> [(args, depth)] | _ \<Rightarrow> []) @ concat (map (callsOf (Suc depth)) subs)"

definition isMutationOf :: "sdk \<Rightarrow> string \<Rightarrow> invoke_args \<Rightarrow> bool" where
  "isMutationOf K contractId args \<longleftrightarrow> fromScAddress K (iaContract args) = Some contractId \<and>
     iaFunction args \<in> set WALLET_MUTATION_FUNCTIONS"

text \<open>The calls of one node.\<close>

definition callHere :: "nat \<Rightarrow> auth_function \<Rightarrow> (invoke_args \<times> nat) list" where
  "callHere depth fn = (case fn of ContractFn args \<Rightarrow> [(args, depth)] | _ \<Rightarrow> [])"

definition targetsReadable :: "sdk \<Rightarrow> (invoke_args \<times> nat) list \<Rightarrow> bool" where
  "targetsReadable K = list_all (\<lambda>(a, d). fromScAddress K (iaContract a) \<noteq> None)"

definition mutationsIn :: "sdk \<Rightarrow> string \<Rightarrow> (invoke_args \<times> nat) list \<Rightarrow> mutation list" where
  "mutationsIn K cid = filter (\<lambda>(a, d). isMutationOf K cid a)"

lemma calls_append [simp]:
  "targetsReadable K (xs @ ys) \<longleftrightarrow> targetsReadable K xs \<and> targetsReadable K ys"
  "mutationsIn K cid (xs @ ys) = mutationsIn K cid xs @ mutationsIn K cid ys"
  "targetsReadable K []" "mutationsIn K cid [] = []"
  by (simp_all add: targetsReadable_def mutationsIn_def)

lemma mutationHere_ok:
  "mutationHere K cid d fn = Inr ms \<longleftrightarrow>
     targetsReadable K (callHere d fn) \<and> ms = mutationsIn K cid (callHere d fn)"
proof (cases fn)
  case (ContractFn args)
  show ?thesis
    by (cases "fromScAddress K (iaContract args)")
      (auto simp: ContractFn mutationHere_def scAddressToString_def isMutationOf_def
        targetsReadable_def mutationsIn_def callHere_def)
qed (auto simp: mutationHere_def callHere_def)

lemma walk_ok:
  "walkMutations K cid d t = Inr ms \<longleftrightarrow>
     targetsReadable K (callsOf d t) \<and> ms = mutationsIn K cid (callsOf d t)"
  "walkChildren K cid d ts = Inr ms \<longleftrightarrow>
     targetsReadable K (concat (map (callsOf d) ts)) \<and>
     ms = mutationsIn K cid (concat (map (callsOf d) ts))"
proof (induction K cid d t and K cid d ts arbitrary: ms and ms rule: walkMutations_walkChildren.induct)
  case (1 K cid d fn subs)
  have "callsOf d (Invocation fn subs) = callHere d fn @ concat (map (callsOf (Suc d)) subs)"
    by (simp add: callHere_def)
  moreover have "walkChildren K cid (Suc d) subs = Inr below \<longleftrightarrow>
      targetsReadable K (concat (map (callsOf (Suc d)) subs)) \<and>
      below = mutationsIn K cid (concat (map (callsOf (Suc d)) subs))"
    for below by (rule 1)
  ultimately show ?case
    by (auto simp only: walkMutations.simps bindE_Inr mutationHere_ok calls_append sum.inject)
next
  case (2 K cid d)
  then show ?case by auto
next
  case (3 K cid d t ts)
  have "walkChildren K cid d ts = Inr rest \<longleftrightarrow>
      targetsReadable K (concat (map (callsOf d) ts)) \<and>
      rest = mutationsIn K cid (concat (map (callsOf d) ts))"
    for rest by (rule 3 (2))
  then show ?case
    by (auto simp only: walkChildren.simps bindE_Inr 3 (1) calls_append sum.inject
        list.map concat.simps)
qed

lemma calls_depth: "(a, n) \<in> set (callsOf d t) \<Longrightarrow> d \<le> n"
proof (induction d t arbitrary: n rule: callsOf.induct)
  case (1 d fn subs)
  show ?case
  proof (cases "\<exists>t \<in> set subs. (a, n) \<in> set (callsOf (Suc d) t)")
    case True
    then have "Suc d \<le> n" using 1 by blast
    then show ?thesis by simp
  next
    case False
    then have "(a, n) \<in> set (case fn of ContractFn args \<Rightarrow> [(args, d)] | _ \<Rightarrow> [])"
      using 1 (2) by simp
    then show ?thesis by (cases fn) auto
  qed
qed

lemma calls_root: "(a, d) \<in> set (callsOf d t) \<Longrightarrow> invFunction t = ContractFn a"
proof (cases t)
  case (Invocation fn subs)
  assume "(a, d) \<in> set (callsOf d t)"
  moreover have "(a, d) \<notin> set (callsOf (Suc d) u)" for u
    using calls_depth [of a d "Suc d" u] by auto
  ultimately have "(a, d) \<in> set (case fn of ContractFn args \<Rightarrow> [(args, d)] | _ \<Rightarrow> [])"
    by (simp add: Invocation)
  then show ?thesis by (cases fn) (auto simp: Invocation)
qed

text \<open>The signers an accepted mutation adds: those named by its arguments.\<close>

definition addedSignerValues :: "invoke_args \<Rightarrow> scval list" where
  "addedSignerValues args = (case map_of SIGNER_ARGUMENTS (iaFunction args) of
     None \<Rightarrow> []
   | Some (index, isList) \<Rightarrow>
       if length (iaArgs args) \<le> index then []
       else if isList then (case iaArgs args ! index of ScvVec v \<Rightarrow> items v | _ \<Rightarrow> [])
       else [iaArgs args ! index])"

lemma assertAddedSignersValid_ok:
  assumes "assertAddedSignersValid K args cid = Inr ()" "v \<in> set (addedSignerValues args)"
  shows "\<exists>s. parseSignerScVal K v = Inr s \<and> acceptableSigner K (Some cid) s"
  using assms
  by (auto simp: assertAddedSignersValid_def addedSignerValues_def Let_def bindE_Inr forE_Inr
      validateSigner_ok split: option.splits prod.splits if_splits scval.splits)

lemma assertUpgradeArgs_ok:
  "assertUpgradeArgs K args cid pol = Inr () \<longleftrightarrow>
     (\<exists>target operator rest policy. iaArgs args = ScvBytes target # ScvAddress operator # rest \<and>
        pol = Some policy \<and> length target = 32 \<and> toHex target \<in> set (acceptedWasmHashes policy) \<and>
        map_of (authDigestSchemes policy) (toHex target) \<noteq> None \<and>
        fromScAddress K operator = Some cid)"
  by (auto simp: assertUpgradeArgs_def bindE_Inr assertUpgradeTarget_ok scAddressToString_ok
      split: list.splits scval.splits option.splits if_splits)

lemma assertAdminIntent_ok:
  assumes "sdk_xdr_ok K"
  shows "assertAdminIntent K cid ms hf pol = Inr () \<longleftrightarrow>
     (\<exists>args. ms = [(args, 0)] \<and> hf = InvokeContract args \<and>
        assertAddedSignersValid K args cid = Inr () \<and>
        (if iaFunction args = ''upgrade'' then assertUpgradeArgs K args cid pol = Inr () else True))"
  by (auto simp: assertAdminIntent_def bindE_Inr sdk_xdr_okD [OF assms]
      split: list.splits prod.splits nat.splits host_function.splits if_splits)

lemma generic_path_accepts:
  "assertWalletMutationIntent K e cid None pol = Inr () \<Longrightarrow>
     list_all (\<lambda>(a, d). \<not> isMutationOf K cid a) (callsOf 0 (aeRoot e))"
  by (auto simp: assertWalletMutationIntent_def bindE_Inr walk_ok mutationsIn_def
      list_all_iff filter_empty_conv split: if_splits)

section \<open>Properties\<close>

text \<open>C4. A generic signing path accepts an entry exactly when no node of its invocation tree, at
  any depth, calls an authority-changing function of the wallet (and every call target can be
  read): the guard misses no mutation and refuses nothing else.\<close>

theorem generic_path_refuses_mutations:
  "assertWalletMutationIntent K e cid None pol = Inr () \<longleftrightarrow>
     list_all (\<lambda>(a, d). fromScAddress K (iaContract a) \<noteq> None \<and> \<not> isMutationOf K cid a)
       (callsOf 0 (aeRoot e))"
  by (auto simp: assertWalletMutationIntent_def bindE_Inr walk_ok targetsReadable_def mutationsIn_def
      list_all_iff filter_empty_conv split: if_splits)

text \<open>C5. An entry the admin path accepts either holds no wallet mutation, or its single mutation
  is the root call and equals the declared transaction's contract, function and arguments;
  every signer it adds is then acceptable for this wallet.\<close>

theorem admin_path_matches_transaction:
  assumes "sdk_xdr_ok K"
    and "assertWalletMutationIntent K e cid (Some hf) pol = Inr ()"
    and "(a, d) \<in> set (callsOf 0 (aeRoot e))" "isMutationOf K cid a"
  shows "hf = InvokeContract a \<and> invFunction (aeRoot e) = ContractFn a \<and>
     mutationsIn K cid (callsOf 0 (aeRoot e)) = [(a, 0)]"
proof -
  let ?ms = "mutationsIn K cid (callsOf 0 (aeRoot e))"
  have a: "(a, d) \<in> set ?ms" using assms (3,4) by (auto simp: mutationsIn_def)
  then have "?ms \<noteq> []" by auto
  then obtain b where b: "?ms = [(b, 0)]" "hf = InvokeContract b"
    using assms (2) by (auto simp: assertWalletMutationIntent_def bindE_Inr walk_ok
        assertAdminIntent_ok [OF assms (1)])
  with a have "a = b" by simp
  moreover have "(b, 0) \<in> set (callsOf 0 (aeRoot e))"
  proof -
    have "(b, 0) \<in> set (mutationsIn K cid (callsOf 0 (aeRoot e)))" using b by simp
    then show ?thesis by (simp add: mutationsIn_def)
  qed
  ultimately show ?thesis using b calls_root by auto
qed

text \<open>A signer that an accepted admin transaction adds to the wallet (by \<^verbatim>\<open>add_signer\<close>,
  \<^verbatim>\<open>batch_add_signer\<close> or \<^verbatim>\<open>add_context_rule\<close>) decodes to one that is neither the wallet itself nor
  the publicly known default deployer, and whose key data fits the limit.\<close>

theorem admin_path_adds_valid_signers:
  assumes "sdk_xdr_ok K"
    and "assertWalletMutationIntent K e cid (Some hf) pol = Inr ()"
    and "(a, d) \<in> set (callsOf 0 (aeRoot e))" "isMutationOf K cid a"
    and "v \<in> set (addedSignerValues a)"
  shows "\<exists>s. parseSignerScVal K v = Inr s \<and> acceptableSigner K (Some cid) s"
proof -
  let ?ms = "mutationsIn K cid (callsOf 0 (aeRoot e))"
  have "(a, d) \<in> set ?ms" using assms (3,4) by (auto simp: mutationsIn_def)
  then have "assertAddedSignersValid K a cid = Inr ()"
    using assms (2) by (auto simp: assertWalletMutationIntent_def bindE_Inr walk_ok
        assertAdminIntent_ok [OF assms (1)] split: if_splits)
  from assertAddedSignersValid_ok [OF this assms (5)] show ?thesis .
qed

text \<open>An \<^verbatim>\<open>upgrade\<close> that the admin path accepts names a 32-byte target on the accepted list whose
  authorization digest scheme is known, and the wallet itself as operator.\<close>

theorem admin_path_upgrade_known:
  assumes "sdk_xdr_ok K"
    and "assertWalletMutationIntent K e cid (Some hf) pol = Inr ()"
    and "(a, d) \<in> set (callsOf 0 (aeRoot e))" "isMutationOf K cid a" "iaFunction a = ''upgrade''"
  shows "\<exists>target operator rest policy. iaArgs a = ScvBytes target # ScvAddress operator # rest \<and>
     pol = Some policy \<and> length target = 32 \<and> toHex target \<in> set (acceptedWasmHashes policy) \<and>
     map_of (authDigestSchemes policy) (toHex target) \<noteq> None \<and> fromScAddress K operator = Some cid"
proof -
  let ?ms = "mutationsIn K cid (callsOf 0 (aeRoot e))"
  have "(a, d) \<in> set ?ms" using assms (3,4) by (auto simp: mutationsIn_def)
  then have "assertUpgradeArgs K a cid pol = Inr ()"
    using assms (2,5) by (auto simp: assertWalletMutationIntent_def bindE_Inr walk_ok
        assertAdminIntent_ok [OF assms (1)] split: if_splits)
  then show ?thesis by (simp add: assertUpgradeArgs_ok)
qed

section \<open>Witnesses\<close>

definition demoWallet :: string where
  "demoWallet = ''CW''"

definition demoCall :: "string \<Rightarrow> scval list \<Rightarrow> invoke_args" where
  "demoCall f args = \<lparr>iaContract = AddrContract (utf8 ''W''), iaFunction = f, iaArgs = args\<rparr>"

definition demoEntry :: "invoke_args \<Rightarrow> auth_entry" where
  "demoEntry call = \<lparr>aeCredentials = SourceAccount, aeRoot = Invocation (ContractFn call) []\<rparr>"

definition demoAdd :: invoke_args where
  "demoAdd = demoCall ''add_signer''
     [ScvU32 0, ScvVec (Some [ScvSymbol ''Delegated'', ScvAddress (AddrAccount (utf8 ''A''))])]"

definition demoUpgrade :: invoke_args where
  "demoUpgrade = demoCall ''upgrade''
     [ScvBytes (replicate 32 1), ScvAddress (AddrContract (utf8 ''W''))]"

definition demoPolicy :: upgrade_policy where
  "demoPolicy = \<lparr>acceptedWasmHashes = [toHex (replicate 32 1)],
     authDigestSchemes = [(toHex (replicate 32 1), PreimageV1)]\<rparr>"

lemma demo_strkeys:
  "fromScAddress demoSdk (AddrContract (utf8 s)) = Some (CHR ''C'' # s)"
  "fromScAddress demoSdk (AddrAccount (utf8 s)) = Some (CHR ''G'' # s)"
  by (simp_all add: demoSdk_def demoStrkey_def)

lemma demo_intent:
  assumes "f \<in> set WALLET_MUTATION_FUNCTIONS"
    and "assertAddedSignersValid demoSdk (demoCall f args) demoWallet = Inr ()"
    and "f = ''upgrade'' \<Longrightarrow> assertUpgradeArgs demoSdk (demoCall f args) demoWallet pol = Inr ()"
  shows "assertWalletMutationIntent demoSdk (demoEntry (demoCall f args)) demoWallet
     (Some (InvokeContract (demoCall f args))) pol = Inr ()"
    and "(demoCall f args, 0) \<in> set (callsOf 0 (aeRoot (demoEntry (demoCall f args))))"
    and "isMutationOf demoSdk demoWallet (demoCall f args)"
proof -
  let ?call = "demoCall f args"
  show m: "isMutationOf demoSdk demoWallet ?call"
    using assms (1) by (simp add: isMutationOf_def demoCall_def demo_strkeys demoWallet_def)
  have r: "fromScAddress demoSdk (iaContract ?call) \<noteq> None" by (simp add: demoCall_def demo_strkeys)
  have c: "callsOf 0 (aeRoot (demoEntry ?call)) = [(?call, 0)]" by (simp add: demoEntry_def)
  then show "(?call, 0) \<in> set (callsOf 0 (aeRoot (demoEntry ?call)))" by simp
  have w: "walkMutations demoSdk demoWallet 0 (aeRoot (demoEntry ?call)) = Inr [(?call, 0)]"
    unfolding walk_ok c using m r by (simp add: targetsReadable_def mutationsIn_def)
  have "assertAdminIntent demoSdk demoWallet [(?call, 0)] (InvokeContract ?call) pol = Inr ()"
    using assms by (simp add: assertAdminIntent_ok [OF demoSdk_xdr], simp add: demoCall_def)
  then show "assertWalletMutationIntent demoSdk (demoEntry ?call) demoWallet
     (Some (InvokeContract ?call)) pol = Inr ()"
    by (simp add: assertWalletMutationIntent_def w)
qed

lemma demoAdd_signer: "assertAddedSignersValid demoSdk demoAdd demoWallet = Inr ()"
proof -
  have "acceptableSigner demoSdk (Some demoWallet) (Delegated ''GA'')"
    by (simp add: demoSdk_def DEFAULT_DEPLOYER_PUBLIC_KEY_def DEFAULT_DEPLOYER_SEED_def demoWallet_def)
  then have "validateSigner demoSdk (Delegated ''GA'') (Some demoWallet) = Inr ()"
    by (simp add: validateSigner_ok)
  then show ?thesis
    by (simp add: assertAddedSignersValid_def demoAdd_def demoCall_def SIGNER_ARGUMENTS_def
        parseSignerScVal_def parseSignerItems_def scAddressToString_def demo_strkeys)
qed

lemma demoUpgrade_args: "assertUpgradeArgs demoSdk demoUpgrade demoWallet (Some demoPolicy) = Inr ()"
  by (simp add: assertUpgradeArgs_ok demoUpgrade_def demoCall_def demoPolicy_def demo_strkeys demoWallet_def)

lemma demoUpgrade_signer: "assertAddedSignersValid demoSdk demoUpgrade demoWallet = Inr ()"
  by (simp add: assertAddedSignersValid_def demoUpgrade_def demoCall_def SIGNER_ARGUMENTS_def)

lemma demoAdd_ok:
  "assertWalletMutationIntent demoSdk (demoEntry demoAdd) demoWallet (Some (InvokeContract demoAdd)) None = Inr ()"
  "(demoAdd, 0) \<in> set (callsOf 0 (aeRoot (demoEntry demoAdd)))"
  "isMutationOf demoSdk demoWallet demoAdd"
  using demo_intent [where f = "''add_signer''" and args = "iaArgs demoAdd" and pol = None] demoAdd_signer
  by (simp_all add: demoAdd_def demoCall_def WALLET_MUTATION_FUNCTIONS_def)

lemma demoUpgrade_ok:
  "assertWalletMutationIntent demoSdk (demoEntry demoUpgrade) demoWallet
     (Some (InvokeContract demoUpgrade)) (Some demoPolicy) = Inr ()"
  "(demoUpgrade, 0) \<in> set (callsOf 0 (aeRoot (demoEntry demoUpgrade)))"
  "isMutationOf demoSdk demoWallet demoUpgrade"
  using demo_intent [where f = "''upgrade''" and args = "iaArgs demoUpgrade" and pol = "Some demoPolicy"]
    demoUpgrade_signer demoUpgrade_args
  by (simp_all add: demoUpgrade_def demoCall_def WALLET_MUTATION_FUNCTIONS_def)

lemma admin_path_matches_transaction_witness:
  "invFunction (aeRoot (demoEntry demoAdd)) = ContractFn demoAdd \<and>
     mutationsIn demoSdk demoWallet (callsOf 0 (aeRoot (demoEntry demoAdd))) = [(demoAdd, 0)]"
  using admin_path_matches_transaction [OF demoSdk_xdr demoAdd_ok] by simp

lemma admin_path_adds_valid_signers_witness:
  "\<exists>v s. v \<in> set (addedSignerValues demoAdd) \<and> parseSignerScVal demoSdk v = Inr s \<and>
     acceptableSigner demoSdk (Some demoWallet) s"
proof -
  obtain v where v: "v \<in> set (addedSignerValues demoAdd)"
    by (auto simp: addedSignerValues_def demoAdd_def demoCall_def SIGNER_ARGUMENTS_def)
  then show ?thesis using admin_path_adds_valid_signers [OF demoSdk_xdr demoAdd_ok v] by blast
qed

lemma admin_path_upgrade_known_witness:
  "\<exists>target operator rest. iaArgs demoUpgrade = ScvBytes target # ScvAddress operator # rest \<and>
     length target = 32 \<and> fromScAddress demoSdk operator = Some demoWallet"
proof -
  have "iaFunction demoUpgrade = ''upgrade''" by (simp add: demoUpgrade_def demoCall_def)
  then show ?thesis using admin_path_upgrade_known [OF demoSdk_xdr demoUpgrade_ok] by blast
qed

end
