(* ===== verification/Kit_Policies.thy ===== *)
theory Kit_Policies
  imports Kit_Text Kit_Builders Kit_Mutation
begin

text \<open>
  \<^verbatim>\<open>src/kit/policies-ops.ts\<close>: the encoding of policy install parameters and of the policy maps
  the constructor and \<^verbatim>\<open>add_context_rule\<close> take. The parameters come from the application, so
  they are arbitrary JavaScript values.
\<close>

section \<open>Untrusted parameters\<close>

text \<open>
  What reading and calling \<^verbatim>\<open>toXDR\<close> of an object does: there is none, reading it throws, calling
  it throws, or it returns bytes (\<open>Some\<close>) or something else (\<open>None\<close>).
\<close>

datatype to_xdr = NoToXdr | UnreadableToXdr | ThrowingToXdr | ReturningToXdr "buffer option"

datatype js_value =
    JsUndefined
  | JsNull
  | JsNumber jsnum
  | JsBigInt int
  | JsText string
  | JsScVal scval
  | JsMapOf "(signer \<times> js_value) list"
  | JsObject "(string \<times> js_value) list" to_xdr

text \<open>\<^verbatim>\<open>const { field } = params\<close>, which throws on \<^verbatim>\<open>null\<close> and \<^verbatim>\<open>undefined\<close>.\<close>

definition fieldOf :: "js_value \<Rightarrow> string \<Rightarrow> js_value result" where
  "fieldOf params field = (case params of
     JsUndefined \<Rightarrow> Inl (JsError ''Cannot destructure undefined'')
   | JsNull \<Rightarrow> Inl (JsError ''Cannot destructure null'')
   | JsObject fs x \<Rightarrow> Inr (case map_of fs field of None \<Rightarrow> JsUndefined | Some v \<Rightarrow> v)
   | _ \<Rightarrow> Inr JsUndefined)"

definition foreignScValError :: "string \<Rightarrow> kit_error" where
  "foreignScValError address = invalidInput (''Policy '' @ address @
     '': custom policy installParams has toXDR() but does not encode an xdr.ScVal. '' @
     ''It may come from a different @stellar/stellar-sdk copy; pass an '' @
     ''xdr.ScVal whose toXDR() returns valid ScVal bytes.'')"

text \<open>\<open>decode\<close> is \<^verbatim>\<open>xdr.ScVal.fromXDR\<close> of the SDK; \<open>None\<close> is its throw.\<close>

definition toKitScVal :: "(buffer \<Rightarrow> scval option) \<Rightarrow> js_value \<Rightarrow> string \<Rightarrow> scval option result" where
  "toKitScVal decode value address = (case value of
     JsScVal v \<Rightarrow> Inr (Some v)
   | JsObject fs x \<Rightarrow>
       (case x of
          NoToXdr \<Rightarrow> Inr None
        | UnreadableToXdr \<Rightarrow> Inl (foreignScValError address)
        | ThrowingToXdr \<Rightarrow> Inl (foreignScValError address)
        | ReturningToXdr bytes \<Rightarrow>
            (case bytes of
               None \<Rightarrow> Inl (foreignScValError address)
             | Some b \<Rightarrow> (case decode b of
                 None \<Rightarrow> Inl (foreignScValError address)
               | Some v \<Rightarrow> Inr (Some v))))
   | _ \<Rightarrow> Inr None)"

section \<open>Numbers\<close>

definition requireU32 :: "js_value \<Rightarrow> string \<Rightarrow> nat result" where
  "requireU32 value field =
     (let fail = Inl (JsError (field @ '' must be a u32''));
          check = (\<lambda>big :: int. if big < 0 \<or> big > int U32_MAX then fail else Inr (nat big))
      in case value of
        JsNumber x \<Rightarrow>
          (case x of Fin q \<Rightarrow> if of_int \<lfloor>q\<rfloor> = q then check \<lfloor>q\<rfloor> else fail | _ \<Rightarrow> fail)
      | JsBigInt n \<Rightarrow> check n
      | JsText s \<Rightarrow> if isDigits (trim s) then check (int (digitsValue (trim s))) else fail
      | _ \<Rightarrow> fail)"

definition I128_MAX :: int where "I128_MAX = 2 ^ 127 - 1"
definition I128_MIN :: int where "I128_MIN = - (2 ^ 127)"

definition signedValue :: "string \<Rightarrow> int option" where
  "signedValue s = (case s of
     c # cs \<Rightarrow> if c = CHR ''-'' then (if isDigits cs then Some (- int (digitsValue cs)) else None)
               else if isDigits s then Some (int (digitsValue s)) else None
   | [] \<Rightarrow> None)"

definition requireI128 :: "js_value \<Rightarrow> string \<Rightarrow> int result" where
  "requireI128 value field =
     (let fail = Inl (JsError (field @ '' must be an integer, bigint, or numeric string''));
          check = (\<lambda>big. if big < I128_MIN \<or> big > I128_MAX
                   then Inl (JsError (field @ '' is out of i128 range'')) else Inr big)
      in case value of
        JsBigInt n \<Rightarrow> check n
      | JsNumber x \<Rightarrow>
          (case x of Fin q \<Rightarrow> if of_int \<lfloor>q\<rfloor> = q then check \<lfloor>q\<rfloor> else fail | _ \<Rightarrow> fail)
      | JsText s \<Rightarrow> (case signedValue (trim s) of Some n \<Rightarrow> check n | None \<Rightarrow> fail)
      | _ \<Rightarrow> fail)"

section \<open>Encoders\<close>

definition buildI128ScVal :: "int \<Rightarrow> scval" where
  "buildI128ScVal amount = ScvI128 amount"

definition symbolEntry :: "string \<Rightarrow> scval \<Rightarrow> scval \<times> scval" where
  "symbolEntry key val = (ScvSymbol key, val)"

definition encodeThresholdParams :: "js_value \<Rightarrow> scval result" where
  "encodeThresholdParams params =
     bindE (fieldOf params ''threshold'') (\<lambda>threshold.
     bindE (requireU32 threshold ''threshold'') (\<lambda>n.
       Inr (ScvMap (Some [symbolEntry ''threshold'' (ScvU32 n)]))))"

definition encodeSpendingLimitParams :: "js_value \<Rightarrow> scval result" where
  "encodeSpendingLimitParams params =
     bindE (fieldOf params ''period_ledgers'') (\<lambda>period.
     bindE (fieldOf params ''spending_limit'') (\<lambda>limit.
     bindE (requireU32 period ''period_ledgers'') (\<lambda>p.
     bindE (requireI128 limit ''spending_limit'') (\<lambda>l.
       Inr (ScvMap (Some [symbolEntry ''period_ledgers'' (ScvU32 p),
         symbolEntry ''spending_limit'' (buildI128ScVal l)]))))))"

definition encodeWeight :: "sdk \<Rightarrow> signer \<times> js_value \<Rightarrow> (scval \<times> scval) result" where
  "encodeWeight K w =
     bindE (signerToScVal K (fst w)) (\<lambda>key.
     bindE (requireU32 (snd w) ''signer weight'') (\<lambda>n. Inr (key, ScvU32 n)))"

definition sortEntries :: "sdk \<Rightarrow> (scval \<times> scval) list \<Rightarrow> (scval \<times> scval) list" where
  "sortEntries K = sortBy (\<lambda>a b. compareScVal K (fst a) (fst b))"

definition encodeWeightedThresholdParams :: "sdk \<Rightarrow> js_value \<Rightarrow> scval result" where
  "encodeWeightedThresholdParams K params =
     bindE (fieldOf params ''signer_weights'') (\<lambda>weights.
     bindE (fieldOf params ''threshold'') (\<lambda>threshold.
       (case weights of
          JsMapOf ws \<Rightarrow>
            bindE (mapE (encodeWeight K) ws) (\<lambda>entries.
            bindE (requireU32 threshold ''threshold'') (\<lambda>n.
              Inr (ScvMap (Some [symbolEntry ''signer_weights'' (ScvMap (Some (sortEntries K entries))),
                symbolEntry ''threshold'' (ScvU32 n)]))))
        | _ \<Rightarrow> Inl (JsError ''signer_weights must be a Map<Signer, number>''))))"

datatype policy_type = ThresholdPolicy | SpendingLimitPolicy | WeightedThresholdPolicy | CustomPolicy

fun policyTypeName :: "policy_type \<Rightarrow> string" where
  "policyTypeName ThresholdPolicy = ''threshold''"
| "policyTypeName SpendingLimitPolicy = ''spending_limit''"
| "policyTypeName WeightedThresholdPolicy = ''weighted_threshold''"
| "policyTypeName CustomPolicy = ''custom''"

fun policyParamEncoder :: "sdk \<Rightarrow> policy_type \<Rightarrow> js_value \<Rightarrow> scval result" where
  "policyParamEncoder K ThresholdPolicy params = encodeThresholdParams params"
| "policyParamEncoder K SpendingLimitPolicy params = encodeSpendingLimitParams params"
| "policyParamEncoder K WeightedThresholdPolicy params = encodeWeightedThresholdParams K params"
| "policyParamEncoder K CustomPolicy params = Inl (JsError ''POLICY_PARAM_ENCODERS[policyType] is not a function'')"

definition convertPolicyParams :: "sdk \<Rightarrow> policy_type \<Rightarrow> js_value \<Rightarrow> scval result" where
  "convertPolicyParams K policyType params = (case policyParamEncoder K policyType params of
     Inr v \<Rightarrow> Inr v
   | Inl e \<Rightarrow> Inl (invalidInput (''Failed to convert '' @ policyTypeName policyType @
       '' policy parameters into an ScVal. Check that the params match the expected shape.'')))"

section \<open>Policy maps\<close>

definition policyAddressToScVal :: "sdk \<Rightarrow> string \<Rightarrow> scval result" where
  "policyAddressToScVal K address = (case fromStrkey K address of
     Some a \<Rightarrow> Inr (ScvAddress a)
   | None \<Rightarrow> Inl (ValidationError (''Invalid policy address: '' @ address) INVALID_ADDRESS))"

definition keyedPolicy :: "sdk \<Rightarrow> string \<times> 'v \<Rightarrow> ((string \<times> 'v) \<times> scval) result" where
  "keyedPolicy K p = bindE (policyAddressToScVal K (fst p)) (\<lambda>key. Inr (p, key))"

definition sortPolicyMap :: "sdk \<Rightarrow> (string \<times> 'v) list \<Rightarrow> (string \<times> 'v) list result" where
  "sortPolicyMap K policies =
     bindE (mapE (keyedPolicy K) policies) (\<lambda>entries.
       Inr (map fst (sortBy (\<lambda>l r. compareScVal K (snd l) (snd r)) entries)))"

record policy_config =
  pcType :: "policy_type option"
  pcAddress :: string
  pcInstallParams :: js_value

definition constructorParams :: "sdk \<Rightarrow> (buffer \<Rightarrow> scval option) \<Rightarrow> policy_config \<Rightarrow> scval result" where
  "constructorParams K decode policy =
     (if pcType policy \<noteq> None \<and> pcType policy \<noteq> Some CustomPolicy
      then convertPolicyParams K (the (pcType policy)) (pcInstallParams policy)
      else bindE (toKitScVal decode (pcInstallParams policy) (pcAddress policy)) (\<lambda>custom.
        (case custom of
           None \<Rightarrow> Inl (invalidInput (''Policy '' @ pcAddress policy @
             '': custom policies must provide installParams as an xdr.ScVal (or set a known 'type'). '' @
             ''An xdr.ScVal from a different @stellar/stellar-sdk copy must still provide toXDR().''))
         | Some v \<Rightarrow> Inr v)))"

fun collectPolicies :: "sdk \<Rightarrow> (buffer \<Rightarrow> scval option) \<Rightarrow> (string \<times> scval) list \<Rightarrow> policy_config list \<Rightarrow>
    (string \<times> scval) list result" where
  "collectPolicies K decode acc [] = Inr acc"
| "collectPolicies K decode acc (policy # rest) =
     bindE (constructorParams K decode policy) (\<lambda>scParams.
       collectPolicies K decode (AList.update (pcAddress policy) scParams acc) rest)"

definition buildConstructorPolicies ::
    "sdk \<Rightarrow> (buffer \<Rightarrow> scval option) \<Rightarrow> policy_config list \<Rightarrow> (string \<times> scval) list result" where
  "buildConstructorPolicies K decode policies =
     bindE (collectPolicies K decode [] policies) (sortPolicyMap K)"

text \<open>The dash of a message, three bytes in UTF-8.\<close>

definition emDash :: string where
  "emDash = [CHR 0xE2, CHR 0x80, CHR 0x94]"

text \<open>
  The wallet client: \<open>None\<close> when no wallet is connected, and its spec's \<^verbatim>\<open>nativeToScVal\<close>, which
  may be missing (\<open>Some None\<close>) or throw.
\<close>

definition policyScParams :: "sdk \<Rightarrow> (buffer \<Rightarrow> scval option) \<Rightarrow> (js_value \<Rightarrow> scval option) option \<Rightarrow>
    policy_type option \<Rightarrow> string \<times> js_value \<Rightarrow> scval result" where
  "policyScParams K decode spec policyType p =
     (if policyType \<noteq> None \<and> policyType \<noteq> Some CustomPolicy
      then convertPolicyParams K (the policyType) (snd p)
      else bindE (toKitScVal decode (snd p) (fst p)) (\<lambda>customScVal.
        (case customScVal of
           Some v \<Rightarrow> Inr v
         | None \<Rightarrow>
             (case spec of
                None \<Rightarrow> Inl (invalidInput (''Policy '' @ fst p @ '': custom policy params could not be converted '' @
                  emDash @ '' provide installParams as an xdr.ScVal or set a known policy 'type'. '' @
                  ''An xdr.ScVal from a different @stellar/stellar-sdk copy must still provide toXDR().''))
              | Some nativeToScVal \<Rightarrow>
                  (case nativeToScVal (snd p) of
                     Some v \<Rightarrow> Inr v
                   | None \<Rightarrow> Inl (invalidInput (''Policy '' @ fst p @
                       '': failed to convert custom policy params into an ScVal. '' @
                       ''If you passed an xdr.ScVal, it may come from a different @stellar/stellar-sdk copy.'')))))))"

definition buildPoliciesScVal :: "sdk \<Rightarrow> (buffer \<Rightarrow> scval option) \<Rightarrow>
    (js_value \<Rightarrow> scval option) option option \<Rightarrow> (string \<times> js_value) list \<Rightarrow>
    (string \<times> policy_type) list \<Rightarrow> scval result" where
  "buildPoliciesScVal K decode wallet policies policyTypes = (case wallet of
     None \<Rightarrow> Inl (WalletNotConnectedError None)
   | Some spec \<Rightarrow>
       bindE (mapE (\<lambda>p. bindE (policyAddressToScVal K (fst p)) (\<lambda>scAddress.
           bindE (policyScParams K decode spec (map_of policyTypes (fst p)) p) (\<lambda>scParams.
             Inr (scAddress, scParams)))) policies) (\<lambda>entries.
       Inr (ScvMap (Some (sortEntries K entries)))))"

section \<open>Encoded maps are in host order\<close>

lemma encoded_keys:
  assumes "mapE (encodeWeight K) ws = Inr es"
  shows "list_all2 (\<lambda>w e. signerToScVal K (fst w) = Inr (fst e) \<and>
     requireU32 (snd w) ''signer weight'' = Inr (case snd e of ScvU32 n \<Rightarrow> n) \<and>
     (\<exists>n. snd e = ScvU32 n)) ws es"
  using assms unfolding mapE_Inr
  by (rule list_all2_mono) (auto simp: encodeWeight_def bindE_Inr)

interpretation map_entry_order: comparator "\<lambda>a b :: scval \<times> 'v. compareScVal K (fst a) (fst b)" for K
  by (rule comparator_key) (rule scval_order.comparator_axioms)

interpretation keyed_order: comparator "\<lambda>a b :: 'v \<times> scval. compareScVal K (snd a) (snd b)" for K
  by (rule comparator_key) (rule scval_order.comparator_axioms)

lemma list_all2_inj:
  assumes "list_all2 P xs ys" "distinct (map f xs)" "b \<in> set ys" "c \<in> set ys"
    and "\<And>x x'. P x b \<Longrightarrow> P x' c \<Longrightarrow> f x = f x'"
  shows "b = c"
proof -
  from assms (3) obtain i where i: "i < length ys" "ys ! i = b" by (auto simp: in_set_conv_nth)
  from assms (4) obtain j where j: "j < length ys" "ys ! j = c" by (auto simp: in_set_conv_nth)
  have l: "length xs = length ys" using assms (1) by (rule list_all2_lengthD)
  have "f (xs ! i) = f (xs ! j)"
    using assms (5) list_all2_nthD2 [OF assms (1)] i j l by metis
  then have "i = j" using assms (2) i j l by (simp add: distinct_conv_nth) metis
  then show ?thesis using i j by simp
qed

lemma list_all2_distinct:
  assumes "list_all2 P xs ys" "distinct (map f xs)"
    and "\<And>x x' y. P x y \<Longrightarrow> P x' y \<Longrightarrow> f x = f x'"
  shows "distinct ys"
  unfolding distinct_conv_nth
proof (intro allI impI notI)
  fix i j
  assume ij: "i < length ys" "j < length ys" "i \<noteq> j" "ys ! i = ys ! j"
  have l: "length xs = length ys" using assms (1) by (rule list_all2_lengthD)
  have "f (xs ! i) = f (xs ! j)"
    using list_all2_nthD2 [OF assms (1)] ij l assms (3) by metis
  then show False using assms (2) ij l by (simp add: distinct_conv_nth)
qed

text \<open>Two encoded weights whose keys compare equal are the same entry.\<close>

lemma encoded_zero:
  assumes "sdk_xdr_ok K" "sdk_strkey_ok K" "mapE (encodeWeight K) ws = Inr es" "distinct (map fst ws)"
    and "b \<in> set es" "c \<in> set es" "compareScVal K (fst b) (fst c) = 0"
  shows "b = c"
  by (rule list_all2_inj [OF encoded_keys [OF assms (3)] assms (4,5,6)])
     (use compareScVal_signers_zero [OF assms (1,2)] assms (7) in blast)

lemma encoded_distinct:
  assumes "sdk_strkey_ok K" "mapE (encodeWeight K) ws = Inr es" "distinct (map fst ws)"
  shows "distinct es"
  by (rule list_all2_distinct [OF encoded_keys [OF assms (2)] assms (3)])
     (use signerToScVal_inj [OF assms (1)] in blast)

definition strictEntries :: "sdk \<Rightarrow> (scval \<times> scval) list \<Rightarrow> bool" where
  "strictEntries K = sorted_wrt (\<lambda>a b. compareScVal K (fst a) (fst b) < 0)"

abbreviation weightedParams :: "(signer \<times> js_value) list \<Rightarrow> js_value \<Rightarrow> js_value" where
  "weightedParams ws t \<equiv> JsObject [(''signer_weights'', JsMapOf ws), (''threshold'', t)] NoToXdr"

lemma encodeWeighted_ok:
  "encodeWeightedThresholdParams K (weightedParams ws t) = Inr v \<longleftrightarrow>
     (\<exists>es n. mapE (encodeWeight K) ws = Inr es \<and> requireU32 t ''threshold'' = Inr n \<and>
       v = ScvMap (Some [(ScvSymbol ''signer_weights'', ScvMap (Some (sortEntries K es))),
         (ScvSymbol ''threshold'', ScvU32 n)]))"
  by (auto simp: encodeWeightedThresholdParams_def fieldOf_def symbolEntry_def bindE_Inr)

lemma keyed_policies:
  "mapE (keyedPolicy K) ps = Inr es \<Longrightarrow>
     list_all2 (\<lambda>p e. fst e = p \<and> (\<exists>a. snd e = ScvAddress a \<and> fromStrkey K (fst p) = Some a)) ps es"
  unfolding mapE_Inr
  by (erule list_all2_mono) (auto simp: keyedPolicy_def policyAddressToScVal_def bindE_Inr split: option.splits)

lemma list_all2_fst: "list_all2 (\<lambda>p e. fst e = p \<and> Q p e) ps es \<Longrightarrow> map fst es = ps"
  by (induction ps es rule: list_all2_induct) auto

lemma list_all2_keyed:
  "list_all2 (\<lambda>p e. fst e = p \<and> Q p e) ps es \<Longrightarrow> e \<in> set es \<Longrightarrow> Q (fst e) e"
  by (induction ps es rule: list_all2_induct) auto

text \<open>The host order of two policy addresses.\<close>

definition addressBefore :: "sdk \<Rightarrow> string \<Rightarrow> string \<Rightarrow> bool" where
  "addressBefore K s t = (case (fromStrkey K s, fromStrkey K t) of
     (Some a, Some b) \<Rightarrow> compareScVal K (ScvAddress a) (ScvAddress b) < 0 | _ \<Rightarrow> False)"

lemma keyed_zero:
  assumes "sdk_xdr_ok K" "sdk_strkey_ok K" "mapE (keyedPolicy K) ps = Inr es" "distinct (map fst ps)"
    and "b \<in> set es" "c \<in> set es" "compareScVal K (snd b) (snd c) = 0"
  shows "b = c"
proof (rule list_all2_inj [OF keyed_policies [OF assms (3)] assms (4,5,6)])
  fix x x'
  assume "fst b = x \<and> (\<exists>a. snd b = ScvAddress a \<and> fromStrkey K (fst x) = Some a)"
    and "fst c = x' \<and> (\<exists>a. snd c = ScvAddress a \<and> fromStrkey K (fst x') = Some a)"
  with assms (7) obtain a where "fromStrkey K (fst x) = Some a" "fromStrkey K (fst x') = Some a"
    by (auto simp: bufferCompare_zero sdk_xdr_okD [OF assms (1)])
  then show "fst x = fst x'" by (simp add: sdk_strkeyD [OF assms (2)])
qed

section \<open>Properties\<close>

text \<open>The weight map of a weighted threshold policy is written in strict host key order, and the
  encoding does not depend on the order in which the application inserted the signers.\<close>

theorem weighted_map_canonical:
  assumes "sdk_xdr_ok K" "sdk_strkey_ok K" "distinct (map fst ws)" "mset ws' = mset ws"
    and "encodeWeightedThresholdParams K (weightedParams ws t) = Inr v"
  shows "encodeWeightedThresholdParams K (weightedParams ws' t) = Inr v \<and>
     (\<exists>es n. v = ScvMap (Some [(ScvSymbol ''signer_weights'', ScvMap (Some es)),
        (ScvSymbol ''threshold'', ScvU32 n)]) \<and> length es = length ws \<and> strictEntries K es)"
proof -
  obtain es n where es: "mapE (encodeWeight K) ws = Inr es" and n: "requireU32 t ''threshold'' = Inr n"
    and v: "v = ScvMap (Some [(ScvSymbol ''signer_weights'', ScvMap (Some (sortEntries K es))),
         (ScvSymbol ''threshold'', ScvU32 n)])"
    using assms (5) unfolding encodeWeighted_ok by blast
  obtain es' where es': "mapE (encodeWeight K) ws' = Inr es'" "mset es' = mset es"
    using mapE_permute [OF es assms (4)] by blast
  have z: "b = c" if "b \<in> set es" "c \<in> set es" "compareScVal K (fst b) (fst c) = 0" for b c
    using encoded_zero [OF assms (1,2) es assms (3) that] .
  have "sortEntries K es = sortEntries K es'"
    unfolding sortEntries_def using es' (2) z by (intro map_entry_order.sortBy_canonical) auto
  moreover have "strictEntries K (sortEntries K es)"
    unfolding sortEntries_def strictEntries_def
    using encoded_distinct [OF assms (2) es assms (3)] z by (intro map_entry_order.sortBy_strict) auto
  moreover have "length (sortEntries K es) = length ws"
    using encoded_keys [OF es] by (simp add: list_all2_lengthD sortEntries_def)
  ultimately show ?thesis
    unfolding encodeWeighted_ok using es' (1) n v
    by (intro conjI exI [of _ "sortEntries K es"] exI [of _ n] exI [of _ es'] refl)
       (simp_all add: sortEntries_def)
qed

text \<open>Sorting a policy map keeps exactly its entries and puts the addresses in strict host key
  order; two maps with the same entries are sorted to the same map.\<close>

theorem sortPolicyMap_canonical:
  assumes "sdk_xdr_ok K" "sdk_strkey_ok K" "distinct (map fst ps)" "mset ps' = mset ps"
    and "sortPolicyMap K ps = Inr qs"
  shows "mset qs = mset ps \<and> sorted_wrt (\<lambda>p q. addressBefore K (fst p) (fst q)) qs \<and>
     sortPolicyMap K ps' = Inr qs"
proof -
  let ?cmp = "\<lambda>l r. compareScVal K (snd l) (snd r)"
  obtain es where es: "mapE (keyedPolicy K) ps = Inr es" and qs: "qs = map fst (sortBy ?cmp es)"
    using assms (5) by (auto simp: sortPolicyMap_def bindE_Inr)
  note k = keyed_policies [OF es]
  obtain es' where es': "mapE (keyedPolicy K) ps' = Inr es'" "mset es' = mset es"
    using mapE_permute [OF es assms (4)] by blast
  have z: "b = c" if "b \<in> set es" "c \<in> set es" "compareScVal K (snd b) (snd c) = 0" for b c
    using keyed_zero [OF assms (1,2) es assms (3) that] .
  have d: "distinct es" by (rule list_all2_distinct [OF k assms (3)]) auto
  have "sorted_wrt (\<lambda>l r. ?cmp l r < 0) (sortBy ?cmp es)"
    using d z by (intro keyed_order.sortBy_strict) auto
  then have "sorted_wrt (\<lambda>l r. addressBefore K (fst (fst l)) (fst (fst r))) (sortBy ?cmp es)"
  proof (rule sorted_wrt_mono_rel [rotated])
    fix l r
    assume "l \<in> set (sortBy ?cmp es)" "r \<in> set (sortBy ?cmp es)" and lt: "?cmp l r < 0"
    then have "l \<in> set es" "r \<in> set es" by simp_all
    then obtain a b where "snd l = ScvAddress a" "fromStrkey K (fst (fst l)) = Some a"
      "snd r = ScvAddress b" "fromStrkey K (fst (fst r)) = Some b"
      using list_all2_keyed [OF k] by blast
    with lt show "addressBefore K (fst (fst l)) (fst (fst r))" by (simp add: addressBefore_def)
  qed
  then have "sorted_wrt (\<lambda>p q. addressBefore K (fst p) (fst q)) qs"
    by (simp add: qs sorted_wrt_map)
  moreover have "mset qs = mset ps"
  proof -
    have "mset qs = mset (map fst es)" by (simp add: qs)
    then show ?thesis by (simp only: list_all2_fst [OF k])
  qed
  moreover have "sortBy ?cmp es = sortBy ?cmp es'"
    using es' (2) z by (intro keyed_order.sortBy_canonical) auto
  ultimately show ?thesis using es' (1) by (simp add: sortPolicyMap_def qs)
qed

text \<open>A u32 parameter is read from a number, a bigint or decimal text with one meaning, and only
  values from 0 to \<open>2 ^ 32 - 1\<close> get through.\<close>

theorem requireU32_exact:
  "(requireU32 (JsBigInt z) f = Inr n \<longleftrightarrow> z = int n \<and> n < 2 ^ 32) \<and>
   (requireU32 (JsNumber x) f = Inr n \<longleftrightarrow> x = Fin (of_nat n) \<and> n < 2 ^ 32) \<and>
   (requireU32 (JsText (decimal m)) f = Inr n \<longleftrightarrow> m = n \<and> n < 2 ^ 32)"
proof -
  have u: "int n \<le> int U32_MAX \<longleftrightarrow> n < 2 ^ 32" for n by (simp add: U32_MAX_def less_Suc_eq_le [symmetric])
  have c: "(\<not> (z < 0 \<or> int U32_MAX < z) \<and> n = nat z) \<longleftrightarrow> z = int n \<and> n < 2 ^ 32" for z
    using u [of n] by auto
  have b: "requireU32 (JsBigInt z) f = Inr n \<longleftrightarrow> z = int n \<and> n < 2 ^ 32" for z
    using c [of z] by (auto simp: requireU32_def Let_def split: if_splits)
  have "requireU32 (JsNumber x) f = Inr n \<longleftrightarrow> x = Fin (of_nat n) \<and> n < 2 ^ 32"
  proof (cases "\<exists>z. x = Fin (of_int z)")
    case True
    then obtain z where z: "x = Fin (of_int z)" ..
    have "requireU32 (JsNumber x) f = requireU32 (JsBigInt z) f" by (simp add: requireU32_def z)
    moreover have "of_int z = (of_nat n :: rat) \<longleftrightarrow> z = int n" by (metis of_int_eq_iff of_int_of_nat_eq)
    ultimately show ?thesis using b [of z] z by simp
  next
    case False
    then have "x \<noteq> Fin (of_nat n)" by (metis of_int_of_nat_eq)
    moreover have "requireU32 (JsNumber x) f \<noteq> Inr n"
      using False by (cases x) (auto simp: requireU32_def Let_def)
    ultimately show ?thesis by blast
  qed
  moreover have "requireU32 (JsText (decimal m)) f = requireU32 (JsBigInt (int m)) f"
    by (simp add: requireU32_def trim_digits)
  ultimately show ?thesis using b by simp
qed

lemma collect_get:
  "collectPolicies K decode acc cs = Inr ps \<Longrightarrow>
     map_of ps a = (case map_of (rev (map (\<lambda>c. (pcAddress c, c)) cs)) a of
        None \<Rightarrow> map_of acc a
      | Some c \<Rightarrow> (case constructorParams K decode c of Inr v \<Rightarrow> Some v | Inl e \<Rightarrow> None))"
proof (induction cs arbitrary: acc)
  case (Cons c cs)
  then obtain v where v: "constructorParams K decode c = Inr v"
    and r: "collectPolicies K decode (AList.update (pcAddress c) v acc) cs = Inr ps"
    by (auto simp: bindE_Inr)
  from Cons.IH [OF r] show ?case
    by (auto simp: v update_conv map_add_def split: option.splits)
qed simp

lemma collect_distinct:
  "collectPolicies K decode acc cs = Inr ps \<Longrightarrow> distinct (map fst acc) \<Longrightarrow> distinct (map fst ps)"
  by (induction cs arbitrary: acc) (auto simp: bindE_Inr distinct_update)

text \<open>The constructor's policy map holds, for every configured address, the encoding of the last
  configuration given for it, and nothing else; its addresses are in strict host order.\<close>

theorem buildConstructorPolicies_content:
  assumes "sdk_xdr_ok K" "sdk_strkey_ok K" "buildConstructorPolicies K decode cs = Inr qs"
  shows "map_of qs a = (case map_of (rev (map (\<lambda>c. (pcAddress c, c)) cs)) a of
      None \<Rightarrow> None
    | Some c \<Rightarrow> (case constructorParams K decode c of Inr v \<Rightarrow> Some v | Inl e \<Rightarrow> None)) \<and>
     sorted_wrt (\<lambda>p q. addressBefore K (fst p) (fst q)) qs"
proof -
  obtain ps where ps: "collectPolicies K decode [] cs = Inr ps" and qs: "sortPolicyMap K ps = Inr qs"
    using assms (3) by (auto simp: buildConstructorPolicies_def bindE_Inr)
  have d: "distinct (map fst ps)" using collect_distinct [OF ps] by simp
  have m: "mset qs = mset ps" "sorted_wrt (\<lambda>p q. addressBefore K (fst p) (fst q)) qs"
    using sortPolicyMap_canonical [OF assms (1,2) d refl qs] by simp_all
  then have "distinct (map fst qs)" using d by (metis mset_map mset_eq_imp_distinct_iff)
  then have "map_of qs = map_of ps"
    using m (1) d by (metis map_of_inject_set mset_eq_setD)
  then show ?thesis using collect_get [OF ps, of a] m (2) by (simp split: option.splits)
qed

section \<open>Witnesses\<close>

definition demoWeights :: "(signer \<times> js_value) list" where
  "demoWeights = [(External ''Cv'' [2], JsNumber (Fin 1)), (External ''Cv'' [1, 1], JsText ''2'')]"

lemma demo_weights_encode:
  "encodeWeightedThresholdParams demoSdk (weightedParams demoWeights (JsBigInt 2)) \<noteq> Inl e"
  by (simp add: encodeWeightedThresholdParams_def fieldOf_def demoWeights_def encodeWeight_def
      signerToScVal_def addressFromString_def demoSdk_def demoFromStrkey_def requireU32_def U32_MAX_def
      trim_def isWhite_def isDigits_def isDigit_def digitsValue_def)

lemma weighted_map_canonical_witness:
  "\<exists>v. encodeWeightedThresholdParams demoSdk (weightedParams demoWeights (JsBigInt 2)) = Inr v \<and>
     encodeWeightedThresholdParams demoSdk (weightedParams (rev demoWeights) (JsBigInt 2)) = Inr v"
proof -
  obtain v where v: "encodeWeightedThresholdParams demoSdk (weightedParams demoWeights (JsBigInt 2)) = Inr v"
    using demo_weights_encode by (cases "encodeWeightedThresholdParams demoSdk (weightedParams demoWeights (JsBigInt 2))") auto
  have "distinct (map fst demoWeights)" by (simp add: demoWeights_def)
  from weighted_map_canonical [OF demoSdk_xdr demoSdk_strkey this _ v, of "rev demoWeights"] v
  show ?thesis by auto
qed

lemma sortPolicyMap_canonical_witness:
  "\<exists>qs. sortPolicyMap demoSdk [(''Cb'', True), (''Ca'', False)] = Inr qs \<and>
     sortPolicyMap demoSdk [(''Ca'', False), (''Cb'', True)] = Inr qs"
proof -
  have "\<exists>qs. sortPolicyMap demoSdk [(''Cb'', True), (''Ca'', False)] = Inr qs"
    by (simp add: sortPolicyMap_def keyedPolicy_def policyAddressToScVal_def demoSdk_def demoFromStrkey_def)
  then obtain qs where qs: "sortPolicyMap demoSdk [(''Cb'', True), (''Ca'', False)] = Inr qs" ..
  have "mset [(''Ca'', False), (''Cb'', True)] = mset [(''Cb'', True), (''Ca'', False)]" by simp
  from sortPolicyMap_canonical [OF demoSdk_xdr demoSdk_strkey _ this qs] qs show ?thesis by auto
qed

lemma buildConstructorPolicies_content_witness:
  "\<exists>qs. buildConstructorPolicies demoSdk (\<lambda>b. None)
      [\<lparr>pcType = None, pcAddress = ''Ca'', pcInstallParams = JsScVal ScvVoid\<rparr>,
       \<lparr>pcType = None, pcAddress = ''Ca'', pcInstallParams = JsScVal (ScvU32 1)\<rparr>] = Inr qs \<and>
     map_of qs ''Ca'' = Some (ScvU32 1)" (is "\<exists>qs. buildConstructorPolicies _ _ ?cs = _ \<and> _")
proof -
  have "\<exists>qs. buildConstructorPolicies demoSdk (\<lambda>b. None) ?cs = Inr qs"
    by (simp add: buildConstructorPolicies_def constructorParams_def toKitScVal_def sortPolicyMap_def
        keyedPolicy_def policyAddressToScVal_def demoSdk_def demoFromStrkey_def)
  then obtain qs where qs: "buildConstructorPolicies demoSdk (\<lambda>b. None) ?cs = Inr qs" ..
  from buildConstructorPolicies_content [OF demoSdk_xdr demoSdk_strkey qs, of "''Ca''"] qs
  show ?thesis by (simp add: constructorParams_def toKitScVal_def)
qed

end
