(* ===== verification/Kit_TxOps.thy ===== *)
theory Kit_TxOps
  imports Kit_World Kit_Policies Kit_TokenAmount
begin

text \<open>
  \<^verbatim>\<open>src/kit/tx-ops.ts\<close>: the submission routes, the signing pipeline of a transaction (sign each
  authorization entry, re-simulate, assemble, sign as fee payer, submit and poll), and token
  transfers. The network passphrase, fees and timeouts only go into the SDK's envelope and are
  not carried. The functions a dependency record passes in are parameters.
\<close>

section \<open>Submission route\<close>

datatype submission_method = ViaRelayer | ViaRpc

definition getSubmissionMethod :: "bool \<Rightarrow> submission_method option \<Rightarrow> submission_method" where
  "getSubmissionMethod relayer forceMethod = (case forceMethod of
     Some m \<Rightarrow> m | None \<Rightarrow> if relayer then ViaRelayer else ViaRpc)"

definition shouldUseFeeSponsoring :: "bool \<Rightarrow> submission_method option \<Rightarrow> bool" where
  "shouldUseFeeSponsoring relayer forceMethod = (getSubmissionMethod relayer forceMethod = ViaRelayer)"

definition assertNotSharedDeployerSource :: "sdk \<Rightarrow> string \<Rightarrow> unit result" where
  "assertNotSharedDeployerSource K publicKey =
     (if isDefaultDeployer K publicKey
      then Inl (SubmissionError (''The shared default deployer '' @ publicKey @ '' must never be a transaction '' @
        ''source or fee payer because its signing key is public. Use a relayer '' @
        ''(the relayer/channel account sources and pays) or configure a '' @
        ''dedicated `deployerSecret` you control for this path.'') None)
      else Inr ())"

definition orElseS :: "string option \<Rightarrow> string \<Rightarrow> string" where
  "orElseS x d = (case x of None \<Rightarrow> d | Some s \<Rightarrow> s)"

definition isHexHash :: "string \<Rightarrow> bool" where
  "isHexHash h \<longleftrightarrow> length h = 64 \<and> list_all (\<lambda>c. hexValue c \<noteq> None) h"

text \<open>
  Submission: the transaction hash to poll for (\<open>Inr\<close>), or the failure to report (\<open>Inl\<close>).
\<close>

definition submitOnly :: "services \<Rightarrow> transaction \<Rightarrow> submission_method option \<Rightarrow> (tx_result + string) act" where
  "submitOnly S tx forceMethod = (case getSubmissionMethod (svRelayer S) forceMethod of
     ViaRelayer \<Rightarrow>
       if \<not> svRelayer S
       then returnA (Inl (failedTransaction (SubmissionError ''Relayer is not configured'' None) None))
       else (case txOps tx of
           [op] \<Rightarrow> (case op of
               InvokeHostFunction func auth \<Rightarrow>
                 bindA (requestA (FxRelayerSend func (items auth))
                     (\<lambda>t. svRelayerSend S t func (items auth))) (\<lambda>relayerResult.
                   if \<not> rrSuccess relayerResult
                   then returnA (Inl (submissionFailure
                     (DString (orElseS (rrError relayerResult) ''Relayer submission failed'')) None))
                   else (case map_option trim (rrHash relayerResult) of
                       None \<Rightarrow> returnA (Inl (submissionFailure
                         (DString ''Relayer response did not include a valid transaction hash'') None))
                     | Some relayerHash \<Rightarrow>
                         if relayerHash = [] \<or> \<not> isHexHash relayerHash
                         then returnA (Inl (submissionFailure
                           (DString ''Relayer response did not include a valid transaction hash'') None))
                         else returnA (Inr relayerHash)))
             | OtherOperation t \<Rightarrow> returnA (Inl (failedTransaction
                 (SubmissionError ''Relayer only supports invokeHostFunction operations'' None) None)))
         | _ \<Rightarrow> returnA (Inl (failedTransaction
             (SubmissionError ''Relayer requires exactly one invokeHostFunction operation'' None) None)))
   | ViaRpc \<Rightarrow>
       bindA (requestA (FxRpcSend tx) (\<lambda>t. svRpcSend S t tx)) (\<lambda>sendResult.
         (case sendResult of
            SendError errorResult txHash \<Rightarrow> returnA (Inl (submissionFailure
              (DString (orElseS errorResult ''Transaction submission failed'')) (Some txHash)))
          | SendAccepted txHash \<Rightarrow> returnA (Inr txHash))))"

definition pollResult :: "string \<Rightarrow> poll_response \<Rightarrow> tx_result" where
  "pollResult txHash txResult = (case txResult of
     PollSuccess ledger \<Rightarrow> TxSuccess txHash ledger
   | PollFailed resultXdr \<Rightarrow> submissionFailure (DString
       (if truthy resultXdr then ''Transaction failed on-chain: '' @ the resultXdr
        else ''Transaction failed on-chain'')) (Some txHash)
   | PollNotFound \<Rightarrow> failedTransaction
       (SubmissionError ''Transaction confirmation timed out'' (Some txHash)) (Some txHash))"

definition sendAndPoll :: "services \<Rightarrow> transaction \<Rightarrow> submission_method option \<Rightarrow> tx_result act" where
  "sendAndPoll S tx forceMethod =
     bindA (submitOnly S tx forceMethod) (\<lambda>outcome. (case outcome of
        Inl failure \<Rightarrow> returnA failure
      | Inr txHash \<Rightarrow>
          bindA (requestA (FxRpcPoll txHash) (\<lambda>t. svRpcPoll S t txHash)) (\<lambda>txResult.
            returnA (pollResult txHash txResult))))"

definition isSourceAuth :: "auth_entry \<Rightarrow> bool" where
  "isSourceAuth e = (aeCredentials e = SourceAccount)"

definition hasSourceAccountAuth :: "transaction \<Rightarrow> bool" where
  "hasSourceAccountAuth tx = list_ex (\<lambda>op. case op of
     InvokeHostFunction func (Some auth) \<Rightarrow> list_ex isSourceAuth auth | _ \<Rightarrow> False) (txOps tx)"

section \<open>Token transfers\<close>

definition buildTokenTransferHostFunction ::
    "sdk \<Rightarrow> string \<Rightarrow> string \<Rightarrow> string \<Rightarrow> int \<Rightarrow> host_function result" where
  "buildTokenTransferHostFunction K tokenContract fromAddress toAddress amountInStroops =
     bindE (addressFromString K tokenContract) (\<lambda>token.
     bindE (addressFromString K fromAddress) (\<lambda>src.
     bindE (addressFromString K toAddress) (\<lambda>dst.
       Inr (InvokeContract \<lparr>iaContract = token, iaFunction = ''transfer'',
         iaArgs = [ScvAddress src, ScvAddress dst, buildI128ScVal amountInStroops]\<rparr>))))"

definition TOKEN_READ_ACCOUNT :: string where
  "TOKEN_READ_ACCOUNT = ''GAAAAAAAAAAAAAAAAAAAAAAAAAAAAAAAAAAAAAAAAAAAAAAAAAAAAWHF''"

definition readOnlyTokenTx :: "sdk \<Rightarrow> string \<Rightarrow> string \<Rightarrow> scval list \<Rightarrow> transaction result" where
  "readOnlyTokenTx K tokenContract functionName args =
     bindE (addressFromString K tokenContract) (\<lambda>token.
       Inr \<lparr>txSource = TOKEN_READ_ACCOUNT, txOps = [InvokeHostFunction
         (InvokeContract \<lparr>iaContract = token, iaFunction = functionName, iaArgs = args\<rparr>) (Some [])],
         txBody = []\<rparr>)"

definition decodedOr :: "string \<Rightarrow> kit_error \<Rightarrow> kit_error" where
  "decodedOr text e = (case decodeContractError (DString text) of Some d \<Rightarrow> d | None \<Rightarrow> e)"

text \<open>\<open>toNumber\<close> is \<^verbatim>\<open>Number(scValToNative(retval))\<close> of the SDK.\<close>

definition readTokenDecimals :: "kit_env \<Rightarrow> (scval \<Rightarrow> jsnum) \<Rightarrow> string \<Rightarrow> nat act" where
  "readTokenDecimals E toNumber tokenContract =
     bindA (liftA (readOnlyTokenTx (keSdk E) tokenContract ''decimals'' [])) (\<lambda>tx.
     bindA (requestA (FxRpcSimulate tx) (\<lambda>t. svRpcSimulate (keServices E) t tx)) (\<lambda>sim.
       (case sim of
          SimFailed err \<Rightarrow>
            if err \<noteq> [] then throwA (decodedOr err (SimulationError (''decimals() simulation failed: '' @ err)))
            else throwA (SimulationError ''decimals() returned no result'')
        | SimOk d retval \<Rightarrow>
            (case retval of
               None \<Rightarrow> throwA (SimulationError ''decimals() returned no result'')
             | Some v \<Rightarrow>
                 (case validDecimals (toNumber v) of
                    None \<Rightarrow> throwA (SimulationError ''Invalid token decimals'')
                  | Some n \<Rightarrow> returnA n)))))"

definition resolveTokenAmount ::
    "kit_env \<Rightarrow> (scval \<Rightarrow> jsnum) \<Rightarrow> string \<Rightarrow> dec_number option \<Rightarrow> (nat \<times> nat) act" where
  "resolveTokenAmount E toNumber tokenContract amount =
     bindA (readTokenDecimals E toNumber tokenContract) (\<lambda>decimals.
     bindA (liftA (tokenAmountToRawUnits amount (Fin (of_nat decimals)))) (\<lambda>raw.
       returnA (raw, decimals)))"

section \<open>Fee payer and re-simulation\<close>

definition signFeePayer :: "kit_env \<Rightarrow> transaction \<Rightarrow> submission_method option \<Rightarrow> unit act" where
  "signFeePayer E tx forceMethod =
     (if \<not> shouldUseFeeSponsoring (svRelayer (keServices E)) forceMethod \<or> hasSourceAccountAuth tx
      then bindA (liftA (assertNotSharedDeployerSource (keSdk E) (keDeployer E))) (\<lambda>_.
        doA (FxSignTransaction (keDeployer E) tx))
      else returnA ())"

definition resimulateAndAssemble ::
    "kit_env \<Rightarrow> string \<Rightarrow> host_function \<Rightarrow> auth_entry list \<Rightarrow> transaction act" where
  "resimulateAndAssemble E sourceAccount hostFunc signedAuthEntries =
     (let resimTx = \<lparr>txSource = sourceAccount,
        txOps = [InvokeHostFunction hostFunc (Some signedAuthEntries)], txBody = []\<rparr> in
      bindA (requestA (FxRpcSimulate resimTx) (\<lambda>t. svRpcSimulate (keServices E) t resimTx)) (\<lambda>resimResult.
        (case resimResult of
           SimFailed err \<Rightarrow> throwA (decodedOr err (SimulationError (''Re-simulation failed: '' @ err)))
         | SimOk d retval \<Rightarrow> returnA (svAssemble (keServices E) resimTx d))))"

definition resolveResimSource :: "kit_env \<Rightarrow> submission_method option \<Rightarrow> string act" where
  "resolveResimSource E forceMethod =
     (if shouldUseFeeSponsoring (svRelayer (keServices E)) forceMethod then returnA (keDeployer E)
      else bindA (liftA (assertNotSharedDeployerSource (keSdk E) (keDeployer E))) (\<lambda>_.
        bindA (requestA (FxRpcGetAccount (keDeployer E)) (\<lambda>t. svRpcGetAccount (keServices E) t (keDeployer E)))
          (\<lambda>_. returnA (keDeployer E))))"

section \<open>The signing pipeline\<close>

record sign_entry_options =
  seCredentialId :: "string option"
  seExpiration :: "jsnum option"
  seContextRuleIds :: "nat list option"
  seHostFunction :: "host_function option"

record submit_options =
  soCredentialId :: "string option"
  soExpiration :: "jsnum option"
  soForceMethod :: "submission_method option"
  soResolveRuleIds :: "(auth_entry \<Rightarrow> nat \<Rightarrow> nat list act) option"
  soAllowWalletMutation :: bool

type_synonym entry_signer = "auth_entry \<Rightarrow> sign_entry_options \<Rightarrow> auth_entry act"

definition resolveIds :: "(auth_entry \<Rightarrow> nat \<Rightarrow> nat list act) option \<Rightarrow> auth_entry \<Rightarrow> nat \<Rightarrow> nat list option act" where
  "resolveIds resolve e index = (case resolve of
     None \<Rightarrow> returnA None
   | Some f \<Rightarrow> bindA (f e index) (\<lambda>ids. returnA (Some ids)))"

definition signEntryAt :: "entry_signer \<Rightarrow> host_function \<Rightarrow> submit_options \<Rightarrow> nat \<times> auth_entry \<Rightarrow> auth_entry act" where
  "signEntryAt signAuthEntry hostFunc options p =
     bindA (resolveIds (soResolveRuleIds options) (snd p) (fst p)) (\<lambda>ids.
       signAuthEntry (snd p) \<lparr>seCredentialId = soCredentialId options, seExpiration = soExpiration options,
         seContextRuleIds = ids,
         seHostFunction = (if soAllowWalletMutation options then Some hostFunc else None)\<rparr>)"

definition isSubmissionError :: "kit_error \<Rightarrow> bool" where
  "isSubmissionError e = (case e of SubmissionError m h \<Rightarrow> True | _ \<Rightarrow> False)"

definition signResimulateAndPrepare ::
    "kit_env \<Rightarrow> entry_signer \<Rightarrow> host_function \<Rightarrow> auth_entry list \<Rightarrow> submit_options \<Rightarrow> transaction act" where
  "signResimulateAndPrepare E signAuthEntry hostFunc authEntries options =
     bindA (mapA (signEntryAt signAuthEntry hostFunc options) (enumerate 0 authEntries)) (\<lambda>signedAuthEntries.
     bindA (catchA (resolveResimSource E (soForceMethod options)) (\<lambda>e.
         if isSubmissionError e then throwA e
         else throwA (SubmissionError (''Re-simulation requires the fee-paying source account '' @ keDeployer E @
           '' to exist on-chain. Use a relayer (fee sponsoring) so a sponsor account sources fees, or configure a '' @
           ''dedicated `deployerSecret` you control and fund that account.'') None))) (\<lambda>sourceAccount.
       resimulateAndAssemble E sourceAccount hostFunc signedAuthEntries))"

text \<open>
  What a signature cannot change of an entry. The code joins the base64 texts and the nonce
  with colons, which none of the three contains.
\<close>

definition authorizationKey :: "sdk \<Rightarrow> auth_entry \<Rightarrow> (buffer \<times> int \<times> buffer) result" where
  "authorizationKey K e = bindE (getAddressCredentials (aeCredentials e)) (\<lambda>credentials.
     Inr (scaddressToXDR K (acAddress credentials), acNonce credentials, invocationToXDR K (aeRoot e)))"

definition sameAuthorization :: "sdk \<Rightarrow> (buffer \<times> int \<times> buffer) \<Rightarrow> auth_entry \<Rightarrow> bool" where
  "sameAuthorization K entryKey e \<longleftrightarrow> \<not> isSourceAuth e \<and> authorizationKey K e = Inr entryKey"

fun findIndex :: "('a \<Rightarrow> bool) \<Rightarrow> 'a list \<Rightarrow> nat option" where
  "findIndex p [] = None"
| "findIndex p (x # xs) = (if p x then Some 0 else map_option Suc (findIndex p xs))"

definition authorizeEntry ::
    "kit_env \<Rightarrow> entry_signer \<Rightarrow> assembled \<Rightarrow> submit_options \<Rightarrow> string option \<Rightarrow> host_function option \<Rightarrow>
     auth_entry \<Rightarrow> auth_entry act" where
  "authorizeEntry E signAuthEntry tx options credentialId walletMutationHostFunction e =
     bindA (liftA (authorizationKey (keSdk E) e)) (\<lambda>entryKey.
     bindA (case findIndex (sameAuthorization (keSdk E) entryKey) (items (atSimAuth tx)) of
         None \<Rightarrow> returnA None
       | Some i \<Rightarrow> resolveIds (soResolveRuleIds options) e i) (\<lambda>ids.
       signAuthEntry e \<lparr>seCredentialId = credentialId, seExpiration = soExpiration options,
         seContextRuleIds = ids, seHostFunction = walletMutationHostFunction\<rparr>))"

text \<open>
  \<^verbatim>\<open>sign\<close>: \<open>signAuthEntries\<close> is the SDK's method, which calls back for each entry of the address.
\<close>

definition sign :: "kit_env \<Rightarrow> (assembled \<Rightarrow> string \<Rightarrow> (auth_entry \<Rightarrow> auth_entry act) \<Rightarrow> assembled act) \<Rightarrow>
    entry_signer \<Rightarrow> assembled \<Rightarrow> submit_options \<Rightarrow> assembled act" where
  "sign E signAuthEntries signAuthEntry tx options =
     bindA (askA (\<lambda>w. (wContractId w, wCredentialId w))) (\<lambda>(contractId, connected).
       if \<not> truthy contractId then throwA (WalletNotConnectedError (Some ''sign a transaction''))
       else let credentialId = (case soCredentialId options of None \<Rightarrow> connected | c \<Rightarrow> c);
            operations = map_option txOps (atBuilt tx) in
         (case (soAllowWalletMutation options, operations) of
            (False, _) \<Rightarrow> signAuthEntries tx (the contractId) (authorizeEntry E signAuthEntry tx options credentialId None)
          | (True, Some [InvokeHostFunction func auth]) \<Rightarrow>
              signAuthEntries tx (the contractId) (authorizeEntry E signAuthEntry tx options credentialId (Some func))
          | (True, _) \<Rightarrow> throwA (SubmissionError ''Admin signing requires exactly one invokeHostFunction operation'' None)))"

text \<open>
  \<^verbatim>\<open>signAndSubmit\<close>. The preparation is inside the \<^verbatim>\<open>try\<close>: an error it throws becomes a failed
  result. The promise of \<^verbatim>\<open>sendAndPoll\<close> is returned without \<^verbatim>\<open>await\<close>, so an error it throws is not
  caught. \<open>Inl\<close> is an early result, \<open>Inr\<close> the prepared transaction to send.
\<close>

definition prepareSubmission ::
    "kit_env \<Rightarrow> entry_signer \<Rightarrow> assembled \<Rightarrow> submit_options \<Rightarrow> (tx_result + transaction) act" where
  "prepareSubmission E signAuthEntry tx options =
     (let fail = (\<lambda>m. returnA (Inl (failedTransaction (SubmissionError m None) None))) in
      case atBuilt tx of
        None \<Rightarrow> fail ''Transaction has no built transaction''
      | Some builtTx \<Rightarrow>
          (case txOps builtTx of
             [op] \<Rightarrow> (case op of
                 InvokeHostFunction func auth \<Rightarrow>
                   (case atSimAuth tx of
                      None \<Rightarrow> fail ''No simulation data or auth entries''
                    | Some entries \<Rightarrow>
                        bindA (signResimulateAndPrepare E signAuthEntry func entries options) (\<lambda>preparedTx.
                        bindA (signFeePayer E preparedTx (soForceMethod options)) (\<lambda>_.
                          returnA (Inr preparedTx))))
               | OtherOperation t \<Rightarrow> fail ''Expected invokeHostFunction operation'')
           | _ \<Rightarrow> fail ''Expected exactly one operation''))"

definition signAndSubmit :: "kit_env \<Rightarrow> entry_signer \<Rightarrow> assembled \<Rightarrow> submit_options \<Rightarrow> tx_result act" where
  "signAndSubmit E signAuthEntry tx options =
     bindA (askA wContractId) (\<lambda>contractId.
       if \<not> truthy contractId
       then returnA (failedTransaction (WalletNotConnectedError (Some ''submit a transaction'')) None)
       else bindA (catchA (prepareSubmission E signAuthEntry tx options) (\<lambda>err.
           returnA (Inl (failedTransaction (wrapError err TRANSACTION_SIGNING_FAILED) None)))) (\<lambda>outcome.
         (case outcome of
            Inl result \<Rightarrow> returnA result
          | Inr preparedTx \<Rightarrow> sendAndPoll (keServices E) preparedTx (soForceMethod options))))"

section \<open>The shared deployer\<close>

text \<open>The effects that would make the shared deployer a transaction source or fee payer are absent.\<close>

definition notSharedDeployer :: "sdk \<Rightarrow> effect \<Rightarrow> bool" where
  "notSharedDeployer K x = (case x of
     FxSignTransaction p tx \<Rightarrow> \<not> isDefaultDeployer K p
   | FxRpcSend tx \<Rightarrow> \<not> isDefaultDeployer K (txSource tx)
   | FxRpcGetAccount p \<Rightarrow> \<not> isDefaultDeployer K p
   | FxRelayerSendXdr tx \<Rightarrow> \<not> isDefaultDeployer K (txSource tx)
   | FxDeploySend (Some tx) \<Rightarrow> \<not> isDefaultDeployer K (txSource tx)
   | _ \<Rightarrow> True)"

lemma notSharedDeployer_simps [simp]:
  "notSharedDeployer K (FxRelayerSend f a)" "notSharedDeployer K (FxRpcPoll h)"
  "notSharedDeployer K (FxRpcSimulate tx)" "notSharedDeployer K (FxEvent e)"
  "notSharedDeployer K (FxRpcGetTransaction h)"
  "notSharedDeployer K (FxRpcGetContractData c)" "notSharedDeployer K (FxSignAuth p ae)"
  "notSharedDeployer K (FxPasskey c)"
  "notSharedDeployer K (FxSignTransaction p tx) \<longleftrightarrow> \<not> isDefaultDeployer K p"
  "notSharedDeployer K (FxRpcSend tx) \<longleftrightarrow> \<not> isDefaultDeployer K (txSource tx)"
  "notSharedDeployer K (FxRpcGetAccount p) \<longleftrightarrow> \<not> isDefaultDeployer K p"
  by (simp_all add: notSharedDeployer_def)

lemma assertNot_ok [simp]: "assertNotSharedDeployerSource K p = Inr u \<longleftrightarrow> \<not> isDefaultDeployer K p"
  by (simp add: assertNotSharedDeployerSource_def)

text \<open>A source check followed by a step that needs it.\<close>

lemma onlyDoes_checked:
  "(\<not> isDefaultDeployer K p \<Longrightarrow> onlyDoes P m) \<Longrightarrow>
     onlyDoes P (bindA (liftA (assertNotSharedDeployerSource K p)) (\<lambda>_. m))"
  by (rule onlyDoes_bind_result) (auto simp: does_rules run_simps)

lemma signFeePayer_safe: "onlyDoes (notSharedDeployer (keSdk E)) (signFeePayer E tx fm)"
  unfolding signFeePayer_def
  by (intro does_rules onlyDoes_checked) simp

lemma resolveResimSource_safe: "onlyDoes (notSharedDeployer (keSdk E)) (resolveResimSource E fm)"
  unfolding resolveResimSource_def
  by (intro does_rules onlyDoes_checked) simp

lemma resolveResimSource_ok:
  "resolveResimSource E fm w = (Inr p, w') \<Longrightarrow> p = keDeployer E \<and>
     (shouldUseFeeSponsoring (svRelayer (keServices E)) fm \<or> \<not> isDefaultDeployer (keSdk E) p)"
  by (auto simp: resolveResimSource_def act_cases run_simps split: if_splits)

lemma resimulate_safe: "onlyDoes (notSharedDeployer K) (resimulateAndAssemble E src f auth)"
  unfolding resimulateAndAssemble_def Let_def
  by (intro does_rules) (auto intro!: does_rules split: simulate_response.split)

lemma resimulate_ok:
  "resimulateAndAssemble E src f auth w = (Inr tx, w') \<Longrightarrow>
     \<exists>d. tx = svAssemble (keServices E) \<lparr>txSource = src, txOps = [InvokeHostFunction f (Some auth)], txBody = []\<rparr> d"
proof -
  assume "resimulateAndAssemble E src f auth w = (Inr tx, w')"
  then obtain r w1 where "(case r of
        SimFailed err \<Rightarrow> throwA (decodedOr err (SimulationError (''Re-simulation failed: '' @ err)))
      | SimOk d retval \<Rightarrow> returnA (svAssemble (keServices E)
          \<lparr>txSource = src, txOps = [InvokeHostFunction f (Some auth)], txBody = []\<rparr> d)) w1 = (Inr tx, w')"
    unfolding resimulateAndAssemble_def Let_def bindA_Inr by blast
  then show ?thesis by (cases r) (auto simp: run_simps)
qed

lemma mapA_length: "mapA f xs w = (Inr ys, w') \<Longrightarrow> length ys = length xs"
  by (induction xs arbitrary: w ys) (auto simp: act_cases run_simps)

text \<open>What a dependency of the pipeline may do, when it is as safe as the rest.\<close>

definition safeDeps :: "sdk \<Rightarrow> entry_signer \<Rightarrow> submit_options \<Rightarrow> bool" where
  "safeDeps K signer options \<longleftrightarrow> (\<forall>e so. onlyDoes (notSharedDeployer K) (signer e so)) \<and>
     (case soResolveRuleIds options of None \<Rightarrow> True | Some f \<Rightarrow> \<forall>e i. onlyDoes (notSharedDeployer K) (f e i))"

lemma signEntryAt_safe:
  assumes "safeDeps K signer options"
  shows "onlyDoes (notSharedDeployer K) (signEntryAt signer f options p)"
proof -
  have "onlyDoes (notSharedDeployer K) (resolveIds (soResolveRuleIds options) e i)" for e i
    using assms by (auto simp: safeDeps_def resolveIds_def intro!: does_rules split: option.splits)
  then show ?thesis
    using assms unfolding signEntryAt_def by (intro does_rules) (auto simp: safeDeps_def)
qed

lemma signResimulate_safe:
  assumes "safeDeps (keSdk E) signer options"
  shows "onlyDoes (notSharedDeployer (keSdk E)) (signResimulateAndPrepare E signer f entries options)"
  unfolding signResimulateAndPrepare_def
  by (intro does_rules signEntryAt_safe [OF assms] resolveResimSource_safe resimulate_safe)

lemma signResimulate_ok:
  assumes "signResimulateAndPrepare E signer f entries options w = (Inr tx, w')"
  shows "\<exists>signed d. length signed = length entries \<and>
     tx = svAssemble (keServices E) \<lparr>txSource = keDeployer E, txOps = [InvokeHostFunction f (Some signed)], txBody = []\<rparr> d \<and>
     (shouldUseFeeSponsoring (svRelayer (keServices E)) (soForceMethod options) \<or>
      \<not> isDefaultDeployer (keSdk E) (keDeployer E))"
  using assms unfolding signResimulateAndPrepare_def
  by (auto simp: act_cases run_simps dest!: resimulate_ok mapA_length resolveResimSource_ok split: if_splits) (blast+)

lemma prepare_ok:
  assumes "prepareSubmission E signer tx options w = (Inr (Inr ptx), w')"
  shows "\<exists>func auth entries signed d builtTx. atBuilt tx = Some builtTx \<and> txOps builtTx = [InvokeHostFunction func auth] \<and>
     atSimAuth tx = Some entries \<and> length signed = length entries \<and>
     ptx = svAssemble (keServices E) \<lparr>txSource = keDeployer E, txOps = [InvokeHostFunction func (Some signed)], txBody = []\<rparr> d \<and>
     (shouldUseFeeSponsoring (svRelayer (keServices E)) (soForceMethod options) \<or>
      \<not> isDefaultDeployer (keSdk E) (keDeployer E))"
  using assms unfolding prepareSubmission_def Let_def
  by (auto simp: act_cases run_simps dest!: signResimulate_ok
      split: option.splits list.splits operation.splits)

lemma prepare_safe:
  assumes "safeDeps (keSdk E) signer options"
  shows "onlyDoes (notSharedDeployer (keSdk E)) (prepareSubmission E signer tx options)"
  unfolding prepareSubmission_def Let_def
  by (auto intro!: does_rules signResimulate_safe [OF assms] signFeePayer_safe
      split: option.split list.split operation.split)

lemma sendAndPoll_safe:
  assumes "getSubmissionMethod (svRelayer S) fm = ViaRelayer \<or> \<not> isDefaultDeployer K (txSource tx)"
  shows "onlyDoes (notSharedDeployer K) (sendAndPoll S tx fm)"
proof -
  have "onlyDoes (notSharedDeployer K) (submitOnly S tx fm)"
    using assms unfolding submitOnly_def
    by (auto intro!: does_rules split: submission_method.split list.split operation.split
        option.split send_response.split)
  then show ?thesis
    unfolding sendAndPoll_def by (intro does_rules) (auto intro!: does_rules split: sum.split)
qed

section \<open>Properties\<close>

definition submitStep :: "services \<Rightarrow> transaction \<Rightarrow> submission_method option \<Rightarrow> string \<Rightarrow> effect \<Rightarrow> bool" where
  "submitStep S tx fm h submit = (case submit of
        FxRelayerSend f auth \<Rightarrow> getSubmissionMethod (svRelayer S) fm = ViaRelayer \<and> isHexHash h \<and>
          (\<exists>a. txOps tx = [InvokeHostFunction f a] \<and> auth = items a)
      | FxRpcSend t \<Rightarrow> getSubmissionMethod (svRelayer S) fm = ViaRpc \<and> t = tx
      | _ \<Rightarrow> False)"

lemma failure_not_success [simp]:
  "failedTransaction e x \<noteq> TxSuccess h l" "submissionFailure d x \<noteq> TxSuccess h l"
  "simulationFailure d x \<noteq> TxSuccess h l"
  by (simp_all add: failedTransaction_def submissionFailure_def simulationFailure_def)

lemma submitOnly_ok:
  assumes "submitOnly S tx fm w = (Inr out, w')"
  shows "(case out of Inl r \<Rightarrow> r \<noteq> TxSuccess h l
    | Inr h \<Rightarrow> \<exists>submit. wTrace w' = wTrace w @ [submit] \<and> submitStep S tx fm h submit)"
proof (cases "getSubmissionMethod (svRelayer S) fm")
  case ViaRelayer
  then show ?thesis
    using assms by (auto simp: submitOnly_def act_cases run_simps submitStep_def
        split: if_splits list.splits operation.splits option.splits)
next
  case ViaRpc
  then obtain x w1 where x: "requestA (FxRpcSend tx) (\<lambda>t. svRpcSend S t tx) w = (Inr x, w1)"
    and r: "(case x of SendError errorResult txHash \<Rightarrow> returnA (Inl (submissionFailure
              (DString (orElseS errorResult ''Transaction submission failed'')) (Some txHash)))
          | SendAccepted txHash \<Rightarrow> returnA (Inr txHash)) w1 = (Inr out, w')"
    using assms by (auto simp: submitOnly_def bindA_Inr)
  show ?thesis using x r ViaRpc by (cases x) (auto simp: run_simps submitStep_def)
qed

text \<open>The shared default deployer, whose key is public, is never a transaction source and never
  signs as fee payer: whatever the services answer and however the submission ends, no effect of
  \<^verbatim>\<open>signAndSubmit\<close> signs an envelope with it, loads its account, or sends a transaction it sources.
  (The SDK's \<^verbatim>\<open>assembleTransaction\<close> keeps the source; the entry signer and the rule resolver are
  as safe themselves.)\<close>

theorem shared_deployer_never_pays:
  assumes "\<And>tx d. txSource (svAssemble (keServices E) tx d) = txSource tx"
    and "safeDeps (keSdk E) signer options"
    and "signAndSubmit E signer tx options w = (r, w')"
  shows "\<exists>es. wTrace w' = wTrace w @ es \<and> list_all (notSharedDeployer (keSdk E)) es"
proof (rule onlyDoesD [where m = "signAndSubmit E signer tx options" and r = r])
  have send: "onlyDoes (notSharedDeployer (keSdk E)) (case x of Inl result \<Rightarrow> returnA result
      | Inr ptx \<Rightarrow> sendAndPoll (keServices E) ptx (soForceMethod options))"
    if "catchA (prepareSubmission E signer tx options) (\<lambda>err. returnA (Inl (failedTransaction
        (wrapError err TRANSACTION_SIGNING_FAILED) None))) v = (Inr x, v')" for x v v'
  proof (cases x)
    case (Inr ptx)
    with that have "prepareSubmission E signer tx options v = (Inr (Inr ptx), v')"
      by (auto simp: catchA_Inr run_simps)
    from prepare_ok [OF this] assms (1)
    have "getSubmissionMethod (svRelayer (keServices E)) (soForceMethod options) = ViaRelayer \<or>
        \<not> isDefaultDeployer (keSdk E) (txSource ptx)"
      by (auto simp: shouldUseFeeSponsoring_def)
    then show ?thesis by (simp add: Inr sendAndPoll_safe)
  qed (simp add: does_rules)
  show "onlyDoes (notSharedDeployer (keSdk E)) (signAndSubmit E signer tx options)"
    unfolding signAndSubmit_def
    by (intro does_rules onlyDoes_bind_result [OF _ send] prepare_safe [OF assms (2)])
qed (rule assms (3))

text \<open>A success reported by \<^verbatim>\<open>sendAndPoll\<close> is a success the network confirmed for that hash: the
  transaction was submitted once, by the chosen route (a relayer's hash is 64 hex digits), and the
  poll of exactly that hash answered success.\<close>

theorem sendAndPoll_success_is_confirmed:
  assumes "sendAndPoll S tx fm w = (Inr (TxSuccess h l), w')"
  shows "\<exists>submit. wTrace w' = wTrace w @ [submit, FxRpcPoll h] \<and>
     svRpcPoll S (wTrace w @ [submit]) h = Inr (PollSuccess l) \<and>
     submitStep S tx fm h submit"
proof -
  obtain o1 w1 where sub: "submitOnly S tx fm w = (Inr o1, w1)"
    and rest: "(case o1 of Inl failure \<Rightarrow> returnA failure | Inr txHash \<Rightarrow>
      bindA (requestA (FxRpcPoll txHash) (\<lambda>t. svRpcPoll S t txHash)) (\<lambda>txResult.
        returnA (pollResult txHash txResult))) w1 = (Inr (TxSuccess h l), w')"
    using assms unfolding sendAndPoll_def bindA_Inr by blast
  show ?thesis
  proof (cases o1)
    case (Inl f)
    then show ?thesis using submitOnly_ok [OF sub, of h l] rest by (simp add: run_simps)
  next
    case (Inr txHash)
    then obtain p where p: "svRpcPoll S (wTrace w1) txHash = Inr p" "pollResult txHash p = TxSuccess h l"
      and w': "w' = w1\<lparr>wTrace := wTrace w1 @ [FxRpcPoll txHash]\<rparr>"
      using rest by (auto simp: act_cases run_simps)
    then have hl: "txHash = h" "p = PollSuccess l" by (auto simp: pollResult_def split: poll_response.splits)
    show ?thesis using submitOnly_ok [OF sub, of h l] p w' hl Inr by auto
  qed
qed

text \<open>What is sent is what was signed: the prepared transaction calls the host function of the
  transaction under review and no other, sourced by the configured deployer, with one signed
  entry for each simulated one; it reaches the direct route only for a dedicated deployer.\<close>

theorem prepared_transaction_is_the_reviewed_one:
  assumes "\<And>t d. txSource (svAssemble (keServices E) t d) = txSource t \<and> txOps (svAssemble (keServices E) t d) = txOps t"
    and "prepareSubmission E signer tx options w = (Inr (Inr ptx), w')"
  shows "txSource ptx = keDeployer E \<and>
    (\<exists>func auth entries signed. map_option txOps (atBuilt tx) = Some [InvokeHostFunction func auth] \<and>
       atSimAuth tx = Some entries \<and> txOps ptx = [InvokeHostFunction func (Some signed)] \<and>
       length signed = length entries) \<and>
    (getSubmissionMethod (svRelayer (keServices E)) (soForceMethod options) = ViaRpc \<longrightarrow>
       \<not> isDefaultDeployer (keSdk E) (keDeployer E))"
  using prepare_ok [OF assms (2)] assms (1) by (auto simp: shouldUseFeeSponsoring_def)

text \<open>An error thrown while sending escapes \<^verbatim>\<open>signAndSubmit\<close> as an exception, although every other
  failure is returned as a failed result: its promise is returned, not awaited, inside the \<^verbatim>\<open>try\<close>.\<close>

theorem send_error_escapes:
  assumes "truthy (wContractId w)" "prepareSubmission E signer tx options w = (Inr (Inr ptx), w1)"
    and "getSubmissionMethod (svRelayer (keServices E)) (soForceMethod options) = ViaRpc"
    and "svRpcSend (keServices E) (wTrace w1) ptx = Inl e"
  shows "fst (signAndSubmit E signer tx options w) = Inl e"
  using assms by (simp add: signAndSubmit_def bindA_def catchA_def run_simps sendAndPoll_def submitOnly_def)

section \<open>Witnesses\<close>

definition demoServices :: services where
  "demoServices = \<lparr>svRelayer = False,
     svRelayerSend = (\<lambda>t f a. Inr \<lparr>rrSuccess = True, rrError = None, rrHash = Some (replicate 64 CHR ''a'')\<rparr>),
     svRelayerSendXdr = (\<lambda>t x. Inr \<lparr>rrSuccess = True, rrError = None, rrHash = Some (replicate 64 CHR ''a'')\<rparr>),
     svRpcSend = (\<lambda>t x. Inr (SendAccepted ''h'')), svRpcPoll = (\<lambda>t h. Inr (PollSuccess (Some 7))),
     svRpcGetTransaction = (\<lambda>t h. Inr NoTransaction), svRpcGetAccount = (\<lambda>t p. Inr ()),
     svRpcSimulate = (\<lambda>t x. Inr (SimOk [1] None)), svRpcGetContractData = (\<lambda>t c. Inr (ExecWasm (replicate 32 0xAB))),
     svRpcLatestLedger = (\<lambda>t. Inr 10), svDeploySend = (\<lambda>t x. Inr (SentTx (Some ''h'') (Some (PollSuccess (Some 7))))),
     svFetch = (\<lambda>t u b. FetchAborted), svNow = (\<lambda>t. 0), svAssemble = (\<lambda>t d. t\<lparr>txBody := d\<rparr>)\<rparr>"

definition demoEnv :: kit_env where
  "demoEnv = \<lparr>keSdk = demoSdk, keServices = demoServices, keNetwork = ''Test'', keDeployer = ''GD''\<rparr>"

definition demoFunction :: host_function where
  "demoFunction = InvokeContract (demoCall ''transfer'' [])"

definition demoAssembled :: assembled where
  "demoAssembled = \<lparr>atBuilt = Some \<lparr>txSource = ''GS'', txOps = [InvokeHostFunction demoFunction None], txBody = []\<rparr>,
     atSimAuth = Some [demoEntry (demoCall ''transfer'' [])], atLatestLedger = Some 1, atSigned = None\<rparr>"

definition demoOptions :: submit_options where
  "demoOptions = \<lparr>soCredentialId = None, soExpiration = None, soForceMethod = None, soResolveRuleIds = None,
     soAllowWalletMutation = False\<rparr>"

definition demoWorld :: world where
  "demoWorld = \<lparr>wStorage = \<lparr>msCredentials = [], msSession = None\<rparr>, wContractId = Some demoWallet,
     wCredentialId = Some ''id'', wWallet = Some demoWallet, wRules = None, wSigner = None, wTrace = []\<rparr>"

abbreviation demoSigner :: entry_signer where
  "demoSigner \<equiv> \<lambda>e so. returnA e"

definition demoPrepared :: transaction where
  "demoPrepared = \<lparr>txSource = ''GD'', txOps = [InvokeHostFunction demoFunction
     (Some [demoEntry (demoCall ''transfer'' [])])], txBody = [1]\<rparr>"

lemma demo_safe: "safeDeps demoSdk demoSigner demoOptions"
  by (simp add: safeDeps_def demoOptions_def does_rules)

lemma demo_deployer: "\<not> isDefaultDeployer demoSdk ''GD''"
  by (simp add: isDefaultDeployer_def demoSdk_def DEFAULT_DEPLOYER_PUBLIC_KEY_def DEFAULT_DEPLOYER_SEED_def)

lemma demo_prepare:
  "fst (prepareSubmission demoEnv demoSigner demoAssembled demoOptions demoWorld) = Inr (Inr demoPrepared)"
  using demo_deployer
  by (simp add: prepareSubmission_def demoAssembled_def signResimulateAndPrepare_def signEntryAt_def resolveIds_def
      demoOptions_def bindA_def catchA_def run_simps resolveResimSource_def shouldUseFeeSponsoring_def
      getSubmissionMethod_def demoEnv_def demoServices_def resimulateAndAssemble_def Let_def signFeePayer_def
      assertNotSharedDeployerSource_def doA_def demoPrepared_def)

lemma demo_prepare_run:
  obtains w1 where "prepareSubmission demoEnv demoSigner demoAssembled demoOptions demoWorld = (Inr (Inr demoPrepared), w1)"
  using demo_prepare by (metis prod.collapse)

lemma shared_deployer_never_pays_witness:
  "\<exists>r w' es. signAndSubmit demoEnv demoSigner demoAssembled demoOptions demoWorld = (r, w') \<and>
     wTrace w' = es \<and> list_all (notSharedDeployer demoSdk) es"
proof -
  obtain r w' where run: "signAndSubmit demoEnv demoSigner demoAssembled demoOptions demoWorld = (r, w')"
    by (cases "signAndSubmit demoEnv demoSigner demoAssembled demoOptions demoWorld")
  have "txSource (svAssemble (keServices demoEnv) t d) = txSource t" for t d
    by (simp add: demoEnv_def demoServices_def)
  moreover have "safeDeps (keSdk demoEnv) demoSigner demoOptions" using demo_safe by (simp add: demoEnv_def)
  ultimately show ?thesis
    using shared_deployer_never_pays [OF _ _ run] run by (simp add: demoEnv_def demoWorld_def)
qed

lemma sendAndPoll_success_is_confirmed_witness:
  "\<exists>submit. submitStep demoServices demoPrepared None ''h'' submit"
proof -
  have "sendAndPoll demoServices demoPrepared None demoWorld = (Inr (TxSuccess ''h'' (Some 7)),
      demoWorld\<lparr>wTrace := [FxRpcSend demoPrepared, FxRpcPoll ''h'']\<rparr>)"
    by (simp add: sendAndPoll_def submitOnly_def getSubmissionMethod_def demoServices_def bindA_def run_simps
        demoWorld_def pollResult_def)
  from sendAndPoll_success_is_confirmed [OF this] show ?thesis by blast
qed

lemma prepared_transaction_is_the_reviewed_one_witness:
  "txSource demoPrepared = ''GD'' \<and> (\<exists>signed. txOps demoPrepared = [InvokeHostFunction demoFunction (Some signed)])"
proof -
  obtain w1 where run: "prepareSubmission demoEnv demoSigner demoAssembled demoOptions demoWorld = (Inr (Inr demoPrepared), w1)"
    by (rule demo_prepare_run)
  have "txSource (svAssemble (keServices demoEnv) t d) = txSource t \<and>
      txOps (svAssemble (keServices demoEnv) t d) = txOps t" for t d
    by (simp add: demoEnv_def demoServices_def)
  from prepared_transaction_is_the_reviewed_one [OF this run] show ?thesis
    by (auto simp: demoEnv_def demoAssembled_def)
qed

definition offlineEnv :: kit_env where
  "offlineEnv = demoEnv\<lparr>keServices := demoServices\<lparr>svRpcSend := (\<lambda>t x. Inl (JsError ''offline''))\<rparr>\<rparr>"

lemma send_error_escapes_witness:
  "fst (signAndSubmit offlineEnv demoSigner demoAssembled demoOptions demoWorld) = Inl (JsError ''offline'')"
proof -
  have "fst (prepareSubmission offlineEnv demoSigner demoAssembled demoOptions demoWorld) = Inr (Inr demoPrepared)"
    using demo_deployer
    by (simp add: prepareSubmission_def demoAssembled_def signResimulateAndPrepare_def signEntryAt_def resolveIds_def
        demoOptions_def bindA_def catchA_def run_simps resolveResimSource_def shouldUseFeeSponsoring_def
        getSubmissionMethod_def demoEnv_def offlineEnv_def demoServices_def resimulateAndAssemble_def Let_def
        signFeePayer_def assertNotSharedDeployerSource_def doA_def demoPrepared_def)
  then obtain w1 where "prepareSubmission offlineEnv demoSigner demoAssembled demoOptions demoWorld = (Inr (Inr demoPrepared), w1)"
    by (metis prod.collapse)
  from send_error_escapes [OF _ this] show ?thesis
    by (simp add: demoWorld_def demoWallet_def truthy_def offlineEnv_def demoEnv_def demoServices_def demoOptions_def
        getSubmissionMethod_def)
qed

end
