(* ===== verification/Kit_ContextRules.thy ===== *)
theory Kit_ContextRules
  imports Kit_TxOps
begin

text \<open>
  \<^verbatim>\<open>src/kit/context-rules.ts\<close>: which context rule of the wallet authorizes a call. The rule types an
  authorization entry needs, reading and listing the wallet's rules, the WebAuthn signer of a
  credential, and the choice of one rule per context that is then bound into the signed digest.
\<close>

section \<open>Rule types\<close>

definition contextRuleTypeKey :: "context_rule_type \<Rightarrow> string" where
  "contextRuleTypeKey contextType = (case contextType of
     DefaultRule \<Rightarrow> ''Default''
   | CallContract c \<Rightarrow> ''CallContract:'' @ c
   | CreateContractRule h \<Rightarrow> ''CreateContract:'' @ toHex h
   | CreateContractExternalRef owner tag \<Rightarrow> ''CreateContractExternalRef:'' @ owner @ '':'' @ tag)"

definition contextRuleTypeMatches :: "context_rule_type \<Rightarrow> context_rule_type \<Rightarrow> bool" where
  "contextRuleTypeMatches ruleType requiredType \<longleftrightarrow>
     ruleType = DefaultRule \<or> contextRuleTypeKey ruleType = contextRuleTypeKey requiredType"

definition extractCreateContractContextType :: "sdk \<Rightarrow> executable \<Rightarrow> context_rule_type option result" where
  "extractCreateContractContextType K exec = (case exec of
     ExecWasm h \<Rightarrow> Inr (Some (CreateContractRule h))
   | ExecExternalRef owner tag \<Rightarrow>
       bindE (scAddressToString K owner ''Executable reference owner'') (\<lambda>s.
         Inr (Some (CreateContractExternalRef s tag)))
   | ExecStellarAsset \<Rightarrow> Inr None)"

definition contextHere :: "sdk \<Rightarrow> auth_function \<Rightarrow> context_rule_type result" where
  "contextHere K fn =
     (let create = (\<lambda>exec. bindE (extractCreateContractContextType K exec) (\<lambda>t. (case t of
        None \<Rightarrow> Inl (JsError (''Unable to extract a WASM hash or executable reference '' @
          ''from create-contract authorization entry''))
      | Some c \<Rightarrow> Inr c))) in
      case fn of
        ContractFn args \<Rightarrow>
          bindE (scAddressToString K (iaContract args) ''Authorized invocation target'') (\<lambda>s. Inr (CallContract s))
      | CreateContractHostFn p exec \<Rightarrow> create exec
      | CreateContractV2HostFn args \<Rightarrow> create (caExecutable args))"

fun walkContexts :: "sdk \<Rightarrow> invocation \<Rightarrow> context_rule_type list result"
  and walkContextsList :: "sdk \<Rightarrow> invocation list \<Rightarrow> context_rule_type list result" where
  "walkContexts K (Invocation fn subs) =
     bindE (contextHere K fn) (\<lambda>c. bindE (walkContextsList K subs) (\<lambda>cs. Inr (c # cs)))"
| "walkContextsList K [] = Inr []"
| "walkContextsList K (t # ts) =
     bindE (walkContexts K t) (\<lambda>cs. bindE (walkContextsList K ts) (\<lambda>ds. Inr (cs @ ds)))"

definition buildInvocationContextTypes :: "sdk \<Rightarrow> auth_entry \<Rightarrow> context_rule_type list result" where
  "buildInvocationContextTypes K e = walkContexts K (aeRoot e)"

section \<open>Reading rules\<close>

text \<open>
  The query side of the generated client: \<^verbatim>\<open>get_context_rule\<close> gives the raw simulation value where
  it can be reached, and its decoded result; the other getters may be missing.
\<close>

record query_client =
  qcGetContextRule :: "nat \<Rightarrow> (scval option \<times> context_rule contract_result result) act"
  qcGetPolicyId :: "(string \<Rightarrow> nat option contract_result act) option"
  qcGetSignerId :: "(signer \<Rightarrow> nat option contract_result act) option"
  qcSpec :: "(scval \<Rightarrow> context_rule result) option"

definition resolvedId :: "kit_error \<Rightarrow> nat option contract_result act \<Rightarrow> nat act" where
  "resolvedId missing get = bindA get (\<lambda>r. bindA (liftA (unwrapContractResult r (\<lambda>e. e))) (\<lambda>x.
     (case x of None \<Rightarrow> throwA missing | Some n \<Rightarrow> returnA n)))"

definition hydrateContextRuleIds :: "query_client \<Rightarrow> context_rule \<Rightarrow> context_rule act" where
  "hydrateContextRuleIds wallet rule =
     (let needsPolicyIds = crPolicies rule \<noteq> [] \<and> length (crPolicyIds rule) \<noteq> length (crPolicies rule);
          needsSignerIds = crSigners rule \<noteq> [] \<and> length (crSignerIds rule) \<noteq> length (crSigners rule) in
      if \<not> needsPolicyIds \<and> \<not> needsSignerIds then returnA rule
      else bindA (case (needsPolicyIds, qcGetPolicyId wallet) of
            (True, Some get) \<Rightarrow> mapA (\<lambda>policy. resolvedId
              (JsError (''Failed to resolve policy ID for '' @ policy)) (get policy)) (crPolicies rule)
          | _ \<Rightarrow> returnA (crPolicyIds rule)) (\<lambda>policyIds.
        bindA (case (needsSignerIds, qcGetSignerId wallet) of
            (True, Some get) \<Rightarrow> mapA (\<lambda>s. resolvedId
              (JsError (''Failed to resolve signer ID for hydrated context rule '' @ decimal (crId rule))) (get s))
                (crSigners rule)
          | _ \<Rightarrow> returnA (crSignerIds rule)) (\<lambda>signerIds.
        returnA (rule\<lparr>crPolicyIds := policyIds, crSignerIds := signerIds\<rparr>))))"

text \<open>
  \<^verbatim>\<open>decodeContextRuleWithSpec\<close>: entries without a key for the id vectors get empty ones, and the
  map is sorted by its symbols. A key that is not a symbol makes \<^verbatim>\<open>sym()\<close> throw in the sort.
\<close>

definition symbolOf :: "scval \<Rightarrow> string option" where
  "symbolOf k = (case k of ScvSymbol s \<Rightarrow> Some s | _ \<Rightarrow> None)"

definition injectField :: "string \<Rightarrow> (scval \<times> scval) list \<Rightarrow> (scval \<times> scval) list \<Rightarrow> (scval \<times> scval) list" where
  "injectField field entries injected =
     (if Some field \<in> set (map (symbolOf \<circ> fst) entries) then injected
      else injected @ [(ScvSymbol field, ScvVec (Some []))])"

definition sortSymbolEntries :: "(scval \<times> scval) list \<Rightarrow> (scval \<times> scval) list result" where
  "sortSymbolEntries es =
     (if list_all (\<lambda>e. symbolOf (fst e) \<noteq> None) es
      then Inr (sortBy (\<lambda>a b. stringCompare (the (symbolOf (fst a))) (the (symbolOf (fst b)))) es)
      else Inl (JsError ''sym not set''))"

definition injectIdFields :: "scval \<Rightarrow> scval result" where
  "injectIdFields retval = (case retval of
     ScvMap m \<Rightarrow>
       (let entries = items m;
            injected = injectField ''policy_ids'' entries (injectField ''signer_ids'' entries entries) in
        if length injected \<noteq> length entries
        then bindE (sortSymbolEntries injected) (\<lambda>es. Inr (ScvMap (Some es)))
        else Inr retval)
   | _ \<Rightarrow> Inr retval)"

definition decodeContextRuleWithSpec :: "(scval \<Rightarrow> context_rule result) \<Rightarrow> scval \<Rightarrow> context_rule result" where
  "decodeContextRuleWithSpec spec retval = bindE (injectIdFields retval) spec"

definition READ_ONLY_SIM_ACCOUNT :: "sdk \<Rightarrow> string" where
  "READ_ONLY_SIM_ACCOUNT K = publicKeyOfSeed K (hash K (utf8 ''smart-account-kit-context-rule-read''))"

definition readRuleTx :: "sdk \<Rightarrow> string \<Rightarrow> nat \<Rightarrow> transaction result" where
  "readRuleTx K contractId contextRuleId =
     bindE (addressFromString K contractId) (\<lambda>address.
       Inr \<lparr>txSource = READ_ONLY_SIM_ACCOUNT K, txOps = [InvokeHostFunction
         (InvokeContract \<lparr>iaContract = address, iaFunction = ''get_context_rule'',
           iaArgs = [ScvU32 contextRuleId]\<rparr>) (Some [])], txBody = []\<rparr>)"

definition readContextRuleFromRpc :: "kit_env \<Rightarrow> query_client \<Rightarrow> string \<Rightarrow> nat \<Rightarrow> context_rule act" where
  "readContextRuleFromRpc E wallet contractId contextRuleId =
     bindA (liftA (readRuleTx (keSdk E) contractId contextRuleId)) (\<lambda>tx.
     bindA (requestA (FxRpcSimulate tx) (\<lambda>t. svRpcSimulate (keServices E) t tx)) (\<lambda>sim.
       (case sim of
          SimFailed err \<Rightarrow>
            if err \<noteq> [] then throwA (JsError (''Failed to fetch context rule '' @ decimal contextRuleId @ '': '' @ err))
            else throwA (JsError (''Context rule '' @ decimal contextRuleId @ '' returned no result''))
        | SimOk d retval \<Rightarrow>
            (case retval of
               None \<Rightarrow> throwA (JsError (''Context rule '' @ decimal contextRuleId @ '' returned no result''))
             | Some v \<Rightarrow>
                 (case qcSpec wallet of
                    None \<Rightarrow> throwA (JsError
                      ''Context rule decoding requires the generated contract spec on the wallet client'')
                  | Some spec \<Rightarrow> liftA (decodeContextRuleWithSpec spec v))))))"

text \<open>The contract is \<open>None\<close> where the RPC configuration is incomplete.\<close>

definition readContextRule :: "kit_env \<Rightarrow> query_client \<Rightarrow> string option \<Rightarrow> nat \<Rightarrow> context_rule act" where
  "readContextRule E wallet contractId contextRuleId = (case contractId of
     Some c \<Rightarrow> bindA (readContextRuleFromRpc E wallet c contextRuleId) (hydrateContextRuleIds wallet)
   | None \<Rightarrow>
       bindA (qcGetContextRule wallet contextRuleId) (\<lambda>(raw, res).
         (case (qcSpec wallet, raw) of
            (Some spec, Some retval) \<Rightarrow>
              bindA (liftA (decodeContextRuleWithSpec spec retval)) (hydrateContextRuleIds wallet)
          | _ \<Rightarrow> liftA (bindE res (\<lambda>r. unwrapContractResult r (\<lambda>e. e))))))"

section \<open>Listing rules\<close>

text \<open>\<^verbatim>\<open>/Rule \d+ not found/i\<close> and \<^verbatim>\<open>/ContextRuleNotFound/i\<close> anywhere in a message.\<close>

definition startsWith :: "string \<Rightarrow> string \<Rightarrow> bool" where
  "startsWith p s \<longleftrightarrow> take (length p) s = p"

fun anywhere :: "(string \<Rightarrow> bool) \<Rightarrow> string \<Rightarrow> bool" where
  "anywhere p [] = p []"
| "anywhere p (c # s) \<longleftrightarrow> p (c # s) \<or> anywhere p s"

definition ruleNotFoundAt :: "string \<Rightarrow> bool" where
  "ruleNotFoundAt s \<longleftrightarrow> startsWith ''rule '' s \<and> takeWhile isDigit (drop 5 s) \<noteq> [] \<and>
     startsWith '' not found'' (dropWhile isDigit (drop 5 s))"

definition isMissingContextRuleError :: "kit_error \<Rightarrow> bool" where
  "isMissingContextRuleError err =
     (case err of
        JsThrown m \<Rightarrow> False
      | _ \<Rightarrow>
          (case err of ContractError c n f m \<Rightarrow> c = 3000 | _ \<Rightarrow> False) \<or>
          (case decodeContractError (DString (errorMessage err)) of
             Some (ContractError c n f m) \<Rightarrow> n = ''ContextRuleNotFound''
           | _ \<Rightarrow> False) \<or>
          anywhere (startsWith ''contextrulenotfound'') (toLower (errorMessage err)) \<or>
          anywhere ruleNotFoundAt (toLower (errorMessage err)))"

definition addId :: "nat \<Rightarrow> nat list \<Rightarrow> nat list" where
  "addId x xs = (if x \<in> set xs then xs else xs @ [x])"

text \<open>The probe: read the ids in turn, and stop after too many consecutive misses.\<close>

fun probeLoop :: "(nat \<Rightarrow> context_rule act) \<Rightarrow> nat \<Rightarrow> nat \<Rightarrow> nat list \<Rightarrow> (nat \<times> context_rule) list \<Rightarrow> nat list \<Rightarrow>
    (nat list \<times> (nat \<times> context_rule) list) act" where
  "probeLoop read maxMisses misses found probed [] = returnA (found, probed)"
| "probeLoop read maxMisses misses found probed (i # ids) =
     bindA (catchA (bindA (read i) (\<lambda>rule. returnA (Some rule))) (\<lambda>e. returnA None)) (\<lambda>r.
       (case r of
          Some rule \<Rightarrow> probeLoop read maxMisses 0 (addId (crId rule) found) (AList.update (crId rule) rule probed) ids
        | None \<Rightarrow> if misses + 1 \<ge> maxMisses then returnA (found, probed)
                  else probeLoop read maxMisses (misses + 1) found probed ids))"

definition ruleUnlessMissing :: "(nat \<Rightarrow> context_rule act) \<Rightarrow> (nat \<times> context_rule) list \<Rightarrow> nat \<Rightarrow> context_rule option act" where
  "ruleUnlessMissing read probed i = (case map_of probed i of
     Some rule \<Rightarrow> returnA (Some rule)
   | None \<Rightarrow> catchA (bindA (read i) (\<lambda>rule. returnA (Some rule)))
       (\<lambda>e. if isMissingContextRuleError e then returnA None else throwA e))"

text \<open>
  Discovery: the indexer's rule ids (\<open>None\<close> when it knows nothing of the contract, an error when
  it fails), the probe's limits when it is enabled, and the latest ledger when an RPC is set.
\<close>

record discovery_deps =
  ddIndexer :: "(nat list option act) option"
  ddProbe :: "(nat \<times> nat) option"
  ddLatestLedger :: "nat act option"
  ddContractId :: "string option"

definition indexerRuleIds :: "discovery_deps \<Rightarrow> nat list option act" where
  "indexerRuleIds deps = (case ddIndexer deps of
     None \<Rightarrow> returnA None
   | Some get \<Rightarrow> catchA get (\<lambda>e. if ddProbe deps = None then throwA e else returnA None))"

definition unexpired :: "nat option \<Rightarrow> context_rule \<Rightarrow> bool" where
  "unexpired latestLedger rule = (case latestLedger of
     None \<Rightarrow> True
   | Some l \<Rightarrow> (case crValidUntil rule of None \<Rightarrow> True | Some v \<Rightarrow> l \<le> v))"

definition presentRules :: "context_rule option list \<Rightarrow> context_rule list" where
  "presentRules rules = map the (filter (\<lambda>r. r \<noteq> None) rules)"

definition listWith :: "(nat \<Rightarrow> context_rule act) \<Rightarrow> discovery_deps \<Rightarrow> context_rule list act" where
  "listWith read deps =
     bindA (indexerRuleIds deps) (\<lambda>details.
     bindA (case ddProbe deps of
         None \<Rightarrow> returnA (remdups (items details), [])
       | Some (maxRuleId, maxMisses) \<Rightarrow>
           probeLoop read maxMisses 0 (remdups (items details)) [] [0 ..< Suc maxRuleId]) (\<lambda>(found, probed).
       if found = []
       then (if details \<noteq> None then returnA []
         else throwA (JsError (''Listing active context rules requires an indexer or an enabled on-chain probe '' @
           ''that can discover a rule ID; the contract does not expose an iterator for active rule IDs.'')))
       else bindA (mapA (ruleUnlessMissing read probed) (sort found)) (\<lambda>rules.
         bindA (case ddLatestLedger deps of None \<Rightarrow> returnA None
             | Some get \<Rightarrow> bindA get (\<lambda>l. returnA (Some l))) (\<lambda>latestLedger.
           returnA (sort_key crId (filter (unexpired latestLedger) (presentRules rules)))))))"

definition listContextRules :: "kit_env \<Rightarrow> query_client \<Rightarrow> discovery_deps \<Rightarrow> context_rule list act" where
  "listContextRules E wallet deps = listWith (readContextRule E wallet (ddContractId deps)) deps"

definition getFilteredContextRules ::
    "kit_env \<Rightarrow> query_client \<Rightarrow> context_rule_type \<Rightarrow> discovery_deps \<Rightarrow> context_rule list act" where
  "getFilteredContextRules E wallet contextRuleType deps =
     bindA (listContextRules E wallet deps) (\<lambda>rules. returnA
       (filter (\<lambda>rule. contextRuleTypeKey (crType rule) = contextRuleTypeKey contextRuleType) rules))"

section \<open>The signer of a credential\<close>

text \<open>\<^verbatim>\<open>ids.join(", ")\<close>\<close>

fun joinComma :: "nat list \<Rightarrow> string" where
  "joinComma [] = []"
| "joinComma [n] = decimal n"
| "joinComma (n # ns) = decimal n @ '', '' @ joinComma ns"

definition keySuffixMatches :: "buffer \<Rightarrow> signer \<Rightarrow> bool" where
  "keySuffixMatches credentialId s = (case s of
     Delegated a \<Rightarrow> False
   | External v keyData \<Rightarrow>
       length credentialId < length keyData \<and> drop (length keyData - length credentialId) keyData = credentialId)"

fun findWebAuthnSignerInRules :: "sdk \<Rightarrow> (nat \<Rightarrow> context_rule act) \<Rightarrow> nat list \<Rightarrow> nat list \<Rightarrow> buffer \<Rightarrow> signer act" where
  "findWebAuthnSignerInRules K read asked [] credentialId = throwA (JsError (
     ''No signer found for credential ID '' @ base64urlEncode K credentialId @ '' in context rules '' @
     joinComma asked))"
| "findWebAuthnSignerInRules K read asked (i # ids) credentialId =
     bindA (read i) (\<lambda>rule. (case List.find (keySuffixMatches credentialId) (crSigners rule) of
        Some s \<Rightarrow> returnA s
      | None \<Rightarrow> findWebAuthnSignerInRules K read asked ids credentialId))"

definition findWebAuthnSignerForCredential :: "sdk \<Rightarrow> string \<Rightarrow> context_rule list \<Rightarrow> signer result" where
  "findWebAuthnSignerForCredential K credentialId resolvedRules =
     (let matchingSigners = collectUniqueSigners (concat (map (\<lambda>rule.
        filter (\<lambda>s. getCredentialIdFromSigner K s = Some credentialId) (crSigners rule)) resolvedRules)) in
      case matchingSigners of
        [s] \<Rightarrow> Inr s
      | [] \<Rightarrow> Inl (JsError (''No WebAuthn signer found for credential ID '' @ credentialId))
      | _ \<Rightarrow> Inl (JsError (''Multiple WebAuthn signers matched credential ID '' @ credentialId @
          ''. Resolve the signer explicitly.'')))"

section \<open>One rule per context\<close>

definition preferSpecific :: "context_rule list \<Rightarrow> context_rule list" where
  "preferSpecific matches =
     (let specific = filter (\<lambda>rule. crType rule \<noteq> DefaultRule) matches in
      if specific \<noteq> [] then specific else matches)"

definition signersMatchExactly :: "signer list \<Rightarrow> context_rule \<Rightarrow> bool" where
  "signersMatchExactly selected rule \<longleftrightarrow>
     length (crSigners rule) = length selected \<and>
     list_all (\<lambda>s. list_ex (\<lambda>r. signersEqual r s) (crSigners rule)) selected \<and>
     list_all (\<lambda>r. list_ex (\<lambda>s. signersEqual r s) selected) (crSigners rule)"

definition signersSuffice :: "signer list \<Rightarrow> context_rule \<Rightarrow> bool" where
  "signersSuffice selected rule \<longleftrightarrow>
     crPolicies rule = [] \<and> list_all (\<lambda>r. list_ex (\<lambda>s. signersEqual r s) selected) (crSigners rule)"

text \<open>\<^verbatim>\<open>if (matches.length === 1) return matches[0].id\<close>\<close>

definition onlyId :: "context_rule list \<Rightarrow> nat option" where
  "onlyId matches = (case matches of [rule] \<Rightarrow> Some (crId rule) | _ \<Rightarrow> None)"

definition resolveContext :: "context_rule list \<Rightarrow> signer list \<Rightarrow> context_rule_type \<Rightarrow> nat result" where
  "resolveContext rules selectedSigners contextType =
     (let candidates = filter (\<lambda>rule. contextRuleTypeMatches (crType rule) contextType) rules in
      case onlyId candidates of
        Some i \<Rightarrow> Inr i
      | None \<Rightarrow>
          (case onlyId (preferSpecific (filter (signersMatchExactly selectedSigners) candidates)) of
             Some i \<Rightarrow> Inr i
           | None \<Rightarrow>
               (case onlyId (preferSpecific (filter (signersSuffice selectedSigners) candidates)) of
                  Some i \<Rightarrow> Inr i
                | None \<Rightarrow> Inl (JsError (''Unable to resolve a unique context rule for '' @
                    contextRuleTypeKey contextType @ ''. Provide contextRuleIds explicitly. Matched '' @
                    decimal (length candidates) @ '' rule(s)'' @
                    (if candidates = [] then [] else '': '' @ joinComma (map crId candidates)) @ ''.'')))))"

definition resolveContextRuleIdsForEntry ::
    "sdk \<Rightarrow> auth_entry \<Rightarrow> signer list \<Rightarrow> context_rule list \<Rightarrow> nat list result" where
  "resolveContextRuleIdsForEntry K e selectedSigners rules =
     bindE (buildInvocationContextTypes K e) (mapE (resolveContext rules selectedSigners))"

section \<open>Keys identify rule types\<close>

fun plainOwner :: "context_rule_type \<Rightarrow> bool" where
  "plainOwner (CreateContractExternalRef owner tag) \<longleftrightarrow> CHR '':'' \<notin> set owner"
| "plainOwner _ \<longleftrightarrow> True"

lemma colon_split:
  "CHR '':'' \<notin> set a \<Longrightarrow> CHR '':'' \<notin> set c \<Longrightarrow> a @ CHR '':'' # b = c @ CHR '':'' # d \<longleftrightarrow> a = c \<and> b = d"
  using append_sep_inj by metis

lemma contextRuleTypeKey_inj:
  assumes "plainOwner t" "plainOwner u"
  shows "contextRuleTypeKey t = contextRuleTypeKey u \<longleftrightarrow> t = u"
  using assms
  by (cases t; cases u) (simp_all add: contextRuleTypeKey_def toHex_inj colon_split)

text \<open>The contexts an entry needs, by preorder over its calls.\<close>

fun functionsOf :: "invocation \<Rightarrow> auth_function list" where
  "functionsOf (Invocation fn subs) = fn # concat (map functionsOf subs)"

lemma mapE_append: "mapE f (xs @ ys) = bindE (mapE f xs) (\<lambda>a. bindE (mapE f ys) (\<lambda>b. Inr (a @ b)))"
proof (induction xs)
  case Nil
  show ?case by (cases "mapE f ys") auto
next
  case (Cons x xs)
  then show ?case by (cases "f x"; cases "mapE f xs"; cases "mapE f ys") auto
qed

lemma walkContexts_mapE:
  "walkContexts K t = mapE (contextHere K) (functionsOf t)"
  "walkContextsList K ts = mapE (contextHere K) (concat (map functionsOf ts))"
proof (induction K t and K ts rule: walkContexts_walkContextsList.induct)
  case (1 K fn subs)
  then show ?case by (cases "contextHere K fn") auto
next
  case (3 K t ts)
  then show ?case by (cases "mapE (contextHere K) (functionsOf t)") (auto simp: mapE_append)
qed simp

section \<open>The probe\<close>

text \<open>A reader whose answers do not change while the rules are listed.\<close>

definition steady :: "(nat \<Rightarrow> context_rule act) \<Rightarrow> (nat \<Rightarrow> context_rule result) \<Rightarrow> bool" where
  "steady read r \<longleftrightarrow> (\<forall>i w. fst (read i w) = r i) \<and> (\<forall>i rule. r i = Inr rule \<longrightarrow> crId rule = i)"

definition readable :: "(nat \<Rightarrow> context_rule result) \<Rightarrow> nat \<Rightarrow> bool" where
  "readable r i \<longleftrightarrow> isOk (r i)"

text \<open>No \<open>n\<close> consecutive ids below \<open>i\<close> are all unreadable.\<close>

definition noGap :: "(nat \<Rightarrow> context_rule result) \<Rightarrow> nat \<Rightarrow> nat \<Rightarrow> bool" where
  "noGap r n i \<longleftrightarrow> (\<forall>j. j + n \<le> i \<longrightarrow> (\<exists>k. j \<le> k \<and> k < j + n \<and> readable r k))"

lemma attempt:
  assumes "steady read r"
  obtains w' where "catchA (bindA (read i) (\<lambda>rule. returnA (Some rule))) (\<lambda>e. returnA None) w =
    (Inr (case r i of Inr rule \<Rightarrow> Some rule | Inl e \<Rightarrow> None), w')"
proof -
  obtain x w1 where "read i w = (x, w1)" by (cases "read i w")
  then have "read i w = (r i, w1)" using assms by (metis steady_def fst_conv)
  then have "catchA (bindA (read i) (\<lambda>rule. returnA (Some rule))) (\<lambda>e. returnA None) w =
    (Inr (case r i of Inr rule \<Rightarrow> Some rule | Inl e \<Rightarrow> None), w1)"
    by (simp add: catchA_def bindA_def run_simps split: sum.splits)
  then show ?thesis by (rule that)
qed

definition probedOk :: "(nat \<Rightarrow> context_rule result) \<Rightarrow> nat list \<Rightarrow> (nat \<times> context_rule) list \<Rightarrow> bool" where
  "probedOk r found probed \<longleftrightarrow>
     list_all (\<lambda>(i, rule). r i = Inr rule) probed \<and> set (map fst probed) \<subseteq> set found"

lemma probe_ok:
  assumes "steady read r" "probedOk r found probed"
    and "probeLoop read n m found probed ids w = (Inr (f, p), w')"
  shows "probedOk r f p \<and> set found \<subseteq> set f \<and> (\<forall>x. map_of probed x \<noteq> None \<longrightarrow> map_of p x \<noteq> None)"
  using assms (2,3)
proof (induction ids arbitrary: m found probed w)
  case Nil
  then show ?case by (simp add: run_simps)
next
  case (Cons i ids)
  obtain w1 where a: "catchA (bindA (read i) (\<lambda>rule. returnA (Some rule))) (\<lambda>e. returnA None) w =
    (Inr (case r i of Inr rule \<Rightarrow> Some rule | Inl e \<Rightarrow> None), w1)" by (rule attempt [OF assms (1)])
  show ?case
  proof (cases "r i")
    case (Inl e)
    with Cons a show ?thesis by (auto simp: bindA_def run_simps split: if_splits)
  next
    case (Inr rule)
    then have id: "crId rule = i" using assms (1) by (simp add: steady_def)
    have "list_all (\<lambda>(i, rule). r i = Inr rule) probed \<Longrightarrow>
        list_all (\<lambda>(i, rule). r i = Inr rule) (AList.update i rule probed)"
      using Inr by (induction probed) auto
    then have "probedOk r (addId i found) (AList.update i rule probed)"
      using Cons.prems (1) by (auto simp: probedOk_def addId_def dom_update)
    from Cons.IH [OF this] Cons.prems (2) a Inr id show ?thesis
      by (auto simp: bindA_def addId_def update_conv split: if_splits)
  qed
qed

lemma probe_finds:
  assumes "steady read r" "noGap r n i" "readable r i" "0 < n" "a \<le> i" "i < b"
    and "m \<le> a" "\<forall>k. a - m \<le> k \<longrightarrow> k < a \<longrightarrow> \<not> readable r k" "m < n"
    and "probedOk r found probed"
    and "probeLoop read n m found probed [a ..< b] w = (Inr (f, p), w')"
  shows "map_of p i \<noteq> None"
  using assms (5-)
proof (induction "b - a" arbitrary: a m found probed w)
  case 0
  then show ?case by simp
next
  case (Suc d)
  have ab: "[a ..< b] = a # [Suc a ..< b]" using Suc.prems by (simp add: upt_conv_Cons)
  have d: "d = b - Suc a" using Suc.hyps by simp
  obtain w1 where at: "catchA (bindA (read a) (\<lambda>rule. returnA (Some rule))) (\<lambda>e. returnA None) w =
    (Inr (case r a of Inr rule \<Rightarrow> Some rule | Inl e \<Rightarrow> None), w1)" by (rule attempt [OF assms (1)])
  show ?case
  proof (cases "r a")
    case (Inl e)
    then have na: "\<not> readable r a" by (simp add: readable_def)
    then have "a < i" using Suc.prems (1) assms (3) by (metis le_neq_implies_less)
    have gap: "\<forall>k. Suc a - Suc m \<le> k \<longrightarrow> k < Suc a \<longrightarrow> \<not> readable r k"
      using Suc.prems (4) na less_Suc_eq by auto
    have "\<not> n \<le> Suc m"
    proof
      assume "n \<le> Suc m"
      with Suc.prems have nm: "n = Suc m" by simp
      then have "(Suc a - n) + n \<le> i" using Suc.prems (3) \<open>a < i\<close> by simp
      with assms (2) obtain k where "Suc a - n \<le> k" "k < Suc a - n + n" "readable r k"
        unfolding noGap_def by blast
      then show False using gap nm Suc.prems (3) by simp
    qed
    moreover from this at Suc.prems (7) Inl ab
    have "probeLoop read n (Suc m) found probed [Suc a ..< b] w1 = (Inr (f, p), w')"
      by (simp add: bindA_def)
    ultimately show ?thesis
      using Suc.hyps (1) [OF d, of "Suc m" found probed w1] gap Suc.prems \<open>a < i\<close> by simp
  next
    case (Inr rule)
    then have id: "crId rule = a" using assms (1) by (simp add: steady_def)
    have ok: "probedOk r (addId a found) (AList.update a rule probed)"
    proof -
      have "list_all (\<lambda>(i, rule). r i = Inr rule) probed \<Longrightarrow>
          list_all (\<lambda>(i, rule). r i = Inr rule) (AList.update a rule probed)"
        using Inr by (induction probed) auto
      then show ?thesis using Suc.prems (6) by (auto simp: probedOk_def addId_def dom_update)
    qed
    have run: "probeLoop read n 0 (addId a found) (AList.update a rule probed) [Suc a ..< b] w1 = (Inr (f, p), w')"
      using at Suc.prems (7) Inr ab id by (simp add: bindA_def)
    show ?thesis
    proof (cases "a = i")
      case True
      then show ?thesis using probe_ok [OF assms (1) ok run] by (simp add: update_conv)
    next
      case False
      then show ?thesis
        using Suc.hyps (1) [OF d _ _ _ _ _ ok run] Suc.prems assms (4) by simp
    qed
  qed
qed

lemma probe_start:
  assumes "steady read r" "noGap r n i" "0 < n" "i \<le> maxId" "r i = Inr rule"
    and "probeLoop read n 0 found [] [0 ..< Suc maxId] w = (Inr (f, p), w')"
  shows "map_of p i \<noteq> None"
  by (rule probe_finds [OF assms (1,2) _ assms (3) _ _ _ _ assms (3) _ assms (6)])
     (use assms in \<open>auto simp: readable_def probedOk_def\<close>)

lemma mapA_results:
  "mapA f xs w = (Inr ys, w') \<Longrightarrow> list_all2 (\<lambda>x y. \<exists>w1 w2. f x w1 = (Inr y, w2)) xs ys"
proof (induction xs arbitrary: w ys)
  case Nil
  then show ?case by (simp add: run_simps)
next
  case (Cons x xs)
  then obtain y w1 ys' w2 where "f x w = (Inr y, w1)" "mapA f xs w1 = (Inr ys', w')" "ys = y # ys'"
    by (auto simp: act_cases run_simps)
  with Cons.IH show ?case by auto
qed

lemma list_all2_in:
  "list_all2 P xs ys \<Longrightarrow> y \<in> set ys \<Longrightarrow> \<exists>x \<in> set xs. P x y"
  "list_all2 P xs ys \<Longrightarrow> x \<in> set xs \<Longrightarrow> \<exists>y \<in> set ys. P x y"
  by (induction xs ys rule: list_all2_induct) auto

lemma ruleUnlessMissing_ok:
  assumes "steady read r" "probedOk r f p" "ruleUnlessMissing read p i w = (Inr y, w')"
  shows "(y = Some rule \<longrightarrow> r i = Inr rule) \<and> (y = None \<longrightarrow> map_of p i = None \<and> \<not> readable r i)"
proof (cases "map_of p i")
  case (Some rule')
  then have "r i = Inr rule'"
    using assms (2) by (auto simp: probedOk_def list_all_iff dest!: map_of_SomeD)
  then show ?thesis using assms (3) Some by (auto simp: ruleUnlessMissing_def run_simps)
next
  case None
  obtain x w1 where x: "read i w = (x, w1)" by (cases "read i w")
  then have "x = r i" using assms (1) by (metis steady_def fst_conv)
  with x assms (3) None show ?thesis
    by (cases "r i") (auto simp: ruleUnlessMissing_def catchA_def bindA_def run_simps readable_def split: if_splits)
qed

lemma listWith_ok:
  assumes "steady read r" "listWith read deps w = (Inr rules, w')"
  obtains p where "rules = []" "probedOk r [] p"
      "\<And>n maxId. ddProbe deps = Some (maxId, n) \<Longrightarrow>
        \<exists>found v v'. probeLoop read n 0 found [] [0 ..< Suc maxId] v = (Inr ([], p), v')"
  | f p l where "sorted (map crId rules)" "probedOk r f p"
      "\<And>rule. rule \<in> set rules \<longleftrightarrow> (\<exists>i \<in> set f. r i = Inr rule) \<and> unexpired l rule"
      "ddLatestLedger deps = None \<longrightarrow> l = None"
      "\<And>n maxId. ddProbe deps = Some (maxId, n) \<Longrightarrow>
        \<exists>found v v'. probeLoop read n 0 found [] [0 ..< Suc maxId] v = (Inr (f, p), v')"
proof -
  obtain details w1 f p w2 where ix: "indexerRuleIds deps w = (Inr details, w1)"
    and pr: "(case ddProbe deps of None \<Rightarrow> returnA (remdups (items details), [])
       | Some (maxRuleId, maxMisses) \<Rightarrow>
           probeLoop read maxMisses 0 (remdups (items details)) [] [0 ..< Suc maxRuleId]) w1 = (Inr (f, p), w2)"
    and rest: "(if f = [] then (if details \<noteq> None then returnA []
         else throwA (JsError (''Listing active context rules requires an indexer or an enabled on-chain probe '' @
           ''that can discover a rule ID; the contract does not expose an iterator for active rule IDs.'')))
       else bindA (mapA (ruleUnlessMissing read p) (sort f)) (\<lambda>rules.
         bindA (case ddLatestLedger deps of None \<Rightarrow> returnA None
             | Some get \<Rightarrow> bindA get (\<lambda>l. returnA (Some l))) (\<lambda>latestLedger.
           returnA (sort_key crId (filter (unexpired latestLedger) (presentRules rules)))))) w2 = (Inr rules, w')"
    using assms (2) unfolding listWith_def bindA_Inr by (auto simp del: upt_Suc)
  have ok: "probedOk r f p"
  proof (cases "ddProbe deps")
    case None
    with pr show ?thesis by (auto simp: run_simps probedOk_def)
  next
    case (Some mn)
    then show ?thesis
      using pr probe_ok [OF assms (1), of "remdups (items details)" "[]"]
      by (auto simp: probedOk_def simp del: upt_Suc split: prod.splits)
  qed
  show ?thesis
  proof (cases "f = []")
    case True
    then have "rules = []" using rest by (auto simp: run_simps split: if_splits)
    moreover have "\<exists>found v v'. probeLoop read n 0 found [] [0 ..< Suc maxId] v = (Inr ([], p), v')"
      if "ddProbe deps = Some (maxId, n)" for n maxId
      using pr that True by (auto simp del: upt_Suc)
    ultimately show ?thesis using ok True by (intro that (1)) simp_all
  next
    case False
    then obtain rs w3 l w4 where rs: "mapA (ruleUnlessMissing read p) (sort f) w2 = (Inr rs, w3)"
      and l: "(case ddLatestLedger deps of None \<Rightarrow> returnA None
             | Some get \<Rightarrow> bindA get (\<lambda>l. returnA (Some l))) w3 = (Inr l, w4)"
      and rules: "rules = sort_key crId (filter (unexpired l) (presentRules rs))"
      using rest by (auto simp: act_cases run_simps)
    note each = mapA_results [OF rs]
    have "rule \<in> set (presentRules rs) \<longleftrightarrow> (\<exists>i \<in> set f. r i = Inr rule)" for rule
    proof
      assume "rule \<in> set (presentRules rs)"
      then have "Some rule \<in> set rs" by (auto simp: presentRules_def)
      then obtain i w1 w2 where "i \<in> set (sort f)" "ruleUnlessMissing read p i w1 = (Inr (Some rule), w2)"
        using list_all2_in (1) [OF each] by blast
      with ruleUnlessMissing_ok [OF assms (1) ok this(2), of rule] show "\<exists>i \<in> set f. r i = Inr rule" by auto
    next
      assume "\<exists>i \<in> set f. r i = Inr rule"
      then obtain i where i: "i \<in> set (sort f)" "r i = Inr rule" by auto
      then obtain y w1 w2 where y: "y \<in> set rs" "ruleUnlessMissing read p i w1 = (Inr y, w2)"
        using list_all2_in (2) [OF each] by blast
      from ruleUnlessMissing_ok [OF assms (1) ok y(2)] i(2) have "y = Some rule"
        by (cases y) (auto simp: readable_def)
      with y show "rule \<in> set (presentRules rs)" by (force simp: presentRules_def)
    qed
    then have m: "rule \<in> set rules \<longleftrightarrow> (\<exists>i \<in> set f. r i = Inr rule) \<and> unexpired l rule" for rule
      by (auto simp: rules)
    have s: "sorted (map crId rules)" by (simp add: rules)
    have "ddLatestLedger deps = None \<longrightarrow> l = None" using l by (auto simp: run_simps)
    moreover have "\<exists>found v v'. probeLoop read n 0 found [] [0 ..< Suc maxId] v = (Inr (f, p), v')"
      if "ddProbe deps = Some (maxId, n)" for n maxId
      using pr that by (auto simp del: upt_Suc)
    ultimately show ?thesis by (intro that (2) [OF s ok m])
  qed
qed

lemma contexts_cover_calls:
  "buildInvocationContextTypes K e = Inr cs \<longleftrightarrow>
     list_all2 (\<lambda>fn c. contextHere K fn = Inr c) (functionsOf (aeRoot e)) cs"
  by (simp add: buildInvocationContextTypes_def walkContexts_mapE mapE_Inr)

lemma onlyId_Some: "onlyId rs = Some i \<Longrightarrow> set rs \<subseteq> A \<Longrightarrow> \<exists>rule \<in> A. crId rule = i"
  by (auto simp: onlyId_def split: list.splits)

lemma preferSpecific_sub: "set (preferSpecific rs) \<subseteq> set rs"
  by (auto simp: preferSpecific_def Let_def)

lemma resolveContext_member:
  assumes "resolveContext rules selected c = Inr i"
  shows "\<exists>rule. rule \<in> set rules \<and> crId rule = i \<and> contextRuleTypeMatches (crType rule) c"
proof -
  let ?cand = "filter (\<lambda>rule. contextRuleTypeMatches (crType rule) c) rules"
  have sub: "set (preferSpecific (filter P ?cand)) \<subseteq> set ?cand" for P
    using preferSpecific_sub [of "filter P ?cand"] by auto
  consider "onlyId ?cand = Some i"
    | "onlyId (preferSpecific (filter (signersMatchExactly selected) ?cand)) = Some i"
    | "onlyId (preferSpecific (filter (signersSuffice selected) ?cand)) = Some i"
    using assms unfolding resolveContext_def Let_def by (auto simp del: filter_filter split: option.splits)
  then have "\<exists>rule \<in> set ?cand. crId rule = i"
    by cases (use onlyId_Some sub in blast)+
  then show ?thesis by auto
qed

section \<open>Properties\<close>

text \<open>The contexts resolved for an entry are those of all its calls, root first, one per node: a
  contract call needs the rule type of its target, a deployment that of its code, and a node whose
  context cannot be named makes the whole entry fail.\<close>

theorem contexts_cover_all_calls:
  "buildInvocationContextTypes K e = Inr cs \<longleftrightarrow>
     list_all2 (\<lambda>fn c. contextHere K fn = Inr c) (functionsOf (aeRoot e)) cs"
  by (rule contexts_cover_calls)

text \<open>The text key of a rule type identifies it: two rule types whose executable owners are
  strkeys (without a colon) have the same key only if they are equal.\<close>

theorem contextRuleTypeKey_identifies:
  assumes "plainOwner t" "plainOwner u"
  shows "contextRuleTypeMatches t u \<longleftrightarrow> t = DefaultRule \<or> t = u"
  using contextRuleTypeKey_inj [OF assms] by (simp add: contextRuleTypeMatches_def)


text \<open>When exactly one rule scoped to a call's own context has exactly the selected signers, it
  is the rule chosen for the call, whatever Default rules and other rules also match.\<close>

theorem specific_rule_wins:
  assumes "filter (\<lambda>r. crType r \<noteq> DefaultRule \<and> contextRuleTypeMatches (crType r) c \<and>
      signersMatchExactly selected r) rules = [rule]"
  shows "resolveContext rules selected c = Inr (crId rule)"
proof -
  let ?cand = "filter (\<lambda>rule. contextRuleTypeMatches (crType rule) c) rules"
  let ?exact = "filter (signersMatchExactly selected) ?cand"
  have f: "filter (\<lambda>r. crType r \<noteq> DefaultRule) ?exact = [rule]"
    using assms by (simp add: conj_ac)
  then have p: "preferSpecific ?exact = [rule]" by (simp add: preferSpecific_def Let_def del: filter_filter)
  have r: "rule \<in> set ?cand"
  proof -
    have "rule \<in> set (filter (\<lambda>r. crType r \<noteq> DefaultRule) ?exact)" unfolding f by simp
    then show ?thesis by simp
  qed
  show ?thesis
  proof (cases "onlyId ?cand")
    case None
    then show ?thesis unfolding resolveContext_def Let_def p by (simp add: onlyId_def)
  next
    case (Some i)
    then obtain rule' where "?cand = [rule']" "crId rule' = i" by (auto simp: onlyId_def split: list.splits)
    with r have "i = crId rule" by auto
    then show ?thesis using Some unfolding resolveContext_def Let_def by simp
  qed
qed

text \<open>Two rules scoped to the call with the selected signers do not win over a Default rule:
  when both carry policies and a Default rule of the same signers carries none, the Default rule
  is chosen and the policies of the specific rules (a spending limit, say) are skipped.\<close>

theorem default_wins_over_two_specific_rules:
  "resolveContext
     [\<lparr>crType = DefaultRule, crId = 0, crName = n, crPolicies = [], crPolicyIds = [], crSignerIds = [1],
        crSigners = [s], crValidUntil = None\<rparr>,
      \<lparr>crType = CallContract token, crId = 1, crName = n, crPolicies = [limit], crPolicyIds = [1], crSignerIds = [1],
        crSigners = [s], crValidUntil = None\<rparr>,
      \<lparr>crType = CallContract token, crId = 2, crName = n, crPolicies = [limit], crPolicyIds = [1], crSignerIds = [1],
        crSigners = [s], crValidUntil = None\<rparr>]
     [s] (CallContract token) = Inr 0"
  by (simp add: resolveContext_def contextRuleTypeMatches_def signersMatchExactly_def preferSpecific_def
      signersSuffice_def onlyId_def)


section \<open>Witnesses\<close>

definition demoRule :: "nat \<Rightarrow> context_rule_type \<Rightarrow> signer list \<Rightarrow> context_rule" where
  "demoRule i t ss = \<lparr>crType = t, crId = i, crName = ''r'', crPolicies = [], crPolicyIds = [], crSignerIds = [],
     crSigners = ss, crValidUntil = None\<rparr>"

lemma contextRuleTypeKey_identifies_witness:
  "\<not> contextRuleTypeMatches (CreateContractExternalRef ''CO'' ''a:b'') (CallContract ''CO'')"
  using contextRuleTypeKey_identifies [of "CreateContractExternalRef ''CO'' ''a:b''" "CallContract ''CO''"] by simp


lemma specific_rule_wins_witness:
  "resolveContext [demoRule 0 DefaultRule [Delegated ''GA''], demoRule 5 (CallContract ''CT'') [Delegated ''GA'']]
     [Delegated ''GA''] (CallContract ''CT'') = Inr 5"
proof -
  let ?r = "demoRule 5 (CallContract ''CT'') [Delegated ''GA'']"
  have "filter (\<lambda>r. crType r \<noteq> DefaultRule \<and> contextRuleTypeMatches (crType r) (CallContract ''CT'') \<and>
      signersMatchExactly [Delegated ''GA''] r) [demoRule 0 DefaultRule [Delegated ''GA''], ?r] = [?r]"
    by (simp add: demoRule_def contextRuleTypeMatches_def signersMatchExactly_def)
  from specific_rule_wins [OF this] show ?thesis by (simp add: demoRule_def)
qed

definition demoReader :: "nat \<Rightarrow> context_rule act" where
  "demoReader i = (if i = 2 then returnA (demoRule 2 DefaultRule []) else throwA (JsError ''Rule 0 not found''))"

definition demoAnswers :: "nat \<Rightarrow> context_rule result" where
  "demoAnswers i = (if i = 2 then Inr (demoRule 2 DefaultRule []) else Inl (JsError ''Rule 0 not found''))"

definition demoDiscovery :: discovery_deps where
  "demoDiscovery = \<lparr>ddIndexer = None, ddProbe = Some (5, 3), ddLatestLedger = None, ddContractId = None\<rparr>"


end
