(* ===== verification/Kit_Signing.thy ===== *)
theory Kit_Signing
  imports Kit_ContextRules
begin

text \<open>
  Sign-only signing of an authorization entry: the input boundary \<^verbatim>\<open>toAuthEntry\<close>
  (\<^verbatim>\<open>src/kit/auth-entry-input.ts\<close>), and the digest, the Ed25519 signer and
  \<^verbatim>\<open>signAuthEntryWithSigners\<close> of \<^verbatim>\<open>src/signers.ts\<close>.
\<close>

section \<open>The input boundary\<close>

datatype auth_input =
    KitEntry auth_entry
  | EntryText string
  | ForeignEntry to_xdr
  | OtherInput string

text \<open>The SDK's codec of entries: from and to base64 text, and from bytes.\<close>

record entry_codec =
  ecFromText :: "string \<Rightarrow> auth_entry option"
  ecToText :: "auth_entry \<Rightarrow> string"
  ecFromBytes :: "buffer \<Rightarrow> auth_entry option"

definition isBase64Char :: "char \<Rightarrow> bool" where
  "isBase64Char c = (let n = of_char c :: nat in
     (65 \<le> n \<and> n \<le> 90) \<or> (97 \<le> n \<and> n \<le> 122) \<or> (48 \<le> n \<and> n \<le> 57) \<or> n = 43 \<or> n = 47)"

text \<open>\<^verbatim>\<open>/^(?:[A-Za-z0-9+\/]{4})*(?:[A-Za-z0-9+\/]{2}==|[A-Za-z0-9+\/]{3}=)?$/\<close>\<close>

fun isBase64 :: "string \<Rightarrow> bool" where
  "isBase64 [] = True"
| "isBase64 (a # b # c # d # rest) =
     (if isBase64Char a \<and> isBase64Char b \<and> isBase64Char c \<and> isBase64Char d then isBase64 rest
      else rest = [] \<and> isBase64Char a \<and> isBase64Char b \<and> d = CHR ''='' \<and> (isBase64Char c \<or> c = CHR ''=''))"
| "isBase64 _ = False"

definition invalidEntry :: "string \<Rightarrow> string \<Rightarrow> kit_error" where
  "invalidEntry fieldName detail = invalidInput (''Invalid '' @ fieldName @ '': '' @ detail @
     ''. Pass a base64-encoded SorobanAuthorizationEntry XDR string '' @
     ''(for example entry.toXdr(\"base64\") on Stellar SDK 17) or an xdr.SorobanAuthorizationEntry.'')"

definition toAuthEntry :: "entry_codec \<Rightarrow> auth_input \<Rightarrow> string \<Rightarrow> auth_entry result" where
  "toAuthEntry C input fieldName = (case input of
     KitEntry e \<Rightarrow> Inr e
   | EntryText text \<Rightarrow>
       (let encoded = trim text in
        if encoded = [] \<or> \<not> isBase64 encoded
        then Inl (invalidEntry fieldName ''the string is not valid base64'')
        else (case ecFromText C encoded of
            None \<Rightarrow> Inl (invalidEntry fieldName
              ''the base64 string does not decode to a SorobanAuthorizationEntry'')
          | Some decoded \<Rightarrow>
              if ecToText C decoded \<noteq> encoded
              then Inl (invalidEntry fieldName ''the string is not canonical base64 XDR'')
              else Inr decoded))
   | ForeignEntry x \<Rightarrow>
       (case x of
          NoToXdr \<Rightarrow> Inl (invalidEntry fieldName ''expected a string or an XDR object, got object'')
        | UnreadableToXdr \<Rightarrow> Inl (invalidEntry fieldName ''the object could not be encoded as XDR'')
        | ThrowingToXdr \<Rightarrow> Inl (invalidEntry fieldName ''the object could not be encoded as XDR'')
        | ReturningToXdr bytes \<Rightarrow>
            (case bytes of
               None \<Rightarrow> Inl (invalidEntry fieldName ''the object's toXDR() did not return bytes'')
             | Some b \<Rightarrow>
                 (case ecFromBytes C b of
                    None \<Rightarrow> Inl (invalidEntry fieldName
                      ''the object does not encode a SorobanAuthorizationEntry'')
                  | Some e \<Rightarrow> Inr e)))
   | OtherInput typeName \<Rightarrow> Inl (invalidEntry fieldName
       (''expected a string or an XDR object, got '' @ typeName)))"

section \<open>The digest of an entry\<close>

record entry_digest =
  edSignaturePayload :: buffer
  edAuthDigest :: buffer
  edDelegatedArgs :: "scval list"

text \<open>The entry comes back with the expiration the computation writes into it.\<close>

definition computeEntryAuthDigest ::
    "sdk \<Rightarrow> string \<Rightarrow> auth_entry \<Rightarrow> jsnum \<Rightarrow> nat list \<Rightarrow> string \<Rightarrow> (auth_entry \<times> entry_digest) result" where
  "computeEntryAuthDigest K networkPassphrase authEntry expiration contextRuleIds scheme =
     bindE (buildSignaturePayload K networkPassphrase authEntry expiration) (\<lambda>(e', signaturePayload).
       (case isAuthDigestScheme scheme of
          Some LegacyConcat \<Rightarrow>
            (let authDigest = buildLegacyAuthDigest K signaturePayload contextRuleIds in
             Inr (e', \<lparr>edSignaturePayload = signaturePayload, edAuthDigest = authDigest,
               edDelegatedArgs = [ScvBytes authDigest]\<rparr>))
        | Some PreimageV1 \<Rightarrow>
            bindE (getAuthEntryAddress K e') (\<lambda>account.
            bindE (buildAuthDigestPreimage K account signaturePayload contextRuleIds) (\<lambda>preimage.
              Inr (e', \<lparr>edSignaturePayload = signaturePayload,
                edAuthDigest = buildPreimageAuthDigest K preimage, edDelegatedArgs = [preimage]\<rparr>)))
        | None \<Rightarrow> Inl (invalidInput (''Unknown authorization digest scheme: '' @ scheme @
            ''. Expected one of legacy-concat, preimage-v1.''))))"

section \<open>Signers\<close>

text \<open>
  A signer object: its on-chain identity, with the reference of the object, and its signing
  function, which may throw.
\<close>

record digest_signer =
  dsSigner :: signer_object
  dsSign :: "buffer \<Rightarrow> buffer result"

text \<open>A keypair of the SDK: its raw public key and its signature on a message.\<close>

record keypair =
  kpPublic :: buffer
  kpSign :: "buffer \<Rightarrow> buffer"

definition ed25519Signer :: "keypair \<Rightarrow> string \<Rightarrow> object_ref \<Rightarrow> digest_signer result" where
  "ed25519Signer kp verifierAddress ref =
     (if length (kpPublic kp) \<noteq> ED25519_PUBLIC_KEY_SIZE
      then Inl (invalidInput ''Ed25519 public key must be 32 bytes'')
      else Inr \<lparr>dsSigner = (ref, External verifierAddress (kpPublic kp)),
        dsSign = (\<lambda>authDigest. let signature = kpSign kp authDigest in
          if length signature \<noteq> ED25519_SIGNATURE_SIZE
          then Inl (invalidInput ''Ed25519 signature must be 64 bytes'') else Inr signature)\<rparr>)"

text \<open>\<open>fromSecret\<close> is \<^verbatim>\<open>Keypair.fromSecret\<close>; \<open>None\<close> is its throw.\<close>

definition ed25519FromSecret :: "(string \<Rightarrow> keypair option) \<Rightarrow> string \<Rightarrow> string \<Rightarrow> object_ref \<Rightarrow> digest_signer result" where
  "ed25519FromSecret fromSecret secretKey verifierAddress ref = (case fromSecret secretKey of
     None \<Rightarrow> Inl (ValidationError ''Invalid Ed25519 secret key. Must be a valid Stellar secret key (S...)'' INVALID_INPUT)
   | Some kp \<Rightarrow> ed25519Signer kp verifierAddress ref)"

record sign_options =
  sgNetwork :: string
  sgScheme :: string
  sgRuleIds :: "nat list"
  sgExpiration :: "jsnum option"

definition jsFalsy :: "jsnum \<Rightarrow> bool" where
  "jsFalsy x \<longleftrightarrow> x = NaN \<or> x = Fin 0"

fun signInto :: "buffer \<Rightarrow> digest_signer list \<Rightarrow> auth_payload \<Rightarrow> auth_payload result" where
  "signInto authDigest [] p = Inr p"
| "signInto authDigest (s # ss) p =
     bindE (dsSign s authDigest) (\<lambda>bytes. signInto authDigest ss (upsertAuthPayloadSigner p (dsSigner s) bytes))"

definition signDecoded :: "sdk \<Rightarrow> auth_entry \<Rightarrow> digest_signer list \<Rightarrow> sign_options \<Rightarrow> auth_entry result" where
  "signDecoded K ent signers options =
     bindE (case aeCredentials ent of
        CredWithDelegates c d \<Rightarrow> Inl (invalidInput
          ''ADDRESS_WITH_DELEGATES auth entries are not supported by sign-only signing yet'')
      | SourceAccount \<Rightarrow> Inl (invalidInput
          ''Only address-credential auth entries can be signed by a smart account'')
      | CredAddress c \<Rightarrow> Inr c
      | CredAddressV2 c \<Rightarrow> Inr c) (\<lambda>credentials.
     bindE (getAuthEntryAddress K ent) (\<lambda>contractId.
     bindE (assertWalletMutationIntent K ent contractId None None) (\<lambda>_.
       let existingExpiration = acExpiration credentials;
           requestedExpiration = (case sgExpiration options of Some x \<Rightarrow> x | None \<Rightarrow> Fin (of_nat existingExpiration)) in
       if jsFalsy requestedExpiration
       then Inl (invalidInput ''A signature expiration ledger is required to sign this auth entry'')
       else
     bindE (normalizeSignatureExpirationLedger requestedExpiration) (\<lambda>expiration.
     bindE (readAuthPayload K (acSignature credentials)) (\<lambda>authPayload.
       if apSigners authPayload \<noteq> [] \<and> expiration \<noteq> existingExpiration
       then Inl (invalidInput ''Existing signatures cover a different expiration ledger'')
       else let contextRuleIds = sgRuleIds options in
       if contextRuleIds = []
       then Inl (invalidInput ''contextRuleIds are required from the caller to sign smart account auth entries'')
       else if apRuleIds authPayload \<noteq> [] \<and> joinIds (apRuleIds authPayload) \<noteq> joinIds contextRuleIds
       then Inl (invalidInput ''Existing auth payload uses different context rule IDs'')
       else
     bindE (computeEntryAuthDigest K (sgNetwork options) ent (Fin (of_nat expiration)) contextRuleIds
         (sgScheme options)) (\<lambda>(e', digest).
     bindE (signInto (edAuthDigest digest) signers authPayload) (\<lambda>p.
     bindE (writeAuthPayload K (p\<lparr>apRuleIds := contextRuleIds\<rparr>)) (\<lambda>v.
       Inr (setSignature v e')))))))))"

definition signAuthEntryWithSigners ::
    "sdk \<Rightarrow> entry_codec \<Rightarrow> auth_input \<Rightarrow> digest_signer list \<Rightarrow> sign_options \<Rightarrow> auth_input result" where
  "signAuthEntryWithSigners K C input signers options =
     (if signers = [] then Inl (invalidInput ''At least one signer is required'')
      else if isAuthDigestScheme (sgScheme options) = None
      then Inl (invalidInput (''authDigestScheme must be one of legacy-concat, preimage-v1 (got '' @ [CHR 0x22] @
        sgScheme options @ [CHR 0x22] @ '')''))
      else bindE (toAuthEntry C input ''entry'') (\<lambda>decoded.
        bindE (signDecoded K decoded signers options) (\<lambda>out.
          Inr (case input of EntryText text \<Rightarrow> EntryText (ecToText C out) | _ \<Rightarrow> KitEntry out))))"

section \<open>What a signed entry holds\<close>

lemma signInto_putAll:
  "signInto d ss p = Inr q \<Longrightarrow>
     \<exists>sigs. list_all2 (\<lambda>s b. dsSign s d = Inr b) ss sigs \<and>
       q = putAll (\<lambda>so b p. upsertAuthPayloadSigner p so b) (zip (map dsSigner ss) sigs) p"
proof (induction ss arbitrary: p)
  case Nil
  then show ?case by (intro exI [of _ "[]"]) simp
next
  case (Cons s ss)
  then obtain b where b: "dsSign s d = Inr b"
    and r: "signInto d ss (upsertAuthPayloadSigner p (dsSigner s) b) = Inr q"
    by (auto simp: bindE_Inr)
  from Cons.IH [OF r] obtain sigs where "list_all2 (\<lambda>s b. dsSign s d = Inr b) ss sigs"
    "q = putAll (\<lambda>so b p. upsertAuthPayloadSigner p so b) (zip (map dsSigner ss) sigs)
        (upsertAuthPayloadSigner p (dsSigner s) b)" by blast
  with b show ?case by (intro exI [of _ "b # sigs"]) simp
qed

lemma putAll_ruleIds:
  "apRuleIds (putAll (\<lambda>so b p. upsertAuthPayloadSigner p so b) xs p) = apRuleIds p"
  by (induction xs arbitrary: p) auto

lemma expiration_of_set:
  "getAddressCredentials (aeCredentials e) = Inr c \<Longrightarrow>
     getAddressCredentials (aeCredentials (setExpiration n e)) = Inr (c\<lparr>acExpiration := n\<rparr>)"
  by (cases "aeCredentials e") (auto simp: setExpiration_def)

lemma signature_of_set:
  "getAddressCredentials (aeCredentials e) = Inr c \<Longrightarrow>
     getAddressCredentials (aeCredentials (setSignature v e)) = Inr (c\<lparr>acSignature := v\<rparr>)"
  by (cases "aeCredentials e") (auto simp: setSignature_def)

lemma root_of_set [simp]: "aeRoot (setExpiration n e) = aeRoot e" "aeRoot (setSignature v e) = aeRoot e"
  by (simp_all add: setExpiration_def setSignature_def)

lemma buildSignaturePayload_ok:
  "buildSignaturePayload K net e x = Inr (e', b) \<longleftrightarrow>
     (\<exists>c n. getAddressCredentials (aeCredentials e) = Inr c \<and> normalizeSignatureExpirationLedger x = Inr n \<and>
        e' = setExpiration n e \<and> b = hash K (authPreimageToXDR K e' n net))"
  by (auto simp: buildSignaturePayload_def buildSignaturePreimage_def bindE_Inr Let_def)

lemma computeEntryAuthDigest_ok:
  assumes "computeEntryAuthDigest K net e x ids scheme = Inr (e', d)"
  shows "\<exists>n. normalizeSignatureExpirationLedger x = Inr n \<and> e' = setExpiration n e \<and>
     edSignaturePayload d = hash K (authPreimageToXDR K e' n net)"
proof -
  from assms obtain b where b: "buildSignaturePayload K net e x = Inr (e', b)" "edSignaturePayload d = b"
  proof (cases "isAuthDigestScheme scheme")
    case (Some s)
    with assms that show ?thesis
      by (cases s) (auto simp: computeEntryAuthDigest_def bindE_Inr Let_def)
  qed (auto simp: computeEntryAuthDigest_def bindE_Inr)
  then show ?thesis by (auto simp: buildSignaturePayload_ok)
qed

lemma normalize_nat: "normalizeSignatureExpirationLedger (Fin (of_nat n)) = Inr m \<Longrightarrow> m = n"
  by (simp add: normalizeSignatureExpirationLedger_def Let_def split: if_splits)

lemma entry_of_digest:
  assumes "computeEntryAuthDigest K net e (Fin (of_nat n)) ids scheme = Inr (e', d)"
  shows "e' = setExpiration n e"
  using computeEntryAuthDigest_ok [OF assms] normalize_nat by blast

lemma signDecoded_ok:
  assumes "signDecoded K e signers options = Inr out"
  obtains c contractId n p digest q v where
    "getAddressCredentials (aeCredentials e) = Inr c" "getAuthEntryAddress K e = Inr contractId"
    "assertWalletMutationIntent K e contractId None None = Inr ()"
    "readAuthPayload K (acSignature c) = Inr p"
    "normalizeSignatureExpirationLedger (case sgExpiration options of Some x \<Rightarrow> x
       | None \<Rightarrow> Fin (of_nat (acExpiration c))) = Inr n"
    "apSigners p \<noteq> [] \<longrightarrow> n = acExpiration c" "sgRuleIds options \<noteq> []"
    "apRuleIds p \<noteq> [] \<longrightarrow> apRuleIds p = sgRuleIds options"
    "computeEntryAuthDigest K (sgNetwork options) e (Fin (of_nat n)) (sgRuleIds options) (sgScheme options) =
       Inr (setExpiration n e, digest)"
    "signInto (edAuthDigest digest) signers p = Inr q"
    "writeAuthPayload K (q\<lparr>apRuleIds := sgRuleIds options\<rparr>) = Inr v"
    "out = setSignature v (setExpiration n e)"
proof -
  from assms obtain c contractId n p e' digest q v where f:
    "getAddressCredentials (aeCredentials e) = Inr c" "getAuthEntryAddress K e = Inr contractId"
    "assertWalletMutationIntent K e contractId None None = Inr ()"
    "readAuthPayload K (acSignature c) = Inr p"
    "normalizeSignatureExpirationLedger (case sgExpiration options of Some x \<Rightarrow> x
       | None \<Rightarrow> Fin (of_nat (acExpiration c))) = Inr n"
    "apSigners p \<noteq> [] \<longrightarrow> n = acExpiration c" "sgRuleIds options \<noteq> []"
    "apRuleIds p \<noteq> [] \<longrightarrow> apRuleIds p = sgRuleIds options"
    "computeEntryAuthDigest K (sgNetwork options) e (Fin (of_nat n)) (sgRuleIds options) (sgScheme options) =
       Inr (e', digest)"
    "signInto (edAuthDigest digest) signers p = Inr q"
    "writeAuthPayload K (q\<lparr>apRuleIds := sgRuleIds options\<rparr>) = Inr v"
    "out = setSignature v e'"
    unfolding signDecoded_def
    by (cases "aeCredentials e") (auto simp: bindE_Inr Let_def joinIds_inj split: if_splits)
  have "e' = setExpiration n e" by (rule entry_of_digest [OF f(9)])
  with f(9-12) that [OF f(1-8)] show ?thesis by blast
qed

section \<open>Properties\<close>

text \<open>The encoded preimage of an entry does not contain the entry's signature.\<close>

definition preimage_ignores_signature :: "sdk \<Rightarrow> bool" where
  "preimage_ignores_signature K \<longleftrightarrow>
     (\<forall>v e n p. authPreimageToXDR K (setSignature v e) n p = authPreimageToXDR K e n p)"

lemma set_set: "setExpiration n (setSignature v (setExpiration n e)) = setSignature v (setExpiration n e)"
  by (cases "aeCredentials e") (simp_all add: setExpiration_def setSignature_def)

lemma address_of_set:
  "getAuthEntryAddress K (setSignature v (setExpiration n e)) = getAuthEntryAddress K e"
  by (cases "aeCredentials e")
    (simp_all add: setExpiration_def setSignature_def getAuthEntryAddress_def)

lemma address_of_expiration: "getAuthEntryAddress K (setExpiration n e) = getAuthEntryAddress K e"
  by (cases "aeCredentials e") (simp_all add: setExpiration_def getAuthEntryAddress_def)

lemma digest_of_signed:
  assumes "preimage_ignores_signature K"
    and d: "computeEntryAuthDigest K net e (Fin (of_nat n)) ids scheme = Inr (setExpiration n e, digest)"
  shows "computeEntryAuthDigest K net (setSignature v (setExpiration n e)) (Fin (of_nat n)) ids scheme =
     Inr (setSignature v (setExpiration n e), digest)"
proof -
  let ?e = "setExpiration n e" and ?s = "setSignature v (setExpiration n e)"
  obtain m where m: "normalizeSignatureExpirationLedger (Fin (of_nat n)) = Inr m"
    using computeEntryAuthDigest_ok [OF d] by blast
  with normalize_nat have m: "normalizeSignatureExpirationLedger (Fin (of_nat n)) = Inr n" by blast
  obtain c where c: "getAddressCredentials (aeCredentials e) = Inr c"
    using d by (cases "aeCredentials e")
      (auto simp: computeEntryAuthDigest_def buildSignaturePayload_def buildSignaturePreimage_def)
  have "getAddressCredentials (aeCredentials ?s) = Inr (c\<lparr>acExpiration := n, acSignature := v\<rparr>)"
    by (rule signature_of_set [OF expiration_of_set [OF c]])
  then have "buildSignaturePayload K net ?s (Fin (of_nat n)) = Inr (?s, hash K (authPreimageToXDR K ?e n net))"
    using m assms(1) by (simp add: buildSignaturePayload_ok set_set preimage_ignores_signature_def)
  moreover have "buildSignaturePayload K net e (Fin (of_nat n)) = Inr (?e, hash K (authPreimageToXDR K ?e n net))"
    using m c by (simp add: buildSignaturePayload_ok)
  ultimately show ?thesis
    using d by (cases "isAuthDigestScheme scheme")
      (auto simp: computeEntryAuthDigest_def address_of_set address_of_expiration Let_def bindE_Inr
        split: auth_digest_scheme.splits)
qed

text \<open>
  Sign-only signing never signs a change of the wallet's authority: when it succeeds, no call of
  the entry's tree, at any depth, is one of the wallet's mutation functions on the wallet itself.
\<close>

theorem sign_only_refuses_mutations:
  assumes "signAuthEntryWithSigners K C (KitEntry e) signers options = Inr out"
  shows "\<exists>wallet. getAuthEntryAddress K e = Inr wallet \<and>
     list_all (\<lambda>(a, d). \<not> isMutationOf K wallet a) (callsOf 0 (aeRoot e))"
proof -
  from assms obtain s where "signDecoded K e signers options = Inr s"
    by (auto simp: signAuthEntryWithSigners_def toAuthEntry_def bindE_Inr split: if_splits)
  then obtain wallet where w: "getAuthEntryAddress K e = Inr wallet"
    "assertWalletMutationIntent K e wallet None None = Inr ()"
    by (rule signDecoded_ok) blast
  from generic_path_accepts [OF this(2)] w(1) show ?thesis
    by (auto simp: list_all_iff)
qed

text \<open>
  C6. A sign-only signed entry keeps the invocation it was given, reads back with exactly the requested
  rule ids, carries each signer's signature (the last one when two signers share an identity) beside
  the signatures already there, and every new signature is over the digest that anyone computes
  from the returned entry; an entry that already carried signatures keeps its expiration.
\<close>

theorem sign_only_result:
  assumes "sdk_strkey_ok K" "preimage_ignores_signature K"
    and c: "getAddressCredentials (aeCredentials e) = Inr c"
    and p: "readAuthPayload K (acSignature c) = Inr p" "payload_ok p"
    and ok: "signAuthEntryWithSigners K C (KitEntry e) signers options = Inr (KitEntry out)"
  shows "\<exists>digest sigs c' q.
     list_all2 (\<lambda>s b. dsSign s (edAuthDigest digest) = Inr b) signers sigs \<and>
     aeRoot out = aeRoot e \<and> getAddressCredentials (aeCredentials out) = Inr c' \<and>
     acNonce c' = acNonce c \<and> (apSigners p \<noteq> [] \<longrightarrow> acExpiration c' = acExpiration c) \<and>
     computeEntryAuthDigest K (sgNetwork options) out (Fin (of_nat (acExpiration c')))
       (sgRuleIds options) (sgScheme options) = Inr (out, digest) \<and>
     readAuthPayload K (acSignature c') = Inr q \<and> apRuleIds q = sgRuleIds options \<and>
     (\<forall>s. sigOf q s = (case lastPut snd (zip (map dsSigner signers) sigs) s of
        Some b \<Rightarrow> Some b | None \<Rightarrow> sigOf p s))"
proof -
  from ok have "signDecoded K e signers options = Inr out"
    by (auto simp: signAuthEntryWithSigners_def toAuthEntry_def bindE_Inr split: if_splits)
  then obtain n digest q v where f: "apSigners p \<noteq> [] \<longrightarrow> n = acExpiration c"
    "computeEntryAuthDigest K (sgNetwork options) e (Fin (of_nat n)) (sgRuleIds options) (sgScheme options) =
       Inr (setExpiration n e, digest)"
    "signInto (edAuthDigest digest) signers p = Inr q"
    "writeAuthPayload K (q\<lparr>apRuleIds := sgRuleIds options\<rparr>) = Inr v"
    "out = setSignature v (setExpiration n e)"
    by (rule signDecoded_ok) (use c p(1) in simp)
  let ?q = "q\<lparr>apRuleIds := sgRuleIds options\<rparr>" and ?c = "c\<lparr>acExpiration := n, acSignature := v\<rparr>"
  obtain sigs where sigs: "list_all2 (\<lambda>s b. dsSign s (edAuthDigest digest) = Inr b) signers sigs"
    and q: "q = putAll (\<lambda>so b p. upsertAuthPayloadSigner p so b) (zip (map dsSigner signers) sigs) p"
    using signInto_putAll [OF f(3)] by blast
  have "payload_ok q" unfolding q by (rule payload_store.putAll_inv [OF p(2)])
  then have "payload_ok ?q" by simp
  then obtain r where r: "readAuthPayload K v = Inr r" "apRuleIds r = sgRuleIds options" "sigOf r = sigOf q"
    by (rule read_back [OF assms(1) _ f(4)]) auto
  then have s: "sigOf r s = (case lastPut snd (zip (map dsSigner signers) sigs) s of
        Some b \<Rightarrow> Some b | None \<Rightarrow> sigOf p s)" for s
    using payload_store.putAll_get [OF p(2)] by (simp add: q)
  have "getAddressCredentials (aeCredentials out) = Inr ?c"
    unfolding f(5) by (rule signature_of_set [OF expiration_of_set [OF c]])
  moreover have "computeEntryAuthDigest K (sgNetwork options) out (Fin (of_nat n)) (sgRuleIds options)
      (sgScheme options) = Inr (out, digest)"
    unfolding f(5) by (rule digest_of_signed [OF assms(2) f(2)])
  ultimately show ?thesis
    using sigs r(1,2) s f(1) by (intro exI [of _ digest] exI [of _ sigs] exI [of _ ?c] exI [of _ r]) (simp add: f(5))
qed

section \<open>Witnesses\<close>

definition demoTransfer :: auth_entry where
  "demoTransfer = \<lparr>aeCredentials = CredAddress \<lparr>acAddress = AddrContract (utf8 ''W''), acNonce = 5,
       acExpiration = 0, acSignature = ScvVoid\<rparr>,
     aeRoot = Invocation (ContractFn \<lparr>iaContract = AddrContract (utf8 ''T''), iaFunction = ''transfer'',
       iaArgs = []\<rparr>) []\<rparr>"

definition demoSigners :: "digest_signer list" where
  "demoSigners = [\<lparr>dsSigner = (Caller 0, External ''Cv'' [2]), dsSign = (\<lambda>d. Inr [7])\<rparr>]"

definition demoSignOptions :: sign_options where
  "demoSignOptions = \<lparr>sgNetwork = ''net'', sgScheme = ''legacy-concat'', sgRuleIds = [3], sgExpiration = Some (Fin 100)\<rparr>"

definition demoCodec :: entry_codec where
  "demoCodec = \<lparr>ecFromText = (\<lambda>t. None), ecToText = (\<lambda>e. []), ecFromBytes = (\<lambda>b. None)\<rparr>"

lemma demoSdk_preimage: "preimage_ignores_signature demoSdk"
  by (simp add: preimage_ignores_signature_def demoSdk_def)

lemma demo_steps:
  "getAuthEntryAddress demoSdk demoTransfer = Inr ''CW''"
  "assertWalletMutationIntent demoSdk demoTransfer ''CW'' None None = Inr ()"
  by (simp_all add: getAuthEntryAddress_def demoTransfer_def scAddressToString_def demo_strkeys
      assertWalletMutationIntent_def mutationHere_def bindE_def)

lemma demo_digest:
  "\<exists>d. computeEntryAuthDigest demoSdk ''net'' demoTransfer (Fin 100) [3] ''legacy-concat'' =
      Inr (setExpiration 100 demoTransfer, d)"
proof -
  have "isAuthDigestScheme ''legacy-concat'' = Some LegacyConcat"
    by (simp add: isAuthDigestScheme_def AUTH_DIGEST_SCHEMES_def)
  moreover have "\<exists>b. buildSignaturePayload demoSdk ''net'' demoTransfer (Fin 100) = Inr (setExpiration 100 demoTransfer, b)"
    by (auto simp: buildSignaturePayload_ok demoTransfer_def normalizeSignatureExpirationLedger_def U32_MAX_def)
  ultimately show ?thesis
    by (auto simp: computeEntryAuthDigest_def Let_def)
qed

lemma demo_verifier: "fromStrkey demoSdk ''Cv'' = Some (AddrContract (utf8 ''v''))"
  by (simp add: demoSdk_def demoFromStrkey_def)

lemma demo_signs:
  "\<exists>out. signAuthEntryWithSigners demoSdk demoCodec (KitEntry demoTransfer) demoSigners demoSignOptions = Inr (KitEntry out)"
proof -
  obtain d where d: "computeEntryAuthDigest demoSdk ''net'' demoTransfer (Fin 100) [3] ''legacy-concat'' =
      Inr (setExpiration 100 demoTransfer, d)"
    using demo_digest by blast
  obtain c where c: "aeCredentials demoTransfer = CredAddress c" "acSignature c = ScvVoid" by (simp add: demoTransfer_def)
  have "\<exists>out. signDecoded demoSdk demoTransfer demoSigners demoSignOptions = Inr out"
    using d by (simp add: signDecoded_def demo_steps demoSignOptions_def jsFalsy_def c readAuthPayload_def
        emptyAuthPayload_def normalizeSignatureExpirationLedger_def U32_MAX_def demoSigners_def
        writeAuthPayload_def writeSignerEntry_def signerToScVal_def addressFromString_def
        demo_verifier upsertAuthPayloadSigner_def)
  then show ?thesis
    by (auto simp: signAuthEntryWithSigners_def demoSigners_def demoSignOptions_def toAuthEntry_def
        isAuthDigestScheme_def AUTH_DIGEST_SCHEMES_def)
qed

lemma sign_only_refuses_mutations_witness:
  "\<exists>wallet. getAuthEntryAddress demoSdk demoTransfer = Inr wallet \<and>
     list_all (\<lambda>(a, d). \<not> isMutationOf demoSdk wallet a) (callsOf 0 (aeRoot demoTransfer))"
  using demo_signs sign_only_refuses_mutations [of demoSdk demoCodec demoTransfer demoSigners demoSignOptions] by blast

lemma sign_only_result_witness:
  "\<exists>out c' q. signAuthEntryWithSigners demoSdk demoCodec (KitEntry demoTransfer) demoSigners demoSignOptions =
       Inr (KitEntry out) \<and> getAddressCredentials (aeCredentials out) = Inr c' \<and>
     readAuthPayload demoSdk (acSignature c') = Inr q \<and> apRuleIds q = [3] \<and>
     sigOf q (External ''Cv'' [2]) = Some [7]"
proof -
  obtain out where out: "signAuthEntryWithSigners demoSdk demoCodec (KitEntry demoTransfer) demoSigners demoSignOptions =
       Inr (KitEntry out)" using demo_signs by blast
  obtain c where c: "getAddressCredentials (aeCredentials demoTransfer) = Inr c"
    "readAuthPayload demoSdk (acSignature c) = Inr emptyAuthPayload"
    by (simp add: demoTransfer_def readAuthPayload_def)
  have "payload_ok emptyAuthPayload" by (simp add: payload_ok_def payloadSigners_def emptyAuthPayload_def)
  from sign_only_result [OF demoSdk_strkey demoSdk_preimage c this out] out
  show ?thesis by (force simp: demoSigners_def demoSignOptions_def list_all2_Cons1)
qed

end
