(* ===== verification/Kit_WebAuthn.thy ===== *)
theory Kit_WebAuthn
  imports Kit_Signing
begin

text \<open>
  Passkeys: the compact form of a DER signature and the public key of a registration
  (\<^verbatim>\<open>compactSignature\<close>, \<^verbatim>\<open>extractPublicKeyFromAttestation\<close> of \<^verbatim>\<open>src/utils.ts\<close>), registration,
  authentication and the signing of an authorization entry with a passkey
  (\<^verbatim>\<open>src/kit/webauthn-ops.ts\<close>). The browser's authenticator and WebCrypto are parameters; the
  random values and the clock are inputs.
\<close>

section \<open>Numbers as hexadecimal text and as big-endian bytes\<close>

text \<open>\<^verbatim>\<open>n.toString(16)\<close>\<close>

fun natHex :: "nat \<Rightarrow> string" where
  "natHex n = (if n < 16 then [hexDigit n] else natHex (n div 16) @ [hexDigit (n mod 16)])"

declare natHex.simps [simp del]

definition padStart :: "nat \<Rightarrow> char \<Rightarrow> string \<Rightarrow> string" where
  "padStart k c s = replicate (k - length s) c @ s"

text \<open>\<^verbatim>\<open>Buffer.from(n.toString(16).padStart(64, "0"), "hex")\<close>\<close>

definition toBytes32 :: "nat \<Rightarrow> buffer" where
  "toBytes32 n = fromHex (padStart 64 CHR ''0'' (natHex n))"

fun bigEndian :: "nat \<Rightarrow> nat \<Rightarrow> buffer" where
  "bigEndian 0 n = []"
| "bigEndian (Suc k) n = bigEndian k (n div 256) @ [word_of_nat n]"

fun hexFix :: "nat \<Rightarrow> nat \<Rightarrow> string" where
  "hexFix 0 n = []"
| "hexFix (Suc k) n = hexFix k (n div 16) @ [hexDigit n]"

lemma length_bigEndian [simp]: "length (bigEndian k n) = k"
  by (induction k n rule: bigEndian.induct) simp_all

lemma beNat_append [simp]: "beNat (b @ [x]) = 256 * beNat b + unat x"
  by (simp add: beNat_def)

lemma beNat_bigEndian: "n < 256 ^ k \<Longrightarrow> beNat (bigEndian k n) = n"
proof (induction k n rule: bigEndian.induct)
  case (2 k n)
  then have "n div 256 < 256 ^ k" by (simp add: less_mult_imp_div_less mult.commute)
  with 2 show ?case by (simp add: unat_of_nat)
qed (simp add: beNat_def)

lemma bigEndian_beNat: "bigEndian (length b) (beNat b) = b"
proof (induction b rule: rev_induct)
  case (snoc x b)
  have "unat x < 256" using unsigned_less [of x, where 'a = nat] by simp
  then have "(256 * beNat b + unat x) div 256 = beNat b" by simp
  moreover have "word_of_nat (256 * beNat b + unat x) = x"
    by (subst word_unat_eq_iff, subst unat_of_nat) (use \<open>unat x < 256\<close> in simp)
  ultimately show ?case using snoc by simp
qed simp

lemma hexDigit_mod [simp]: "hexDigit (n mod 16) = hexDigit n"
  by (simp add: hexDigit_def)

lemma toHex_append: "toHex (a @ b) = toHex a @ toHex b"
  by (simp add: toHex_def)

lemma toHex_bigEndian: "toHex (bigEndian k n) = hexFix (2 * k) n"
proof (induction k n rule: bigEndian.induct)
  case (2 k n)
  have m: "n mod 256 = 16 * (n div 16 mod 16) + n mod 16" using mod_mult2_eq [of n 16 16] by simp
  then have "n mod 256 div 16 mod 16 = n div 16 mod 16" by simp
  then have a: "hexDigit (n mod 256 div 16) = hexDigit (n div 16)" by (simp add: hexDigit_def)
  from m have "n mod 256 mod 16 = n mod 16" by simp
  then have b: "hexDigit (n mod 256) = hexDigit n" by (simp add: hexDigit_def)
  have "n div 16 div 16 = n div 256" by (simp add: div_mult2_eq [symmetric])
  with 2 a b show ?case
    by (simp add: toHex_append toHex_Cons hexByte_def unat_of_nat)
qed simp

lemma natHex_nonempty [simp]: "natHex n \<noteq> []"
  by (subst natHex.simps) simp

lemma hexFix_pad: "0 < k \<Longrightarrow> n < 16 ^ k \<Longrightarrow>
   hexFix k n = padStart k CHR ''0'' (natHex n) \<and> length (natHex n) \<le> k"
proof (induction k arbitrary: n)
  case (Suc k)
  show ?case
  proof (cases "n < 16")
    case True
    have "hexFix j 0 = replicate j CHR ''0''" for j
      by (induction j) (simp_all add: hexDigit_def hexDigits_def replicate_append_same)
    with True show ?thesis by (simp add: natHex.simps [of n] padStart_def)
  next
    case False
    with Suc.prems have "0 < k" by (cases k) auto
    moreover have "n div 16 < 16 ^ k" using Suc.prems(2) by (simp add: less_mult_imp_div_less mult.commute)
    ultimately have "hexFix k (n div 16) = padStart k CHR ''0'' (natHex (n div 16)) \<and>
        length (natHex (n div 16)) \<le> k" by (rule Suc.IH)
    with False show ?thesis by (simp add: natHex.simps [of n] padStart_def)
  qed
qed simp

lemma toBytes32_bigEndian: "n < 2 ^ 256 \<Longrightarrow> toBytes32 n = bigEndian 32 n"
proof -
  assume "n < 2 ^ 256"
  then have "n < 16 ^ 64" by simp
  with hexFix_pad [of 64 n] have "hexFix 64 n = padStart 64 CHR ''0'' (natHex n)" by simp
  then have "toBytes32 n = fromHex (toHex (bigEndian 32 n))"
    using toHex_bigEndian [of 32 n] by (simp add: toBytes32_def)
  then show "toBytes32 n = bigEndian 32 n" by simp
qed

section \<open>Compact signatures\<close>

definition P256_ORDER :: nat where
  "P256_ORDER = 0xffffffff00000000ffffffffffffffffbce6faada7179e84f3b9cac2fc632551"

definition malformed :: "string \<Rightarrow> kit_error" where
  "malformed reason = invalidInput (''Malformed DER ECDSA signature: '' @ reason)"

definition compactSignature :: "buffer \<Rightarrow> buffer result" where
  "compactSignature derSignature =
     (if length derSignature < 8 then Inl (malformed ''too short'')
      else if derSignature ! 0 \<noteq> 0x30 then Inl (malformed ''missing SEQUENCE tag'')
      else let totalLength = unat (derSignature ! 1) in
      if 0x80 \<le> totalLength then Inl (malformed ''long-form length is unsupported'')
      else if totalLength \<noteq> length derSignature - 2
      then Inl (malformed ''SEQUENCE length does not span the buffer'')
      else if derSignature ! 2 \<noteq> 0x02 then Inl (malformed ''missing INTEGER tag for r'')
      else let rLength = unat (derSignature ! 3) in
      if rLength < 1 \<or> 33 < rLength then Inl (malformed ''r length is out of range'')
      else if length derSignature < 4 + rLength + 2 then Inl (malformed ''r overruns the buffer'')
      else let r = take rLength (drop 4 derSignature); sTagOffset = 4 + rLength in
      if derSignature ! sTagOffset \<noteq> 0x02 then Inl (malformed ''missing INTEGER tag for s'')
      else let sLength = unat (derSignature ! (sTagOffset + 1)) in
      if sLength < 1 \<or> 33 < sLength then Inl (malformed ''s length is out of range'')
      else if sTagOffset + 2 + sLength \<noteq> length derSignature
      then Inl (malformed ''s does not end at the buffer end'')
      else let s = drop (sTagOffset + 2) derSignature; rBigInt = beNat r; sBigInt = beNat s in
      if rBigInt < 1 \<or> P256_ORDER \<le> rBigInt then Inl (malformed ''r is out of curve order range'')
      else if sBigInt < 1 \<or> P256_ORDER \<le> sBigInt then Inl (malformed ''s is out of curve order range'')
      else let halfN = P256_ORDER div 2;
               lowS = (if halfN < sBigInt then P256_ORDER - sBigInt else sBigInt) in
        Inr (toBytes32 rBigInt @ toBytes32 lowS))"

text \<open>The DER form of two unsigned integers given by their content bytes, and the low form of \<open>s\<close>.\<close>

definition derSignatureOf :: "buffer \<Rightarrow> buffer \<Rightarrow> buffer" where
  "derSignatureOf r s = [0x30, word_of_nat (4 + length r + length s), 0x02, word_of_nat (length r)] @ r @
     [0x02, word_of_nat (length s)] @ s"

definition lowForm :: "nat \<Rightarrow> nat" where
  "lowForm s = (if P256_ORDER div 2 < s then P256_ORDER - s else s)"

lemma unat_small: "n < 256 \<Longrightarrow> unat (word_of_nat n :: byte) = n"
  by (simp add: unat_of_nat)

lemma word_of_small: "unat (x :: byte) = n \<Longrightarrow> word_of_nat n = x"
  by auto

lemma der_shape:
  assumes "8 \<le> length d" "d ! 0 = 0x30" "unat (d ! 1) = length d - 2" "d ! 2 = 0x02"
    and "unat (d ! 3) = lr" "4 + lr + 2 \<le> length d" "d ! (4 + lr) = 0x02"
    and "unat (d ! (4 + lr + 1)) = ls" "4 + lr + 2 + ls = length d"
  shows "d = derSignatureOf (take lr (drop 4 d)) (drop (4 + lr + 2) d)"
proof -
  have h: "take 4 d = [d ! 0, d ! 1, d ! 2, d ! 3]"
    using assms(1) by (intro nth_equalityI) (auto simp: less_Suc_eq numeral_eq_Suc)
  have m: "take 2 (drop (4 + lr) d) = [d ! (4 + lr), d ! (4 + lr + 1)]"
    using assms(6) by (intro nth_equalityI) (auto simp: less_Suc_eq numeral_eq_Suc)
  have "d = take 4 d @ take lr (drop 4 d) @ take 2 (drop (4 + lr) d) @ drop (4 + lr + 2) d"
    by (metis append_take_drop_id drop_drop add.commute)
  also have "\<dots> = [d ! 0, d ! 1, d ! 2, d ! 3] @ take lr (drop 4 d) @ [d ! (4 + lr), d ! (4 + lr + 1)] @
      drop (4 + lr + 2) d" by (simp only: h m)
  finally have e: "d = [d ! 0, d ! 1, d ! 2, d ! 3] @ take lr (drop 4 d) @ [d ! (4 + lr), d ! (4 + lr + 1)] @
      drop (4 + lr + 2) d" .
  have l: "length (take lr (drop 4 d)) = lr" "length (drop (4 + lr + 2) d) = ls" using assms(6,9) by auto
  have w: "word_of_nat (4 + lr + ls) = d ! 1" "word_of_nat lr = d ! 3" "word_of_nat ls = d ! (4 + lr + 1)"
    using assms(3,5,8,9) by (intro word_of_small; linarith)+
  show ?thesis
    unfolding derSignatureOf_def l w using e assms(2,4,7) by simp
qed

lemma der_parts:
  assumes "length r \<le> 33" "length s \<le> 33"
  shows "length (derSignatureOf r s) = 6 + length r + length s"
    and "derSignatureOf r s ! 0 = 0x30" "derSignatureOf r s ! 2 = 0x02"
    and "unat (derSignatureOf r s ! 1) = 4 + length r + length s"
    and "unat (derSignatureOf r s ! 3) = length r"
    and "derSignatureOf r s ! (4 + length r) = 0x02"
    and "unat (derSignatureOf r s ! (4 + length r + 1)) = length s"
    and "take (length r) (drop 4 (derSignatureOf r s)) = r"
    and "drop (4 + length r + 2) (derSignatureOf r s) = s"
proof -
  have n: "4 + length r + length s < 256" "length r < 256" "length s < 256" using assms by linarith+
  show "length (derSignatureOf r s) = 6 + length r + length s"
    "derSignatureOf r s ! 0 = 0x30" "derSignatureOf r s ! 2 = 0x02"
    by (simp_all add: derSignatureOf_def)
  show "unat (derSignatureOf r s ! 1) = 4 + length r + length s"
    unfolding derSignatureOf_def by (simp del: of_nat_add of_nat_numeral add: unat_small n(1))
  show "unat (derSignatureOf r s ! 3) = length r"
    by (simp add: derSignatureOf_def unat_small n)
  show "derSignatureOf r s ! (4 + length r) = 0x02"
    by (simp add: derSignatureOf_def nth_append)
  show "unat (derSignatureOf r s ! (4 + length r + 1)) = length s"
    by (simp add: derSignatureOf_def nth_append unat_small n)
  show "take (length r) (drop 4 (derSignatureOf r s)) = r" by (simp add: derSignatureOf_def)
  obtain h where "derSignatureOf r s = h @ s" "length h = 4 + length r + 2"
    by (simp add: derSignatureOf_def del: append_Cons append_assoc add: append_Cons [symmetric] append_assoc [symmetric])
  then show "drop (4 + length r + 2) (derSignatureOf r s) = s" by simp
qed

lemma order_bound: "P256_ORDER < 2 ^ 256"
  by (simp add: P256_ORDER_def)

lemma toBytes32_order: "n < P256_ORDER \<Longrightarrow> toBytes32 n = bigEndian 32 n"
  using order_bound by (intro toBytes32_bigEndian) linarith

lemma lowForm_order: "1 \<le> s \<Longrightarrow> s < P256_ORDER \<Longrightarrow> 1 \<le> lowForm s \<and> lowForm s < P256_ORDER"
  by (auto simp: lowForm_def)

text \<open>
  C18. A DER signature is accepted exactly when it is the short-form encoding of two integers of 1 to
  33 content bytes whose values lie between 1 and the curve order; the result is then the
  64 bytes of \<open>r\<close> and of the low form of \<open>s\<close>, each as a 32-byte big-endian number.
\<close>

theorem compactSignature_exact:
  "compactSignature d = Inr out \<longleftrightarrow>
     (\<exists>r s. d = derSignatureOf r s \<and> r \<noteq> [] \<and> length r \<le> 33 \<and> s \<noteq> [] \<and> length s \<le> 33 \<and>
        1 \<le> beNat r \<and> beNat r < P256_ORDER \<and> 1 \<le> beNat s \<and> beNat s < P256_ORDER \<and>
        out = bigEndian 32 (beNat r) @ bigEndian 32 (lowForm (beNat s)))"
  (is "_ \<longleftrightarrow> ?exists")
proof
  assume "compactSignature d = Inr out"
  then show ?exists
  proof -
    let ?r = "take (unat (d ! 3)) (drop 4 d)" and ?s = "drop (4 + unat (d ! 3) + 2) d"
    have c: "8 \<le> length d" "d ! 0 = 0x30" "unat (d ! 1) = length d - 2" "d ! 2 = 0x02"
      "1 \<le> unat (d ! 3)" "unat (d ! 3) \<le> 33" "4 + unat (d ! 3) + 2 \<le> length d"
      "d ! (4 + unat (d ! 3)) = 0x02" "1 \<le> unat (d ! (4 + unat (d ! 3) + 1))"
      "unat (d ! (4 + unat (d ! 3) + 1)) \<le> 33"
      "4 + unat (d ! 3) + 2 + unat (d ! (4 + unat (d ! 3) + 1)) = length d"
      and v: "1 \<le> beNat ?r" "beNat ?r < P256_ORDER" "1 \<le> beNat ?s" "beNat ?s < P256_ORDER"
      and o: "out = toBytes32 (beNat ?r) @ toBytes32 (lowForm (beNat ?s))"
      using \<open>compactSignature d = Inr out\<close>
      unfolding compactSignature_def Let_def lowForm_def
      by (simp_all split: if_splits)
    have "d = derSignatureOf ?r ?s"
      by (rule der_shape [OF c(1-4) refl c(7,8) refl c(11)])
    moreover have "length ?r = unat (d ! 3)" "length ?s = unat (d ! (4 + unat (d ! 3) + 1))"
      using c(7,11) by auto
    moreover have "out = bigEndian 32 (beNat ?r) @ bigEndian 32 (lowForm (beNat ?s))"
      using o v lowForm_order [OF v(3,4)] by (simp add: toBytes32_order)
    ultimately show ?thesis
      using c v by (intro exI [of _ ?r] exI [of _ ?s]) (metis list.size(3) not_one_le_zero)
  qed
next
  assume ?exists
  then obtain r s where d: "d = derSignatureOf r s" and rs: "r \<noteq> []" "length r \<le> 33" "s \<noteq> []" "length s \<le> 33"
    and v: "1 \<le> beNat r" "beNat r < P256_ORDER" "1 \<le> beNat s" "beNat s < P256_ORDER"
    and o: "out = bigEndian 32 (beNat r) @ bigEndian 32 (lowForm (beNat s))" by blast
  have l: "1 \<le> length r" "1 \<le> length s" using rs by (simp_all add: Suc_le_eq)
  then have "8 \<le> length d" "unat (d ! 1) < 0x80" "unat (d ! 1) = length d - 2"
    "length d = 4 + length r + 2 + length s"
    using der_parts(1,4) [OF rs(2,4)] rs unfolding d by auto
  moreover have "out = toBytes32 (beNat r) @ toBytes32 (lowForm (beNat s))"
    using o v lowForm_order [OF v(3,4)] by (simp add: toBytes32_order)
  ultimately show "compactSignature d = Inr out"
    using l rs v der_parts(2,3,5-9) [OF rs(2,4), folded d]
    by (simp add: compactSignature_def Let_def lowForm_def not_less)
qed

section \<open>The public key of a registration\<close>

text \<open>WebCrypto: whether a raw P-256 key imports, and the raw key an SPKI key exports to.\<close>

record subtle_crypto =
  scImportRaw :: "buffer \<Rightarrow> bool"
  scSpkiToRaw :: "buffer \<Rightarrow> buffer option"

definition looksRaw :: "buffer \<Rightarrow> bool" where
  "looksRaw b \<longleftrightarrow> length b = SECP256R1_PUBLIC_KEY_SIZE \<and> b ! 0 = UNCOMPRESSED_PUBKEY_PREFIX"

definition validateRawKey :: "subtle_crypto option \<Rightarrow> buffer \<Rightarrow> buffer result" where
  "validateRawKey subtle candidate =
     (if \<not> looksRaw candidate
      then Inl (JsError ''WebAuthn public key is not an uncompressed P-256 key'')
      else (case subtle of
          None \<Rightarrow> Inl (JsError ''WebCrypto is required to validate a WebAuthn public key'')
        | Some c \<Rightarrow> if scImportRaw c candidate then Inr candidate
            else Inl (JsError ''WebAuthn public key is not a valid P-256 curve point'')))"

text \<open>
  The rejection of the final \<^verbatim>\<open>validateRawKey\<close> is returned, not awaited, so the surrounding
  \<^verbatim>\<open>catch\<close> does not replace its error.
\<close>

definition extractPublicKeyFromAttestation :: "sdk \<Rightarrow> subtle_crypto option \<Rightarrow> string option \<Rightarrow> buffer result" where
  "extractPublicKeyFromAttestation K subtle publicKey =
     (if \<not> truthy publicKey
      then Inl (JsError ''WebAuthn registration did not provide a public key'')
      else let encodedPublicKey = base64urlToBuffer K (the publicKey) in
      if looksRaw encodedPublicKey then validateRawKey subtle encodedPublicKey
      else (case subtle of
          None \<Rightarrow> Inl (JsError ''WebCrypto is required to decode a WebAuthn public key'')
        | Some c \<Rightarrow> (case scSpkiToRaw c encodedPublicKey of
            None \<Rightarrow> Inl (JsError ''Could not extract a valid P-256 public key from WebAuthn registration'')
          | Some rawKey \<Rightarrow> validateRawKey subtle rawKey)))"

text \<open>
  A public key taken from a registration is 65 bytes, uncompressed and accepted by WebCrypto as a
  point of P-256, whatever the authenticator returned.
\<close>

theorem extracted_key_is_validated:
  assumes "extractPublicKeyFromAttestation K subtle pk = Inr key"
  shows "\<exists>c. subtle = Some c \<and> length key = 65 \<and> key ! 0 = 0x04 \<and> scImportRaw c key"
  using assms
  by (auto simp: extractPublicKeyFromAttestation_def validateRawKey_def looksRaw_def Let_def
      SECP256R1_PUBLIC_KEY_SIZE_def UNCOMPRESSED_PUBKEY_PREFIX_def split: if_splits option.splits)

section \<open>Registration and authentication\<close>

record registration =
  rgId :: string
  rgPublicKey :: "string option"
  rgTransports :: "string list option"

record assertion =
  asId :: string
  asSignature :: string
  asAuthenticatorData :: string
  asClientData :: string

text \<open>The options of a ceremony that the code chooses itself.\<close>

record registration_options =
  roChallenge :: string
  roRpId :: "string option"
  roRpName :: string
  roUserId :: string
  roDisplayName :: string
  roResidentKey :: string
  roUserVerification :: string
  roAttachment :: "string option"
  roAlgorithm :: int

record authentication_options =
  aoChallenge :: string
  aoRpId :: "string option"
  aoUserVerification :: string
  aoAllowed :: "string list option"

record webauthn_deps =
  waRpId :: "string option"
  waRpName :: string
  waSubtle :: "subtle_crypto option"
  waRegister :: "effect list \<Rightarrow> registration_options \<Rightarrow> registration result"
  waAuthenticate :: "effect list \<Rightarrow> authentication_options \<Rightarrow> assertion result"

text \<open>Thirty-two random bytes as text.\<close>

definition generateChallenge :: "sdk \<Rightarrow> buffer \<Rightarrow> string" where
  "generateChallenge K bytes = base64urlEncode K bytes"

record passkey =
  pkResponse :: registration
  pkCredentialId :: string
  pkPublicKey :: buffer

text \<open>\<open>nowText\<close> is the local time text, \<open>unique\<close> the clock and random part of the user id.\<close>

definition createPasskey ::
    "sdk \<Rightarrow> webauthn_deps \<Rightarrow> buffer \<Rightarrow> string \<Rightarrow> string \<Rightarrow> string \<Rightarrow> string \<Rightarrow>
     string option \<Rightarrow> string option \<Rightarrow> passkey act" where
  "createPasskey K D random nowText unique appName userName attachment residentKey =
     (let displayName = userName @ '' '' @ emDash @ '' '' @ nowText;
          options = \<lparr>roChallenge = generateChallenge K random, roRpId = waRpId D,
            roRpName = (if appName \<noteq> [] then appName else waRpName D),
            roUserId = base64urlEncode K (utf8 (userName @ '':'' @ unique)),
            roDisplayName = displayName,
            roResidentKey = (case residentKey of Some r \<Rightarrow> r | None \<Rightarrow> ''preferred''),
            roUserVerification = ''required'', roAttachment = attachment, roAlgorithm = - 7\<rparr> in
      bindA (requestA (FxPasskey (roChallenge options)) (\<lambda>t. waRegister D t options)) (\<lambda>rawResponse.
      bindA (liftA (extractPublicKeyFromAttestation K (waSubtle D) (rgPublicKey rawResponse))) (\<lambda>publicKey.
        returnA \<lparr>pkResponse = rawResponse, pkCredentialId = rgId rawResponse, pkPublicKey = publicKey\<rparr>)))"

definition authenticatePasskey :: "sdk \<Rightarrow> webauthn_deps \<Rightarrow> buffer \<Rightarrow> (string \<times> assertion) act" where
  "authenticatePasskey K D random =
     (let options = \<lparr>aoChallenge = generateChallenge K random, aoRpId = waRpId D,
            aoUserVerification = ''required'', aoAllowed = None\<rparr> in
      bindA (requestA (FxPasskey (aoChallenge options)) (\<lambda>t. waAuthenticate D t options)) (\<lambda>rawResponse.
        returnA (asId rawResponse, rawResponse)))"

section \<open>Signing an entry with a passkey\<close>

record passkey_sign_options =
  psCredentialId :: "string option"
  psExpiration :: "jsnum option"
  psRuleIds :: "nat list option"
  psSigner :: "signer_object option"
  psMutation :: "host_function option"
  psScheme :: "string option"

text \<open>
  What the kit passes in: the ceremony, the upgrade policy, the current ledger plus the configured
  lifetime, the reader of a context rule, and the digest scheme of the connected wallet's code.
\<close>

record passkey_sign_deps =
  pdWebAuthn :: webauthn_deps
  pdPolicy :: upgrade_policy
  pdExpiration :: "nat act"
  pdReadRule :: "nat \<Rightarrow> context_rule act"
  pdScheme :: "string \<Rightarrow> string act"

definition requireWallet :: "string act" where
  "requireWallet w = (case wContractId w of
     Some c \<Rightarrow> if c \<noteq> [] \<and> wWallet w \<noteq> None then (Inr c, w) else (Inl (WalletNotConnectedError None), w)
   | None \<Rightarrow> (Inl (WalletNotConnectedError None), w))"

text \<open>A promise settled to its outcome; \<^verbatim>\<open>Promise.all\<close> starts both and throws the first failure.\<close>

definition settle :: "'a act \<Rightarrow> 'a result act" where
  "settle m w = (case m w of (r, w') \<Rightarrow> (Inr r, w'))"

definition bothA :: "'a act \<Rightarrow> 'b act \<Rightarrow> ('a \<times> 'b) act" where
  "bothA m n = bindA (settle m) (\<lambda>r. bindA (settle n) (\<lambda>s.
     liftA (bindE r (\<lambda>x. bindE s (\<lambda>y. Inr (x, y))))))"

definition chooseExpiration :: "nat act \<Rightarrow> jsnum option \<Rightarrow> nat \<Rightarrow> jsnum act" where
  "chooseExpiration calculateExpiration requested existing = (case requested of
     Some x \<Rightarrow> returnA x
   | None \<Rightarrow> if existing = 0 then bindA calculateExpiration (\<lambda>n. returnA (Fin (of_nat n)))
             else returnA (Fin (of_nat existing)))"

definition signatureDataOf :: "sdk \<Rightarrow> assertion \<Rightarrow> webauthn_sig_data result" where
  "signatureDataOf K a = bindE (compactSignature (base64urlToBuffer K (asSignature a))) (\<lambda>compacted.
     Inr \<lparr>wsAuthenticatorData = base64urlToBuffer K (asAuthenticatorData a),
       wsClientData = base64urlToBuffer K (asClientData a), wsSignature = compacted\<rparr>)"

text \<open>From the choice of signer and scheme on: the digest, the ceremony, the new payload.\<close>

definition signWithPasskey ::
    "sdk \<Rightarrow> services \<Rightarrow> string \<Rightarrow> passkey_sign_deps \<Rightarrow> passkey_sign_options \<Rightarrow> auth_entry \<Rightarrow> nat \<Rightarrow>
     auth_payload \<Rightarrow> string \<Rightarrow> string \<Rightarrow> nat list \<Rightarrow> auth_entry act" where
  "signWithPasskey K S networkPassphrase D options entry expiration authPayload contractId key contextRuleIds =
     bindA (bothA
        (case psSigner options of Some so \<Rightarrow> returnA so
         | None \<Rightarrow> bindA (findWebAuthnSignerInRules K (pdReadRule D) contextRuleIds contextRuleIds
               (base64urlToBuffer K key)) (\<lambda>s. returnA (Caller 0, s)))
        (case psScheme options of Some scheme \<Rightarrow> returnA scheme | None \<Rightarrow> pdScheme D contractId)) (\<lambda>(signer, scheme).
     bindA (liftA (computeEntryAuthDigest K networkPassphrase entry (Fin (of_nat expiration))
         contextRuleIds scheme)) (\<lambda>(normalizedEntry, digest).
       let request = \<lparr>aoChallenge = base64urlEncode K (edAuthDigest digest), aoRpId = waRpId (pdWebAuthn D),
             aoUserVerification = ''required'', aoAllowed = Some [key]\<rparr> in
     bindA (requestA (FxPasskey (aoChallenge request)) (\<lambda>t. waAuthenticate (pdWebAuthn D) t request)) (\<lambda>response.
     bindA (liftA (signatureDataOf K response)) (\<lambda>signatureData.
     bindA (liftA (writeAuthPayload K (upsertAuthPayloadSigner (authPayload\<lparr>apRuleIds := contextRuleIds\<rparr>) signer
         (buildWebAuthnSignatureBytes K signatureData)))) (\<lambda>signature.
     bindA (askA (\<lambda>w. svNow S (wTrace w))) (\<lambda>now.
     bindA (storageUpdate key (noUpdate\<lparr>upLastUsedAt := Some (Some now)\<rparr>)) (\<lambda>_.
       returnA (setSignature signature normalizedEntry))))))))"

definition signAuthEntry ::
    "sdk \<Rightarrow> services \<Rightarrow> string \<Rightarrow> passkey_sign_deps \<Rightarrow> auth_entry \<Rightarrow> passkey_sign_options \<Rightarrow> auth_entry act" where
  "signAuthEntry K S networkPassphrase D entry options =
     bindA (case aeCredentials entry of
        CredWithDelegates c d \<Rightarrow> throwA (JsError
          ''ADDRESS_WITH_DELEGATES auth entries are not supported by WebAuthn signing yet'')
      | cs \<Rightarrow> liftA (getAddressCredentials cs)) (\<lambda>credentials.
     bindA requireWallet (\<lambda>contractId.
     bindA (liftA (getAuthEntryAddress K entry)) (\<lambda>address.
       if address \<noteq> contractId
       then throwA (invalidInput ''The authorization entry is not for the connected smart account'')
       else
     bindA (liftA (assertWalletMutationIntent K entry contractId (psMutation options) (Some (pdPolicy D)))) (\<lambda>_.
     bindA (chooseExpiration (pdExpiration D) (psExpiration options) (acExpiration credentials)) (\<lambda>requestedExpiration.
     bindA (liftA (normalizeSignatureExpirationLedger requestedExpiration)) (\<lambda>expiration.
     bindA (liftA (readAuthPayload K (acSignature credentials))) (\<lambda>authPayload.
     bindA (askA (\<lambda>w. case psCredentialId options of Some k \<Rightarrow> Some k | None \<Rightarrow> wCredentialId w)) (\<lambda>credentialId.
       if \<not> truthy credentialId
       then throwA (JsError ''A credential ID is required to sign smart account auth entries'')
       else let contextRuleIds = items (psRuleIds options) in
       if contextRuleIds = []
       then throwA (JsError ''contextRuleIds are required from the caller to sign smart account auth entries'')
       else if apRuleIds authPayload \<noteq> [] \<and> joinIds (apRuleIds authPayload) \<noteq> joinIds contextRuleIds
       then throwA (JsError ''Existing auth payload uses different context rule IDs'')
       else signWithPasskey K S networkPassphrase D options (setExpiration expiration entry) expiration
         authPayload contractId (the credentialId) contextRuleIds))))))))"

section \<open>What a passkey signs\<close>

lemma expiration_twice [simp]: "setExpiration n (setExpiration n e) = setExpiration n e"
  by (cases "aeCredentials e") (simp_all add: setExpiration_def)

lemma digest_of_expiration:
  assumes "computeEntryAuthDigest K net e (Fin (of_nat n)) ids scheme = Inr (setExpiration n e, d)"
  shows "computeEntryAuthDigest K net (setExpiration n e) (Fin (of_nat n)) ids scheme = Inr (setExpiration n e, d)"
proof -
  obtain m where "normalizeSignatureExpirationLedger (Fin (of_nat n)) = Inr m"
    using computeEntryAuthDigest_ok [OF assms] by blast
  with normalize_nat have "normalizeSignatureExpirationLedger (Fin (of_nat n)) = Inr n" by blast
  then have "buildSignaturePayload K net (setExpiration n e) (Fin (of_nat n)) = buildSignaturePayload K net e (Fin (of_nat n))"
    by (cases "aeCredentials e")
      (simp_all add: buildSignaturePayload_def buildSignaturePreimage_def setExpiration_def)
  with assms show ?thesis by (simp add: computeEntryAuthDigest_def)
qed

lemma requireWallet_ok:
  "requireWallet w = (Inr c, w') \<longleftrightarrow> w' = w \<and> wContractId w = Some c \<and> c \<noteq> [] \<and> wWallet w \<noteq> None"
  by (auto simp: requireWallet_def split: option.splits)

lemma signWithPasskey_ok:
  assumes "signWithPasskey K S net D options e n p cid key ids w = (Inr out, w')"
  obtains so scheme e' digest a d v t where
    "computeEntryAuthDigest K net e (Fin (of_nat n)) ids scheme = Inr (e', digest)"
    "waAuthenticate (pdWebAuthn D) t \<lparr>aoChallenge = base64urlEncode K (edAuthDigest digest),
       aoRpId = waRpId (pdWebAuthn D), aoUserVerification = ''required'', aoAllowed = Some [key]\<rparr> = Inr a"
    "signatureDataOf K a = Inr d"
    "writeAuthPayload K (upsertAuthPayloadSigner (p\<lparr>apRuleIds := ids\<rparr>) so (buildWebAuthnSignatureBytes K d)) = Inr v"
    "out = setSignature v e'"
    "wTrace w' = t @ [FxPasskey (base64urlEncode K (edAuthDigest digest))]"
proof -
  show ?thesis
    using assms unfolding signWithPasskey_def Let_def
    by (elim bindA_Inr [THEN iffD1, elim_format] exE conjE)
      (auto simp: bindA_Inr run_simps storageUpdate_def split: prod.splits intro!: that)
qed

lemma signAuthEntry_ok:
  assumes run: "signAuthEntry K S net D e options w = (Inr out, w')"
    and c: "getAddressCredentials (aeCredentials e) = Inr c" and p: "readAuthPayload K (acSignature c) = Inr p"
  obtains wallet n key w1 where
    "wContractId w = Some wallet" "getAuthEntryAddress K e = Inr wallet"
    "assertWalletMutationIntent K e wallet (psMutation options) (Some (pdPolicy D)) = Inr ()"
    "apRuleIds p \<noteq> [] \<longrightarrow> apRuleIds p = items (psRuleIds options)" "items (psRuleIds options) \<noteq> []"
    "signWithPasskey K S net D options (setExpiration n e) n p wallet key (items (psRuleIds options)) w1 =
       (Inr out, w')"
proof -
  have cs: "aeCredentials e = CredAddress c \<or> aeCredentials e = CredAddressV2 c"
    using run c by (cases "aeCredentials e") (auto simp: signAuthEntry_def bindA_Inr run_simps)
  have "signAuthEntry K S net D e options w = (Inr out, w') \<Longrightarrow> thesis"
    using cs p
    by (elim disjE)
      (auto simp: signAuthEntry_def Let_def bindA_Inr run_simps requireWallet_ok joinIds_inj split: if_splits
        intro: that)
  with run show ?thesis by blast
qed


section \<open>Witnesses\<close>

lemma extracted_key_is_validated_witness:
  "\<exists>c. c = \<lparr>scImportRaw = (\<lambda>b. True), scSpkiToRaw = (\<lambda>b. None)\<rparr> \<and>
     length (utf8 (CHR 0x04 # replicate 64 CHR ''x'')) = 65 \<and> scImportRaw c (utf8 (CHR 0x04 # replicate 64 CHR ''x''))"
proof -
  let ?c = "\<lparr>scImportRaw = (\<lambda>b. True), scSpkiToRaw = (\<lambda>b. None)\<rparr>"
    and ?t = "CHR 0x04 # replicate 64 CHR ''x''"
  have "extractPublicKeyFromAttestation demoSdk (Some ?c) (Some ?t) = Inr (utf8 ?t)"
    by (simp add: extractPublicKeyFromAttestation_def truthy_def validateRawKey_def looksRaw_def
        SECP256R1_PUBLIC_KEY_SIZE_def UNCOMPRESSED_PUBKEY_PREFIX_def demoSdk_def utf8_def charByte_def)
  from extracted_key_is_validated [OF this] show ?thesis by auto
qed

definition demoAssertion :: assertion where
  "demoAssertion = \<lparr>asId = ''k'', asSignature = fromUtf8 [0x30, 6, 2, 1, 1, 2, 1, 1],
     asAuthenticatorData = ''a'', asClientData = ''c''\<rparr>"

definition demoPasskeys :: passkey_sign_deps where
  "demoPasskeys = \<lparr>pdWebAuthn = \<lparr>waRpId = None, waRpName = ''kit'', waSubtle = None,
       waRegister = (\<lambda>t x. Inl (JsError ''none'')), waAuthenticate = (\<lambda>t x. Inr demoAssertion)\<rparr>,
     pdPolicy = \<lparr>acceptedWasmHashes = [], authDigestSchemes = []\<rparr>, pdExpiration = returnA 50,
     pdReadRule = (\<lambda>n. throwA (JsError ''none'')), pdScheme = (\<lambda>c. returnA ''legacy-concat'')\<rparr>"

definition demoPasskeyOptions :: passkey_sign_options where
  "demoPasskeyOptions = \<lparr>psCredentialId = Some ''k'', psExpiration = Some (Fin 100), psRuleIds = Some [3],
     psSigner = Some (Caller 0, External ''Cv'' [2]), psMutation = None, psScheme = Some ''legacy-concat''\<rparr>"

lemma demo_assertion: "\<exists>d. signatureDataOf demoSdk demoAssertion = Inr d"
proof -
  have "compactSignature [0x30, 6, 2, 1, 1, 2, 1, 1] = Inr (toBytes32 1 @ toBytes32 1)"
    by (simp add: compactSignature_def beNat_def P256_ORDER_def)
  moreover have "base64urlToBuffer demoSdk (asSignature demoAssertion) = [0x30, 6, 2, 1, 1, 2, 1, 1]"
    by (simp add: demoSdk_def demoAssertion_def)
  ultimately show ?thesis by (simp add: signatureDataOf_def)
qed

lemma demo_passkey_signs:
  "\<exists>out w'. signAuthEntry demoSdk demoServices ''net'' demoPasskeys demoTransfer demoPasskeyOptions demoWorld =
     (Inr out, w')"
proof -
  obtain g where g: "computeEntryAuthDigest demoSdk ''net'' demoTransfer (Fin 100) [3] ''legacy-concat'' =
      Inr (setExpiration 100 demoTransfer, g)" using demo_digest by blast
  obtain d where d: "signatureDataOf demoSdk demoAssertion = Inr d" using demo_assertion by blast
  obtain c where c: "aeCredentials demoTransfer = CredAddress c" "acSignature c = ScvVoid" by (simp add: demoTransfer_def)
  have i: "assertWalletMutationIntent demoSdk demoTransfer ''CW'' None pol = Inr ()" for pol
    by (simp add: demoTransfer_def scAddressToString_def demo_strkeys assertWalletMutationIntent_def
        mutationHere_def bindE_def)
  have g2: "computeEntryAuthDigest demoSdk ''net'' (setExpiration 100 demoTransfer) (Fin 100) [3] ''legacy-concat'' =
      Inr (setExpiration 100 demoTransfer, g)"
    using digest_of_expiration [of demoSdk "''net''" demoTransfer 100 "[3]"] g by simp
  have w: "wContractId demoWorld = Some ''CW''" "wWallet demoWorld = Some ''CW''"
    by (simp_all add: demoWorld_def demoWallet_def)
  have s: "\<exists>out w'. signWithPasskey demoSdk demoServices ''net'' demoPasskeys demoPasskeyOptions
      (setExpiration 100 demoTransfer) 100 emptyAuthPayload ''CW'' ''k'' [3] demoWorld = (Inr out, w')"
    using g2 d demo_verifier
    by (simp add: signWithPasskey_def bothA_def settle_def bindA_def run_simps demoPasskeyOptions_def demoPasskeys_def
        demoServices_def storageUpdate_def writeAuthPayload_def writeSignerEntry_def signerToScVal_def
        addressFromString_def emptyAuthPayload_def upsertAuthPayloadSigner_def)
  then show ?thesis
    using demo_steps(1) w i
    by (simp add: signAuthEntry_def Let_def c bindA_def run_simps requireWallet_def demoPasskeyOptions_def
        chooseExpiration_def normalizeSignatureExpirationLedger_def U32_MAX_def readAuthPayload_def emptyAuthPayload_def
        truthy_def)
qed


end
