(* ===== verification/Kit_Provenance.thy ===== *)
theory Kit_Provenance
  imports Kit_WebAuthn
begin

text \<open>
  \<^verbatim>\<open>src/kit/wallet-provenance.ts\<close>: the verification of a wallet's birth against the transaction
  that created it, and of a fresh passkey assertion under a public key. Transaction history,
  JSON parsing and WebCrypto are parameters.
\<close>

definition P256_PUBLIC_KEY_SIZE :: nat where "P256_PUBLIC_KEY_SIZE = 65"
definition AUTHENTICATOR_DATA_MIN_SIZE :: nat where "AUTHENTICATOR_DATA_MIN_SIZE = 37"
definition USER_PRESENT_FLAG :: byte where "USER_PRESENT_FLAG = 0x01"
definition USER_VERIFIED_FLAG :: byte where "USER_VERIFIED_FLAG = 0x04"

unbundle bit_operations_syntax

text \<open>\<^verbatim>\<open>bytesEqual\<close>: the accumulated differences of two buffers of one length are zero.\<close>

definition bytesEqual :: "buffer \<Rightarrow> buffer \<Rightarrow> bool" where
  "bytesEqual left right =
     (if length left \<noteq> length right then False
      else foldl (\<lambda>diff (l, r). diff OR (l XOR r)) 0 (zip left right) = 0)"

section \<open>Wallet birth\<close>

definition contractIdFromCreateV2 :: "sdk \<Rightarrow> string \<Rightarrow> create_args \<Rightarrow> string option" where
  "contractIdFromCreateV2 K networkPassphrase create = (case caPreimage create of
     FromAddress deployer salt \<Rightarrow> Some (encodeContract K (hash K (contractIdToXDR K
       (hash K (utf8 networkPassphrase)) (FromAddress deployer salt))))
   | FromAsset b \<Rightarrow> None)"

definition constructorArgsHash :: "sdk \<Rightarrow> scval list \<Rightarrow> string" where
  "constructorArgsHash K args = toHex (hash K (scvalToXDR K (ScvVec (Some args))))"

datatype birth_failure =
    InvalidCandidate | TransactionNotFound | TransactionFailed | TransactionHashMismatch
  | LedgerMismatch | ContractNotCreated | AmbiguousCreation | DeployerMismatch | SaltMismatch
  | WasmMismatch | WasmNotAccepted | ConstructorMismatch

record wallet_candidate =
  wcContractId :: string
  wcBirthWasmHash :: string
  wcCreationTx :: string
  wcCreationLedger :: jsnum

record wallet_birth =
  wbContractId :: string
  wbBirthWasmHash :: string
  wbCreationTx :: string
  wbCreationLedger :: jsnum
  wbArgsHash :: string
  wbSigner :: signer

datatype birth_result = BirthOk wallet_birth | BirthFailed birth_failure string

text \<open>
  The history service: an entry with its success flag, hash, ledger and parsed envelope (\<open>None\<close>
  where the envelope does not parse), or a 404 answer.
\<close>

datatype history_answer = HistoryTx bool string nat "(buffer \<times> transaction) option" | HistoryMissing

record birth_deps =
  bdHistory :: "(effect list \<Rightarrow> string \<Rightarrow> history_answer result) option"
  bdAcceptedWasm :: "string list"
  bdVerifier :: string
  bdDeployer :: "string option"
  bdSalt :: "buffer option"
  bdArgsHash :: "string option"
  bdPolicies :: "policy_config list option"

definition expectedPoliciesScVal :: "sdk \<Rightarrow> (buffer \<Rightarrow> scval option) \<Rightarrow> policy_config list \<Rightarrow> scval result" where
  "expectedPoliciesScVal K decode policies =
     bindE (buildConstructorPolicies K decode policies) (\<lambda>m.
     bindE (mapE (\<lambda>(address, v). bindE (addressFromString K address) (\<lambda>a. Inr (ScvAddress a, v))) m) (\<lambda>entries.
       Inr (ScvMap (Some (sortBy (entryCompare K) entries)))))"

definition constructorMismatch :: "string \<Rightarrow> birth_result" where
  "constructorMismatch detail = BirthFailed ConstructorMismatch detail"

text \<open>The constructor's signer and the hash of its arguments, or the failure to report.\<close>

definition checkPolicies ::
    "sdk \<Rightarrow> (buffer \<Rightarrow> scval option) \<Rightarrow> birth_deps \<Rightarrow> create_args \<Rightarrow> string \<Rightarrow> birth_result option result" where
  "checkPolicies K decode D create argsHash =
     (let given = bdArgsHash D;
          expectedArgsHash = (if truthy given then normalizeHashHex (the given) else None) in
      if truthy given \<and> expectedArgsHash = None
      then Inr (Some (constructorMismatch ''the expected constructor hash is malformed''))
      else (case expectedArgsHash of
          Some expected \<Rightarrow>
            if argsHash \<noteq> expected
            then Inr (Some (constructorMismatch
              ''the immutable constructor arguments do not match the locally approved deployment''))
            else Inr None
        | None \<Rightarrow>
            bindE (expectedPoliciesScVal K decode (items (bdPolicies D))) (\<lambda>expectedPolicies.
              if \<not> bytesEqual (scvalToXDR K (caConstructorArgs create ! 1)) (scvalToXDR K expectedPolicies)
              then Inr (Some (constructorMismatch
                ''the immutable constructor policies do not match the expected policy configuration''))
              else Inr None)))"

definition birthSigner :: "signer \<Rightarrow> string \<Rightarrow> bool" where
  "birthSigner s verifier = (case s of
     External v keyData \<Rightarrow> v = verifier \<and> P256_PUBLIC_KEY_SIZE < length keyData \<and> keyData ! 0 = 0x04
   | Delegated a \<Rightarrow> False)"

definition validateConstructor ::
    "sdk \<Rightarrow> (buffer \<Rightarrow> scval option) \<Rightarrow> create_args \<Rightarrow> birth_deps \<Rightarrow> (birth_result + signer \<times> string) result" where
  "validateConstructor K decode create D =
     (let args = caConstructorArgs create; argsHash = constructorArgsHash K args in
      (case args of
         [ScvVec signers, policies] \<Rightarrow>
           (case items signers of
              [v] \<Rightarrow>
                (case parseSignerScVal K v of
                   Inl e \<Rightarrow> Inr (Inl (constructorMismatch ''the initial signer cannot be decoded''))
                 | Inr s \<Rightarrow>
                     if \<not> birthSigner s (bdVerifier D)
                     then Inr (Inl (constructorMismatch
                       ''the initial signer is not one valid WebAuthn signer for the configured verifier''))
                     else bindE (checkPolicies K decode D create argsHash) (\<lambda>failure.
                       (case failure of
                          Some f \<Rightarrow> Inr (Inl f)
                        | None \<Rightarrow> Inr (Inr (s, argsHash)))))
            | _ \<Rightarrow> Inr (Inl (constructorMismatch
                ''the wallet constructor must contain exactly one initial signer'')))
       | _ \<Rightarrow> Inr (Inl (constructorMismatch
           ''the wallet constructor must contain one signer vector and one policy map''))))"

text \<open>Where the creation transaction is found: its ledger and envelope, or the failure.\<close>

definition isSafeInteger :: "jsnum \<Rightarrow> bool" where
  "isSafeInteger x = (case x of Fin q \<Rightarrow> of_int \<lfloor>q\<rfloor> = q \<and> \<bar>q\<bar> \<le> 2 ^ 53 - 1 | _ \<Rightarrow> False)"

definition creationFromHistory :: "string \<Rightarrow> history_answer \<Rightarrow> birth_result + nat \<times> (buffer \<times> transaction) option" where
  "creationFromHistory txHash answer = (case answer of
     HistoryMissing \<Rightarrow> Inl (BirthFailed TransactionNotFound
       ''the creation transaction is unavailable from RPC and history'')
   | HistoryTx successful h ledger envelope \<Rightarrow>
       if \<not> successful
       then Inl (BirthFailed TransactionFailed ''the historical creation transaction failed'')
       else if toLower h \<noteq> txHash
       then Inl (BirthFailed TransactionHashMismatch ''the history response returned a different transaction hash'')
       else Inr (ledger, envelope))"

definition findCreation ::
    "services \<Rightarrow> birth_deps \<Rightarrow> string \<Rightarrow> (birth_result + nat \<times> (buffer \<times> transaction) option) act" where
  "findCreation S D txHash =
     bindA (requestA (FxRpcGetTransaction txHash) (\<lambda>t. svRpcGetTransaction S t txHash)) (\<lambda>response.
       (case response of
          GotTransaction ledger h tx \<Rightarrow> returnA (Inr (ledger, Some (h, tx)))
        | FailedTransaction \<Rightarrow> returnA (Inl (BirthFailed TransactionFailed ''the claimed creation transaction failed''))
        | NoTransaction \<Rightarrow>
            (case bdHistory D of
               None \<Rightarrow> returnA (Inl (BirthFailed TransactionNotFound
                 ''the creation transaction is outside RPC retention and no history source is configured''))
             | Some history \<Rightarrow>
                 bindA (requestA (FxHistory txHash) (\<lambda>t. history t txHash)) (\<lambda>answer.
                   returnA (creationFromHistory txHash answer)))))"

definition createsOf :: "transaction \<Rightarrow> create_args list" where
  "createsOf tx = List.map_filter (\<lambda>op. case op of
     InvokeHostFunction (CreateContractV2 c) auth \<Rightarrow> Some c | _ \<Rightarrow> None) (txOps tx)"

text \<open>The checks on the single creation that was found.\<close>

definition verifyCreation ::
    "sdk \<Rightarrow> (buffer \<Rightarrow> scval option) \<Rightarrow> birth_deps \<Rightarrow> wallet_candidate \<Rightarrow> string \<Rightarrow> string \<Rightarrow> create_args \<Rightarrow> birth_result result" where
  "verifyCreation K decode D candidate claimedWasm txHash create =
     (case caPreimage create of
        FromAsset b \<Rightarrow> Inr (BirthFailed ContractNotCreated ''the wallet did not use an address preimage'')
      | FromAddress deployer salt \<Rightarrow>
     bindE (if truthy (bdDeployer D)
        then (case fromScAddress K deployer of
            None \<Rightarrow> Inl (JsError ''Unsupported address type'')
          | Some actual \<Rightarrow> Inr (actual \<noteq> the (bdDeployer D)))
        else Inr False) (\<lambda>wrongDeployer.
       if wrongDeployer then Inr (BirthFailed DeployerMismatch ''the wallet used an unexpected deployer'')
       else if (case bdSalt D of None \<Rightarrow> False | Some expected \<Rightarrow> \<not> bytesEqual salt expected)
       then Inr (BirthFailed SaltMismatch ''the wallet used an unexpected address salt'')
       else (case caExecutable create of
          ExecWasm wasm \<Rightarrow>
            let actualWasm = toHex wasm in
            if actualWasm \<noteq> claimedWasm
            then Inr (BirthFailed WasmMismatch (''birth WASM '' @ actualWasm @ '' does not equal claimed WASM '' @ claimedWasm))
            else if actualWasm \<notin> set (List.map_filter normalizeHashHex (bdAcceptedWasm D))
            then Inr (BirthFailed WasmNotAccepted (''birth WASM '' @ actualWasm @ '' is not accepted''))
            else bindE (validateConstructor K decode create D) (\<lambda>outcome. (case outcome of
                Inl failure \<Rightarrow> Inr failure
              | Inr (s, argsHash) \<Rightarrow> Inr (BirthOk \<lparr>wbContractId = wcContractId candidate,
                  wbBirthWasmHash = actualWasm, wbCreationTx = txHash,
                  wbCreationLedger = wcCreationLedger candidate, wbArgsHash = argsHash, wbSigner = s\<rparr>)))
        | _ \<Rightarrow> Inr (BirthFailed ContractNotCreated ''the wallet birth did not use WASM code''))))"

definition verifyWalletBirth ::
    "kit_env \<Rightarrow> (buffer \<Rightarrow> scval option) \<Rightarrow> birth_deps \<Rightarrow> wallet_candidate \<Rightarrow> birth_result act" where
  "verifyWalletBirth E decode D candidate =
     (case (normalizeHashHex (wcBirthWasmHash candidate), normalizeHashHex (wcCreationTx candidate)) of
        (Some claimedWasm, Some txHash) \<Rightarrow>
          if \<not> isSafeInteger (wcCreationLedger candidate) \<or> jsLess (wcCreationLedger candidate) (Fin 1)
          then returnA (BirthFailed InvalidCandidate ''wallet birth metadata is malformed'')
          else
          bindA (findCreation (keServices E) D txHash) (\<lambda>found. (case found of
             Inl failure \<Rightarrow> returnA failure
           | Inr (ledger, envelope) \<Rightarrow>
               if Fin (of_nat ledger) \<noteq> wcCreationLedger candidate
               then returnA (BirthFailed LedgerMismatch (''creation ledger '' @ decimal ledger @
                 '' does not equal claimed ledger''))
               else (case envelope of
                   None \<Rightarrow> throwA (JsError ''invalid transaction envelope'')
                 | Some (parsedHash, tx) \<Rightarrow>
                     if toHex parsedHash \<noteq> txHash
                     then returnA (BirthFailed TransactionHashMismatch
                       ''the transaction envelope does not match the claimed transaction hash'')
                     else (case filter (\<lambda>c. contractIdFromCreateV2 (keSdk E) (keNetwork E) c = Some (wcContractId candidate))
                           (createsOf tx) of
                         [] \<Rightarrow> returnA (BirthFailed ContractNotCreated
                           ''the transaction did not directly create the candidate contract'')
                       | [create] \<Rightarrow> liftA (verifyCreation (keSdk E) decode D candidate claimedWasm txHash create)
                       | _ \<Rightarrow> returnA (BirthFailed AmbiguousCreation
                           ''the transaction contains multiple matching CreateContractV2 operations'')))))
      | _ \<Rightarrow> returnA (BirthFailed InvalidCandidate ''wallet birth metadata is malformed''))"

section \<open>Fresh assertions\<close>

text \<open>
  Parsed client data: not JSON, \<^verbatim>\<open>null\<close>, or its three members (\<open>None\<close> where one is absent or not
  a string).
\<close>

datatype client_json = NotJson | NullJson | ClientJson "string option" "string option" "string option"

datatype assertion_failure =
    KeyId | ClientDataInvalid | WrongType | WrongChallenge | WrongOrigin | AuthenticatorDataShort
  | WrongRpId | UserPresence | UserVerification | BadPublicKey | BadSignature

datatype assertion_result = AssertionOk | AssertionFailed assertion_failure string

record fresh_policy =
  fpChallenge :: string
  fpCredentialId :: string
  fpRpId :: string
  fpPublicKey :: buffer
  fpOrigins :: "string list option"
  fpRequireVerification :: bool

record verify_crypto =
  vcImport :: "buffer \<Rightarrow> bool"
  vcVerify :: "buffer \<Rightarrow> buffer \<Rightarrow> buffer \<Rightarrow> bool result"

definition checkClientData :: "client_json \<Rightarrow> fresh_policy \<Rightarrow> assertion_result option result" where
  "checkClientData json policy = (case json of
     NotJson \<Rightarrow> Inr (Some (AssertionFailed ClientDataInvalid ''clientDataJSON is not valid JSON''))
   | NullJson \<Rightarrow> Inl (JsError ''Cannot read properties of null'')
   | ClientJson type challenge origin \<Rightarrow> Inr
       (if type \<noteq> Some ''webauthn.get''
        then Some (AssertionFailed WrongType ''clientDataJSON.type is not webauthn.get'')
        else if challenge \<noteq> Some (fpChallenge policy)
        then Some (AssertionFailed WrongChallenge ''the assertion challenge does not match'')
        else if items (fpOrigins policy) = []
        then Some (AssertionFailed WrongOrigin ''no allowed WebAuthn origin is configured'')
        else if (case origin of None \<Rightarrow> True | Some o' \<Rightarrow> o' \<notin> set (items (fpOrigins policy)))
        then Some (AssertionFailed WrongOrigin ''the assertion origin is not allowed'')
        else None))"

definition checkAuthenticatorData :: "sdk \<Rightarrow> buffer \<Rightarrow> fresh_policy \<Rightarrow> assertion_result option" where
  "checkAuthenticatorData K authenticatorData policy =
     (if length authenticatorData < AUTHENTICATOR_DATA_MIN_SIZE
      then Some (AssertionFailed AuthenticatorDataShort ''authenticatorData is too short'')
      else if \<not> bytesEqual (take 32 authenticatorData) (hash K (utf8 (fpRpId policy)))
      then Some (AssertionFailed WrongRpId ''authenticatorData has the wrong rpId hash'')
      else let flags = authenticatorData ! 32 in
      if flags AND USER_PRESENT_FLAG = 0
      then Some (AssertionFailed UserPresence ''the User Present flag is not set'')
      else if fpRequireVerification policy \<and> flags AND USER_VERIFIED_FLAG = 0
      then Some (AssertionFailed UserVerification ''the User Verified flag is not set'')
      else None)"

definition checkSignature ::
    "sdk \<Rightarrow> verify_crypto option \<Rightarrow> buffer \<Rightarrow> buffer \<Rightarrow> buffer \<Rightarrow> fresh_policy \<Rightarrow> assertion_result result" where
  "checkSignature K subtle derSignature authenticatorData clientDataJSON policy =
     (if length (fpPublicKey policy) \<noteq> P256_PUBLIC_KEY_SIZE \<or> fpPublicKey policy ! 0 \<noteq> 0x04
      then Inr (AssertionFailed BadPublicKey ''the public key is not an uncompressed P-256 key'')
      else (case compactSignature derSignature of
          Inl e \<Rightarrow> Inr (AssertionFailed BadSignature ''the DER signature is malformed'')
        | Inr signature \<Rightarrow>
            if length signature \<noteq> 64
            then Inr (AssertionFailed BadSignature ''the compact signature is not 64 bytes'')
            else (case subtle of
                None \<Rightarrow> Inr (AssertionFailed BadSignature ''WebCrypto is not available'')
              | Some c \<Rightarrow>
                  if \<not> vcImport c (fpPublicKey policy)
                  then Inr (AssertionFailed BadPublicKey ''WebCrypto rejected the public key'')
                  else bindE (vcVerify c (fpPublicKey policy) signature
                      (authenticatorData @ hash K clientDataJSON)) (\<lambda>valid.
                    Inr (if valid then AssertionOk
                      else AssertionFailed BadSignature ''the P-256 signature does not verify'')))))"

definition verifyFreshAssertion ::
    "sdk \<Rightarrow> (buffer \<Rightarrow> client_json) \<Rightarrow> verify_crypto option \<Rightarrow> assertion \<Rightarrow> fresh_policy \<Rightarrow> assertion_result result" where
  "verifyFreshAssertion K parseJson subtle response policy =
     (if asId response \<noteq> fpCredentialId policy
      then Inr (AssertionFailed KeyId ''the assertion credential id does not match'')
      else let clientDataJSON = base64urlToBuffer K (asClientData response);
               authenticatorData = base64urlToBuffer K (asAuthenticatorData response) in
      bindE (checkClientData (parseJson clientDataJSON) policy) (\<lambda>failure. (case failure of
          Some f \<Rightarrow> Inr f
        | None \<Rightarrow> (case checkAuthenticatorData K authenticatorData policy of
              Some f \<Rightarrow> Inr f
            | None \<Rightarrow> checkSignature K subtle (base64urlToBuffer K (asSignature response))
                authenticatorData clientDataJSON policy))))"

definition publicKeyFromExternalSigner :: "signer \<Rightarrow> buffer option" where
  "publicKeyFromExternalSigner s = (case s of
     Delegated a \<Rightarrow> None
   | External v keyData \<Rightarrow>
       if length keyData \<le> P256_PUBLIC_KEY_SIZE \<or> keyData ! 0 \<noteq> 0x04 then None
       else Some (take P256_PUBLIC_KEY_SIZE keyData))"

definition signerMatchesCredential :: "sdk \<Rightarrow> signer \<Rightarrow> string \<Rightarrow> buffer \<Rightarrow> string \<Rightarrow> bool" where
  "signerMatchesCredential K s verifierAddress publicKey credentialId = (case s of
     Delegated a \<Rightarrow> False
   | External v keyData \<Rightarrow>
       v = verifierAddress \<and> bytesEqual keyData (publicKey @ base64urlToBuffer K credentialId))"

section \<open>Comparing bytes\<close>

lemma or_zero: "(x :: byte) OR y = 0 \<longleftrightarrow> x = 0 \<and> y = 0"
  by (rule or_eq_0_iff)

lemma xor_zero: "(x :: byte) XOR y = 0 \<longleftrightarrow> x = y"
  by (metis xor.assoc xor.left_neutral xor.right_neutral xor_self_eq)

lemma fold_differences:
  "length xs = length ys \<Longrightarrow>
     foldl (\<lambda>diff (l, r). diff OR (l XOR r)) d (zip xs ys) = 0 \<longleftrightarrow> d = 0 \<and> xs = (ys :: buffer)"
  by (induction xs ys arbitrary: d rule: list_induct2) (auto simp: or_zero xor_zero)

lemma bytesEqual_iff [simp]: "bytesEqual a b \<longleftrightarrow> a = b"
  by (auto simp: bytesEqual_def fold_differences)

section \<open>What passes\<close>

lemma compact_length:
  assumes "compactSignature d = Inr out"
  shows "length out = 64"
proof -
  obtain r t where "out = toBytes32 r @ toBytes32 t" "r < P256_ORDER" "t < P256_ORDER"
    using assms unfolding compactSignature_def Let_def by (auto split: if_splits)
  then show ?thesis by (simp add: toBytes32_order)
qed

lemma checkClientData_ok:
  "checkClientData json policy = Inr None \<longleftrightarrow>
     (\<exists>origin. json = ClientJson (Some ''webauthn.get'') (Some (fpChallenge policy)) (Some origin) \<and>
        origin \<in> set (items (fpOrigins policy)))"
  by (cases json) (auto simp: checkClientData_def split: option.splits)

lemma checkAuthenticatorData_ok:
  "checkAuthenticatorData K ad policy = None \<longleftrightarrow>
     37 \<le> length ad \<and> take 32 ad = hash K (utf8 (fpRpId policy)) \<and> ad ! 32 AND 0x01 \<noteq> 0 \<and>
     \<not> (fpRequireVerification policy \<and> ad ! 32 AND 0x04 = 0)"
  by (auto simp: checkAuthenticatorData_def AUTHENTICATOR_DATA_MIN_SIZE_def USER_PRESENT_FLAG_def
      USER_VERIFIED_FLAG_def Let_def)

lemma checkSignature_ok:
  "checkSignature K subtle der ad cd policy = Inr AssertionOk \<longleftrightarrow>
     length (fpPublicKey policy) = 65 \<and> fpPublicKey policy ! 0 = 0x04 \<and>
     (\<exists>signature c. compactSignature der = Inr signature \<and> subtle = Some c \<and>
        vcImport c (fpPublicKey policy) \<and>
        vcVerify c (fpPublicKey policy) signature (ad @ hash K cd) = Inr True)"
  by (auto simp: checkSignature_def P256_PUBLIC_KEY_SIZE_def bindE_Inr compact_length
      split: sum.splits option.splits)

text \<open>
  C7. A fresh assertion is accepted exactly when it names the expected credential, its client data is a
  \<^verbatim>\<open>webauthn.get\<close> for the expected challenge and an allowed origin, its authenticator data is for
  the relying party with the user present (and verified where required), and its signature
  verifies over that data under the expected P-256 key.
\<close>

theorem fresh_assertion_exact:
  "verifyFreshAssertion K parseJson subtle a policy = Inr AssertionOk \<longleftrightarrow>
     asId a = fpCredentialId policy \<and>
     (\<exists>origin. parseJson (base64urlToBuffer K (asClientData a)) =
          ClientJson (Some ''webauthn.get'') (Some (fpChallenge policy)) (Some origin) \<and>
        origin \<in> set (items (fpOrigins policy))) \<and>
     (let ad = base64urlToBuffer K (asAuthenticatorData a) in
        37 \<le> length ad \<and> take 32 ad = hash K (utf8 (fpRpId policy)) \<and> ad ! 32 AND 0x01 \<noteq> 0 \<and>
        \<not> (fpRequireVerification policy \<and> ad ! 32 AND 0x04 = 0)) \<and>
     length (fpPublicKey policy) = 65 \<and> fpPublicKey policy ! 0 = 0x04 \<and>
     (\<exists>signature c. compactSignature (base64urlToBuffer K (asSignature a)) = Inr signature \<and> subtle = Some c \<and>
        vcImport c (fpPublicKey policy) \<and>
        vcVerify c (fpPublicKey policy) signature
          (base64urlToBuffer K (asAuthenticatorData a) @ hash K (base64urlToBuffer K (asClientData a))) = Inr True)"
proof -
  have f: "checkClientData j p \<noteq> Inr (Some AssertionOk)" for j p
    by (cases j) (auto simp: checkClientData_def)
  have g: "checkAuthenticatorData K ad p \<noteq> Some AssertionOk" for ad p
    by (auto simp: checkAuthenticatorData_def Let_def)
  let ?cd = "base64urlToBuffer K (asClientData a)" and ?ad = "base64urlToBuffer K (asAuthenticatorData a)"
  have "verifyFreshAssertion K parseJson subtle a policy = Inr AssertionOk \<longleftrightarrow>
      asId a = fpCredentialId policy \<and> checkClientData (parseJson ?cd) policy = Inr None \<and>
      checkAuthenticatorData K ?ad policy = None \<and>
      checkSignature K subtle (base64urlToBuffer K (asSignature a)) ?ad ?cd policy = Inr AssertionOk"
    using f [of "parseJson ?cd" policy] g [of ?ad policy]
    by (auto simp: verifyFreshAssertion_def Let_def bindE_Inr split: option.splits)
  then show ?thesis
    by (simp add: checkClientData_ok checkAuthenticatorData_ok checkSignature_ok Let_def)
qed

lemma checkPolicies_ok:
  assumes "sdk_xdr_ok K"
  shows "checkPolicies K decode D create h = Inr None \<longleftrightarrow>
     (if truthy (bdArgsHash D) then normalizeHashHex (the (bdArgsHash D)) = Some h
      else expectedPoliciesScVal K decode (items (bdPolicies D)) = Inr (caConstructorArgs create ! 1))"
  by (auto simp: checkPolicies_def Let_def bindE_Inr sdk_xdr_okD [OF assms] split: option.splits)

lemma checkPolicies_failure:
  "checkPolicies K decode D create h = Inr (Some f) \<Longrightarrow> \<exists>detail. f = BirthFailed ConstructorMismatch detail"
  by (auto simp: checkPolicies_def constructorMismatch_def Let_def bindE_Inr split: option.splits if_splits)

lemma validateConstructor_ok:
  assumes "sdk_xdr_ok K"
  shows "validateConstructor K decode create D = Inr (Inr (s, h)) \<longleftrightarrow>
     (\<exists>signers v policies. caConstructorArgs create = [ScvVec signers, policies] \<and> items signers = [v] \<and>
        parseSignerScVal K v = Inr s \<and> birthSigner s (bdVerifier D) \<and>
        h = constructorArgsHash K (caConstructorArgs create) \<and>
        checkPolicies K decode D create h = Inr None)"
  by (auto simp: validateConstructor_def Let_def bindE_Inr split: list.splits scval.splits sum.splits option.splits)

lemma validateConstructor_fails:
  assumes "validateConstructor K decode create D = Inr (Inl f)"
  shows "f \<noteq> BirthOk b"
  using assms checkPolicies_failure [of K decode D create "constructorArgsHash K (caConstructorArgs create)" f]
  by (auto simp: validateConstructor_def Let_def constructorMismatch_def bindE_Inr
      split: list.splits scval.splits sum.splits option.splits if_splits)

lemma verifyCreation_ok:
  assumes "verifyCreation K decode D candidate claimedWasm txHash create = Inr (BirthOk b)"
  shows "\<exists>deployer salt wasm. caPreimage create = FromAddress deployer salt \<and>
     (truthy (bdDeployer D) \<longrightarrow> fromScAddress K deployer = bdDeployer D) \<and>
     (\<forall>expected. bdSalt D = Some expected \<longrightarrow> salt = expected) \<and>
     caExecutable create = ExecWasm wasm \<and> toHex wasm = claimedWasm \<and>
     claimedWasm \<in> set (List.map_filter normalizeHashHex (bdAcceptedWasm D)) \<and>
     validateConstructor K decode create D = Inr (Inr (wbSigner b, wbArgsHash b)) \<and>
     wbContractId b = wcContractId candidate \<and> wbBirthWasmHash b = claimedWasm \<and> wbCreationTx b = txHash \<and>
     wbCreationLedger b = wcCreationLedger candidate"
proof -
  obtain deployer salt where p: "caPreimage create = FromAddress deployer salt"
    using assms by (cases "caPreimage create") (auto simp: verifyCreation_def)
  obtain wasm where x: "caExecutable create = ExecWasm wasm"
    using assms p by (cases "caExecutable create") (auto simp: verifyCreation_def bindE_Inr split: if_splits option.splits)
  have d: "truthy (bdDeployer D) \<longrightarrow> fromScAddress K deployer = bdDeployer D"
    using assms p by (cases "bdDeployer D")
      (auto simp: verifyCreation_def bindE_Inr truthy_def split: if_splits option.splits)
  obtain outcome where v: "validateConstructor K decode create D = Inr outcome"
    and r: "(case outcome of Inl failure \<Rightarrow> Inr failure
        | Inr (s, argsHash) \<Rightarrow> Inr (BirthOk \<lparr>wbContractId = wcContractId candidate,
            wbBirthWasmHash = toHex wasm, wbCreationTx = txHash,
            wbCreationLedger = wcCreationLedger candidate, wbArgsHash = argsHash, wbSigner = s\<rparr>)) =
      (Inr (BirthOk b) :: birth_result result)"
    and c: "\<forall>expected. bdSalt D = Some expected \<longrightarrow> salt = expected" "toHex wasm = claimedWasm"
      "claimedWasm \<in> set (List.map_filter normalizeHashHex (bdAcceptedWasm D))"
    using assms p x by (auto simp: verifyCreation_def bindE_Inr Let_def split: if_splits option.splits)
  from r v validateConstructor_fails [of K decode create D] obtain s h where "outcome = Inr (s, h)"
    by (cases outcome) auto
  with r v p x d c show ?thesis by auto
qed

lemma creationFromHistory_cases:
  "creationFromHistory txHash answer = Inr (ledger, envelope) \<longleftrightarrow>
     (\<exists>given. answer = HistoryTx True given ledger envelope \<and> toLower given = txHash)"
  "creationFromHistory txHash answer \<noteq> Inl (BirthOk b)"
  by (cases answer; auto simp: creationFromHistory_def)+

lemma findCreation_cases:
  assumes "findCreation S D txHash w = (Inr found, w')"
  obtains (network) ledger h tx where "svRpcGetTransaction S (wTrace w) txHash = Inr (GotTransaction ledger h tx)"
      "found = Inr (ledger, Some (h, tx))"
    | (history) history t answer where "bdHistory D = Some history" "history t txHash = Inr answer"
      "creationFromHistory txHash answer = found"
    | (failed) reason detail where "found = Inl (BirthFailed reason detail)"
proof -
  obtain response where r: "svRpcGetTransaction S (wTrace w) txHash = Inr response"
    using assms by (auto simp: findCreation_def bindA_Inr run_simps)
  show ?thesis
  proof (cases response)
    case NoTransaction
    with assms r that show ?thesis
      by (cases "bdHistory D") (auto simp: findCreation_def bindA_Inr run_simps)
  next
    case GotTransaction
    with assms r network show ?thesis by (auto simp: findCreation_def bindA_Inr run_simps)
  next
    case FailedTransaction
    with assms r failed show ?thesis by (auto simp: findCreation_def bindA_Inr run_simps)
  qed
qed

lemma findCreation_ok:
  assumes "findCreation S D txHash w = (Inr (Inr (ledger, Some (h, tx))), w')"
  shows "(\<exists>t. svRpcGetTransaction S t txHash = Inr (GotTransaction ledger h tx)) \<or>
     (\<exists>history t given. bdHistory D = Some history \<and>
        history t txHash = Inr (HistoryTx True given ledger (Some (h, tx))) \<and> toLower given = txHash)"
  using assms by (cases rule: findCreation_cases) (auto simp: creationFromHistory_cases(1))

lemma findCreation_fails:
  assumes "findCreation S D txHash w = (Inr (Inl f), w')"
  shows "f \<noteq> BirthOk b"
  using assms by (cases rule: findCreation_cases) (auto simp: creationFromHistory_cases(2))

lemma verifyWalletBirth_ok:
  assumes "verifyWalletBirth E decode D candidate w = (Inr (BirthOk b), w')"
  obtains claimedWasm txHash ledger h tx create where
    "normalizeHashHex (wcBirthWasmHash candidate) = Some claimedWasm"
    "normalizeHashHex (wcCreationTx candidate) = Some txHash"
    "findCreation (keServices E) D txHash w = (Inr (Inr (ledger, Some (h, tx))), w')"
    "wcCreationLedger candidate = Fin (of_nat ledger)" "toHex h = txHash"
    "filter (\<lambda>c. contractIdFromCreateV2 (keSdk E) (keNetwork E) c = Some (wcContractId candidate)) (createsOf tx) = [create]"
    "verifyCreation (keSdk E) decode D candidate claimedWasm txHash create = Inr (BirthOk b)"
proof -
  obtain claimedWasm txHash where n: "normalizeHashHex (wcBirthWasmHash candidate) = Some claimedWasm"
    "normalizeHashHex (wcCreationTx candidate) = Some txHash"
    using assms by (auto simp: verifyWalletBirth_def run_simps split: option.splits)
  obtain found w1 where f: "findCreation (keServices E) D txHash w = (Inr found, w1)"
    using assms n by (auto simp: verifyWalletBirth_def run_simps bindA_Inr split: if_splits)
  show ?thesis
  proof (cases found)
    case (Inl failure)
    with assms n f findCreation_fails [of "keServices E" D txHash w failure w1] show ?thesis
      by (auto simp: verifyWalletBirth_def run_simps bindA_def split: if_splits)
  next
    case (Inr r)
    obtain ledger envelope where r: "r = (ledger, envelope)" by (cases r)
    have l: "wcCreationLedger candidate = Fin (of_nat ledger)"
      using assms n f Inr r by (auto simp: verifyWalletBirth_def run_simps bindA_def split: if_splits)
    obtain h tx where e: "envelope = Some (h, tx)"
      using assms n f Inr r by (auto simp: verifyWalletBirth_def run_simps bindA_def split: if_splits option.splits)
    have t: "toHex h = txHash"
      using assms n f Inr r e by (auto simp: verifyWalletBirth_def run_simps bindA_def split: if_splits)
    let ?matches = "filter (\<lambda>c. contractIdFromCreateV2 (keSdk E) (keNetwork E) c = Some (wcContractId candidate)) (createsOf tx)"
    have m: "(case ?matches of [] \<Rightarrow> returnA (BirthFailed ContractNotCreated
           ''the transaction did not directly create the candidate contract'')
         | [create] \<Rightarrow> liftA (verifyCreation (keSdk E) decode D candidate claimedWasm txHash create)
         | _ \<Rightarrow> returnA (BirthFailed AmbiguousCreation
           ''the transaction contains multiple matching CreateContractV2 operations'')) w1 = (Inr (BirthOk b), w')"
      using assms n f Inr r e t l by (auto simp: verifyWalletBirth_def run_simps bindA_def split: if_splits)
    then obtain create where c: "?matches = [create]"
      by (cases ?matches rule: remdups_adj.cases) (auto simp: run_simps)
    with m have v: "verifyCreation (keSdk E) decode D candidate claimedWasm txHash create = Inr (BirthOk b)" "w1 = w'"
      by (auto simp: run_simps)
    show ?thesis using that [OF n _ l t c v(1)] f Inr r e v(2) by simp
  qed
qed

text \<open>
  C3. A wallet birth that is accepted really happened: the claimed transaction, found on the network or
  in the history under its hash and at the claimed ledger, contains exactly one creation of the
  candidate contract. It was made by the expected deployer with the expected salt, from an
  accepted WASM hash equal to the claimed one, and its constructor names a single WebAuthn
  signer of the configured verifier (the returned one) and the approved arguments: those of the
  locally recorded hash, or exactly the expected policies.
\<close>

theorem accepted_birth_happened:
  assumes "sdk_xdr_ok (keSdk E)"
    and "verifyWalletBirth E decode D candidate w = (Inr (BirthOk b), w')"
  shows "\<exists>ledger h tx create deployer salt wasm v policies signers.
     ((\<exists>t. svRpcGetTransaction (keServices E) t (wbCreationTx b) = Inr (GotTransaction ledger h tx)) \<or>
      (\<exists>history t given. bdHistory D = Some history \<and>
         history t (wbCreationTx b) = Inr (HistoryTx True given ledger (Some (h, tx))) \<and> toLower given = wbCreationTx b)) \<and>
     normalizeHashHex (wcCreationTx candidate) = Some (wbCreationTx b) \<and> toHex h = wbCreationTx b \<and>
     wcCreationLedger candidate = Fin (of_nat ledger) \<and> wbContractId b = wcContractId candidate \<and>
     filter (\<lambda>c. contractIdFromCreateV2 (keSdk E) (keNetwork E) c = Some (wbContractId b)) (createsOf tx) = [create] \<and>
     caPreimage create = FromAddress deployer salt \<and>
     (truthy (bdDeployer D) \<longrightarrow> fromScAddress (keSdk E) deployer = bdDeployer D) \<and>
     (\<forall>expected. bdSalt D = Some expected \<longrightarrow> salt = expected) \<and>
     caExecutable create = ExecWasm wasm \<and> toHex wasm = wbBirthWasmHash b \<and>
     normalizeHashHex (wcBirthWasmHash candidate) = Some (wbBirthWasmHash b) \<and>
     wbBirthWasmHash b \<in> set (List.map_filter normalizeHashHex (bdAcceptedWasm D)) \<and>
     caConstructorArgs create = [ScvVec signers, policies] \<and> items signers = [v] \<and>
     parseSignerScVal (keSdk E) v = Inr (wbSigner b) \<and> birthSigner (wbSigner b) (bdVerifier D) \<and>
     wbArgsHash b = constructorArgsHash (keSdk E) (caConstructorArgs create) \<and>
     (if truthy (bdArgsHash D) then normalizeHashHex (the (bdArgsHash D)) = Some (wbArgsHash b)
      else expectedPoliciesScVal (keSdk E) decode (items (bdPolicies D)) = Inr policies)"
proof -
  obtain claimedWasm txHash ledger h tx create where
    n: "normalizeHashHex (wcBirthWasmHash candidate) = Some claimedWasm"
       "normalizeHashHex (wcCreationTx candidate) = Some txHash"
    and f: "findCreation (keServices E) D txHash w = (Inr (Inr (ledger, Some (h, tx))), w')"
    and l: "wcCreationLedger candidate = Fin (of_nat ledger)" "toHex h = txHash"
    and c: "filter (\<lambda>c. contractIdFromCreateV2 (keSdk E) (keNetwork E) c = Some (wcContractId candidate)) (createsOf tx) = [create]"
    and v: "verifyCreation (keSdk E) decode D candidate claimedWasm txHash create = Inr (BirthOk b)"
    by (rule verifyWalletBirth_ok [OF assms(2)])
  obtain deployer salt wasm where d: "caPreimage create = FromAddress deployer salt"
    "truthy (bdDeployer D) \<longrightarrow> fromScAddress (keSdk E) deployer = bdDeployer D"
    "\<forall>expected. bdSalt D = Some expected \<longrightarrow> salt = expected"
    "caExecutable create = ExecWasm wasm" "toHex wasm = claimedWasm"
    "claimedWasm \<in> set (List.map_filter normalizeHashHex (bdAcceptedWasm D))"
    "wbContractId b = wcContractId candidate" "wbBirthWasmHash b = claimedWasm" "wbCreationTx b = txHash"
    and k: "validateConstructor (keSdk E) decode create D = Inr (Inr (wbSigner b, wbArgsHash b))"
    using verifyCreation_ok [OF v] by blast
  obtain signers x policies where a: "caConstructorArgs create = [ScvVec signers, policies]" "items signers = [x]"
    "parseSignerScVal (keSdk E) x = Inr (wbSigner b)" "birthSigner (wbSigner b) (bdVerifier D)"
    "wbArgsHash b = constructorArgsHash (keSdk E) (caConstructorArgs create)"
    "checkPolicies (keSdk E) decode D create (wbArgsHash b) = Inr None"
    using k by (auto simp: validateConstructor_ok [OF assms(1)])
  show ?thesis
    using findCreation_ok [OF f] n l c d a checkPolicies_ok [OF assms(1), of decode D create "wbArgsHash b"]
    by (intro exI [of _ ledger] exI [of _ h] exI [of _ tx] exI [of _ create] exI [of _ deployer] exI [of _ salt]
        exI [of _ wasm] exI [of _ x] exI [of _ policies] exI [of _ signers]) simp
qed

definition demoCreate :: create_args where
  "demoCreate = \<lparr>caPreimage = FromAddress (AddrAccount (utf8 ''A'')) [1, 2], caExecutable = ExecWasm (replicate 32 0xAB),
     caConstructorArgs = [ScvVec (Some [ScvVec (Some [ScvSymbol ''External'', ScvAddress (AddrContract (utf8 ''v'')),
       ScvBytes (replicate 66 4)])]), ScvMap (Some [])]\<rparr>"

definition demoCreation :: transaction where
  "demoCreation = \<lparr>txSource = ''GS'', txOps = [OtherOperation ''payment'',
     InvokeHostFunction (CreateContractV2 demoCreate) None], txBody = []\<rparr>"

definition demoHistory :: services where
  "demoHistory = demoServices\<lparr>svRpcGetTransaction := (\<lambda>t h. Inr (GotTransaction 5 (replicate 32 7) demoCreation))\<rparr>"

definition demoBirthDeps :: birth_deps where
  "demoBirthDeps = \<lparr>bdHistory = None, bdAcceptedWasm = [toHex (replicate 32 0xAB)], bdVerifier = ''Cv'',
     bdDeployer = Some ''GA'', bdSalt = Some [1, 2], bdArgsHash = None, bdPolicies = None\<rparr>"

definition demoCandidate :: wallet_candidate where
  "demoCandidate = \<lparr>wcContractId = CHR ''C'' # fromUtf8 (utf8 ''Test'' @ [1, 2]),
     wcBirthWasmHash = toHex (replicate 32 0xAB), wcCreationTx = toHex (replicate 32 7), wcCreationLedger = Fin 5\<rparr>"

lemma demo_birth:
  "\<exists>b w'. verifyWalletBirth (demoEnv\<lparr>keServices := demoHistory\<rparr>) (\<lambda>b. None) demoBirthDeps demoCandidate demoWorld =
     (Inr (BirthOk b), w')"
proof -
  have n: "normalizeHashHex (toHex (replicate 32 0xAB)) = Some (toHex (replicate 32 0xAB))"
    "normalizeHashHex (toHex (replicate 32 7)) = Some (toHex (replicate 32 7))"
    by (simp_all add: normalizeHashHex_toHex)
  have l: "isSafeInteger (Fin 5)" "\<not> jsLess (Fin 5) (Fin 1)"
    by (simp_all add: isSafeInteger_def)
  have c: "filter (\<lambda>c. contractIdFromCreateV2 demoSdk ''Test'' c = Some (wcContractId demoCandidate))
      (createsOf demoCreation) = [demoCreate]"
    by (simp add: createsOf_def demoCreation_def demoCandidate_def contractIdFromCreateV2_def demoCreate_def
        demoSdk_def List.map_filter_def)
  have p: "parseSignerScVal demoSdk (ScvVec (Some [ScvSymbol ''External'', ScvAddress (AddrContract (utf8 ''v'')),
      ScvBytes (replicate 66 4)])) = Inr (External ''Cv'' (replicate 66 4))"
    by (simp add: parseSignerScVal_def parseSignerItems_def scAddressToString_def demoSdk_def demoStrkey_def bindE_def)
  have e: "expectedPoliciesScVal demoSdk (\<lambda>b. None) [] = Inr (ScvMap (Some []))"
    by (simp add: expectedPoliciesScVal_def buildConstructorPolicies_def sortPolicyMap_def bindE_def)
  have v: "validateConstructor demoSdk (\<lambda>b. None) demoCreate demoBirthDeps = Inr (Inr (External ''Cv'' (replicate 66 4),
      constructorArgsHash demoSdk (caConstructorArgs demoCreate)))"
    using p e by (simp add: validateConstructor_def Let_def demoCreate_def demoBirthDeps_def birthSigner_def
        P256_PUBLIC_KEY_SIZE_def checkPolicies_def truthy_def bindE_def)
  have x: "caPreimage demoCreate = FromAddress (AddrAccount (utf8 ''A'')) [1, 2]" "caExecutable demoCreate = ExecWasm (replicate 32 0xAB)"
    "fromScAddress demoSdk (AddrAccount (utf8 ''A'')) = Some ''GA''"
    by (simp_all add: demoCreate_def demoSdk_def demoStrkey_def)
  have "\<exists>b. verifyCreation demoSdk (\<lambda>b. None) demoBirthDeps demoCandidate (toHex (replicate 32 0xAB))
      (toHex (replicate 32 7)) demoCreate = Inr (BirthOk b)"
    using v n x by (simp add: verifyCreation_def demoBirthDeps_def truthy_def bindE_def Let_def List.map_filter_def
       )
  with n l c show ?thesis
    by (simp add: verifyWalletBirth_def findCreation_def demoHistory_def demoEnv_def bindA_def run_simps
        demoCandidate_def)
qed

lemma accepted_birth_happened_witness:
  "\<exists>b w' ledger h tx. verifyWalletBirth (demoEnv\<lparr>keServices := demoHistory\<rparr>) (\<lambda>b. None) demoBirthDeps demoCandidate
       demoWorld = (Inr (BirthOk b), w') \<and> toHex h = wbCreationTx b \<and>
     (\<exists>t. svRpcGetTransaction demoHistory t (wbCreationTx b) = Inr (GotTransaction ledger h tx)) \<and>
     birthSigner (wbSigner b) ''Cv''"
proof -
  obtain b w' where r: "verifyWalletBirth (demoEnv\<lparr>keServices := demoHistory\<rparr>) (\<lambda>b. None) demoBirthDeps demoCandidate
      demoWorld = (Inr (BirthOk b), w')" using demo_birth by blast
  have k: "sdk_xdr_ok (keSdk (demoEnv\<lparr>keServices := demoHistory\<rparr>))" by (simp add: demoEnv_def demoSdk_xdr)
  have d: "bdHistory demoBirthDeps = None" "bdVerifier demoBirthDeps = ''Cv''" by (simp_all add: demoBirthDeps_def)
  show ?thesis using accepted_birth_happened [OF k r] r d by auto
qed

end
