(* ===== verification/Kit_Deploy.thy ===== *)
theory Kit_Deploy
  imports Kit_Provenance
begin

text \<open>
  \<^verbatim>\<open>src/kit/deploy-ops.ts\<close>: building a wallet deployment, its birth facts, its submission through
  the relayer or RPC, and what the credential store records of the outcome. The contract client
  that assembles the deployment, the deployer's signature and random bytes are parameters.
\<close>

section \<open>Deployments\<close>

text \<open>
  A deployment is either an assembled transaction of a custom deployer, or a host function with
  its signed authorization for a relayer (\<^verbatim>\<open>AuthEntryDeployment\<close>).
\<close>

datatype deploy_tx = DeployAssembled assembled | DeployAuthEntry host_function "auth_entry list"

definition isAuthEntryDeployment :: "deploy_tx \<Rightarrow> bool" where
  "isAuthEntryDeployment d = (case d of DeployAuthEntry f a \<Rightarrow> True | DeployAssembled t \<Rightarrow> False)"

definition deployFunction :: "deploy_tx \<Rightarrow> host_function option" where
  "deployFunction d = (case d of
     DeployAuthEntry func auth \<Rightarrow> Some func
   | DeployAssembled t \<Rightarrow> (case atBuilt t of
       None \<Rightarrow> None
     | Some built \<Rightarrow> (case txOps built of [InvokeHostFunction func auth] \<Rightarrow> Some func | _ \<Rightarrow> None)))"

text \<open>\<^verbatim>\<open>DeploymentBirthDescriptor\<close>: the birth WASM hash and the hash of the constructor arguments.\<close>

definition describeDeploymentBirth :: "sdk \<Rightarrow> deploy_tx \<Rightarrow> (string \<times> string) result" where
  "describeDeploymentBirth K d = (case deployFunction d of
     Some (CreateContractV2 create) \<Rightarrow> (case caExecutable create of
         ExecWasm wasm \<Rightarrow> Inr (toHex wasm, constructorArgsHash K (caConstructorArgs create))
       | _ \<Rightarrow> Inl (SubmissionError ''Deployment does not create a WASM contract'' None))
   | _ \<Rightarrow> Inl (SubmissionError ''Deployment does not contain one CreateContractV2 operation'' None))"

definition deploymentCreateArgs :: "deploy_tx \<Rightarrow> create_args result" where
  "deploymentCreateArgs d = (case deployFunction d of
     Some (CreateContractV2 create) \<Rightarrow> Inr create
   | _ \<Rightarrow> Inl (SubmissionError ''Deployment does not contain CreateContractV2'' None))"

section \<open>Confirmation\<close>

text \<open>The creations of a transaction equal to the expected one, by their encodings.\<close>

definition matchingCreates :: "sdk \<Rightarrow> create_args \<Rightarrow> transaction \<Rightarrow> create_args list" where
  "matchingCreates K expected tx = filter (\<lambda>c. createToXDR K c = createToXDR K expected) (createsOf tx)"

definition confirmSubmittedDeployment ::
    "kit_env \<Rightarrow> deploy_tx \<Rightarrow> string \<Rightarrow> nat option \<Rightarrow> nat act" where
  "confirmSubmittedDeployment E d transactionHash ledger =
     bindA (requestA (FxRpcGetTransaction transactionHash)
         (\<lambda>t. svRpcGetTransaction (keServices E) t transactionHash)) (\<lambda>response.
       (case response of
          GotTransaction responseLedger parsedHash tx \<Rightarrow>
            if ledger \<noteq> None \<and> ledger \<noteq> Some responseLedger
            then throwA (SubmissionError
              ''The confirmed deployment transaction is unavailable or has the wrong ledger'' (Some transactionHash))
            else if toHex parsedHash \<noteq> toLower transactionHash
            then throwA (SubmissionError
              ''The confirmed deployment envelope has the wrong transaction hash'' (Some transactionHash))
            else bindA (liftA (deploymentCreateArgs d)) (\<lambda>expected.
              if length (matchingCreates (keSdk E) expected tx) \<noteq> 1
              then throwA (SubmissionError
                ''The confirmed transaction does not contain the expected wallet deployment'' (Some transactionHash))
              else returnA responseLedger)
        | _ \<Rightarrow> throwA (SubmissionError
            ''The confirmed deployment transaction is unavailable or has the wrong ledger'' (Some transactionHash))))"

definition requireCreationLedger :: "nat option \<Rightarrow> nat result" where
  "requireCreationLedger value = (case value of
     Some n \<Rightarrow> if n < 1 \<or> 2 ^ 53 - 1 < n
       then Inl (SubmissionError ''The confirmed deployment did not return a valid creation ledger'' None)
       else Inr n
   | None \<Rightarrow> Inl (SubmissionError ''The confirmed deployment did not return a valid creation ledger'' None))"

text \<open>
  \<^verbatim>\<open>prepareDeploymentArtifacts\<close>: the relayer payload, or the signed transaction. The signer mutates
  the assembled transaction, so the deployment it leaves is returned too.
\<close>

datatype deploy_artifacts = SignedArtifact transaction | RelayerArtifact host_function "auth_entry list"

definition prepareDeploymentArtifacts ::
    "deploy_tx \<Rightarrow> (assembled \<Rightarrow> assembled act) \<Rightarrow> (deploy_artifacts \<times> deploy_tx) act" where
  "prepareDeploymentArtifacts d signWithDeployer = (case d of
     DeployAuthEntry func auth \<Rightarrow> returnA (RelayerArtifact func auth, d)
   | DeployAssembled t \<Rightarrow> bindA (signWithDeployer t) (\<lambda>t'. (case atSigned t' of
         None \<Rightarrow> throwA (JsError ''Failed to sign deployment transaction'')
       | Some tx \<Rightarrow> returnA (SignedArtifact tx, DeployAssembled t'))))"

definition sharedDeployerFeeError :: "string \<Rightarrow> kit_error" where
  "sharedDeployerFeeError deployerPublicKey = SubmissionError
     (''Refusing to source a smart-account deployment from the shared default deployer '' @ deployerPublicKey @
      ''. It is sign-only: it may sign the deploy authorization entry, but must never provide the transaction '' @
      ''sequence or fees. Configure a `relayerUrl`, or set a dedicated `deployerSecret` you control.'') None"

text \<open>The status the network reports: \<open>None\<close> where there is none yet.\<close>

definition transactionConfirmationError :: "poll_response option \<Rightarrow> string option \<Rightarrow> kit_error" where
  "transactionConfirmationError status h = (case status of
     Some (PollFailed r) \<Rightarrow> TransactionConfirmationError StatusFailed h ''Transaction failed on-chain''
   | _ \<Rightarrow> TransactionConfirmationError StatusPending h ''Transaction confirmation timed out'')"

section \<open>Submission\<close>

record deploy_deps =
  ddShared :: bool
  ddConfirm :: "(deploy_tx \<Rightarrow> string \<Rightarrow> nat option \<Rightarrow> nat act) option"
  ddTxHash :: "transaction \<Rightarrow> buffer"

definition sendDeploymentTxViaRpc :: "services \<Rightarrow> (transaction \<Rightarrow> buffer) \<Rightarrow> assembled \<Rightarrow> (string \<times> nat option) act" where
  "sendDeploymentTxViaRpc S txHash t =
     bindA (requestA (FxDeploySend (atSigned t)) (\<lambda>tr. svDeploySend S tr (atSigned t))) (\<lambda>sent.
       (case sent of
          StillPending \<Rightarrow> throwA (transactionConfirmationError (Some PollNotFound)
            (map_option (\<lambda>tx. toHex (txHash tx)) (atSigned t)))
        | SentTx h response \<Rightarrow>
            if \<not> truthy h then throwA (JsError ''Transaction submission returned no hash'')
            else (case response of
                Some (PollSuccess ledger) \<Rightarrow> returnA (the h, ledger)
              | _ \<Rightarrow> throwA (transactionConfirmationError response h))))"

text \<open>
  The submission proper: the hash, and the ledger where the route already waited for it (the RPC
  route does; a relayed transaction is polled afterwards).
\<close>

definition relayed :: "relayer_response \<Rightarrow> (string \<times> nat option option) act" where
  "relayed r = (if truthy (rrHash r) then returnA (the (rrHash r), None)
     else throwA (JsError ''Relayer submission returned no transaction hash''))"

definition relayerFailure :: "relayer_response \<Rightarrow> kit_error" where
  "relayerFailure r = JsError (orElseS (rrError r) ''Relayer submission failed'')"

definition submitRoute ::
    "services \<Rightarrow> deploy_deps \<Rightarrow> deploy_tx \<Rightarrow> submission_method option \<Rightarrow> (string \<times> nat option option) act" where
  "submitRoute S D d forceMethod = (case d of
     DeployAuthEntry func auth \<Rightarrow>
       bindA (requestA (FxRelayerSend func auth) (\<lambda>t. svRelayerSend S t func auth)) (\<lambda>r.
         if rrSuccess r then relayed r else throwA (relayerFailure r))
   | DeployAssembled t \<Rightarrow>
       let viaRpc = bindA (sendDeploymentTxViaRpc S (ddTxHash D) t) (\<lambda>(h, ledger). returnA (h, Some ledger)) in
       (case atSigned t of
          Some tx \<Rightarrow>
            if getSubmissionMethod (svRelayer S) forceMethod = ViaRelayer \<and> svRelayer S
            then bindA (requestA (FxRelayerSendXdr tx) (\<lambda>tr. svRelayerSendXdr S tr tx)) (\<lambda>r.
              if rrSuccess r then relayed r
              else if forceMethod = Some ViaRelayer then throwA (relayerFailure r) else viaRpc)
            else viaRpc
        | None \<Rightarrow> viaRpc))"

definition awaitLedger :: "services \<Rightarrow> string \<Rightarrow> nat option option \<Rightarrow> nat option act" where
  "awaitLedger S h known = (case known of
     Some ledger \<Rightarrow> returnA ledger
   | None \<Rightarrow> bindA (requestA (FxRpcPoll h) (\<lambda>t. svRpcPoll S t h)) (\<lambda>response.
       (case response of
          PollSuccess ledger \<Rightarrow> returnA ledger
        | _ \<Rightarrow> throwA (transactionConfirmationError (Some response) (Some h)))))"

definition deployedUpdate :: "string \<Rightarrow> nat \<Rightarrow> credential_update" where
  "deployedUpdate h ledger = noUpdate\<lparr>upStatus := Some (Some StatusDeployed), upError := Some None,
     upDeploymentTx := Some (Some h), upCreationTx := Some (Some h), upCreationLedger := Some (Some ledger)\<rparr>"

definition finishDeployment ::
    "kit_env \<Rightarrow> deploy_deps \<Rightarrow> deploy_tx \<Rightarrow> string \<Rightarrow> string \<Rightarrow> nat option option \<Rightarrow> tx_result act" where
  "finishDeployment E D d credentialId h known =
     bindA (awaitLedger (keServices E) h known) (\<lambda>ledger.
     bindA ((case ddConfirm D of None \<Rightarrow> confirmSubmittedDeployment E | Some f \<Rightarrow> f) d h ledger) (\<lambda>confirmedLedger.
     bindA (liftA (requireCreationLedger (Some confirmedLedger))) (\<lambda>creationLedger.
     bindA (storageUpdate credentialId (deployedUpdate h creationLedger)) (\<lambda>_.
       returnA (TxSuccess h (Some creationLedger))))))"

text \<open>The \<^verbatim>\<open>catch\<close> block: what a thrown error leaves in the store, and the result it becomes.\<close>

definition failureUpdate :: "kit_error \<Rightarrow> deployment_status option \<Rightarrow> string option \<Rightarrow> credential_update" where
  "failureUpdate err confirmation knownHash = noUpdate\<lparr>
     upStatus := Some (Some (case confirmation of Some s \<Rightarrow> s
       | None \<Rightarrow> if truthy knownHash then StatusPending else StatusFailed)),
     upError := Some (Some (errorMessage err)),
     upDeploymentTx := (if truthy knownHash then Some knownHash else None)\<rparr>"

text \<open>The status and hash a confirmation error carries, and the hash known otherwise.\<close>

definition failureFacts :: "kit_error \<Rightarrow> string option \<Rightarrow> deployment_status option \<times> string option" where
  "failureFacts err submittedHash = (case err of
     TransactionConfirmationError s h m \<Rightarrow> (Some s, if h = None then submittedHash else h)
   | _ \<Rightarrow> (None, submittedHash))"

definition deploymentFailure :: "kit_error \<Rightarrow> kit_error" where
  "deploymentFailure err = (case decodeContractError (DError err) of
     Some d \<Rightarrow> d | None \<Rightarrow> wrapError err CREDENTIAL_DEPLOYMENT_FAILED)"

definition recordFailure :: "string \<Rightarrow> string option \<Rightarrow> kit_error \<Rightarrow> tx_result act" where
  "recordFailure credentialId submittedHash err =
     (let e = deploymentFailure err; (confirmation, knownHash) = failureFacts err submittedHash in
      bindA (storageUpdate credentialId (failureUpdate e confirmation knownHash)) (\<lambda>_.
        returnA (failedTransaction e knownHash)))"

definition submitDeploymentTx ::
    "kit_env \<Rightarrow> deploy_deps \<Rightarrow> deploy_tx \<Rightarrow> string \<Rightarrow> submission_method option \<Rightarrow> tx_result act" where
  "submitDeploymentTx E D d credentialId forceMethod =
     (let S = keServices E; viaRelayer = (getSubmissionMethod (svRelayer S) forceMethod = ViaRelayer) in
      if ddShared D \<and> (\<not> isAuthEntryDeployment d \<or> \<not> viaRelayer \<or> \<not> svRelayer S)
      then throwA (sharedDeployerFeeError (keDeployer E))
      else if \<not> ddShared D \<and> isAuthEntryDeployment d
      then throwA (SubmissionError ''Auth-entry deployment is only valid for the shared default deployer'' None)
      else bindA (settle (submitRoute S D d forceMethod)) (\<lambda>outcome.
        (case outcome of
           Inl err \<Rightarrow> recordFailure credentialId None err
         | Inr (h, known) \<Rightarrow>
             bindA (settle (finishDeployment E D d credentialId h known)) (\<lambda>result.
               (case result of
                  Inl err \<Rightarrow> recordFailure credentialId (Some h) err
                | Inr r \<Rightarrow> returnA r)))))"

section \<open>Building a deployment\<close>

text \<open>
  What the generated client's \<^verbatim>\<open>deploy\<close> is called with. Only a custom deployer is passed as the
  transaction source; the shared one is only named as the deploying address.
\<close>

record deploy_args =
  daSigners :: "signer list"
  daPolicies :: "(string \<times> scval) list"
  daWasmHash :: string
  daAddress :: "string option"
  daSource :: "string option"
  daSalt :: buffer

record build_deps =
  btWasmHash :: string
  btVerifier :: string
  btShared :: bool
  btClientDeploy :: "deploy_args \<Rightarrow> assembled act"
  btRawPublicKey :: buffer
  btSign :: "buffer \<Rightarrow> buffer"
  btNonceBytes :: buffer

definition deployArgs :: "kit_env \<Rightarrow> build_deps \<Rightarrow> buffer \<Rightarrow> buffer \<Rightarrow> (string \<times> scval) list \<Rightarrow> deploy_args" where
  "deployArgs E B credentialId publicKey constructorPolicies =
     \<lparr>daSigners = [External (btVerifier B) (buildKeyData publicKey credentialId)],
      daPolicies = constructorPolicies, daWasmHash = btWasmHash B,
      daAddress = (if btShared B then Some (keDeployer E) else None),
      daSource = (if btShared B then None else Some (keDeployer E)),
      daSalt = hash (keSdk E) credentialId\<rparr>"

text \<open>The single operation, authorization entry and ledger of the simulated deployment.\<close>

definition discoveredAuthorization :: "assembled \<Rightarrow> (host_function \<times> auth_entry \<times> nat) result" where
  "discoveredAuthorization t =
     (case (deployFunction (DeployAssembled t), items (atSimAuth t), atLatestLedger t) of
        (Some func, [entry], Some latestLedger) \<Rightarrow> Inr (func, entry, latestLedger)
      | _ \<Rightarrow> Inl (SubmissionError
          ''Shared deploy simulation did not return one create-contract authorization entry'' None))"

definition wrongDeployer :: kit_error where
  "wrongDeployer = SubmissionError
     ''Shared deploy simulation returned authorization for the wrong deployer'' None"

text \<open>The entry authorizes exactly the operation's creation, from the deployer with the salt, alone.\<close>

definition checkAuthorizedCreate :: "kit_env \<Rightarrow> buffer \<Rightarrow> host_function \<Rightarrow> invocation \<Rightarrow> unit result" where
  "checkAuthorizedCreate E salt func rootInvocation =
     (case invFunction rootInvocation of
        CreateContractV2HostFn authorizedCreate \<Rightarrow>
          (case caPreimage authorizedCreate of
             FromAsset b \<Rightarrow> Inl (JsError ''fromAddress not set'')
           | FromAddress address entrySalt \<Rightarrow>
               (case func of
                  CreateContractV2 operationCreate \<Rightarrow>
                    if createToXDR (keSdk E) authorizedCreate \<noteq> createToXDR (keSdk E) operationCreate
                    then Inl wrongDeployer
                    else (case fromScAddress (keSdk E) address of
                        None \<Rightarrow> Inl (JsError ''Unsupported address type'')
                      | Some s \<Rightarrow>
                          if s \<noteq> keDeployer E \<or> entrySalt \<noteq> salt \<or> subInvocations rootInvocation \<noteq> []
                          then Inl wrongDeployer else Inr ())
                | _ \<Rightarrow> Inl wrongDeployer))
      | _ \<Rightarrow> Inl wrongDeployer)"

definition signDeployment ::
    "kit_env \<Rightarrow> build_deps \<Rightarrow> invocation \<Rightarrow> nat \<Rightarrow> auth_entry result" where
  "signDeployment E B rootInvocation latestLedger =
     (let expirationLedger = latestLedger + LEDGERS_PER_HOUR in
      bindE (addressFromString (keSdk E) (keDeployer E)) (\<lambda>address.
      bindE (buildSignaturePreimage (keSdk E) (keNetwork E)
          \<lparr>aeCredentials = createAddressCredentials \<lparr>acAddress = address,
             acNonce = randomAuthEntryNonce (btNonceBytes B), acExpiration = expirationLedger,
             acSignature = ScvVoid\<rparr>, aeRoot = rootInvocation\<rparr> (Fin (of_nat expirationLedger))) (\<lambda>(entry, preimage).
        Inr (setSignature (buildAddressSignatureScVal (btRawPublicKey B)
          (btSign B (hash (keSdk E) preimage))) entry))))"

definition buildDeployTransaction ::
    "kit_env \<Rightarrow> (buffer \<Rightarrow> scval option) \<Rightarrow> build_deps \<Rightarrow> buffer \<Rightarrow> buffer \<Rightarrow> policy_config list option \<Rightarrow> deploy_tx act" where
  "buildDeployTransaction E decode B credentialId publicKey policies =
     bindA (liftA (if items policies = [] then Inr []
       else buildConstructorPolicies (keSdk E) decode (items policies))) (\<lambda>constructorPolicies.
     bindA (btClientDeploy B (deployArgs E B credentialId publicKey constructorPolicies)) (\<lambda>deployment.
       if \<not> btShared B then returnA (DeployAssembled deployment)
       else bindA (liftA (discoveredAuthorization deployment)) (\<lambda>(func, discovered, latestLedger).
         bindA (liftA (checkAuthorizedCreate E (hash (keSdk E) credentialId) func (aeRoot discovered))) (\<lambda>_.
         bindA (liftA (signDeployment E B (aeRoot discovered) latestLedger)) (\<lambda>signedAuthEntry.
           returnA (DeployAuthEntry func [signedAuthEntry]))))))"

section \<open>What a submission leaves behind\<close>

lemma settle_Inr [act_simps]: "settle m w = (s, w') \<longleftrightarrow> (\<exists>r. s = Inr r \<and> m w = (r, w'))"
  by (auto simp: settle_def split: prod.splits)

lemma keeps_settle [keeps_rules]: "keeps f m \<Longrightarrow> keeps f (settle m)"
  by (simp add: keeps_def settle_def split: prod.splits) (metis snd_conv)

lemma onlyDoes_settle [does_rules]: "onlyDoes P m \<Longrightarrow> onlyDoes P (settle m)"
  by (simp add: onlyDoes_def settle_def split: prod.splits) (metis snd_conv)

lemma keeps_relayed [keeps_rules]: "keeps f (relayed r)"
  by (simp add: relayed_def keeps_rules)

lemma keeps_submitRoute: "keeps wStorage (submitRoute S D d forceMethod)"
  unfolding submitRoute_def Let_def sendDeploymentTxViaRpc_def
  by (cases d; auto intro!: keeps_rules split: option.splits sent_tx.splits poll_response.splits)

lemma keeps_awaitLedger [keeps_rules]: "keeps wStorage (awaitLedger S h known)"
  unfolding awaitLedger_def by (auto intro!: keeps_rules split: option.splits poll_response.splits)

lemma keeps_confirm [keeps_rules]: "keeps wStorage (confirmSubmittedDeployment E d h ledger)"
  unfolding confirmSubmittedDeployment_def by (auto intro!: keeps_rules split: get_transaction.splits)

lemma storageUpdate_run [act_simps]:
  "storageUpdate k u w = (Inr (), w\<lparr>wStorage := memUpdate k u (wStorage w)\<rparr>)"
  by (simp add: storageUpdate_def run_simps)

lemma memGet_memUpdate: "memGet k (memUpdate k u m) = map_option (applyUpdate u) (memGet k m)"
  by (simp add: memGet_def memUpdate_def update_conv split: option.splits)

lemma confirm_ok:
  assumes "confirmSubmittedDeployment E d h ledger w = (Inr n, w')"
  obtains parsedHash tx create where
    "svRpcGetTransaction (keServices E) (wTrace w) h = Inr (GotTransaction n parsedHash tx)"
    "toHex parsedHash = toLower h" "deploymentCreateArgs d = Inr create"
    "length (matchingCreates (keSdk E) create tx) = 1"
proof -
  obtain response where r: "svRpcGetTransaction (keServices E) (wTrace w) h = Inr response"
    using assms by (auto simp: confirmSubmittedDeployment_def bindA_Inr run_simps)
  then show ?thesis
    using assms that
    by (cases response) (auto simp: confirmSubmittedDeployment_def bindA_Inr run_simps split: if_splits)
qed

lemma finishDeployment_ok:
  assumes "finishDeployment E D d credentialId h known w = (Inr r, w')" "ddConfirm D = None"
  obtains n parsedHash tx create t where "r = TxSuccess h (Some n)" "1 \<le> n" "n \<le> 2 ^ 53 - 1"
    "svRpcGetTransaction (keServices E) t h = Inr (GotTransaction n parsedHash tx)"
    "toHex parsedHash = toLower h" "deploymentCreateArgs d = Inr create"
    "length (matchingCreates (keSdk E) create tx) = 1"
    "wStorage w' = memUpdate credentialId (deployedUpdate h n) (wStorage w)"
proof -
  obtain ledger w1 n w2 where a: "awaitLedger (keServices E) h known w = (Inr ledger, w1)"
    and c: "confirmSubmittedDeployment E d h ledger w1 = (Inr n, w2)"
    and n: "1 \<le> n" "n \<le> 2 ^ 53 - 1" and r: "r = TxSuccess h (Some n)"
    and w': "w' = w2\<lparr>wStorage := memUpdate credentialId (deployedUpdate h n) (wStorage w2)\<rparr>"
    using assms by (auto simp: finishDeployment_def bindA_Inr run_simps storageUpdate_run
        requireCreationLedger_def split: if_splits)
  have "wStorage w2 = wStorage w"
    using keepsD [OF keeps_awaitLedger a] keepsD [OF keeps_confirm c] by simp
  with that [OF r n] confirm_ok [OF c] w' show ?thesis by (metis (no_types, lifting) world.select_convs(1) world.surjective world.update_convs(1))
qed

lemma failureUpdate_known: "failureUpdate e c (if truthy k then k else None) = failureUpdate e c k"
  by (simp add: failureUpdate_def truthy_def split: option.splits)

lemma recordFailure_run:
  "recordFailure credentialId submitted err w =
     (Inr (failedTransaction (deploymentFailure err) (snd (failureFacts err submitted))),
      w\<lparr>wStorage := memUpdate credentialId (failureUpdate (deploymentFailure err)
        (fst (failureFacts err submitted)) (snd (failureFacts err submitted))) (wStorage w)\<rparr>)"
  by (simp add: recordFailure_def Let_def split_beta bindA_def run_simps storageUpdate_run)

definition submissionAllowed :: "kit_env \<Rightarrow> deploy_deps \<Rightarrow> deploy_tx \<Rightarrow> submission_method option \<Rightarrow> bool" where
  "submissionAllowed E D d forceMethod =
     (if ddShared D
      then isAuthEntryDeployment d \<and> getSubmissionMethod (svRelayer (keServices E)) forceMethod = ViaRelayer \<and>
        svRelayer (keServices E)
      else \<not> isAuthEntryDeployment d)"

lemma submit_refused:
  "\<not> submissionAllowed E D d forceMethod \<Longrightarrow> \<exists>m h. submitDeploymentTx E D d credentialId forceMethod w = (Inl (SubmissionError m h), w)"
  by (auto simp: submissionAllowed_def submitDeploymentTx_def Let_def run_simps sharedDeployerFeeError_def
      split: if_splits)

text \<open>An allowed submission ends in one of three ways.\<close>

lemma submit_cases:
  assumes "submissionAllowed E D d forceMethod"
  obtains (unsent) err w1 where "submitRoute (keServices E) D d forceMethod w = (Inl err, w1)"
      "submitDeploymentTx E D d credentialId forceMethod w = recordFailure credentialId None err w1"
    | (unfinished) h known w1 err w2 where "submitRoute (keServices E) D d forceMethod w = (Inr (h, known), w1)"
      "finishDeployment E D d credentialId h known w1 = (Inl err, w2)"
      "submitDeploymentTx E D d credentialId forceMethod w = recordFailure credentialId (Some h) err w2"
    | (finished) h known w1 r w2 where "submitRoute (keServices E) D d forceMethod w = (Inr (h, known), w1)"
      "finishDeployment E D d credentialId h known w1 = (Inr r, w2)"
      "submitDeploymentTx E D d credentialId forceMethod w = (Inr r, w2)"
proof -
  obtain r w1 where r: "submitRoute (keServices E) D d forceMethod w = (r, w1)"
    by (cases "submitRoute (keServices E) D d forceMethod w")
  have s: "submitDeploymentTx E D d credentialId forceMethod w = (case r of
      Inl err \<Rightarrow> recordFailure credentialId None err w1
    | Inr (h, known) \<Rightarrow> (case finishDeployment E D d credentialId h known w1 of
        (Inl err, w2) \<Rightarrow> recordFailure credentialId (Some h) err w2
      | (Inr r, w2) \<Rightarrow> (Inr r, w2)))"
    using assms r
    by (auto simp: submissionAllowed_def submitDeploymentTx_def Let_def bindA_def settle_def run_simps
        split: if_splits sum.splits prod.splits)
  show ?thesis
  proof (cases r)
    case (Inl err)
    with r s unsent show ?thesis by simp
  next
    case (Inr p)
    obtain h known where p: "p = (h, known)" by (cases p)
    obtain q w2 where q: "finishDeployment E D d credentialId h known w1 = (q, w2)"
      by (cases "finishDeployment E D d credentialId h known w1")
    show ?thesis
      using r s Inr p q unfinished finished by (cases q) simp_all
  qed
qed

lemma keeps_finish_failure:
  assumes "finishDeployment E D d credentialId h known w = (Inl err, w')" "ddConfirm D = None"
  shows "wStorage w' = wStorage w"
proof -
  have k: "keeps wStorage (bindA (awaitLedger (keServices E) h known) (\<lambda>ledger.
      bindA (confirmSubmittedDeployment E d h ledger) (\<lambda>n. liftA (requireCreationLedger (Some n)))))"
    by (intro keeps_rules)
  have "bindA (awaitLedger (keServices E) h known) (\<lambda>ledger.
      bindA (confirmSubmittedDeployment E d h ledger) (\<lambda>n. liftA (requireCreationLedger (Some n)))) w = (Inl err, w')"
    using assms by (auto simp: finishDeployment_def bindA_Inl bindA_Inr run_simps storageUpdate_run)
  from keepsD [OF k this] show ?thesis .
qed

text \<open>
  A deployment submission throws exactly when the route is not allowed: the shared deployer needs a
  relayed authorization, a dedicated one an assembled transaction. Otherwise it returns a result,
  whatever the relayer, the network or the confirmation answer or throw.
\<close>

theorem submission_returns:
  "isOk (fst (submitDeploymentTx E D d credentialId forceMethod w)) \<longleftrightarrow>
     (if ddShared D
      then isAuthEntryDeployment d \<and> getSubmissionMethod (svRelayer (keServices E)) forceMethod = ViaRelayer \<and>
        svRelayer (keServices E)
      else \<not> isAuthEntryDeployment d)"
proof (cases "submissionAllowed E D d forceMethod")
  case False
  then show ?thesis using submit_refused [OF False, of credentialId w] by (auto simp: isOk_def submissionAllowed_def)
next
  case True
  then have "isOk (fst (submitDeploymentTx E D d credentialId forceMethod w))"
    by (cases rule: submit_cases [where w = w and credentialId = credentialId])
      (simp_all add: recordFailure_run isOk_def)
  with True show ?thesis by (simp add: submissionAllowed_def)
qed

text \<open>
  C8. A deployment reported as successful was confirmed: the network holds the transaction of the
  reported hash, in the reported ledger, and it contains exactly one creation with the submitted
  arguments. The stored credential becomes deployed, with that transaction and ledger as its birth.
\<close>

theorem deployment_success_is_confirmed:
  assumes "submitDeploymentTx E D d credentialId forceMethod w = (Inr (TxSuccess h ledger), w')"
    and "ddConfirm D = None"
  shows "\<exists>n parsedHash tx create t. ledger = Some n \<and> 1 \<le> n \<and> n \<le> 2 ^ 53 - 1 \<and>
     svRpcGetTransaction (keServices E) t h = Inr (GotTransaction n parsedHash tx) \<and>
     toHex parsedHash = toLower h \<and> deploymentCreateArgs d = Inr create \<and>
     length (matchingCreates (keSdk E) create tx) = 1 \<and>
     memGet credentialId (wStorage w') = map_option (applyUpdate (deployedUpdate h n)) (memGet credentialId (wStorage w))"
proof -
  have "submissionAllowed E D d forceMethod"
    using submit_refused [of E D d forceMethod credentialId w] assms(1) by fastforce
  then show ?thesis
  proof (cases rule: submit_cases [where w = w and credentialId = credentialId])
    case (finished h' known w1 r w2)
    then have r: "r = TxSuccess h ledger" "w2 = w'" using assms(1) by simp_all
    obtain n parsedHash tx create t where f: "r = TxSuccess h' (Some n)" "1 \<le> n" "n \<le> 2 ^ 53 - 1"
      "svRpcGetTransaction (keServices E) t h' = Inr (GotTransaction n parsedHash tx)"
      "toHex parsedHash = toLower h'" "deploymentCreateArgs d = Inr create"
      "length (matchingCreates (keSdk E) create tx) = 1"
      "wStorage w2 = memUpdate credentialId (deployedUpdate h' n) (wStorage w1)"
      by (rule finishDeployment_ok [OF finished(2) assms(2)])
    have "wStorage w1 = wStorage w" using keepsD [OF keeps_submitRoute finished(1)] .
    with f r show ?thesis
      by (intro exI [of _ n] exI [of _ parsedHash] exI [of _ tx] exI [of _ create] exI [of _ t])
        (simp add: memGet_memUpdate)
  qed (use assms(1) in \<open>simp_all add: recordFailure_run failedTransaction_def\<close>)
qed

text \<open>
  A deployment reported as failed leaves the error's text on the stored credential, and the hash of
  the transaction where one is known; the birth facts and the identity of the credential are not
  touched.
\<close>

theorem failed_deployment_is_recorded:
  assumes "submitDeploymentTx E D d credentialId forceMethod w = (Inr (TxFailure e h), w')"
    and "ddConfirm D = None" "memGet credentialId (wStorage w) = Some c"
  shows "\<exists>s. memGet credentialId (wStorage w') = Some (c\<lparr>scStatus := Some s, scError := Some (errorMessage e),
       scDeploymentTx := (if h = None then scDeploymentTx c else h)\<rparr>)"
proof -
  have u: "applyUpdate (failureUpdate er confirmation k) c =
      c\<lparr>scStatus := Some (case confirmation of Some s \<Rightarrow> s | None \<Rightarrow> if truthy k then StatusPending else StatusFailed),
        scError := Some (errorMessage er), scDeploymentTx := (if truthy k then k else scDeploymentTx c)\<rparr>"
    for er confirmation k
    by (simp add: applyUpdate_def failureUpdate_def noUpdate_def override_def)
  have f: ?thesis if "recordFailure credentialId submitted err w1 = (Inr (TxFailure e h), w')" "wStorage w1 = wStorage w"
    for submitted err w1
  proof -
    define k where "k = snd (failureFacts err submitted)"
    have e: "e = deploymentFailure err" and h: "h = (if truthy k then k else None)"
      using that(1) by (auto simp: recordFailure_run failedTransaction_def k_def)
    have g: "memGet credentialId (wStorage w') = Some (applyUpdate (failureUpdate e (fst (failureFacts err submitted)) k) c)"
      using that assms(3) by (auto simp: recordFailure_run memGet_memUpdate k_def e)
    have "(if truthy k then k else scDeploymentTx c) = (if h = None then scDeploymentTx c else h)"
      by (cases k) (simp_all add: h truthy_def)
    with g show ?thesis unfolding u by (simp only:) blast
  qed
  have "submissionAllowed E D d forceMethod"
    using submit_refused [of E D d forceMethod credentialId w] assms(1) by fastforce
  then show ?thesis
  proof (cases rule: submit_cases [where w = w and credentialId = credentialId])
    case (unsent err w1)
    with assms(1) f keepsD [OF keeps_submitRoute unsent(1)] show ?thesis by metis
  next
    case (unfinished h' known w1 err w2)
    with assms(1) f keepsD [OF keeps_submitRoute unfinished(1)] keeps_finish_failure [OF unfinished(2) assms(2)]
    show ?thesis by metis
  next
    case (finished h' known w1 r w2)
    with assms(1) finishDeployment_ok [OF finished(2) assms(2)] show ?thesis by auto
  qed
qed

section \<open>The shared deployer\<close>

text \<open>What a relayed deployment does to the outside: it hands over function and authorization, and reads.\<close>

fun relayOnly :: "effect \<Rightarrow> bool" where
  "relayOnly (FxRelayerSend func auth) = True"
| "relayOnly (FxRpcPoll h) = True"
| "relayOnly (FxRpcGetTransaction h) = True"
| "relayOnly _ = False"

lemma relayOnly_relayed [does_rules]: "onlyDoes P (relayed r)"
  by (simp add: relayed_def does_rules)

lemma relayOnly_finish:
  assumes "ddConfirm D = None"
  shows "onlyDoes relayOnly (finishDeployment E D d credentialId h known)"
  unfolding finishDeployment_def awaitLedger_def confirmSubmittedDeployment_def assms option.case
  by (auto intro!: does_rules split: option.splits poll_response.splits get_transaction.splits)

lemma relayOnly_submit:
  assumes "ddShared D" "ddConfirm D = None"
  shows "onlyDoes relayOnly (submitDeploymentTx E D d credentialId forceMethod)"
  using assms relayOnly_finish [OF assms(2)]
  by (auto simp: submitDeploymentTx_def submitRoute_def recordFailure_def Let_def split_beta isAuthEntryDeployment_def
      intro!: does_rules split: deploy_tx.splits sum.splits)

text \<open>
  With the shared deployer configured, submitting a deployment never sends a transaction of its own
  and never signs one: it only hands the host function and the signed authorization to the relayer,
  polls, and reads the confirmed transaction back.
\<close>

theorem shared_deployment_is_relayed:
  assumes "ddShared D" "ddConfirm D = None"
    and "submitDeploymentTx E D d credentialId forceMethod w = (r, w')"
  shows "\<exists>es. wTrace w' = wTrace w @ es \<and> list_all relayOnly es"
  by (rule onlyDoesD [OF relayOnly_submit [OF assms(1,2)] assms(3)])

lemma checkAuthorizedCreate_ok:
  assumes "sdk_xdr_ok (keSdk E)" "checkAuthorizedCreate E salt func t = Inr u"
  obtains create address where "t = Invocation (CreateContractV2HostFn create) []" "func = CreateContractV2 create"
    "caPreimage create = FromAddress address salt" "fromScAddress (keSdk E) address = Some (keDeployer E)"
  using assms that
  by (cases t) (auto simp: checkAuthorizedCreate_def sdk_xdr_okD
      split: auth_function.splits id_preimage.splits host_function.splits if_splits option.splits)

lemma signDeployment_ok:
  assumes "signDeployment E B t latestLedger = Inr entry"
  shows "\<exists>c. aeRoot entry = t \<and> aeCredentials entry = CredAddress c \<and>
    fromStrkey (keSdk E) (keDeployer E) = Some (acAddress c) \<and> acExpiration c = latestLedger + LEDGERS_PER_HOUR"
  using assms
  by (auto simp flip: of_nat_add simp: signDeployment_def Let_def bindE_Inr addressFromString_ok createAddressCredentials_def
      buildSignaturePreimage_def normalizeSignatureExpirationLedger_def setExpiration_def setSignature_def
      split: if_splits)

lemma shared_deployment_parts:
  assumes "sdk_xdr_ok (keSdk E)" "btShared B" "buildDeployTransaction E decode B credentialId publicKey policies w = (Inr d, w')"
  obtains entries w1 w2 deployment discovered latestLedger create address entry k where
    "(if items policies = [] then Inr [] else buildConstructorPolicies (keSdk E) decode (items policies)) = Inr entries"
    "btClientDeploy B (deployArgs E B credentialId publicKey entries) w1 = (Inr deployment, w2)"
    "discoveredAuthorization deployment = Inr (CreateContractV2 create, discovered, latestLedger)"
    "d = DeployAuthEntry (CreateContractV2 create) [entry]" "aeRoot entry = Invocation (CreateContractV2HostFn create) []"
    "caPreimage create = FromAddress address (hash (keSdk E) credentialId)" "fromScAddress (keSdk E) address = Some (keDeployer E)"
    "aeCredentials entry = CredAddress k" "fromStrkey (keSdk E) (keDeployer E) = Some (acAddress k)"
    "acExpiration k = latestLedger + LEDGERS_PER_HOUR"
proof -
  obtain entries w1 w2 deployment func discovered latestLedger entry where
    e: "(if items policies = [] then Inr [] else buildConstructorPolicies (keSdk E) decode (items policies)) = Inr entries"
    and x: "btClientDeploy B (deployArgs E B credentialId publicKey entries) w1 = (Inr deployment, w2)" and f: "discoveredAuthorization deployment = Inr (func, discovered, latestLedger)"
    and c: "checkAuthorizedCreate E (hash (keSdk E) credentialId) func (aeRoot discovered) = Inr ()"
    and s: "signDeployment E B (aeRoot discovered) latestLedger = Inr entry"
    and d: "d = DeployAuthEntry func [entry]"
    using assms(2,3) by (auto simp: buildDeployTransaction_def bindA_Inr run_simps)
  obtain create address where t: "aeRoot discovered = Invocation (CreateContractV2HostFn create) []"
    "func = CreateContractV2 create" "caPreimage create = FromAddress address (hash (keSdk E) credentialId)"
    "fromScAddress (keSdk E) address = Some (keDeployer E)"
    by (rule checkAuthorizedCreate_ok [OF assms(1) c])
  obtain k where k: "aeRoot entry = aeRoot discovered" "aeCredentials entry = CredAddress k"
    "fromStrkey (keSdk E) (keDeployer E) = Some (acAddress k)" "acExpiration k = latestLedger + LEDGERS_PER_HOUR"
    using signDeployment_ok [OF s] by blast
  show thesis by (rule that [OF e x]) (use f d t k in auto)
qed

text \<open>
  What the shared deployer authorizes is one creation and nothing below it, equal to the creation
  that is submitted; the contract it creates is the address derived from the credential, and the
  authorization is the deployer's own and expires an hour of ledgers after the simulation.
\<close>

theorem shared_deployment_authorizes_creation:
  assumes "sdk_xdr_ok (keSdk E)" "sdk_strkey_ok (keSdk E)" "btShared B"
    and "buildDeployTransaction E decode B credentialId publicKey policies w = (Inr d, w')"
  shows "\<exists>create entry c contractId latestLedger deployment entries w1 w2.
     btClientDeploy B (deployArgs E B credentialId publicKey entries) w1 = (Inr deployment, w2) \<and> d = DeployAuthEntry (CreateContractV2 create) [entry] \<and>
     aeRoot entry = Invocation (CreateContractV2HostFn create) [] \<and> aeCredentials entry = CredAddress c \<and>
     fromScAddress (keSdk E) (acAddress c) = Some (keDeployer E) \<and>
     atLatestLedger deployment = Some latestLedger \<and> acExpiration c = latestLedger + LEDGERS_PER_HOUR \<and>
     deriveContractAddress (keSdk E) credentialId (keDeployer E) (keNetwork E) = Inr contractId \<and>
     contractIdFromCreateV2 (keSdk E) (keNetwork E) create = Some contractId"
proof -
  obtain entries w1 w2 deployment discovered latestLedger create address entry k where
    x: "btClientDeploy B (deployArgs E B credentialId publicKey entries) w1 = (Inr deployment, w2)"
    and f: "discoveredAuthorization deployment = Inr (CreateContractV2 create, discovered, latestLedger)"
    and d: "d = DeployAuthEntry (CreateContractV2 create) [entry]" "aeRoot entry = Invocation (CreateContractV2HostFn create) []"
    and t: "caPreimage create = FromAddress address (hash (keSdk E) credentialId)" "fromScAddress (keSdk E) address = Some (keDeployer E)"
    and k: "aeCredentials entry = CredAddress k" "fromStrkey (keSdk E) (keDeployer E) = Some (acAddress k)"
      "acExpiration k = latestLedger + LEDGERS_PER_HOUR"
    by (rule shared_deployment_parts [OF assms(1,3,4)]) blast
  have a: "acAddress k = address" using k(2) t(2) sdk_strkeyD [OF assms(2)] by (metis option.inject)
  have l: "atLatestLedger deployment = Some latestLedger"
    using f by (auto simp: discoveredAuthorization_def split: option.splits list.splits)
  show ?thesis
    using x d t k a l
    by (intro exI [of _ create] exI [of _ entry] exI [of _ k]
        exI [of _ "the (contractIdFromCreateV2 (keSdk E) (keNetwork E) create)"] exI [of _ latestLedger] exI [of _ deployment]
        exI [of _ entries] exI [of _ w1] exI [of _ w2])
      (simp add: deriveContractAddress_def contractIdFromCreateV2_def)
qed

section \<open>Witnesses\<close>

definition demoCredential :: stored_credential where
  "demoCredential = \<lparr>scCredentialId = ''k'', scPublicKey = replicate 65 4, scContractId = ''CW'', scNickname = None,
     scCreatedAt = 1, scLastUsedAt = None, scTransports = None, scDeviceType = None, scBackedUp = None,
     scContextRuleId = None, scIsPrimary = Some True, scStatus = Some StatusPending, scError = None,
     scBirthWasmHash = None, scCreationTx = None, scDeploymentTx = None, scCreationLedger = None,
     scBirthArgsHash = None, scAssociationVerified = None\<rparr>"

definition storedWorld :: "stored_credential \<Rightarrow> world" where
  "storedWorld c = demoWorld\<lparr>wStorage := \<lparr>msCredentials = [(scCredentialId c, c)], msSession = None\<rparr>\<rparr>"

definition relayEnv :: "bool \<Rightarrow> kit_env" where
  "relayEnv accepts = demoEnv\<lparr>keServices := demoServices\<lparr>svRelayer := True,
     svRelayerSend := (\<lambda>t f a. Inr \<lparr>rrSuccess = accepts, rrError = None, rrHash = Some (toHex (replicate 32 0xAA))\<rparr>),
     svRpcGetTransaction := (\<lambda>t h. Inr (GotTransaction 7 (replicate 32 0xAA) demoCreation))\<rparr>\<rparr>"

definition demoDeployDeps :: deploy_deps where
  "demoDeployDeps = \<lparr>ddShared = True, ddConfirm = None, ddTxHash = txBody\<rparr>"

definition demoDeployment :: deploy_tx where
  "demoDeployment = DeployAuthEntry (CreateContractV2 demoCreate) []"

lemma demo_creates: "createsOf demoCreation = [demoCreate]"
  by (simp add: createsOf_def demoCreation_def List.map_filter_def)

lemma demo_get: "memGet ''k'' (wStorage (storedWorld demoCredential)) = Some demoCredential"
  by (simp add: storedWorld_def memGet_def demoCredential_def)

lemma demo_deploys:
  "\<exists>w'. submitDeploymentTx (relayEnv True) demoDeployDeps demoDeployment ''k'' None (storedWorld demoCredential) =
     (Inr (TxSuccess (toHex (replicate 32 0xAA)) (Some 7)), w')"
proof -
  have "toHex (replicate 32 0xAA) \<noteq> []" by (simp add: toHex_def hexByte_def)
  then show ?thesis
    by (simp add: submitDeploymentTx_def Let_def demoDeployDeps_def demoDeployment_def isAuthEntryDeployment_def
        relayEnv_def getSubmissionMethod_def submitRoute_def relayed_def bindA_def settle_def run_simps truthy_def
        finishDeployment_def awaitLedger_def confirmSubmittedDeployment_def deploymentCreateArgs_def deployFunction_def
        matchingCreates_def demo_creates requireCreationLedger_def storageUpdate_run demoEnv_def demoServices_def
        storedWorld_def demoWorld_def toLower_hex toHex_set)
qed

lemma deployment_success_is_confirmed_witness:
  "\<exists>n w'. submitDeploymentTx (relayEnv True) demoDeployDeps demoDeployment ''k'' None (storedWorld demoCredential) =
       (Inr (TxSuccess (toHex (replicate 32 0xAA)) (Some n)), w') \<and>
     memGet ''k'' (wStorage w') = Some (applyUpdate (deployedUpdate (toHex (replicate 32 0xAA)) n) demoCredential)"
proof -
  obtain w' where r: "submitDeploymentTx (relayEnv True) demoDeployDeps demoDeployment ''k'' None
      (storedWorld demoCredential) = (Inr (TxSuccess (toHex (replicate 32 0xAA)) (Some 7)), w')" using demo_deploys by blast
  have c: "ddConfirm demoDeployDeps = None" by (simp add: demoDeployDeps_def)
  show ?thesis using deployment_success_is_confirmed [OF r c] r by (auto simp: demo_get)
qed

lemma demo_refused_by_relayer:
  "\<exists>e w'. submitDeploymentTx (relayEnv False) demoDeployDeps demoDeployment ''k'' None (storedWorld demoCredential) =
     (Inr (TxFailure e None), w')"
  by (simp add: submitDeploymentTx_def Let_def demoDeployDeps_def demoDeployment_def isAuthEntryDeployment_def
      relayEnv_def getSubmissionMethod_def submitRoute_def bindA_def settle_def run_simps relayerFailure_def
      recordFailure_run failureFacts_def failedTransaction_def truthy_def)

lemma failed_deployment_is_recorded_witness:
  "\<exists>e s w'. submitDeploymentTx (relayEnv False) demoDeployDeps demoDeployment ''k'' None (storedWorld demoCredential) =
       (Inr (TxFailure e None), w') \<and>
     memGet ''k'' (wStorage w') = Some (demoCredential\<lparr>scStatus := Some s, scError := Some (errorMessage e),
       scDeploymentTx := None\<rparr>)"
proof -
  obtain e w' where r: "submitDeploymentTx (relayEnv False) demoDeployDeps demoDeployment ''k'' None
      (storedWorld demoCredential) = (Inr (TxFailure e None), w')" using demo_refused_by_relayer by blast
  have c: "ddConfirm demoDeployDeps = None" by (simp add: demoDeployDeps_def)
  have "scDeploymentTx demoCredential = None" by (simp add: demoCredential_def)
  then show ?thesis using failed_deployment_is_recorded [OF r c demo_get] r by auto
qed

lemma shared_deployment_is_relayed_witness:
  "\<exists>r w' es. submitDeploymentTx (relayEnv True) demoDeployDeps demoDeployment ''k'' None (storedWorld demoCredential) =
     (r, w') \<and> wTrace w' = es \<and> list_all relayOnly es"
proof -
  obtain r w' where s: "submitDeploymentTx (relayEnv True) demoDeployDeps demoDeployment ''k'' None
      (storedWorld demoCredential) = (r, w')" by (metis surj_pair)
  have d: "ddShared demoDeployDeps" "ddConfirm demoDeployDeps = None" by (simp_all add: demoDeployDeps_def)
  have "wTrace (storedWorld demoCredential) = []" by (simp add: storedWorld_def demoWorld_def)
  then show ?thesis using shared_deployment_is_relayed [OF d s] s by auto
qed

definition demoBuild :: build_deps where
  "demoBuild = \<lparr>btWasmHash = ''ab'', btVerifier = ''Cv'', btShared = True,
     btClientDeploy = (\<lambda>a. let create = \<lparr>caPreimage = FromAddress (AddrAccount (utf8 ''D'')) (daSalt a),
         caExecutable = ExecWasm [1], caConstructorArgs = []\<rparr> in
       returnA \<lparr>atBuilt = Some \<lparr>txSource = ''GS'', txOps = [InvokeHostFunction (CreateContractV2 create) None], txBody = []\<rparr>,
         atSimAuth = Some [\<lparr>aeCredentials = SourceAccount, aeRoot = Invocation (CreateContractV2HostFn create) []\<rparr>],
         atLatestLedger = Some 5, atSigned = None\<rparr>),
     btRawPublicKey = [1], btSign = (\<lambda>b. b), btNonceBytes = replicate 8 1\<rparr>"

lemma demo_builds: "\<exists>d w'. buildDeployTransaction demoEnv (\<lambda>b. None) demoBuild [9] [4] None demoWorld = (Inr d, w')"
  by (simp add: buildDeployTransaction_def demoBuild_def Let_def bindA_def run_simps discoveredAuthorization_def
      deployFunction_def deployArgs_def checkAuthorizedCreate_def demoEnv_def demoSdk_def demoStrkey_def
      signDeployment_def bindE_def addressFromString_def demoFromStrkey_def buildSignaturePreimage_def
      createAddressCredentials_def normalizeSignatureExpirationLedger_def U32_MAX_def LEDGERS_PER_HOUR_def)

lemma shared_deployment_authorizes_creation_witness:
  "\<exists>create entry w'. buildDeployTransaction demoEnv (\<lambda>b. None) demoBuild [9] [4] None demoWorld =
       (Inr (DeployAuthEntry (CreateContractV2 create) [entry]), w') \<and>
     aeRoot entry = Invocation (CreateContractV2HostFn create) [] \<and>
     Some (CHR ''C'' # fromUtf8 (utf8 ''Test'' @ [9])) = contractIdFromCreateV2 demoSdk ''Test'' create"
proof -
  obtain d w' where r: "buildDeployTransaction demoEnv (\<lambda>b. None) demoBuild [9] [4] None demoWorld = (Inr d, w')"
    using demo_builds by blast
  have k: "sdk_xdr_ok (keSdk demoEnv)" "sdk_strkey_ok (keSdk demoEnv)" "btShared demoBuild" "keSdk demoEnv = demoSdk"
    "keNetwork demoEnv = ''Test''"
    by (simp_all add: demoEnv_def demoSdk_xdr demoSdk_strkey demoBuild_def)
  have "deriveContractAddress demoSdk [9] (keDeployer demoEnv) ''Test'' = Inr (CHR ''C'' # fromUtf8 (utf8 ''Test'' @ [9]))"
    by (simp add: deriveContractAddress_def demoSdk_def demoFromStrkey_def demoEnv_def)
  with shared_deployment_authorizes_creation [OF k(1-3) r] r k(4,5) show ?thesis by auto
qed

end
