(* ===== verification/Kit_Wallet.thy ===== *)
theory Kit_Wallet
  imports Kit_Deploy
begin

text \<open>
  \<^verbatim>\<open>src/kit/wallet-ops.ts\<close>: creating a wallet, connecting to one (by stored session, by credential,
  or by a fresh passkey) and disconnecting. The functions of a dependency record are parameters;
  the connection state and the credential store are parts of the world.
\<close>

section \<open>Connection state\<close>

text \<open>\<^verbatim>\<open>setConnectedState\<close> and \<^verbatim>\<open>clearConnectedState\<close> of the kit; the wallet client is its contract id.\<close>

definition setConnectedState :: "string \<Rightarrow> string \<Rightarrow> unit act" where
  "setConnectedState contractId credentialId = modifyA (\<lambda>w. w\<lparr>wContractId := Some contractId,
     wCredentialId := Some credentialId, wWallet := Some contractId\<rparr>)"

definition clearConnectedState :: "unit act" where
  "clearConnectedState = modifyA (\<lambda>w. w\<lparr>wContractId := None, wCredentialId := None, wWallet := None\<rparr>)"

definition nowA :: "services \<Rightarrow> nat act" where
  "nowA S = askA (\<lambda>w. svNow S (wTrace w))"

section \<open>Creating a wallet\<close>

record create_deps =
  cwValidatePolicies :: "unit result"
  cwCreatePasskey :: "string \<Rightarrow> string \<Rightarrow> passkey act"
  cwDateText :: "effect list \<Rightarrow> string"
  cwBuild :: "buffer \<Rightarrow> buffer \<Rightarrow> deploy_tx act"
  cwSign :: "assembled \<Rightarrow> assembled act"
  cwSubmit :: "deploy_tx \<Rightarrow> string \<Rightarrow> submission_method option \<Rightarrow> tx_result act"
  cwFund :: "string \<Rightarrow> submission_method option \<Rightarrow> tx_result act"
  cwSessionExpiryMs :: nat

record create_options =
  coNickname :: "string option"
  coAutoSubmit :: bool
  coAutoFund :: bool
  coNativeToken :: "string option"
  coForceMethod :: "submission_method option"

record created_wallet =
  cwrCredentialId :: string
  cwrPublicKey :: buffer
  cwrContractId :: string
  cwrArtifacts :: deploy_artifacts
  cwrSubmit :: "tx_result option"
  cwrFund :: "tx_result option"

definition succeeded :: "tx_result option \<Rightarrow> bool" where
  "succeeded r = (case r of Some (TxSuccess h l) \<Rightarrow> True | _ \<Rightarrow> False)"

definition pendingCredential ::
    "passkey \<Rightarrow> string \<Rightarrow> string \<Rightarrow> nat \<Rightarrow> stored_credential" where
  "pendingCredential pk contractId nickname now = \<lparr>scCredentialId = pkCredentialId pk,
     scPublicKey = pkPublicKey pk, scContractId = contractId, scNickname = Some nickname, scCreatedAt = now,
     scLastUsedAt = None, scTransports = rgTransports (pkResponse pk), scDeviceType = None, scBackedUp = None,
     scContextRuleId = None, scIsPrimary = Some True, scStatus = Some StatusPending, scError = None,
     scBirthWasmHash = None, scCreationTx = None, scDeploymentTx = None, scCreationLedger = None,
     scBirthArgsHash = None, scAssociationVerified = None\<rparr>"

definition birthUpdate :: "string \<times> string \<Rightarrow> credential_update" where
  "birthUpdate d = noUpdate\<lparr>upBirthWasmHash := Some (Some (fst d)), upBirthArgsHash := Some (Some (snd d))\<rparr>"

definition saveSession :: "services \<Rightarrow> nat \<Rightarrow> string \<Rightarrow> string \<Rightarrow> unit act" where
  "saveSession S sessionExpiryMs contractId credentialId = bindA (nowA S) (\<lambda>now.
     storageSaveSession \<lparr>ssContractId = contractId, ssCredentialId = credentialId, ssConnectedAt = now,
       ssExpiresAt = Some (now + sessionExpiryMs)\<rparr>)"

text \<open>The passkey and its pending credential, saved before anything is submitted.\<close>

definition registerCredential ::
    "kit_env \<Rightarrow> create_deps \<Rightarrow> string \<Rightarrow> string \<Rightarrow> create_options \<Rightarrow> (passkey \<times> string) act" where
  "registerCredential E D appName userName options =
     bindA (cwCreatePasskey D appName userName) (\<lambda>pk.
     bindA (liftA (deriveContractAddress (keSdk E) (base64urlToBuffer (keSdk E) (pkCredentialId pk))
         (keDeployer E) (keNetwork E))) (\<lambda>contractId.
     bindA (askA (\<lambda>w. cwDateText D (wTrace w))) (\<lambda>date.
     bindA (nowA (keServices E)) (\<lambda>now.
       let credential = pendingCredential pk contractId
         (case coNickname options of Some n \<Rightarrow> n | None \<Rightarrow> userName @ '' - '' @ date) now in
       bindA (storageSave credential) (\<lambda>_.
       bindA (emitA (CredentialCreated credential)) (\<lambda>_. returnA (pk, contractId)))))))"

definition fundNew :: "create_deps \<Rightarrow> create_options \<Rightarrow> tx_result option \<Rightarrow> tx_result option act" where
  "fundNew D options submitResult =
     (if coAutoFund options \<and> succeeded submitResult
      then if \<not> truthy (coNativeToken options)
        then returnA (Some (failedTransaction (invalidInput ''nativeTokenContract is required for autoFund'') None))
        else bindA (cwFund D (the (coNativeToken options)) (coForceMethod options)) (\<lambda>r. returnA (Some r))
      else returnA None)"

definition createWallet ::
    "kit_env \<Rightarrow> create_deps \<Rightarrow> string \<Rightarrow> string \<Rightarrow> create_options \<Rightarrow> created_wallet act" where
  "createWallet E D appName userName options =
     bindA (liftA (cwValidatePolicies D)) (\<lambda>_.
     bindA (registerCredential E D appName userName options) (\<lambda>(pk, contractId).
     bindA (cwBuild D (base64urlToBuffer (keSdk E) (pkCredentialId pk)) (pkPublicKey pk)) (\<lambda>deployTx.
     bindA (liftA (describeDeploymentBirth (keSdk E) deployTx)) (\<lambda>birth.
     bindA (storageUpdate (pkCredentialId pk) (birthUpdate birth)) (\<lambda>_.
     bindA (prepareDeploymentArtifacts deployTx (cwSign D)) (\<lambda>(artifacts, signedTx).
     bindA (if coAutoSubmit options
       then bindA (cwSubmit D signedTx (pkCredentialId pk) (coForceMethod options)) (\<lambda>r. returnA (Some r))
       else returnA None) (\<lambda>submitResult.
     bindA (if succeeded submitResult
       then bindA (setConnectedState contractId (pkCredentialId pk)) (\<lambda>_.
         bindA (emitA (WalletConnected contractId (pkCredentialId pk))) (\<lambda>_.
           saveSession (keServices E) (cwSessionExpiryMs D) contractId (pkCredentialId pk)))
       else returnA ()) (\<lambda>_.
     bindA (fundNew D options submitResult) (\<lambda>fundResult.
       returnA \<lparr>cwrCredentialId = pkCredentialId pk, cwrPublicKey = pkPublicKey pk, cwrContractId = contractId,
         cwrArtifacts = artifacts, cwrSubmit = submitResult, cwrFund = fundResult\<rparr>)))))))))"

section \<open>Connecting with a credential\<close>

text \<open>\<^verbatim>\<open>IndexedWalletCandidate\<close> and \<^verbatim>\<open>WalletCandidateLookup\<close>.\<close>

record indexed_candidate = wallet_candidate +
  icCurrentWasmHash :: string
  icDerivedAddress :: bool
  icCollision :: bool

record candidate_lookup =
  clSchema :: nat
  clComplete :: bool
  clIndexedThrough :: nat
  clCandidates :: "indexed_candidate list"

record ownership_proof =
  opResponse :: assertion
  opChallenge :: string

record connect_deps =
  cdSessionExpiryMs :: nat
  cdAcceptedWasm :: "string list"
  cdAcceptedBirth :: "string list"
  cdVerifier :: string
  cdRpId :: "string option"
  cdOrigins :: "string list option"
  cdHistory :: "(effect list \<Rightarrow> string \<Rightarrow> history_answer result) option"
  cdPolicies :: "policy_config list option"
  cdLookup :: "(string \<Rightarrow> candidate_lookup option act) option"
  cdReadRule :: "(string \<Rightarrow> nat \<Rightarrow> context_rule act) option"
  cdAuthenticate :: "(string \<Rightarrow> ownership_proof act) option"
  cdDecode :: "buffer \<Rightarrow> scval option"
  cdParseJson :: "buffer \<Rightarrow> client_json"
  cdSubtle :: "verify_crypto option"

record connect_result =
  crrCredentialId :: string
  crrContractId :: string
  crrCredential :: stored_credential

text \<open>The credential, both ids, and whether the contract id was only derived.\<close>

definition resolveTarget ::
    "kit_env \<Rightarrow> string option \<Rightarrow> string option \<Rightarrow> (stored_credential option \<times> string \<times> string \<times> bool) act" where
  "resolveTarget E credentialId contractId =
     bindA (if truthy credentialId then storageGet (the credentialId) else returnA None) (\<lambda>credential.
       let stored = (case credential of Some c \<Rightarrow> if scContractId c \<noteq> [] then Some (scContractId c) else None | None \<Rightarrow> None);
           known = (if truthy contractId then contractId else stored) in
       (case known of
          Some c \<Rightarrow>
            if truthy credentialId then returnA (credential, the credentialId, c, False)
            else throwA (JsError ''Could not determine credential ID'')
        | None \<Rightarrow>
            if truthy credentialId
            then bindA (liftA (deriveContractAddress (keSdk E) (base64urlToBuffer (keSdk E) (the credentialId))
                (keDeployer E) (keNetwork E))) (\<lambda>derived.
              if derived = [] then throwA (JsError ''Could not determine contract ID'')
              else returnA (credential, the credentialId, derived, True))
            else throwA (JsError ''Could not determine contract ID'')))"

definition readInstance :: "services \<Rightarrow> stored_credential option \<Rightarrow> string \<Rightarrow> string \<Rightarrow> executable act" where
  "readInstance S credential credentialId contractId =
     catchA (requestA (FxRpcGetContractData contractId) (\<lambda>t. svRpcGetContractData S t contractId)) (\<lambda>_.
       bindA (case credential of
           Some c \<Rightarrow> if scStatus c \<noteq> Some StatusFailed
             then storageUpdate credentialId (noUpdate\<lparr>upStatus := Some (Some StatusPending)\<rparr>)
             else returnA ()
         | None \<Rightarrow> returnA ()) (\<lambda>_.
         throwA (JsError (''Smart account contract not found on-chain for credential '' @ credentialId @
           ''. The wallet may not have been deployed yet.''))))"

definition assertAcceptedCode :: "executable \<Rightarrow> string \<Rightarrow> string list \<Rightarrow> unit result" where
  "assertAcceptedCode instance contractId accepted = (case readInstanceWasmHash instance of
     None \<Rightarrow> Inl (WalletCodeNotAcceptedError contractId ''not-a-wasm-contract'')
   | Some actual \<Rightarrow> if actual = [] then Inl (WalletCodeNotAcceptedError contractId ''not-a-wasm-contract'')
       else if actual \<notin> set accepted then Inl (WalletCodeNotAcceptedError contractId actual) else Inr ())"

definition candidateFromStoredCredential :: "stored_credential option \<Rightarrow> string \<Rightarrow> wallet_candidate option" where
  "candidateFromStoredCredential credential contractId = (case credential of
     None \<Rightarrow> None
   | Some c \<Rightarrow>
       if scContractId c \<noteq> contractId \<or> \<not> truthy (scBirthWasmHash c) \<or> \<not> truthy (scCreationTx c)
       then None
       else (case scCreationLedger c of
           None \<Rightarrow> None
         | Some ledger \<Rightarrow>
             if 2 ^ 53 - 1 < ledger \<or> ledger < 1 then None
             else Some \<lparr>wcContractId = contractId, wcBirthWasmHash = the (scBirthWasmHash c),
               wcCreationTx = the (scCreationTx c), wcCreationLedger = Fin (of_nat ledger)\<rparr>))"

definition noClaim :: "string \<Rightarrow> kit_error" where
  "noClaim contractId = WalletProvenanceError contractId
     ''The indexer did not return one complete schema-2 birth claim.''"

definition latestLedger :: "services \<Rightarrow> nat act" where
  "latestLedger S = requestA FxRpcLatestLedger (svRpcLatestLedger S)"

definition checkLookup :: "string \<Rightarrow> bool \<Rightarrow> nat \<Rightarrow> candidate_lookup option \<Rightarrow> wallet_candidate list result" where
  "checkLookup contractId usedDerived ledgerAtStart answer = (case answer of
     None \<Rightarrow> Inl (noClaim contractId)
   | Some l \<Rightarrow>
       if \<not> clComplete l \<or> clSchema l \<noteq> 2 then Inl (noClaim contractId)
       else if clIndexedThrough l < ledgerAtStart
       then Inl (WalletProvenanceError contractId (''The indexer is stale at ledger '' @ decimal (clIndexedThrough l) @
         ''; the network was at ledger '' @ decimal ledgerAtStart @ '' before lookup.''))
       else let contractIds = rev (remdups (rev (map wcContractId (clCandidates l)))) in
         if usedDerived \<and> (1 < length contractIds \<or> list_ex icCollision (clCandidates l))
         then Inl (WalletAmbiguousError contractIds)
         else Inr (map wallet_candidate.truncate (filter (\<lambda>c. wcContractId c = contractId) (clCandidates l))))"

definition findCandidate ::
    "kit_env \<Rightarrow> connect_deps \<Rightarrow> stored_credential option \<Rightarrow> string \<Rightarrow> string \<Rightarrow> bool \<Rightarrow> wallet_candidate act" where
  "findCandidate E D credential credentialId contractId usedDerived =
     bindA (case candidateFromStoredCredential credential contractId of
         Some c \<Rightarrow> returnA [c]
       | None \<Rightarrow> (case cdLookup D of
           None \<Rightarrow> throwA (noClaim contractId)
         | Some lookup \<Rightarrow>
             bindA (latestLedger (keServices E)) (\<lambda>ledgerAtStart.
             bindA (lookup credentialId) (\<lambda>answer.
               liftA (checkLookup contractId usedDerived ledgerAtStart answer))))) (\<lambda>candidates.
       (case candidates of
          [candidate] \<Rightarrow> returnA candidate
        | [] \<Rightarrow> throwA (WalletProvenanceError contractId ''No immutable birth claim matches this address.'')
        | _ \<Rightarrow> throwA (WalletProvenanceError contractId
            ''The indexer returned duplicate birth claims for this address.'')))"

definition localPrimary :: "stored_credential option \<Rightarrow> bool" where
  "localPrimary credential = (case credential of None \<Rightarrow> False
   | Some c \<Rightarrow> scIsPrimary c \<noteq> Some False \<and> scBirthArgsHash c \<noteq> None)"

definition localSecondary :: "stored_credential option \<Rightarrow> bool" where
  "localSecondary credential = (case credential of None \<Rightarrow> False
   | Some c \<Rightarrow> scIsPrimary c = Some False \<and> scAssociationVerified c = Some True \<and> scBirthArgsHash c \<noteq> None)"

definition locallyApproved :: "stored_credential option \<Rightarrow> bool" where
  "locallyApproved credential \<longleftrightarrow> localPrimary credential \<or> localSecondary credential"

definition birthDepsFor :: "kit_env \<Rightarrow> connect_deps \<Rightarrow> stored_credential option \<Rightarrow> string \<Rightarrow> birth_deps" where
  "birthDepsFor E D credential credentialId =
     (let approved = locallyApproved credential in
      \<lparr>bdHistory = cdHistory D, bdAcceptedWasm = cdAcceptedBirth D, bdVerifier = cdVerifier D,
       bdDeployer = (if approved then None else Some (keDeployer E)),
       bdSalt = (if approved then None else Some (hash (keSdk E) (base64urlToBuffer (keSdk E) credentialId))),
       bdArgsHash = (if approved then scBirthArgsHash (the credential) else None),
       bdPolicies = (if approved then None else Some (items (cdPolicies D)))\<rparr>)"

definition checkedBirth ::
    "kit_env \<Rightarrow> connect_deps \<Rightarrow> stored_credential option \<Rightarrow> string \<Rightarrow> string \<Rightarrow> wallet_candidate \<Rightarrow> wallet_birth act" where
  "checkedBirth E D credential credentialId contractId candidate =
     bindA (verifyWalletBirth E (cdDecode D) (birthDepsFor E D credential credentialId) candidate) (\<lambda>r.
       (case r of
          BirthFailed reason detail \<Rightarrow>
            throwA (WalletProvenanceError contractId (''Birth verification failed: '' @ detail))
        | BirthOk b \<Rightarrow> returnA b))"

text \<open>The public key to verify, which must be the birth signer's unless the passkey is an associated one.\<close>

definition credentialKey ::
    "kit_env \<Rightarrow> connect_deps \<Rightarrow> stored_credential option \<Rightarrow> string \<Rightarrow> wallet_birth \<Rightarrow> buffer result" where
  "credentialKey E D credential credentialId birth =
     (case (case credential of Some c \<Rightarrow> Some (scPublicKey c) | None \<Rightarrow> publicKeyFromExternalSigner (wbSigner birth)) of
        None \<Rightarrow> Inl (WalletOwnershipError ''The wallet birth does not contain a usable WebAuthn public key'')
      | Some publicKey \<Rightarrow>
          if \<not> localSecondary credential \<and>
            \<not> signerMatchesCredential (keSdk E) (wbSigner birth) (cdVerifier D) publicKey credentialId
          then Inl (WalletOwnershipError ''The passkey is not the wallet's immutable primary signer'')
          else Inr publicKey)"

definition assertLiveSigner ::
    "sdk \<Rightarrow> string \<Rightarrow> buffer \<Rightarrow> string \<Rightarrow> context_rule \<Rightarrow> nat \<Rightarrow> unit result" where
  "assertLiveSigner K verifier publicKey credentialId liveRule liveLedger =
     (if (case crValidUntil liveRule of Some n \<Rightarrow> n < liveLedger | None \<Rightarrow> False)
      then Inl (WalletOwnershipError ''The passkey signer belongs to an expired context rule'')
      else if length (filter (\<lambda>s. signerMatchesCredential K s verifier publicKey credentialId) (crSigners liveRule)) \<noteq> 1
      then Inl (WalletOwnershipError ''The passkey is not one exact live signer on the expected context rule'')
      else Inr ())"

definition expectedRuleId :: "stored_credential option \<Rightarrow> nat option" where
  "expectedRuleId credential = (if localSecondary credential then scContextRuleId (the credential) else Some 0)"

definition checkLiveSigner ::
    "kit_env \<Rightarrow> connect_deps \<Rightarrow> stored_credential option \<Rightarrow> string \<Rightarrow> string \<Rightarrow> buffer \<Rightarrow> unit act" where
  "checkLiveSigner E D credential credentialId contractId publicKey = (case cdReadRule D of
     None \<Rightarrow> throwA (WalletOwnershipError ''Current signer state is unavailable and ownership cannot be verified'')
   | Some readRule \<Rightarrow> (case expectedRuleId credential of
       None \<Rightarrow> throwA (WalletOwnershipError ''The local secondary association has no context rule id'')
     | Some ruleId \<Rightarrow>
         bindA (readRule contractId ruleId) (\<lambda>liveRule.
         bindA (latestLedger (keServices E)) (\<lambda>liveLedger.
           liftA (assertLiveSigner (keSdk E) (cdVerifier D) publicKey credentialId liveRule liveLedger)))))"

definition obtainProof ::
    "connect_deps \<Rightarrow> string \<Rightarrow> ownership_proof option \<Rightarrow> bool \<Rightarrow> ownership_proof option act" where
  "obtainProof D credentialId given allowAuthentication = (case given of
     Some p \<Rightarrow> returnA (Some p)
   | None \<Rightarrow> if allowAuthentication
       then (case cdAuthenticate D of
           None \<Rightarrow> returnA None
         | Some authenticate \<Rightarrow> bindA (authenticate credentialId) (\<lambda>p. returnA (Some p)))
       else returnA None)"

definition verifyOwnership ::
    "sdk \<Rightarrow> connect_deps \<Rightarrow> string \<Rightarrow> buffer \<Rightarrow> ownership_proof option \<Rightarrow> unit result" where
  "verifyOwnership K D credentialId publicKey ownershipProof =
     (if ownershipProof = None \<or> \<not> truthy (cdRpId D) \<or> items (cdOrigins D) = []
      then Inl (WalletOwnershipError
        ''A fresh WebAuthn assertion, rpId, and allowed origin are required for this wallet'')
      else bindE (verifyFreshAssertion K (cdParseJson D) (cdSubtle D) (opResponse (the ownershipProof))
          \<lparr>fpChallenge = opChallenge (the ownershipProof), fpCredentialId = credentialId,
           fpRpId = the (cdRpId D), fpPublicKey = publicKey, fpOrigins = cdOrigins D,
           fpRequireVerification = False\<rparr>) (\<lambda>r.
        (case r of
           AssertionOk \<Rightarrow> Inr ()
         | AssertionFailed reason detail \<Rightarrow>
             Inl (WalletOwnershipError (''Fresh WebAuthn ownership verification failed: '' @ detail)))))"

definition proveOwnership ::
    "sdk \<Rightarrow> connect_deps \<Rightarrow> stored_credential option \<Rightarrow> string \<Rightarrow> buffer \<Rightarrow> ownership_proof option \<Rightarrow> bool \<Rightarrow> unit act" where
  "proveOwnership K D credential credentialId publicKey given allowAuthentication =
     (if locallyApproved credential then returnA ()
      else bindA (obtainProof D credentialId given allowAuthentication) (\<lambda>ownershipProof.
        liftA (verifyOwnership K D credentialId publicKey ownershipProof)))"

definition newCredential :: "string \<Rightarrow> buffer \<Rightarrow> string \<Rightarrow> nat \<Rightarrow> stored_credential" where
  "newCredential credentialId publicKey contractId now = \<lparr>scCredentialId = credentialId,
     scPublicKey = publicKey, scContractId = contractId, scNickname = None, scCreatedAt = now,
     scLastUsedAt = None, scTransports = None, scDeviceType = None, scBackedUp = None, scContextRuleId = None,
     scIsPrimary = Some True, scStatus = None, scError = None, scBirthWasmHash = None, scCreationTx = None,
     scDeploymentTx = None, scCreationLedger = None, scBirthArgsHash = None, scAssociationVerified = None\<rparr>"

text \<open>A verified birth's ledger is the claimed one, a safe integer.\<close>

definition ledgerNat :: "jsnum \<Rightarrow> nat option" where
  "ledgerNat x = (case x of Fin q \<Rightarrow> if 0 \<le> q then Some (nat \<lfloor>q\<rfloor>) else None | _ \<Rightarrow> None)"

definition verifiedCredential ::
    "stored_credential \<Rightarrow> string \<Rightarrow> buffer \<Rightarrow> string \<Rightarrow> wallet_birth \<Rightarrow> stored_credential" where
  "verifiedCredential base credentialId publicKey contractId birth =
     base\<lparr>scCredentialId := credentialId, scPublicKey := publicKey, scContractId := contractId,
       scStatus := Some StatusDeployed, scError := None, scBirthWasmHash := Some (wbBirthWasmHash birth),
       scCreationTx := Some (wbCreationTx birth), scCreationLedger := ledgerNat (wbCreationLedger birth),
       scBirthArgsHash := Some (wbArgsHash birth)\<rparr>"

definition establish ::
    "kit_env \<Rightarrow> connect_deps \<Rightarrow> stored_credential option \<Rightarrow> string \<Rightarrow> buffer \<Rightarrow> string \<Rightarrow> wallet_birth \<Rightarrow> connect_result act" where
  "establish E D credential credentialId publicKey contractId birth =
     bindA (case credential of Some c \<Rightarrow> returnA c
       | None \<Rightarrow> bindA (nowA (keServices E)) (\<lambda>now. returnA (newCredential credentialId publicKey contractId now))) (\<lambda>base.
       let verified = verifiedCredential base credentialId publicKey contractId birth in
       bindA (storageSave verified) (\<lambda>_.
       bindA (setConnectedState contractId credentialId) (\<lambda>_.
       bindA (emitA (WalletConnected contractId credentialId)) (\<lambda>_.
       bindA (saveSession (keServices E) (cdSessionExpiryMs D) contractId credentialId) (\<lambda>_.
         returnA \<lparr>crrCredentialId = credentialId, crrContractId = contractId, crrCredential = verified\<rparr>)))))"

definition connectWithCredentials ::
    "kit_env \<Rightarrow> connect_deps \<Rightarrow> string option \<Rightarrow> string option \<Rightarrow> ownership_proof option \<Rightarrow> bool \<Rightarrow> connect_result act" where
  "connectWithCredentials E D credentialId contractId given allowAuthentication =
     bindA (resolveTarget E credentialId contractId) (\<lambda>(credential, credentialId, contractId, usedDerived).
     bindA (readInstance (keServices E) credential credentialId contractId) (\<lambda>instance.
     bindA (liftA (assertAcceptedCode instance contractId (cdAcceptedWasm D))) (\<lambda>_.
     bindA (findCandidate E D credential credentialId contractId usedDerived) (\<lambda>candidate.
     bindA (checkedBirth E D credential credentialId contractId candidate) (\<lambda>birth.
     bindA (liftA (credentialKey E D credential credentialId birth)) (\<lambda>publicKey.
     bindA (checkLiveSigner E D credential credentialId contractId publicKey) (\<lambda>_.
     bindA (proveOwnership (keSdk E) D credential credentialId publicKey given allowAuthentication) (\<lambda>_.
       establish E D credential credentialId publicKey contractId birth))))))))"

section \<open>Connecting and disconnecting\<close>

record connect_options =
  cnCredentialId :: "string option"
  cnContractId :: "string option"
  cnFresh :: bool
  cnPrompt :: bool

text \<open>The connection to use: what \<^verbatim>\<open>connectWallet\<close> is given as \<^verbatim>\<open>connectWithCredentials\<close>.\<close>

type_synonym connector = "string option \<Rightarrow> string option \<Rightarrow> ownership_proof option \<Rightarrow> bool \<Rightarrow> connect_result act"

definition staleSession :: "kit_error \<Rightarrow> bool" where
  "staleSession e = (case e of WalletProvenanceError c m \<Rightarrow> True | WalletOwnershipError m \<Rightarrow> True
     | WalletCodeNotAcceptedError c a \<Rightarrow> True | _ \<Rightarrow> False)"

text \<open>
  A stored session: nothing to restore (\<open>None\<close>), or the result to return, where \<open>Some None\<close> is the
  \<^verbatim>\<open>null\<close> of a session that no longer verifies.
\<close>

definition restoreSession :: "services \<Rightarrow> connector \<Rightarrow> bool \<Rightarrow> connect_result option option act" where
  "restoreSession S connect prompt =
     bindA storageGetSession (\<lambda>session. (case session of
        None \<Rightarrow> returnA None
      | Some s \<Rightarrow>
          bindA (nowA S) (\<lambda>now.
            if (case ssExpiresAt s of Some e \<Rightarrow> e \<noteq> 0 \<and> e < now | None \<Rightarrow> False)
            then bindA (emitA (SessionExpired (ssContractId s) (ssCredentialId s))) (\<lambda>_.
              bindA storageClearSession (\<lambda>_. returnA None))
            else catchA
              (bindA (connect (Some (ssCredentialId s)) (Some (ssContractId s)) None False) (\<lambda>r. returnA (Some (Some r))))
              (\<lambda>e. if \<not> staleSession e then throwA e
                else bindA storageClearSession (\<lambda>_. returnA (if prompt then None else Some None))))))"

definition promptAndConnect :: "sdk \<Rightarrow> webauthn_deps \<Rightarrow> buffer \<Rightarrow> connector \<Rightarrow> connect_result act" where
  "promptAndConnect K A random connect =
     (let challenge = generateChallenge K random;
          options = \<lparr>aoChallenge = challenge, aoRpId = waRpId A, aoUserVerification = ''required'', aoAllowed = None\<rparr> in
      bindA (requestA (FxPasskey challenge) (\<lambda>t. waAuthenticate A t options)) (\<lambda>rawResponse.
        connect (Some (asId rawResponse)) None (Some \<lparr>opResponse = rawResponse, opChallenge = challenge\<rparr>) True))"

definition connectWallet ::
    "kit_env \<Rightarrow> webauthn_deps \<Rightarrow> buffer \<Rightarrow> connector \<Rightarrow> connect_options \<Rightarrow> connect_result option act" where
  "connectWallet E A random connect options =
     (if truthy (cnCredentialId options) \<or> truthy (cnContractId options)
      then bindA (connect (cnCredentialId options) (cnContractId options) None True) (\<lambda>r. returnA (Some r))
      else bindA (if cnFresh options then returnA None
          else restoreSession (keServices E) connect (cnPrompt options)) (\<lambda>restored.
        (case restored of
           Some r \<Rightarrow> returnA r
         | None \<Rightarrow>
             if \<not> cnPrompt options \<and> \<not> cnFresh options then returnA None
             else bindA (promptAndConnect (keSdk E) A random connect) (\<lambda>r. returnA (Some r)))))"

definition disconnect :: "unit act" where
  "disconnect = bindA (askA wContractId) (\<lambda>contractId.
     bindA clearConnectedState (\<lambda>_.
     bindA storageClearSession (\<lambda>_.
       if truthy contractId then emitA (WalletDisconnected (the contractId)) else returnA ())))"

section \<open>What a connection has verified\<close>

text \<open>The part of the world that says which wallet is connected.\<close>

definition connection :: "world \<Rightarrow> string option \<times> string option \<times> string option \<times> stored_session option" where
  "connection w = (wContractId w, wCredentialId w, wWallet w, memGetSession (wStorage w))"

definition connectedTo :: "string \<Rightarrow> string \<Rightarrow> world \<Rightarrow> bool" where
  "connectedTo contractId credentialId w \<longleftrightarrow> (\<exists>now expires. connection w = (Some contractId, Some credentialId,
     Some contractId, Some \<lparr>ssContractId = contractId, ssCredentialId = credentialId, ssConnectedAt = now,
       ssExpiresAt = Some expires\<rparr>))"

lemma establish_ok:
  assumes "establish E D credential credentialId publicKey contractId birth w = (Inr r, w')"
  shows "crrContractId r = contractId \<and> crrCredentialId r = credentialId \<and>
     scPublicKey (crrCredential r) = publicKey \<and> connectedTo contractId credentialId w' \<and>
     memGet credentialId (wStorage w') = Some (crrCredential r) \<and> scStatus (crrCredential r) = Some StatusDeployed"
  using assms
  by (auto simp: establish_def Let_def bindA_Inr run_simps storageSave_def setConnectedState_def emitA_def doA_def
      saveSession_def nowA_def storageSaveSession_def connectedTo_def connection_def verifiedCredential_def
      memGet_def memSave_def memSaveSession_def memGetSession_def update_conv split: option.splits)

lemma assertAcceptedCode_ok:
  "assertAcceptedCode i contractId accepted = Inr () \<longleftrightarrow>
     (\<exists>wasm. i = ExecWasm wasm \<and> wasm \<noteq> [] \<and> toHex wasm \<in> set accepted)"
proof -
  have "toHex wasm = [] \<longleftrightarrow> wasm = []" for wasm by (cases wasm) (simp_all add: toHex_def hexByte_def)
  then show ?thesis
    by (cases i) (auto simp: assertAcceptedCode_def readInstanceWasmHash_def)
qed

lemma assertLiveSigner_ok:
  "assertLiveSigner K verifier publicKey credentialId rule ledger = Inr () \<longleftrightarrow>
     (case crValidUntil rule of Some n \<Rightarrow> ledger \<le> n | None \<Rightarrow> True) \<and>
     length (filter (\<lambda>s. signerMatchesCredential K s verifier publicKey credentialId) (crSigners rule)) = 1"
  by (auto simp: assertLiveSigner_def split: option.splits)

lemma assertion_outcome:
  "(case r of AssertionOk \<Rightarrow> Inr () | AssertionFailed reason detail \<Rightarrow> Inl (f detail)) = Inr u \<longleftrightarrow> r = AssertionOk"
  by (cases r) simp_all

lemma verifyOwnership_ok:
  "verifyOwnership K D credentialId publicKey p = Inr () \<longleftrightarrow>
     (\<exists>pr rpId. p = Some pr \<and> cdRpId D = Some rpId \<and> rpId \<noteq> [] \<and> items (cdOrigins D) \<noteq> [] \<and>
       verifyFreshAssertion K (cdParseJson D) (cdSubtle D) (opResponse pr)
         \<lparr>fpChallenge = opChallenge pr, fpCredentialId = credentialId, fpRpId = rpId, fpPublicKey = publicKey,
          fpOrigins = cdOrigins D, fpRequireVerification = False\<rparr> = Inr AssertionOk)"
  by (cases p; cases "cdRpId D")
    (auto simp: verifyOwnership_def truthy_def bindE_Inr assertion_outcome)

lemma resolveTarget_ok:
  assumes "resolveTarget E credentialId contractId w = (Inr (credential, k, c, derived), w')"
  shows "w' = w \<and> credentialId = Some k \<and> k \<noteq> [] \<and> credential = memGet k (wStorage w) \<and> c \<noteq> []"
  using assms
  by (auto simp: resolveTarget_def Let_def bindA_Inr run_simps storageGet_def truthy_def
      split: option.splits if_splits)

lemma readInstance_ok:
  assumes "readInstance S credential k c w = (Inr i, w')"
  shows "svRpcGetContractData S (wTrace w) c = Inr i"
  using assms
  by (auto simp: readInstance_def catchA_Inr bindA_Inr run_simps)

lemma checkedBirth_ok:
  assumes "checkedBirth E D credential k c candidate w = (Inr b, w')"
  shows "verifyWalletBirth E (cdDecode D) (birthDepsFor E D credential k) candidate w = (Inr (BirthOk b), w')"
proof -
  obtain r w1 where r: "verifyWalletBirth E (cdDecode D) (birthDepsFor E D credential k) candidate w = (Inr r, w1)"
    using assms by (auto simp: checkedBirth_def bindA_Inr)
  with assms show ?thesis by (cases r) (auto simp: checkedBirth_def bindA_Inr run_simps)
qed

lemma checkLiveSigner_ok:
  assumes "checkLiveSigner E D credential k c publicKey w = (Inr u, w')"
  shows "\<exists>readRule ruleId rule ledger t w1 w2. cdReadRule D = Some readRule \<and> expectedRuleId credential = Some ruleId \<and>
     readRule c ruleId w1 = (Inr rule, w2) \<and> svRpcLatestLedger (keServices E) t = Inr ledger \<and>
     assertLiveSigner (keSdk E) (cdVerifier D) publicKey k rule ledger = Inr ()"
  using assms
  by (auto simp: checkLiveSigner_def bindA_Inr run_simps latestLedger_def split: option.splits)


section \<open>What a connection does to the outside\<close>

fun isRead :: "effect \<Rightarrow> bool" where
  "isRead (FxRpcGetContractData c) = True"
| "isRead FxRpcLatestLedger = True"
| "isRead (FxRpcGetTransaction h) = True"
| "isRead (FxHistory h) = True"
| "isRead _ = False"

text \<open>
  \<open>lookupsDo P f D\<close>: the lookups the caller passes in only do effects \<open>P\<close> and keep \<open>f\<close> of the
  world; \<open>authenticatesWith\<close> says the same of the passkey ceremony.
\<close>

definition lookupsDo :: "(effect \<Rightarrow> bool) \<Rightarrow> (world \<Rightarrow> 'a) \<Rightarrow> connect_deps \<Rightarrow> bool" where
  "lookupsDo P f D \<longleftrightarrow>
     (case cdLookup D of None \<Rightarrow> True | Some g \<Rightarrow> \<forall>k. onlyDoes P (g k) \<and> keeps f (g k)) \<and>
     (case cdReadRule D of None \<Rightarrow> True | Some g \<Rightarrow> \<forall>c i. onlyDoes P (g c i) \<and> keeps f (g c i))"

definition authenticatesWith :: "(effect \<Rightarrow> bool) \<Rightarrow> (world \<Rightarrow> 'a) \<Rightarrow> connect_deps \<Rightarrow> bool" where
  "authenticatesWith P f D \<longleftrightarrow>
     (case cdAuthenticate D of None \<Rightarrow> True | Some g \<Rightarrow> \<forall>k. onlyDoes P (g k) \<and> keeps f (g k))"

definition readsIn :: "(effect \<Rightarrow> bool) \<Rightarrow> bool" where
  "readsIn P \<longleftrightarrow> (\<forall>c. P (FxRpcGetContractData c)) \<and> P FxRpcLatestLedger \<and> (\<forall>h. P (FxRpcGetTransaction h)) \<and>
     (\<forall>h. P (FxHistory h))"

text \<open>A part of the world that traces and credential updates do not touch.\<close>

definition unaffected :: "(world \<Rightarrow> 'a) \<Rightarrow> bool" where
  "unaffected f \<longleftrightarrow> (\<forall>w es. f (w\<lparr>wTrace := es\<rparr>) = f w) \<and>
     (\<forall>w k u. f (w\<lparr>wStorage := memUpdate k u (wStorage w)\<rparr>) = f w)"

lemma connection_unaffected: "unaffected connection"
  by (simp add: unaffected_def connection_def memUpdate_def memGetSession_def split: option.splits)

lemma resolveTarget_does: "onlyDoes P (resolveTarget E k c)" "keeps f (resolveTarget E k c)"
  unfolding resolveTarget_def Let_def storageGet_def
  by (auto intro!: does_rules keeps_rules split: option.splits)

lemma readInstance_does:
  "readsIn P \<Longrightarrow> onlyDoes P (readInstance S credential k c)"
  "unaffected f \<Longrightarrow> keeps f (readInstance S credential k c)"
  unfolding readInstance_def readsIn_def unaffected_def storageUpdate_def
  by (auto intro!: does_rules keeps_rules onlyDoes_modify split: option.splits)

lemma latestLedger_does:
  "readsIn P \<Longrightarrow> onlyDoes P (latestLedger S)" "unaffected f \<Longrightarrow> keeps f (latestLedger S)"
  unfolding latestLedger_def readsIn_def unaffected_def by (auto intro!: does_rules keeps_rules)

lemma findCandidate_does:
  "readsIn P \<Longrightarrow> lookupsDo P f D \<Longrightarrow> onlyDoes P (findCandidate E D credential k c derived)"
  "unaffected f \<Longrightarrow> lookupsDo P f D \<Longrightarrow> keeps f (findCandidate E D credential k c derived)"
  unfolding findCandidate_def lookupsDo_def
  by (auto intro!: does_rules keeps_rules latestLedger_does split: option.splits list.splits)

lemma verifyWalletBirth_does:
  "readsIn P \<Longrightarrow> onlyDoes P (verifyWalletBirth E decode B candidate)"
  "unaffected f \<Longrightarrow> keeps f (verifyWalletBirth E decode B candidate)"
  unfolding verifyWalletBirth_def findCreation_def readsIn_def unaffected_def
  by (auto intro!: does_rules keeps_rules split: option.splits get_transaction.splits list.splits)

lemma checkedBirth_does:
  "readsIn P \<Longrightarrow> onlyDoes P (checkedBirth E D credential k c candidate)"
  "unaffected f \<Longrightarrow> keeps f (checkedBirth E D credential k c candidate)"
  unfolding checkedBirth_def
  by (auto intro!: does_rules keeps_rules verifyWalletBirth_does split: birth_result.splits)

lemma checkLiveSigner_does:
  "readsIn P \<Longrightarrow> lookupsDo P f D \<Longrightarrow> onlyDoes P (checkLiveSigner E D credential k c publicKey)"
  "unaffected f \<Longrightarrow> lookupsDo P f D \<Longrightarrow> keeps f (checkLiveSigner E D credential k c publicKey)"
  unfolding checkLiveSigner_def lookupsDo_def
  by (auto intro!: does_rules keeps_rules latestLedger_does split: option.splits)

lemma proveOwnership_does:
  "allow \<longrightarrow> authenticatesWith P f D \<Longrightarrow> onlyDoes P (proveOwnership K D credential k publicKey given allow)"
  "allow \<longrightarrow> authenticatesWith P f D \<Longrightarrow> keeps f (proveOwnership K D credential k publicKey given allow)"
  unfolding proveOwnership_def obtainProof_def authenticatesWith_def
  by (auto intro!: does_rules keeps_rules split: option.splits)

lemma establish_does:
  "P (FxEvent (WalletConnected c k)) \<Longrightarrow> onlyDoes P (establish E D credential k publicKey c birth)"
  unfolding establish_def Let_def saveSession_def nowA_def setConnectedState_def storageSave_def storageSaveSession_def
  by (auto intro!: does_rules onlyDoes_modify split: option.splits)

lemma establish_returns: "isOk (fst (establish E D credential k publicKey c birth w))"
  by (simp add: establish_def Let_def bindA_def run_simps storageSave_def setConnectedState_def emitA_def doA_def
      saveSession_def nowA_def storageSaveSession_def isOk_def split: option.splits)

text \<open>How a failed computation leaves the world.\<close>

definition failsWithin :: "(effect \<Rightarrow> bool) \<Rightarrow> (world \<Rightarrow> 'a) \<Rightarrow> 'b act \<Rightarrow> bool" where
  "failsWithin P f m \<longleftrightarrow> (\<forall>w e w'. m w = (Inl e, w') \<longrightarrow>
     f w' = f w \<and> (\<exists>es. wTrace w' = wTrace w @ es \<and> list_all P es))"

lemma failsWithin_bind:
  assumes "onlyDoes P m" "keeps f m" "\<And>x. failsWithin P f (g x)"
  shows "failsWithin P f (bindA m g)"
  unfolding failsWithin_def
proof (intro allI impI)
  fix w e w' assume "bindA m g w = (Inl e, w')"
  then consider "m w = (Inl e, w')" | x w1 where "m w = (Inr x, w1)" "g x w1 = (Inl e, w')"
    by (auto simp: bindA_Inl)
  then show "f w' = f w \<and> (\<exists>es. wTrace w' = wTrace w @ es \<and> list_all P es)"
  proof cases
    case 1
    then show ?thesis using onlyDoesD [OF assms(1) 1] keepsD [OF assms(2) 1] by simp
  next
    case 2
    obtain es where "wTrace w1 = wTrace w @ es" "list_all P es" using onlyDoesD [OF assms(1) 2(1)] by blast
    moreover obtain fs where "wTrace w' = wTrace w1 @ fs" "list_all P fs" "f w' = f w1"
      using assms(3) [of x] 2(2) unfolding failsWithin_def by blast
    ultimately show ?thesis using keepsD [OF assms(2) 2(1)] by simp
  qed
qed

lemma failsWithin_ok: "(\<And>w. isOk (fst (m w))) \<Longrightarrow> failsWithin P f m"
  unfolding failsWithin_def isOk_def by (metis fst_conv old.sum.simps(5))

lemma connect_failsWithin:
  assumes "readsIn P" "unaffected f" "lookupsDo P f D" "allow \<longrightarrow> authenticatesWith P f D"
  shows "failsWithin P f (connectWithCredentials E D k c given allow)"
  unfolding connectWithCredentials_def split_beta
  by (intro failsWithin_bind failsWithin_ok establish_returns resolveTarget_does
      readInstance_does checkedBirth_does findCandidate_does [where f = f and P = P]
      checkLiveSigner_does [where f = f and P = P] proveOwnership_does [where f = f and P = P]
      does_rules keeps_rules assms)

fun announcesConnection :: "effect \<Rightarrow> bool" where
  "announcesConnection (FxEvent (WalletConnected c k)) = True"
| "announcesConnection _ = False"

text \<open>
  A connection that fails leaves the kit connected to what it was connected to before, with the same
  session, and announces no connection, whatever step it fails at.
\<close>

theorem failed_connection_changes_nothing:
  assumes "lookupsDo (Not \<circ> announcesConnection) connection D"
    and "authenticatesWith (Not \<circ> announcesConnection) connection D"
    and "connectWithCredentials E D credentialId contractId given allowAuthentication w = (Inl e, w')"
  shows "connection w' = connection w \<and>
     (\<exists>es. wTrace w' = wTrace w @ es \<and> list_all (Not \<circ> announcesConnection) es)"
proof -
  have "readsIn (Not \<circ> announcesConnection)" by (simp add: readsIn_def)
  then have "failsWithin (Not \<circ> announcesConnection) connection
      (connectWithCredentials E D credentialId contractId given allowAuthentication)"
    using connect_failsWithin connection_unaffected assms(1,2) by blast
  with assms(3) show ?thesis unfolding failsWithin_def by blast
qed

lemma connect_does:
  assumes "readsIn P" "lookupsDo P (\<lambda>w. ()) D" "allow \<longrightarrow> authenticatesWith P (\<lambda>w. ()) D"
    and "\<And>c k. P (FxEvent (WalletConnected c k))"
  shows "onlyDoes P (connectWithCredentials E D k c given allow)"
  unfolding connectWithCredentials_def split_beta
  by (intro does_rules resolveTarget_does readInstance_does checkedBirth_does
      findCandidate_does [where f = "\<lambda>w. ()" and P = P] checkLiveSigner_does [where f = "\<lambda>w. ()" and P = P]
      proveOwnership_does [where f = "\<lambda>w. ()" and P = P] establish_does assms)

text \<open>
  Restoring a session is silent: without ids, prompt and fresh sign-in, connecting never asks for the
  passkey, even where the wallet's birth is not locally approved.
\<close>

theorem silent_restore:
  assumes "lookupsDo (\<lambda>x. \<forall>c. x \<noteq> FxPasskey c) (\<lambda>w. ()) D"
    and "\<not> cnFresh options" "\<not> cnPrompt options" "\<not> truthy (cnCredentialId options)" "\<not> truthy (cnContractId options)"
    and "connectWallet E A random (connectWithCredentials E D) options w = (r, w')"
  shows "\<exists>es. wTrace w' = wTrace w @ es \<and> list_all (\<lambda>x. \<forall>c. x \<noteq> FxPasskey c) es"
proof -
  have r: "readsIn (\<lambda>x. \<forall>c. x \<noteq> FxPasskey c)" by (simp add: readsIn_def)
  have c: "onlyDoes (\<lambda>x. \<forall>c. x \<noteq> FxPasskey c) (connectWithCredentials E D k c None False)" for k c
    by (rule connect_does) (use r assms(1) in simp_all)
  have "onlyDoes (\<lambda>x. \<forall>c. x \<noteq> FxPasskey c) (connectWallet E A random (connectWithCredentials E D) options)"
    using assms(2-5)
    by (auto simp: connectWallet_def restoreSession_def nowA_def intro!: does_rules c split: option.splits)
  then show ?thesis using onlyDoesD assms(6) by blast
qed

text \<open>
  When connecting answers that there is nothing to connect to, no session is left behind: an expired
  one, or one whose wallet no longer verifies, has been cleared.
\<close>

theorem null_connection_clears_session:
  assumes "connectWallet E A random connect options w = (Inr None, w')"
  shows "memGetSession (wStorage w') = None"
  using assms
  by (auto simp: connectWallet_def restoreSession_def bindA_Inr catchA_Inr run_simps nowA_def storageGetSession_def
      storageClearSession_def memGetSession_def memClearSession_def emitA_def doA_def split: if_splits option.splits)

section \<open>Created wallets\<close>

definition createDepsQuiet :: "create_deps \<Rightarrow> bool" where
  "createDepsQuiet D \<longleftrightarrow> (\<forall>a u. keeps connection (cwCreatePasskey D a u)) \<and> (\<forall>k p. keeps connection (cwBuild D k p)) \<and>
     (\<forall>t. keeps connection (cwSign D t)) \<and> (\<forall>d k m. keeps connection (cwSubmit D d k m)) \<and>
     (\<forall>n m. keeps connection (cwFund D n m))"

lemma connection_simps [simp]:
  "connection (w\<lparr>wTrace := es\<rparr>) = connection w"
  "connection (w\<lparr>wStorage := memUpdate k u (wStorage w)\<rparr>) = connection w"
  "connection (w\<lparr>wStorage := memSave c (wStorage w)\<rparr>) = connection w"
  using connection_unaffected
  by (simp_all add: unaffected_def) (simp add: connection_def memSave_def memGetSession_def)

lemma keeps_registerCredential:
  assumes "createDepsQuiet D"
  shows "keeps connection (registerCredential E D appName userName options)"
  using assms unfolding registerCredential_def Let_def nowA_def createDepsQuiet_def storageSave_def
  by (auto intro!: keeps_rules)

lemma keeps_prepareArtifacts:
  assumes "\<And>t. keeps connection (sg t)"
  shows "keeps connection (prepareDeploymentArtifacts d sg)"
  unfolding prepareDeploymentArtifacts_def using assms
  by (auto intro!: keeps_rules split: deploy_tx.splits option.splits)

lemma keeps_fundNew:
  assumes "createDepsQuiet D"
  shows "keeps connection (fundNew D options r)"
  using assms unfolding fundNew_def createDepsQuiet_def by (auto intro!: keeps_rules)

lemma registerCredential_ok:
  assumes "registerCredential E D appName userName options w = (Inr (pk, contractId), w')"
  shows "deriveContractAddress (keSdk E) (base64urlToBuffer (keSdk E) (pkCredentialId pk)) (keDeployer E)
     (keNetwork E) = Inr contractId"
  using assms by (auto simp: registerCredential_def Let_def bindA_Inr run_simps)

lemma connect_new:
  "connectedTo c k (snd (bindA (setConnectedState c k) (\<lambda>_.
     bindA (emitA (WalletConnected c k)) (\<lambda>_. saveSession S expiry c k)) w))"
  by (simp add: bindA_def run_simps setConnectedState_def emitA_def doA_def saveSession_def nowA_def
      storageSaveSession_def connectedTo_def connection_def memSaveSession_def memGetSession_def)

text \<open>
  A created wallet becomes the connected one exactly when its deployment was submitted and succeeded;
  otherwise the connection and the session stay as they were. Its address is the one derived from
  the new passkey.
\<close>

theorem created_wallet_connects_on_success:
  assumes "createDepsQuiet D"
    and "createWallet E D appName userName options w = (Inr r, w')"
  shows "(if succeeded (cwrSubmit r) then connectedTo (cwrContractId r) (cwrCredentialId r) w'
      else connection w' = connection w) \<and>
     deriveContractAddress (keSdk E) (base64urlToBuffer (keSdk E) (cwrCredentialId r)) (keDeployer E) (keNetwork E)
       = Inr (cwrContractId r)"
proof -
  obtain pk contractId deployTx birth artifacts signedTx submitResult fundResult w1 w2 w4 w5 w6 where
    g: "registerCredential E D appName userName options w = (Inr (pk, contractId), w1)"
    and b: "cwBuild D (base64urlToBuffer (keSdk E) (pkCredentialId pk)) (pkPublicKey pk) w1 = (Inr deployTx, w2)"
    and p: "prepareDeploymentArtifacts deployTx (cwSign D)
      (w2\<lparr>wStorage := memUpdate (pkCredentialId pk) (birthUpdate birth) (wStorage w2)\<rparr>) = (Inr (artifacts, signedTx), w4)"
    and s: "(if coAutoSubmit options
       then bindA (cwSubmit D signedTx (pkCredentialId pk) (coForceMethod options)) (\<lambda>r. returnA (Some r))
       else returnA None) w4 = (Inr submitResult, w5)"
    and c: "(if succeeded submitResult
       then bindA (setConnectedState contractId (pkCredentialId pk)) (\<lambda>_.
         bindA (emitA (WalletConnected contractId (pkCredentialId pk))) (\<lambda>_.
           saveSession (keServices E) (cwSessionExpiryMs D) contractId (pkCredentialId pk)))
       else returnA ()) w5 = (Inr (), w6)"
    and f: "fundNew D options submitResult w6 = (Inr fundResult, w')"
    and r: "r = \<lparr>cwrCredentialId = pkCredentialId pk, cwrPublicKey = pkPublicKey pk, cwrContractId = contractId,
         cwrArtifacts = artifacts, cwrSubmit = submitResult, cwrFund = fundResult\<rparr>"
    using assms(2) by (auto simp: createWallet_def bindA_Inr run_simps storageUpdate_run)
  have q: "keeps connection (cwBuild D k x)" "keeps connection (cwSign D t)" "keeps connection (cwSubmit D d k' m)" for k x t d k' m
    using assms(1) by (simp_all add: createDepsQuiet_def)
  have sk: "keeps connection (if coAutoSubmit options
       then bindA (cwSubmit D signedTx (pkCredentialId pk) (coForceMethod options)) (\<lambda>r. returnA (Some r))
       else returnA None)" by (intro keeps_rules q)
  have e: "connection w5 = connection w"
    using keepsD [OF keeps_registerCredential [OF assms(1)] g] keepsD [OF q(1) b]
      keepsD [OF keeps_prepareArtifacts [OF q(2)] p] keepsD [OF sk s] by simp
  have e': "connection w' = connection w6" using keepsD [OF keeps_fundNew [OF assms(1)] f] .
  have "connectedTo contractId (pkCredentialId pk) w6" if "succeeded submitResult"
    using connect_new [of contractId "pkCredentialId pk" "keServices E" "cwSessionExpiryMs D" w5] c that by simp
  moreover have "connection w6 = connection w" if "\<not> succeeded submitResult"
    using c that e by (simp add: run_simps)
  ultimately show ?thesis
    using r registerCredential_ok [OF g] e' by (auto simp: connectedTo_def)
qed

text \<open>
  Any failure to read the contract, a network outage included, turns the stored credential of a
  verified wallet back to pending.
\<close>

theorem outage_demotes_credential:
  assumes "memGet k (wStorage w) = Some c" "k \<noteq> []" "scContractId c \<noteq> []" "scStatus c = Some StatusDeployed"
    and "svRpcGetContractData (keServices E) (wTrace w) (scContractId c) = Inl e"
  shows "\<exists>m w'. connectWithCredentials E D (Some k) None given allowAuthentication w = (Inl (JsError m), w') \<and>
     memGet k (wStorage w') = Some (c\<lparr>scStatus := Some StatusPending\<rparr>)"
proof -
  have t: "resolveTarget E (Some k) None w = (Inr (Some c, k, scContractId c, False), w)"
    using assms(1-3) by (simp add: resolveTarget_def bindA_def run_simps storageGet_def truthy_def)
  have u: "applyUpdate (noUpdate\<lparr>upStatus := Some (Some StatusPending)\<rparr>) c = c\<lparr>scStatus := Some StatusPending\<rparr>"
    by (simp add: applyUpdate_def noUpdate_def override_def)
  show ?thesis
    using assms
    by (simp add: connectWithCredentials_def t bindA_def readInstance_def catchA_def run_simps storageUpdate_run
        memGet_memUpdate u)
qed

section \<open>Witnesses\<close>

definition hashSdk :: sdk where
  "hashSdk = demoSdk\<lparr>hash := (\<lambda>b. replicate 32 7)\<rparr>"

definition hashEnv :: kit_env where
  "hashEnv = demoEnv\<lparr>keSdk := hashSdk, keServices := demoHistory\<rparr>"

definition demoWalletId :: string where
  "demoWalletId = CHR ''C'' # fromUtf8 (replicate 32 7)"

definition demoKeyId :: string where
  "demoKeyId = fromUtf8 [4]"

definition verifiedDemo :: stored_credential where
  "verifiedDemo = demoCredential\<lparr>scCredentialId := demoKeyId, scContractId := demoWalletId, scStatus := Some StatusDeployed,
     scBirthWasmHash := Some (toHex (replicate 32 0xAB)), scCreationTx := Some (toHex (replicate 32 7)),
     scCreationLedger := Some 5, scBirthArgsHash := Some (toHex (replicate 32 7))\<rparr>"

definition demoConnect :: connect_deps where
  "demoConnect = \<lparr>cdSessionExpiryMs = 9, cdAcceptedWasm = [toHex (replicate 32 0xAB)],
     cdAcceptedBirth = [toHex (replicate 32 0xAB)], cdVerifier = ''Cv'', cdRpId = None, cdOrigins = None,
     cdHistory = None, cdPolicies = None, cdLookup = None,
     cdReadRule = Some (\<lambda>c i. returnA (demoRule i DefaultRule [External ''Cv'' (replicate 66 4)])),
     cdAuthenticate = None, cdDecode = (\<lambda>b. None), cdParseJson = (\<lambda>b. NotJson), cdSubtle = None\<rparr>"

lemma toHex_nonempty: "toHex (replicate (Suc n) x) \<noteq> []"
  by (simp add: toHex_def hexByte_def)

lemma toHex_32: "toHex (replicate 32 x) \<noteq> []"
  using toHex_nonempty [of 31 x] by (simp add: numeral_eq_Suc)

lemma demo_target:
  "resolveTarget hashEnv (Some demoKeyId) None (storedWorld verifiedDemo) =
     (Inr (Some verifiedDemo, demoKeyId, demoWalletId, False), storedWorld verifiedDemo)"
  by (simp add: resolveTarget_def bindA_def run_simps storageGet_def storedWorld_def memGet_def truthy_def
      verifiedDemo_def demoKeyId_def fromUtf8_def demoWalletId_def)

lemma demo_approved: "locallyApproved (Some verifiedDemo)" "localPrimary (Some verifiedDemo)" "\<not> localSecondary (Some verifiedDemo)"
  by (simp_all add: locallyApproved_def localPrimary_def localSecondary_def verifiedDemo_def demoCredential_def)

lemma demo_args: "constructorArgsHash hashSdk args = toHex (replicate 32 7)"
  by (simp add: constructorArgsHash_def hashSdk_def)

lemma hashSdk_simps:
  "fromScAddress hashSdk = fromScAddress demoSdk" "fromStrkey hashSdk = fromStrkey demoSdk"
  "base64urlToBuffer hashSdk = base64urlToBuffer demoSdk"
  by (simp_all add: hashSdk_def)

lemma demo_constructor:
  "validateConstructor hashSdk (\<lambda>b. None) demoCreate (birthDepsFor hashEnv demoConnect (Some verifiedDemo) demoKeyId) =
     Inr (Inr (External ''Cv'' (replicate 66 4), toHex (replicate 32 7)))"
proof -
  have p: "parseSignerScVal hashSdk (ScvVec (Some [ScvSymbol ''External'', ScvAddress (AddrContract (utf8 ''v'')),
      ScvBytes (replicate 66 4)])) = Inr (External ''Cv'' (replicate 66 4))"
    by (simp add: parseSignerScVal_def parseSignerItems_def scAddressToString_def hashSdk_simps demoSdk_def
        demoStrkey_def bindE_def)
  show ?thesis
    using p demo_approved(1) toHex_32
    by (simp add: validateConstructor_def Let_def demoCreate_def demo_args birthDepsFor_def birthSigner_def
        P256_PUBLIC_KEY_SIZE_def checkPolicies_def truthy_def bindE_def verifiedDemo_def demoConnect_def
        normalizeHashHex_toHex)
qed

definition demoBirth :: wallet_birth where
  "demoBirth = \<lparr>wbContractId = demoWalletId, wbBirthWasmHash = toHex (replicate 32 0xAB), wbCreationTx = toHex (replicate 32 7),
     wbCreationLedger = Fin 5, wbArgsHash = toHex (replicate 32 7), wbSigner = External ''Cv'' (replicate 66 4)\<rparr>"

definition demoClaim :: wallet_candidate where
  "demoClaim = \<lparr>wcContractId = demoWalletId, wcBirthWasmHash = toHex (replicate 32 0xAB),
     wcCreationTx = toHex (replicate 32 7), wcCreationLedger = Fin 5\<rparr>"

lemma demo_verifies:
  "\<exists>w'. verifyWalletBirth hashEnv (\<lambda>b. None) (birthDepsFor hashEnv demoConnect (Some verifiedDemo) demoKeyId) demoClaim w =
     (Inr (BirthOk demoBirth), w')"
proof -
  have n: "normalizeHashHex (toHex (replicate 32 x)) = Some (toHex (replicate 32 x))" for x
    by (simp add: normalizeHashHex_toHex)
  have l: "isSafeInteger (Fin 5)" "\<not> jsLess (Fin 5) (Fin 1)" by (simp_all add: isSafeInteger_def)
  have c: "filter (\<lambda>c. contractIdFromCreateV2 hashSdk ''Test'' c = Some demoWalletId) (createsOf demoCreation) = [demoCreate]"
    by (simp add: demo_creates contractIdFromCreateV2_def demoCreate_def hashSdk_def demoSdk_def demoWalletId_def)
  have x: "caPreimage demoCreate = FromAddress (AddrAccount (utf8 ''A'')) [1, 2]" "caExecutable demoCreate = ExecWasm (replicate 32 0xAB)"
    by (simp_all add: demoCreate_def)
  have d: "bdDeployer (birthDepsFor hashEnv demoConnect (Some verifiedDemo) demoKeyId) = None"
    "bdSalt (birthDepsFor hashEnv demoConnect (Some verifiedDemo) demoKeyId) = None"
    "bdAcceptedWasm (birthDepsFor hashEnv demoConnect (Some verifiedDemo) demoKeyId) = [toHex (replicate 32 0xAB)]"
    using demo_approved(1) by (simp_all add: birthDepsFor_def demoConnect_def)
  have v: "verifyCreation hashSdk (\<lambda>b. None) (birthDepsFor hashEnv demoConnect (Some verifiedDemo) demoKeyId) demoClaim
      (toHex (replicate 32 0xAB)) (toHex (replicate 32 7)) demoCreate = Inr (BirthOk demoBirth)"
    by (simp add: verifyCreation_def d x truthy_def bindE_def Let_def List.map_filter_def n demo_constructor
        demoClaim_def demoBirth_def)
  show ?thesis
    using v c n l
    by (simp add: verifyWalletBirth_def findCreation_def demoHistory_def hashEnv_def demoEnv_def bindA_def run_simps
        demoClaim_def)
qed

lemma demo_key: "replicate 66 (4 :: byte) = replicate 65 4 @ base64urlToBuffer demoSdk demoKeyId"
proof -
  have "base64urlToBuffer demoSdk demoKeyId = replicate 1 4" by (simp add: demoSdk_def demoKeyId_def)
  then show ?thesis by (simp only: replicate_add [symmetric]) simp
qed

lemma demo_signer: "signerMatchesCredential hashSdk (External ''Cv'' (replicate 66 4)) ''Cv'' (replicate 65 4) demoKeyId"
  by (simp add: signerMatchesCredential_def hashSdk_simps demo_key)

lemma demo_connects:
  "\<exists>r w'. connectWithCredentials hashEnv demoConnect (Some demoKeyId) None None False (storedWorld verifiedDemo) = (Inr r, w')"
proof -
  obtain b where b: "\<And>w. verifyWalletBirth hashEnv (\<lambda>b. None)
      (birthDepsFor hashEnv demoConnect (Some verifiedDemo) demoKeyId) demoClaim w = (Inr (BirthOk demoBirth), b w)"
    using demo_verifies by metis
  have f: "candidateFromStoredCredential (Some verifiedDemo) demoWalletId = Some demoClaim"
    using toHex_32 by (simp add: candidateFromStoredCredential_def verifiedDemo_def truthy_def demoClaim_def)
  have k: "credentialKey hashEnv demoConnect (Some verifiedDemo) demoKeyId demoBirth = Inr (replicate 65 4)"
    using demo_signer demo_approved(3)
    by (simp add: credentialKey_def hashEnv_def demoConnect_def demoBirth_def) (simp add: verifiedDemo_def demoCredential_def)
  have s: "assertLiveSigner hashSdk ''Cv'' (replicate 65 4) demoKeyId (demoRule 0 DefaultRule [External ''Cv'' (replicate 66 4)]) n = Inr ()" for n
    using demo_signer by (simp add: assertLiveSigner_ok demoRule_def)
  have a: "assertAcceptedCode (ExecWasm (replicate 32 0xAB)) demoWalletId [toHex (replicate 32 0xAB)] = Inr ()"
    by (simp add: assertAcceptedCode_ok)
  have services: "svRpcGetContractData (keServices hashEnv) = (\<lambda>t c. Inr (ExecWasm (replicate 32 0xAB)))"
    "svRpcLatestLedger (keServices hashEnv) = (\<lambda>t. Inr 10)" "keSdk hashEnv = hashSdk"
    by (simp_all add: hashEnv_def demoHistory_def demoServices_def)
  have deps: "cdAcceptedWasm demoConnect = [toHex (replicate 32 0xAB)]" "cdDecode demoConnect = (\<lambda>b. None)"
    "cdReadRule demoConnect = Some (\<lambda>c i. returnA (demoRule i DefaultRule [External ''Cv'' (replicate 66 4)]))"
    "cdVerifier demoConnect = ''Cv''" by (simp_all add: demoConnect_def)
  obtain e where e: "\<And>w. \<exists>w'. establish hashEnv demoConnect (Some verifiedDemo) demoKeyId (replicate 65 4) demoWalletId demoBirth w = (Inr e, w')"
    by (simp add: establish_def Let_def bindA_def run_simps storageSave_def setConnectedState_def emitA_def doA_def
      saveSession_def nowA_def storageSaveSession_def)
  show ?thesis
    using e [of "b (storedWorld verifiedDemo)"] e
    by (simp add: connectWithCredentials_def demo_target bindA_def run_simps readInstance_def catchA_def services a
        findCandidate_def f checkedBirth_def deps b k checkLiveSigner_def expectedRuleId_def demo_approved s
        proveOwnership_def latestLedger_def) (metis (no_types, lifting))
qed


definition demoConnectOptions :: connect_options where
  "demoConnectOptions = \<lparr>cnCredentialId = None, cnContractId = None, cnFresh = False, cnPrompt = False\<rparr>"

lemma demo_lookups:
  "lookupsDo P f demoConnect" "authenticatesWith P f demoConnect"
  by (simp_all add: lookupsDo_def authenticatesWith_def demoConnect_def does_rules keeps_rules)

lemma failed_connection_changes_nothing_witness:
  "\<exists>e w'. connectWithCredentials hashEnv demoConnect None (Some ''CX'') None False demoWorld = (Inl e, w') \<and>
     connection w' = connection demoWorld"
proof -
  have r: "connectWithCredentials hashEnv demoConnect None (Some ''CX'') None False demoWorld =
      (Inl (JsError ''Could not determine credential ID''), demoWorld)"
    by (simp add: connectWithCredentials_def resolveTarget_def bindA_def run_simps truthy_def)
  show ?thesis using failed_connection_changes_nothing [OF demo_lookups r] r by blast
qed

text \<open>A session that names the verified wallet.\<close>

definition sessionWorld :: world where
  "sessionWorld = (storedWorld verifiedDemo)\<lparr>wStorage := memSaveSession \<lparr>ssContractId = demoWalletId,
     ssCredentialId = demoKeyId, ssConnectedAt = 0, ssExpiresAt = Some 1\<rparr> (wStorage (storedWorld verifiedDemo))\<rparr>"

lemma silent_restore_witness:
  "\<exists>r w' es. connectWallet hashEnv (pdWebAuthn demoPasskeys) [] (connectWithCredentials hashEnv demoConnect) demoConnectOptions sessionWorld =
     (r, w') \<and> wTrace w' = es \<and> list_all (\<lambda>x. \<forall>c. x \<noteq> FxPasskey c) es"
proof -
  obtain r w' where r: "connectWallet hashEnv (pdWebAuthn demoPasskeys) [] (connectWithCredentials hashEnv demoConnect) demoConnectOptions
      sessionWorld = (r, w')" by (metis surj_pair)
  have d: "\<not> cnFresh demoConnectOptions" "\<not> cnPrompt demoConnectOptions" "\<not> truthy (cnCredentialId demoConnectOptions)"
    "\<not> truthy (cnContractId demoConnectOptions)" by (simp_all add: demoConnectOptions_def truthy_def)
  have "wTrace sessionWorld = []" by (simp add: sessionWorld_def storedWorld_def demoWorld_def)
  then show ?thesis using silent_restore [OF demo_lookups(1) d r] r by auto
qed

text \<open>The session has expired once the clock is past its end.\<close>

definition lateEnv :: kit_env where
  "lateEnv = hashEnv\<lparr>keServices := demoHistory\<lparr>svNow := (\<lambda>t. 5)\<rparr>\<rparr>"

lemma null_connection_clears_session_witness:
  "\<exists>w'. connectWallet lateEnv (pdWebAuthn demoPasskeys) [] (connectWithCredentials lateEnv demoConnect) demoConnectOptions sessionWorld =
     (Inr None, w') \<and> memGetSession (wStorage w') = None"
proof -
  obtain w' where r: "connectWallet lateEnv (pdWebAuthn demoPasskeys) [] (connectWithCredentials lateEnv demoConnect) demoConnectOptions
      sessionWorld = (Inr None, w')"
    by (simp add: connectWallet_def demoConnectOptions_def truthy_def restoreSession_def bindA_def run_simps nowA_def
        storageGetSession_def sessionWorld_def memSaveSession_def memGetSession_def lateEnv_def emitA_def doA_def
        storageClearSession_def)
  show ?thesis using null_connection_clears_session [OF r] r by blast
qed

definition demoPasskey :: passkey where
  "demoPasskey = \<lparr>pkResponse = \<lparr>rgId = ''k'', rgPublicKey = None, rgTransports = None\<rparr>, pkCredentialId = ''k'',
     pkPublicKey = replicate 65 4\<rparr>"

definition demoCreateDeps :: create_deps where
  "demoCreateDeps = \<lparr>cwValidatePolicies = Inr (), cwCreatePasskey = (\<lambda>a u. returnA demoPasskey), cwDateText = (\<lambda>t. ''now''),
     cwBuild = (\<lambda>k p. returnA demoDeployment), cwSign = returnA, cwSubmit = (\<lambda>d k m. returnA (TxSuccess ''h'' (Some 7))),
     cwFund = (\<lambda>n m. returnA (TxSuccess ''g'' None)), cwSessionExpiryMs = 9\<rparr>"

definition demoCreateOptions :: create_options where
  "demoCreateOptions = \<lparr>coNickname = None, coAutoSubmit = True, coAutoFund = False, coNativeToken = None, coForceMethod = None\<rparr>"

lemma created_wallet_connects_on_success_witness:
  "\<exists>r w'. createWallet demoEnv demoCreateDeps ''app'' ''user'' demoCreateOptions demoWorld = (Inr r, w') \<and>
     connectedTo (cwrContractId r) ''k'' w'"
proof -
  have q: "createDepsQuiet demoCreateDeps" by (simp add: createDepsQuiet_def demoCreateDeps_def keeps_rules)
  obtain a where a: "deriveContractAddress demoSdk (base64urlToBuffer demoSdk ''k'') (keDeployer demoEnv) ''Test'' = Inr a"
    by (simp add: deriveContractAddress_def demoSdk_def demoFromStrkey_def demoEnv_def)
  have env: "keSdk demoEnv = demoSdk" "keNetwork demoEnv = ''Test''" by (simp_all add: demoEnv_def)
  obtain d where d: "describeDeploymentBirth demoSdk demoDeployment = Inr d"
    by (simp add: describeDeploymentBirth_def demoDeployment_def deployFunction_def demoCreate_def)
  obtain r w' where r: "createWallet demoEnv demoCreateDeps ''app'' ''user'' demoCreateOptions demoWorld = (Inr r, w')"
    and c: "succeeded (cwrSubmit r)" "cwrCredentialId r = ''k''"
    using a d
    by (simp add: createWallet_def demoCreateDeps_def bindA_def run_simps registerCredential_def Let_def env demoPasskey_def
        nowA_def storageSave_def emitA_def doA_def storageUpdate_run prepareDeploymentArtifacts_def demoDeployment_def
        demoCreateOptions_def succeeded_def setConnectedState_def saveSession_def storageSaveSession_def fundNew_def)
  show ?thesis using created_wallet_connects_on_success [OF q r] r c by auto
qed

lemma outage_demotes_credential_witness:
  "\<exists>m w'. connectWithCredentials (hashEnv\<lparr>keServices := demoHistory\<lparr>svRpcGetContractData := (\<lambda>t c. Inl (JsError ''offline''))\<rparr>\<rparr>)
       demoConnect (Some demoKeyId) None None False (storedWorld verifiedDemo) = (Inl (JsError m), w') \<and>
     memGet demoKeyId (wStorage w') = Some (verifiedDemo\<lparr>scStatus := Some StatusPending\<rparr>)"
  by (rule outage_demotes_credential)
    (simp_all add: storedWorld_def memGet_def verifiedDemo_def demoKeyId_def demoWalletId_def fromUtf8_def)

end
