(* ===== verification/Kit_Credentials.thy ===== *)
theory Kit_Credentials
  imports Kit_Wallet
begin

text \<open>
  \<^verbatim>\<open>src/managers/credential-manager.ts\<close>: the credentials of the store, their deployment, their
  synchronisation with the network, and their deletion.
\<close>

section \<open>Reading\<close>

definition credGetAll :: "stored_credential list act" where
  "credGetAll = storageGetAll"

definition credGetForWallet :: "stored_credential list act" where
  "credGetForWallet = bindA (askA wContractId) (\<lambda>contractId.
     if truthy contractId then storageGetByContract (the contractId) else returnA [])"

definition credGetPending :: "stored_credential list act" where
  "credGetPending = bindA storageGetAll (\<lambda>cs. returnA
     (filter (\<lambda>c. scStatus c \<in> {Some StatusPending, Some StatusFailed, Some StatusOccupied}) cs))"

section \<open>Creating and saving\<close>

record credential_deps =
  cmRpName :: string
  cmDateText :: "effect list \<Rightarrow> string"
  cmCreatePasskey :: "string \<Rightarrow> string \<Rightarrow> passkey act"
  cmBuild :: "buffer \<Rightarrow> buffer \<Rightarrow> policy_config list option \<Rightarrow> deploy_tx act"
  cmSign :: "assembled \<Rightarrow> assembled act"
  cmSubmit :: "deploy_tx \<Rightarrow> string \<Rightarrow> submission_method option \<Rightarrow> tx_result act"

definition credCreate ::
    "services \<Rightarrow> credential_deps \<Rightarrow> string option \<Rightarrow> string option \<Rightarrow> stored_credential act" where
  "credCreate S D nickname appName =
     bindA (askA (\<lambda>w. cmDateText D (wTrace w))) (\<lambda>date.
       let nick = (if truthy nickname then the nickname else ''Passkey '' @ date);
           app = (if truthy appName then the appName else cmRpName D) in
       bindA (cmCreatePasskey D app nick) (\<lambda>pk.
       bindA (nowA S) (\<lambda>now.
         let c = pendingCredential pk [] nick now in
         bindA (storageSave c) (\<lambda>_.
         bindA (emitA (CredentialCreated c)) (\<lambda>_. returnA c)))))"

record given_credential =
  gcCredentialId :: string
  gcPublicKey :: buffer
  gcNickname :: "string option"
  gcContractId :: "string option"
  gcIsPrimary :: "bool option"

definition credSave :: "services \<Rightarrow> given_credential \<Rightarrow> stored_credential act" where
  "credSave S g = bindA (nowA S) (\<lambda>now.
     let c = (newCredential (gcCredentialId g) (gcPublicKey g)
           (if truthy (gcContractId g) then the (gcContractId g) else []) now)
         \<lparr>scNickname := gcNickname g,
          scIsPrimary := (case gcIsPrimary g of Some b \<Rightarrow> Some b
            | None \<Rightarrow> if truthy (gcContractId g) then None else Some True),
          scStatus := Some StatusPending\<rparr> in
     bindA (storageSave c) (\<lambda>_. returnA c))"

section \<open>Deploying\<close>

definition credentialMissing :: "string \<Rightarrow> kit_error" where
  "credentialMissing k = JsError (''Credential '' @ k @ '' not found in storage'')"

definition requireCredential :: "string \<Rightarrow> stored_credential act" where
  "requireCredential k = bindA (storageGet k) (\<lambda>c. (case c of
     None \<Rightarrow> throwA (credentialMissing k) | Some c \<Rightarrow> returnA c))"

definition initializeWallet :: "string \<Rightarrow> unit act" where
  "initializeWallet contractId = modifyA (\<lambda>w. w\<lparr>wWallet := Some contractId\<rparr>)"

text \<open>The manager's \<^verbatim>\<open>setConnectedState\<close> sets the two ids only; the client is initialized next.\<close>

definition setConnectedIds :: "string \<Rightarrow> string \<Rightarrow> unit act" where
  "setConnectedIds contractId credentialId = modifyA (\<lambda>w. w\<lparr>wContractId := Some contractId,
     wCredentialId := Some credentialId\<rparr>)"

record deployed_wallet =
  dwContractId :: string
  dwArtifacts :: deploy_artifacts
  dwSubmit :: "tx_result option"

definition credDeploy ::
    "kit_env \<Rightarrow> credential_deps \<Rightarrow> string \<Rightarrow> bool \<Rightarrow> submission_method option \<Rightarrow> policy_config list option \<Rightarrow> deployed_wallet act" where
  "credDeploy E D credentialId autoSubmit forceMethod policies =
     bindA (requireCredential credentialId) (\<lambda>credential.
     bindA (liftA (deriveContractAddress (keSdk E) (base64urlToBuffer (keSdk E) credentialId)
         (keDeployer E) (keNetwork E))) (\<lambda>contractId.
     bindA (cmBuild D (base64urlToBuffer (keSdk E) credentialId) (scPublicKey credential) policies) (\<lambda>deployTx.
     bindA (liftA (describeDeploymentBirth (keSdk E) deployTx)) (\<lambda>birth.
     bindA (storageUpdate credentialId (birthUpdate birth)) (\<lambda>_.
     bindA (prepareDeploymentArtifacts deployTx (cmSign D)) (\<lambda>(artifacts, signedTx).
     bindA (if autoSubmit then bindA (cmSubmit D signedTx credentialId forceMethod) (\<lambda>r. returnA (Some r))
       else returnA None) (\<lambda>submitResult.
     bindA (if succeeded submitResult
       then bindA (setConnectedIds contractId credentialId) (\<lambda>_.
         bindA (initializeWallet contractId) (\<lambda>_. emitA (WalletConnected contractId credentialId)))
       else returnA ()) (\<lambda>_.
       returnA \<lparr>dwContractId = contractId, dwArtifacts = artifacts, dwSubmit = submitResult\<rparr>))))))))"

section \<open>Synchronising\<close>

definition hasVerifiedBirth :: "stored_credential \<Rightarrow> bool" where
  "hasVerifiedBirth c \<longleftrightarrow> scStatus c = Some StatusDeployed \<and> scBirthWasmHash c \<noteq> None \<and> scCreationTx c \<noteq> None \<and>
     scCreationLedger c \<noteq> None \<and> scBirthArgsHash c \<noteq> None"

definition occupiedUpdate :: credential_update where
  "occupiedUpdate = noUpdate\<lparr>upStatus := Some (Some StatusOccupied),
     upError := Some (Some ''The derived address is occupied, but wallet birth is unverified.'')\<rparr>"

definition credSync :: "kit_env \<Rightarrow> string \<Rightarrow> bool act" where
  "credSync E credentialId =
     bindA (requireCredential credentialId) (\<lambda>credential.
     catchA
       (bindA (liftA (deriveContractAddress (keSdk E) (base64urlToBuffer (keSdk E) credentialId)
           (keDeployer E) (keNetwork E))) (\<lambda>derived.
        let contractId = (if scContractId credential \<noteq> [] then scContractId credential else derived) in
        bindA (requestA (FxRpcGetContractData contractId)
            (\<lambda>t. svRpcGetContractData (keServices E) t contractId)) (\<lambda>_.
          if \<not> hasVerifiedBirth credential
          then bindA (storageUpdate credentialId occupiedUpdate) (\<lambda>_. returnA False)
          else returnA True)))
       (\<lambda>_. returnA False))"

record sync_counts =
  syDeployed :: nat
  syPending :: nat
  syFailed :: nat

definition countSync :: "bool \<Rightarrow> stored_credential \<Rightarrow> sync_counts \<Rightarrow> sync_counts" where
  "countSync exists credential n =
     (if exists then n\<lparr>syDeployed := syDeployed n + 1\<rparr>
      else if scStatus credential = Some StatusFailed then n\<lparr>syFailed := syFailed n + 1\<rparr>
      else n\<lparr>syPending := syPending n + 1\<rparr>)"

fun syncEach :: "kit_env \<Rightarrow> sync_counts \<Rightarrow> stored_credential list \<Rightarrow> sync_counts act" where
  "syncEach E n [] = returnA n"
| "syncEach E n (c # cs) = bindA (credSync E (scCredentialId c)) (\<lambda>exists. syncEach E (countSync exists c n) cs)"

definition credSyncAll :: "kit_env \<Rightarrow> sync_counts act" where
  "credSyncAll E = bindA storageGetAll (\<lambda>cs.
     syncEach E \<lparr>syDeployed = 0, syPending = 0, syFailed = 0\<rparr> cs)"

definition credDelete :: "kit_env \<Rightarrow> string \<Rightarrow> unit act" where
  "credDelete E credentialId =
     bindA (requireCredential credentialId) (\<lambda>_.
     bindA (credSync E credentialId) (\<lambda>isDeployed.
       if isDeployed then throwA (JsError ''Cannot delete a deployed credential. The wallet exists on-chain.'')
       else storageDelete credentialId))"

section \<open>What synchronisation reports\<close>

lemma requireCredential_run [act_simps]:
  "requireCredential k w = (case memGet k (wStorage w) of
     None \<Rightarrow> (Inl (credentialMissing k), w) | Some c \<Rightarrow> (Inr c, w))"
  by (simp add: requireCredential_def bindA_def run_simps storageGet_def split: option.splits)

text \<open>The address a credential is synchronised at.\<close>

definition syncAddress :: "kit_env \<Rightarrow> stored_credential \<Rightarrow> string \<Rightarrow> string result" where
  "syncAddress E c k = bindE (deriveContractAddress (keSdk E) (base64urlToBuffer (keSdk E) k)
     (keDeployer E) (keNetwork E)) (\<lambda>derived. Inr (if scContractId c \<noteq> [] then scContractId c else derived))"

text \<open>What a synchronisation leaves: one contract read at most, and the occupied mark where it applies.\<close>

lemma credSync_run:
  assumes "memGet k (wStorage w) = Some c"
  shows "credSync E k w = (case syncAddress E c k of
     Inl e \<Rightarrow> (Inr False, w)
   | Inr a \<Rightarrow> let w1 = w\<lparr>wTrace := wTrace w @ [FxRpcGetContractData a]\<rparr> in
       (case svRpcGetContractData (keServices E) (wTrace w) a of
          Inl e \<Rightarrow> (Inr False, w1)
        | Inr i \<Rightarrow> if hasVerifiedBirth c then (Inr True, w1)
            else (Inr False, w1\<lparr>wStorage := memUpdate k occupiedUpdate (wStorage w)\<rparr>)))"
  using assms
  by (simp add: credSync_def bindA_def catchA_def requireCredential_run run_simps syncAddress_def bindE_def Let_def
      storageUpdate_run split: sum.splits)

text \<open>
  A credential is reported as deployed exactly when its contract can be read and its recorded birth is
  complete and verified. Where the contract exists without that, the credential is marked as
  occupied; in every other case the store is not touched.
\<close>

theorem sync_exact:
  assumes "memGet k (wStorage w) = Some c"
  shows "\<exists>r w'. credSync E k w = (Inr r, w') \<and>
     (r \<longleftrightarrow> hasVerifiedBirth c \<and> (\<exists>a i. syncAddress E c k = Inr a \<and>
       svRpcGetContractData (keServices E) (wTrace w) a = Inr i)) \<and>
     memGet k (wStorage w') = Some (if \<not> hasVerifiedBirth c \<and> (\<exists>a i. syncAddress E c k = Inr a \<and>
       svRpcGetContractData (keServices E) (wTrace w) a = Inr i) then applyUpdate occupiedUpdate c else c)"
  using assms
  by (simp add: credSync_run Let_def memGet_memUpdate split: sum.splits)

text \<open>
  A deployed credential with a verified birth is deleted when the network cannot be read at that
  moment: the check that should refuse the deletion takes the failed read for an absent wallet.
\<close>

theorem outage_lets_delete:
  assumes "memGet k (wStorage w) = Some c" "hasVerifiedBirth c" "syncAddress E c k = Inr a"
    and "svRpcGetContractData (keServices E) (wTrace w) a = Inl e"
  shows "\<exists>w'. credDelete E k w = (Inr (), w') \<and> memGet k (wStorage w') = None"
  using assms
  by (simp add: credDelete_def bindA_def requireCredential_run credSync_run Let_def storageDelete_def run_simps
      memGet_def memDelete_def delete_conv)

text \<open>
  Synchronising all credentials of a well-formed store always ends with a count in which every
  credential appears exactly once.
\<close>

theorem syncAll_counts_every_credential:
  assumes "memOk (wStorage w)"
  shows "\<exists>n w'. credSyncAll E w = (Inr n, w') \<and>
     syDeployed n + syPending n + syFailed n = length (memGetAll (wStorage w))"
proof -
  have each: "\<exists>m w'. syncEach E n cs w = (Inr m, w') \<and> syDeployed m + syPending m + syFailed m =
      syDeployed n + syPending n + syFailed n + length cs"
    if "\<forall>c \<in> set cs. memGet (scCredentialId c) (wStorage w) \<noteq> None" for cs n w
    using that
  proof (induction cs arbitrary: n w)
    case (Cons c cs)
    then obtain c' where c: "memGet (scCredentialId c) (wStorage w) = Some c'" by auto
    obtain r w1 where s: "credSync E (scCredentialId c) w = (Inr r, w1)"
      and k: "wStorage w1 = wStorage w \<or> wStorage w1 = memUpdate (scCredentialId c) occupiedUpdate (wStorage w)"
      using credSync_run [OF c, of E] by (auto simp: Let_def split: sum.splits if_splits)
    have "\<forall>x \<in> set cs. memGet (scCredentialId x) (wStorage w1) \<noteq> None"
      using k Cons.prems by (auto simp: memGet_def memUpdate_def update_conv split: option.splits)
    from Cons.IH [OF this, of "countSync r c n"] show ?case
      by (auto simp: s bindA_def countSync_def)
  qed (simp add: run_simps)
  have "\<forall>c \<in> set (memGetAll (wStorage w)). memGet (scCredentialId c) (wStorage w) \<noteq> None"
    using assms memory.getAll_get by fastforce
  from each [OF this, of "\<lparr>syDeployed = 0, syPending = 0, syFailed = 0\<rparr>"] show ?thesis
    by (auto simp: credSyncAll_def bindA_def run_simps storageGetAll_def)
qed

text \<open>Where the network answers, a verified credential cannot be deleted and stays as it is.\<close>

lemma delete_refuses_verified:
  assumes "memGet k (wStorage w) = Some c" "hasVerifiedBirth c" "syncAddress E c k = Inr a"
    and "svRpcGetContractData (keServices E) (wTrace w) a = Inr i"
  shows "\<exists>m w'. credDelete E k w = (Inl (JsError m), w') \<and> wStorage w' = wStorage w"
  using assms by (simp add: credDelete_def bindA_def requireCredential_run credSync_run Let_def run_simps)

section \<open>Witnesses\<close>

lemma demo_address: "syncAddress hashEnv verifiedDemo demoKeyId = Inr demoWalletId"
  by (simp add: syncAddress_def deriveContractAddress_def hashEnv_def hashSdk_def demoSdk_def demoEnv_def bindE_def
      demoFromStrkey_def verifiedDemo_def demoWalletId_def)

lemma demo_stored: "memGet demoKeyId (wStorage (storedWorld verifiedDemo)) = Some verifiedDemo"
  by (simp add: storedWorld_def memGet_def verifiedDemo_def)

lemma demo_hasBirth: "hasVerifiedBirth verifiedDemo"
  by (simp add: hasVerifiedBirth_def verifiedDemo_def)

lemma sync_exact_witness:
  "\<exists>w'. credSync hashEnv demoKeyId (storedWorld verifiedDemo) = (Inr True, w') \<and>
     memGet demoKeyId (wStorage w') = Some verifiedDemo"
proof -
  have "svRpcGetContractData (keServices hashEnv) t a = Inr (ExecWasm (replicate 32 0xAB))" for t a
    by (simp add: hashEnv_def demoHistory_def demoServices_def)
  then show ?thesis
    using sync_exact [OF demo_stored, of hashEnv] demo_hasBirth demo_address by auto
qed

lemma outage_lets_delete_witness:
  "\<exists>w'. credDelete (hashEnv\<lparr>keServices := demoHistory\<lparr>svRpcGetContractData := (\<lambda>t c. Inl (JsError ''offline''))\<rparr>\<rparr>)
     demoKeyId (storedWorld verifiedDemo) = (Inr (), w') \<and> memGet demoKeyId (wStorage w') = None"
proof (rule outage_lets_delete [OF demo_stored demo_hasBirth])
  show "syncAddress (hashEnv\<lparr>keServices := demoHistory\<lparr>svRpcGetContractData := (\<lambda>t c. Inl (JsError ''offline''))\<rparr>\<rparr>)
      verifiedDemo demoKeyId = Inr demoWalletId"
    using demo_address by (simp add: syncAddress_def hashEnv_def)
qed simp

lemma syncAll_counts_every_credential_witness:
  "\<exists>n w'. credSyncAll hashEnv (storedWorld verifiedDemo) = (Inr n, w') \<and> syDeployed n + syPending n + syFailed n = 1"
proof -
  have "memOk (wStorage (storedWorld verifiedDemo))"
    by (simp add: memOk_def credentialsOk_def storedWorld_def)
  from syncAll_counts_every_credential [OF this, of hashEnv] show ?thesis
    by (simp add: storedWorld_def memGetAll_def)
qed

end
