(* ===== verification/Kit_Events.thy ===== *)
theory Kit_Events
  imports Kit_World
begin

text \<open>
  \<^verbatim>\<open>src/events.ts\<close>: the event emitter. A listener set is the list of its slots in insertion order, an
  erased listener leaving a hole, which is how JavaScript iterates a \<^verbatim>\<open>Set\<close> that changes meanwhile.
  Sets live in a store, since an unsubscribe function keeps the set it was made for while the
  emitter may drop it. What a listener does (to the emitter as well) is a parameter.
\<close>

section \<open>Listeners\<close>

datatype event_name = NWalletConnected | NWalletDisconnected | NCredentialCreated | NCredentialDeleted
  | NSessionExpired | NTransactionSigned | NTransactionSubmitted

fun eventName :: "kit_event \<Rightarrow> event_name" where
  "eventName (WalletConnected c k) = NWalletConnected"
| "eventName (WalletDisconnected c) = NWalletDisconnected"
| "eventName (CredentialCreated c) = NCredentialCreated"
| "eventName (CredentialDeleted k) = NCredentialDeleted"
| "eventName (SessionExpired c k) = NSessionExpired"
| "eventName (TransactionSigned c k) = NTransactionSigned"
| "eventName (TransactionSubmitted h s) = NTransactionSubmitted"

text \<open>
  A listener is a function object of the caller, by identity, or the wrapper \<^verbatim>\<open>once\<close> makes around one:
  a fresh object, by token, that knows the set it is in.
\<close>

datatype listener = Fn nat | OnceFn nat nat nat

datatype emitter_log = Called nat kit_event | Handled event_name kit_error

record emitter =
  evMap :: "(event_name \<times> nat) list"
  evSets :: "listener option list list"
  evTokens :: nat
  evHandler :: bool
  evLog :: "emitter_log list"

definition newEmitter :: emitter where
  "newEmitter = \<lparr>evMap = [], evSets = [], evTokens = 0, evHandler = True, evLog = []\<rparr>"

section \<open>Sets with holes\<close>

definition setHas :: "listener option list \<Rightarrow> listener \<Rightarrow> bool" where
  "setHas s l \<longleftrightarrow> Some l \<in> set s"

definition setAdd :: "listener \<Rightarrow> listener option list \<Rightarrow> listener option list" where
  "setAdd l s = (if setHas s l then s else s @ [Some l])"

definition setErase :: "listener \<Rightarrow> listener option list \<Rightarrow> listener option list" where
  "setErase l s = map (\<lambda>x. if x = Some l then None else x) s"

definition setMembers :: "listener option list \<Rightarrow> listener list" where
  "setMembers s = List.map_filter id s"

section \<open>Operations\<close>

definition setErrorHandler :: "bool \<Rightarrow> emitter \<Rightarrow> emitter" where
  "setErrorHandler h em = em\<lparr>evHandler := h\<rparr>"

text \<open>The set of an event, made and recorded when it is missing.\<close>

definition ensureSet :: "event_name \<Rightarrow> emitter \<Rightarrow> nat \<times> emitter" where
  "ensureSet e em = (case map_of (evMap em) e of
     Some i \<Rightarrow> (i, em)
   | None \<Rightarrow> (length (evSets em), em\<lparr>evMap := evMap em @ [(e, length (evSets em))], evSets := evSets em @ [[]]\<rparr>))"

text \<open>\<^verbatim>\<open>on\<close> returns the unsubscribe function: the set it erases from and the listener.\<close>

definition evOn :: "event_name \<Rightarrow> listener \<Rightarrow> emitter \<Rightarrow> (nat \<times> listener) \<times> emitter" where
  "evOn e l em = (case ensureSet e em of (i, em1) \<Rightarrow>
     ((i, l), em1\<lparr>evSets := (evSets em1)[i := setAdd l (evSets em1 ! i)]\<rparr>))"

definition evUnsubscribe :: "nat \<times> listener \<Rightarrow> emitter \<Rightarrow> emitter" where
  "evUnsubscribe u em = em\<lparr>evSets := (evSets em)[fst u := setErase (snd u) (evSets em ! fst u)]\<rparr>"

definition evOnce :: "event_name \<Rightarrow> nat \<Rightarrow> emitter \<Rightarrow> (nat \<times> listener) \<times> emitter" where
  "evOnce e f em = (case ensureSet e em of (i, em1) \<Rightarrow>
     evOn e (OnceFn (evTokens em1) i f) (em1\<lparr>evTokens := evTokens em1 + 1\<rparr>))"

definition evOff :: "event_name \<Rightarrow> listener \<Rightarrow> emitter \<Rightarrow> emitter" where
  "evOff e l em = (case map_of (evMap em) e of None \<Rightarrow> em | Some i \<Rightarrow> evUnsubscribe (i, l) em)"

text \<open>\<open>run f data em\<close> is the caller's function \<open>f\<close>: what it makes of the emitter, and what it throws.\<close>

type_synonym behaviour = "nat \<Rightarrow> kit_event \<Rightarrow> emitter \<Rightarrow> emitter \<times> kit_error option"

definition callFn :: "behaviour \<Rightarrow> nat \<Rightarrow> kit_event \<Rightarrow> emitter \<Rightarrow> emitter \<times> kit_error option" where
  "callFn run f data em = run f data (em\<lparr>evLog := evLog em @ [Called f data]\<rparr>)"

fun callListener :: "behaviour \<Rightarrow> kit_event \<Rightarrow> listener \<Rightarrow> emitter \<Rightarrow> emitter \<times> kit_error option" where
  "callListener run data (Fn f) em = callFn run f data em"
| "callListener run data (OnceFn token i f) em = callFn run f data (evUnsubscribe (i, OnceFn token i f) em)"

definition isolate :: "behaviour \<Rightarrow> kit_event \<Rightarrow> listener \<Rightarrow> emitter \<Rightarrow> emitter" where
  "isolate run data l em = (case callListener run data l em of (em1, thrown) \<Rightarrow>
     (case thrown of
        None \<Rightarrow> em1
      | Some err \<Rightarrow> if evHandler em1 then em1\<lparr>evLog := evLog em1 @ [Handled (eventName data) err]\<rparr> else em1))"

text \<open>The iteration over set \<open>i\<close> from slot \<open>n\<close> on; it may not end where listeners keep subscribing.\<close>

partial_function (option) emitFrom :: "behaviour \<Rightarrow> kit_event \<Rightarrow> nat \<Rightarrow> nat \<Rightarrow> emitter \<Rightarrow> emitter option" where
  "emitFrom run data i n em =
     (if length (evSets em ! i) \<le> n then Some em
      else (case evSets em ! i ! n of
          None \<Rightarrow> emitFrom run data i (Suc n) em
        | Some l \<Rightarrow> emitFrom run data i (Suc n) (isolate run data l em)))"

definition evEmit :: "behaviour \<Rightarrow> kit_event \<Rightarrow> emitter \<Rightarrow> emitter option" where
  "evEmit run data em = (case map_of (evMap em) (eventName data) of
     None \<Rightarrow> Some em
   | Some i \<Rightarrow> emitFrom run data i 0 em)"

definition evRemoveAll :: "event_name option \<Rightarrow> emitter \<Rightarrow> emitter" where
  "evRemoveAll e em = (case e of
     Some n \<Rightarrow> em\<lparr>evMap := AList.delete n (evMap em)\<rparr>
   | None \<Rightarrow> em\<lparr>evMap := []\<rparr>)"

definition listenerCount :: "event_name \<Rightarrow> emitter \<Rightarrow> nat" where
  "listenerCount e em = (case map_of (evMap em) e of
     None \<Rightarrow> 0 | Some i \<Rightarrow> length (setMembers (evSets em ! i)))"

section \<open>Delivery\<close>

fun listenerFn :: "listener \<Rightarrow> nat" where
  "listenerFn (Fn f) = f"
| "listenerFn (OnceFn token i f) = f"

fun isOnce :: "listener \<Rightarrow> bool" where
  "isOnce (Fn f) = False"
| "isOnce (OnceFn token i f) = True"

fun calledWith :: "emitter_log \<Rightarrow> (nat \<times> kit_event) option" where
  "calledWith (Called f data) = Some (f, data)"
| "calledWith (Handled e err) = None"

definition callsIn :: "emitter_log list \<Rightarrow> (nat \<times> kit_event) list" where
  "callsIn xs = List.map_filter calledWith xs"

lemma callsIn_simps [simp]:
  "callsIn [] = []" "callsIn (xs @ ys) = callsIn xs @ callsIn ys" "callsIn [Called f data] = [(f, data)]"
  "callsIn [Handled e err] = []"
  by (simp_all add: callsIn_def List.map_filter_def)

text \<open>Functions that leave the emitter alone; they may throw. Sets with distinct members, each once-wrapper in its own set.\<close>

definition leavesAlone :: "behaviour \<Rightarrow> bool" where
  "leavesAlone run \<longleftrightarrow> (\<forall>f data em. fst (run f data em) = em)"

definition emitterOk :: "emitter \<Rightarrow> bool" where
  "emitterOk em \<longleftrightarrow> (\<forall>(e, i) \<in> set (evMap em). i < length (evSets em)) \<and>
     (\<forall>i < length (evSets em). distinct (setMembers (evSets em ! i)) \<and>
       (\<forall>l \<in> set (setMembers (evSets em ! i)). case l of OnceFn token j f \<Rightarrow> j = i | Fn f \<Rightarrow> True))"

lemma setMembers_simps [simp]:
  "setMembers [] = []" "setMembers (None # s) = setMembers s" "setMembers (Some l # s) = l # setMembers s"
  "setMembers (s @ t) = setMembers s @ setMembers t"
  by (simp_all add: setMembers_def List.map_filter_def)

lemma set_setMembers: "l \<in> set (setMembers s) \<longleftrightarrow> Some l \<in> set s"
  by (induction s) (auto split: option.splits elim: option.exhaust, (case_tac a; auto)+)

lemma setMembers_erase: "setMembers (setErase l s) = filter (\<lambda>x. x \<noteq> l) (setMembers s)"
proof (induction s)
  case (Cons a s)
  then show ?case by (cases a) (auto simp: setErase_def)
qed (simp add: setErase_def)

lemma erase_absent: "Some l \<notin> set s \<Longrightarrow> setErase l s = s"
  by (induction s) (auto simp: setErase_def)

lemma length_erase [simp]: "length (setErase l s) = length s"
  by (simp add: setErase_def)

text \<open>What isolating one listener does, where functions leave the emitter alone.\<close>

definition erasedBy :: "listener \<Rightarrow> emitter \<Rightarrow> listener option list list" where
  "erasedBy l em = (case l of Fn f \<Rightarrow> evSets em
     | OnceFn token i f \<Rightarrow> (evSets em)[i := setErase l (evSets em ! i)])"

lemma isolate_plain:
  assumes "leavesAlone run"
  shows "evSets (isolate run data l em) = erasedBy l em" "evMap (isolate run data l em) = evMap em"
    "callsIn (evLog (isolate run data l em)) = callsIn (evLog em) @ [(listenerFn l, data)]"
proof -
  have r: "fst (run f d e) = e" for f d e using assms by (simp add: leavesAlone_def)
  have "\<exists>t. callListener run data l em = (t, snd (callListener run data l em)) \<and> evSets t = erasedBy l em \<and>
      evMap t = evMap em \<and> callsIn (evLog t) = callsIn (evLog em) @ [(listenerFn l, data)]"
    by (cases l) (simp_all add: callFn_def r erasedBy_def evUnsubscribe_def surjective_pairing [symmetric] prod_eq_iff)
  then obtain t where t: "callListener run data l em = (t, snd (callListener run data l em))" "evSets t = erasedBy l em"
    "evMap t = evMap em" "callsIn (evLog t) = callsIn (evLog em) @ [(listenerFn l, data)]" by blast
  show "evSets (isolate run data l em) = erasedBy l em" "evMap (isolate run data l em) = evMap em"
    "callsIn (evLog (isolate run data l em)) = callsIn (evLog em) @ [(listenerFn l, data)]"
    using t(2-4) by (subst isolate_def, subst t(1), simp split: option.splits)+
qed

definition deliver :: "behaviour \<Rightarrow> kit_event \<Rightarrow> listener list \<Rightarrow> emitter \<Rightarrow> emitter" where
  "deliver run data ls em = foldl (\<lambda>em l. isolate run data l em) em ls"

lemma deliver_simps [simp]:
  "deliver run data [] em = em" "deliver run data (l # ls) em = deliver run data ls (isolate run data l em)"
  by (simp_all add: deliver_def)

definition inSet :: "nat \<Rightarrow> listener \<Rightarrow> bool" where
  "inSet i l \<longleftrightarrow> (case l of OnceFn token j f \<Rightarrow> j = i | Fn f \<Rightarrow> True)"

lemma erasedBy_set:
  "inSet i l \<Longrightarrow> i < length (evSets em) \<Longrightarrow>
     erasedBy l em ! i = (if isOnce l then setErase l (evSets em ! i) else evSets em ! i)"
  by (cases l) (simp_all add: erasedBy_def inSet_def)

lemma length_erasedBy [simp]: "length (erasedBy l em) = length (evSets em)"
  by (cases l) (simp_all add: erasedBy_def)

lemma emitFrom_delivers:
  assumes "leavesAlone run" "i < length (evSets em)" "distinct (setMembers (evSets em ! i))"
    and "\<forall>l \<in> set (setMembers (evSets em ! i)). inSet i l"
  shows "emitFrom run data i n em = Some (deliver run data (setMembers (drop n (evSets em ! i))) em)"
  using assms(2-4)
proof (induction "length (evSets em ! i) - n" arbitrary: n em)
  case 0
  then show ?case by (subst emitFrom.simps) simp
next
  case (Suc k)
  let ?s = "evSets em ! i"
  have n: "n < length ?s" using Suc.hyps(2) by simp
  then have d: "drop n ?s = ?s ! n # drop (Suc n) ?s" by (simp add: Cons_nth_drop_Suc)
  show ?case
  proof (cases "?s ! n")
    case None
    then have "emitFrom run data i n em = emitFrom run data i (Suc n) em"
      using n by (subst emitFrom.simps) simp
    with Suc.hyps(1) [of em "Suc n"] Suc.hyps(2) Suc.prems None d show ?thesis by simp
  next
    case (Some l)
    define em1 where "em1 = isolate run data l em"
    have l: "Some l \<in> set ?s" using Some n by (metis nth_mem)
    have in_i: "inSet i l" using Suc.prems(3) l by (simp add: set_setMembers)
    have split: "?s = take n ?s @ Some l # drop (Suc n) ?s" using Some n by (metis id_take_nth_drop)
    have absent: "Some l \<notin> set (drop (Suc n) ?s)" "Some l \<notin> set (take n ?s)"
      using Suc.prems(2) by (subst (asm) split, simp add: set_setMembers [symmetric])+
    have s1: "evSets em1 ! i = (if isOnce l then setErase l ?s else ?s)" "length (evSets em1) = length (evSets em)"
      using isolate_plain(1) [OF assms(1)] erasedBy_set [OF in_i Suc.prems(1)] by (simp_all add: em1_def)
    have "drop (Suc n) (setErase l ?s) = setErase l (drop (Suc n) ?s)" by (simp add: setErase_def drop_map)
    then have d1: "drop (Suc n) (evSets em1 ! i) = drop (Suc n) ?s"
      by (simp add: s1 erase_absent [OF absent(1)])
    have m1: "setMembers (evSets em1 ! i) = filter (\<lambda>x. isOnce l \<longrightarrow> x \<noteq> l) (setMembers ?s)"
      by (simp add: s1 setMembers_erase)
    have "emitFrom run data i n em = emitFrom run data i (Suc n) em1"
      using n Some by (subst emitFrom.simps) (simp add: em1_def)
    also have "\<dots> = Some (deliver run data (setMembers (drop (Suc n) (evSets em1 ! i))) em1)"
      by (rule Suc.hyps(1)) (use Suc.hyps(2) Suc.prems s1 m1 in auto)
    finally show ?thesis unfolding d1 d Some by (simp add: em1_def)
  qed
qed

lemma deliver_calls:
  assumes "leavesAlone run"
  shows "callsIn (evLog (deliver run data ls em)) = callsIn (evLog em) @ map (\<lambda>l. (listenerFn l, data)) ls"
    "evMap (deliver run data ls em) = evMap em"
  by (induction ls arbitrary: em) (simp_all add: isolate_plain [OF assms])

lemma deliver_members:
  assumes "leavesAlone run" "\<forall>l \<in> set ls. inSet i l" "i < length (evSets em)"
  shows "setMembers (evSets (deliver run data ls em) ! i) =
     filter (\<lambda>x. \<not> (isOnce x \<and> x \<in> set ls)) (setMembers (evSets em ! i))"
  using assms(2,3)
proof (induction ls arbitrary: em)
  case (Cons l ls)
  have s: "evSets (isolate run data l em) ! i = (if isOnce l then setErase l (evSets em ! i) else evSets em ! i)"
    using isolate_plain(1) [OF assms(1)] erasedBy_set [of i l em] Cons.prems by simp
  have "setMembers (evSets (deliver run data ls (isolate run data l em)) ! i) =
      filter (\<lambda>x. \<not> (isOnce x \<and> x \<in> set ls)) (setMembers (evSets (isolate run data l em) ! i))"
    using Cons.prems isolate_plain(1) [OF assms(1)] by (intro Cons.IH) simp_all
  then show ?case by (auto simp: s setMembers_erase intro: filter_cong)
qed simp

text \<open>
  C24. An emission ends and calls every listener of the event exactly once, in the order of subscription,
  whichever of them throw; afterwards exactly the once-listeners are gone.
\<close>

theorem emit_delivers_to_all:
  assumes "leavesAlone run" "emitterOk em" "map_of (evMap em) (eventName data) = Some i"
  shows "\<exists>em'. evEmit run data em = Some em' \<and>
     callsIn (evLog em') = callsIn (evLog em) @ map (\<lambda>l. (listenerFn l, data)) (setMembers (evSets em ! i)) \<and>
     map_of (evMap em') (eventName data) = Some i \<and>
     setMembers (evSets em' ! i) = filter (\<lambda>l. \<not> isOnce l) (setMembers (evSets em ! i))"
proof -
  have i: "i < length (evSets em)" using assms(2,3) by (auto simp: emitterOk_def dest: map_of_SomeD)
  then have d: "distinct (setMembers (evSets em ! i))" "\<forall>l \<in> set (setMembers (evSets em ! i)). inSet i l"
    using assms(2) by (auto simp: emitterOk_def inSet_def)
  show ?thesis
    using assms(3) emitFrom_delivers [OF assms(1) i d, of data 0] deliver_members [OF assms(1) d(2) i]
    by (auto simp: evEmit_def deliver_calls [OF assms(1)] intro: filter_cong)
qed

text \<open>Subscribing keeps the emitter well formed, once-wrappers included.\<close>

lemma ensureSet_ok:
  assumes "emitterOk em" "ensureSet e em = (i, em1)"
  shows "emitterOk em1 \<and> i < length (evSets em1) \<and> map_of (evMap em1) e = Some i \<and> evTokens em1 = evTokens em"
proof (cases "map_of (evMap em) e")
  case None
  then have "i = length (evSets em)"
    "em1 = em\<lparr>evMap := evMap em @ [(e, length (evSets em))], evSets := evSets em @ [[]]\<rparr>"
    using assms(2) by (auto simp: ensureSet_def)
  with assms(1) None show ?thesis
    by (auto simp: emitterOk_def nth_append map_add_def less_Suc_eq split: if_splits)
next
  case (Some j)
  with assms show ?thesis by (auto simp: ensureSet_def emitterOk_def dest: map_of_SomeD)
qed

lemma evOn_ok:
  assumes "emitterOk em" "evOn e l em = (u, em')" "case l of OnceFn token j f \<Rightarrow> map_of (evMap em) e = Some j | Fn f \<Rightarrow> True"
  shows "emitterOk em'"
proof -
  obtain i em1 where s: "ensureSet e em = (i, em1)" by (cases "ensureSet e em")
  note k = ensureSet_ok [OF assms(1) s]
  have "case l of OnceFn token j f \<Rightarrow> j = i | Fn f \<Rightarrow> True"
    using assms(3) s by (auto simp: ensureSet_def split: listener.splits option.splits)
  with k assms(2) s show ?thesis
    by (auto simp: evOn_def emitterOk_def setAdd_def setHas_def set_setMembers nth_list_update split: if_splits)
qed

section \<open>Witness\<close>

definition demoEmitter :: emitter where
  "demoEmitter = snd (evOnce NWalletConnected 7 (snd (evOn NWalletConnected (Fn 3) newEmitter)))"

definition throwingFns :: behaviour where
  "throwingFns f data em = (em, Some (JsError ''listener''))"

lemma emit_delivers_to_all_witness:
  "\<exists>em'. evEmit throwingFns (WalletConnected ''C'' ''k'') demoEmitter = Some em' \<and>
     callsIn (evLog em') = [(3, WalletConnected ''C'' ''k''), (7, WalletConnected ''C'' ''k'')] \<and>
     setMembers (evSets em' ! 0) = [Fn 3]"
proof -
  have l: "leavesAlone throwingFns" by (simp add: leavesAlone_def throwingFns_def)
  have e: "demoEmitter = \<lparr>evMap = [(NWalletConnected, 0)], evSets = [[Some (Fn 3), Some (OnceFn 0 0 7)]], evTokens = 1,
      evHandler = True, evLog = []\<rparr>"
    by (simp add: demoEmitter_def evOnce_def evOn_def ensureSet_def newEmitter_def setAdd_def setHas_def)
  have ok: "emitterOk demoEmitter" and m: "map_of (evMap demoEmitter) (eventName (WalletConnected ''C'' ''k'')) = Some 0"
    by (simp_all add: e emitterOk_def)
  show ?thesis using emit_delivers_to_all [OF l ok m] by (auto simp: e)
qed

end
