(* ===== verification/Kit_WalletAdapter.thy ===== *)
theory Kit_WalletAdapter
  imports Kit_ContextRules
begin

text \<open>
  \<^verbatim>\<open>src/wallet-adapter.ts\<close>: the adapter for StellarWalletsKit, with the wallets it is connected to.
  What the wallet kit answers (its import, its modal, an address, a signature) is an input of the
  operation that asks. The interface other components use is the locale \<open>wallet_interface\<close>.
\<close>

section \<open>The interface\<close>

record ext_wallet =
  xwAddress :: string
  xwId :: string
  xwName :: string

text \<open>
  \<^verbatim>\<open>ExternalWalletAdapter\<close> over the adapter's own state: the connected wallets and whether an address
  is one of them; the optional operations are options.
\<close>

record 'a wallet_ops =
  woConnect :: "'a \<Rightarrow> ext_wallet option result \<times> 'a"
  woDisconnect :: "'a \<Rightarrow> unit result \<times> 'a"
  woSign :: "'a \<Rightarrow> string \<Rightarrow> string \<Rightarrow> string \<Rightarrow> (string \<times> string option) result"
  woWallets :: "'a \<Rightarrow> ext_wallet list"
  woCanSign :: "'a \<Rightarrow> string \<Rightarrow> bool"
  woReconnect :: "(string \<Rightarrow> 'a \<Rightarrow> ext_wallet option result \<times> 'a) option"
  woDisconnectBy :: "(string \<Rightarrow> 'a \<Rightarrow> 'a) option"

locale wallet_interface =
  fixes W :: "'a wallet_ops" and ok :: "'a \<Rightarrow> bool"
  assumes canSign_wallets: "ok s \<Longrightarrow> woCanSign W s a \<longleftrightarrow> a \<in> xwAddress ` set (woWallets W s)"
    and disconnectBy_wallets: "ok s \<Longrightarrow> woDisconnectBy W = Some d \<Longrightarrow>
      woWallets W (d a s) = filter (\<lambda>x. xwAddress x \<noteq> a) (woWallets W s)"
    and disconnectBy_ok: "ok s \<Longrightarrow> woDisconnectBy W = Some d \<Longrightarrow> ok (d a s)"
    and wallets_distinct: "ok s \<Longrightarrow> distinct (map xwAddress (woWallets W s))"
begin

lemma disconnected: "ok s \<Longrightarrow> woDisconnectBy W = Some d \<Longrightarrow> \<not> woCanSign W (d a s) a"
  by (auto simp: canSign_wallets [OF disconnectBy_ok] disconnectBy_wallets)

lemma disconnect_others:
  "ok s \<Longrightarrow> woDisconnectBy W = Some d \<Longrightarrow> b \<noteq> a \<Longrightarrow> woCanSign W (d a s) b \<longleftrightarrow> woCanSign W s b"
  by (auto simp: canSign_wallets canSign_wallets [OF disconnectBy_ok] disconnectBy_wallets)

end

section \<open>The adapter\<close>

definition contains :: "string \<Rightarrow> string \<Rightarrow> bool" where
  "contains part s = anywhere (startsWith part) s"

definition isUserCancellation :: "kit_error \<Rightarrow> bool" where
  "isUserCancellation err = (let message = toLower (errorMessage err) in
     contains ''user rejected'' message \<or> contains ''user denied'' message \<or> contains ''user cancel'' message \<or>
     contains ''modal closed'' message \<or> contains ''user closed'' message \<or> contains ''dismiss'' message \<or>
     contains ''user did not'' message)"

record adapter =
  adNetwork :: string
  adInitialized :: bool
  adWallets :: "(string \<times> ext_wallet) list"
  adNotified :: "(bool \<times> ext_wallet option) list"

definition newAdapter :: "string option \<Rightarrow> adapter" where
  "newAdapter network = \<lparr>adNetwork = (if truthy network then the network else ''Test SDF Network ; September 2015''),
     adInitialized = False, adWallets = [], adNotified = []\<rparr>"

definition adInit :: "unit result \<Rightarrow> adapter \<Rightarrow> unit result \<times> adapter" where
  "adInit imported s =
     (if adInitialized s then (Inr (), s)
      else (case imported of
          Inr _ \<Rightarrow> (Inr (), s\<lparr>adInitialized := True\<rparr>)
        | Inl e \<Rightarrow> (Inl (SmartAccountError (''Failed to initialize StellarWalletsKitAdapter. '' @
            ''Make sure @creit-tech/stellar-wallets-kit is installed: pnpm add @creit-tech/stellar-wallets-kit'')
            MISSING_CONFIG), s)))"

definition ensureInitialized :: "adapter \<Rightarrow> unit result" where
  "ensureInitialized s = (if adInitialized s then Inr ()
     else Inl (JsError ''StellarWalletsKitAdapter not initialized. Call init() first.''))"

definition notifyAdapter :: "bool \<Rightarrow> ext_wallet option \<Rightarrow> adapter \<Rightarrow> adapter" where
  "notifyAdapter isUp x s = s\<lparr>adNotified := adNotified s @ [(isUp, x)]\<rparr>"

text \<open>An address the kit answers, and the id and name of its selected module.\<close>

type_synonym kit_address = "string option \<times> (string \<times> string) option"

definition trackWallet :: "kit_address \<Rightarrow> string \<Rightarrow> string \<Rightarrow> adapter \<Rightarrow> ext_wallet option \<times> adapter" where
  "trackWallet answer defaultId defaultName s =
     (if truthy (fst answer)
      then let x = \<lparr>xwAddress = the (fst answer),
            xwId = (case snd answer of Some m \<Rightarrow> fst m | None \<Rightarrow> defaultId),
            xwName = (case snd answer of Some m \<Rightarrow> snd m | None \<Rightarrow> defaultName)\<rparr> in
        (Some x, notifyAdapter True (Some x) (s\<lparr>adWallets := AList.update (xwAddress x) x (adWallets s)\<rparr>))
      else (None, s))"

definition adConnect :: "kit_address result \<Rightarrow> adapter \<Rightarrow> ext_wallet option result \<times> adapter" where
  "adConnect modal s = (case ensureInitialized s of
     Inl e \<Rightarrow> (Inl e, s)
   | Inr _ \<Rightarrow> (case modal of
       Inr answer \<Rightarrow> (case trackWallet answer ''unknown'' ''Unknown Wallet'' s of (x, s') \<Rightarrow> (Inr x, s'))
     | Inl err \<Rightarrow>
         if isUserCancellation err then (Inr None, s)
         else (Inl (SmartAccountError (''Wallet connection failed: '' @ errorMessage err) WALLET_NOT_CONNECTED), s)))"

definition adReconnect :: "(string \<Rightarrow> kit_address result) \<Rightarrow> string \<Rightarrow> adapter \<Rightarrow> ext_wallet option result \<times> adapter" where
  "adReconnect getAddress walletId s = (case ensureInitialized s of
     Inl e \<Rightarrow> (Inl e, s)
   | Inr _ \<Rightarrow> (case getAddress walletId of
       Inr answer \<Rightarrow> (case trackWallet answer walletId walletId s of (x, s') \<Rightarrow> (Inr x, s'))
     | Inl err \<Rightarrow> (Inr None, s)))"

definition adDisconnect :: "unit result \<Rightarrow> adapter \<Rightarrow> unit result \<times> adapter" where
  "adDisconnect answer s = (case bindE (ensureInitialized s) (\<lambda>_. answer) of
     Inl e \<Rightarrow> (Inl e, s)
   | Inr _ \<Rightarrow> (Inr (), notifyAdapter False None (s\<lparr>adWallets := []\<rparr>)))"

definition adDisconnectBy :: "string \<Rightarrow> adapter \<Rightarrow> adapter" where
  "adDisconnectBy address s =
     (let s' = s\<lparr>adWallets := AList.delete address (adWallets s)\<rparr> in
      if adWallets s' = [] then notifyAdapter False None s' else s')"

text \<open>The address and the network that a signature is asked of the kit for.\<close>

definition adSignRequest :: "string option \<Rightarrow> string option \<Rightarrow> adapter \<Rightarrow> (string \<times> string) result" where
  "adSignRequest network address s = bindE (ensureInitialized s) (\<lambda>_.
     if truthy address \<and> the address \<notin> fst ` set (adWallets s)
     then Inl (JsError (''No wallet connected for address '' @ the address))
     else if \<not> truthy address \<and> adWallets s = [] then Inl (JsError ''No wallet connected'')
     else Inr (if truthy address then the address else fst (hd (adWallets s)),
       if truthy network then the network else adNetwork s))"

definition adSign ::
    "(string \<Rightarrow> string \<Rightarrow> string \<Rightarrow> (string \<times> string option) result) \<Rightarrow> adapter \<Rightarrow> string \<Rightarrow> string \<Rightarrow> string \<Rightarrow>
     (string \<times> string option) result" where
  "adSign kitSign s entryXdr network address =
     bindE (adSignRequest (Some network) (Some address) s) (\<lambda>(a, n). kitSign entryXdr n a)"

definition adCanSign :: "adapter \<Rightarrow> string \<Rightarrow> bool" where
  "adCanSign s address \<longleftrightarrow> map_of (adWallets s) address \<noteq> None"

definition adWalletFor :: "string \<Rightarrow> adapter \<Rightarrow> ext_wallet option" where
  "adWalletFor address s = map_of (adWallets s) address"

definition adConnected :: "adapter \<Rightarrow> ext_wallet list" where
  "adConnected s = map snd (adWallets s)"

definition adIsConnected :: "adapter \<Rightarrow> bool" where
  "adIsConnected s \<longleftrightarrow> adWallets s \<noteq> []"

section \<open>The adapter provides the interface\<close>

text \<open>Every wallet is kept under its own address, once.\<close>

definition adapterOk :: "adapter \<Rightarrow> bool" where
  "adapterOk s \<longleftrightarrow> distinct (map fst (adWallets s)) \<and> list_all (\<lambda>(a, x). xwAddress x = a) (adWallets s)"

definition adapterOps ::
    "kit_address result \<Rightarrow> unit result \<Rightarrow> (string \<Rightarrow> kit_address result) \<Rightarrow>
     (string \<Rightarrow> string \<Rightarrow> string \<Rightarrow> (string \<times> string option) result) \<Rightarrow> adapter wallet_ops" where
  "adapterOps modal disconnected getAddress kitSign = \<lparr>woConnect = adConnect modal, woDisconnect = adDisconnect disconnected,
     woSign = adSign kitSign, woWallets = adConnected, woCanSign = adCanSign,
     woReconnect = Some (adReconnect getAddress), woDisconnectBy = Some adDisconnectBy\<rparr>"

lemma adapterOk_keys: "adapterOk s \<Longrightarrow> map xwAddress (adConnected s) = map fst (adWallets s)"
  by (auto simp: adapterOk_def adConnected_def list_all_iff)

lemma adDisconnectBy_wallets [simp]: "adWallets (adDisconnectBy a s) = AList.delete a (adWallets s)"
  by (simp add: adDisconnectBy_def Let_def notifyAdapter_def)

lemma adapterOk_delete: "adapterOk s \<Longrightarrow> adapterOk (adDisconnectBy a s)"
proof -
  assume ok: "adapterOk s"
  then have "distinct (map fst (AList.delete a (adWallets s)))" by (simp add: adapterOk_def distinct_delete)
  moreover have "list_all (\<lambda>(a, x). xwAddress x = a) (AList.delete a (adWallets s))"
    using ok by (auto simp: adapterOk_def list_all_iff AList.delete_eq)
  ultimately show ?thesis by (simp add: adapterOk_def)
qed

lemma adapterOk_track:
  assumes "adapterOk s" "trackWallet answer i n s = (x, s')"
  shows "adapterOk s'"
proof -
  have u: "list_all (\<lambda>(a, x). xwAddress x = a) cs \<Longrightarrow> xwAddress y = k \<Longrightarrow>
      list_all (\<lambda>(a, x). xwAddress x = a) (AList.update k y cs)" for cs y k
    by (induction cs) auto
  show ?thesis
    using assms
    by (auto simp: trackWallet_def Let_def notifyAdapter_def adapterOk_def distinct_update intro!: u split: if_splits)
qed



interpretation swk: wallet_interface "adapterOps modal disconnected getAddress kitSign" adapterOk
  for modal disconnected getAddress kitSign
proof
  fix s a d assume k: "adapterOk s"
  have m: "xwAddress ` set (adConnected s) = fst ` set (adWallets s)"
    using adapterOk_keys [OF k] by (metis list.set_map)
  show "woCanSign (adapterOps modal disconnected getAddress kitSign) s a \<longleftrightarrow>
      a \<in> xwAddress ` set (woWallets (adapterOps modal disconnected getAddress kitSign) s)"
    by (simp add: adapterOps_def adCanSign_def m map_of_eq_None_iff)
  show "distinct (map xwAddress (woWallets (adapterOps modal disconnected getAddress kitSign) s))"
    using k adapterOk_keys [OF k] by (simp add: adapterOps_def adapterOk_def)
  assume "woDisconnectBy (adapterOps modal disconnected getAddress kitSign) = Some d"
  then have d: "d = adDisconnectBy" by (simp add: adapterOps_def)
  have "map snd (AList.delete a (adWallets s)) = filter (\<lambda>x. xwAddress x \<noteq> a) (map snd (adWallets s))"
    using k by (auto simp: adapterOk_def AList.delete_eq filter_map list_all_iff comp_def intro!: filter_cong
        arg_cong [of _ _ "map snd"])
  then show "woWallets (adapterOps modal disconnected getAddress kitSign) (d a s) =
      filter (\<lambda>x. xwAddress x \<noteq> a) (woWallets (adapterOps modal disconnected getAddress kitSign) s)"
    by (simp add: d adapterOps_def adConnected_def)
  show "adapterOk (d a s)" using k by (simp add: d adapterOk_delete)
qed

end
