(* ===== verification/Kit_ExternalSigners.thy ===== *)
theory Kit_ExternalSigners
  imports Kit_Signing Kit_WalletAdapter
begin

text \<open>
  \<^verbatim>\<open>src/external-signers.ts\<close>: the manager of account signers, which are keypairs in memory, Ed25519
  signers in memory, or wallets of an adapter whose connections are remembered in a text storage.
  The adapter is any implementation of its interface, over a state of its own; keypairs and
  base64 come from the SDK.
\<close>

section \<open>State\<close>

record stored_wallet =
  swAddress :: string
  swWalletId :: string
  swName :: string
  swConnectedAt :: nat

text \<open>The text under \<^verbatim>\<open>external_wallets\<close>: absent, not JSON, or the stored connections.\<close>

record 'a ext_manager =
  xmNetwork :: string
  xmKeypairs :: "(string \<times> keypair) list"
  xmEd25519 :: "(string \<times> string \<times> digest_signer) list"
  xmAdapter :: "'a option"
  xmStorage :: "stored_wallet list ls_item option"
  xmRestored :: bool
  xmVerifier :: "string option"

record key_functions =
  kfFromSecret :: "string \<Rightarrow> keypair option"
  kfAddress :: "keypair \<Rightarrow> string"

section \<open>Signers in memory\<close>

definition xmAddFromSecret :: "key_functions \<Rightarrow> string \<Rightarrow> 'a ext_manager \<Rightarrow> string result \<times> 'a ext_manager" where
  "xmAddFromSecret F secretKey m = (case kfFromSecret F secretKey of
     None \<Rightarrow> (Inl (invalidInput ''Invalid secret key. Must be a valid Stellar secret key (S...)''), m)
   | Some kp \<Rightarrow> (Inr (kfAddress F kp), m\<lparr>xmKeypairs := AList.update (kfAddress F kp) kp (xmKeypairs m)\<rparr>))"

definition xmAddEd25519 ::
    "key_functions \<Rightarrow> string \<Rightarrow> string option \<Rightarrow> object_ref \<Rightarrow> 'a ext_manager \<Rightarrow> (string \<times> string) result \<times> 'a ext_manager" where
  "xmAddEd25519 F secretKey verifier ref m =
     (let verifierAddress = (case verifier of Some v \<Rightarrow> Some v | None \<Rightarrow> xmVerifier m) in
      if \<not> truthy verifierAddress
      then (Inl (invalidInput (''An Ed25519 verifier address is required. Configure ed25519VerifierAddress '' @
        ''on the SDK or pass it explicitly to addEd25519FromSecret().'')), m)
      else (case ed25519FromSecret (kfFromSecret F) secretKey (the verifierAddress) ref of
          Inl e \<Rightarrow> (Inl e, m)
        | Inr signer \<Rightarrow>
            let kp = the (kfFromSecret F secretKey); publicKeyHex = toHex (kpPublic kp) in
            (Inr (kfAddress F kp, publicKeyHex),
             m\<lparr>xmEd25519 := AList.update publicKeyHex (kfAddress F kp, signer) (xmEd25519 m)\<rparr>)))"

definition getEd25519Signer :: "buffer \<Rightarrow> 'a ext_manager \<Rightarrow> digest_signer option" where
  "getEd25519Signer keyData m = map_option snd (map_of (xmEd25519 m) (toHex keyData))"

definition canSignEd25519 :: "buffer \<Rightarrow> 'a ext_manager \<Rightarrow> bool" where
  "canSignEd25519 keyData m \<longleftrightarrow> map_of (xmEd25519 m) (toHex keyData) \<noteq> None"

definition ellipsis :: string where "ellipsis = [CHR 0xE2, CHR 0x80, CHR 0xA6]"

definition signEd25519Digest :: "buffer \<Rightarrow> buffer \<Rightarrow> 'a ext_manager \<Rightarrow> buffer result" where
  "signEd25519Digest keyData authDigest m = (case getEd25519Signer keyData m of
     None \<Rightarrow> Inl (SignerNotFoundError (''ed25519:'' @ take 16 (toHex keyData) @ ellipsis)
       (Some ''Use kit.externalSigners.addEd25519FromSecret() to add the signer.''))
   | Some signer \<Rightarrow> dsSign signer authDigest)"

section \<open>Remembered connections\<close>

definition getStoredWallets :: "'a ext_manager \<Rightarrow> stored_wallet list" where
  "getStoredWallets m = (case xmStorage m of Some (JsonItem ws) \<Rightarrow> ws | _ \<Rightarrow> [])"

definition saveWalletToStorage :: "nat \<Rightarrow> ext_wallet \<Rightarrow> 'a ext_manager \<Rightarrow> 'a ext_manager" where
  "saveWalletToStorage now x m = (case xmStorage m of None \<Rightarrow> m | Some _ \<Rightarrow>
     m\<lparr>xmStorage := Some (JsonItem (filter (\<lambda>w. swAddress w \<noteq> xwAddress x) (getStoredWallets m) @
       [\<lparr>swAddress = xwAddress x, swWalletId = xwId x, swName = xwName x, swConnectedAt = now\<rparr>]))\<rparr>)"

definition removeWalletFromStorage :: "string \<Rightarrow> 'a ext_manager \<Rightarrow> 'a ext_manager" where
  "removeWalletFromStorage address m = (case xmStorage m of None \<Rightarrow> m | Some _ \<Rightarrow>
     let filtered = filter (\<lambda>w. swAddress w \<noteq> address) (getStoredWallets m) in
     m\<lparr>xmStorage := Some (if filtered = [] then NoItem else JsonItem filtered)\<rparr>)"

section \<open>Wallets\<close>

definition xmAddFromWallet :: "'a wallet_ops \<Rightarrow> nat \<Rightarrow> 'a ext_manager \<Rightarrow> ext_wallet option result \<times> 'a ext_manager" where
  "xmAddFromWallet W now m = (case xmAdapter m of
     None \<Rightarrow> (Inl (JsError (''No wallet adapter configured. Install @creit-tech/stellar-wallets-kit '' @
       ''and pass a StellarWalletsKitAdapter to the SDK config.'')), m)
   | Some s \<Rightarrow> (case woConnect W s of (r, s') \<Rightarrow>
       let m' = m\<lparr>xmAdapter := Some s'\<rparr> in
       (case r of
          Inl e \<Rightarrow> (Inl e, m')
        | Inr None \<Rightarrow> (Inr None, m')
        | Inr (Some x) \<Rightarrow> (Inr (Some x), saveWalletToStorage now x m'))))"

fun restoreEach ::
    "(string \<Rightarrow> 'a \<Rightarrow> ext_wallet option result \<times> 'a) \<Rightarrow> stored_wallet list \<Rightarrow> 'a ext_manager \<Rightarrow> ext_wallet list \<times> 'a ext_manager" where
  "restoreEach reconnect [] m = ([], m)"
| "restoreEach reconnect (w # ws) m =
     (case reconnect (swWalletId w) (the (xmAdapter m)) of (r, s') \<Rightarrow>
        let m' = m\<lparr>xmAdapter := Some s'\<rparr> in
        (case r of
           Inr (Some x) \<Rightarrow> (case restoreEach reconnect ws m' of (xs, m'') \<Rightarrow> (x # xs, m''))
         | _ \<Rightarrow> restoreEach reconnect ws (removeWalletFromStorage (swAddress w) m')))"

definition restoreConnections :: "'a wallet_ops \<Rightarrow> 'a ext_manager \<Rightarrow> ext_wallet list \<times> 'a ext_manager" where
  "restoreConnections W m =
     (if xmRestored m
      then (case xmAdapter m of None \<Rightarrow> ([], m) | Some s \<Rightarrow> (woWallets W s, m))
      else let m' = m\<lparr>xmRestored := True\<rparr> in
        (case (xmStorage m, xmAdapter m, woReconnect W) of
           (Some _, Some _, Some reconnect) \<Rightarrow> restoreEach reconnect (getStoredWallets m') m'
         | _ \<Rightarrow> ([], m')))"

definition xmRemove :: "'a wallet_ops \<Rightarrow> string \<Rightarrow> 'a ext_manager \<Rightarrow> 'a ext_manager" where
  "xmRemove W address m =
     removeWalletFromStorage address (m\<lparr>xmKeypairs := AList.delete address (xmKeypairs m),
       xmEd25519 := filter (\<lambda>(k, a, s). a \<noteq> address) (xmEd25519 m),
       xmAdapter := (case (xmAdapter m, woDisconnectBy W) of
           (Some s, Some disconnectBy) \<Rightarrow> Some (disconnectBy address s) | (a, _) \<Rightarrow> a)\<rparr>)"

definition xmRemoveAll :: "'a wallet_ops \<Rightarrow> 'a ext_manager \<Rightarrow> unit result \<times> 'a ext_manager" where
  "xmRemoveAll W m =
     (let m' = m\<lparr>xmKeypairs := [], xmEd25519 := []\<rparr>;
          clear = (\<lambda>m. m\<lparr>xmStorage := map_option (\<lambda>_. NoItem) (xmStorage m)\<rparr>) in
      (case xmAdapter m' of
         None \<Rightarrow> (Inr (), clear m')
       | Some s \<Rightarrow> (case woDisconnect W s of
           (Inl e, s') \<Rightarrow> (Inl e, m'\<lparr>xmAdapter := Some s'\<rparr>)
         | (Inr _, s') \<Rightarrow> (Inr (), clear (m'\<lparr>xmAdapter := Some s'\<rparr>)))))"

section \<open>Listing and signing\<close>

datatype signer_type = TypeKeypair | TypeWallet | TypeEd25519

record ext_signer =
  xsAddress :: string
  xsType :: signer_type
  xsWalletName :: "string option"
  xsWalletId :: "string option"
  xsVerifier :: "string option"
  xsPublicKey :: "string option"

definition connectedOf :: "'a wallet_ops \<Rightarrow> 'a ext_manager \<Rightarrow> ext_wallet list" where
  "connectedOf W m = (case xmAdapter m of None \<Rightarrow> [] | Some s \<Rightarrow> woWallets W s)"

definition verifierOf :: "digest_signer \<Rightarrow> string option" where
  "verifierOf s = (case snd (dsSigner s) of External v k \<Rightarrow> Some v | Delegated a \<Rightarrow> None)"

definition xmGetAll :: "'a wallet_ops \<Rightarrow> 'a ext_manager \<Rightarrow> ext_signer list" where
  "xmGetAll W m =
     map (\<lambda>(a, kp). \<lparr>xsAddress = a, xsType = TypeKeypair, xsWalletName = None, xsWalletId = None,
       xsVerifier = None, xsPublicKey = None\<rparr>) (xmKeypairs m) @
     map (\<lambda>(k, a, s). \<lparr>xsAddress = a, xsType = TypeEd25519, xsWalletName = None, xsWalletId = None,
       xsVerifier = verifierOf s, xsPublicKey = Some k\<rparr>) (xmEd25519 m) @
     map (\<lambda>x. \<lparr>xsAddress = xwAddress x, xsType = TypeWallet, xsWalletName = Some (xwName x),
       xsWalletId = Some (xwId x), xsVerifier = None, xsPublicKey = None\<rparr>)
       (filter (\<lambda>x. map_of (xmKeypairs m) (xwAddress x) = None) (connectedOf W m))"

definition xmCanSignFor :: "'a wallet_ops \<Rightarrow> string \<Rightarrow> 'a ext_manager \<Rightarrow> bool" where
  "xmCanSignFor W address m \<longleftrightarrow> map_of (xmKeypairs m) address \<noteq> None \<or>
     (case xmAdapter m of None \<Rightarrow> False | Some s \<Rightarrow> woCanSign W s address)"

definition xmHasSigners :: "'a wallet_ops \<Rightarrow> 'a ext_manager \<Rightarrow> bool" where
  "xmHasSigners W m \<longleftrightarrow> xmKeypairs m \<noteq> [] \<or> xmEd25519 m \<noteq> [] \<or> connectedOf W m \<noteq> []"

text \<open>
  A keypair signs the hash of the preimage bytes; \<open>fromText\<close> and \<open>toText\<close> are base64. A wallet is
  handed the text.
\<close>

definition xmSignAuthEntry ::
    "sdk \<Rightarrow> (string \<Rightarrow> buffer) \<Rightarrow> (buffer \<Rightarrow> string) \<Rightarrow> 'a wallet_ops \<Rightarrow> string \<Rightarrow> string \<Rightarrow> 'a ext_manager \<Rightarrow>
     (string \<times> string) result" where
  "xmSignAuthEntry K fromText toText W preimageXdr address m =
     (case map_of (xmKeypairs m) address of
        Some kp \<Rightarrow> Inr (toText (kpSign kp (hash K (fromText preimageXdr))), address)
      | None \<Rightarrow> (case xmAdapter m of
          None \<Rightarrow> Inl (SignerNotFoundError address None)
        | Some s \<Rightarrow>
            if woCanSign W s address
            then bindE (woSign W s preimageXdr (xmNetwork m) address) (\<lambda>(signed, signer).
              Inr (signed, case signer of Some a \<Rightarrow> a | None \<Rightarrow> address))
            else Inl (SignerNotFoundError address None)))"

section \<open>Properties over any adapter\<close>

definition managerOk :: "('a \<Rightarrow> bool) \<Rightarrow> 'a ext_manager \<Rightarrow> bool" where
  "managerOk ok m \<longleftrightarrow> (case xmAdapter m of None \<Rightarrow> True | Some s \<Rightarrow> ok s)"

context wallet_interface
begin

lemma canSign_listed:
  assumes "managerOk ok m"
  shows "xmCanSignFor W a m \<longleftrightarrow> (\<exists>x \<in> set (xmGetAll W m). xsAddress x = a \<and> xsType x \<noteq> TypeEd25519)"
proof -
  have "xmCanSignFor W a m \<longleftrightarrow> map_of (xmKeypairs m) a \<noteq> None \<or> a \<in> xwAddress ` set (connectedOf W m)"
    using assms by (auto simp: xmCanSignFor_def managerOk_def connectedOf_def canSign_wallets split: option.splits)
  also have "\<dots> \<longleftrightarrow> a \<in> fst ` set (xmKeypairs m) \<or>
      a \<in> xwAddress ` set (filter (\<lambda>x. map_of (xmKeypairs m) (xwAddress x) = None) (connectedOf W m))"
    by (auto simp: map_of_eq_None_iff)
  also have "\<dots> \<longleftrightarrow> (\<exists>x \<in> set (xmGetAll W m). xsAddress x = a \<and> xsType x \<noteq> TypeEd25519)"
    by (simp add: xmGetAll_def bex_Un split_beta image_iff eq_commute [of a])
  finally show ?thesis .
qed

lemma removed:
  assumes "managerOk ok m" "woDisconnectBy W \<noteq> None"
  shows "managerOk ok (xmRemove W a m) \<and> \<not> xmCanSignFor W a (xmRemove W a m) \<and>
     a \<notin> xsAddress ` set (xmGetAll W (xmRemove W a m)) \<and> a \<notin> swAddress ` set (getStoredWallets (xmRemove W a m))"
proof -
  obtain d where d: "woDisconnectBy W = Some d" using assms(2) by blast
  have r: "xmKeypairs (removeWalletFromStorage a n) = xmKeypairs n" "xmEd25519 (removeWalletFromStorage a n) = xmEd25519 n"
    "xmAdapter (removeWalletFromStorage a n) = xmAdapter n" for n :: "'a ext_manager"
    by (simp_all add: removeWalletFromStorage_def Let_def split: option.splits)
  have s: "a \<notin> swAddress ` set (getStoredWallets (removeWalletFromStorage a n))" for n :: "'a ext_manager"
    by (auto simp: removeWalletFromStorage_def getStoredWallets_def Let_def split: option.splits ls_item.splits)
  have k: "map_of (AList.delete a (xmKeypairs m)) a = None" by (simp add: delete_conv)
  have ok': "managerOk ok (xmRemove W a m)"
    using assms(1) d by (auto simp: managerOk_def xmRemove_def r disconnectBy_ok split: option.splits)
  have c: "\<not> xmCanSignFor W a (xmRemove W a m)"
    using assms(1) d k by (auto simp: xmCanSignFor_def xmRemove_def r managerOk_def disconnected split: option.splits)
  have "a \<notin> xsAddress ` set (xmGetAll W (xmRemove W a m))"
  proof
    assume "a \<in> xsAddress ` set (xmGetAll W (xmRemove W a m))"
    then obtain x where x: "x \<in> set (xmGetAll W (xmRemove W a m))" "xsAddress x = a" by blast
    then have "xsType x = TypeEd25519" using c canSign_listed [OF ok'] by blast
    with x show False by (auto simp: xmGetAll_def xmRemove_def r)
  qed
  with ok' c s show ?thesis by (simp add: xmRemove_def)
qed

end

section \<open>The manager over the adapter of the code\<close>

text \<open>
  An address that \<^verbatim>\<open>remove\<close> was called with is gone: no signer of the manager answers for it, the
  list of signers does not show it, and its wallet is not remembered for the next page load.
\<close>

theorem removed_signer_is_gone:
  assumes "managerOk adapterOk m" "W = adapterOps modal disconnected getAddress kitSign"
  shows "managerOk adapterOk (xmRemove W a m) \<and> \<not> xmCanSignFor W a (xmRemove W a m) \<and>
     a \<notin> xsAddress ` set (xmGetAll W (xmRemove W a m)) \<and> a \<notin> swAddress ` set (getStoredWallets (xmRemove W a m))"
  unfolding assms(2) by (rule swk.removed [OF assms(1)]) (simp add: adapterOps_def)

definition demoManager :: "bool \<Rightarrow> adapter ext_manager" where
  "demoManager up = \<lparr>xmNetwork = ''Test'', xmKeypairs = [], xmEd25519 = [],
     xmAdapter = Some ((newAdapter None)\<lparr>adInitialized := up, adWallets := [(''GA'', \<lparr>xwAddress = ''GA'', xwId = ''w'', xwName = ''W''\<rparr>)]\<rparr>),
     xmStorage = Some (JsonItem [\<lparr>swAddress = ''GA'', swWalletId = ''w'', swName = ''W'', swConnectedAt = 1\<rparr>]),
     xmRestored = False, xmVerifier = None\<rparr>"

definition demoOps :: "adapter wallet_ops" where
  "demoOps = adapterOps (Inr (None, None)) (Inr ()) (\<lambda>i. Inr (Some ''GA'', None)) (\<lambda>_ _ _. Inr (''sig'', None))"

lemma demoManager_ok: "managerOk adapterOk (demoManager up)"
  by (simp add: managerOk_def demoManager_def newAdapter_def adapterOk_def)

lemma removed_signer_is_gone_witness:
  "xmCanSignFor demoOps ''GA'' (demoManager True) \<and> \<not> xmCanSignFor demoOps ''GA'' (xmRemove demoOps ''GA'' (demoManager True))"
proof
  show "xmCanSignFor demoOps ''GA'' (demoManager True)"
    by (simp add: xmCanSignFor_def demoOps_def demoManager_def adapterOps_def adCanSign_def)
  show "\<not> xmCanSignFor demoOps ''GA'' (xmRemove demoOps ''GA'' (demoManager True))"
    using removed_signer_is_gone [OF demoManager_ok demoOps_def] by blast
qed

text \<open>A stored connection comes back when the kit answers with an address for its wallet.\<close>

definition comesBack :: "(string \<Rightarrow> kit_address result) \<Rightarrow> bool \<Rightarrow> stored_wallet \<Rightarrow> bool" where
  "comesBack getAddress up w \<longleftrightarrow> up \<and> (case getAddress (swWalletId w) of Inr answer \<Rightarrow> truthy (fst answer) | Inl _ \<Rightarrow> False)"

lemma reconnect_comesBack:
  "adReconnect getAddress (swWalletId w) s = (r, s') \<Longrightarrow>
   adInitialized s' = adInitialized s \<and> ((\<exists>x. r = Inr (Some x)) \<longleftrightarrow> comesBack getAddress (adInitialized s) w)"
  by (auto simp: adReconnect_def ensureInitialized_def trackWallet_def comesBack_def notifyAdapter_def Let_def
      split: if_splits sum.splits prod.splits)

lemma stored_removed:
  "xmStorage m \<noteq> None \<Longrightarrow> getStoredWallets (removeWalletFromStorage a m) = filter (\<lambda>w. swAddress w \<noteq> a) (getStoredWallets m) \<and>
     xmStorage (removeWalletFromStorage a m) \<noteq> None \<and> xmAdapter (removeWalletFromStorage a m) = xmAdapter m"
  by (auto simp: removeWalletFromStorage_def getStoredWallets_def Let_def split: option.splits ls_item.splits)

lemma stored_adapter [simp]: "getStoredWallets (m\<lparr>xmAdapter := x\<rparr>) = getStoredWallets m"
  by (simp add: getStoredWallets_def)

lemma restoreEach_exact:
  assumes "xmAdapter m = Some s" "xmStorage m \<noteq> None" "restoreEach (adReconnect getAddress) ws m = (xs, m')"
  shows "length xs = length (filter (comesBack getAddress (adInitialized s)) ws) \<and>
     getStoredWallets m' = filter (\<lambda>w. \<forall>v \<in> set ws. swAddress v = swAddress w \<longrightarrow> comesBack getAddress (adInitialized s) v)
       (getStoredWallets m)"
  using assms
proof (induction ws arbitrary: m s xs)
  case (Cons w ws)
  obtain r s' where r: "adReconnect getAddress (swWalletId w) s = (r, s')" by fastforce
  note b = reconnect_comesBack [OF r]
  let ?m = "m\<lparr>xmAdapter := Some s'\<rparr>"
  show ?case
  proof (cases "\<exists>x. r = Inr (Some x)")
    case True
    then obtain x ys where x: "r = Inr (Some x)" and ys: "restoreEach (adReconnect getAddress) ws ?m = (ys, m')" "xs = x # ys"
      using Cons.prems r by (auto simp: Let_def split: prod.splits)
    have "length ys = length (filter (comesBack getAddress (adInitialized s')) ws) \<and>
       getStoredWallets m' = filter (\<lambda>w. \<forall>v \<in> set ws. swAddress v = swAddress w \<longrightarrow> comesBack getAddress (adInitialized s') v)
         (getStoredWallets ?m)"
      by (rule Cons.IH [OF _ _ ys(1)]) (use Cons.prems in simp_all)
    moreover have "comesBack getAddress (adInitialized s) w" using b x by blast
    ultimately show ?thesis using b ys(2) by simp
  next
    case False
    let ?n = "removeWalletFromStorage (swAddress w) ?m"
    have ys: "restoreEach (adReconnect getAddress) ws ?n = (xs, m')"
      using Cons.prems r False by (auto simp: Let_def split: sum.splits option.splits)
    have n: "getStoredWallets ?n = filter (\<lambda>v. swAddress v \<noteq> swAddress w) (getStoredWallets m)"
      "xmStorage ?n \<noteq> None" "xmAdapter ?n = Some s'"
      using stored_removed [of ?m "swAddress w"] Cons.prems(2) by simp_all
    have "length xs = length (filter (comesBack getAddress (adInitialized s')) ws) \<and>
       getStoredWallets m' = filter (\<lambda>w. \<forall>v \<in> set ws. swAddress v = swAddress w \<longrightarrow> comesBack getAddress (adInitialized s') v)
         (getStoredWallets ?n)"
      by (rule Cons.IH [OF n(3,2) ys])
    moreover have "\<not> comesBack getAddress (adInitialized s) w" using b False by blast
    ultimately show ?thesis using b n(1) by (auto intro!: filter_cong)
  qed
qed auto

text \<open>
  Restoring after a page load reconnects exactly the stored connections whose wallet answers, and
  forgets exactly the addresses with a connection that did not; an adapter that is not initialised
  answers for none, and every stored connection is forgotten.
\<close>

theorem restore_keeps_reconnected:
  assumes "xmAdapter m = Some s" "xmStorage m \<noteq> None" "\<not> xmRestored m"
    "restoreConnections (adapterOps modal disconnected getAddress kitSign) m = (xs, m')"
  shows "length xs = length (filter (comesBack getAddress (adInitialized s)) (getStoredWallets m)) \<and>
     getStoredWallets m' = filter (\<lambda>w. \<forall>v \<in> set (getStoredWallets m). swAddress v = swAddress w \<longrightarrow>
       comesBack getAddress (adInitialized s) v) (getStoredWallets m)"
proof -
  let ?m = "m\<lparr>xmRestored := True\<rparr>"
  have g: "getStoredWallets ?m = getStoredWallets m" by (simp add: getStoredWallets_def)
  have "restoreEach (adReconnect getAddress) (getStoredWallets m) ?m = (xs, m')"
    using assms g by (auto simp: restoreConnections_def adapterOps_def Let_def)
  from restoreEach_exact [OF _ _ this] show ?thesis using assms g by simp
qed

lemma restore_keeps_reconnected_witness:
  "getStoredWallets (snd (restoreConnections demoOps (demoManager False))) = [] \<and>
   length (fst (restoreConnections demoOps (demoManager True))) = 1"
proof -
  have w: "getStoredWallets (demoManager up) = [\<lparr>swAddress = ''GA'', swWalletId = ''w'', swName = ''W'', swConnectedAt = 1\<rparr>]" for up
    by (simp add: demoManager_def getStoredWallets_def)
  obtain s where s: "xmAdapter (demoManager up) = Some (s up)" "adInitialized (s up) = up" for up
    by (rule that [of "\<lambda>up. the (xmAdapter (demoManager up))"]) (simp_all add: demoManager_def)
  have p: "xmStorage (demoManager up) \<noteq> None" "\<not> xmRestored (demoManager up)" for up by (simp_all add: demoManager_def)
  note r = restore_keeps_reconnected [OF s(1) p, of "Inr (None, None)" "Inr ()" "\<lambda>i. Inr (Some ''GA'', None)"
      "\<lambda>_ _ _. Inr (''sig'', None)", folded demoOps_def, OF prod.collapse [symmetric]]
  from r [of False] r [of True] show ?thesis by (simp add: w s comesBack_def truthy_def)
qed

end
