(* ===== verification/Kit_Json.thy ===== *)
theory Kit_Json
  imports Kit_World Kit_Builders Kit_Text
begin

text \<open>
  What the HTTP clients read of a parsed JSON body: properties, \<^verbatim>\<open>typeof\<close> tests, object spread and the
  conversion \<^verbatim>\<open>Number(value)\<close> of ECMA-262, with decimals rounded to doubles.
\<close>

section \<open>Properties\<close>

definition jsTypeError :: "string \<Rightarrow> kit_error" where
  "jsTypeError name = JsError (''Cannot read properties of '' @ name)"

text \<open>\<open>None\<close> is \<^verbatim>\<open>undefined\<close>. Only \<^verbatim>\<open>null\<close> and \<^verbatim>\<open>undefined\<close> have no properties to read.\<close>

definition field :: "string \<Rightarrow> json \<Rightarrow> json option" where
  "field name v = (case v of JObj fs \<Rightarrow> map_of fs name | _ \<Rightarrow> None)"

definition nonNull :: "json option \<Rightarrow> json result" where
  "nonNull v = (case v of None \<Rightarrow> Inl (jsTypeError ''undefined'') | Some JNull \<Rightarrow> Inl (jsTypeError ''null'') | Some j \<Rightarrow> Inr j)"

text \<open>The own enumerable properties that \<^verbatim>\<open>{ ...value }\<close> copies.\<close>

definition spread :: "json option \<Rightarrow> (string \<times> json) list" where
  "spread v = (case v of
     Some (JObj fs) \<Rightarrow> fs
   | Some (JArr xs) \<Rightarrow> zip (map decimal [0..<length xs]) xs
   | Some (JStr s) \<Rightarrow> zip (map decimal [0..<length s]) (map (\<lambda>c. JStr [c]) s)
   | _ \<Rightarrow> [])"

definition isString :: "json option \<Rightarrow> bool" where
  "isString v = (case v of Some (JStr _) \<Rightarrow> True | _ \<Rightarrow> False)"

definition stringOf :: "json option \<Rightarrow> string option" where
  "stringOf v = (case v of Some (JStr s) \<Rightarrow> Some s | _ \<Rightarrow> None)"

definition boolOf :: "json option \<Rightarrow> bool option" where
  "boolOf v = (case v of Some (JBool b) \<Rightarrow> Some b | _ \<Rightarrow> None)"

text \<open>\<^verbatim>\<open>Boolean(value)\<close>\<close>

definition truthyJson :: "json \<Rightarrow> bool" where
  "truthyJson v = (case v of
     JNull \<Rightarrow> False | JBool b \<Rightarrow> b | JNum x \<Rightarrow> x \<noteq> Fin 0 \<and> x \<noteq> NaN | JStr s \<Rightarrow> s \<noteq> [] | _ \<Rightarrow> True)"

definition arrayOf :: "json option \<Rightarrow> json list option" where
  "arrayOf v = (case v of Some (JArr xs) \<Rightarrow> Some xs | _ \<Rightarrow> None)"

lemma arrayOf_Some: "arrayOf v = Some xs \<longleftrightarrow> v = Some (JArr xs)"
  by (auto simp: arrayOf_def split: option.splits json.splits)

lemma stringOf_Some: "stringOf v = Some s \<longleftrightarrow> v = Some (JStr s)"
  by (auto simp: stringOf_def split: option.splits json.splits)

lemma boolOf_Some: "boolOf v = Some b \<longleftrightarrow> v = Some (JBool b)"
  by (auto simp: boolOf_def split: option.splits json.splits)

section \<open>Numbers\<close>

text \<open>
  The double nearest to a positive rational, half to even: its 53-bit significand is scaled by a
  power of two no smaller than that of the subnormals.
\<close>

definition pow2 :: "int \<Rightarrow> rat" where
  "pow2 e = (if 0 \<le> e then 2 ^ nat e else 1 / 2 ^ nat (- e))"

definition roundFraction :: "rat \<Rightarrow> jsnum" where
  "roundFraction q = (case quotient_of q of (n, d) \<Rightarrow>
     let e0 = int (floorlog 2 (nat n)) - int (floorlog 2 (nat d)) - 53;
         e = max (if q < 2 ^ 53 * pow2 e0 then e0 else e0 + 1) (- 1074);
         x = q / pow2 e; m = \<lfloor>x\<rfloor>;
         up = x - of_int m > 1 / 2 \<or> (x - of_int m = 1 / 2 \<and> odd m);
         v = of_int (if up then m + 1 else m) * pow2 e
     in if v \<ge> 2 ^ 1024 then PosInf else Fin v)"

definition nearestDouble :: "rat \<Rightarrow> jsnum" where
  "nearestDouble q = (if of_int \<lfloor>q\<rfloor> = q then toDouble (nat \<lfloor>q\<rfloor>) else roundFraction q)"

definition negateNum :: "jsnum \<Rightarrow> jsnum" where
  "negateNum x = (case x of Fin q \<Rightarrow> Fin (- q) | PosInf \<Rightarrow> NegInf | NegInf \<Rightarrow> PosInf | NaN \<Rightarrow> NaN)"

text \<open>The digits of a base, and the decimal literals of a numeric string.\<close>

definition baseValue :: "nat \<Rightarrow> string \<Rightarrow> nat option" where
  "baseValue b s = (if s \<noteq> [] \<and> list_all (\<lambda>c. case hexValue c of Some d \<Rightarrow> d < b | None \<Rightarrow> False) s
     then Some (foldl (\<lambda>n c. b * n + the (hexValue c)) 0 s) else None)"

definition exponentOf :: "string \<Rightarrow> int option" where
  "exponentOf r = (case r of [] \<Rightarrow> Some 0
     | e # ds \<Rightarrow> if e = CHR ''e'' \<or> e = CHR ''E''
         then (case ds of
             [] \<Rightarrow> None
           | c # cs \<Rightarrow>
               if c = CHR ''-'' then (if isDigits cs then Some (- int (digitsValue cs)) else None)
               else if c = CHR ''+'' then (if isDigits cs then Some (int (digitsValue cs)) else None)
               else if isDigits ds then Some (int (digitsValue ds)) else None)
         else None)"

definition pow10 :: "int \<Rightarrow> rat" where
  "pow10 e = (if 0 \<le> e then 10 ^ nat e else 1 / 10 ^ nat (- e))"

definition decimalLiteral :: "string \<Rightarrow> jsnum" where
  "decimalLiteral s =
     (if s = ''Infinity'' then PosInf
      else let w = takeWhile isDigit s; r = dropWhile isDigit s;
          f = (case r of c # cs \<Rightarrow> if c = CHR ''.'' then takeWhile isDigit cs else [] | [] \<Rightarrow> []);
          r' = (case r of c # cs \<Rightarrow> if c = CHR ''.'' then dropWhile isDigit cs else r | [] \<Rightarrow> []) in
        if w = [] \<and> f = [] then NaN
        else (case exponentOf r' of None \<Rightarrow> NaN
          | Some e \<Rightarrow> nearestDouble (of_nat (digitsValue (w @ f)) * pow10 (e - int (length f)))))"

definition textNumber :: "string \<Rightarrow> jsnum" where
  "textNumber text = (let s = trim text; p = take 2 s; r = drop 2 s;
       whole = (\<lambda>b. case baseValue b r of Some n \<Rightarrow> toDouble n | None \<Rightarrow> NaN) in
     if s = [] then Fin 0
     else if p = ''0x'' \<or> p = ''0X'' then whole 16
     else if p = ''0o'' \<or> p = ''0O'' then whole 8
     else if p = ''0b'' \<or> p = ''0B'' then whole 2
     else if hd s = CHR ''-'' then negateNum (decimalLiteral (tl s))
     else if hd s = CHR ''+'' then decimalLiteral (tl s)
     else decimalLiteral s)"

text \<open>
  An array converts through its text: the empty one to 0, one with a single element as that
  element's text does (\<^verbatim>\<open>null\<close> as the empty text), a longer one, with its comma, to no number.
\<close>

fun jsonNumber :: "json option \<Rightarrow> jsnum" where
  "jsonNumber None = NaN"
| "jsonNumber (Some JNull) = Fin 0"
| "jsonNumber (Some (JBool b)) = Fin (if b then 1 else 0)"
| "jsonNumber (Some (JNum x)) = x"
| "jsonNumber (Some (JStr s)) = textNumber s"
| "jsonNumber (Some (JArr [])) = Fin 0"
| "jsonNumber (Some (JArr [JBool b])) = NaN"
| "jsonNumber (Some (JArr [x])) = jsonNumber (Some x)"
| "jsonNumber (Some (JArr (x # y # zs))) = NaN"
| "jsonNumber (Some (JObj fs)) = NaN"

text \<open>\<^verbatim>\<open>Number.isSafeInteger\<close>, with the integer.\<close>

definition safeInteger :: "jsnum \<Rightarrow> int option" where
  "safeInteger x = (case x of Fin q \<Rightarrow> if of_int \<lfloor>q\<rfloor> = q \<and> \<bar>\<lfloor>q\<rfloor>\<bar> < 2 ^ 53 then Some \<lfloor>q\<rfloor> else None | _ \<Rightarrow> None)"

lemma safeInteger_Some: "safeInteger x = Some n \<longleftrightarrow> x = Fin (of_int n) \<and> \<bar>n\<bar> < 2 ^ 53"
  by (cases x) (auto simp: safeInteger_def)

lemma toDouble_safe: "n < 2 ^ 53 \<Longrightarrow> toDouble n = Fin (of_nat n)"
  by (simp add: toDouble_def)

lemma nearestDouble_nat [simp]: "nearestDouble (of_nat n) = toDouble n"
  by (simp add: nearestDouble_def)

lemma digit_prefix:
  assumes "isDigits s"
  shows "trim s = s" "s \<noteq> []" "hd s \<noteq> CHR ''-''" "hd s \<noteq> CHR ''+''" "takeWhile isDigit s = s" "dropWhile isDigit s = []"
    "s \<noteq> ''Infinity''"
  using assms trim_digits [OF assms]
  by (cases s; auto simp: isDigits_def isDigit_def list_all_iff takeWhile_eq_all_conv dropWhile_eq_Nil_conv)+

lemma digits_no_prefix: "isDigits s \<Longrightarrow> c \<in> set ''xXoObB'' \<Longrightarrow> take 2 s \<noteq> [d, c]"
  by (cases s rule: remdups_adj.cases) (auto simp: isDigits_def isDigit_def)

lemma textNumber_digits:
  assumes "isDigits s"
  shows "textNumber s = toDouble (digitsValue s)"
  by (simp add: digit_prefix [OF assms] digits_no_prefix [OF assms] textNumber_def Let_def decimalLiteral_def
      exponentOf_def pow10_def)

end
