(* ===== verification/Kit_Relayer.thy ===== *)
theory Kit_Relayer
  imports Kit_Json Kit_TxOps
begin

text \<open>
  \<^verbatim>\<open>src/relayer.ts\<close>: the client of the relayer proxy. A request is one POST, whose answer (a response,
  the abort of its timer, or a failure) comes from the environment; every answer becomes a
  result, and no submission throws.
\<close>

section \<open>The client\<close>

definition trimTrailingSlashes :: "string \<Rightarrow> string" where
  "trimTrailingSlashes value = rev (dropWhile (\<lambda>c. c = CHR ''/'') (rev value))"

record relayer_client =
  rcUrl :: string
  rcTimeout :: nat

definition DEFAULT_RELAYER_TIMEOUT_MS :: nat where "DEFAULT_RELAYER_TIMEOUT_MS = 360000"

definition newRelayerClient :: "string \<Rightarrow> nat option \<Rightarrow> relayer_client result" where
  "newRelayerClient url timeout =
     (if url = [] then Inl (JsError ''Relayer URL is required'')
      else Inr \<lparr>rcUrl = trimTrailingSlashes url,
        rcTimeout = (case timeout of Some t \<Rightarrow> t | None \<Rightarrow> DEFAULT_RELAYER_TIMEOUT_MS)\<rparr>)"

definition isConfigured :: "relayer_client \<Rightarrow> bool" where
  "isConfigured C \<longleftrightarrow> rcUrl C \<noteq> []"

section \<open>Reading an answer\<close>

text \<open>The result of a submission; the \<^verbatim>\<open>details\<close> of a failure that is no response are not carried.\<close>

record relayer_result =
  rlSuccess :: bool
  rlTransactionId :: "string option"
  rlHash :: "string option"
  rlStatus :: "string option"
  rlError :: "string option"
  rlErrorCode :: "string option"
  rlDetails :: "json option"

definition asObject :: "json option \<Rightarrow> json option" where
  "asObject value = (case value of
     Some (JObj fs) \<Rightarrow> value | Some (JArr xs) \<Rightarrow> value | _ \<Rightarrow> None)"

definition isUpper :: "char \<Rightarrow> bool" where
  "isUpper c \<longleftrightarrow> 65 \<le> (of_char c :: nat) \<and> (of_char c :: nat) \<le> 90"

text \<open>\<^verbatim>\<open>/^[A-Z][A-Z0-9_:-]*$/\<close>\<close>

definition looksLikeErrorCode :: "string \<Rightarrow> bool" where
  "looksLikeErrorCode value = (case trim value of
     [] \<Rightarrow> False
   | c # cs \<Rightarrow> isUpper c \<and> list_all (\<lambda>d. isUpper d \<or> isDigit d \<or> d \<in> set ''_:-'') cs)"

definition extractResponseData :: "json option \<Rightarrow> json" where
  "extractResponseData responseData = (case asObject responseData of
     None \<Rightarrow> JObj []
   | Some r \<Rightarrow> (case asObject (field ''data'' r) of Some nested \<Rightarrow> nested | None \<Rightarrow> r))"

definition isSuccessResponse :: "bool \<Rightarrow> json option \<Rightarrow> bool" where
  "isSuccessResponse ok responseData = (case asObject responseData of
     None \<Rightarrow> False
   | Some r \<Rightarrow> ok \<and> field ''success'' r = Some (JBool True))"

definition requestFailed :: "nat \<Rightarrow> string" where
  "requestFailed status = ''Relayer request failed with status '' @ decimal status"

definition trimmedField :: "string \<Rightarrow> json \<Rightarrow> string" where
  "trimmedField name r = (case stringOf (field name r) of Some s \<Rightarrow> trim s | None \<Rightarrow> [])"

definition extractErrorMessage :: "json option \<Rightarrow> nat \<Rightarrow> string" where
  "extractErrorMessage responseData status = (case asObject responseData of
     None \<Rightarrow> requestFailed status
   | Some r \<Rightarrow>
       let message = trimmedField ''message'' r; rawError = trimmedField ''error'' r;
           nestedMessage = (case asObject (field ''data'' r) of Some n \<Rightarrow> trimmedField ''message'' n | None \<Rightarrow> []) in
       if message \<noteq> [] then message
       else if rawError \<noteq> [] \<and> \<not> looksLikeErrorCode rawError then rawError
       else if nestedMessage \<noteq> [] then nestedMessage
       else if rawError \<noteq> [] then rawError
       else requestFailed status)"

definition codeField :: "json \<Rightarrow> string option" where
  "codeField r = (case stringOf (field ''code'' r) of Some c \<Rightarrow> Some c | None \<Rightarrow> stringOf (field ''errorCode'' r))"

definition errorAsCode :: "json \<Rightarrow> string option" where
  "errorAsCode r = (case stringOf (field ''error'' r) of
     Some e \<Rightarrow> if looksLikeErrorCode e then Some e else None | None \<Rightarrow> None)"

definition firstOf :: "'a option \<Rightarrow> 'a option \<Rightarrow> 'a option" where
  "firstOf x y = (case x of Some a \<Rightarrow> Some a | None \<Rightarrow> y)"

definition extractErrorCode :: "json option \<Rightarrow> string option" where
  "extractErrorCode responseData = (case asObject responseData of
     None \<Rightarrow> None
   | Some r \<Rightarrow> firstOf (codeField r) (firstOf
       (case asObject (field ''data'' r) of Some n \<Rightarrow> firstOf (codeField n) (errorAsCode n) | None \<Rightarrow> None)
       (errorAsCode r)))"

definition toSuccessResult :: "json option \<Rightarrow> relayer_result" where
  "toSuccessResult responseData = (let d = extractResponseData responseData in
     \<lparr>rlSuccess = True, rlTransactionId = stringOf (field ''transactionId'' d), rlHash = stringOf (field ''hash'' d),
      rlStatus = stringOf (field ''status'' d), rlError = None, rlErrorCode = None, rlDetails = None\<rparr>)"

definition failedResult :: "string \<Rightarrow> string option \<Rightarrow> json option \<Rightarrow> relayer_result" where
  "failedResult message code details = \<lparr>rlSuccess = False, rlTransactionId = None, rlHash = None, rlStatus = None,
     rlError = Some message, rlErrorCode = code, rlDetails = details\<rparr>"

definition toErrorResult :: "json option \<Rightarrow> nat \<Rightarrow> relayer_result" where
  "toErrorResult responseData status = failedResult (extractErrorMessage responseData status)
     (extractErrorCode responseData) (Some (extractResponseData responseData))"

section \<open>Submitting\<close>

text \<open>A thrown value that is no \<^verbatim>\<open>Error\<close> has the fixed message.\<close>

definition thrownMessage :: "kit_error \<Rightarrow> string" where
  "thrownMessage err = (case err of JsThrown _ \<Rightarrow> ''Relayer request failed'' | e \<Rightarrow> errorMessage e)"

definition submitted :: "fetch_answer \<Rightarrow> relayer_result" where
  "submitted answer = (case answer of
     Fetched response \<Rightarrow>
       (let responseData = (case hrJson response of Inr j \<Rightarrow> Some j | Inl _ \<Rightarrow> Some JNull) in
        if isSuccessResponse (hrOk response) responseData then toSuccessResult responseData
        else toErrorResult responseData (hrStatus response))
   | FetchAborted \<Rightarrow> failedResult ''Relayer request timed out'' (Some ''TIMEOUT'') None
   | FetchFailed err \<Rightarrow> failedResult (thrownMessage err) None None)"

definition submit :: "services \<Rightarrow> relayer_client \<Rightarrow> json \<Rightarrow> relayer_result act" where
  "submit S C body = bindA (requestA (FxFetch (rcUrl C) (Some body)) (\<lambda>t. Inr (svFetch S t (rcUrl C) (Some body))))
     (\<lambda>answer. returnA (submitted answer))"

definition relayerSend :: "services \<Rightarrow> relayer_client \<Rightarrow> string \<Rightarrow> string list \<Rightarrow> relayer_result act" where
  "relayerSend S C func auth = submit S C (JObj [(''func'', JStr func), (''auth'', JArr (map JStr auth))])"

definition relayerSendXdr :: "services \<Rightarrow> relayer_client \<Rightarrow> string \<Rightarrow> relayer_result act" where
  "relayerSendXdr S C xdr = submit S C (JObj [(''xdr'', JStr xdr)])"

text \<open>What the submission code of the kit reads of the result.\<close>

definition asResponse :: "relayer_result \<Rightarrow> relayer_response" where
  "asResponse r = \<lparr>rrSuccess = rlSuccess r, rrError = rlError r, rrHash = rlHash r\<rparr>"

section \<open>Properties\<close>

lemma extractErrorMessage_nonempty: "extractErrorMessage d status \<noteq> []"
  by (auto simp: extractErrorMessage_def requestFailed_def Let_def split: option.splits)

text \<open>
  A submission makes one request and always returns; it reports a success exactly when the
  response was positive and says \<^verbatim>\<open>success: true\<close>, and every other answer becomes a failure with a
  message, which is not empty when there was a response.
\<close>

theorem submission_reports:
  "\<exists>answer r. answer = svFetch S (wTrace w) (rcUrl C) (Some body) \<and>
     submit S C body w = (Inr r, w\<lparr>wTrace := wTrace w @ [FxFetch (rcUrl C) (Some body)]\<rparr>) \<and>
     (rlSuccess r \<longleftrightarrow> (\<exists>p fs. answer = Fetched p \<and> hrOk p \<and> hrJson p = Inr (JObj fs) \<and> map_of fs ''success'' = Some (JBool True))) \<and>
     (rlSuccess r \<or> (\<exists>m. rlError r = Some m \<and> ((\<exists>p. answer = Fetched p) \<longrightarrow> m \<noteq> [])))"
proof -
  let ?a = "svFetch S (wTrace w) (rcUrl C) (Some body)"
  have r: "submit S C body w = (Inr (submitted ?a), w\<lparr>wTrace := wTrace w @ [FxFetch (rcUrl C) (Some body)]\<rparr>)"
    by (simp add: submit_def bindA_def run_simps)
  have s: "isSuccessResponse b v \<longleftrightarrow> b \<and> (\<exists>fs. v = Some (JObj fs) \<and> map_of fs ''success'' = Some (JBool True))" for b v
    by (auto simp: isSuccessResponse_def asObject_def field_def split: option.splits json.splits)
  show ?thesis
    by (intro exI [of _ ?a] exI [of _ "submitted ?a"] conjI refl r)
      (auto simp: submitted_def s toSuccessResult_def toErrorResult_def failedResult_def Let_def extractErrorMessage_nonempty
        split: fetch_answer.splits sum.splits)
qed

definition refusingServices :: services where
  "refusingServices = demoServices\<lparr>svFetch := (\<lambda>t u b. Fetched \<lparr>hrOk = False, hrStatus = 503, hrStatusText = [],
     hrText = None, hrJson = Inr (JObj [(''error'', JStr ''POOL_CAPACITY'')])\<rparr>)\<rparr>"

lemma submission_reports_witness:
  "\<exists>r m. fst (submit refusingServices \<lparr>rcUrl = ''u'', rcTimeout = 1\<rparr> JNull demoWorld) = Inr r \<and>
     \<not> rlSuccess r \<and> rlError r = Some m \<and> m \<noteq> []"
  using submission_reports [of refusingServices demoWorld "\<lparr>rcUrl = ''u'', rcTimeout = 1\<rparr>" JNull]
  by (auto simp: refusingServices_def)

end
