(* ===== verification/Kit_Indexer.thy ===== *)
theory Kit_Indexer
  imports Kit_Json Kit_Wallet
begin

text \<open>
  \<^verbatim>\<open>src/indexer.ts\<close> and \<^verbatim>\<open>src/kit/indexer-ops.ts\<close>: the client of the indexer, which turns the JSON of
  its answers into wallet candidates, and the operations of the kit on it. Request headers, among
  them the bearer token, are not carried.
\<close>

section \<open>The client and its requests\<close>

record indexer_client =
  ixBaseUrl :: string
  ixTimeout :: nat
  ixAuthToken :: "string option"

definition DEFAULT_INDEXER_TIMEOUT_MS :: nat where "DEFAULT_INDEXER_TIMEOUT_MS = 10000"

text \<open>\<^verbatim>\<open>config.baseUrl.replace(/\/$/, "")\<close> drops one slash at the end.\<close>

definition newIndexerClient :: "string \<Rightarrow> nat option \<Rightarrow> string option \<Rightarrow> indexer_client" where
  "newIndexerClient baseUrl timeout authToken = \<lparr>
     ixBaseUrl = (if baseUrl \<noteq> [] \<and> last baseUrl = CHR ''/'' then butlast baseUrl else baseUrl),
     ixTimeout = (case timeout of Some t \<Rightarrow> t | None \<Rightarrow> DEFAULT_INDEXER_TIMEOUT_MS), ixAuthToken = authToken\<rparr>"

definition DEFAULT_INDEXER_URLS :: "(string \<times> string) list" where
  "DEFAULT_INDEXER_URLS =
     [(''Test SDF Network ; September 2015'', ''https://testnet.mercurydata.app/rest/smart-account-indexer''),
      (''Public Global Stellar Network ; September 2015'', ''https://mainnet.mercurydata.app/rest/smart-account-indexer'')]"

definition forNetwork :: "string \<Rightarrow> nat option \<Rightarrow> string option \<Rightarrow> indexer_client option" where
  "forNetwork networkPassphrase timeout authToken = (case map_of DEFAULT_INDEXER_URLS networkPassphrase of
     None \<Rightarrow> None
   | Some url \<Rightarrow> Some (newIndexerClient url timeout authToken))"

text \<open>What an operation of the client throws: its own error, with message, status and body, or another.\<close>

datatype indexer_failure = IndexerError string nat "string option" | OtherFailure kit_error

type_synonym 'a indexed = "indexer_failure + 'a"

definition fetched :: "fetch_answer \<Rightarrow> json indexed" where
  "fetched answer = (case answer of
     Fetched response \<Rightarrow>
       (if \<not> hrOk response
        then Inl (IndexerError (''Indexer request failed: '' @ decimal (hrStatus response) @ '' '' @ hrStatusText response)
          (hrStatus response) (Some (case hrText response of Some t \<Rightarrow> t | None \<Rightarrow> [])))
        else (case hrJson response of
            Inr j \<Rightarrow> Inr j
          | Inl e \<Rightarrow> Inl (IndexerError (''Indexer request failed: '' @ errorMessage e) 0 None)))
   | FetchAborted \<Rightarrow> Inl (IndexerError ''Indexer request timed out'' 0 None)
   | FetchFailed e \<Rightarrow> Inl (IndexerError (''Indexer request failed: '' @ errorMessage e) 0 None))"

definition indexerFetch :: "services \<Rightarrow> indexer_client \<Rightarrow> string \<Rightarrow> json indexed act" where
  "indexerFetch S I path =
     (let url = ixBaseUrl I @ path in requestA (FxFetch url None) (\<lambda>t. Inr (fetched (svFetch S t url None))))"

section \<open>Reading an answer\<close>

definition strip0x :: "string \<Rightarrow> string" where
  "strip0x s = (if take 2 s = ''0x'' then drop 2 s else s)"

definition normalizeId :: "string \<Rightarrow> string" where
  "normalizeId s = strip0x (toLower s)"

definition COUNT_FIELDS :: "string list" where
  "COUNT_FIELDS = [''context_rule_count'', ''external_signer_count'', ''delegated_signer_count'', ''native_signer_count'',
     ''first_seen_ledger'', ''last_seen_ledger'']"

type_synonym summary = "(string \<times> json) list"

definition normalizeContractSummary :: "json option \<Rightarrow> summary indexed" where
  "normalizeContractSummary value = (case nonNull value of
     Inl e \<Rightarrow> Inl (OtherFailure e)
   | Inr j \<Rightarrow> Inr (fold (\<lambda>k fs. AList.update k (JNum (jsonNumber (field k j))) fs) COUNT_FIELDS (spread value)))"

definition isAllowedReasonList :: "json option \<Rightarrow> string list \<Rightarrow> bool" where
  "isAllowedReasonList value allowed = (case arrayOf value of
     None \<Rightarrow> False
   | Some xs \<Rightarrow> xs \<noteq> [] \<and> list_all (\<lambda>x. case stringOf (Some x) of Some r \<Rightarrow> r \<in> set allowed | None \<Rightarrow> False) xs)"

definition WALLET_CANDIDATE_INCOMPLETE_REASONS :: "string list" where
  "WALLET_CANDIDATE_INCOMPLETE_REASONS = [''missing_birth'', ''rpc_unchecked'', ''signer_unconfirmed'', ''instance_missing'',
     ''wasm_unresolved'', ''inconsistent_creation_ledger'']"

definition CREDENTIAL_LOOKUP_INCOMPLETE_REASONS :: "string list" where
  "CREDENTIAL_LOOKUP_INCOMPLETE_REASONS = [''reducer_errors'', ''index_behind'']"

definition hasValidLookupIncompleteReasons :: "bool \<Rightarrow> json option \<Rightarrow> bool" where
  "hasValidLookupIncompleteReasons allThere reasons \<longleftrightarrow>
     reasons = None \<or> (\<not> allThere \<and> isAllowedReasonList reasons CREDENTIAL_LOOKUP_INCOMPLETE_REASONS)"

definition hasValidCandidateIncompleteReasons :: "json \<Rightarrow> bool" where
  "hasValidCandidateIncompleteReasons contract = (case contract of
     JObj fs \<Rightarrow>
       (if map_of fs ''incomplete'' = Some (JBool True)
        then isAllowedReasonList (map_of fs ''incompleteReasons'') WALLET_CANDIDATE_INCOMPLETE_REASONS
        else map_of fs ''incompleteReasons'' = None)
   | _ \<Rightarrow> False)"

text \<open>\<^verbatim>\<open>/^[1-9]\d*$/\<close> and the two accepted forms of a positive integer.\<close>

definition normalizePositiveInteger :: "json option \<Rightarrow> nat option" where
  "normalizePositiveInteger value = (case value of
     Some (JNum x) \<Rightarrow> (case safeInteger x of Some n \<Rightarrow> if n \<ge> 1 then Some (nat n) else None | None \<Rightarrow> None)
   | Some (JStr s) \<Rightarrow>
       if isDigits s \<and> hd s \<noteq> CHR ''0''
       then map_option nat (safeInteger (textNumber s)) else None
   | _ \<Rightarrow> None)"

definition normalizeHash :: "json option \<Rightarrow> string option" where
  "normalizeHash value = (case stringOf value of
     None \<Rightarrow> None
   | Some s \<Rightarrow> let n = normalizeId s in
       if length n = 64 \<and> set n \<subseteq> set hexDigits then Some n else None)"

definition parseWalletCandidate :: "sdk \<Rightarrow> summary \<Rightarrow> indexed_candidate option" where
  "parseWalletCandidate K fs =
     (case (stringOf (map_of fs ''contract_id''), normalizeHash (map_of fs ''birth_wasm_hash''),
        normalizeHash (map_of fs ''creation_transaction_hash''), normalizePositiveInteger (map_of fs ''creation_ledger''),
        normalizeHash (map_of fs ''current_wasm_hash''), boolOf (map_of fs ''derived_address''), boolOf (map_of fs ''collision'')) of
        (Some contractId, Some birth, Some creation, Some ledger, Some current, Some derived, Some collision) \<Rightarrow>
          if isValidContract K contractId \<and> map_of fs ''incomplete'' = Some (JBool False)
          then Some \<lparr>wcContractId = contractId, wcBirthWasmHash = birth, wcCreationTx = creation,
            wcCreationLedger = Fin (of_nat ledger), icCurrentWasmHash = current, icDerivedAddress = derived, icCollision = collision\<rparr>
          else None
      | _ \<Rightarrow> None)"

section \<open>Looking up\<close>

record credential_lookup =
  clkCredentialId :: string
  clkContracts :: "summary list"
  clkCount :: nat
  clkComplete :: bool
  clkIndexedThrough :: nat

definition invalidResponse :: "'a indexed" where
  "invalidResponse = Inl (IndexerError ''Indexer returned an invalid schema-2 credential response'' 0 None)"

definition checkCredentialResponse :: "string \<Rightarrow> json \<Rightarrow> credential_lookup indexed" where
  "checkCredentialResponse normalizedId response = (case nonNull (Some response) of
     Inl e \<Rightarrow> Inl (OtherFailure e)
   | Inr r \<Rightarrow> (case (normalizePositiveInteger (field ''indexed_through_ledger'' r), boolOf (field ''complete'' r),
         stringOf (field ''credentialId'' r), arrayOf (field ''contracts'' r), safeInteger (jsonNumber (field ''count'' r))) of
       (Some through, Some allThere, Some credentialId, Some contracts, Some n) \<Rightarrow>
         if field ''schema'' r \<noteq> Some (JNum (Fin 2)) \<or> normalizeId credentialId \<noteq> normalizedId \<or> n < 0 \<or>
           n \<noteq> int (length contracts) \<or> \<not> hasValidLookupIncompleteReasons allThere (field ''incompleteReasons'' r) \<or>
           \<not> list_all hasValidCandidateIncompleteReasons contracts
         then invalidResponse
         else bindE (mapE (\<lambda>c. normalizeContractSummary (Some c)) contracts) (\<lambda>summaries.
           Inr \<lparr>clkCredentialId = normalizedId, clkContracts = summaries, clkCount = nat n, clkComplete = allThere,
             clkIndexedThrough = through\<rparr>)
     | _ \<Rightarrow> invalidResponse))"

definition bindI :: "'a indexed act \<Rightarrow> ('a \<Rightarrow> 'b indexed) \<Rightarrow> 'b indexed act" where
  "bindI m f = bindA m (\<lambda>r. returnA (bindE r f))"

definition lookupByCredentialId :: "services \<Rightarrow> indexer_client \<Rightarrow> string \<Rightarrow> credential_lookup indexed act" where
  "lookupByCredentialId S I credentialId = (let normalizedId = normalizeId credentialId in
     bindI (indexerFetch S I (''/api/lookup/'' @ normalizedId)) (checkCredentialResponse normalizedId))"

definition collisionExpected :: "indexed_candidate list \<Rightarrow> bool" where
  "collisionExpected candidates \<longleftrightarrow> list_ex icDerivedAddress candidates \<and> list_ex (\<lambda>c. \<not> icDerivedAddress c) candidates"

definition ledgerAtMost :: "nat \<Rightarrow> indexed_candidate \<Rightarrow> bool" where
  "ledgerAtMost n c = (case wcCreationLedger c of Fin q \<Rightarrow> q \<le> of_nat n | _ \<Rightarrow> False)"

definition candidatesOf :: "sdk \<Rightarrow> credential_lookup \<Rightarrow> candidate_lookup" where
  "candidatesOf K response =
     (let candidates = List.map_filter (parseWalletCandidate K) (clkContracts response);
          contractIds = remdups (map wcContractId candidates);
          allThere = (clkComplete response \<and> clkCount response = length (clkContracts response) \<and>
            length candidates = length (clkContracts response) \<and> length contractIds = length candidates \<and>
            list_all (\<lambda>c. ledgerAtMost (clkIndexedThrough response) c \<and> icCollision c = collisionExpected candidates) candidates) in
      \<lparr>clSchema = 2, clComplete = allThere, clIndexedThrough = clkIndexedThrough response, clCandidates = candidates\<rparr>)"

definition lookupWalletCandidates :: "sdk \<Rightarrow> services \<Rightarrow> indexer_client \<Rightarrow> string \<Rightarrow> candidate_lookup indexed act" where
  "lookupWalletCandidates K S I credentialId =
     bindI (lookupByCredentialId S I (normalizeId credentialId)) (\<lambda>response. Inr (candidatesOf K response))"

definition lookupByAddress :: "services \<Rightarrow> indexer_client \<Rightarrow> string \<Rightarrow> summary list indexed act" where
  "lookupByAddress S I address = bindI (indexerFetch S I (''/api/lookup/address/'' @ address)) (\<lambda>response.
     case nonNull (Some response) of
       Inl e \<Rightarrow> Inl (OtherFailure e)
     | Inr r \<Rightarrow> (case nonNull (field ''contracts'' r) of
         Inl e \<Rightarrow> Inl (OtherFailure e)
       | Inr contracts \<Rightarrow> (case contracts of
           JArr xs \<Rightarrow> mapE (\<lambda>c. normalizeContractSummary (Some c)) xs
         | _ \<Rightarrow> Inl (OtherFailure (JsError ''response.contracts.map is not a function'')))))"

record contract_details =
  cdtSummary :: summary
  cdtContextRules :: "json option"

definition checkDetails :: "json \<Rightarrow> contract_details indexed" where
  "checkDetails response = (case nonNull (Some response) of
     Inl e \<Rightarrow> Inl (OtherFailure e)
   | Inr r \<Rightarrow>
       if field ''signer_data'' r \<noteq> None \<and> field ''signer_data'' r \<noteq> Some (JStr ''historical'')
       then Inl (IndexerError ''Indexer returned an invalid contract-detail response'' 0 None)
       else bindE (normalizeContractSummary (field ''summary'' r)) (\<lambda>s.
         Inr \<lparr>cdtSummary = s, cdtContextRules = field ''contextRules'' r\<rparr>))"

definition nullIfMissing :: "'a indexed \<Rightarrow> 'a option indexed" where
  "nullIfMissing r = (case r of
     Inr x \<Rightarrow> Inr (Some x)
   | Inl (IndexerError m status b) \<Rightarrow> if status = 404 then Inr None else Inl (IndexerError m status b)
   | Inl e \<Rightarrow> Inl e)"

definition getContractDetails :: "services \<Rightarrow> indexer_client \<Rightarrow> string \<Rightarrow> contract_details option indexed act" where
  "getContractDetails S I contractId = bindA (indexerFetch S I (''/api/contract/'' @ contractId)) (\<lambda>r.
     returnA (nullIfMissing (bindE r checkDetails)))"

definition getStats :: "services \<Rightarrow> indexer_client \<Rightarrow> json indexed act" where
  "getStats S I = indexerFetch S I ''/api/stats''"

definition isHealthy :: "services \<Rightarrow> indexer_client \<Rightarrow> bool act" where
  "isHealthy S I = bindA (indexerFetch S I ''/'') (\<lambda>r. returnA (case r of
     Inl e \<Rightarrow> False | Inr response \<Rightarrow> field ''status'' response = Some (JStr ''ok'')))"

section \<open>The operations of the kit\<close>

text \<open>The errors of the client, as the kit's callers see them: none is of a class of the kit.\<close>

definition thrown :: "'a indexed act \<Rightarrow> 'a act" where
  "thrown m = bindA m (\<lambda>r. case r of
     Inr x \<Rightarrow> returnA x | Inl (IndexerError msg s b) \<Rightarrow> throwA (JsError msg) | Inl (OtherFailure e) \<Rightarrow> throwA e)"

definition isHexText :: "string \<Rightarrow> bool" where
  "isHexText s \<longleftrightarrow> s \<noteq> [] \<and> list_all (\<lambda>c. hexValue c \<noteq> None) s"

text \<open>\<^verbatim>\<open>Buffer.from(base64)\<close> does not throw, so the fallback of the catch is never reached.\<close>

definition normalizeCredentialIdToHex :: "sdk \<Rightarrow> string \<Rightarrow> string" where
  "normalizeCredentialIdToHex K credentialId =
     (if isHexText credentialId then toLower credentialId else toHex (base64urlToBuffer K credentialId))"

definition discoverContractsByCredential ::
    "sdk \<Rightarrow> services \<Rightarrow> indexer_client option \<Rightarrow> string \<Rightarrow> summary list option act" where
  "discoverContractsByCredential K S indexer credentialId = (case indexer of
     None \<Rightarrow> returnA None
   | Some I \<Rightarrow> bindA (thrown (lookupByCredentialId S I (normalizeCredentialIdToHex K credentialId))) (\<lambda>r.
       returnA (Some (clkContracts r))))"

definition discoverContractsByAddress :: "services \<Rightarrow> indexer_client option \<Rightarrow> string \<Rightarrow> summary list option act" where
  "discoverContractsByAddress S indexer address = (case indexer of
     None \<Rightarrow> returnA None
   | Some I \<Rightarrow> bindA (thrown (lookupByAddress S I address)) (\<lambda>r. returnA (Some r)))"

definition lookupCandidates :: "sdk \<Rightarrow> services \<Rightarrow> indexer_client option \<Rightarrow> string \<Rightarrow> candidate_lookup option act" where
  "lookupCandidates K S indexer credentialId = (case indexer of
     None \<Rightarrow> returnA None
   | Some I \<Rightarrow> bindA (thrown (lookupWalletCandidates K S I (normalizeCredentialIdToHex K credentialId))) (\<lambda>r. returnA (Some r)))"

definition getContractDetailsFromIndexer :: "services \<Rightarrow> indexer_client option \<Rightarrow> string \<Rightarrow> contract_details option act" where
  "getContractDetailsFromIndexer S indexer contractId = (case indexer of
     None \<Rightarrow> returnA None | Some I \<Rightarrow> thrown (getContractDetails S I contractId))"

section \<open>Properties\<close>

lemma finite_branch: "(if b then PosInf else Fin y) = Fin x \<Longrightarrow> y = x"
  by (cases b) simp_all

lemma normalizePositiveInteger_range: "normalizePositiveInteger v = Some n \<Longrightarrow> 1 \<le> n \<and> n < 2 ^ 53"
proof -
  assume v: "normalizePositiveInteger v = Some n"
  have zero: "digitsValue s = 0 \<Longrightarrow> isDigits s \<Longrightarrow> hd s = CHR ''0''" for s
  proof -
    assume z: "digitsValue s = 0" "isDigits s"
    then obtain c cs where s: "s = c # cs" by (cases s) (auto simp: isDigits_def)
    then have "of_char c - 48 = (0 :: nat)" "48 \<le> (of_char c :: nat)"
      using z by (auto simp: digitsValue_Cons isDigits_def isDigit_def)
    then have "(of_char c :: nat) = of_char CHR ''0''" by simp
    then show ?thesis by (metis of_char_eq_iff list.sel(1) s)
  qed
  show ?thesis
  proof (cases "\<exists>x. v = Some (JNum x)")
    case True
    then show ?thesis using v by (auto simp: normalizePositiveInteger_def safeInteger_Some split: option.splits if_splits)
  next
    case False
    then obtain s z where s: "v = Some (JStr s)" "isDigits s" "hd s \<noteq> CHR ''0''" and z: "safeInteger (textNumber s) = Some z" "n = nat z"
      using v by (auto simp: normalizePositiveInteger_def split: option.splits json.splits if_splits)
    have pos: "digitsValue s > 0" using zero [of s] s by (cases "digitsValue s") auto
    have t: "toDouble (digitsValue s) = Fin (of_int z)" "\<bar>z\<bar> < 2 ^ 53"
      using z s(2) by (simp_all add: textNumber_digits safeInteger_Some)
    have "1 \<le> z"
    proof (cases "digitsValue s \<le> 2 ^ 53")
      case True
      then have "of_int z = (of_nat (digitsValue s) :: rat)" using t by (simp add: toDouble_def)
      then have "z = int (digitsValue s)" by (metis of_int_eq_iff of_int_of_nat_eq)
      then show ?thesis using pos by simp
    next
      case False
      let ?n = "digitsValue s" and ?e = "floorlog 2 (digitsValue s) - 53"
      have "2 ^ (floorlog 2 ?n - 1) \<le> ?n" using floorlog_bounds [of ?n 2] pos by simp
      then have "2 ^ ?e \<le> ?n" by (rule order_trans [rotated]) (simp add: power_increasing)
      then have "1 \<le> ?n div 2 ^ ?e" by (simp add: div_greater_zero_iff Suc_leI)
      define up where "up \<longleftrightarrow> 2 * (?n mod 2 ^ ?e) > 2 ^ ?e \<or> 2 * (?n mod 2 ^ ?e) = 2 ^ ?e \<and> odd (?n div 2 ^ ?e)"
      define v where "v = (if up then ?n div 2 ^ ?e + 1 else ?n div 2 ^ ?e) * 2 ^ ?e"
      have "toDouble ?n = (if ?n \<le> 2 ^ 53 then Fin (of_nat ?n) else if v \<ge> 2 ^ 1024 then PosInf else Fin (of_nat v))"
        unfolding toDouble_def Let_def v_def up_def by (rule refl)
      then have "(if v \<ge> 2 ^ 1024 then PosInf else Fin (of_nat v)) = Fin (of_int z)" by (simp only: t(1) False if_False)
      then have "of_nat v = (of_int z :: rat)" by (rule finite_branch)
      then have "z = int v" by (metis of_int_eq_iff of_int_of_nat_eq)
      moreover have "1 \<le> v" using \<open>1 \<le> ?n div 2 ^ ?e\<close> by (simp add: v_def Suc_leI)
      ultimately show ?thesis by linarith
    qed
    then show ?thesis using t z(2) by auto
  qed
qed

text \<open>The summaries an answer must hold, and what a parsed candidate says.\<close>

lemma parseWalletCandidate_sound:
  assumes "parseWalletCandidate K fs = Some c"
  shows "map_of fs ''contract_id'' = Some (JStr (wcContractId c)) \<and> isValidContract K (wcContractId c) \<and>
     (\<exists>n. wcCreationLedger c = Fin (of_nat n) \<and> 1 \<le> n \<and> n < 2 ^ 53) \<and>
     length (wcBirthWasmHash c) = 64 \<and> length (wcCreationTx c) = 64 \<and> map_of fs ''incomplete'' = Some (JBool False)"
proof -
  obtain i b t l u d k where e: "stringOf (map_of fs ''contract_id'') = Some i" "normalizeHash (map_of fs ''birth_wasm_hash'') = Some b"
      "normalizeHash (map_of fs ''creation_transaction_hash'') = Some t"
      "normalizePositiveInteger (map_of fs ''creation_ledger'') = Some l" "isValidContract K i"
      "map_of fs ''incomplete'' = Some (JBool False)"
      "c = \<lparr>wcContractId = i, wcBirthWasmHash = b, wcCreationTx = t, wcCreationLedger = Fin (of_nat l),
        icCurrentWasmHash = u, icDerivedAddress = d, icCollision = k\<rparr>"
    using assms by (auto simp: parseWalletCandidate_def split: option.splits if_splits)
  have "length h = 64" if "normalizeHash v = Some h" for v h
    using that by (auto simp: normalizeHash_def Let_def split: option.splits if_splits)
  then show ?thesis using e normalizePositiveInteger_range [OF e(4)] by (simp add: stringOf_Some)
qed

lemma map_filter_full:
  "length (List.map_filter f xs) = length xs \<Longrightarrow> map Some (List.map_filter f xs) = map f xs"
proof (induction xs)
  case (Cons x xs)
  have "length (List.map_filter f xs) \<le> length xs" by (induction xs) (auto simp: map_filter_simps split: option.splits)
  with Cons show ?case by (cases "f x") (auto simp: map_filter_simps)
qed (simp add: map_filter_simps)

definition soundLookup :: "sdk \<Rightarrow> summary list \<Rightarrow> candidate_lookup \<Rightarrow> bool" where
  "soundLookup K summaries l \<longleftrightarrow> clSchema l = 2 \<and> map Some (clCandidates l) = map (parseWalletCandidate K) summaries \<and>
     distinct (map wcContractId (clCandidates l)) \<and>
     list_all (\<lambda>c. ledgerAtMost (clIndexedThrough l) c \<and> icCollision c = collisionExpected (clCandidates l)) (clCandidates l)"

lemma candidatesOf_sound:
  assumes "candidatesOf K r = l" "clComplete l"
  shows "soundLookup K (clkContracts r) l \<and> clkComplete r"
proof -
  let ?c = "List.map_filter (parseWalletCandidate K) (clkContracts r)"
  have l: "clCandidates l = ?c" "clIndexedThrough l = clkIndexedThrough r" "clSchema l = 2"
    and c: "clkComplete r" "length ?c = length (clkContracts r)" "length (remdups (map wcContractId ?c)) = length ?c"
      "list_all (\<lambda>c. ledgerAtMost (clkIndexedThrough r) c \<and> icCollision c = collisionExpected ?c) ?c"
    using assms by (auto simp: candidatesOf_def Let_def)
  have "distinct (map wcContractId ?c)"
    using c(3) by (metis length_map length_remdups_card_conv card_distinct)
  then show ?thesis using l c map_filter_full [OF c(2)] by (simp add: soundLookup_def)
qed

text \<open>The body of a valid answer, and the summaries the client reads in it.\<close>

definition answers :: "json \<Rightarrow> string \<Rightarrow> bool \<Rightarrow> nat \<Rightarrow> summary list \<Rightarrow> bool" where
  "answers body credentialId isComplete through summaries \<longleftrightarrow>
     field ''schema'' body = Some (JNum (Fin 2)) \<and> field ''complete'' body = Some (JBool isComplete) \<and>
     normalizePositiveInteger (field ''indexed_through_ledger'' body) = Some through \<and>
     (\<exists>i. field ''credentialId'' body = Some (JStr i) \<and> normalizeId i = credentialId) \<and>
     (\<exists>xs. field ''contracts'' body = Some (JArr xs) \<and> mapE (\<lambda>c. normalizeContractSummary (Some c)) xs = Inr summaries)"

lemma checkCredentialResponse_sound:
  assumes "checkCredentialResponse i body = Inr r"
  shows "answers body i (clkComplete r) (clkIndexedThrough r) (clkContracts r) \<and> clkCredentialId r = i"
proof -
  obtain b where b: "nonNull (Some body) = Inr b" using assms by (auto simp: checkCredentialResponse_def split: sum.splits)
  then have [simp]: "b = body" by (auto simp: nonNull_def split: option.splits json.splits)
  show ?thesis
    using assms b
    by (auto simp: checkCredentialResponse_def answers_def invalidResponse_def bindE_Inr boolOf_Some stringOf_Some arrayOf_Some
        split: option.splits if_splits)
qed

lemma bindI_Inr: "bindI m f w = (Inr (Inr y), w') \<longleftrightarrow> (\<exists>x. m w = (Inr (Inr x), w') \<and> f x = Inr y)"
  by (auto simp: bindI_def bindA_Inr run_simps bindE_Inr)

lemma indexerFetch_Inr:
  "indexerFetch S I path w = (Inr (Inr j), w') \<longleftrightarrow> w' = w\<lparr>wTrace := wTrace w @ [FxFetch (ixBaseUrl I @ path) None]\<rparr> \<and>
     (\<exists>p. svFetch S (wTrace w) (ixBaseUrl I @ path) None = Fetched p \<and> hrOk p \<and> hrJson p = Inr j)"
  by (auto simp: indexerFetch_def Let_def run_simps fetched_def split: fetch_answer.splits if_splits sum.splits)

definition lookupUrl :: "indexer_client \<Rightarrow> string \<Rightarrow> string" where
  "lookupUrl I i = ixBaseUrl I @ ''/api/lookup/'' @ normalizeId (normalizeId i)"

text \<open>
  A lookup that is reported complete comes from one positive answer for the credential that
  itself says so: every contract of the answer is a candidate, each with a creation ledger between
  1 and the ledger the answer covers, no contract twice, and each marked as a collision exactly
  when derived and other addresses both occur.
\<close>

lemma complete_lookup_is_sound:
  assumes "lookupWalletCandidates K S I i w = (Inr (Inr l), w')" "clComplete l"
  shows "\<exists>p body summaries. svFetch S (wTrace w) (lookupUrl I i) None = Fetched p \<and> hrOk p \<and> hrJson p = Inr body \<and>
     answers body (normalizeId (normalizeId i)) True (clIndexedThrough l) summaries \<and> soundLookup K summaries l"
proof -
  obtain r where r: "lookupByCredentialId S I (normalizeId i) w = (Inr (Inr r), w')" "candidatesOf K r = l"
    using assms(1) by (auto simp: lookupWalletCandidates_def bindI_Inr)
  then obtain body where body: "indexerFetch S I (''/api/lookup/'' @ normalizeId (normalizeId i)) w = (Inr (Inr body), w')"
      "checkCredentialResponse (normalizeId (normalizeId i)) body = Inr r"
    by (auto simp: lookupByCredentialId_def Let_def bindI_Inr)
  then obtain p where p: "svFetch S (wTrace w) (lookupUrl I i) None = Fetched p" "hrOk p" "hrJson p = Inr body"
    by (auto simp: indexerFetch_Inr lookupUrl_def)
  have s: "soundLookup K (clkContracts r) l" "clkComplete r" using candidatesOf_sound [OF r(2) assms(2)] by simp_all
  have t: "clIndexedThrough l = clkIndexedThrough r" using r(2) by (auto simp: candidatesOf_def Let_def)
  have "answers body (normalizeId (normalizeId i)) True (clIndexedThrough l) (clkContracts r)"
    using checkCredentialResponse_sound [OF body(2)] s(2) t by simp
  with p s(1) show ?thesis by blast
qed

lemma thrown_Inr: "thrown m w = (Inr x, w') \<longleftrightarrow> m w = (Inr (Inr x), w')"
proof -
  obtain r w1 where m: "m w = (r, w1)" by fastforce
  show ?thesis
  proof (cases r)
    case (Inr y)
    then show ?thesis
      by (cases y; cases "projl y") (auto simp: thrown_def bindA_def m run_simps)
  qed (simp add: thrown_def bindA_def m)
qed

lemma lookupCandidates_Inr:
  "lookupCandidates K S (Some I) i w = (Inr a, w') \<longleftrightarrow>
   (\<exists>l. a = Some l \<and> lookupWalletCandidates K S I (normalizeCredentialIdToHex K i) w = (Inr (Inr l), w'))"
  by (auto simp: lookupCandidates_def bindA_Inr thrown_Inr run_simps)

text \<open>
  Without a local record of a wallet's birth, the claim a connection goes on with comes from one
  positive answer of the indexer about this credential, which calls itself complete, covers the
  ledger the network had reached before the lookup, and holds exactly one candidate for the contract.
\<close>

theorem indexed_claim_is_unique:
  assumes "cdLookup D = Some (lookupCandidates (keSdk E) (keServices E) (Some I))"
    "candidateFromStoredCredential credential contractId = None"
    "findCandidate E D credential i contractId usedDerived w = (Inr c, w')"
  shows "\<exists>ledger p body summaries l x. svRpcLatestLedger (keServices E) (wTrace w) = Inr ledger \<and>
     svFetch (keServices E) (wTrace w @ [FxRpcLatestLedger]) (lookupUrl I (normalizeCredentialIdToHex (keSdk E) i)) None = Fetched p \<and>
     hrOk p \<and> hrJson p = Inr body \<and>
     answers body (normalizeId (normalizeId (normalizeCredentialIdToHex (keSdk E) i))) True (clIndexedThrough l) summaries \<and>
     soundLookup (keSdk E) summaries l \<and> ledger \<le> clIndexedThrough l \<and>
     filter (\<lambda>y. wcContractId y = contractId) (clCandidates l) = [x] \<and> c = wallet_candidate.truncate x"
proof -
  let ?S = "keServices E" and ?i = "normalizeCredentialIdToHex (keSdk E) i"
  obtain cs w1 where cs: "bindA (latestLedger ?S) (\<lambda>ledgerAtStart. bindA (lookupCandidates (keSdk E) ?S (Some I) i)
        (\<lambda>answer. liftA (checkLookup contractId usedDerived ledgerAtStart answer))) w = (Inr cs, w1)" and c: "cs = [c]"
  proof -
    from assms(3) obtain cs w1 where cs: "bindA (latestLedger ?S) (\<lambda>ledgerAtStart. bindA (lookupCandidates (keSdk E) ?S (Some I) i)
        (\<lambda>answer. liftA (checkLookup contractId usedDerived ledgerAtStart answer))) w = (Inr cs, w1)"
      and r: "(case cs of [candidate] \<Rightarrow> returnA candidate
        | [] \<Rightarrow> throwA (WalletProvenanceError contractId ''No immutable birth claim matches this address.'')
        | _ \<Rightarrow> throwA (WalletProvenanceError contractId
            ''The indexer returned duplicate birth claims for this address.'')) w1 = (Inr c, w')"
      unfolding findCandidate_def assms(1,2) option.case by (rule bindA_InrE)
    have "cs = [c]" using r by (cases cs rule: remdups_adj.cases) (simp_all add: run_simps)
    with cs show ?thesis by (rule that)
  qed
  then obtain ledger w2 a where l: "latestLedger ?S w = (Inr ledger, w2)" and
      a: "lookupCandidates (keSdk E) ?S (Some I) i w2 = (Inr a, w1)" and k: "checkLookup contractId usedDerived ledger a = Inr [c]"
    by (auto simp: bindA_Inr run_simps)
  have w2: "svRpcLatestLedger ?S (wTrace w) = Inr ledger" "w2 = w\<lparr>wTrace := wTrace w @ [FxRpcLatestLedger]\<rparr>"
    using l by (simp_all add: latestLedger_def run_simps)
  obtain l where l: "a = Some l" and q: "lookupWalletCandidates (keSdk E) ?S I ?i w2 = (Inr (Inr l), w1)"
    using a by (auto simp: lookupCandidates_Inr)
  have f: "clComplete l" "ledger \<le> clIndexedThrough l"
      "map wallet_candidate.truncate (filter (\<lambda>y. wcContractId y = contractId) (clCandidates l)) = [c]"
    using k l by (auto simp: checkLookup_def Let_def split: if_splits)
  then obtain x where x: "filter (\<lambda>y. wcContractId y = contractId) (clCandidates l) = [x]" "c = wallet_candidate.truncate x"
    by (auto simp: map_eq_Cons_conv)
  obtain p body summaries where "svFetch ?S (wTrace w2) (lookupUrl I ?i) None = Fetched p" "hrOk p" "hrJson p = Inr body"
     "answers body (normalizeId (normalizeId ?i)) True (clIndexedThrough l) summaries" "soundLookup (keSdk E) summaries l"
    using complete_lookup_is_sound [OF q f(1)] by blast
  then show ?thesis using w2 f(2) x by auto
qed

definition demoSummary :: summary where
  "demoSummary = [(''contract_id'', JStr ''CA''), (''birth_wasm_hash'', JStr (replicate 64 CHR ''a'')),
     (''creation_transaction_hash'', JStr (replicate 64 CHR ''b'')), (''creation_ledger'', JNum (Fin 5)),
     (''current_wasm_hash'', JStr (replicate 64 CHR ''a'')), (''derived_address'', JBool True),
     (''collision'', JBool False), (''incomplete'', JBool False)]"

definition demoAnswer :: json where
  "demoAnswer = JObj [(''schema'', JNum (Fin 2)), (''complete'', JBool True), (''indexed_through_ledger'', JNum (Fin 12)),
     (''credentialId'', JStr ''0x04''), (''count'', JNum (Fin 1)), (''contracts'', JArr [JObj demoSummary])]"

definition demoIndexer :: indexer_client where
  "demoIndexer = \<lparr>ixBaseUrl = ''u'', ixTimeout = 1, ixAuthToken = None\<rparr>"

definition indexedEnv :: kit_env where
  "indexedEnv = demoEnv\<lparr>keServices := demoServices\<lparr>svFetch := (\<lambda>t u b. Fetched \<lparr>hrOk = True, hrStatus = 200, hrStatusText = [],
     hrText = None, hrJson = Inr demoAnswer\<rparr>)\<rparr>\<rparr>"

definition indexedConnect :: connect_deps where
  "indexedConnect = demoConnect\<lparr>cdLookup := Some (lookupCandidates (keSdk indexedEnv) (keServices indexedEnv) (Some demoIndexer))\<rparr>"

lemma demo_lookup_parts:
  "normalizeCredentialIdToHex demoSdk ''04'' = ''04''" "normalizeId ''04'' = ''04''" "normalizeId ''0x04'' = ''04''"
  "normalizePositiveInteger (Some (JNum (Fin 12))) = Some 12" "normalizePositiveInteger (Some (JNum (Fin 5))) = Some 5"
  "normalizeHash (Some (JStr (replicate 64 CHR ''a''))) = Some (replicate 64 CHR ''a'')"
  "normalizeHash (Some (JStr (replicate 64 CHR ''b''))) = Some (replicate 64 CHR ''b'')"
proof -
  have r: "replicate 2 c = [c, c]" for c :: char by (simp add: numeral_eq_Suc)
  show "normalizeHash (Some (JStr (replicate 64 CHR ''a''))) = Some (replicate 64 CHR ''a'')"
    "normalizeHash (Some (JStr (replicate 64 CHR ''b''))) = Some (replicate 64 CHR ''b'')"
    by (simp_all add: normalizeHash_def stringOf_def normalizeId_def strip0x_def toLower_def toLowerChar_def hexDigits_def r)
qed (simp_all add: normalizeCredentialIdToHex_def isHexText_def hexValue_def toLower_def toLowerChar_def normalizeId_def
    strip0x_def normalizePositiveInteger_def safeInteger_def)

lemma fold_update_other:
  "k \<notin> set ks \<Longrightarrow> map_of (fold (\<lambda>k fs. AList.update k (g k) fs) ks fs) k = map_of fs k"
  by (induction ks arbitrary: fs) (simp_all add: update_conv')

lemma demo_found:
  "\<exists>c w'. findCandidate indexedEnv indexedConnect None ''04'' ''CA'' False demoWorld = (Inr c, w')"
proof -
  let ?s = "fold (\<lambda>k fs. AList.update k (JNum (jsonNumber (field k (JObj demoSummary)))) fs) COUNT_FIELDS demoSummary"
  have f: "map_of ?s k = map_of demoSummary k" if "k \<notin> set COUNT_FIELDS" for k
    using that by (rule fold_update_other)
  have n: "normalizeContractSummary (Some (JObj demoSummary)) = Inr ?s"
    by (simp add: normalizeContractSummary_def nonNull_def spread_def)
  have m: "map_of ?s ''contract_id'' = Some (JStr ''CA'')" "map_of ?s ''birth_wasm_hash'' = Some (JStr (replicate 64 CHR ''a''))"
    "map_of ?s ''creation_transaction_hash'' = Some (JStr (replicate 64 CHR ''b''))" "map_of ?s ''creation_ledger'' = Some (JNum (Fin 5))"
    "map_of ?s ''current_wasm_hash'' = Some (JStr (replicate 64 CHR ''a''))" "map_of ?s ''derived_address'' = Some (JBool True)"
    "map_of ?s ''collision'' = Some (JBool False)" "map_of ?s ''incomplete'' = Some (JBool False)"
    by (subst f, simp add: COUNT_FIELDS_def, simp add: demoSummary_def)+
  define x where "x = \<lparr>wcContractId = ''CA'', wcBirthWasmHash = replicate 64 CHR ''a'', wcCreationTx = replicate 64 CHR ''b'',
    wcCreationLedger = Fin 5, icCurrentWasmHash = replicate 64 CHR ''a'', icDerivedAddress = True, icCollision = False\<rparr>"
  have p: "parseWalletCandidate demoSdk ?s = Some x"
    by (simp add: parseWalletCandidate_def m demo_lookup_parts stringOf_def boolOf_def x_def demoSdk_def)
  have v: "hasValidCandidateIncompleteReasons (JObj demoSummary)"
    by (simp add: hasValidCandidateIncompleteReasons_def demoSummary_def)
  define r where "r = \<lparr>clkCredentialId = ''04'', clkContracts = [?s], clkCount = 1,
      clkComplete = True, clkIndexedThrough = 12\<rparr>"
  have c: "checkCredentialResponse ''04'' demoAnswer = Inr r"
    by (simp add: checkCredentialResponse_def demoAnswer_def nonNull_def field_def demo_lookup_parts boolOf_def stringOf_def
        arrayOf_def safeInteger_def hasValidLookupIncompleteReasons_def v n r_def)
  have k: "candidatesOf demoSdk r = \<lparr>clSchema = 2, clComplete = True, clIndexedThrough = 12, clCandidates = [x]\<rparr>"
    by (simp add: r_def candidatesOf_def map_filter_simps p ledgerAtMost_def collisionExpected_def) (simp add: x_def)
  have l: "lookupWalletCandidates demoSdk (keServices indexedEnv) demoIndexer ''04'' w =
      (Inr (Inr \<lparr>clSchema = 2, clComplete = True, clIndexedThrough = 12, clCandidates = [x]\<rparr>),
       w\<lparr>wTrace := wTrace w @ [FxFetch ''u/api/lookup/04'' None]\<rparr>)" for w
    by (simp add: lookupWalletCandidates_def lookupByCredentialId_def bindI_def bindA_def run_simps indexerFetch_def Let_def
        fetched_def indexedEnv_def demo_lookup_parts c k demoIndexer_def)
  have q: "lookupCandidates demoSdk (keServices indexedEnv) (Some demoIndexer) ''04'' w =
      (Inr (Some \<lparr>clSchema = 2, clComplete = True, clIndexedThrough = 12, clCandidates = [x]\<rparr>),
       w\<lparr>wTrace := wTrace w @ [FxFetch ''u/api/lookup/04'' None]\<rparr>)" for w
    by (simp add: lookupCandidates_def thrown_def bindA_def run_simps demo_lookup_parts l)
  have g: "cdLookup indexedConnect = Some (lookupCandidates demoSdk (keServices indexedEnv) (Some demoIndexer))"
    by (simp add: indexedConnect_def indexedEnv_def demoEnv_def)
  have t: "latestLedger (keServices indexedEnv) w = (Inr 10, w\<lparr>wTrace := wTrace w @ [FxRpcLatestLedger]\<rparr>)" for w
    by (simp add: latestLedger_def run_simps indexedEnv_def demoServices_def)
  have h: "checkLookup ''CA'' False 10 (Some \<lparr>clSchema = 2, clComplete = True, clIndexedThrough = 12, clCandidates = [x]\<rparr>) =
      Inr [wallet_candidate.truncate x]"
    by (simp add: checkLookup_def x_def)
  show ?thesis
    by (simp add: findCandidate_def candidateFromStoredCredential_def g bindA_def t q h run_simps)
qed

lemma indexed_claim_is_unique_witness:
  "\<exists>c w' (l :: candidate_lookup) x. findCandidate indexedEnv indexedConnect None ''04'' ''CA'' False demoWorld = (Inr c, w') \<and>
     10 \<le> clIndexedThrough l \<and> filter (\<lambda>y. wcContractId y = ''CA'') (clCandidates l) = [x] \<and> c = wallet_candidate.truncate x"
proof -
  obtain c w' where run: "findCandidate indexedEnv indexedConnect None ''04'' ''CA'' False demoWorld = (Inr c, w')"
    using demo_found by blast
  have d: "cdLookup indexedConnect = Some (lookupCandidates (keSdk indexedEnv) (keServices indexedEnv) (Some demoIndexer))"
    by (simp add: indexedConnect_def)
  have ten: "svRpcLatestLedger (keServices indexedEnv) t = Inr 10" for t by (simp add: indexedEnv_def demoServices_def)
  have n: "candidateFromStoredCredential None ''CA'' = None" by (simp add: candidateFromStoredCredential_def)
  from indexed_claim_is_unique [OF d n run] obtain ledger and l :: candidate_lookup and x where
    "svRpcLatestLedger (keServices indexedEnv) (wTrace demoWorld) = Inr ledger" "ledger \<le> clIndexedThrough l"
    "filter (\<lambda>y. wcContractId y = ''CA'') (clCandidates l) = [x]" "c = wallet_candidate.truncate x"
    by blast
  with run ten show ?thesis by (metis sum.inject(2))
qed

end
