(* ===== verification/Kit_MultiSigner.thy ===== *)
theory Kit_MultiSigner
  imports Kit_Wallet Kit_ExternalSigners
begin

text \<open>
  \<^verbatim>\<open>src/managers/multi-signer-manager.ts\<close>: choosing the signers this client holds, and signing every
  authorization entry of a transaction with passkeys, account wallets and Ed25519 keys together.
  The account signers are the manager of \<open>Kit_ExternalSigners\<close> over any adapter. Log calls are left
  out.
\<close>

section \<open>Selected signers\<close>

datatype selected_type = PasskeySigner | WalletSigner | Ed25519Signer

record selected_signer =
  slType :: selected_type
  slCredentialId :: "string option"
  slWalletAddress :: "string option"
  slEd25519Key :: "string option"
  slSigner :: "signer_object option"

definition needsMultiSigner :: "sdk \<Rightarrow> signer list \<Rightarrow> bool" where
  "needsMultiSigner K signers \<longleftrightarrow>
     list_ex (\<lambda>s. case s of Delegated a \<Rightarrow> True | External v k \<Rightarrow> \<not> truthy (getCredentialIdFromSigner K s)) signers \<or>
     1 < length signers"

definition selectSigner :: "sdk \<Rightarrow> 'a wallet_ops \<Rightarrow> 'a ext_manager \<Rightarrow> string option \<Rightarrow> signer_object \<Rightarrow> selected_signer option" where
  "selectSigner K W m activeCredentialId so = (case snd so of
     Delegated address \<Rightarrow>
       if xmCanSignFor W address m
       then Some \<lparr>slType = WalletSigner, slCredentialId = None, slWalletAddress = Some address, slEd25519Key = None,
         slSigner = Some so\<rparr>
       else None
   | External verifier keyData \<Rightarrow>
       let credentialId = getCredentialIdFromSigner K (snd so) in
       if truthy credentialId
       then (if \<not> truthy activeCredentialId \<or> credentialId = activeCredentialId
         then Some \<lparr>slType = PasskeySigner, slCredentialId = credentialId, slWalletAddress = None, slEd25519Key = None,
           slSigner = Some so\<rparr>
         else None)
       else if canSignEd25519 keyData m
       then Some \<lparr>slType = Ed25519Signer, slCredentialId = None, slWalletAddress = None, slEd25519Key = Some (toHex keyData),
         slSigner = Some so\<rparr>
       else None)"

definition buildSelectedSigners ::
    "sdk \<Rightarrow> 'a wallet_ops \<Rightarrow> 'a ext_manager \<Rightarrow> signer_object list \<Rightarrow> string option \<Rightarrow> selected_signer list" where
  "buildSelectedSigners K W m signers activeCredentialId = List.map_filter (selectSigner K W m activeCredentialId) signers"

section \<open>What the manager is given\<close>

text \<open>
  The external signers, base64 from and to text, the upgrade policy, the kit's passkey signing and
  scheme resolution, the client of a contract, the rule ids the indexer knows, the rules of a
  type, random bytes, and the SDK's builder of a simulated transaction, with the simulation's error.
\<close>

record 'a multi_deps =
  mdOps :: "'a wallet_ops"
  mdManager :: "'a ext_manager"
  mdFromText :: "string \<Rightarrow> buffer"
  mdToText :: "buffer \<Rightarrow> string"
  mdPolicy :: upgrade_policy
  mdSignEntry :: "auth_entry \<Rightarrow> passkey_sign_options \<Rightarrow> auth_entry act"
  mdScheme :: "string \<Rightarrow> string act"
  mdClient :: "string \<Rightarrow> query_client"
  mdIndexer :: "(nat list option act) option"
  mdGetRules :: "context_rule_type \<Rightarrow> context_rule list act"
  mdRandom :: "effect list \<Rightarrow> buffer"
  mdBuild :: "effect list \<Rightarrow> host_function \<Rightarrow> (assembled \<times> string option) result"

record multi_options =
  moForceMethod :: "submission_method option"
  moResolveRuleIds :: "(auth_entry \<Rightarrow> nat \<Rightarrow> nat list act) option"

definition getAvailableSigners :: "'a multi_deps \<Rightarrow> signer list act" where
  "getAvailableSigners D = bindA (askA wContractId) (\<lambda>contractId.
     if \<not> truthy contractId then returnA []
     else catchA (bindA (mdGetRules D DefaultRule) (\<lambda>rules. returnA (collectUniqueSigners (concat (map crSigners rules)))))
       (\<lambda>_. returnA []))"

section \<open>Signatures of account wallets\<close>

definition walletSign :: "sdk \<Rightarrow> 'a multi_deps \<Rightarrow> auth_entry \<Rightarrow> buffer \<Rightarrow> string \<Rightarrow> buffer act" where
  "walletSign K D ent preimage address =
     bindA (doA (FxSignAuth address ent)) (\<lambda>_.
     bindA (liftA (xmSignAuthEntry K (mdFromText D) (mdToText D) (mdOps D) (mdToText D preimage) address (mdManager D)))
       (\<lambda>signed. returnA (mdFromText D (fst signed))))"

text \<open>\<^verbatim>\<open>Address.fromString(a).toScAddress().accountId().ed25519()\<close>, which only an account address has.\<close>

definition accountKey :: "sdk \<Rightarrow> string \<Rightarrow> buffer result" where
  "accountKey K address = bindE (addressFromString K address) (\<lambda>a. case a of
     AddrAccount key \<Rightarrow> Inr key | _ \<Rightarrow> Inl (JsError ''accountId not set''))"

definition signWalletAddressAuthEntry ::
    "kit_env \<Rightarrow> 'a multi_deps \<Rightarrow> auth_entry \<Rightarrow> string \<Rightarrow> nat \<Rightarrow> auth_entry act" where
  "signWalletAddressAuthEntry E D ent authAddress expiration =
     bindA (liftA (normalizeSignatureExpirationLedger (Fin (of_nat expiration)))) (\<lambda>normalizedExpiration.
     bindA (case aeCredentials ent of
        CredWithDelegates c d \<Rightarrow> throwA (JsError
          ''ADDRESS_WITH_DELEGATES auth entries are not supported by wallet signing yet'')
      | cs \<Rightarrow> liftA (getAddressCredentials cs)) (\<lambda>_.
     bindA (liftA (buildSignaturePreimage (keSdk E) (keNetwork E) ent (Fin (of_nat normalizedExpiration)))) (\<lambda>(e', preimage).
     bindA (walletSign (keSdk E) D e' preimage authAddress) (\<lambda>signature.
     bindA (liftA (accountKey (keSdk E) authAddress)) (\<lambda>key.
       returnA (setSignature (buildAddressSignatureScVal key signature) e'))))))"

text \<open>
  The separate entry by which a delegated signer authorizes the wallet's \<^verbatim>\<open>__check_auth\<close>. Its address
  is parsed only after the signature is made, and is no part of what is signed.
\<close>

definition delegatedInvocation :: "sdk \<Rightarrow> string \<Rightarrow> scval list \<Rightarrow> invocation result" where
  "delegatedInvocation K contractId args = bindE (addressFromString K contractId) (\<lambda>c.
     Inr (Invocation (ContractFn \<lparr>iaContract = c, iaFunction = ''__check_auth'', iaArgs = args\<rparr>) []))"

definition delegatedEntry :: "scaddress \<Rightarrow> int \<Rightarrow> nat \<Rightarrow> scval \<Rightarrow> invocation \<Rightarrow> auth_entry" where
  "delegatedEntry address nonce expiration signature call = \<lparr>aeCredentials = createAddressCredentials
     \<lparr>acAddress = address, acNonce = nonce, acExpiration = expiration, acSignature = signature\<rparr>, aeRoot = call\<rparr>"

definition delegate :: "kit_env \<Rightarrow> 'a multi_deps \<Rightarrow> string \<Rightarrow> scval list \<Rightarrow> nat \<Rightarrow> string \<Rightarrow> auth_entry act" where
  "delegate E D contractId delegatedAuthArgs expiration address =
     bindA (askA (\<lambda>w. randomAuthEntryNonce (mdRandom D (wTrace w)))) (\<lambda>nonce.
     bindA (liftA (delegatedInvocation (keSdk E) contractId delegatedAuthArgs)) (\<lambda>call.
       let parsed = addressFromString (keSdk E) address;
           unsigned = delegatedEntry (case parsed of Inr a \<Rightarrow> a | Inl _ \<Rightarrow> AddrOther [] []) nonce expiration ScvVoid call in
     bindA (walletSign (keSdk E) D unsigned (authPreimageToXDR (keSdk E) unsigned expiration (keNetwork E)) address) (\<lambda>signature.
     bindA (liftA parsed) (\<lambda>a.
     bindA (liftA (accountKey (keSdk E) address)) (\<lambda>key.
       returnA (delegatedEntry a nonce expiration (buildAddressSignatureScVal key signature) call))))))"

section \<open>Signing one entry of the wallet\<close>

fun signPasskeys ::
    "'a multi_deps \<Rightarrow> (selected_signer \<Rightarrow> passkey_sign_options) \<Rightarrow> auth_entry \<Rightarrow> selected_signer list \<Rightarrow> auth_entry act" where
  "signPasskeys D options e [] = returnA e"
| "signPasskeys D options e (s # ss) = bindA (mdSignEntry D e (options s)) (\<lambda>e'. signPasskeys D options e' ss)"

fun signEd25519s :: "'a ext_manager \<Rightarrow> buffer \<Rightarrow> auth_payload \<Rightarrow> selected_signer list \<Rightarrow> auth_payload result" where
  "signEd25519s m authDigest p [] = Inr p"
| "signEd25519s m authDigest p (s # ss) =
     (case (slEd25519Key s, slSigner s) of
        (Some key, Some so) \<Rightarrow>
          if key = [] then signEd25519s m authDigest p ss
          else bindE (signEd25519Digest (fromHex key) authDigest m) (\<lambda>bytes.
            signEd25519s m authDigest (upsertAuthPayloadSigner p so bytes) ss)
      | _ \<Rightarrow> signEd25519s m authDigest p ss)"

fun addDelegated :: "auth_payload \<Rightarrow> selected_signer list \<Rightarrow> auth_payload" where
  "addDelegated p [] = p"
| "addDelegated p (s # ss) =
     (case (truthy (slWalletAddress s), slSigner s) of
        (True, Some so) \<Rightarrow> addDelegated (upsertAuthPayloadSigner p so []) ss
      | _ \<Rightarrow> addDelegated p ss)"

definition walletAddresses :: "selected_signer list \<Rightarrow> string list" where
  "walletAddresses ss = map (the \<circ> slWalletAddress) (filter (\<lambda>s. truthy (slWalletAddress s)) ss)"

definition ofType :: "selected_type \<Rightarrow> selected_signer list \<Rightarrow> selected_signer list" where
  "ofType t = filter (\<lambda>s. slType s = t)"

definition discoveryDeps :: "kit_env \<Rightarrow> 'a multi_deps \<Rightarrow> string \<Rightarrow> discovery_deps" where
  "discoveryDeps E D contractId = \<lparr>ddIndexer = mdIndexer D, ddProbe = None,
     ddLatestLedger = Some (latestLedger (keServices E)), ddContractId = Some contractId\<rparr>"

definition contextRuleIdsFor ::
    "kit_env \<Rightarrow> 'a multi_deps \<Rightarrow> multi_options \<Rightarrow> selected_signer list \<Rightarrow> string \<Rightarrow> auth_entry \<Rightarrow> nat \<Rightarrow> nat list act" where
  "contextRuleIdsFor E D options selected contractId signedEntry index = (case moResolveRuleIds options of
     Some f \<Rightarrow> f signedEntry index
   | None \<Rightarrow> bindA requireWallet (\<lambda>wallet.
       bindA (listContextRules E (mdClient D wallet) (discoveryDeps E D contractId)) (\<lambda>rules.
         liftA (resolveContextRuleIdsForEntry (keSdk E) signedEntry
           (map snd (List.map_filter slSigner selected)) rules))))"

text \<open>The payload after the passkeys, with the Ed25519 signatures and the delegated signers.\<close>

definition completePayload ::
    "kit_env \<Rightarrow> 'a multi_deps \<Rightarrow> selected_signer list \<Rightarrow> nat list \<Rightarrow> nat \<Rightarrow> string \<Rightarrow> auth_entry \<Rightarrow> (auth_entry \<times> scval list) result" where
  "completePayload E D selected ids expiration scheme e =
     bindE (getAddressCredentials (aeCredentials e)) (\<lambda>c.
     bindE (readAuthPayload (keSdk E) (acSignature c)) (\<lambda>p0.
       let p = (if apRuleIds p0 = [] then p0\<lparr>apRuleIds := ids\<rparr> else p0) in
     bindE (computeEntryAuthDigest (keSdk E) (keNetwork E) e (Fin (of_nat expiration)) (apRuleIds p) scheme) (\<lambda>(e', digest).
     bindE (signEd25519s (mdManager D) (edAuthDigest digest) p (ofType Ed25519Signer selected)) (\<lambda>p'.
     bindE (writeAuthPayload (keSdk E) (addDelegated p' (ofType WalletSigner selected))) (\<lambda>v.
       Inr (setSignature v e', edDelegatedArgs digest))))))"

definition missingMetadata :: "selected_signer list \<Rightarrow> string option" where
  "missingMetadata ws = (case List.find (\<lambda>s. truthy (slWalletAddress s) \<and> slSigner s = None) ws of
     Some s \<Rightarrow> slWalletAddress s | None \<Rightarrow> None)"

text \<open>From the rule ids on: the passkeys, the payload, the entries of the account signers.\<close>

definition signSelected ::
    "kit_env \<Rightarrow> 'a multi_deps \<Rightarrow> selected_signer list \<Rightarrow> host_function option \<Rightarrow> string \<Rightarrow> nat \<Rightarrow> string \<Rightarrow> nat list \<Rightarrow>
     auth_entry \<Rightarrow> (tx_result + auth_entry list \<times> string option) act" where
  "signSelected E D selected mutation contractId expiration scheme ids signedEntry =
     bindA (signPasskeys D (\<lambda>s. \<lparr>psCredentialId = slCredentialId s, psExpiration = Some (Fin (of_nat expiration)),
         psRuleIds = Some ids, psSigner = slSigner s, psMutation = mutation, psScheme = Some scheme\<rparr>)
       signedEntry (ofType PasskeySigner selected)) (\<lambda>passkeyed.
     bindA (liftA (getAddressCredentials (aeCredentials passkeyed))) (\<lambda>_.
       (case missingMetadata (ofType WalletSigner selected) of
          Some a \<Rightarrow> returnA (Inl (failedTransaction (invalidInput (''Wallet signer '' @ a @ '' is missing contract signer metadata. '' @
            ''Use buildSelectedSigners() or provide the signer field explicitly.'')) None))
        | None \<Rightarrow>
     bindA (liftA (completePayload E D selected ids expiration scheme (setExpiration expiration passkeyed))) (\<lambda>(signed, delegatedArgs).
     bindA (mapA (delegate E D contractId delegatedArgs expiration) (walletAddresses (ofType WalletSigner selected))) (\<lambda>delegated.
       returnA (Inr (signed # delegated, Some scheme)))))))"

definition signAccountEntry ::
    "kit_env \<Rightarrow> 'a multi_deps \<Rightarrow> host_function \<Rightarrow> selected_signer list \<Rightarrow> multi_options \<Rightarrow> bool \<Rightarrow> string \<Rightarrow> nat \<Rightarrow> string option \<Rightarrow>
     nat \<Rightarrow> auth_entry \<Rightarrow> (tx_result + auth_entry list \<times> string option) act" where
  "signAccountEntry E D hostFunc selected options allowWalletMutation contractId expiration scheme0 index ent =
     (let mutation = (if allowWalletMutation then Some hostFunc else None) in
     bindA (liftA (assertWalletMutationIntent (keSdk E) ent contractId mutation (Some (mdPolicy D)))) (\<lambda>_.
     bindA (case scheme0 of Some s \<Rightarrow> returnA s | None \<Rightarrow> mdScheme D contractId) (\<lambda>scheme.
       let signedEntry = setExpiration expiration ent in
     bindA (contextRuleIdsFor E D options selected contractId signedEntry index) (\<lambda>ids.
     bindA (liftA (bindE (getAddressCredentials (aeCredentials signedEntry)) (\<lambda>c. readAuthPayload (keSdk E) (acSignature c)))) (\<lambda>existing.
       if apRuleIds existing \<noteq> [] \<and> joinIds (apRuleIds existing) \<noteq> joinIds ids
       then throwA (invalidInput ''Existing auth payload uses different context rule IDs'')
       else signSelected E D selected mutation contractId expiration scheme ids signedEntry)))))"

section \<open>Signing every entry\<close>

definition notFound :: "string \<Rightarrow> string \<Rightarrow> tx_result" where
  "notFound identifier hint = failedTransaction (SignerNotFoundError identifier (Some hint)) None"

definition signOne ::
    "kit_env \<Rightarrow> 'a multi_deps \<Rightarrow> host_function \<Rightarrow> selected_signer list \<Rightarrow> multi_options \<Rightarrow> bool \<Rightarrow> string \<Rightarrow> nat \<Rightarrow> string option \<Rightarrow>
     nat \<Rightarrow> auth_entry \<Rightarrow> (tx_result + auth_entry list \<times> string option) act" where
  "signOne E D hostFunc selected options allowWalletMutation contractId defaultExpiration scheme index ent =
     (let atAddress = (\<lambda>c. let expiration = (if acExpiration c = 0 then defaultExpiration else acExpiration c) in
        bindA (liftA (getAuthEntryAddress (keSdk E) ent)) (\<lambda>authAddress.
          if authAddress \<noteq> contractId
          then if list_ex (\<lambda>s. slWalletAddress s = Some authAddress) (ofType WalletSigner selected) \<and>
              xmCanSignFor (mdOps D) authAddress (mdManager D)
            then bindA (signWalletAddressAuthEntry E D ent authAddress expiration) (\<lambda>e'. returnA (Inr ([e'], scheme)))
            else returnA (Inl (notFound authAddress ''Add an external signer for that address or remove it from the transaction.''))
          else signAccountEntry E D hostFunc selected options allowWalletMutation contractId expiration scheme index ent)) in
      case aeCredentials ent of
        CredWithDelegates c d \<Rightarrow> returnA (Inl (failedTransaction (SubmissionError
          ''ADDRESS_WITH_DELEGATES auth entries are not supported by multi-signer signing yet'' None) None))
      | SourceAccount \<Rightarrow> returnA (Inr ([ent], scheme))
      | CredAddress c \<Rightarrow> atAddress c
      | CredAddressV2 c \<Rightarrow> atAddress c)"

fun signAll ::
    "(string option \<Rightarrow> nat \<Rightarrow> auth_entry \<Rightarrow> (tx_result + auth_entry list \<times> string option) act) \<Rightarrow> string option \<Rightarrow>
     (nat \<times> auth_entry) list \<Rightarrow> (tx_result + auth_entry list) act" where
  "signAll one scheme [] = returnA (Inr [])"
| "signAll one scheme ((index, e) # es) = bindA (one scheme index e) (\<lambda>r. case r of
     Inl failure \<Rightarrow> returnA (Inl failure)
   | Inr (here, scheme') \<Rightarrow> bindA (signAll one scheme' es) (\<lambda>rest. returnA (case rest of
       Inl failure \<Rightarrow> Inl failure | Inr later \<Rightarrow> Inr (here @ later))))"

section \<open>Submitting\<close>

text \<open>The first selected signer this client cannot sign with.\<close>

definition cannotSign :: "'a multi_deps \<Rightarrow> selected_signer list \<Rightarrow> tx_result option" where
  "cannotSign D selected =
     (case List.find (\<lambda>s. truthy (slWalletAddress s) \<and> \<not> xmCanSignFor (mdOps D) (the (slWalletAddress s)) (mdManager D))
        (ofType WalletSigner selected) of
        Some s \<Rightarrow> Some (notFound (the (slWalletAddress s))
          ''Use kit.externalSigners.addFromSecret() or kit.externalSigners.addFromWallet() to add a signer.'')
      | None \<Rightarrow>
          (case List.find (\<lambda>s. truthy (slEd25519Key s) \<and> \<not> canSignEd25519 (fromHex (the (slEd25519Key s))) (mdManager D))
             (ofType Ed25519Signer selected) of
             Some s \<Rightarrow> Some (notFound (''ed25519:'' @ take 16 (the (slEd25519Key s)) @ ellipsis)
               ''Use kit.externalSigners.addEd25519FromSecret() to add the signer.'')
           | None \<Rightarrow> None))"

definition defaultExpirationOf :: "nat \<Rightarrow> jsnum" where
  "defaultExpirationOf seqn = Fin (of_nat (min U32_MAX (seqn + AUTH_ENTRY_EXPIRATION_BUFFER)))"

definition prepareSelected ::
    "kit_env \<Rightarrow> 'a multi_deps \<Rightarrow> host_function \<Rightarrow> auth_entry list \<Rightarrow> selected_signer list \<Rightarrow> multi_options \<Rightarrow> bool \<Rightarrow> string \<Rightarrow>
     (tx_result + transaction) act" where
  "prepareSelected E D hostFunc authEntries selected options allowWalletMutation contractId =
     bindA (latestLedger (keServices E)) (\<lambda>seqn.
     bindA (liftA (normalizeSignatureExpirationLedger (defaultExpirationOf seqn))) (\<lambda>defaultExpiration.
     bindA (signAll (signOne E D hostFunc selected options allowWalletMutation contractId defaultExpiration) None
       (enumerate 0 authEntries)) (\<lambda>r. (case r of
          Inl failure \<Rightarrow> returnA (Inl failure)
        | Inr signedAuthEntries \<Rightarrow>
            bindA (resolveResimSource E (moForceMethod options)) (\<lambda>sourceAccount.
            bindA (resimulateAndAssemble E sourceAccount hostFunc signedAuthEntries) (\<lambda>preparedTx.
            bindA (signFeePayer E preparedTx (moForceMethod options)) (\<lambda>_.
              returnA (Inr preparedTx))))))))"

definition submitWithSelectedSigners ::
    "kit_env \<Rightarrow> 'a multi_deps \<Rightarrow> host_function \<Rightarrow> auth_entry list \<Rightarrow> selected_signer list \<Rightarrow> multi_options \<Rightarrow> bool \<Rightarrow> tx_result act" where
  "submitWithSelectedSigners E D hostFunc authEntries selected options allowWalletMutation =
     bindA (askA wContractId) (\<lambda>contractId.
       if \<not> truthy contractId
       then returnA (failedTransaction (WalletNotConnectedError (Some ''submit a transaction'')) None)
       else (case cannotSign D selected of
          Some failure \<Rightarrow> returnA failure
        | None \<Rightarrow>
            bindA (catchA (prepareSelected E D hostFunc authEntries selected options allowWalletMutation (the contractId)) (\<lambda>err.
              returnA (Inl (failedTransaction (wrapError err TRANSACTION_SIGNING_FAILED) None)))) (\<lambda>outcome. (case outcome of
                 Inl result \<Rightarrow> returnA result
               | Inr preparedTx \<Rightarrow> sendAndPoll (keServices E) preparedTx (moForceMethod options)))))"

text \<open>
  \<^verbatim>\<open>submitOperation\<close> returns the promises of \<^verbatim>\<open>sendAndPoll\<close> and \<^verbatim>\<open>submitWithSelectedSigners\<close> without
  awaiting them in its \<^verbatim>\<open>try\<close>; what they throw is not caught.
\<close>

definition submitOperation ::
    "kit_env \<Rightarrow> 'a multi_deps \<Rightarrow> assembled \<Rightarrow> selected_signer list \<Rightarrow> multi_options \<Rightarrow> bool \<Rightarrow> tx_result act" where
  "submitOperation E D assembledTx selected options allowWalletMutation =
     (let fail = (\<lambda>m. returnA (failedTransaction (SubmissionError m None) None)) in
      case atBuilt assembledTx of
        None \<Rightarrow> fail ''Transaction not built''
      | Some builtTx \<Rightarrow>
          (case txOps builtTx of
             [op] \<Rightarrow> (case op of
                 OtherOperation t \<Rightarrow> fail ''Expected invokeHostFunction operation''
               | InvokeHostFunction func auth \<Rightarrow>
                   if items auth = []
                   then bindA (catchA (bindA (signFeePayer E builtTx (moForceMethod options)) (\<lambda>_. returnA (Inr ())))
                       (\<lambda>err. returnA (Inl (failedTransaction (wrapError err TRANSACTION_SUBMISSION_FAILED) None)))) (\<lambda>outcome.
                     (case outcome of
                        Inl result \<Rightarrow> returnA result
                      | Inr _ \<Rightarrow> sendAndPoll (keServices E) builtTx (moForceMethod options)))
                   else submitWithSelectedSigners E D func (items auth) selected options allowWalletMutation)
           | _ \<Rightarrow> fail ''Expected exactly one operation''))"

definition multiOperation :: "kit_env \<Rightarrow> 'a multi_deps \<Rightarrow> assembled \<Rightarrow> selected_signer list \<Rightarrow> multi_options \<Rightarrow> tx_result act" where
  "multiOperation E D assembledTx selected options = submitOperation E D assembledTx selected options False"

definition adminOperation :: "kit_env \<Rightarrow> 'a multi_deps \<Rightarrow> assembled \<Rightarrow> selected_signer list \<Rightarrow> multi_options \<Rightarrow> tx_result act" where
  "adminOperation E D assembledTx selected options = submitOperation E D assembledTx selected options True"

section \<open>Transfers\<close>

text \<open>\<^verbatim>\<open>buildDirectTokenTransfer\<close> of \<^verbatim>\<open>src/kit/tx-ops.ts\<close>.\<close>

type_synonym tx_builder = "effect list \<Rightarrow> host_function \<Rightarrow> (assembled \<times> string option) result"

definition buildDirectTokenTransfer :: "sdk \<Rightarrow> tx_builder \<Rightarrow> string \<Rightarrow> string \<Rightarrow> string \<Rightarrow> int \<Rightarrow> assembled act" where
  "buildDirectTokenTransfer K build tokenContract fromAddress toAddress amount =
     bindA (liftA (buildTokenTransferHostFunction K tokenContract fromAddress toAddress amount)) (\<lambda>func.
     bindA (askA (\<lambda>w. build (wTrace w) func)) (\<lambda>built.
     bindA (liftA built) (\<lambda>(transaction, simulationError). (case simulationError of
        Some err \<Rightarrow> throwA (decodedOr err (SimulationError (''Transaction simulation failed: '' @ err)))
      | None \<Rightarrow> returnA transaction))))"

text \<open>A number argument: a positive finite one by its decimal, or any other.\<close>

datatype number_arg = PositiveNumber dec_number | OtherNumber jsnum

definition argValue :: "number_arg \<Rightarrow> jsnum" where
  "argValue x = (case x of PositiveNumber d \<Rightarrow> Fin (dnValue d) | OtherNumber n \<Rightarrow> n)"

definition argDecimal :: "number_arg \<Rightarrow> dec_number option" where
  "argDecimal x = (case x of PositiveNumber d \<Rightarrow> Some d | OtherNumber n \<Rightarrow> None)"

definition checkTransfer :: "sdk \<Rightarrow> string \<Rightarrow> string \<Rightarrow> number_arg \<Rightarrow> unit result" where
  "checkTransfer K tokenContract recipient amount =
     bindE (validateAddress K tokenContract ''tokenContract'') (\<lambda>_.
     bindE (validateAddress K recipient ''recipient'') (\<lambda>_.
       validateAmount (argValue amount) ''amount''))"

text \<open>The common steps of both transfers: \<open>Inl\<close> is a failed result, \<open>Inr\<close> the transaction to sign.\<close>

definition prepareTransfer ::
    "kit_env \<Rightarrow> tx_builder \<Rightarrow> (scval \<Rightarrow> jsnum) \<Rightarrow> string \<Rightarrow> string \<Rightarrow> number_arg \<Rightarrow> (tx_result + assembled) act" where
  "prepareTransfer E build toNumber tokenContract recipient amount =
     bindA (askA wContractId) (\<lambda>contractId.
       if \<not> truthy contractId then returnA (Inl (failedTransaction (WalletNotConnectedError (Some ''transfer'')) None))
       else (case checkTransfer (keSdk E) tokenContract recipient amount of
          Inl err \<Rightarrow> returnA (Inl (failedTransaction (wrapError err INVALID_INPUT) None))
        | Inr _ \<Rightarrow>
            if Some recipient = contractId
            then returnA (Inl (failedTransaction (invalidInput ''Cannot transfer to self'') None))
            else catchA
              (bindA (resolveTokenAmount E toNumber tokenContract (argDecimal amount)) (\<lambda>(amountRaw, decimals).
               bindA (buildDirectTokenTransfer (keSdk E) build tokenContract (the contractId) recipient (int amountRaw)) (\<lambda>tx.
                 returnA (Inr tx))))
              (\<lambda>err. returnA (Inl (failedTransaction (wrapError err TRANSACTION_SUBMISSION_FAILED) None)))))"

definition multiTransfer ::
    "kit_env \<Rightarrow> 'a multi_deps \<Rightarrow> (scval \<Rightarrow> jsnum) \<Rightarrow> string \<Rightarrow> string \<Rightarrow> number_arg \<Rightarrow> selected_signer list \<Rightarrow> multi_options \<Rightarrow>
     tx_result act" where
  "multiTransfer E D toNumber tokenContract recipient amount selected options =
     bindA (prepareTransfer E (mdBuild D) toNumber tokenContract recipient amount) (\<lambda>r. (case r of
        Inl failure \<Rightarrow> returnA failure
      | Inr tx \<Rightarrow> multiOperation E D tx selected options))"

section \<open>What a multi-signature submission signs\<close>

text \<open>
  \<open>carries ids sgs e\<close>: the payload of the entry reads back with no rule ids or these, and holds the
  signers \<open>sgs\<close>. Signing with a passkey keeps that, with the signer of the passkey.
\<close>

definition carries :: "sdk \<Rightarrow> nat list \<Rightarrow> signer set \<Rightarrow> auth_entry \<Rightarrow> bool" where
  "carries K ids sgs e \<longleftrightarrow> (\<exists>c p. getAddressCredentials (aeCredentials e) = Inr c \<and> readAuthPayload K (acSignature c) = Inr p \<and>
     (apRuleIds p = [] \<or> apRuleIds p = ids) \<and> sgs \<subseteq> set (payloadSigners p))"

definition signersIn :: "selected_signer list \<Rightarrow> signer set" where
  "signersIn ss = {snd so | s so. s \<in> set ss \<and> slSigner s = Some so}"

lemma carries_expiration: "carries K ids sgs (setExpiration n e) = carries K ids sgs e"
  by (cases "aeCredentials e") (auto simp: carries_def setExpiration_def)

lemma upsert_signers:
  "set (payloadSigners (upsertAuthPayloadSigner p so b)) = insert (snd so) (set (payloadSigners p))"
proof -
  have d: "set (map (snd \<circ> fst) (deleteEqual s es)) \<union> {s} = set (map (snd \<circ> fst) es) \<union> {s}" for s es
    by (induction es) auto
  have k: "(snd \<circ> fst) ` set (AList.update so b es) = insert (snd so) ((snd \<circ> fst) ` set es)" for es
    by (induction es) auto
  show ?thesis
    using d [of "snd so" "apSigners p"] k [of "deleteEqual (snd so) (apSigners p)"]
    by (simp add: payloadSigners_def upsertAuthPayloadSigner_def comp_def)
qed

lemma signEd25519s_sound:
  "signEd25519s m d p ss = Inr q \<Longrightarrow> apRuleIds q = apRuleIds p \<and> set (payloadSigners p) \<subseteq> set (payloadSigners q) \<and>
     (\<forall>s \<in> set ss. \<forall>key so. slEd25519Key s = Some key \<and> key \<noteq> [] \<and> slSigner s = Some so \<longrightarrow>
       snd so \<in> set (payloadSigners q) \<and> isOk (signEd25519Digest (fromHex key) d m))"
proof (induction ss arbitrary: p)
  case (Cons s ss)
  show ?case
  proof (cases "\<exists>key so. slEd25519Key s = Some key \<and> key \<noteq> [] \<and> slSigner s = Some so")
    case True
    then obtain key so where k: "slEd25519Key s = Some key" "key \<noteq> []" "slSigner s = Some so" by blast
    with Cons.prems obtain b where b: "signEd25519Digest (fromHex key) d m = Inr b"
      and r: "signEd25519s m d (upsertAuthPayloadSigner p so b) ss = Inr q"
      by (auto simp: bindE_Inr)
    show ?thesis using Cons.IH [OF r] k b by (auto simp: upsert_signers)
  next
    case False
    then have "signEd25519s m d (p) (s # ss) = signEd25519s m d p ss" by (auto split: option.splits)
    with Cons False show ?thesis by auto
  qed
qed simp

lemma addDelegated_sound:
  "apRuleIds (addDelegated p ss) = apRuleIds p \<and> set (payloadSigners p) \<subseteq> set (payloadSigners (addDelegated p ss)) \<and>
     (\<forall>s \<in> set ss. \<forall>so. truthy (slWalletAddress s) \<and> slSigner s = Some so \<longrightarrow> snd so \<in> set (payloadSigners (addDelegated p ss)))"
proof (induction ss arbitrary: p)
  case (Cons s ss)
  show ?case
  proof (cases "truthy (slWalletAddress s) \<and> slSigner s \<noteq> None")
    case True
    then obtain so where "truthy (slWalletAddress s)" "slSigner s = Some so" by blast
    then show ?thesis using Cons [of "upsertAuthPayloadSigner p so []"] by (auto simp: upsert_signers)
  next
    case False
    then have "addDelegated p (s # ss) = addDelegated p ss" by (auto split: option.splits bool.splits)
    with Cons [of p] False show ?thesis by auto
  qed
qed simp

lemma sigEntries_signers: "mset (sigEntries q) = mset (sigEntries p) \<Longrightarrow> set (payloadSigners q) = set (payloadSigners p)"
  by (metis fst_sigEntries mset_map set_mset_mset)

lemma signWithPasskey_signer:
  assumes "signWithPasskey K S net D options e n p cid key ids w = (Inr out, w')"
  obtains so scheme e' digest d v where
    "computeEntryAuthDigest K net e (Fin (of_nat n)) ids scheme = Inr (e', digest)"
    "writeAuthPayload K (upsertAuthPayloadSigner (p\<lparr>apRuleIds := ids\<rparr>) so (buildWebAuthnSignatureBytes K d)) = Inr v"
    "out = setSignature v e'" "psSigner options \<noteq> None \<longrightarrow> psSigner options = Some so"
proof -
  obtain x w1 where x: "bothA (case psSigner options of Some so \<Rightarrow> returnA so
         | None \<Rightarrow> bindA (findWebAuthnSignerInRules K (pdReadRule D) ids ids (base64urlToBuffer K key)) (\<lambda>s. returnA (Caller 0, s)))
        (case psScheme options of Some scheme \<Rightarrow> returnA scheme | None \<Rightarrow> pdScheme D cid) w = (Inr x, w1)"
    using assms unfolding signWithPasskey_def bindA_Inr by blast
  have so: "psSigner options \<noteq> None \<longrightarrow> psSigner options = Some (fst x)"
    using x by (cases "psSigner options")
      (auto simp: bothA_def settle_def act_cases run_simps bindE_Inr split: prod.splits)
  show ?thesis
    using assms x so unfolding signWithPasskey_def Let_def
    by (cases x, elim bindA_Inr [THEN iffD1, elim_format] exE conjE)
      (auto simp: bindA_Inr run_simps storageUpdate_def split: prod.splits intro!: that)
qed

lemma passkey_in_place:
  assumes K: "sdk_strkey_ok K" "preimage_ignores_signature K"
    and run: "signAuthEntry K S net P e options w = (Inr out, w')" and c: "carries K (items (psRuleIds options)) sgs e"
  shows "aeRoot out = aeRoot e \<and> getAuthEntryAddress K out = getAuthEntryAddress K e \<and>
     carries K (items (psRuleIds options)) (sgs \<union> snd ` set_option (psSigner options)) out"
proof -
  let ?ids = "items (psRuleIds options)"
  obtain c p where c: "getAddressCredentials (aeCredentials e) = Inr c" "readAuthPayload K (acSignature c) = Inr p"
    "sgs \<subseteq> set (payloadSigners p)" using c by (auto simp: carries_def)
  obtain wallet n key w1 where
    r: "signWithPasskey K S net P options (setExpiration n e) n p wallet key ?ids w1 = (Inr out, w')"
    using signAuthEntry_ok [OF run c(1,2)] by metis
  obtain so scheme e' digest d v where
    dig: "computeEntryAuthDigest K net (setExpiration n e) (Fin (of_nat n)) ?ids scheme = Inr (e', digest)"
    and v: "writeAuthPayload K (upsertAuthPayloadSigner (p\<lparr>apRuleIds := ?ids\<rparr>) so (buildWebAuthnSignatureBytes K d)) = Inr v"
    and out: "out = setSignature v e'" and so: "psSigner options \<noteq> None \<longrightarrow> psSigner options = Some so"
    using signWithPasskey_signer [OF r] by metis
  have e': "e' = setExpiration n e" using entry_of_digest [OF dig] by simp
  obtain q where q: "readAuthPayload K v = Inr q" "apRuleIds q = ?ids"
    "mset (sigEntries q) = mset (sigEntries (upsertAuthPayloadSigner (p\<lparr>apRuleIds := ?ids\<rparr>) so (buildWebAuthnSignatureBytes K d)))"
    using read_written [OF K(1) v] by auto
  have "payloadSigners (p\<lparr>apRuleIds := ?ids\<rparr>) = payloadSigners p" by (simp add: payloadSigners_def)
  then have "set (payloadSigners q) = insert (snd so) (set (payloadSigners p))"
    using sigEntries_signers [OF q(3)] by (simp add: upsert_signers)
  then have "sgs \<union> snd ` set_option (psSigner options) \<subseteq> set (payloadSigners q)"
    using so c(3) by (cases "psSigner options") auto
  moreover have "getAddressCredentials (aeCredentials out) = Inr (c\<lparr>acExpiration := n, acSignature := v\<rparr>)"
    unfolding out e' by (rule signature_of_set [OF expiration_of_set [OF c(1)]])
  ultimately show ?thesis using q(1,2) by (auto simp: carries_def out e' address_of_set address_of_expiration)
qed

text \<open>The manager as the kit wires it: an entry is signed by the passkey signing of \<open>Kit_WebAuthn\<close>.\<close>

definition wiredTo :: "kit_env \<Rightarrow> passkey_sign_deps \<Rightarrow> 'a multi_deps \<Rightarrow> bool" where
  "wiredTo E P D \<longleftrightarrow> mdSignEntry D = signAuthEntry (keSdk E) (keServices E) (keNetwork E) P"

lemma signPasskeys_in_place:
  assumes K: "sdk_strkey_ok (keSdk E)" "preimage_ignores_signature (keSdk E)" and D: "wiredTo E P D"
    and o: "\<And>s. psRuleIds (options s) = Some ids" "\<And>s. psSigner (options s) = slSigner s"
  shows "carries (keSdk E) ids sgs e \<Longrightarrow> signPasskeys D options e ss w = (Inr out, w') \<Longrightarrow>
     aeRoot out = aeRoot e \<and> getAuthEntryAddress (keSdk E) out = getAuthEntryAddress (keSdk E) e \<and>
     carries (keSdk E) ids (sgs \<union> signersIn ss) out"
proof (induction ss arbitrary: e w sgs)
  case (Cons s ss)
  then obtain e1 w1 where m: "signAuthEntry (keSdk E) (keServices E) (keNetwork E) P e (options s) w = (Inr e1, w1)"
    and r: "signPasskeys D options e1 ss w1 = (Inr out, w')"
    using D by (auto simp: bindA_Inr wiredTo_def)
  have e1: "aeRoot e1 = aeRoot e" "getAuthEntryAddress (keSdk E) e1 = getAuthEntryAddress (keSdk E) e"
    "carries (keSdk E) ids (sgs \<union> snd ` set_option (slSigner s)) e1"
    using passkey_in_place [OF K m] Cons.prems(1) o by auto
  have "sgs \<union> snd ` set_option (slSigner s) \<union> signersIn ss = sgs \<union> signersIn (s # ss)"
    by (auto simp: signersIn_def)
  with Cons.IH [OF e1(3) r] e1 show ?case by simp
qed (simp add: run_simps signersIn_def)

text \<open>
  \<open>completed\<close>: what one authorization entry of the wallet has become. It keeps the invocation, reads
  back with the rule ids and holds these signers, every signer who signs bytes signed the digest
  anyone computes from it, and the delegated signers authorize that digest's arguments.
\<close>

definition completed :: "kit_env \<Rightarrow> 'a ext_manager \<Rightarrow> nat list \<Rightarrow> signer set \<Rightarrow> selected_signer list \<Rightarrow> string \<Rightarrow> auth_entry \<Rightarrow>
    auth_entry \<Rightarrow> nat \<Rightarrow> entry_digest \<Rightarrow> bool" where
  "completed E m ids sgs eds scheme e out n digest \<longleftrightarrow> aeRoot out = aeRoot e \<and>
     getAuthEntryAddress (keSdk E) out = getAuthEntryAddress (keSdk E) e \<and>
     computeEntryAuthDigest (keSdk E) (keNetwork E) out (Fin (of_nat n)) ids scheme = Inr (out, digest) \<and>
     (\<exists>c q. getAddressCredentials (aeCredentials out) = Inr c \<and> acExpiration c = n \<and>
       readAuthPayload (keSdk E) (acSignature c) = Inr q \<and> apRuleIds q = ids \<and> sgs \<subseteq> set (payloadSigners q)) \<and>
     (\<forall>s \<in> set eds. \<forall>key. slEd25519Key s = Some key \<and> key \<noteq> [] \<and> slSigner s \<noteq> None \<longrightarrow>
       isOk (signEd25519Digest (fromHex key) (edAuthDigest digest) m))"

definition edSigners :: "selected_signer list \<Rightarrow> signer set" where
  "edSigners eds = signersIn (filter (\<lambda>s. truthy (slEd25519Key s)) eds)"

definition delegatedSigners :: "selected_signer list \<Rightarrow> signer set" where
  "delegatedSigners ws = signersIn (filter (\<lambda>s. truthy (slWalletAddress s)) ws)"

lemma completePayload_sound:
  assumes K: "sdk_strkey_ok (keSdk E)" "preimage_ignores_signature (keSdk E)"
    and ids: "carries (keSdk E) ids sgs e"
    and run: "completePayload E D selected ids n scheme (setExpiration n e) = Inr (out, args)"
  shows "\<exists>digest. args = edDelegatedArgs digest \<and> completed E (mdManager D) ids
     (sgs \<union> edSigners (ofType Ed25519Signer selected) \<union> delegatedSigners (ofType WalletSigner selected))
     (ofType Ed25519Signer selected) scheme e out n digest"
proof -
  let ?K = "keSdk E" and ?e = "setExpiration n e" and ?eds = "ofType Ed25519Signer selected" and ?ws = "ofType WalletSigner selected"
  obtain c p0 p e' digest p' v where c: "getAddressCredentials (aeCredentials ?e) = Inr c" and p0: "readAuthPayload ?K (acSignature c) = Inr p0"
    and p: "p = (if apRuleIds p0 = [] then p0\<lparr>apRuleIds := ids\<rparr> else p0)"
    and d: "computeEntryAuthDigest ?K (keNetwork E) ?e (Fin (of_nat n)) (apRuleIds p) scheme = Inr (e', digest)"
    and ed: "signEd25519s (mdManager D) (edAuthDigest digest) p ?eds = Inr p'"
    and v: "writeAuthPayload ?K (addDelegated p' ?ws) = Inr v"
    and out: "out = setSignature v e'" "args = edDelegatedArgs digest"
    using run by (auto simp: completePayload_def bindE_Inr Let_def)
  have "carries ?K ids sgs ?e" using ids by (simp add: carries_expiration)
  then have rule: "apRuleIds p = ids" and old: "sgs \<subseteq> set (payloadSigners p)"
    using c p0 p by (auto simp: carries_def payloadSigners_def)
  have e': "e' = ?e" using entry_of_digest [OF d] by simp
  have d': "computeEntryAuthDigest ?K (keNetwork E) ?e (Fin (of_nat n)) ids scheme = Inr (setExpiration n ?e, digest)"
    using d e' rule by simp
  have signed: "computeEntryAuthDigest ?K (keNetwork E) out (Fin (of_nat n)) ids scheme = Inr (out, digest)"
    using digest_of_signed [OF K(2) d'] out(1) e' by simp
  have cr: "getAddressCredentials (aeCredentials out) = Inr (c\<lparr>acSignature := v\<rparr>)"
    using signature_of_set [OF c] out(1) e' by simp
  have ex: "acExpiration c = n" using c by (cases "aeCredentials e") (auto simp: setExpiration_def)
  note sd = signEd25519s_sound [OF ed] addDelegated_sound [of p' ?ws]
  obtain q where q: "readAuthPayload ?K v = Inr q" "apRuleIds q = apRuleIds (addDelegated p' ?ws)"
      "mset (sigEntries q) = mset (sigEntries (addDelegated p' ?ws))"
    using read_written [OF K(1) v] by blast
  note qs = sigEntries_signers [OF q(3)]
  have "edSigners ?eds \<subseteq> set (payloadSigners q)"
    using sd qs by (fastforce simp: edSigners_def signersIn_def truthy_def split: option.splits)
  moreover have "delegatedSigners ?ws \<subseteq> set (payloadSigners q)"
    using sd(2) qs by (fastforce simp: delegatedSigners_def signersIn_def)
  moreover have "sgs \<subseteq> set (payloadSigners q)" using old sd qs by auto
  moreover have "\<forall>s \<in> set ?eds. \<forall>key. slEd25519Key s = Some key \<and> key \<noteq> [] \<and> slSigner s \<noteq> None \<longrightarrow>
       isOk (signEd25519Digest (fromHex key) (edAuthDigest digest) (mdManager D))"
    using sd(1) by auto
  moreover have "apRuleIds q = ids" using q(2) sd rule by simp
  moreover have "aeRoot out = aeRoot e" "getAuthEntryAddress ?K out = getAuthEntryAddress ?K e"
    by (simp_all add: out(1) e' address_of_set address_of_expiration)
  ultimately show ?thesis using cr ex q(1) signed out(2)
    by (intro exI [of _ digest]) (simp add: completed_def)
qed

lemma mapA_sound:
  "mapA f xs w = (Inr ys, w') \<Longrightarrow> (\<And>x y v v'. f x v = (Inr y, v') \<Longrightarrow> P x y) \<Longrightarrow> list_all2 P xs ys"
  by (induction xs arbitrary: w ys) (auto simp: act_cases run_simps)

text \<open>The separate authorization of a delegated signer for the digest's arguments.\<close>

definition delegatedFor :: "sdk \<Rightarrow> string \<Rightarrow> scval list \<Rightarrow> nat \<Rightarrow> string \<Rightarrow> auth_entry \<Rightarrow> bool" where
  "delegatedFor K contractId args n address d \<longleftrightarrow> getAuthEntryAddress K d = Inr address \<and>
     (\<exists>c. fromStrkey K contractId = Some c \<and>
       aeRoot d = Invocation (ContractFn \<lparr>iaContract = c, iaFunction = ''__check_auth'', iaArgs = args\<rparr>) []) \<and>
     (\<exists>c. getAddressCredentials (aeCredentials d) = Inr c \<and> acExpiration c = n)"

lemma delegate_sound:
  assumes "sdk_strkey_ok (keSdk E)" "delegate E D contractId args n address w = (Inr d, w')"
  shows "delegatedFor (keSdk E) contractId args n address d"
  using assms(2) sdk_strkeyD [OF assms(1)]
  by (auto simp: delegate_def delegatedInvocation_def delegatedFor_def bindA_Inr run_simps bindE_Inr Let_def delegatedEntry_def
      createAddressCredentials_def getAuthEntryAddress_def scAddressToString_def addressFromString_ok)


section \<open>No generic operation changes the wallet's authority\<close>

definition unchangedAuthority :: "sdk \<Rightarrow> string \<Rightarrow> auth_entry \<Rightarrow> bool" where
  "unchangedAuthority K contractId e \<longleftrightarrow> aeCredentials e = SourceAccount \<or>
     (\<exists>a. getAuthEntryAddress K e = Inr a \<and>
       (a = contractId \<longrightarrow> list_all (\<lambda>(call, depth). \<not> isMutationOf K contractId call) (callsOf 0 (aeRoot e))))"

lemma signAccount_unchanged:
  assumes "signAccountEntry E D func selected options False contractId n scheme0 index e w = (Inr r, w')"
  shows "list_all (\<lambda>(call, depth). \<not> isMutationOf (keSdk E) contractId call) (callsOf 0 (aeRoot e))"
  using assms generic_path_accepts unfolding signAccountEntry_def Let_def by (auto simp: bindA_Inr run_simps)

lemma signOne_unchanged:
  assumes "signOne E D func selected options False contractId n scheme index e w = (Inr (Inr r), w')"
  shows "unchangedAuthority (keSdk E) contractId e"
  using assms signAccount_unchanged [of E D func selected options contractId _ scheme index e]
  unfolding signOne_def Let_def
  by (cases "aeCredentials e") (auto simp: bindA_Inr run_simps unchangedAuthority_def split: if_splits)

lemma run_sum:
  "(case x of Inl a \<Rightarrow> f a | Inr b \<Rightarrow> g b) w = r \<longleftrightarrow> (\<exists>a. x = Inl a \<and> f a w = r) \<or> (\<exists>b. x = Inr b \<and> g b w = r)"
  by (cases x) auto

lemma sum_is_Inr:
  "(case x of Inl a \<Rightarrow> Inl a | Inr b \<Rightarrow> Inr (g b)) = Inr y \<longleftrightarrow> (\<exists>b. x = Inr b \<and> g b = y)"
  "(case x of Inl a \<Rightarrow> Inl a | Inr b \<Rightarrow> Inr (g b)) = Inl z \<longleftrightarrow> x = Inl z"
  by (cases x; auto)+

lemma signAll_each:
  "signAll one scheme es w = (Inr (Inr out), w') \<Longrightarrow> (\<And>s i e r v v'. one s i e v = (Inr (Inr r), v') \<Longrightarrow> P e) \<Longrightarrow>
     list_all (P \<circ> snd) es"
proof (induction one scheme es arbitrary: out w rule: signAll.induct)
  case (2 one scheme index e es)
  then obtain r w1 where r: "one scheme index e w = (Inr (Inr r), w1)"
    and k: "bindA (signAll one (snd r) es) (\<lambda>rest. returnA (case rest of
       Inl failure \<Rightarrow> Inl failure | Inr later \<Rightarrow> Inr (fst r @ later))) w1 = (Inr (Inr out), w')"
    by (auto simp: bindA_Inr run_simps run_sum sum_is_Inr split: prod.splits)
  then obtain later where "signAll one (snd r) es w1 = (Inr (Inr later), w')"
    by (auto simp: bindA_Inr run_simps sum_is_Inr)
  with 2 r show ?case by (cases r) (auto simp: o_def)
qed simp

lemma enumerate_all: "list_all (P \<circ> snd) (enumerate n xs) = list_all P xs"
  by (induction xs arbitrary: n) auto

lemma prepareSelected_unchanged:
  assumes "prepareSelected E D func es selected options False contractId w = (Inr (Inr tx), w')"
  shows "list_all (unchangedAuthority (keSdk E) contractId) es"
proof -
  obtain n signed w1 w2 where
    "signAll (signOne E D func selected options False contractId n) None (enumerate 0 es) w1 = (Inr (Inr signed), w2)"
    using assms unfolding prepareSelected_def by (auto simp: bindA_Inr run_simps run_sum)
  from signAll_each [OF this signOne_unchanged] show ?thesis by (simp add: enumerate_all)
qed

lemma signSelected_failure: "signSelected E D selected mu c n scheme ids e w \<noteq> (Inr (Inl (TxSuccess h l)), w')"
  unfolding signSelected_def by (auto simp: bindA_Inr run_simps split: option.splits)

lemma signOne_failure: "signOne E D func selected options allow c n scheme i e w \<noteq> (Inr (Inl (TxSuccess h l)), w')"
  unfolding signOne_def signAccountEntry_def Let_def notFound_def
  by (cases "aeCredentials e") (auto simp: bindA_Inr run_simps signSelected_failure split: if_splits)

lemma signAll_failure:
  "(\<And>s i e v v'. one s i e v \<noteq> (Inr (Inl (TxSuccess h l)), v')) \<Longrightarrow> signAll one scheme es w \<noteq> (Inr (Inl (TxSuccess h l)), w')"
  by (induction one scheme es arbitrary: w rule: signAll.induct)
    (auto simp: bindA_Inr run_simps run_sum sum_is_Inr split: prod.splits)

lemma prepareSelected_failure: "prepareSelected E D func es selected options allow c w \<noteq> (Inr (Inl (TxSuccess h l)), w')"
  unfolding prepareSelected_def by (auto simp: bindA_Inr run_simps run_sum signAll_failure signOne_failure)

lemma cannotSign_failure: "cannotSign D selected \<noteq> Some (TxSuccess h l)"
  by (auto simp: cannotSign_def notFound_def split: option.splits)

text \<open>
  C26. A generic multi-signature operation that succeeds ran one host function, and none of the
  authorization entries it was given asks for a change of the connected wallet's authority, at any
  depth: every entry is either paid by the source account or names an address, and one that
  names the wallet holds no mutation of it.
\<close>

theorem multi_operation_changes_no_authority:
  assumes "multiOperation E D tx selected options w = (Inr (TxSuccess h l), w')" "wContractId w = Some contractId"
  shows "\<exists>built func auth. atBuilt tx = Some built \<and> txOps built = [InvokeHostFunction func auth] \<and>
     list_all (unchangedAuthority (keSdk E) contractId) (items auth)"
proof -
  obtain built func auth where b: "atBuilt tx = Some built" "txOps built = [InvokeHostFunction func auth]"
    using assms(1) unfolding multiOperation_def submitOperation_def Let_def
    by (auto simp: run_simps split: option.splits list.splits operation.splits)
  show ?thesis
  proof (cases "items auth = []")
    case False
    then have "submitWithSelectedSigners E D func (items auth) selected options False w = (Inr (TxSuccess h l), w')"
      using assms(1) b unfolding multiOperation_def submitOperation_def Let_def by simp
    then obtain ptx w2 where "prepareSelected E D func (items auth) selected options False contractId w = (Inr (Inr ptx), w2)"
      using assms(2) unfolding submitWithSelectedSigners_def
      by (auto simp: bindA_Inr catchA_Inr run_simps run_sum cannotSign_failure prepareSelected_failure
          split: if_splits option.splits)
    from prepareSelected_unchanged [OF this] b show ?thesis by auto
  qed (use b in auto)
qed

section \<open>The shared deployer in multi-signature submissions\<close>

definition safeMulti :: "sdk \<Rightarrow> 'a multi_deps \<Rightarrow> multi_options \<Rightarrow> bool" where
  "safeMulti K D options \<longleftrightarrow>
     (\<forall>e x. onlyDoes (notSharedDeployer K) (mdSignEntry D e x)) \<and> (\<forall>c. onlyDoes (notSharedDeployer K) (mdScheme D c)) \<and>
     (\<forall>get. mdIndexer D = Some get \<longrightarrow> onlyDoes (notSharedDeployer K) get) \<and>
     (\<forall>f e i. moResolveRuleIds options = Some f \<longrightarrow> onlyDoes (notSharedDeployer K) (f e i)) \<and>
     (\<forall>c get p. qcGetPolicyId (mdClient D c) = Some get \<longrightarrow> onlyDoes (notSharedDeployer K) (get p)) \<and>
     (\<forall>c get s. qcGetSignerId (mdClient D c) = Some get \<longrightarrow> onlyDoes (notSharedDeployer K) (get s))"

lemma requireWallet_does [does_rules]: "onlyDoes P requireWallet"
  by (auto simp: onlyDoes_def requireWallet_def split: option.splits)

lemma hydrate_does:
  assumes "\<And>get p. qcGetPolicyId c = Some get \<Longrightarrow> onlyDoes P (get p)" "\<And>get s. qcGetSignerId c = Some get \<Longrightarrow> onlyDoes P (get s)"
  shows "onlyDoes P (hydrateContextRuleIds c rule)"
  unfolding hydrateContextRuleIds_def Let_def resolvedId_def
  by (auto intro!: does_rules intro: assms split: option.splits bool.splits)

lemma readContextRule_does:
  assumes "\<And>tx. P (FxRpcSimulate tx)"
    and "\<And>get p. qcGetPolicyId c = Some get \<Longrightarrow> onlyDoes P (get p)" "\<And>get s. qcGetSignerId c = Some get \<Longrightarrow> onlyDoes P (get s)"
  shows "onlyDoes P (readContextRule E c (Some contractId) i)"
  unfolding readContextRule_def readContextRuleFromRpc_def
  by (auto intro!: does_rules hydrate_does intro: assms split: simulate_response.splits option.splits)

lemma listWith_does:
  assumes "\<And>i. onlyDoes P (read i)" "\<And>get. ddIndexer d = Some get \<Longrightarrow> onlyDoes P get" "ddProbe d = None"
    and "\<And>get. ddLatestLedger d = Some get \<Longrightarrow> onlyDoes P get"
  shows "onlyDoes P (listWith read d)"
  unfolding listWith_def indexerRuleIds_def ruleUnlessMissing_def assms(3)
  by (auto intro!: does_rules intro: assms split: option.splits)

lemma contextRuleIds_safe:
  assumes "safeMulti (keSdk E) D options"
  shows "onlyDoes (notSharedDeployer (keSdk E)) (contextRuleIdsFor E D options selected contractId e i)"
  using assms unfolding contextRuleIdsFor_def listContextRules_def safeMulti_def Let_def
  by (auto intro!: does_rules listWith_does readContextRule_does simp: discoveryDeps_def latestLedger_def notSharedDeployer_def
      split: option.splits)

lemma signPasskeys_safe:
  assumes "safeMulti K D options"
  shows "onlyDoes (notSharedDeployer K) (signPasskeys D f e ss)"
  using assms by (induction ss arbitrary: e) (auto intro!: does_rules simp: safeMulti_def)

lemma walletSign_safe: "onlyDoes (notSharedDeployer K) (walletSign K' D e b a)"
  unfolding walletSign_def by (auto intro!: does_rules)

lemma signOne_safe:
  assumes "safeMulti (keSdk E) D options"
  shows "onlyDoes (notSharedDeployer (keSdk E)) (signOne E D func selected options allow contractId n scheme i e)"
proof -
  have s: "onlyDoes (notSharedDeployer (keSdk E)) (mdScheme D c)" for c using assms by (simp add: safeMulti_def)
  have w: "onlyDoes (notSharedDeployer (keSdk E)) (signWalletAddressAuthEntry E D e a m)" for a m
    unfolding signWalletAddressAuthEntry_def by (auto intro!: does_rules walletSign_safe split: credentials.splits)
  have d: "onlyDoes (notSharedDeployer (keSdk E)) (delegate E D contractId args m a)" for args m a
    unfolding delegate_def Let_def by (auto intro!: does_rules walletSign_safe)
  have "onlyDoes (notSharedDeployer (keSdk E)) (signSelected E D selected mu contractId m scheme' ids e')" for mu m scheme' ids e'
    unfolding signSelected_def by (auto intro!: does_rules signPasskeys_safe [OF assms] d split: option.splits)
  then have "onlyDoes (notSharedDeployer (keSdk E)) (signAccountEntry E D func selected options allow contractId m scheme i e)" for m
    unfolding signAccountEntry_def Let_def by (auto intro!: does_rules contextRuleIds_safe [OF assms] s split: option.splits)
  then show ?thesis unfolding signOne_def Let_def by (auto intro!: does_rules w split: credentials.splits)
qed

lemma signAll_safe: "(\<And>s i e. onlyDoes P (one s i e)) \<Longrightarrow> onlyDoes P (signAll one scheme es)"
  by (induction one scheme es rule: signAll.induct) (auto intro!: does_rules split: sum.splits)

lemma prepareSelected_safe:
  assumes "safeMulti (keSdk E) D options"
  shows "onlyDoes (notSharedDeployer (keSdk E)) (prepareSelected E D func es selected options allow contractId)"
  unfolding prepareSelected_def latestLedger_def
  by (auto intro!: does_rules signAll_safe signOne_safe [OF assms] resolveResimSource_safe resimulate_safe signFeePayer_safe
      simp: notSharedDeployer_def split: sum.splits)

lemma prepareSelected_route:
  assumes "\<And>tx d. txSource (svAssemble (keServices E) tx d) = txSource tx"
    and "prepareSelected E D func es selected options allow contractId w = (Inr (Inr ptx), w')"
  shows "getSubmissionMethod (svRelayer (keServices E)) (moForceMethod options) = ViaRelayer \<or>
     \<not> isDefaultDeployer (keSdk E) (txSource ptx)"
proof -
  obtain signed src w1 w2 w3 where s: "resolveResimSource E (moForceMethod options) w1 = (Inr src, w2)"
    and r: "resimulateAndAssemble E src func signed w2 = (Inr ptx, w3)"
    using assms(2) unfolding prepareSelected_def by (auto simp: bindA_Inr run_simps run_sum)
  from resolveResimSource_ok [OF s] resimulate_ok [OF r] assms(1) show ?thesis
    by (auto simp: shouldUseFeeSponsoring_def)
qed

text \<open>
  A multi-signature operation never lets the shared default deployer source or pay a transaction:
  whatever the services answer and however it ends, no effect signs an envelope with its key,
  loads its account or sends a transaction it sources over the RPC. The reviewed transaction is not
  sourced by it where it needs no authorization, and the parts the kit passes in are as safe.
\<close>

theorem multi_never_pays_with_shared_deployer:
  assumes "\<And>tx d. txSource (svAssemble (keServices E) tx d) = txSource tx" "safeMulti (keSdk E) D options"
    and src: "\<And>built. atBuilt tx = Some built \<Longrightarrow>
      getSubmissionMethod (svRelayer (keServices E)) (moForceMethod options) = ViaRelayer \<or> \<not> isDefaultDeployer (keSdk E) (txSource built)"
    and run: "submitOperation E D tx selected options allow w = (r, w')"
  shows "\<exists>es. wTrace w' = wTrace w @ es \<and> list_all (notSharedDeployer (keSdk E)) es"
proof (rule onlyDoesD [where m = "submitOperation E D tx selected options allow" and r = r])
  let ?P = "notSharedDeployer (keSdk E)"
  have "onlyDoes ?P (submitWithSelectedSigners E D func es selected options allow)" for func es
  proof -
    have k: "onlyDoes ?P (case x of Inl result \<Rightarrow> returnA result
        | Inr ptx \<Rightarrow> sendAndPoll (keServices E) ptx (moForceMethod options))"
      if "catchA (prepareSelected E D func es selected options allow c) (\<lambda>err. returnA (Inl (failedTransaction
        (wrapError err TRANSACTION_SIGNING_FAILED) None))) v = (Inr x, v')" for x c v v'
    proof (cases x)
      case (Inr ptx)
      with that have "prepareSelected E D func es selected options allow c v = (Inr (Inr ptx), v')"
        by (auto simp: catchA_Inr run_simps)
      from prepareSelected_route [OF assms(1) this] show ?thesis by (simp add: Inr sendAndPoll_safe)
    qed (simp add: does_rules)
    show ?thesis
      unfolding submitWithSelectedSigners_def
      by (intro does_rules onlyDoes_bind_result [OF _ k] prepareSelected_safe [OF assms(2)])
  qed
  with src show "onlyDoes ?P (submitOperation E D tx selected options allow)"
    unfolding submitOperation_def Let_def
    by (auto intro!: does_rules signFeePayer_safe sendAndPoll_safe split: option.splits list.splits operation.splits)
qed (rule run)

section \<open>Witnesses\<close>

definition demoMulti :: "adapter multi_deps" where
  "demoMulti = \<lparr>mdOps = demoOps, mdManager = (demoManager True)\<lparr>xmEd25519 := [(toHex [2], ''Cv'',
         \<lparr>dsSigner = (Caller 0, External ''Cv'' [2]), dsSign = (\<lambda>d. Inr [7])\<rparr>)]\<rparr>,
     mdFromText = utf8, mdToText = fromUtf8, mdPolicy = pdPolicy demoPasskeys,
     mdSignEntry = signAuthEntry (keSdk demoEnv) (keServices demoEnv) (keNetwork demoEnv) demoPasskeys,
     mdScheme = (\<lambda>c. returnA ''legacy-concat''),
     mdClient = (\<lambda>c. \<lparr>qcGetContextRule = (\<lambda>i. throwA (JsError ''none'')), qcGetPolicyId = None, qcGetSignerId = None, qcSpec = None\<rparr>),
     mdIndexer = None, mdGetRules = (\<lambda>t. returnA []), mdRandom = (\<lambda>t. replicate 8 0), mdBuild = (\<lambda>t f. Inl (JsError ''none''))\<rparr>"

definition demoSelected :: "selected_signer list" where
  "demoSelected = [\<lparr>slType = Ed25519Signer, slCredentialId = None, slWalletAddress = None, slEd25519Key = Some (toHex [2]),
       slSigner = Some (Caller 0, External ''Cv'' [2])\<rparr>,
     \<lparr>slType = WalletSigner, slCredentialId = None, slWalletAddress = Some ''GA'', slEd25519Key = None,
       slSigner = Some (Caller 1, Delegated ''GA'')\<rparr>]"

definition demoMultiOptions :: multi_options where
  "demoMultiOptions = \<lparr>moForceMethod = None, moResolveRuleIds = Some (\<lambda>e i. returnA [3])\<rparr>"

lemma demo_multi_digest:
  "\<exists>d. computeEntryAuthDigest demoSdk ''Test'' (setExpiration 100 demoTransfer) (Fin 100) [3] ''legacy-concat'' =
      Inr (setExpiration 100 demoTransfer, d)"
proof -
  have "isAuthDigestScheme ''legacy-concat'' = Some LegacyConcat"
    by (simp add: isAuthDigestScheme_def AUTH_DIGEST_SCHEMES_def)
  moreover have "\<exists>b. buildSignaturePayload demoSdk ''Test'' (setExpiration 100 demoTransfer) (Fin 100) =
      Inr (setExpiration 100 demoTransfer, b)"
    by (auto simp: buildSignaturePayload_ok demoTransfer_def setExpiration_def normalizeSignatureExpirationLedger_def U32_MAX_def)
  ultimately show ?thesis by (auto simp: computeEntryAuthDigest_def Let_def)
qed

lemma demo_selected:
  "ofType PasskeySigner demoSelected = []" "ofType Ed25519Signer demoSelected = [hd demoSelected]"
  "ofType WalletSigner demoSelected = [last demoSelected]"
  "walletAddresses [last demoSelected] = [''GA'']" "missingMetadata [last demoSelected] = None"
  by (simp_all add: ofType_def demoSelected_def walletAddresses_def missingMetadata_def truthy_def)

lemma demo_ed [simp]:
  "slEd25519Key (hd demoSelected) = Some (toHex [2])" "slSigner (hd demoSelected) = Some (Caller 0, External ''Cv'' [2])"
  "slWalletAddress (last demoSelected) = Some ''GA''" "slSigner (last demoSelected) = Some (Caller 1, Delegated ''GA'')"
  "toHex [2 :: 8 word] \<noteq> []"
  by (simp_all add: demoSelected_def toHex_def hexByte_def)

lemma demo_ed_signs: "signEd25519Digest [2] d (mdManager demoMulti) = Inr [7]"
  by (simp add: signEd25519Digest_def getEd25519Signer_def demoMulti_def)

lemma demo_completed:
  "\<exists>out args. completePayload demoEnv demoMulti demoSelected [3] 100 ''legacy-concat'' (setExpiration 100 demoTransfer) = Inr (out, args)"
proof -
  obtain g where g: "computeEntryAuthDigest demoSdk ''Test'' (setExpiration 100 demoTransfer) (Fin 100) [3] ''legacy-concat'' =
      Inr (setExpiration 100 demoTransfer, g)" using demo_multi_digest by blast
  obtain c where c: "getAddressCredentials (aeCredentials (setExpiration 100 demoTransfer)) = Inr c" "acSignature c = ScvVoid"
    by (simp add: demoTransfer_def setExpiration_def)
  have a: "fromStrkey demoSdk ''GA'' = Some (AddrAccount (utf8 ''A''))" by (simp add: demoSdk_def demoFromStrkey_def)
  let ?p = "upsertAuthPayloadSigner \<lparr>apRuleIds = [3], apSigners = []\<rparr> (Caller 0, External ''Cv'' [2]) [7]"
  have d: "addDelegated ?p [last demoSelected] = upsertAuthPayloadSigner ?p (Caller 1, Delegated ''GA'') []"
    by (simp add: truthy_def)
  have "\<exists>v. writeAuthPayload demoSdk (upsertAuthPayloadSigner ?p (Caller 1, Delegated ''GA'') []) = Inr v"
    by (simp add: upsertAuthPayloadSigner_def writeAuthPayload_def writeSignerEntry_def signerToScVal_def
        addressFromString_def demo_verifier a)
  then obtain v where "writeAuthPayload demoSdk (addDelegated ?p [last demoSelected]) = Inr v" unfolding d by blast
  with g c show ?thesis
    by (simp add: completePayload_def demoEnv_def demo_selected demo_ed_signs readAuthPayload_def emptyAuthPayload_def Let_def
      del: addDelegated.simps)
qed

lemma demo_multi_signs:
  assumes "s0 = None \<or> s0 = Some ''legacy-concat''" "e0 = demoTransfer \<or> e0 = setExpiration 100 demoTransfer"
  shows "\<exists>entries s w'. signAccountEntry demoEnv demoMulti demoFunction demoSelected demoMultiOptions False ''CW'' 100 s0 0 e0 w =
     (Inr (Inr (entries, s)), w')"
proof -
  obtain out args where cp: "completePayload demoEnv demoMulti demoSelected [3] 100 ''legacy-concat'' (setExpiration 100 demoTransfer) = Inr (out, args)"
    using demo_completed by blast
  obtain c where c: "getAddressCredentials (aeCredentials (setExpiration 100 demoTransfer)) = Inr c" "acSignature c = ScvVoid"
    by (simp add: demoTransfer_def setExpiration_def)
  have i: "assertWalletMutationIntent demoSdk e0 ''CW'' None pol = Inr ()" for pol
    using assms(2) by (auto simp: demoTransfer_def setExpiration_def scAddressToString_def demo_strkeys
        assertWalletMutationIntent_def mutationHere_def bindE_def)
  have e: "setExpiration 100 e0 = setExpiration 100 demoTransfer" using assms(2) by auto
  have a: "addressFromString demoSdk ''GA'' = Inr (AddrAccount (utf8 ''A''))" "addressFromString demoSdk ''CW'' = Inr (AddrContract (utf8 ''W''))"
    by (simp_all add: addressFromString_def demoSdk_def demoFromStrkey_def)
  have x: "xmSignAuthEntry demoSdk f t demoOps p ''GA'' (mdManager demoMulti) = Inr (''sig'', ''GA'')" for f t p
    by (simp add: xmSignAuthEntry_def demoOps_def demoMulti_def demoManager_def adapterOps_def adCanSign_def adSign_def
        adSignRequest_def ensureInitialized_def newAdapter_def truthy_def)
  have o: "mdOps demoMulti = demoOps" by (simp add: demoMulti_def)
  have "\<exists>d w'. delegate demoEnv demoMulti ''CW'' args 100 ''GA'' w = (Inr d, w')" for w
    using x by (simp add: o delegate_def Let_def delegatedInvocation_def bindA_def run_simps demoEnv_def a walletSign_def doA_def accountKey_def)
  then obtain d w' where "delegate demoEnv demoMulti ''CW'' args 100 ''GA'' w = (Inr d, w')" by blast
  moreover have "(case s0 of None \<Rightarrow> mdScheme demoMulti ''CW'' | Some s \<Rightarrow> returnA s) w = (Inr ''legacy-concat'', w)"
    using assms(1) by (auto simp: demoMulti_def run_simps)
  moreover have "keSdk demoEnv = demoSdk" by (simp add: demoEnv_def)
  ultimately show ?thesis
    using cp c by (simp add: signAccountEntry_def signSelected_def demo_selected bindA_def run_simps i Let_def e
        contextRuleIdsFor_def demoMultiOptions_def readAuthPayload_def emptyAuthPayload_def)
qed

lemma demo_wired: "wiredTo demoEnv demoPasskeys demoMulti"
  by (simp add: wiredTo_def demoMulti_def)


definition demoMultiTx :: assembled where
  "demoMultiTx = \<lparr>atBuilt = Some \<lparr>txSource = ''GS'', txOps = [InvokeHostFunction demoFunction (Some [setExpiration 100 demoTransfer])],
     txBody = []\<rparr>, atSimAuth = None, atLatestLedger = Some 1, atSigned = None\<rparr>"

lemma demo_multi_submits:
  "\<exists>w'. multiOperation demoEnv demoMulti demoMultiTx demoSelected demoMultiOptions demoWorld = (Inr (TxSuccess ''h'' (Some 7)), w')"
proof -
  let ?w = "demoWorld\<lparr>wTrace := [FxRpcLatestLedger]\<rparr>" and ?e = "setExpiration 100 demoTransfer"
  obtain entries s w1 where "signAccountEntry demoEnv demoMulti demoFunction demoSelected demoMultiOptions False ''CW'' 100 None 0 ?e ?w =
     (Inr (Inr (entries, s)), w1)"
    using demo_multi_signs [of None ?e ?w] by blast
  moreover have "getAuthEntryAddress demoSdk ?e = Inr ''CW''"
    using demo_steps(1) by (simp add: address_of_expiration)
  moreover obtain c where "aeCredentials ?e = CredAddress c" "acExpiration c = 100"
    by (simp add: demoTransfer_def setExpiration_def)
  ultimately have one: "signOne demoEnv demoMulti demoFunction demoSelected demoMultiOptions False ''CW'' n None 0 ?e ?w =
      (Inr (Inr (entries, s)), w1)" for n
    by (simp add: signOne_def bindA_def run_simps demoEnv_def)
  have "\<exists>n. normalizeSignatureExpirationLedger (defaultExpirationOf 10) = Inr n"
    by (auto simp: defaultExpirationOf_def normalizeSignatureExpirationLedger_def AUTH_ENTRY_EXPIRATION_BUFFER_def U32_MAX_def)
  then have "\<exists>ptx w2. prepareSelected demoEnv demoMulti demoFunction [?e] demoSelected demoMultiOptions False ''CW'' demoWorld =
      (Inr (Inr ptx), w2)"
    using one demo_deployer
    by (auto simp: prepareSelected_def latestLedger_def bindA_def run_simps resolveResimSource_def shouldUseFeeSponsoring_def
      getSubmissionMethod_def demoMultiOptions_def resimulateAndAssemble_def Let_def signFeePayer_def
      assertNotSharedDeployerSource_def doA_def demoEnv_def demoServices_def demoWorld_def)
  then obtain ptx w2 where "prepareSelected demoEnv demoMulti demoFunction [?e] demoSelected demoMultiOptions False ''CW'' demoWorld =
      (Inr (Inr ptx), w2)" by blast
  moreover have "cannotSign demoMulti demoSelected = None"
    by (simp add: cannotSign_def demo_selected truthy_def xmCanSignFor_def canSignEd25519_def demoMulti_def demoManager_def
        demoOps_def adapterOps_def adCanSign_def)
  moreover have "sendAndPoll (keServices demoEnv) ptx (moForceMethod demoMultiOptions) w2 =
      (Inr (TxSuccess ''h'' (Some 7)), w2\<lparr>wTrace := wTrace w2 @ [FxRpcSend ptx, FxRpcPoll ''h'']\<rparr>)"
    by (simp add: sendAndPoll_def submitOnly_def getSubmissionMethod_def demoServices_def pollResult_def demoEnv_def
        demoMultiOptions_def bindA_def run_simps)
  moreover have "wContractId demoWorld = Some ''CW''" by (simp add: demoWorld_def demoWallet_def)
  ultimately show ?thesis
    by (simp add: multiOperation_def submitOperation_def demoMultiTx_def submitWithSelectedSigners_def bindA_def run_simps
        catchA_def truthy_def)
qed

lemma multi_operation_changes_no_authority_witness:
  "unchangedAuthority demoSdk ''CW'' (setExpiration 100 demoTransfer)"
proof -
  obtain w' where r: "multiOperation demoEnv demoMulti demoMultiTx demoSelected demoMultiOptions demoWorld = (Inr (TxSuccess ''h'' (Some 7)), w')"
    using demo_multi_submits by blast
  have "wContractId demoWorld = Some ''CW''" by (simp add: demoWorld_def demoWallet_def)
  from multi_operation_changes_no_authority [OF r this] show ?thesis by (simp add: demoMultiTx_def demoEnv_def)
qed

lemma multi_never_pays_with_shared_deployer_witness:
  "\<exists>r w' es. submitOperation demoEnv (demoMulti\<lparr>mdSignEntry := (\<lambda>e x. returnA e)\<rparr>) demoMultiTx demoSelected demoMultiOptions False demoWorld = (r, w') \<and>
     wTrace w' = wTrace demoWorld @ es \<and> list_all (notSharedDeployer demoSdk) es"
proof -
  let ?D = "demoMulti\<lparr>mdSignEntry := (\<lambda>e x. returnA e)\<rparr>"
  obtain r w' where run: "submitOperation demoEnv ?D demoMultiTx demoSelected demoMultiOptions False demoWorld = (r, w')"
    by (cases "submitOperation demoEnv ?D demoMultiTx demoSelected demoMultiOptions False demoWorld")
  have a: "txSource (svAssemble (keServices demoEnv) t d) = txSource t" for t d
    by (simp add: demoEnv_def demoServices_def)
  have s: "safeMulti (keSdk demoEnv) ?D demoMultiOptions"
    by (simp add: safeMulti_def demoMulti_def demoMultiOptions_def does_rules)
  have n: "\<not> isDefaultDeployer demoSdk ''GS''"
    by (simp add: isDefaultDeployer_def demoSdk_def DEFAULT_DEPLOYER_PUBLIC_KEY_def DEFAULT_DEPLOYER_SEED_def)
  show ?thesis
    using multi_never_pays_with_shared_deployer [OF a s _ run] run n by (force simp: demoMultiTx_def demoEnv_def)
qed
end
