(* ===== verification/Kit_Double.thy ===== *)
theory Kit_Double
  imports Kit_Json
begin

text \<open>
  The error of rounding a positive rational to a double, in the range that amounts of money fall into:
  the nearest double is within one part in \<open>2 ^ 53\<close>.
\<close>

lemma pow2_powi: "pow2 e = 2 powi e"
  by (simp add: pow2_def power_int_def inverse_eq_divide power_one_over)

lemma pow2_add: "pow2 (a + b) = pow2 a * pow2 b"
  by (simp add: pow2_powi power_int_add)

lemma pow2_pos [simp]: "0 < pow2 e"
  by (simp add: pow2_powi)

lemma pow2_nat: "pow2 (int n) = 2 ^ n"
  by (simp add: pow2_def)

lemma pow2_nonneg [simp]: "0 \<le> pow2 e"
  using pow2_pos [of e] by (rule less_imp_le)

lemma pow2_step: "pow2 a < pow2 (a + 1 + int k)"
proof -
  have "(1 :: rat) < 2 ^ (1 + k)" by (rule one_less_power) simp_all
  then have "pow2 a * 1 < pow2 a * pow2 (int (1 + k))" unfolding pow2_nat by (intro mult_strict_left_mono) simp_all
  then show ?thesis using pow2_add [of a "int (1 + k)"] by (simp add: algebra_simps)
qed

lemma pow2_less: "pow2 a < pow2 b \<longleftrightarrow> a < b"
proof -
  have s: "pow2 x < pow2 y" if "x < y" for x y
    using pow2_step [of x "nat (y - x - 1)"] that by simp
  show ?thesis using s [of a b] s [of b a] by (cases a b rule: linorder_cases) auto
qed

lemma floorlog_range:
  assumes "0 < (n :: int)"
  shows "pow2 (int (floorlog 2 (nat n)) - 1) \<le> of_int n" "of_int n < pow2 (int (floorlog 2 (nat n)))"
proof -
  let ?l = "floorlog 2 (nat n)"
  have b: "2 ^ (?l - 1) \<le> nat n" "nat n < 2 ^ ?l" using floorlog_bounds [of "nat n" 2] assms by simp_all
  have l: "0 < ?l" using assms by (simp add: floorlog_def)
  have "(of_nat (2 ^ (?l - 1)) :: rat) \<le> of_nat (nat n)" using b(1) by (rule of_nat_mono)
  then show "pow2 (int ?l - 1) \<le> of_int n" using l assms pow2_nat [of "?l - 1"]
    by (simp add: of_nat_diff)
  have "(of_nat (nat n) :: rat) < of_nat (2 ^ ?l)" using b(2) by (simp only: of_nat_less_iff)
  then show "of_int n < pow2 (int ?l)" using assms by (simp add: pow2_nat)
qed

lemma round_half:
  fixes x :: rat
  assumes "m = \<lfloor>x\<rfloor>" "up \<longleftrightarrow> x - of_int m > 1 / 2 \<or> (x - of_int m = 1 / 2 \<and> odd m)"
  shows "\<bar>of_int (if up then m + 1 else m) - x\<bar> \<le> 1 / 2"
proof -
  have "of_int m \<le> x" "x < of_int m + 1" using assms(1) by linarith+
  with assms(2) show ?thesis by (cases up) auto
qed

lemma roundFraction_error:
  assumes q: "pow2 (- 100) \<le> q" "q \<le> pow2 100"
  shows "\<exists>v. roundFraction q = Fin v \<and> \<bar>v - q\<bar> \<le> q / 2 ^ 53"
proof -
  have q0: "0 < q" using q(1) pow2_pos [of "- 100"] by linarith
  obtain n d where nd: "quotient_of q = (n, d)" by fastforce
  have qe: "q = of_int n / of_int d" and d: "0 < d" using quotient_of_div [OF nd] quotient_of_denom_pos [OF nd] by simp_all
  have n: "0 < n" using q0 d by (simp add: qe zero_less_divide_iff)
  define e0 where "e0 = int (floorlog 2 (nat n)) - int (floorlog 2 (nat d)) - 53"
  define e1 where "e1 = (if q < 2 ^ 53 * pow2 e0 then e0 else e0 + 1)"
  let ?L = "int (floorlog 2 (nat n))" and ?M = "int (floorlog 2 (nat d))"
  have p: "pow2 (?L - 1) = 2 ^ 52 * pow2 e0 * pow2 ?M" "pow2 ?L = 2 ^ 54 * pow2 e0 * pow2 (?M - 1)"
    using pow2_add [of "52 + e0" ?M] pow2_add [of 52 e0] pow2_add [of "54 + e0" "?M - 1"] pow2_add [of 54 e0]
      pow2_nat [of 52] pow2_nat [of 54]
    by (simp_all add: e0_def algebra_simps)
  have lo: "2 ^ 52 * pow2 e0 \<le> q"
  proof -
    have "2 ^ 52 * pow2 e0 * of_int d \<le> 2 ^ 52 * pow2 e0 * pow2 ?M"
      using floorlog_range(2) [OF d] by (intro mult_left_mono) auto
    also have "\<dots> \<le> of_int n" using floorlog_range(1) [OF n] p(1) by simp
    finally show ?thesis using d by (simp add: qe pos_le_divide_eq)
  qed
  have hi: "q < 2 ^ 54 * pow2 e0"
  proof -
    have "of_int n < 2 ^ 54 * pow2 e0 * pow2 (?M - 1)" using floorlog_range(2) [OF n] p(2) by simp
    also have "\<dots> \<le> 2 ^ 54 * pow2 e0 * of_int d"
      using floorlog_range(1) [OF d] by (intro mult_left_mono) auto
    finally show ?thesis using d by (simp add: qe pos_divide_less_eq)
  qed
  have e1: "2 ^ 52 * pow2 e1 \<le> q" "q < 2 ^ 53 * pow2 e1"
    using lo hi pow2_add [of e0 1] pow2_nat [of 1] by (auto simp: e1_def)
  have "pow2 (- 100) < pow2 (53 + e1)" using q(1) e1(2) pow2_add [of 53 e1] pow2_nat [of 53] by simp
  then have big: "- 1074 \<le> e1" by (simp add: pow2_less)
  define x m up where "x = q / pow2 e1" and "m = \<lfloor>x\<rfloor>" and "up = (x - of_int m > 1 / 2 \<or> (x - of_int m = 1 / 2 \<and> odd m))"
  define v where "v = of_int (if up then m + 1 else m) * pow2 e1"
  have "\<bar>of_int (if up then m + 1 else m) - x\<bar> \<le> 1 / 2" by (rule round_half) (simp_all add: m_def up_def)
  then have "\<bar>of_int (if up then m + 1 else m) - x\<bar> * pow2 e1 \<le> 1 / 2 * pow2 e1" by (intro mult_right_mono) auto
  moreover have "\<bar>of_int (if up then m + 1 else m) - x\<bar> * pow2 e1 = \<bar>v - q\<bar>"
    by (simp only: abs_mult_pos [OF pow2_nonneg] left_diff_distrib v_def)
      (use pow2_pos [of e1] less_imp_neq [OF pow2_pos [of e1]] in \<open>simp add: x_def\<close>)
  ultimately have "\<bar>v - q\<bar> \<le> pow2 e1 / 2" by (simp only: mult_1 times_divide_eq_left)
  then have err: "\<bar>v - q\<bar> \<le> q / 2 ^ 53" using e1(1) by simp
  then have "v - q \<le> q / 2 ^ 53" by (simp only: abs_le_iff)
  then have "v \<le> 2 * q" using q0 by simp
  then have "v < 2 ^ 1024"
  proof -
    have "v \<le> 2 * pow2 100" using \<open>v \<le> 2 * q\<close> q(2) by linarith
    also have "\<dots> < pow2 1024" using pow2_add [of 1 100] pow2_nat [of 1] pow2_less [of 101 1024] by simp
    finally show ?thesis using pow2_nat [of 1024] by simp
  qed
  then have lt: "\<not> v \<ge> 2 ^ 1024" by (simp only: not_le)
  have m1: "max e1 (- 1074) = e1" using big by (rule max_absorb1)
  have "roundFraction q = Fin v"
    unfolding roundFraction_def nd prod.case Let_def e0_def [symmetric] e1_def [symmetric] m1 x_def [symmetric]
      m_def [symmetric] up_def [symmetric] v_def [symmetric] by (rule if_not_P [OF lt])
  with err show ?thesis by blast
qed

lemma nearestDouble_error:
  assumes q: "pow2 (- 100) \<le> q" "q \<le> 2 ^ 53"
  shows "\<exists>v. nearestDouble q = Fin v \<and> \<bar>v - q\<bar> \<le> q / 2 ^ 53"
proof (cases "of_int \<lfloor>q\<rfloor> = q")
  case True
  have "0 \<le> q" using pow2_nonneg q(1) by (rule order_trans)
  then have f: "0 \<le> \<lfloor>q\<rfloor>" by simp
  have "(of_int \<lfloor>q\<rfloor> :: rat) \<le> of_int (2 ^ 53)" unfolding True using q(2) by simp
  then have "\<lfloor>q\<rfloor> \<le> 2 ^ 53" by (simp only: of_int_le_iff)
  then have "nat \<lfloor>q\<rfloor> \<le> 2 ^ 53" using f by (simp add: nat_le_iff)
  then have "toDouble (nat \<lfloor>q\<rfloor>) = Fin (of_nat (nat \<lfloor>q\<rfloor>))" unfolding toDouble_def by (rule if_P)
  then have "nearestDouble q = Fin (of_nat (nat \<lfloor>q\<rfloor>))" using True by (simp only: nearestDouble_def simp_thms if_True)
  moreover have "(of_nat (nat \<lfloor>q\<rfloor>) :: rat) = q" using True f by simp
  ultimately show ?thesis using f True by simp
next
  case False
  have "(2 ^ 53 :: rat) \<le> pow2 100" by (simp add: pow2_def)
  then show ?thesis using False roundFraction_error [OF q(1)] q(2) by (simp add: nearestDouble_def)
qed

end
