(* ===== verification/Kit_Funding.thy ===== *)
theory Kit_Funding
  imports Kit_Double Kit_MultiSigner
begin

text \<open>
  \<^verbatim>\<open>src/kit/fund-ops.ts\<close>: funding a wallet on testnet through a temporary account. Friendbot answers as
  a \<^verbatim>\<open>fetch\<close> of the world; the random key pair, the balance of the account and the answer of the
  first simulation, with its authorization entries, are parameters.
\<close>

section \<open>The temporary account\<close>

record temp_key =
  tkAddress :: string
  tkRawPublicKey :: buffer
  tkSign :: "buffer \<Rightarrow> buffer"

datatype funding_simulation = FundingFailed string | FundingSimulated "auth_entry list option" nat

record fund_deps =
  fuRandomKey :: "effect list \<Rightarrow> temp_key"
  fuBalance :: "effect list \<Rightarrow> string \<Rightarrow> nat result"
  fuSimulate :: "effect list \<Rightarrow> transaction \<Rightarrow> funding_simulation result"
  fuRandom :: "effect list \<Rightarrow> buffer"

definition FRIENDBOT_URL :: string where "FRIENDBOT_URL = ''https://friendbot.stellar.org''"
definition FRIENDBOT_RESERVE_XLM :: nat where "FRIENDBOT_RESERVE_XLM = 5"
definition STROOPS_PER_XLM :: nat where "STROOPS_PER_XLM = 10000000"
definition FRIENDBOT_ACCOUNT_LOOKUP_ATTEMPTS :: nat where "FRIENDBOT_ACCOUNT_LOOKUP_ATTEMPTS = 10"
definition TESTNET :: string where "TESTNET = ''Test SDF Network ; September 2015''"

text \<open>The account is looked up until it is found; after the last attempt the last error is thrown.\<close>

fun lookupAccount :: "services \<Rightarrow> string \<Rightarrow> nat \<Rightarrow> kit_error \<Rightarrow> unit act" where
  "lookupAccount S p 0 lastError = throwA lastError"
| "lookupAccount S p (Suc n) lastError =
     catchA (requestA (FxRpcGetAccount p) (\<lambda>t. svRpcGetAccount S t p)) (lookupAccount S p n)"

definition getAccountWithRetry :: "services \<Rightarrow> string \<Rightarrow> unit act" where
  "getAccountWithRetry S p = lookupAccount S p FRIENDBOT_ACCOUNT_LOOKUP_ATTEMPTS (JsThrown ''undefined'')"

section \<open>The amount\<close>

text \<open>Numbers of XLM are doubles; both operations round to the nearest one.\<close>

definition nearest :: "rat \<Rightarrow> jsnum" where
  "nearest q = (if q < 0 then negateNum (nearestDouble (- q)) else nearestDouble q)"

definition stroopsToXlm :: "nat \<Rightarrow> jsnum" where
  "stroopsToXlm stroops = (case toDouble stroops of Fin q \<Rightarrow> nearest (q / of_nat STROOPS_PER_XLM) | x \<Rightarrow> x)"

text \<open>\<^verbatim>\<open>Math.round\<close> rounds halves up; \<^verbatim>\<open>BigInt\<close> throws on what is not an integer.\<close>

definition xlmToStroops :: "jsnum \<Rightarrow> int result" where
  "xlmToStroops xlm = (case (case xlm of Fin q \<Rightarrow> nearest (q * of_nat STROOPS_PER_XLM) | x \<Rightarrow> x) of
     Fin q \<Rightarrow> Inr \<lfloor>q + 1 / 2\<rfloor> | _ \<Rightarrow> Inl (JsError ''The number cannot be converted to a BigInt because it is not an integer''))"

definition transferAmount :: "nat \<Rightarrow> jsnum" where
  "transferAmount balance = (case stroopsToXlm balance of Fin q \<Rightarrow> nearest (q - of_nat FRIENDBOT_RESERVE_XLM) | x \<Rightarrow> x)"

section \<open>Signing the transfer\<close>

definition tempSignature :: "kit_env \<Rightarrow> temp_key \<Rightarrow> nat \<Rightarrow> auth_entry \<Rightarrow> auth_entry result" where
  "tempSignature E key expiration e =
     bindE (buildSignaturePayload (keSdk E) (keNetwork E) e (Fin (of_nat expiration))) (\<lambda>(e', payload).
       Inr (setSignature (buildAddressSignatureScVal (tkRawPublicKey key) (tkSign key payload)) e'))"

text \<open>
  An entry the transaction's source would authorize becomes one of the temporary account's address,
  so that another source can carry it. \<open>Inl\<close> is an early result.
\<close>

definition signFundingEntry ::
    "kit_env \<Rightarrow> fund_deps \<Rightarrow> temp_key \<Rightarrow> nat \<Rightarrow> auth_entry \<Rightarrow> (tx_result + auth_entry) act" where
  "signFundingEntry E F key expiration e = (case aeCredentials e of
     SourceAccount \<Rightarrow>
       bindA (askA (\<lambda>w. randomAuthEntryNonce (fuRandom F (wTrace w)))) (\<lambda>nonce.
       bindA (liftA (addressFromString (keSdk E) (tkAddress key))) (\<lambda>address.
       bindA (liftA (tempSignature E key expiration
           \<lparr>aeCredentials = createAddressCredentials \<lparr>acAddress = address, acNonce = nonce, acExpiration = expiration,
              acSignature = ScvVoid\<rparr>, aeRoot = aeRoot e\<rparr>)) (\<lambda>e'. returnA (Inr e'))))
   | CredWithDelegates c d \<Rightarrow> returnA (Inl (failedTransaction (SubmissionError
       ''ADDRESS_WITH_DELEGATES auth entries are not supported by fundWallet() yet'' None) None))
   | _ \<Rightarrow> bindA (liftA (tempSignature E key expiration (setExpiration expiration e))) (\<lambda>e'. returnA (Inr e')))"

fun signFunding :: "(auth_entry \<Rightarrow> (tx_result + auth_entry) act) \<Rightarrow> auth_entry list \<Rightarrow> (tx_result + auth_entry list) act" where
  "signFunding one [] = returnA (Inr [])"
| "signFunding one (e # es) = bindA (one e) (\<lambda>r. (case r of
     Inl failure \<Rightarrow> returnA (Inl failure)
   | Inr e' \<Rightarrow> bindA (signFunding one es) (\<lambda>rest. returnA (case rest of
       Inl failure \<Rightarrow> Inl failure | Inr es' \<Rightarrow> Inr (e' # es')))))"

section \<open>Funding\<close>

definition askFriendbot :: "services \<Rightarrow> string \<Rightarrow> (tx_result + unit) act" where
  "askFriendbot S p = (let url = FRIENDBOT_URL @ ''?addr='' @ p in
     bindA (requestA (FxFetch url None) (\<lambda>t. Inr (svFetch S t url None))) (\<lambda>answer. (case answer of
        FetchFailed e \<Rightarrow> throwA e
      | FetchAborted \<Rightarrow> throwA (JsError ''This operation was aborted'')
      | Fetched r \<Rightarrow>
          if hrOk r then returnA (Inr ())
          else (case hrText r of
             None \<Rightarrow> throwA (JsError ''The body could not be read'')
           | Some text \<Rightarrow> returnA (Inl (failedTransaction (SubmissionError (''Friendbot error: '' @ text) None) None))))))"

text \<open>From the balance on: the transfer, its simulation, the signed entries, and the submission.\<close>

definition transferFunds ::
    "kit_env \<Rightarrow> fund_deps \<Rightarrow> temp_key \<Rightarrow> string \<Rightarrow> string \<Rightarrow> submission_method option \<Rightarrow> jsnum \<Rightarrow> tx_result act" where
  "transferFunds E F key nativeTokenContract contractId forceMethod amount =
     (let p = tkAddress key; S = keServices E; E' = E\<lparr>keDeployer := p\<rparr>;
          fm = Some (case forceMethod of Some m \<Rightarrow> m | None \<Rightarrow> ViaRpc) in
      bindA (liftA (xlmToStroops amount)) (\<lambda>stroops.
      bindA (liftA (buildTokenTransferHostFunction (keSdk E) nativeTokenContract p contractId stroops)) (\<lambda>func.
      let simulationTx = \<lparr>txSource = p, txOps = [InvokeHostFunction func (Some [])], txBody = []\<rparr> in
      bindA (requestA (FxRpcSimulate simulationTx) (\<lambda>t. fuSimulate F t simulationTx)) (\<lambda>sim. (case sim of
         FundingFailed err \<Rightarrow> returnA (simulationFailure (DString err) None)
       | FundingSimulated authEntries ledger \<Rightarrow>
           bindA (signFunding (signFundingEntry E F key (ledger + LEDGERS_PER_HOUR)) (items authEntries)) (\<lambda>r.
             (case r of
                Inl failure \<Rightarrow> returnA failure
              | Inr signedAuthEntries \<Rightarrow>
                  bindA (requestA (FxRpcGetAccount p) (\<lambda>t. svRpcGetAccount S t p)) (\<lambda>_.
                  bindA (resimulateAndAssemble E p func signedAuthEntries) (\<lambda>preparedTx.
                  bindA (signFeePayer E' preparedTx fm) (\<lambda>_.
                    sendAndPoll S preparedTx fm))))))))))"

definition isSuccess :: "tx_result \<Rightarrow> bool" where
  "isSuccess r = (case r of TxSuccess h l \<Rightarrow> True | _ \<Rightarrow> False)"

definition fundTemporary ::
    "kit_env \<Rightarrow> fund_deps \<Rightarrow> string \<Rightarrow> string \<Rightarrow> submission_method option \<Rightarrow> (tx_result \<times> jsnum option) act" where
  "fundTemporary E F nativeTokenContract contractId forceMethod =
     bindA (askA (\<lambda>w. fuRandomKey F (wTrace w))) (\<lambda>key.
     bindA (askFriendbot (keServices E) (tkAddress key)) (\<lambda>r. (case r of
        Inl failure \<Rightarrow> returnA (failure, None)
      | Inr _ \<Rightarrow>
          bindA (getAccountWithRetry (keServices E) (tkAddress key)) (\<lambda>_.
          bindA (liftA (addressFromString (keSdk E) (tkAddress key))) (\<lambda>_.
          bindA (askA (\<lambda>w. fuBalance F (wTrace w) (tkAddress key))) (\<lambda>balance.
          bindA (liftA balance) (\<lambda>balanceStroops.
            let amount = transferAmount balanceStroops in
            if \<not> jsLess (Fin 0) amount
            then returnA (failedTransaction (SubmissionError ''Insufficient balance after reserve'' None) None, None)
            else bindA (transferFunds E F key nativeTokenContract contractId forceMethod amount) (\<lambda>txResult.
              returnA (txResult, if isSuccess txResult then Some amount else None)))))))))"

definition fundWallet :: "kit_env \<Rightarrow> fund_deps \<Rightarrow> string \<Rightarrow> submission_method option \<Rightarrow> (tx_result \<times> jsnum option) act" where
  "fundWallet E F nativeTokenContract forceMethod =
     bindA (askA wContractId) (\<lambda>contractId.
       if \<not> truthy contractId
       then returnA (failedTransaction (WalletNotConnectedError (Some ''fund a wallet'')) None, None)
       else if keNetwork E \<noteq> TESTNET
       then returnA (failedTransaction (SubmissionError ''fundWallet() only works on testnet'' None) None, None)
       else catchA (fundTemporary E F nativeTokenContract (the contractId) forceMethod)
         (\<lambda>err. returnA (failedTransaction (wrapError err TRANSACTION_SUBMISSION_FAILED) None, None)))"

section \<open>The account is looked up a bounded number of times\<close>

lemma lookupAccount_ends:
  "\<exists>k \<le> n. wTrace (snd (lookupAccount S p n e w)) = wTrace w @ replicate k (FxRpcGetAccount p) \<and>
     (fst (lookupAccount S p n e w) = Inr () \<longleftrightarrow>
       0 < k \<and> svRpcGetAccount S (wTrace w @ replicate (k - 1) (FxRpcGetAccount p)) p = Inr ()) \<and>
     (isOk (fst (lookupAccount S p n e w)) \<or> k = n)"
proof (induction n arbitrary: e w)
  case (Suc n)
  let ?w = "w\<lparr>wTrace := wTrace w @ [FxRpcGetAccount p]\<rparr>"
  show ?case
  proof (cases "svRpcGetAccount S (wTrace w) p")
    case (Inl e1)
    then have r: "lookupAccount S p (Suc n) e w = lookupAccount S p n e1 ?w"
      by (simp add: catchA_def run_simps)
    obtain k where "k \<le> n" "wTrace (snd (lookupAccount S p n e1 ?w)) = wTrace w @ FxRpcGetAccount p # replicate k (FxRpcGetAccount p)"
      "fst (lookupAccount S p n e1 ?w) = Inr () \<longleftrightarrow>
       0 < k \<and> svRpcGetAccount S (wTrace w @ FxRpcGetAccount p # replicate (k - 1) (FxRpcGetAccount p)) p = Inr ()"
      "isOk (fst (lookupAccount S p n e1 ?w)) \<or> k = n"
      using Suc.IH [where e = e1 and w = ?w] by auto
    moreover have "FxRpcGetAccount p # replicate (k - 1) (FxRpcGetAccount p) = replicate k (FxRpcGetAccount p)" if "0 < k" for k
      using that by (cases k) simp_all
    ultimately show ?thesis using Inl unfolding r
      by (intro exI [of _ "Suc k"]) (cases "k = 0", auto)
  next
    case (Inr u)
    then show ?thesis by (intro exI [of _ 1]) (simp add: catchA_def run_simps)
  qed
qed (simp add: run_simps)

text \<open>
  The lookup of the fresh account ends after at most ten reads: it returns exactly when one of
  them answers, reads nothing after that one, and otherwise has made all ten.
\<close>

theorem account_lookup_ends:
  "\<exists>k. k \<le> 10 \<and> wTrace (snd (getAccountWithRetry S p w)) = wTrace w @ replicate k (FxRpcGetAccount p) \<and>
     (fst (getAccountWithRetry S p w) = Inr () \<longleftrightarrow>
       0 < k \<and> svRpcGetAccount S (wTrace w @ replicate (k - 1) (FxRpcGetAccount p)) p = Inr ()) \<and>
     (isOk (fst (getAccountWithRetry S p w)) \<or> k = 10)"
  using lookupAccount_ends [where n = 10 and w = w and S = S and p = p and e = "JsThrown ''undefined''"]
  by (auto simp: getAccountWithRetry_def FRIENDBOT_ACCOUNT_LOOKUP_ATTEMPTS_def)

section \<open>The amount that reaches the wallet\<close>

lemma nearest_error:
  assumes "pow2 (- 100) \<le> q" "q \<le> 2 ^ 53"
  shows "\<exists>v. nearest q = Fin v \<and> v \<le> q + q / 9007199254740992 \<and> q - q / 9007199254740992 \<le> v"
proof -
  have "0 \<le> q" using pow2_nonneg assms(1) by (rule order_trans)
  moreover obtain v where "nearestDouble q = Fin v" "\<bar>v - q\<bar> \<le> q / 9007199254740992"
    using nearestDouble_error [OF assms] by auto
  moreover from this(2) have "v - q \<le> q / 9007199254740992" "- (v - q) \<le> q / 9007199254740992"
    unfolding abs_le_iff by blast+
  ultimately show ?thesis by (intro exI [of _ v] conjI) (simp add: nearest_def, linarith+)
qed

lemma shrink:
  assumes "(a :: rat) - a / 9007199254740992 \<le> x" "1 / 100000000 \<le> a"
  shows "1 / 200000000 \<le> x"
  using assms by linarith

lemma within:
  assumes "x \<le> (a :: rat) + a / 9007199254740992" "a - a / 9007199254740992 \<le> x" "a \<le> c"
  shows "x \<le> a + c / 9007199254740992" "a - c / 9007199254740992 \<le> x"
  using assms by linarith+

lemma pow2_tiny: "pow2 (- 100) \<le> 1 / 10 ^ 8"
  by (simp add: pow2_def)

text \<open>
  C27. The amount passes through three roundings: the balance in XLM, what is left of it after the
  reserve, and the stroops of that. Up to a hundred million XLM they never lose a stroop: what is
  transferred is exactly the balance less the reserve.
\<close>

theorem funding_amount_exact:
  assumes b: "50000000 < b" "b \<le> 10 ^ 15"
  shows "\<exists>q. transferAmount b = Fin q \<and> 0 < q \<and> xlmToStroops (Fin q) = Inr (int b - 50000000)"
proof -
  have two53: "(2 ^ 53 :: rat) = 9007199254740992" by simp
  define y where "y = (of_nat b :: rat)"
  have y: "50000001 \<le> y" "y \<le> 1000000000000000"
    using of_nat_mono [of 50000001 b, where 'a = rat] of_nat_mono [OF b(2), where 'a = rat] b(1) by (simp_all add: y_def)
  have tiny: "pow2 (- 100) \<le> q" if "1 / 100000000 \<le> q" for q using pow2_tiny that by simp
  have "toDouble b = Fin y" unfolding y_def using b(2) by (intro toDouble_safe) simp
  moreover obtain x1 where x1: "nearest (y / 10000000) = Fin x1"
      "x1 \<le> y / 10000000 + y / 10000000 / 9007199254740992" "y / 10000000 - y / 10000000 / 9007199254740992 \<le> x1"
    using nearest_error [OF tiny, of "y / 10000000"] y by auto
  ultimately have s: "stroopsToXlm b = Fin x1" by (simp add: stroopsToXlm_def STROOPS_PER_XLM_def)
  have w1: "x1 \<le> y / 10000000 + 1 / 10000000" "y / 10000000 - 1 / 80000000 \<le> x1"
    using within [OF x1(2,3), of 100000000] y by linarith+
  have r1: "1 / 100000000 \<le> x1 - 5" "x1 - 5 \<le> 2 ^ 53" using w1 y unfolding two53 by linarith+
  obtain x2 where x2: "nearest (x1 - 5) = Fin x2" "x2 \<le> (x1 - 5) + (x1 - 5) / 9007199254740992"
      "(x1 - 5) - (x1 - 5) / 9007199254740992 \<le> x2"
    using nearest_error [OF tiny [OF r1(1)] r1(2)] by auto
  then have t: "transferAmount b = Fin x2" by (simp add: transferAmount_def s FRIENDBOT_RESERVE_XLM_def)
  have w2: "x2 \<le> x1 - 5 + 100000001 / 9007199254740992" "x1 - 5 - 100000001 / 9007199254740992 \<le> x2"
    using within [OF x2(2,3), of 100000001] w1 y by linarith+
  have p2: "1 / 200000000 \<le> x2" using shrink [OF x2(3) r1(1)] .
  have r2: "1 / 100000000 \<le> x2 * 10000000" "x2 * 10000000 \<le> 2 ^ 53" using p2 w1 w2 y unfolding two53 by linarith+
  obtain x3 where x3: "nearest (x2 * 10000000) = Fin x3"
      "x3 \<le> x2 * 10000000 + x2 * 10000000 / 9007199254740992" "x2 * 10000000 - x2 * 10000000 / 9007199254740992 \<le> x3"
    using nearest_error [OF tiny [OF r2(1)] r2(2)] by auto
  have w3: "x3 \<le> x2 * 10000000 + 1000000020000000 / 9007199254740992" "x2 * 10000000 - 1000000020000000 / 9007199254740992 \<le> x3"
    using within [OF x3(2,3), of 1000000020000000] w1 w2 y by linarith+
  have w0: "x1 \<le> y / 10000000 + 100000000 / 9007199254740992" "y / 10000000 - 100000000 / 9007199254740992 \<le> x1"
    using within [OF x1(2,3), of 100000000] y by linarith+
  have e: "x3 + 1 / 2 < y - 50000000 + 1" "y - 50000000 \<le> x3 + 1 / 2"
    using w0 w2 w3 by linarith+
  have "\<lfloor>x3 + 1 / 2\<rfloor> = int b - 50000000" using e by (simp add: floor_eq_iff y_def)
  then have "xlmToStroops (Fin x2) = Inr (int b - 50000000)"
    using x3(1) by (simp add: xlmToStroops_def STROOPS_PER_XLM_def)
  with t p2 show ?thesis by (intro exI [of _ x2]) simp
qed

lemma funding_amount_exact_witness: "\<exists>q. transferAmount 100000000000 = Fin q \<and> 0 < q \<and> xlmToStroops (Fin q) = Inr 99950000000"
  using funding_amount_exact [of 100000000000] by simp

section \<open>Funding always reports\<close>

text \<open>
  \<^verbatim>\<open>fundWallet\<close> always returns a result, whatever the services answer or throw: its awaits, the
  submission among them, are inside the \<^verbatim>\<open>try\<close>. An amount is reported only with a success.
\<close>

theorem funding_reports: "\<exists>r amount w'. fundWallet E F token fm w = (Inr (r, amount), w') \<and>
    (amount = None \<or> isSuccess r)"
proof -
  have a: "amount = None \<or> isSuccess r" if "fundTemporary E F token c fm w = (Inr (r, amount), v')" for c r amount v'
    using that unfolding fundTemporary_def Let_def
    by (auto simp: bindA_Inr run_simps run_sum split: if_splits)
  obtain x v where x: "fundTemporary E F token (the (wContractId w)) fm w = (x, v)"
    by (cases "fundTemporary E F token (the (wContractId w)) fm w")
  then show ?thesis using a
    by (cases x) (auto simp: fundWallet_def bindA_def catchA_def run_simps)
qed

end
