(* ===== verification/Kit_Managers.thy ===== *)
theory Kit_Managers
  imports Kit_Credentials
begin

text \<open>
  \<^verbatim>\<open>src/managers/signer-manager.ts\<close>, \<^verbatim>\<open>context-rule-manager.ts\<close>, \<^verbatim>\<open>policy-manager.ts\<close> and
  \<^verbatim>\<open>src/policy-clients.ts\<close>: what the managers check before they call the generated client of the
  connected contract, and how they read its answers. The client's calls are parameters.
\<close>

section \<open>The generated client\<close>

record wallet_client =
  clAddSigner :: "nat \<Rightarrow> signer \<Rightarrow> assembled act"
  clBatchAddSigner :: "nat \<Rightarrow> signer list \<Rightarrow> assembled act"
  clGetSignerId :: "signer \<Rightarrow> nat option contract_result act"
  clRemoveSigner :: "nat \<Rightarrow> nat \<Rightarrow> assembled act"
  clAddRule :: "context_rule_type \<Rightarrow> string \<Rightarrow> jsnum option \<Rightarrow> signer list \<Rightarrow> (string \<times> scval) list \<Rightarrow> assembled act"
  clRuleCount :: "nat act"
  clRemoveRule :: "nat \<Rightarrow> assembled act"
  clUpdateName :: "nat \<Rightarrow> string \<Rightarrow> assembled act"
  clUpdateValidUntil :: "nat \<Rightarrow> jsnum option \<Rightarrow> assembled act"
  clAddPolicy :: "nat \<Rightarrow> string \<Rightarrow> scval \<Rightarrow> assembled act"
  clGetPolicyId :: "string \<Rightarrow> nat option contract_result act"
  clRemovePolicy :: "nat \<Rightarrow> nat \<Rightarrow> assembled act"
  clExecute :: "string \<Rightarrow> string \<Rightarrow> scval list \<Rightarrow> assembled act"
  clUpgrade :: "buffer \<Rightarrow> string \<Rightarrow> assembled act"

text \<open>An error of one contract code becomes the kit's own; \<open>missing\<close> is thrown for an absent id.\<close>

definition forCode :: "nat \<Rightarrow> kit_error \<Rightarrow> kit_error \<Rightarrow> kit_error" where
  "forCode code missing err = (case err of ContractError c n f m \<Rightarrow> if c = code then missing else err | _ \<Rightarrow> err)"

definition idFrom :: "nat \<Rightarrow> kit_error \<Rightarrow> nat option contract_result act \<Rightarrow> nat act" where
  "idFrom code missing get = bindA get (\<lambda>r. bindA (liftA (unwrapContractResult r (forCode code missing))) (\<lambda>i.
     (case i of None \<Rightarrow> throwA missing | Some n \<Rightarrow> returnA n)))"

section \<open>Signers\<close>

record signer_deps =
  sdWallet :: "string \<Rightarrow> wallet_client"
  sdVerifier :: string
  sdCreatePasskey :: "string \<Rightarrow> string \<Rightarrow> passkey act"
  sdDateText :: "effect list \<Rightarrow> string"

text \<open>\<^verbatim>\<open>getVerifiedCredential\<close> of the kit: the first stored credential of the wallet with a verified birth.\<close>

definition getVerifiedCredential :: "string \<Rightarrow> stored_credential option act" where
  "getVerifiedCredential contractId = bindA (storageGetByContract contractId) (\<lambda>credentials.
     returnA (List.find hasVerifiedBirth credentials))"

record added_passkey =
  apkCredentialId :: string
  apkPublicKey :: buffer
  apkTransaction :: assembled

definition addedCredential :: "passkey \<Rightarrow> string \<Rightarrow> string \<Rightarrow> nat \<Rightarrow> nat \<Rightarrow> stored_credential \<Rightarrow> stored_credential" where
  "addedCredential pk contractId nickname now contextRuleId verifiedWallet =
     (newCredential (pkCredentialId pk) (pkPublicKey pk) contractId now)
       \<lparr>scNickname := Some nickname, scTransports := rgTransports (pkResponse pk), scIsPrimary := Some False,
        scContextRuleId := Some contextRuleId, scStatus := Some StatusDeployed, scAssociationVerified := Some True,
        scBirthWasmHash := scBirthWasmHash verifiedWallet, scCreationTx := scCreationTx verifiedWallet,
        scCreationLedger := scCreationLedger verifiedWallet, scBirthArgsHash := scBirthArgsHash verifiedWallet\<rparr>"

definition addPasskey ::
    "sdk \<Rightarrow> services \<Rightarrow> signer_deps \<Rightarrow> nat \<Rightarrow> string \<Rightarrow> string \<Rightarrow> string option \<Rightarrow> added_passkey act" where
  "addPasskey K S D contextRuleId appName userName nickname =
     bindA requireWallet (\<lambda>contractId.
     bindA (getVerifiedCredential contractId) (\<lambda>verifiedWallet. (case verifiedWallet of
        None \<Rightarrow> throwA (JsError ''Cannot add a passkey before the connected wallet birth is verified'')
      | Some v \<Rightarrow>
          bindA (sdCreatePasskey D appName userName) (\<lambda>pk.
          bindA (askA (\<lambda>w. sdDateText D (wTrace w))) (\<lambda>date.
          bindA (nowA S) (\<lambda>now.
            let c = addedCredential pk contractId
                  (case nickname of Some n \<Rightarrow> n | None \<Rightarrow> userName @ '' - '' @ date) now contextRuleId v;
                s = External (sdVerifier D) (buildKeyData (pkPublicKey pk) (base64urlToBuffer K (pkCredentialId pk))) in
            bindA (storageSave c) (\<lambda>_.
            bindA (emitA (CredentialCreated c)) (\<lambda>_.
            bindA (liftA (validateSigner K s None)) (\<lambda>_.
            bindA (clAddSigner (sdWallet D contractId) contextRuleId s) (\<lambda>transaction.
              returnA \<lparr>apkCredentialId = pkCredentialId pk, apkPublicKey = pkPublicKey pk,
                apkTransaction = transaction\<rparr>))))))))))"

definition addDelegatedSigner :: "sdk \<Rightarrow> signer_deps \<Rightarrow> nat \<Rightarrow> string \<Rightarrow> assembled act" where
  "addDelegatedSigner K D contextRuleId publicKey =
     bindA requireWallet (\<lambda>contractId.
     bindA (liftA (createDelegatedSigner K publicKey)) (\<lambda>s.
     bindA (liftA (validateSigner K s None)) (\<lambda>_. clAddSigner (sdWallet D contractId) contextRuleId s)))"

definition addBatch :: "sdk \<Rightarrow> signer_deps \<Rightarrow> nat \<Rightarrow> signer list \<Rightarrow> nat option \<Rightarrow> assembled act" where
  "addBatch K D contextRuleId signers existingSignerCount =
     bindA requireWallet (\<lambda>contractId.
     bindA (liftA (validateSigners K signers (case existingSignerCount of Some n \<Rightarrow> n | None \<Rightarrow> 0) (Some contractId))) (\<lambda>_.
       clBatchAddSigner (sdWallet D contractId) contextRuleId signers))"

definition signerIdOf :: "signer_deps \<Rightarrow> signer \<Rightarrow> nat act" where
  "signerIdOf D s = bindA requireWallet (\<lambda>contractId.
     idFrom 3006 (SignerNotFoundError ''signer'' None) (clGetSignerId (sdWallet D contractId) s))"

definition removeSigner :: "signer_deps \<Rightarrow> nat \<Rightarrow> signer \<Rightarrow> assembled act" where
  "removeSigner D contextRuleId s = bindA requireWallet (\<lambda>contractId.
     bindA (idFrom 3006 (SignerNotFoundError (''signer on context rule '' @ decimal contextRuleId) None)
         (clGetSignerId (sdWallet D contractId) s)) (\<lambda>signerId.
       clRemoveSigner (sdWallet D contractId) contextRuleId signerId))"

section \<open>Context rules\<close>

record rule_deps =
  rdWallet :: "string \<Rightarrow> wallet_client"
  rdReader :: "string \<Rightarrow> query_client"
  rdIndexer :: "(nat list option act) option"
  rdProbe :: "(nat \<times> nat) option"
  rdLatestLedger :: "nat act"

definition ruleDiscovery :: "rule_deps \<Rightarrow> string \<Rightarrow> discovery_deps" where
  "ruleDiscovery D contractId = \<lparr>ddIndexer = rdIndexer D, ddProbe = rdProbe D,
     ddLatestLedger = Some (rdLatestLedger D), ddContractId = Some contractId\<rparr>"

definition addRule ::
    "sdk \<Rightarrow> rule_deps \<Rightarrow> context_rule_type \<Rightarrow> string \<Rightarrow> signer list \<Rightarrow> (string \<times> scval) list \<Rightarrow> jsnum option \<Rightarrow> assembled act" where
  "addRule K D contextType name signers policies validUntil =
     bindA requireWallet (\<lambda>contractId.
     bindA (liftA (validateContextRule K \<lparr>argName = name, argSigners = signers, argPolicyCount = length policies,
         argValidUntil = validUntil, argCurrentLedger = None, argAccount = Some contractId\<rparr>)) (\<lambda>_.
     bindA (liftA (sortPolicyMap K policies)) (\<lambda>sorted.
       clAddRule (rdWallet D contractId) contextType name validUntil signers sorted)))"

definition ruleCount :: "rule_deps \<Rightarrow> nat act" where
  "ruleCount D = bindA requireWallet (\<lambda>contractId. clRuleCount (rdWallet D contractId))"

definition getRule :: "kit_env \<Rightarrow> rule_deps \<Rightarrow> nat \<Rightarrow> context_rule act" where
  "getRule E D contextRuleId = bindA requireWallet (\<lambda>contractId.
     readContextRule E (rdReader D contractId) (Some contractId) contextRuleId)"

definition listRules :: "kit_env \<Rightarrow> rule_deps \<Rightarrow> context_rule list act" where
  "listRules E D = bindA requireWallet (\<lambda>contractId.
     listContextRules E (rdReader D contractId) (ruleDiscovery D contractId))"

definition getAllRules :: "kit_env \<Rightarrow> rule_deps \<Rightarrow> context_rule_type \<Rightarrow> context_rule list act" where
  "getAllRules E D contextRuleType = bindA requireWallet (\<lambda>contractId.
     getFilteredContextRules E (rdReader D contractId) contextRuleType (ruleDiscovery D contractId))"

definition removeRule :: "rule_deps \<Rightarrow> nat \<Rightarrow> assembled act" where
  "removeRule D contextRuleId = bindA requireWallet (\<lambda>contractId. clRemoveRule (rdWallet D contractId) contextRuleId)"

text \<open>The two updates check their argument before they ask for the wallet.\<close>

definition updateRuleName :: "rule_deps \<Rightarrow> nat \<Rightarrow> string \<Rightarrow> assembled act" where
  "updateRuleName D contextRuleId name = bindA (liftA (validateContextRuleName name)) (\<lambda>_.
     bindA requireWallet (\<lambda>contractId. clUpdateName (rdWallet D contractId) contextRuleId name))"

definition updateRuleExpiration :: "rule_deps \<Rightarrow> nat \<Rightarrow> jsnum option \<Rightarrow> assembled act" where
  "updateRuleExpiration D contextRuleId validUntil = bindA (liftA (validateValidUntil validUntil None)) (\<lambda>_.
     bindA requireWallet (\<lambda>contractId. clUpdateValidUntil (rdWallet D contractId) contextRuleId validUntil))"

section \<open>Policies\<close>

definition addPolicy :: "(string \<Rightarrow> wallet_client) \<Rightarrow> nat \<Rightarrow> string \<Rightarrow> scval \<Rightarrow> assembled act" where
  "addPolicy W contextRuleId policyAddress installParams = bindA requireWallet (\<lambda>contractId.
     clAddPolicy (W contractId) contextRuleId policyAddress installParams)"

definition removePolicy :: "(string \<Rightarrow> wallet_client) \<Rightarrow> nat \<Rightarrow> string \<Rightarrow> assembled act" where
  "removePolicy W contextRuleId policyAddress = bindA requireWallet (\<lambda>contractId.
     bindA (idFrom 3008 (PolicyNotFoundError policyAddress (Some contextRuleId))
         (clGetPolicyId (W contractId) policyAddress)) (\<lambda>policyId.
       clRemovePolicy (W contractId) contextRuleId policyId))"

definition policyIdOf :: "(string \<Rightarrow> wallet_client) \<Rightarrow> string \<Rightarrow> nat act" where
  "policyIdOf W policyAddress = bindA requireWallet (\<lambda>contractId.
     idFrom 3008 (PolicyNotFoundError policyAddress None) (clGetPolicyId (W contractId) policyAddress))"

section \<open>Policy clients\<close>

text \<open>\<open>pyEncodeRule\<close> is the spec of the connected wallet's client, \<open>pyNative\<close> the SDK's \<^verbatim>\<open>scValToNative\<close>.\<close>

record policy_deps =
  pyEncodeRule :: "string \<Rightarrow> context_rule \<Rightarrow> scval result"
  pyExecute :: "string \<Rightarrow> string \<Rightarrow> scval list \<Rightarrow> assembled act"
  pyNumber :: "scval \<Rightarrow> jsnum"

definition POLICY_READ_ACCOUNT :: "sdk \<Rightarrow> string" where
  "POLICY_READ_ACCOUNT K = publicKeyOfSeed K (hash K (utf8 ''smart-account-kit-policy-read''))"

definition smartAccountScVal :: "sdk \<Rightarrow> scval act" where
  "smartAccountScVal K = bindA requireWallet (\<lambda>contractId.
     bindA (liftA (addressFromString K contractId)) (\<lambda>a. returnA (ScvAddress a)))"

definition encodeRule :: "policy_deps \<Rightarrow> context_rule \<Rightarrow> scval act" where
  "encodeRule D rule = bindA requireWallet (\<lambda>contractId. liftA (pyEncodeRule D contractId rule))"

definition simulateGetter :: "kit_env \<Rightarrow> string \<Rightarrow> string \<Rightarrow> scval list \<Rightarrow> scval act" where
  "simulateGetter E policyAddress fnName args =
     bindA (liftA (addressFromString (keSdk E) policyAddress)) (\<lambda>address.
     let tx = \<lparr>txSource = POLICY_READ_ACCOUNT (keSdk E), txOps = [InvokeHostFunction
           (InvokeContract \<lparr>iaContract = address, iaFunction = fnName, iaArgs = args\<rparr>) (Some [])], txBody = []\<rparr> in
     bindA (requestA (FxRpcSimulate tx) (\<lambda>t. svRpcSimulate (keServices E) t tx)) (\<lambda>sim. (case sim of
        SimFailed err \<Rightarrow>
          if err \<noteq> [] then throwA (decodedOr err (SimulationError (fnName @ '' simulation failed: '' @ err)))
          else throwA (SimulationError (fnName @ '' returned no result''))
      | SimOk d retval \<Rightarrow> (case retval of
            None \<Rightarrow> throwA (SimulationError (fnName @ '' returned no result''))
          | Some v \<Rightarrow> returnA v))))"

definition getThreshold :: "kit_env \<Rightarrow> policy_deps \<Rightarrow> string \<Rightarrow> nat \<Rightarrow> jsnum act" where
  "getThreshold E D policyAddress contextRuleId = bindA (smartAccountScVal (keSdk E)) (\<lambda>account.
     bindA (simulateGetter E policyAddress ''get_threshold'' [ScvU32 contextRuleId, account]) (\<lambda>retval.
       returnA (pyNumber D retval)))"

definition ruleSetter :: "kit_env \<Rightarrow> policy_deps \<Rightarrow> string \<Rightarrow> string \<Rightarrow> scval list \<Rightarrow> context_rule \<Rightarrow> assembled act" where
  "ruleSetter E D policyAddress fnName values contextRule = bindA (encodeRule D contextRule) (\<lambda>rule.
     bindA (smartAccountScVal (keSdk E)) (\<lambda>account. pyExecute D policyAddress fnName (values @ [rule, account])))"

definition setThreshold :: "kit_env \<Rightarrow> policy_deps \<Rightarrow> string \<Rightarrow> nat \<Rightarrow> context_rule \<Rightarrow> assembled act" where
  "setThreshold E D policyAddress threshold contextRule =
     ruleSetter E D policyAddress ''set_threshold'' [ScvU32 threshold] contextRule"

text \<open>A JavaScript \<^verbatim>\<open>Map\<close> with object keys never merges two of them: it is the list of the pairs.\<close>

definition decodeSignerWeights :: "sdk \<Rightarrow> (scval \<Rightarrow> jsnum) \<Rightarrow> scval \<Rightarrow> (signer \<times> jsnum) list result" where
  "decodeSignerWeights K number retval = (case retval of
     ScvMap m \<Rightarrow> mapE (\<lambda>(k, v). bindE (parseSignerScVal K k) (\<lambda>s. Inr (s, number v))) (items m)
   | _ \<Rightarrow> Inl (SimulationError ''get_signer_weights did not return a map''))"

definition getSignerWeights :: "kit_env \<Rightarrow> policy_deps \<Rightarrow> string \<Rightarrow> context_rule \<Rightarrow> (signer \<times> jsnum) list act" where
  "getSignerWeights E D policyAddress contextRule = bindA (encodeRule D contextRule) (\<lambda>rule.
     bindA (smartAccountScVal (keSdk E)) (\<lambda>account.
     bindA (simulateGetter E policyAddress ''get_signer_weights'' [rule, account]) (\<lambda>retval.
       liftA (decodeSignerWeights (keSdk E) (pyNumber D) retval))))"

definition setSignerWeight :: "kit_env \<Rightarrow> policy_deps \<Rightarrow> string \<Rightarrow> signer \<Rightarrow> nat \<Rightarrow> context_rule \<Rightarrow> assembled act" where
  "setSignerWeight E D policyAddress s weight contextRule = bindA (liftA (signerToScVal (keSdk E) s)) (\<lambda>key.
     ruleSetter E D policyAddress ''set_signer_weight'' [key, ScvU32 weight] contextRule)"

definition getSpendingLimitData :: "kit_env \<Rightarrow> string \<Rightarrow> nat \<Rightarrow> scval act" where
  "getSpendingLimitData E policyAddress contextRuleId = bindA (smartAccountScVal (keSdk E)) (\<lambda>account.
     simulateGetter E policyAddress ''get_spending_limit_data'' [ScvU32 contextRuleId, account])"

definition setSpendingLimit :: "kit_env \<Rightarrow> policy_deps \<Rightarrow> string \<Rightarrow> int \<Rightarrow> context_rule \<Rightarrow> assembled act" where
  "setSpendingLimit E D policyAddress spendingLimit contextRule =
     ruleSetter E D policyAddress ''set_spending_limit'' [buildI128ScVal spendingLimit] contextRule"

section \<open>Adding a passkey\<close>

text \<open>The steps of a run that reached the ceremony.\<close>

lemma addPasskey_run:
  assumes "wContractId w = Some c" "c \<noteq> []" "wWallet w \<noteq> None"
    and "List.find hasVerifiedBirth (memGetByContract c (wStorage w)) = Some v"
    and "sdCreatePasskey D app user w = (Inr pk, w1)"
  shows "\<exists>nick now. let cred = addedCredential pk c nick now i v;
       w2 = w1\<lparr>wStorage := memSave cred (wStorage w1), wTrace := wTrace w1 @ [FxEvent (CredentialCreated cred)]\<rparr>;
       s = External (sdVerifier D) (buildKeyData (pkPublicKey pk) (base64urlToBuffer K (pkCredentialId pk))) in
     addPasskey K S D i app user n w = (case validateSigner K s None of
       Inl e \<Rightarrow> (Inl e, w2)
     | Inr _ \<Rightarrow> (case clAddSigner (sdWallet D c) i s w2 of
         (Inl e, w3) \<Rightarrow> (Inl e, w3)
       | (Inr t, w3) \<Rightarrow> (Inr \<lparr>apkCredentialId = pkCredentialId pk, apkPublicKey = pkPublicKey pk, apkTransaction = t\<rparr>, w3)))"
  using assms
  by (intro exI [of _ "case n of Some x \<Rightarrow> x | None \<Rightarrow> user @ '' - '' @ sdDateText D (wTrace w1)"]
      exI [of _ "svNow S (wTrace w1)"])
    (simp add: addPasskey_def bindA_def requireWallet_def getVerifiedCredential_def storageGetByContract_def run_simps
      nowA_def Let_def storageSave_def emitA_def doA_def split: sum.splits prod.splits)

lemma addedCredential_verified:
  "hasVerifiedBirth (addedCredential pk c nick now i v) \<longleftrightarrow> scBirthWasmHash v \<noteq> None \<and> scCreationTx v \<noteq> None \<and>
     scCreationLedger v \<noteq> None \<and> scBirthArgsHash v \<noteq> None"
  by (simp add: hasVerifiedBirth_def addedCredential_def newCredential_def)

text \<open>
  A passkey whose key data is too long for the contract is refused only after it was saved: the
  store keeps it as a deployed credential of the wallet, with its association marked as verified,
  although no transaction was built. While the wallet can be read it cannot be deleted either.
\<close>

theorem refused_passkey_stays_verified:
  assumes c: "wContractId w = Some c" "c \<noteq> []" "wWallet w \<noteq> None"
    and v: "List.find hasVerifiedBirth (memGetByContract c (wStorage w)) = Some v"
    and pk: "sdCreatePasskey D app user w = (Inr pk, w1)"
    and long: "256 < length (pkPublicKey pk) + length (base64urlToBuffer (keSdk E) (pkCredentialId pk))"
  shows "\<exists>m w' cred. addPasskey (keSdk E) (keServices E) D i app user n w = (Inl (ValidationError m INVALID_INPUT), w') \<and>
     memGet (pkCredentialId pk) (wStorage w') = Some cred \<and> scContractId cred = c \<and>
     scStatus cred = Some StatusDeployed \<and> scAssociationVerified cred = Some True \<and>
     (\<forall>a b. deriveContractAddress (keSdk E) (base64urlToBuffer (keSdk E) (pkCredentialId pk)) (keDeployer E) (keNetwork E) = Inr a \<longrightarrow>
       svRpcGetContractData (keServices E) (wTrace w') c = Inr b \<longrightarrow>
       (\<exists>e. fst (credDelete E (pkCredentialId pk) w') = Inl e))"
proof -
  let ?id = "pkCredentialId pk"
  obtain nick now where r: "let cred = addedCredential pk c nick now i v;
       w2 = w1\<lparr>wStorage := memSave cred (wStorage w1), wTrace := wTrace w1 @ [FxEvent (CredentialCreated cred)]\<rparr>;
       s = External (sdVerifier D) (buildKeyData (pkPublicKey pk) (base64urlToBuffer (keSdk E) ?id)) in
     addPasskey (keSdk E) (keServices E) D i app user n w = (case validateSigner (keSdk E) s None of
       Inl e \<Rightarrow> (Inl e, w2)
     | Inr _ \<Rightarrow> (case clAddSigner (sdWallet D c) i s w2 of
         (Inl e, w3) \<Rightarrow> (Inl e, w3)
       | (Inr t, w3) \<Rightarrow> (Inr \<lparr>apkCredentialId = ?id, apkPublicKey = pkPublicKey pk, apkTransaction = t\<rparr>, w3)))"
    using addPasskey_run [OF c v pk, of i "keSdk E" "keServices E" n] by blast
  define cred where "cred = addedCredential pk c nick now i v"
  define w2 where "w2 = w1\<lparr>wStorage := memSave cred (wStorage w1), wTrace := wTrace w1 @ [FxEvent (CredentialCreated cred)]\<rparr>"
  have vv: "hasVerifiedBirth v" using v by (auto simp: find_Some_iff)
  have cr: "scCredentialId cred = ?id" "scContractId cred = c" "scStatus cred = Some StatusDeployed"
    "scAssociationVerified cred = Some True" "hasVerifiedBirth cred"
    using vv by (simp_all add: cred_def addedCredential_def newCredential_def hasVerifiedBirth_def)
  have g: "memGet ?id (wStorage w2) = Some cred" by (simp add: w2_def memGet_def memSave_def cr update_conv)
  have run: "\<exists>m. addPasskey (keSdk E) (keServices E) D i app user n w = (Inl (ValidationError m INVALID_INPUT), w2)"
    using r long unfolding Let_def cred_def [symmetric] w2_def [symmetric]
    by (simp add: validateSigner_def validateExternalKeySize_def buildKeyData_def MAX_EXTERNAL_KEY_SIZE_def invalidInput_def)
  have del: "\<exists>e. fst (credDelete E ?id w2) = Inl e"
    if "deriveContractAddress (keSdk E) (base64urlToBuffer (keSdk E) ?id) (keDeployer E) (keNetwork E) = Inr a"
      "svRpcGetContractData (keServices E) (wTrace w2) c = Inr b" for a b
    using that g cr c(2)
    by (simp add: credDelete_def bindA_def requireCredential_run credSync_run [OF g] syncAddress_def Let_def run_simps)
  show ?thesis using run g cr del by blast
qed

text \<open>
  C28. A passkey is added only to the connected wallet whose birth a stored credential has verified. The
  call then carries the configured verifier with the key and the credential id, within the size
  limit of the contract, and the credential is stored for that wallet and rule, not as primary.
\<close>

theorem added_passkey_belongs_to_verified_wallet:
  assumes run: "addPasskey K S D i app user n w = (Inr r, w')"
  shows "\<exists>c v pk w1 w2 cred. wContractId w = Some c \<and> v \<in> set (memGetByContract c (wStorage w)) \<and> hasVerifiedBirth v \<and>
     sdCreatePasskey D app user w = (Inr pk, w1) \<and>
     clAddSigner (sdWallet D c) i (External (sdVerifier D) (pkPublicKey pk @ base64urlToBuffer K (pkCredentialId pk))) w2 =
       (Inr (apkTransaction r), w') \<and>
     length (pkPublicKey pk) + length (base64urlToBuffer K (pkCredentialId pk)) \<le> 256 \<and>
     memGet (pkCredentialId pk) (wStorage w2) = Some cred \<and> scContractId cred = c \<and> scContextRuleId cred = Some i \<and>
     scIsPrimary cred = Some False \<and> scBirthWasmHash cred = scBirthWasmHash v"
proof -
  obtain c v pk w1 where c: "wContractId w = Some c" "c \<noteq> []" "wWallet w \<noteq> None"
    and v: "List.find hasVerifiedBirth (memGetByContract c (wStorage w)) = Some v"
    and pk: "sdCreatePasskey D app user w = (Inr pk, w1)"
    using run by (auto simp: addPasskey_def bindA_Inr requireWallet_ok getVerifiedCredential_def storageGetByContract_def
        run_simps split: option.splits)
  obtain nick now where r: "let cred = addedCredential pk c nick now i v;
       w2 = w1\<lparr>wStorage := memSave cred (wStorage w1), wTrace := wTrace w1 @ [FxEvent (CredentialCreated cred)]\<rparr>;
       s = External (sdVerifier D) (buildKeyData (pkPublicKey pk) (base64urlToBuffer K (pkCredentialId pk))) in
     addPasskey K S D i app user n w = (case validateSigner K s None of
       Inl e \<Rightarrow> (Inl e, w2)
     | Inr _ \<Rightarrow> (case clAddSigner (sdWallet D c) i s w2 of
         (Inl e, w3) \<Rightarrow> (Inl e, w3)
       | (Inr t, w3) \<Rightarrow> (Inr \<lparr>apkCredentialId = pkCredentialId pk, apkPublicKey = pkPublicKey pk, apkTransaction = t\<rparr>, w3)))"
    using addPasskey_run [OF c v pk, of i K S n] by blast
  define cred where "cred = addedCredential pk c nick now i v"
  define w2 where "w2 = w1\<lparr>wStorage := memSave cred (wStorage w1), wTrace := wTrace w1 @ [FxEvent (CredentialCreated cred)]\<rparr>"
  have vv: "v \<in> set (memGetByContract c (wStorage w))" "hasVerifiedBirth v" using v by (auto simp: find_Some_iff)
  have cr: "scCredentialId cred = pkCredentialId pk" "scContractId cred = c" "scContextRuleId cred = Some i"
    "scIsPrimary cred = Some False" "scBirthWasmHash cred = scBirthWasmHash v"
    by (simp_all add: cred_def addedCredential_def newCredential_def)
  have g: "memGet (pkCredentialId pk) (wStorage w2) = Some cred" by (simp add: w2_def memGet_def memSave_def cr update_conv)
  have "length (pkPublicKey pk) + length (base64urlToBuffer K (pkCredentialId pk)) \<le> 256 \<and>
    clAddSigner (sdWallet D c) i (External (sdVerifier D) (pkPublicKey pk @ base64urlToBuffer K (pkCredentialId pk))) w2 =
       (Inr (apkTransaction r), w')"
    using r run unfolding Let_def cred_def [symmetric] w2_def [symmetric]
    by (auto simp: validateSigner_def validateExternalKeySize_def buildKeyData_def MAX_EXTERNAL_KEY_SIZE_def
        split: sum.splits prod.splits if_splits)
  then show ?thesis using c(1) vv pk g cr by blast
qed

section \<open>Adding a rule\<close>

text \<open>
  A rule is added only when it is within every limit of the contract, names no signer the contract
  could not accept, and has a signer or a policy; what is sent is the same map of policies in
  strictly ascending host order.
\<close>

theorem added_rule_is_valid:
  assumes "sdk_xdr_ok K" "sdk_strkey_ok K" "distinct (map fst policies)"
    and run: "addRule K D t name signers policies validUntil w = (Inr tx, w')"
  shows "\<exists>c sorted. wContractId w = Some c \<and>
     clAddRule (rdWallet D c) t name validUntil signers sorted w = (Inr tx, w') \<and>
     mset sorted = mset policies \<and> sorted_wrt (\<lambda>p q. addressBefore K (fst p) (fst q)) sorted \<and>
     0 < length name \<and> length name \<le> 20 \<and> length signers \<le> 15 \<and> length policies \<le> 5 \<and>
     filter (\<lambda>s. \<not> acceptableSigner K (Some c) s) signers = [] \<and>
     (validUntil = None \<or> (\<exists>n. validUntil = Some (Fin (of_nat n)) \<and> n < 2 ^ 32)) \<and>
     (signers \<noteq> [] \<or> policies \<noteq> [])"
proof -
  obtain c sorted where c: "wContractId w = Some c"
    and v: "validateContextRule K \<lparr>argName = name, argSigners = signers, argPolicyCount = length policies,
         argValidUntil = validUntil, argCurrentLedger = None, argAccount = Some c\<rparr> = Inr ()"
    and s: "sortPolicyMap K policies = Inr sorted"
    and r: "clAddRule (rdWallet D c) t name validUntil signers sorted w = (Inr tx, w')"
    using run by (auto simp: addRule_def bindA_Inr requireWallet_ok run_simps)
  have "mset sorted = mset policies" "sorted_wrt (\<lambda>p q. addressBefore K (fst p) (fst q)) sorted"
    using sortPolicyMap_canonical [OF assms(1-3) refl s] by simp_all
  with c r v show ?thesis
    unfolding validateContextRule_exact by (intro exI [of _ c] exI [of _ sorted]) (auto split: option.splits)
qed

section \<open>Signer weights\<close>

lemma decode_entry:
  assumes "sdk_strkey_ok K" "encodeWeight K p = Inr e" "\<And>n. number (ScvU32 n) = Fin (of_nat n)"
  shows "bindE (parseSignerScVal K (fst e)) (\<lambda>s. Inr (s, number (snd e))) =
     Inr (fst p, Fin (of_nat (projr (requireU32 (snd p) ''signer weight''))))"
  using assms by (auto simp: encodeWeight_def bindE_Inr parse_signerToScVal)

text \<open>
  The weights that the kit encodes for a weighted-threshold policy are read back by the policy's
  client: the same signers, each with its weight.
\<close>

theorem signer_weights_roundtrip:
  assumes "sdk_strkey_ok K" "\<And>n. number (ScvU32 n) = Fin (of_nat n)"
    and enc: "encodeWeightedThresholdParams K (weightedParams ws t) = Inr v"
  shows "\<exists>weights th out. v = ScvMap (Some [(ScvSymbol ''signer_weights'', weights), th]) \<and>
     decodeSignerWeights K number weights = Inr out \<and>
     mset out = mset (map (\<lambda>p. (fst p, Fin (of_nat (projr (requireU32 (snd p) ''signer weight''))))) ws)"
proof -
  let ?d = "\<lambda>e. bindE (parseSignerScVal K (fst e)) (\<lambda>s. Inr (s, number (snd e)))"
    and ?h = "\<lambda>p. (fst p, Fin (of_nat (projr (requireU32 (snd p) ''signer weight''))))"
  obtain es n where es: "mapE (encodeWeight K) ws = Inr es"
    and v: "v = ScvMap (Some [(ScvSymbol ''signer_weights'', ScvMap (Some (sortEntries K es))), (ScvSymbol ''threshold'', ScvU32 n)])"
    using enc unfolding encodeWeighted_ok by blast
  have a: "list_all2 (\<lambda>p e. ?d e = Inr (?h p)) ws es"
    using es unfolding mapE_Inr by (rule list_all2_mono) (rule decode_entry [OF assms(1) _ assms(2)])
  then have b: "map (\<lambda>e. projr (?d e)) es = map ?h ws"
    by (induction ws es rule: list_all2_induct) simp_all
  have c: "?d e = Inr (projr (?d e))" if "e \<in> set es" for e
    using a that by (induction ws es rule: list_all2_induct) auto
  have m: "mset (sortEntries K es) = mset es" by (simp add: sortEntries_def)
  then have "set (sortEntries K es) = set es" by (rule mset_eq_setD)
  then have "mapE ?d (sortEntries K es) = Inr (map (\<lambda>e. projr (?d e)) (sortEntries K es))"
    by (intro mapE_total c) simp
  then have "decodeSignerWeights K number (ScvMap (Some (sortEntries K es))) = Inr (map (\<lambda>e. projr (?d e)) (sortEntries K es))"
    by (simp add: decodeSignerWeights_def split_def)
  moreover have "mset (map (\<lambda>e. projr (?d e)) (sortEntries K es)) = mset (map ?h ws)"
    by (simp only: mset_map m b [symmetric])
  ultimately show ?thesis unfolding v by blast
qed

section \<open>Witnesses\<close>

definition demoVerified :: stored_credential where
  "demoVerified = demoCredential\<lparr>scStatus := Some StatusDeployed, scBirthWasmHash := Some ''ab'', scCreationTx := Some ''t'',
     scCreationLedger := Some 7, scBirthArgsHash := Some ''h''\<rparr>"

definition demoSignerDeps :: "nat \<Rightarrow> signer_deps" where
  "demoSignerDeps k = \<lparr>sdWallet = (\<lambda>c. \<lparr>clAddSigner = (\<lambda>i s. returnA demoAssembled), clBatchAddSigner = (\<lambda>i s. returnA demoAssembled),
       clGetSignerId = (\<lambda>s. returnA (Plain None)), clRemoveSigner = (\<lambda>i j. returnA demoAssembled),
       clAddRule = (\<lambda>t n v ss ps. returnA demoAssembled), clRuleCount = returnA 0, clRemoveRule = (\<lambda>i. returnA demoAssembled),
       clUpdateName = (\<lambda>i n. returnA demoAssembled), clUpdateValidUntil = (\<lambda>i v. returnA demoAssembled),
       clAddPolicy = (\<lambda>i a p. returnA demoAssembled), clGetPolicyId = (\<lambda>a. returnA (Plain None)),
       clRemovePolicy = (\<lambda>i j. returnA demoAssembled), clExecute = (\<lambda>t f a. returnA demoAssembled),
       clUpgrade = (\<lambda>h c. returnA demoAssembled)\<rparr>),
     sdVerifier = ''Cv'', sdCreatePasskey = (\<lambda>a u. returnA \<lparr>pkResponse = \<lparr>rgId = ''k2'', rgPublicKey = None, rgTransports = None\<rparr>,
       pkCredentialId = ''k2'', pkPublicKey = replicate k 4\<rparr>), sdDateText = (\<lambda>t. ''today'')\<rparr>"

lemma demo_verified_world:
  "wContractId (storedWorld demoVerified) = Some ''CW''" "wWallet (storedWorld demoVerified) \<noteq> None"
  "List.find hasVerifiedBirth (memGetByContract ''CW'' (wStorage (storedWorld demoVerified))) = Some demoVerified"
  by (simp_all add: storedWorld_def demoVerified_def demoWorld_def memGetByContract_def demoCredential_def hasVerifiedBirth_def demoWallet_def)

lemma refused_passkey_stays_verified_witness:
  "\<exists>m w' cred. addPasskey (keSdk demoEnv) (keServices demoEnv) (demoSignerDeps 300) 1 ''a'' ''u'' None (storedWorld demoVerified) =
       (Inl (ValidationError m INVALID_INPUT), w') \<and>
     memGet ''k2'' (wStorage w') = Some cred \<and> scStatus cred = Some StatusDeployed"
proof -
  let ?pk = "\<lparr>pkResponse = \<lparr>rgId = ''k2'', rgPublicKey = None, rgTransports = None\<rparr>,
       pkCredentialId = ''k2'', pkPublicKey = replicate 300 4\<rparr>"
  have p: "sdCreatePasskey (demoSignerDeps 300) ''a'' ''u'' (storedWorld demoVerified) = (Inr ?pk, storedWorld demoVerified)"
    by (simp add: demoSignerDeps_def run_simps)
  show ?thesis
    using refused_passkey_stays_verified [OF demo_verified_world(1) _ demo_verified_world(2,3) p, of demoEnv 1 None] by auto
qed

lemma added_passkey_belongs_to_verified_wallet_witness:
  "\<exists>r w' c v. addPasskey demoSdk demoServices (demoSignerDeps 65) 1 ''a'' ''u'' None (storedWorld demoVerified) = (Inr r, w') \<and>
     wContractId (storedWorld demoVerified) = Some c \<and> v \<in> set (memGetByContract c (wStorage (storedWorld demoVerified)))"
proof -
  have "\<exists>r w'. addPasskey demoSdk demoServices (demoSignerDeps 65) 1 ''a'' ''u'' None (storedWorld demoVerified) = (Inr r, w')"
    by (simp add: addPasskey_def bindA_def requireWallet_def getVerifiedCredential_def storageGetByContract_def run_simps
      nowA_def Let_def storageSave_def emitA_def doA_def demo_verified_world demoSignerDeps_def validateSigner_def
      validateExternalKeySize_def buildKeyData_def MAX_EXTERNAL_KEY_SIZE_def demoSdk_def utf8_def)
  then obtain r w' where r: "addPasskey demoSdk demoServices (demoSignerDeps 65) 1 ''a'' ''u'' None (storedWorld demoVerified) = (Inr r, w')"
    by blast
  from added_passkey_belongs_to_verified_wallet [OF r] r show ?thesis by blast
qed

definition demoRuleDeps :: rule_deps where
  "demoRuleDeps = \<lparr>rdWallet = sdWallet (demoSignerDeps 65), rdReader = (\<lambda>c. \<lparr>qcGetContextRule = (\<lambda>i. throwA (JsError [])),
     qcGetPolicyId = None, qcGetSignerId = None, qcSpec = None\<rparr>), rdIndexer = None, rdProbe = None, rdLatestLedger = returnA 0\<rparr>"

lemma added_rule_is_valid_witness:
  "\<exists>tx w'. addRule demoSdk demoRuleDeps DefaultRule ''r'' [] [(''Cp'', ScvVoid)] None demoWorld = (Inr tx, w') \<and>
     length ''r'' \<le> 20 \<and> length [(''Cp'', ScvVoid)] \<le> 5"
proof -
  have "\<exists>tx w'. addRule demoSdk demoRuleDeps DefaultRule ''r'' [] [(''Cp'', ScvVoid)] None demoWorld = (Inr tx, w')"
    by (simp add: addRule_def demoRuleDeps_def demoSignerDeps_def bindA_def requireWallet_def demoWorld_def run_simps
        validateContextRule_def validateContextRuleName_def validateSigners_def validatePolicyCount_def validateValidUntil_def
        MAX_SIGNERS_def MAX_POLICIES_def MAX_NAME_SIZE_def sortPolicyMap_def keyedPolicy_def policyAddressToScVal_def
        demoSdk_def demoStrkey_def demoFromStrkey_def demoWallet_def sortBy_def)
  then obtain tx w' where r: "addRule demoSdk demoRuleDeps DefaultRule ''r'' [] [(''Cp'', ScvVoid)] None demoWorld = (Inr tx, w')"
    by blast
  have d: "distinct (map fst [(''Cp'', ScvVoid)])" by simp
  from added_rule_is_valid [OF demoSdk_xdr demoSdk_strkey d r] r show ?thesis by auto
qed

lemma signer_weights_roundtrip_witness:
  "\<exists>v weights th out. encodeWeightedThresholdParams demoSdk (weightedParams demoWeights (JsBigInt 2)) = Inr v \<and>
     v = ScvMap (Some [(ScvSymbol ''signer_weights'', weights), th]) \<and>
     decodeSignerWeights demoSdk (\<lambda>x. case x of ScvU32 m \<Rightarrow> Fin (of_nat m) | _ \<Rightarrow> NaN) weights = Inr out \<and> length out = 2"
proof -
  let ?n = "\<lambda>x. case x of ScvU32 m \<Rightarrow> Fin (of_nat m) | _ \<Rightarrow> NaN"
  obtain v where v: "encodeWeightedThresholdParams demoSdk (weightedParams demoWeights (JsBigInt 2)) = Inr v"
    using demo_weights_encode by (cases "encodeWeightedThresholdParams demoSdk (weightedParams demoWeights (JsBigInt 2))") auto
  have n: "?n (ScvU32 n) = Fin (of_nat n)" for n by simp
  obtain weights th out where "v = ScvMap (Some [(ScvSymbol ''signer_weights'', weights), th])"
    "decodeSignerWeights demoSdk ?n weights = Inr out"
    "mset out = mset (map (\<lambda>p. (fst p, Fin (of_nat (projr (requireU32 (snd p) ''signer weight'')) :: rat))) demoWeights)"
    using signer_weights_roundtrip [OF demoSdk_strkey n v] by blast
  moreover from arg_cong [OF this(3), of size] have "length out = 2" by (simp add: demoWeights_def)
  ultimately show ?thesis using v by simp
qed

end
