(* ===== verification/Kit_Facade.thy ===== *)
theory Kit_Facade
  imports Kit_Funding Kit_Managers Kit_Relayer Kit_Indexer
begin

text \<open>
  \<^verbatim>\<open>src/kit.ts\<close>: the kit itself, which holds the configuration and hands it to the operations of the
  other files. What is not in the repository (the passkey API, the generated client, the SDK's
  constructors, clocks and random bytes) is in one record, \<open>platform\<close>.
\<close>

section \<open>Configuration\<close>

datatype url_setting = DefaultUrl | NoUrl | UrlText string

record probe_setting =
  prEnabled :: "bool option"
  prMaxRuleId :: "nat option"
  prMaxMisses :: "nat option"

record kit_config =
  cfRpcUrl :: "string option"
  cfNetwork :: "string option"
  cfWasmHash :: "string option"
  cfVerifier :: "string option"
  cfAcceptedWasm :: "string list option"
  cfAcceptedBirth :: "string list option"
  cfSchemes :: "(string \<times> string) list"
  cfEd25519 :: "string option"
  cfPolicies :: "policy_config list option"
  cfTimeout :: "nat option"
  cfExpirationLedgers :: "nat option"
  cfProbe :: "probe_setting option"
  cfRpId :: "string option"
  cfOrigins :: "string list option"
  cfRpName :: "string option"
  cfHorizon :: url_setting
  cfSessionExpiry :: "nat option"
  cfIndexer :: url_setting
  cfIndexerToken :: "string option"
  cfRelayerUrl :: "string option"
  cfDeployerSecret :: "string option"

record kit =
  ktRpcUrl :: string
  ktNetwork :: string
  ktWasmHash :: string
  ktVerifier :: string
  ktAcceptedWasm :: "string list"
  ktAcceptedBirth :: "string list"
  ktSchemes :: scheme_table
  ktEd25519 :: "string option"
  ktPolicies :: "policy_config list option"
  ktTimeout :: nat
  ktExpirationLedgers :: nat
  ktProbe :: "(nat \<times> nat) option"
  ktRpId :: "string option"
  ktOrigins :: "string list option"
  ktRpName :: string
  ktHorizon :: "string option"
  ktSessionExpiry :: nat
  ktIndexer :: "indexer_client option"
  ktRelayer :: "relayer_client option"
  ktDeployer :: string
  ktShared :: bool

definition DEFAULT_SESSION_EXPIRY_MS :: nat where "DEFAULT_SESSION_EXPIRY_MS = 604800000"
definition DEFAULT_MAX_PROBED_RULE_ID :: nat where "DEFAULT_MAX_PROBED_RULE_ID = 8"
definition DEFAULT_MAX_CONSECUTIVE_PROBE_MISSES :: nat where "DEFAULT_MAX_CONSECUTIVE_PROBE_MISSES = 3"

text \<open>
  The SDK's constructors may throw, \<^verbatim>\<open>RpcServer\<close> and \<^verbatim>\<open>Horizon.Server\<close> on their URL and
  \<^verbatim>\<open>Keypair.fromSecret\<close> on the secret; \<open>sbLocation\<close> is \<^verbatim>\<open>globalThis.location\<close>: hostname and origin.
\<close>

record sdk_builders =
  sbRpc :: "string \<Rightarrow> unit result"
  sbHorizon :: "string \<Rightarrow> unit result"
  sbFromSecret :: "string \<Rightarrow> string result"
  sbLocation :: "(string \<times> string) option"

definition requireConfig :: "string option \<Rightarrow> string \<Rightarrow> string result" where
  "requireConfig value name = (if truthy value then Inr (the value)
     else Inl (ValidationError (name @ '' is required'') MISSING_CONFIG))"

definition acceptedHashes :: "string list option \<Rightarrow> string \<Rightarrow> string list" where
  "acceptedHashes given wasmHash = map toLower (if items given \<noteq> [] then items given else [wasmHash])"

definition horizonUrl :: "url_setting \<Rightarrow> string \<Rightarrow> string option" where
  "horizonUrl setting network = (let url = (case setting of
       NoUrl \<Rightarrow> None
     | UrlText u \<Rightarrow> Some u
     | DefaultUrl \<Rightarrow> if network = TESTNET then Some ''https://horizon-testnet.stellar.org''
         else if network = ''Public Global Stellar Network ; September 2015'' then Some ''https://horizon.stellar.org''
         else None) in if truthy url then url else None)"

definition kitIndexer :: "url_setting \<Rightarrow> string option \<Rightarrow> string \<Rightarrow> indexer_client option" where
  "kitIndexer setting token network = (case setting of
     NoUrl \<Rightarrow> None
   | UrlText u \<Rightarrow> Some (newIndexerClient u None token)
   | DefaultUrl \<Rightarrow> forNetwork network None token)"

definition kitRelayer :: "string option \<Rightarrow> relayer_client option result" where
  "kitRelayer url = (if truthy url then bindE (newRelayerClient (the url) None) (\<lambda>c. Inr (Some c)) else Inr None)"

text \<open>Only an \<^verbatim>\<open>enabled: false\<close> turns the probe off; its limits default where they are read.\<close>

definition probeSetting :: "probe_setting option \<Rightarrow> (nat \<times> nat) option" where
  "probeSetting p = (case p of
     None \<Rightarrow> Some (DEFAULT_MAX_PROBED_RULE_ID, DEFAULT_MAX_CONSECUTIVE_PROBE_MISSES)
   | Some s \<Rightarrow> if prEnabled s = Some False then None
       else Some (case prMaxRuleId s of Some n \<Rightarrow> n | None \<Rightarrow> DEFAULT_MAX_PROBED_RULE_ID,
         case prMaxMisses s of Some n \<Rightarrow> n | None \<Rightarrow> DEFAULT_MAX_CONSECUTIVE_PROBE_MISSES))"

definition orDefault :: "'a option \<Rightarrow> 'a \<Rightarrow> 'a" where
  "orDefault x d = (case x of Some y \<Rightarrow> y | None \<Rightarrow> d)"

definition newKit :: "sdk \<Rightarrow> sdk_builders \<Rightarrow> kit_config \<Rightarrow> kit result" where
  "newKit K B config =
     bindE (requireConfig (cfRpcUrl config) ''rpcUrl'') (\<lambda>rpcUrl.
     bindE (requireConfig (cfNetwork config) ''networkPassphrase'') (\<lambda>network.
     bindE (requireConfig (cfWasmHash config) ''accountWasmHash'') (\<lambda>wasmHash.
     bindE (requireConfig (cfVerifier config) ''webauthnVerifierAddress'') (\<lambda>verifier.
     bindE (sbRpc B rpcUrl) (\<lambda>_.
     bindE (buildAuthDigestSchemeTable (cfSchemes config)) (\<lambda>schemes.
     let horizon = horizonUrl (cfHorizon config) network in
     bindE (case horizon of Some u \<Rightarrow> sbHorizon B u | None \<Rightarrow> Inr ()) (\<lambda>_.
     bindE (kitRelayer (cfRelayerUrl config)) (\<lambda>relayer.
     bindE (if truthy (cfDeployerSecret config) then sbFromSecret B (the (cfDeployerSecret config))
       else Inr (DEFAULT_DEPLOYER_PUBLIC_KEY K)) (\<lambda>deployer.
       Inr \<lparr>ktRpcUrl = rpcUrl, ktNetwork = network, ktWasmHash = wasmHash, ktVerifier = verifier,
         ktAcceptedWasm = acceptedHashes (cfAcceptedWasm config) wasmHash,
         ktAcceptedBirth = acceptedHashes (cfAcceptedBirth config) wasmHash,
         ktSchemes = schemes, ktEd25519 = cfEd25519 config, ktPolicies = cfPolicies config,
         ktTimeout = orDefault (cfTimeout config) 30,
         ktExpirationLedgers = orDefault (cfExpirationLedgers config) LEDGERS_PER_HOUR,
         ktProbe = probeSetting (cfProbe config),
         ktRpId = (case cfRpId config of Some r \<Rightarrow> Some r | None \<Rightarrow> map_option fst (sbLocation B)),
         ktOrigins = (case cfOrigins config of Some r \<Rightarrow> Some r | None \<Rightarrow> map_option (\<lambda>l. [snd l]) (sbLocation B)),
         ktRpName = orDefault (cfRpName config) ''Smart Account'', ktHorizon = horizon,
         ktSessionExpiry = orDefault (cfSessionExpiry config) DEFAULT_SESSION_EXPIRY_MS,
         ktIndexer = kitIndexer (cfIndexer config) (cfIndexerToken config) network, ktRelayer = relayer,
         ktDeployer = deployer, ktShared = isDefaultDeployer K deployer\<rparr>)))))))))"

section \<open>The platform\<close>

record platform =
  plSdk :: sdk
  plServices :: services
  plSubtle :: "subtle_crypto option"
  plVerify :: "verify_crypto option"
  plRegister :: "effect list \<Rightarrow> registration_options \<Rightarrow> registration result"
  plAuthenticate :: "effect list \<Rightarrow> authentication_options \<Rightarrow> assertion result"
  plRandom :: "effect list \<Rightarrow> buffer"
  plNowText :: "effect list \<Rightarrow> string"
  plUnique :: "effect list \<Rightarrow> string"
  plDateText :: "effect list \<Rightarrow> string"
  plReader :: "string \<Rightarrow> query_client"
  plWallet :: "string \<Rightarrow> wallet_client"
  plClientDeploy :: "deploy_args \<Rightarrow> assembled act"
  plDeployerKey :: buffer
  plDeployerSign :: "buffer \<Rightarrow> buffer"
  plSignTx :: "assembled \<Rightarrow> assembled act"
  plSignAuthEntries :: "assembled \<Rightarrow> string \<Rightarrow> (auth_entry \<Rightarrow> auth_entry act) \<Rightarrow> assembled act"
  plBuild :: tx_builder
  plNumber :: "scval \<Rightarrow> jsnum"
  plEncodeRule :: "string \<Rightarrow> context_rule \<Rightarrow> scval result"
  plHistory :: "effect list \<Rightarrow> string \<Rightarrow> history_answer result"
  plDecode :: "buffer \<Rightarrow> scval option"
  plParseJson :: "buffer \<Rightarrow> client_json"
  plRuleIds :: "json option \<Rightarrow> nat list"
  plTxHash :: "transaction \<Rightarrow> buffer"
  plFunding :: fund_deps

definition kitEnv :: "platform \<Rightarrow> kit \<Rightarrow> kit_env" where
  "kitEnv P kt = \<lparr>keSdk = plSdk P, keServices = (plServices P)\<lparr>svRelayer := ktRelayer kt \<noteq> None\<rparr>,
     keNetwork = ktNetwork kt, keDeployer = ktDeployer kt\<rparr>"

abbreviation kitServices :: "platform \<Rightarrow> kit \<Rightarrow> services" where
  "kitServices P kt \<equiv> keServices (kitEnv P kt)"

definition kitWebAuthn :: "platform \<Rightarrow> kit \<Rightarrow> webauthn_deps" where
  "kitWebAuthn P kt = \<lparr>waRpId = ktRpId kt, waRpName = ktRpName kt, waSubtle = plSubtle P,
     waRegister = plRegister P, waAuthenticate = plAuthenticate P\<rparr>"

section \<open>Rules and digest schemes of the connected wallet\<close>

text \<open>The indexer's details are read at their declared type by \<open>plRuleIds\<close>.\<close>

definition indexedRuleIds :: "platform \<Rightarrow> kit \<Rightarrow> string \<Rightarrow> nat list option act" where
  "indexedRuleIds P kt contractId = bindA (getContractDetailsFromIndexer (kitServices P kt) (ktIndexer kt) contractId) (\<lambda>d.
     returnA (map_option (\<lambda>x. plRuleIds P (cdtContextRules x)) d))"

definition activeRuleIds :: "platform \<Rightarrow> kit \<Rightarrow> nat list option act" where
  "activeRuleIds P kt = bindA (askA wContractId) (\<lambda>c.
     if \<not> truthy c then returnA None else indexedRuleIds P kt (the c))"

definition kitLatestLedger :: "platform \<Rightarrow> kit \<Rightarrow> nat act" where
  "kitLatestLedger P kt = requestA FxRpcLatestLedger (svRpcLatestLedger (kitServices P kt))"

definition kitDiscovery :: "platform \<Rightarrow> kit \<Rightarrow> string \<Rightarrow> discovery_deps" where
  "kitDiscovery P kt contractId = \<lparr>ddIndexer = Some (indexedRuleIds P kt contractId), ddProbe = ktProbe kt,
     ddLatestLedger = Some (kitLatestLedger P kt), ddContractId = Some contractId\<rparr>"

text \<open>A promise kept in the cache is made once; whoever awaits it gets its outcome.\<close>

definition cachedRules :: "platform \<Rightarrow> kit \<Rightarrow> string \<Rightarrow> context_rule list act" where
  "cachedRules P kt contractId = bindA (askA wRules) (\<lambda>cached. (case cached of
     Some r \<Rightarrow> liftA r
   | None \<Rightarrow> bindA (settle (listContextRules (kitEnv P kt) (plReader P contractId) (kitDiscovery P kt contractId))) (\<lambda>r.
       bindA (modifyA (\<lambda>w. w\<lparr>wRules := Some r\<rparr>)) (\<lambda>_. liftA r))))"

definition cachedSigner :: "platform \<Rightarrow> string \<Rightarrow> context_rule list \<Rightarrow> signer act" where
  "cachedSigner P credentialId rules = bindA (askA wSigner) (\<lambda>cached. (case cached of
     Some r \<Rightarrow> liftA r
   | None \<Rightarrow> let r = findWebAuthnSignerForCredential (plSdk P) credentialId rules in
       bindA (modifyA (\<lambda>w. w\<lparr>wSigner := Some r\<rparr>)) (\<lambda>_. liftA r)))"

definition resolveConnectedContextRuleIds ::
    "platform \<Rightarrow> kit \<Rightarrow> string option \<Rightarrow> auth_entry \<Rightarrow> nat list act" where
  "resolveConnectedContextRuleIds P kt credentialIdOverride entry =
     bindA (askA (\<lambda>w. case credentialIdOverride of Some k \<Rightarrow> Some k | None \<Rightarrow> wCredentialId w)) (\<lambda>credentialId.
       if \<not> truthy credentialId then throwA (WalletNotConnectedError (Some ''resolve context rule IDs''))
       else bindA requireWallet (\<lambda>contractId.
         bindA (cachedRules P kt contractId) (\<lambda>rules.
         bindA (cachedSigner P (the credentialId) rules) (\<lambda>s.
           liftA (resolveContextRuleIdsForEntry (plSdk P) entry [s] rules)))))"

text \<open>Every operation starts with an empty cache.\<close>

definition freshCache :: "unit act" where
  "freshCache = modifyA (\<lambda>w. w\<lparr>wRules := None, wSigner := None\<rparr>)"

definition kitDigestScheme :: "platform \<Rightarrow> kit \<Rightarrow> string \<Rightarrow> string act" where
  "kitDigestScheme P kt contractId =
     bindA (settle (requestA (FxRpcGetContractData contractId)
         (\<lambda>t. svRpcGetContractData (kitServices P kt) t contractId))) (\<lambda>instanceData.
       liftA (bindE (resolveAuthDigestScheme instanceData (ktSchemes kt) contractId) (\<lambda>s. Inr (schemeName s))))"

definition calculateExpiration :: "platform \<Rightarrow> kit \<Rightarrow> nat act" where
  "calculateExpiration P kt = bindA (kitLatestLedger P kt) (\<lambda>sequence.
     liftA (normalizeSignatureExpirationLedger (Fin (of_nat (min 0xffffffff (sequence + ktExpirationLedgers kt))))))"

section \<open>Signing and submitting\<close>

definition kitPolicy :: "kit \<Rightarrow> upgrade_policy" where
  "kitPolicy kt = \<lparr>acceptedWasmHashes = ktAcceptedWasm kt, authDigestSchemes = ktSchemes kt\<rparr>"

definition kitSignDeps :: "platform \<Rightarrow> kit \<Rightarrow> passkey_sign_deps" where
  "kitSignDeps P kt = \<lparr>pdWebAuthn = kitWebAuthn P kt, pdPolicy = kitPolicy kt, pdExpiration = calculateExpiration P kt,
     pdReadRule = (\<lambda>i. bindA requireWallet (\<lambda>contractId.
       readContextRule (kitEnv P kt) (plReader P contractId) (Some contractId) i)),
     pdScheme = kitDigestScheme P kt\<rparr>"

definition signAuthEntryInternal :: "platform \<Rightarrow> kit \<Rightarrow> auth_entry \<Rightarrow> passkey_sign_options \<Rightarrow> auth_entry act" where
  "signAuthEntryInternal P kt entry options =
     signAuthEntry (plSdk P) (kitServices P kt) (ktNetwork kt) (kitSignDeps P kt) entry options"

text \<open>The public form takes no admin transaction, signer or scheme.\<close>

definition kitSignAuthEntry ::
    "platform \<Rightarrow> kit \<Rightarrow> auth_entry \<Rightarrow> string option \<Rightarrow> jsnum option \<Rightarrow> nat list option \<Rightarrow> auth_entry act" where
  "kitSignAuthEntry P kt entry credentialId expiration contextRuleIds =
     signAuthEntryInternal P kt entry \<lparr>psCredentialId = credentialId, psExpiration = expiration,
       psRuleIds = contextRuleIds, psSigner = None, psMutation = None, psScheme = None\<rparr>"

definition kitSigner :: "platform \<Rightarrow> kit \<Rightarrow> entry_signer" where
  "kitSigner P kt entry o1 = signAuthEntryInternal P kt entry \<lparr>psCredentialId = seCredentialId o1,
     psExpiration = seExpiration o1, psRuleIds = seContextRuleIds o1, psSigner = None,
     psMutation = seHostFunction o1, psScheme = None\<rparr>"

record kit_sign_options =
  koCredentialId :: "string option"
  koExpiration :: "jsnum option"
  koForceMethod :: "submission_method option"
  koResolveRuleIds :: "(auth_entry \<Rightarrow> nat \<Rightarrow> nat list act) option"

definition resolvedOptions :: "platform \<Rightarrow> kit \<Rightarrow> kit_sign_options \<Rightarrow> bool \<Rightarrow> submit_options" where
  "resolvedOptions P kt options allowWalletMutation =
     \<lparr>soCredentialId = koCredentialId options, soExpiration = koExpiration options,
      soForceMethod = koForceMethod options,
      soResolveRuleIds = Some (case koResolveRuleIds options of
          Some f \<Rightarrow> f
        | None \<Rightarrow> (\<lambda>entry i. resolveConnectedContextRuleIds P kt (koCredentialId options) entry)),
      soAllowWalletMutation = allowWalletMutation\<rparr>"

definition kitSign :: "platform \<Rightarrow> kit \<Rightarrow> assembled \<Rightarrow> kit_sign_options \<Rightarrow> assembled act" where
  "kitSign P kt tx options = bindA freshCache (\<lambda>_.
     sign (kitEnv P kt) (plSignAuthEntries P) (kitSigner P kt) tx (resolvedOptions P kt options False))"

definition kitSignAdmin :: "platform \<Rightarrow> kit \<Rightarrow> assembled \<Rightarrow> kit_sign_options \<Rightarrow> assembled act" where
  "kitSignAdmin P kt tx options = bindA freshCache (\<lambda>_.
     sign (kitEnv P kt) (plSignAuthEntries P) (kitSigner P kt) tx (resolvedOptions P kt options True))"

definition kitSignAndSubmit :: "platform \<Rightarrow> kit \<Rightarrow> assembled \<Rightarrow> kit_sign_options \<Rightarrow> tx_result act" where
  "kitSignAndSubmit P kt tx options = bindA freshCache (\<lambda>_.
     signAndSubmit (kitEnv P kt) (kitSigner P kt) tx (resolvedOptions P kt options False))"

definition kitSignAndSubmitAdmin :: "platform \<Rightarrow> kit \<Rightarrow> assembled \<Rightarrow> kit_sign_options \<Rightarrow> tx_result act" where
  "kitSignAndSubmitAdmin P kt tx options = bindA freshCache (\<lambda>_.
     signAndSubmit (kitEnv P kt) (kitSigner P kt) tx (resolvedOptions P kt options True))"

section \<open>Transfers, calls and upgrades\<close>

definition kitFundWallet :: "platform \<Rightarrow> kit \<Rightarrow> string \<Rightarrow> submission_method option \<Rightarrow> (tx_result \<times> jsnum option) act" where
  "kitFundWallet P kt nativeTokenContract forceMethod =
     fundWallet (kitEnv P kt) (plFunding P) nativeTokenContract forceMethod"

text \<open>\<^verbatim>\<open>transfer\<close> returns the promise of \<^verbatim>\<open>signAndSubmit\<close> without awaiting it in its \<^verbatim>\<open>try\<close>.\<close>

definition kitTransfer ::
    "platform \<Rightarrow> kit \<Rightarrow> string \<Rightarrow> string \<Rightarrow> number_arg \<Rightarrow> kit_sign_options \<Rightarrow> tx_result act" where
  "kitTransfer P kt tokenContract recipient amount options =
     bindA (prepareTransfer (kitEnv P kt) (plBuild P) (plNumber P) tokenContract recipient amount) (\<lambda>r. (case r of
        Inl failure \<Rightarrow> returnA failure
      | Inr tx \<Rightarrow> kitSignAndSubmit P kt tx (options\<lparr>koExpiration := None\<rparr>)))"

definition kitExecute :: "platform \<Rightarrow> string \<Rightarrow> string \<Rightarrow> scval list \<Rightarrow> assembled act" where
  "kitExecute P target targetFn targetArgs = bindA requireWallet (\<lambda>contractId.
     clExecute (plWallet P contractId) target targetFn targetArgs)"

definition kitUpgrade :: "platform \<Rightarrow> kit \<Rightarrow> hash_input \<Rightarrow> assembled act" where
  "kitUpgrade P kt newWasmHash = bindA requireWallet (\<lambda>contractId.
     bindA (liftA (assertUpgradeTarget (kitPolicy kt) newWasmHash)) (\<lambda>wasmHash.
       clUpgrade (plWallet P contractId) wasmHash contractId))"

definition kitExecuteAndSubmit ::
    "platform \<Rightarrow> kit \<Rightarrow> string \<Rightarrow> string \<Rightarrow> scval list \<Rightarrow> kit_sign_options \<Rightarrow> tx_result act" where
  "kitExecuteAndSubmit P kt target targetFn targetArgs options =
     bindA (kitExecute P target targetFn targetArgs) (\<lambda>tx. kitSignAndSubmitAdmin P kt tx options)"

definition policyClientDeps :: "platform \<Rightarrow> policy_deps" where
  "policyClientDeps P = \<lparr>pyEncodeRule = plEncodeRule P, pyExecute = kitExecute P, pyNumber = plNumber P\<rparr>"

section \<open>Creating and connecting\<close>

definition kitCreatePasskey ::
    "platform \<Rightarrow> kit \<Rightarrow> string option \<Rightarrow> string option \<Rightarrow> string \<Rightarrow> string \<Rightarrow> passkey act" where
  "kitCreatePasskey P kt attachment residentKey appName userName =
     bindA (askA wTrace) (\<lambda>t. createPasskey (plSdk P) (kitWebAuthn P kt) (plRandom P t) (plNowText P t) (plUnique P t)
       appName userName attachment residentKey)"

definition kitBuildDeploy :: "platform \<Rightarrow> kit \<Rightarrow> buffer \<Rightarrow> buffer \<Rightarrow> policy_config list option \<Rightarrow> deploy_tx act" where
  "kitBuildDeploy P kt credentialId publicKey policies =
     bindA (liftA (assertKnownAuthDigestScheme (ktSchemes kt) (ktWasmHash kt) AccountWasmHash)) (\<lambda>_.
     bindA (askA (\<lambda>w. plRandom P (wTrace w))) (\<lambda>nonceBytes.
       buildDeployTransaction (kitEnv P kt) (plDecode P) \<lparr>btWasmHash = ktWasmHash kt, btVerifier = ktVerifier kt,
         btShared = ktShared kt, btClientDeploy = plClientDeploy P, btRawPublicKey = plDeployerKey P,
         btSign = plDeployerSign P, btNonceBytes = nonceBytes\<rparr> credentialId publicKey policies))"

definition kitSubmitDeployment ::
    "platform \<Rightarrow> kit \<Rightarrow> deploy_tx \<Rightarrow> string \<Rightarrow> submission_method option \<Rightarrow> tx_result act" where
  "kitSubmitDeployment P kt tx credentialId forceMethod =
     submitDeploymentTx (kitEnv P kt) \<lparr>ddShared = ktShared kt, ddConfirm = None, ddTxHash = plTxHash P\<rparr>
       tx credentialId forceMethod"

definition creationAllowed :: "kit \<Rightarrow> create_options \<Rightarrow> unit result" where
  "creationAllowed kt options =
     (let chosen = getSubmissionMethod (ktRelayer kt \<noteq> None) (coForceMethod options);
          willSubmitViaRpc = (chosen = ViaRpc \<or> (chosen = ViaRelayer \<and> ktRelayer kt = None)) in
      if coAutoSubmit options \<and> willSubmitViaRpc \<and> ktShared kt
      then Inl (sharedDeployerFeeError (ktDeployer kt)) else Inr ())"

definition kitCreateDeps ::
    "platform \<Rightarrow> kit \<Rightarrow> string option \<Rightarrow> string option \<Rightarrow> policy_config list option \<Rightarrow> create_deps" where
  "kitCreateDeps P kt attachment residentKey constructorPolicies =
     \<lparr>cwValidatePolicies = (if items constructorPolicies = [] then Inr ()
        else bindE (buildConstructorPolicies (plSdk P) (plDecode P) (items constructorPolicies)) (\<lambda>_. Inr ())),
      cwCreatePasskey = kitCreatePasskey P kt attachment residentKey, cwDateText = plDateText P,
      cwBuild = (\<lambda>credentialId publicKey. kitBuildDeploy P kt credentialId publicKey constructorPolicies),
      cwSign = plSignTx P, cwSubmit = kitSubmitDeployment P kt,
      cwFund = (\<lambda>token forceMethod. bindA (kitFundWallet P kt token forceMethod) (\<lambda>r. returnA (fst r))),
      cwSessionExpiryMs = ktSessionExpiry kt\<rparr>"

definition kitCreateWallet ::
    "platform \<Rightarrow> kit \<Rightarrow> string \<Rightarrow> string \<Rightarrow> create_options \<Rightarrow> string option \<Rightarrow> string option \<Rightarrow>
     policy_config list option \<Rightarrow> created_wallet act" where
  "kitCreateWallet P kt appName userName options attachment residentKey policies =
     bindA (liftA (creationAllowed kt options)) (\<lambda>_.
     bindA (liftA (assertKnownAuthDigestScheme (ktSchemes kt) (ktWasmHash kt) AccountWasmHash)) (\<lambda>_.
       createWallet (kitEnv P kt) (kitCreateDeps P kt attachment residentKey (firstOf policies (ktPolicies kt)))
         appName userName options))"

text \<open>The assertion that proves ownership must come from the expected credential.\<close>

definition authenticateCredential :: "platform \<Rightarrow> kit \<Rightarrow> string \<Rightarrow> ownership_proof act" where
  "authenticateCredential P kt expectedCredentialId =
     bindA (askA (\<lambda>w. generateChallenge (plSdk P) (plRandom P (wTrace w)))) (\<lambda>challenge.
     let request = \<lparr>aoChallenge = challenge, aoRpId = ktRpId kt, aoUserVerification = ''required'', aoAllowed = None\<rparr> in
     bindA (requestA (FxPasskey challenge) (\<lambda>t. plAuthenticate P t request)) (\<lambda>response.
       if asId response \<noteq> expectedCredentialId
       then throwA (invalidInput ''The passkey returned a different credential during ownership verification'')
       else returnA \<lparr>opResponse = response, opChallenge = challenge\<rparr>))"

definition kitConnectDeps :: "platform \<Rightarrow> kit \<Rightarrow> connect_deps" where
  "kitConnectDeps P kt = \<lparr>cdSessionExpiryMs = ktSessionExpiry kt, cdAcceptedWasm = ktAcceptedWasm kt,
     cdAcceptedBirth = ktAcceptedBirth kt, cdVerifier = ktVerifier kt, cdRpId = ktRpId kt, cdOrigins = ktOrigins kt,
     cdHistory = (if ktHorizon kt = None then None else Some (plHistory P)), cdPolicies = ktPolicies kt,
     cdLookup = Some (lookupCandidates (plSdk P) (kitServices P kt) (ktIndexer kt)),
     cdReadRule = Some (\<lambda>c i. readContextRule (kitEnv P kt) (plReader P c) (Some c) i),
     cdAuthenticate = Some (authenticateCredential P kt), cdDecode = plDecode P, cdParseJson = plParseJson P,
     cdSubtle = plVerify P\<rparr>"

definition kitConnectWallet :: "platform \<Rightarrow> kit \<Rightarrow> connect_options \<Rightarrow> connect_result option act" where
  "kitConnectWallet P kt options = bindA (askA (\<lambda>w. plRandom P (wTrace w))) (\<lambda>random.
     connectWallet (kitEnv P kt) (kitWebAuthn P kt) random
       (connectWithCredentials (kitEnv P kt) (kitConnectDeps P kt)) options)"

section \<open>The managers of the kit\<close>

definition kitSignerDeps :: "platform \<Rightarrow> kit \<Rightarrow> signer_deps" where
  "kitSignerDeps P kt = \<lparr>sdWallet = plWallet P, sdVerifier = ktVerifier kt,
     sdCreatePasskey = kitCreatePasskey P kt None None, sdDateText = plDateText P\<rparr>"

definition kitRuleDeps :: "platform \<Rightarrow> kit \<Rightarrow> rule_deps" where
  "kitRuleDeps P kt = \<lparr>rdWallet = plWallet P, rdReader = plReader P, rdIndexer = Some (activeRuleIds P kt),
     rdProbe = ktProbe kt, rdLatestLedger = kitLatestLedger P kt\<rparr>"

definition kitCredentialDeps :: "platform \<Rightarrow> kit \<Rightarrow> credential_deps" where
  "kitCredentialDeps P kt = \<lparr>cmRpName = ktRpName kt, cmDateText = plDateText P,
     cmCreatePasskey = kitCreatePasskey P kt None None,
     cmBuild = (\<lambda>credentialId publicKey policies. kitBuildDeploy P kt credentialId publicKey (firstOf policies (ktPolicies kt))),
     cmSign = plSignTx P, cmSubmit = kitSubmitDeployment P kt\<rparr>"

definition kitMultiDeps ::
    "platform \<Rightarrow> kit \<Rightarrow> 'a wallet_ops \<Rightarrow> 'a ext_manager \<Rightarrow> (string \<Rightarrow> buffer) \<Rightarrow> (buffer \<Rightarrow> string) \<Rightarrow> 'a multi_deps" where
  "kitMultiDeps P kt W M fromText toText = \<lparr>mdOps = W, mdManager = M, mdFromText = fromText, mdToText = toText,
     mdPolicy = kitPolicy kt, mdSignEntry = signAuthEntryInternal P kt, mdScheme = kitDigestScheme P kt,
     mdClient = plReader P, mdIndexer = Some (activeRuleIds P kt), mdGetRules = getAllRules (kitEnv P kt) (kitRuleDeps P kt),
     mdRandom = plRandom P, mdBuild = plBuild P\<rparr>"

section \<open>Discovery\<close>

definition kitDiscoverByCredential :: "platform \<Rightarrow> kit \<Rightarrow> string \<Rightarrow> summary list option act" where
  "kitDiscoverByCredential P kt credentialId = discoverContractsByCredential (plSdk P) (kitServices P kt) (ktIndexer kt) credentialId"

definition kitDiscoverByAddress :: "platform \<Rightarrow> kit \<Rightarrow> string \<Rightarrow> summary list option act" where
  "kitDiscoverByAddress P kt address = discoverContractsByAddress (kitServices P kt) (ktIndexer kt) address"

definition kitAuthenticatePasskey :: "platform \<Rightarrow> kit \<Rightarrow> (string \<times> assertion) act" where
  "kitAuthenticatePasskey P kt = bindA (askA wTrace) (\<lambda>t. authenticatePasskey (plSdk P) (kitWebAuthn P kt) (plRandom P t))"

section \<open>What signing may do\<close>

text \<open>Effects that only read, or ask the user for an assertion.\<close>

definition asksOnly :: "(effect \<Rightarrow> bool) \<Rightarrow> bool" where
  "asksOnly Q \<longleftrightarrow> (\<forall>tx. Q (FxRpcSimulate tx)) \<and> (\<forall>u b. Q (FxFetch u b)) \<and> Q FxRpcLatestLedger \<and>
     (\<forall>c. Q (FxRpcGetContractData c)) \<and> (\<forall>c. Q (FxPasskey c))"

definition readerDoes :: "(effect \<Rightarrow> bool) \<Rightarrow> platform \<Rightarrow> bool" where
  "readerDoes Q P \<longleftrightarrow> (\<forall>c get p. qcGetPolicyId (plReader P c) = Some get \<longrightarrow> onlyDoes Q (get p)) \<and>
     (\<forall>c get s. qcGetSignerId (plReader P c) = Some get \<longrightarrow> onlyDoes Q (get s))"

lemma readRule_does:
  assumes "asksOnly Q" "readerDoes Q P"
  shows "onlyDoes Q (readContextRule (kitEnv P kt) (plReader P c) (Some c) i)"
  by (rule readContextRule_does) (use assms in \<open>auto simp: asksOnly_def readerDoes_def\<close>)

lemma probeLoop_does: "(\<And>i. onlyDoes Q (read i)) \<Longrightarrow> onlyDoes Q (probeLoop read n m found probed ids)"
  by (induction ids arbitrary: m found probed) (auto intro!: does_rules split: option.splits)

lemma listRules_does:
  assumes "\<And>i. onlyDoes Q (read i)" "\<And>get. ddIndexer d = Some get \<Longrightarrow> onlyDoes Q get"
    and "\<And>get. ddLatestLedger d = Some get \<Longrightarrow> onlyDoes Q get"
  shows "onlyDoes Q (listWith read d)"
proof -
  have i: "onlyDoes Q (indexerRuleIds d)"
  proof (cases "ddIndexer d")
    case (Some get)
    show ?thesis using assms(2) [OF Some] by (auto simp: indexerRuleIds_def Some intro!: does_rules)
  qed (simp add: indexerRuleIds_def does_rules)
  have l: "onlyDoes Q (case ddLatestLedger d of None \<Rightarrow> returnA None | Some get \<Rightarrow> bindA get (\<lambda>l. returnA (Some l)))"
    using assms(3) by (cases "ddLatestLedger d") (auto intro!: does_rules)
  show ?thesis unfolding listWith_def ruleUnlessMissing_def
    by (auto intro!: does_rules i l probeLoop_does assms(1) intro: assms(3) split: option.splits)
qed

lemma indexedRuleIds_does:
  assumes "asksOnly Q"
  shows "onlyDoes Q (indexedRuleIds P kt c)"
  using assms unfolding indexedRuleIds_def getContractDetailsFromIndexer_def thrown_def getContractDetails_def indexerFetch_def Let_def
  by (auto intro!: does_rules simp: asksOnly_def split: option.splits sum.splits indexer_failure.splits)

lemma cachedRules_does:
  assumes "asksOnly Q" "readerDoes Q P"
  shows "onlyDoes Q (cachedRules P kt c)"
proof -
  have l: "onlyDoes Q (listContextRules (kitEnv P kt) (plReader P c) (kitDiscovery P kt c))"
    unfolding listContextRules_def
    by (rule listRules_does)
      (use assms in \<open>auto simp: kitDiscovery_def kitLatestLedger_def asksOnly_def
        intro!: does_rules readRule_does [OF assms] indexedRuleIds_does [OF assms(1)]\<close>)
  show ?thesis unfolding cachedRules_def
    by (auto intro!: does_rules l onlyDoes_modify split: option.splits)
qed

lemma resolveConnected_does:
  assumes "asksOnly Q" "readerDoes Q P"
  shows "onlyDoes Q (resolveConnectedContextRuleIds P kt k e)"
  unfolding resolveConnectedContextRuleIds_def cachedSigner_def Let_def
  by (auto intro!: does_rules cachedRules_does [OF assms] onlyDoes_modify split: option.splits)

lemma findInRules_does: "(\<And>i. onlyDoes Q (read i)) \<Longrightarrow> onlyDoes Q (findWebAuthnSignerInRules K read asked ids k)"
  by (induction ids) (auto intro!: does_rules split: option.splits)

lemma kitSigner_does:
  assumes "asksOnly Q" "readerDoes Q P"
  shows "onlyDoes Q (kitSigner P kt e o1)"
proof -
  have r: "onlyDoes Q (pdReadRule (kitSignDeps P kt) i)" for i
    by (auto simp: kitSignDeps_def intro!: does_rules readRule_does [OF assms])
  have s: "onlyDoes Q (pdScheme (kitSignDeps P kt) c)" for c
    using assms(1) by (auto simp: kitSignDeps_def kitDigestScheme_def asksOnly_def intro!: does_rules)
  have x: "onlyDoes Q (pdExpiration (kitSignDeps P kt))"
    using assms(1) by (auto simp: kitSignDeps_def calculateExpiration_def kitLatestLedger_def asksOnly_def intro!: does_rules)
  have w: "onlyDoes Q (signWithPasskey K S net (kitSignDeps P kt) o2 en n p c key ids)" for K S net o2 en n p c key ids
    unfolding signWithPasskey_def bothA_def storageUpdate_def Let_def
    using assms(1) by (auto intro!: does_rules findInRules_does r s onlyDoes_modify simp: asksOnly_def split: option.splits)
  show ?thesis
    unfolding kitSigner_def signAuthEntryInternal_def signAuthEntry_def chooseExpiration_def Let_def
    by (auto intro!: does_rules w x split: option.splits credentials.splits)
qed

section \<open>The shared deployer\<close>

lemma shared_asks: "asksOnly (notSharedDeployer K)"
  by (simp add: asksOnly_def notSharedDeployer_def)

text \<open>
  C9. A kit never lets the shared default deployer, whose key is public, pay: whatever the services
  answer, no effect of a generic or an admin submission signs an envelope with it, loads its
  account, or sends a transaction it sources. (The SDK's \<^verbatim>\<open>assembleTransaction\<close> keeps the source,
  and the reading client does not do such things itself.)
\<close>

theorem kit_never_pays_with_shared_deployer:
  assumes "\<And>tx d. txSource (svAssemble (plServices P) tx d) = txSource tx"
    and "readerDoes (notSharedDeployer (plSdk P)) P" "koResolveRuleIds options = None"
    and run: "kitSignAndSubmit P kt tx options w = (r, w') \<or> kitSignAndSubmitAdmin P kt tx options w = (r, w')"
  shows "\<exists>es. wTrace w' = wTrace w @ es \<and> list_all (notSharedDeployer (plSdk P)) es"
proof -
  have k: "keSdk (kitEnv P kt) = plSdk P" by (simp add: kitEnv_def)
  have a: "txSource (svAssemble (kitServices P kt) tx d) = txSource tx" for tx d using assms(1) by (simp add: kitEnv_def)
  have d: "safeDeps (keSdk (kitEnv P kt)) (kitSigner P kt) (resolvedOptions P kt options b)" for b
    using kitSigner_does [OF shared_asks assms(2)] resolveConnected_does [OF shared_asks assms(2)] assms(3)
    by (simp add: safeDeps_def resolvedOptions_def k)
  obtain b where "signAndSubmit (kitEnv P kt) (kitSigner P kt) tx (resolvedOptions P kt options b)
      (w\<lparr>wRules := None, wSigner := None\<rparr>) = (r, w')"
    using run by (auto simp: kitSignAndSubmit_def kitSignAndSubmitAdmin_def freshCache_def bindA_def run_simps)
  from shared_deployer_never_pays [OF a d this] show ?thesis by (simp add: k)
qed

section \<open>Generic submissions\<close>

fun sendsTx :: "effect \<Rightarrow> bool" where
  "sendsTx (FxRelayerSend f a) = True"
| "sendsTx (FxRelayerSendXdr t) = True"
| "sendsTx (FxRpcSend t) = True"
| "sendsTx (FxDeploySend t) = True"
| "sendsTx _ = False"

lemma silent_asks: "asksOnly (\<lambda>x. \<not> sendsTx x)"
  by (simp add: asksOnly_def)

lemma mapA_each: "mapA f xs w = (Inr ys, w') \<Longrightarrow> x \<in> set xs \<Longrightarrow> \<exists>v y v'. f x v = (Inr y, v')"
proof (induction xs arbitrary: w ys)
  case (Cons a xs)
  from Cons.prems(1) obtain y w1 zs where a: "f a w = (Inr y, w1)" "mapA f xs w1 = (Inr zs, w')"
    by (auto simp: bindA_Inr run_simps)
  with Cons show ?case by (cases "x = a") auto
qed simp

text \<open>An entry the kit signs on a generic path changes nothing of the wallet it is for.\<close>

definition changesAuthority :: "sdk \<Rightarrow> auth_entry \<Rightarrow> bool" where
  "changesAuthority K e \<longleftrightarrow> (\<exists>c. getAuthEntryAddress K e = Inr c \<and>
     \<not> list_all (\<lambda>(call, depth). \<not> isMutationOf K c call) (callsOf 0 (aeRoot e)))"

lemma kitSigner_unchanged:
  assumes "kitSigner P kt e o1 w = (Inr out, w')" "seHostFunction o1 = None"
  shows "\<not> changesAuthority (plSdk P) e"
  using assms generic_path_accepts
  unfolding kitSigner_def signAuthEntryInternal_def signAuthEntry_def changesAuthority_def
  by (auto simp: bindA_Inr run_simps split: if_splits)

lemma prepare_refuses:
  assumes "atSimAuth tx = Some entries" "e \<in> set entries" "changesAuthority (plSdk P) e"
  shows "prepareSubmission E (kitSigner P kt) tx (resolvedOptions P kt options False) w \<noteq> (Inr (Inr ptx), w')"
proof
  assume "prepareSubmission E (kitSigner P kt) tx (resolvedOptions P kt options False) w = (Inr (Inr ptx), w')"
  then obtain func signed w1 where m: "mapA (signEntryAt (kitSigner P kt) func (resolvedOptions P kt options False))
      (enumerate 0 entries) w = (Inr signed, w1)"
    using assms(1) unfolding prepareSubmission_def Let_def signResimulateAndPrepare_def
    by (auto simp: bindA_Inr run_simps split: option.splits list.splits operation.splits)
  have "e \<in> set (map snd (enumerate 0 entries))" using assms(2) by simp
  then obtain p where "p \<in> set (enumerate 0 entries)" "e = snd p" unfolding set_map by blast
  then obtain i where "(i, e) \<in> set (enumerate 0 entries)" by (metis prod.collapse)
  from mapA_each [OF m this] obtain v y v' where
    "signEntryAt (kitSigner P kt) func (resolvedOptions P kt options False) (i, e) v = (Inr y, v')" by blast
  then show False
    using kitSigner_unchanged assms(3) by (auto simp: signEntryAt_def resolvedOptions_def bindA_Inr)
qed

lemma prepare_silent:
  assumes "\<And>en o1. onlyDoes (\<lambda>x. \<not> sendsTx x) (signer en o1)" "soResolveRuleIds options = Some f"
    and "\<And>en i. onlyDoes (\<lambda>x. \<not> sendsTx x) (f en i)"
  shows "onlyDoes (\<lambda>x. \<not> sendsTx x) (prepareSubmission E signer tx options)"
proof -
  have "onlyDoes (\<lambda>x. \<not> sendsTx x) (signEntryAt signer func options p)" for func p
    unfolding signEntryAt_def resolveIds_def assms(2) by (auto intro!: does_rules assms(1,3))
  then show ?thesis
    unfolding prepareSubmission_def signResimulateAndPrepare_def resolveResimSource_def resimulateAndAssemble_def
      signFeePayer_def Let_def
    by (auto intro!: does_rules split: option.split list.split operation.split simulate_response.split)
qed

lemma prepare_failure:
  assumes "prepareSubmission E signer tx options w = (Inr (Inl x), w')"
  shows "\<exists>e h. x = TxFailure e h"
  using assms unfolding prepareSubmission_def Let_def
  by (auto simp: bindA_Inr run_simps failedTransaction_def split: option.splits list.splits operation.splits)

text \<open>
  C10. On the generic path the kit sends nothing when one of the entries to sign calls, at any depth, an
  authority-changing function of the wallet it is for: the submission fails, and no transaction
  left the kit, whatever the services answer.
\<close>

theorem generic_submission_sends_no_mutation:
  assumes "readerDoes (\<lambda>x. \<not> sendsTx x) P" "koResolveRuleIds options = None"
    and e: "atSimAuth tx = Some entries" "e \<in> set entries" "changesAuthority (plSdk P) e"
    and run: "kitSignAndSubmit P kt tx options w = (r, w')"
  shows "\<exists>err h es. r = Inr (TxFailure err h) \<and> wTrace w' = wTrace w @ es \<and> list_all (\<lambda>x. \<not> sendsTx x) es"
proof -
  let ?E = "kitEnv P kt" and ?o = "resolvedOptions P kt options False" and ?w = "w\<lparr>wRules := None, wSigner := None\<rparr>"
  obtain x v where p: "prepareSubmission ?E (kitSigner P kt) tx ?o ?w = (x, v)" by (cases "prepareSubmission ?E (kitSigner P kt) tx ?o ?w")
  have s: "onlyDoes (\<lambda>x. \<not> sendsTx x) (prepareSubmission ?E (kitSigner P kt) tx ?o)"
    by (rule prepare_silent [where f = "\<lambda>entry i. resolveConnectedContextRuleIds P kt (koCredentialId options) entry"])
      (use assms(2) in \<open>auto simp: resolvedOptions_def
        intro!: kitSigner_does [OF silent_asks assms(1)] resolveConnected_does [OF silent_asks assms(1)]\<close>)
  from onlyDoesD [OF this p] obtain es where es: "wTrace v = wTrace w @ es" "list_all (\<lambda>x. \<not> sendsTx x) es" by auto
  have y: "\<exists>e h. y = TxFailure e h" if "x = Inr (Inl y)" for y using prepare_failure p that by blast
  have n: "x \<noteq> Inr (Inr ptx)" for ptx using prepare_refuses [OF e] p by blast
  have r: "kitSignAndSubmit P kt tx options w = signAndSubmit ?E (kitSigner P kt) tx ?o ?w"
    by (simp add: kitSignAndSubmit_def freshCache_def bindA_def run_simps)
  show ?thesis
  proof (cases "truthy (wContractId w)")
    case False
    then have "r = Inr (failedTransaction (WalletNotConnectedError (Some ''submit a transaction'')) None) \<and> w' = ?w"
      using run unfolding r by (simp add: signAndSubmit_def bindA_def run_simps)
    then show ?thesis by (intro exI [of _ "[]"] exI) (auto simp: failedTransaction_def)
  next
    case True
    have "w' = v \<and> (\<exists>e h. r = Inr (TxFailure e h))"
    proof (cases x)
      case (Inl err)
      then show ?thesis using run True p unfolding r
        by (auto simp: signAndSubmit_def bindA_def run_simps catchA_def failedTransaction_def)
    next
      case (Inr z)
      then obtain f where z: "z = Inl f" using n by (cases z) auto
      then show ?thesis using run True p y Inr unfolding r
        by (auto simp: signAndSubmit_def bindA_def run_simps catchA_def)
    qed
    with es show ?thesis by blast
  qed
qed

section \<open>Configuration\<close>

lemma acceptedHashes_ok:
  "acceptedHashes given h \<noteq> [] \<and> list_all (\<lambda>x. toLower x = x) (acceptedHashes given h)"
  by (auto simp: acceptedHashes_def list_all_iff)

text \<open>
  A kit that was constructed accepts some code and some births, all as lower-case hashes, its own
  account code when nothing else is configured; it uses the shared deployer exactly when its
  deployer is the default one, as it is without a secret; and it has a relayer exactly when a URL
  is configured.
\<close>

theorem constructed_kit:
  assumes "newKit K B config = Inr kt"
  shows "ktAcceptedWasm kt \<noteq> [] \<and> list_all (\<lambda>x. toLower x = x) (ktAcceptedWasm kt) \<and>
     ktAcceptedBirth kt \<noteq> [] \<and> list_all (\<lambda>x. toLower x = x) (ktAcceptedBirth kt) \<and>
     (items (cfAcceptedWasm config) \<noteq> [] \<or> ktAcceptedWasm kt = [toLower (ktWasmHash kt)]) \<and>
     (ktShared kt \<longleftrightarrow> isDefaultDeployer K (ktDeployer kt)) \<and> (truthy (cfDeployerSecret config) \<or> ktShared kt) \<and>
     (ktRelayer kt = None \<longleftrightarrow> \<not> truthy (cfRelayerUrl config)) \<and>
     ktNetwork kt \<noteq> [] \<and> ktWasmHash kt \<noteq> [] \<and> ktVerifier kt \<noteq> []"
proof -
  obtain rpcUrl network wasmHash verifier schemes relayer deployer where c:
    "truthy (cfNetwork config)" "cfNetwork config = Some network" "truthy (cfWasmHash config)" "cfWasmHash config = Some wasmHash"
    "truthy (cfVerifier config)" "cfVerifier config = Some verifier"
    "kitRelayer (cfRelayerUrl config) = Inr relayer"
    "(if truthy (cfDeployerSecret config) then sbFromSecret B (the (cfDeployerSecret config))
       else Inr (DEFAULT_DEPLOYER_PUBLIC_KEY K)) = Inr deployer"
    and k: "ktAcceptedWasm kt = acceptedHashes (cfAcceptedWasm config) wasmHash"
      "ktAcceptedBirth kt = acceptedHashes (cfAcceptedBirth config) wasmHash" "ktWasmHash kt = wasmHash"
      "ktNetwork kt = network" "ktVerifier kt = verifier" "ktDeployer kt = deployer" "ktRelayer kt = relayer"
      "ktShared kt = isDefaultDeployer K deployer"
    using assms unfolding newKit_def Let_def requireConfig_def
    by (auto simp: bindE_Inr truthy_def split: if_splits option.splits)
  have r: "relayer = None \<longleftrightarrow> \<not> truthy (cfRelayerUrl config)"
    using c(7) by (auto simp: kitRelayer_def newRelayerClient_def bindE_Inr split: if_splits)
  have d: "truthy (cfDeployerSecret config) \<or> isDefaultDeployer K deployer"
    using c(8) by (auto simp: isDefaultDeployer_def split: if_splits)
  have a: "items (cfAcceptedWasm config) \<noteq> [] \<or> acceptedHashes (cfAcceptedWasm config) wasmHash = [toLower wasmHash]"
    by (simp add: acceptedHashes_def)
  have n: "network \<noteq> []" "wasmHash \<noteq> []" "verifier \<noteq> []" using c(1-6) by (auto simp: truthy_def)
  show ?thesis unfolding k using acceptedHashes_ok r d a n by blast
qed

text \<open>
  A creation that could only end in a refusal asks for no passkey: when it would make the shared
  deployer pay over RPC, when the account code has no known digest scheme, or when the policies do
  not encode, it throws before it touches anything.
\<close>

theorem misconfigured_creation_asks_no_passkey:
  assumes "(coAutoSubmit options \<and> ktShared kt \<and> (ktRelayer kt = None \<or> coForceMethod options = Some ViaRpc)) \<or>
     map_of (ktSchemes kt) (toLower (ktWasmHash kt)) = None \<or>
     (\<exists>e. items (firstOf policies (ktPolicies kt)) \<noteq> [] \<and>
       buildConstructorPolicies (plSdk P) (plDecode P) (items (firstOf policies (ktPolicies kt))) = Inl e)"
  shows "\<exists>e. kitCreateWallet P kt app user options a r policies w = (Inl e, w)"
proof -
  have c: "creationAllowed kt options = Inl (sharedDeployerFeeError (ktDeployer kt))"
    if "coAutoSubmit options" "ktShared kt" "ktRelayer kt = None \<or> coForceMethod options = Some ViaRpc"
    using that by (cases "coForceMethod options"; cases "the (coForceMethod options)")
      (auto simp: creationAllowed_def getSubmissionMethod_def Let_def)
  have s: "\<exists>e. assertKnownAuthDigestScheme (ktSchemes kt) (ktWasmHash kt) AccountWasmHash = Inl e"
    if "map_of (ktSchemes kt) (toLower (ktWasmHash kt)) = None"
    using that by (simp add: assertKnownAuthDigestScheme_def Let_def)
  have p: "\<exists>e. createWallet (kitEnv P kt) (kitCreateDeps P kt a r (firstOf policies (ktPolicies kt))) app user options w = (Inl e, w)"
    if "items (firstOf policies (ktPolicies kt)) \<noteq> []"
      "buildConstructorPolicies (plSdk P) (plDecode P) (items (firstOf policies (ktPolicies kt))) = Inl e" for e
    using that by (simp add: createWallet_def kitCreateDeps_def bindA_def run_simps)
  show ?thesis
  proof (cases "creationAllowed kt options")
    case (Inr u)
    note allowed = this
    show ?thesis
    proof (cases "assertKnownAuthDigestScheme (ktSchemes kt) (ktWasmHash kt) AccountWasmHash")
      case (Inr v)
      then show ?thesis using assms c s p allowed
        by (auto simp: kitCreateWallet_def bindA_def run_simps)
    qed (simp add: kitCreateWallet_def bindA_def run_simps allowed)
  qed (simp add: kitCreateWallet_def bindA_def run_simps)
qed

text \<open>
  An upgrade that the kit builds leads to code that the same kit can connect to and sign for: the
  hash in the call is an accepted code identity and has a digest scheme, and the operator is the
  connected wallet.
\<close>

theorem upgraded_wallet_stays_usable:
  assumes "kitUpgrade P kt newWasmHash w = (Inr tx, w')"
  shows "\<exists>c h s. wContractId w = Some c \<and> clUpgrade (plWallet P c) h c w = (Inr tx, w') \<and>
     assertAcceptedCode (ExecWasm h) c (ktAcceptedWasm kt) = Inr () \<and>
     resolveAuthDigestScheme (Inr (ExecWasm h)) (ktSchemes kt) c = Inr s"
proof -
  obtain c h where c: "wContractId w = Some c" "clUpgrade (plWallet P c) h c w = (Inr tx, w')"
    and h: "length h = 32" "toHex h \<in> set (ktAcceptedWasm kt)" "map_of (ktSchemes kt) (toHex h) \<noteq> None"
    using assms by (auto simp: kitUpgrade_def bindA_Inr requireWallet_ok run_simps assertUpgradeTarget_ok kitPolicy_def)
  obtain s where "map_of (ktSchemes kt) (toHex h) = Some s" using h(3) by auto
  then have "resolveAuthDigestScheme (Inr (ExecWasm h)) (ktSchemes kt) c = Inr s"
    by (simp add: resolveAuthDigestScheme_def readInstanceWasmHash_def)
  moreover have "assertAcceptedCode (ExecWasm h) c (ktAcceptedWasm kt) = Inr ()"
    unfolding assertAcceptedCode_ok using h(1,2) by auto
  ultimately show ?thesis using c by blast
qed


section \<open>Transfers\<close>

lemma decimals_bound: "validDecimals x = Some n \<Longrightarrow> n \<le> 18"
  by (auto simp: validDecimals_def floor_le_iff nat_le_iff split: jsnum.splits if_splits)

lemma readTokenDecimals_ok:
  assumes "readTokenDecimals E toNumber tokenContract w = (Inr n, w1)"
  shows "n \<le> 18"
proof -
  obtain sim v where s: "(case sim of
        SimFailed err \<Rightarrow> if err \<noteq> [] then throwA (decodedOr err (SimulationError (''decimals() simulation failed: '' @ err)))
          else throwA (SimulationError ''decimals() returned no result'')
      | SimOk d retval \<Rightarrow> (case retval of None \<Rightarrow> throwA (SimulationError ''decimals() returned no result'')
          | Some x \<Rightarrow> (case validDecimals (toNumber x) of None \<Rightarrow> throwA (SimulationError ''Invalid token decimals'')
              | Some n \<Rightarrow> returnA n))) v = (Inr n, w1)"
    using assms unfolding readTokenDecimals_def by (elim bindA_InrE) blast
  then show ?thesis
    by (cases sim) (auto simp: run_simps dest: decimals_bound split: if_splits option.splits)
qed

lemma prepareTransfer_ok:
  assumes "prepareTransfer E build toNumber tokenContract recipient amount w = (Inr (Inr tx), w')"
  shows "\<exists>wallet raw n t func. wContractId w = Some wallet \<and> recipient \<noteq> wallet \<and> n \<le> 18 \<and>
     tokenAmountToRawUnits (argDecimal amount) (Fin (of_nat n)) = Inr raw \<and>
     buildTokenTransferHostFunction (keSdk E) tokenContract wallet recipient (int raw) = Inr func \<and>
     build t func = Inr (tx, None)"
proof -
  obtain wallet where w: "wContractId w = Some wallet" "recipient \<noteq> wallet"
    and m: "catchA (bindA (resolveTokenAmount E toNumber tokenContract (argDecimal amount)) (\<lambda>(raw, n).
          bindA (buildDirectTokenTransfer (keSdk E) build tokenContract wallet recipient (int raw)) (\<lambda>tx. returnA (Inr tx))))
        (\<lambda>err. returnA (Inl (failedTransaction (wrapError err TRANSACTION_SUBMISSION_FAILED) None))) w = (Inr (Inr tx), w')"
    using assms unfolding prepareTransfer_def
    by (auto simp: bindA_Inr run_simps truthy_def split: if_splits sum.splits option.splits)
  obtain raw n w1 where n: "resolveTokenAmount E toNumber tokenContract (argDecimal amount) w = (Inr (raw, n), w1)"
    and t: "buildDirectTokenTransfer (keSdk E) build tokenContract wallet recipient (int raw) w1 = (Inr tx, w')"
    using m by (auto simp: bindA_Inr catchA_Inr run_simps)
  have "n \<le> 18" "tokenAmountToRawUnits (argDecimal amount) (Fin (of_nat n)) = Inr raw"
    using n unfolding resolveTokenAmount_def by (auto simp: bindA_Inr run_simps dest: readTokenDecimals_ok)
  moreover obtain func where "buildTokenTransferHostFunction (keSdk E) tokenContract wallet recipient (int raw) = Inr func"
      "build (wTrace w1) func = Inr (tx, None)"
    using t unfolding buildDirectTokenTransfer_def by (auto simp: bindA_Inr run_simps split: option.splits)
  ultimately show ?thesis using w by blast
qed


section \<open>Witnesses\<close>

definition demoPlatform :: platform where
  "demoPlatform = \<lparr>plSdk = demoSdk,
     plServices = demoServices\<lparr>svRpcSimulate := (\<lambda>t x. Inr (SimOk [1] (Some (ScvU32 7))))\<rparr>,
     plSubtle = None, plVerify = None, plRegister = (\<lambda>t x. Inl (JsError [])), plAuthenticate = (\<lambda>t x. Inl (JsError [])),
     plRandom = (\<lambda>t. replicate 32 1), plNowText = (\<lambda>t. ''now''), plUnique = (\<lambda>t. ''u''), plDateText = (\<lambda>t. ''today''),
     plReader = (\<lambda>c. \<lparr>qcGetContextRule = (\<lambda>i. throwA (JsError [])), qcGetPolicyId = None, qcGetSignerId = None, qcSpec = None\<rparr>),
     plWallet = sdWallet (demoSignerDeps 65), plClientDeploy = (\<lambda>a. returnA demoAssembled), plDeployerKey = [], plDeployerSign = id,
     plSignTx = returnA, plSignAuthEntries = (\<lambda>tx c f. returnA tx),
     plBuild = (\<lambda>t func. Inr (\<lparr>atBuilt = Some \<lparr>txSource = ''GS'', txOps = [InvokeHostFunction func None], txBody = []\<rparr>,
       atSimAuth = Some [], atLatestLedger = Some 1, atSigned = None\<rparr>, None)),
     plNumber = (\<lambda>v. case v of ScvU32 n \<Rightarrow> Fin (of_nat n) | _ \<Rightarrow> NaN), plEncodeRule = (\<lambda>c r. Inr ScvVoid),
     plHistory = (\<lambda>t h. Inr HistoryMissing), plDecode = (\<lambda>b. None), plParseJson = (\<lambda>b. NotJson), plRuleIds = (\<lambda>j. []),
     plTxHash = txBody, plFunding = \<lparr>fuRandomKey = (\<lambda>t. \<lparr>tkAddress = ''GT'', tkRawPublicKey = [], tkSign = id\<rparr>),
       fuBalance = (\<lambda>t a. Inr 0), fuSimulate = (\<lambda>t x. Inr (FundingFailed [])), fuRandom = (\<lambda>t. replicate 8 1)\<rparr>\<rparr>"

definition demoConfig :: kit_config where
  "demoConfig = \<lparr>cfRpcUrl = Some ''r'', cfNetwork = Some ''Test'', cfWasmHash = Some (toHex (replicate 32 1)), cfVerifier = Some ''Cv'',
     cfAcceptedWasm = None, cfAcceptedBirth = None, cfSchemes = [], cfEd25519 = None, cfPolicies = None,
     cfTimeout = None, cfExpirationLedgers = None, cfProbe = None, cfRpId = None, cfOrigins = None, cfRpName = None,
     cfHorizon = DefaultUrl, cfSessionExpiry = None, cfIndexer = DefaultUrl, cfIndexerToken = None, cfRelayerUrl = None,
     cfDeployerSecret = Some ''S''\<rparr>"

definition demoKit :: kit where
  "demoKit = \<lparr>ktRpcUrl = ''r'', ktNetwork = ''Test'', ktWasmHash = toHex (replicate 32 1), ktVerifier = ''Cv'',
     ktAcceptedWasm = [toHex (replicate 32 1)], ktAcceptedBirth = [toHex (replicate 32 1)],
     ktSchemes = [(toHex (replicate 32 1), PreimageV1)], ktEd25519 = None, ktPolicies = None, ktTimeout = 30,
     ktExpirationLedgers = 720, ktProbe = None, ktRpId = None, ktOrigins = None, ktRpName = ''Smart Account'', ktHorizon = None,
     ktSessionExpiry = 1, ktIndexer = None, ktRelayer = None, ktDeployer = ''GD'', ktShared = False\<rparr>"

definition demoKitOptions :: kit_sign_options where
  "demoKitOptions = \<lparr>koCredentialId = None, koExpiration = None, koForceMethod = None, koResolveRuleIds = None\<rparr>"

lemma demo_reader: "readerDoes Q demoPlatform"
  by (simp add: readerDoes_def demoPlatform_def)

lemma kit_never_pays_with_shared_deployer_witness:
  "\<exists>r w' es. kitSignAndSubmit demoPlatform demoKit demoAssembled demoKitOptions demoWorld = (r, w') \<and>
     wTrace w' = es \<and> list_all (notSharedDeployer demoSdk) es"
proof -
  obtain r w' where run: "kitSignAndSubmit demoPlatform demoKit demoAssembled demoKitOptions demoWorld = (r, w')"
    by (cases "kitSignAndSubmit demoPlatform demoKit demoAssembled demoKitOptions demoWorld")
  have a: "txSource (svAssemble (plServices demoPlatform) t d) = txSource t" for t d
    by (simp add: demoPlatform_def demoServices_def)
  have o1: "koResolveRuleIds demoKitOptions = None" by (simp add: demoKitOptions_def)
  obtain es where "wTrace w' = wTrace demoWorld @ es" "list_all (notSharedDeployer (plSdk demoPlatform)) es"
    using kit_never_pays_with_shared_deployer [OF a demo_reader o1, of demoKit demoAssembled demoWorld r w'] run by blast
  with run show ?thesis by (simp add: demoWorld_def demoPlatform_def)
qed

definition demoRemovalEntry :: auth_entry where
  "demoRemovalEntry = demoTransfer\<lparr>aeRoot := Invocation (ContractFn (demoCall ''remove_signer'' [])) []\<rparr>"

definition demoRemoval :: assembled where
  "demoRemoval = demoAssembled\<lparr>atSimAuth := Some [demoRemovalEntry]\<rparr>"

lemma generic_submission_sends_no_mutation_witness:
  "\<exists>err h w'. kitSignAndSubmit demoPlatform demoKit demoRemoval demoKitOptions demoWorld = (Inr (TxFailure err h), w') \<and>
     list_all (\<lambda>x. \<not> sendsTx x) (wTrace w')"
proof -
  obtain r w' where run: "kitSignAndSubmit demoPlatform demoKit demoRemoval demoKitOptions demoWorld = (r, w')"
    by (cases "kitSignAndSubmit demoPlatform demoKit demoRemoval demoKitOptions demoWorld")
  have o1: "koResolveRuleIds demoKitOptions = None" by (simp add: demoKitOptions_def)
  have e: "atSimAuth demoRemoval = Some [demoRemovalEntry]" by (simp add: demoRemoval_def)
  have c: "changesAuthority (plSdk demoPlatform) demoRemovalEntry"
    by (simp add: changesAuthority_def demoPlatform_def demoRemovalEntry_def demoTransfer_def getAuthEntryAddress_def demoCall_def
        isMutationOf_def WALLET_MUTATION_FUNCTIONS_def scAddressToString_def demoSdk_def demoStrkey_def)
  obtain err h es where "r = Inr (TxFailure err h)" "wTrace w' = wTrace demoWorld @ es" "list_all (\<lambda>x. \<not> sendsTx x) es"
    using generic_submission_sends_no_mutation [OF demo_reader o1 e _ c run] by auto
  with run show ?thesis by (simp add: demoWorld_def)
qed

lemma constructed_kit_witness:
  "\<exists>kt. newKit demoSdk \<lparr>sbRpc = (\<lambda>u. Inr ()), sbHorizon = (\<lambda>u. Inr ()), sbFromSecret = (\<lambda>s. Inr ''GD''), sbLocation = None\<rparr> demoConfig = Inr kt \<and>
     \<not> ktShared kt \<and> ktAcceptedWasm kt = [toLower (ktWasmHash kt)]"
proof -
  let ?B = "\<lparr>sbRpc = (\<lambda>u. Inr ()), sbHorizon = (\<lambda>u. Inr ()), sbFromSecret = (\<lambda>s. Inr ''GD''), sbLocation = None\<rparr>"
  have t: "toHex (replicate 32 1) \<noteq> []" by (rule toHex_32)
  obtain kt where k: "newKit demoSdk ?B demoConfig = Inr kt" "ktDeployer kt = ''GD''"
    using t by (simp add: newKit_def demoConfig_def requireConfig_def truthy_def buildAuthDigestSchemeTable_def horizonUrl_def
        TESTNET_def kitRelayer_def)
  from constructed_kit [OF k(1)] k(2) demo_deployer have "\<not> ktShared kt" "ktAcceptedWasm kt = [toLower (ktWasmHash kt)]"
    by (simp_all add: demoConfig_def)
  with k(1) show ?thesis by blast
qed

lemma misconfigured_creation_asks_no_passkey_witness:
  "\<exists>e. kitCreateWallet demoPlatform (demoKit\<lparr>ktShared := True\<rparr>) ''a'' ''u'' (demoCreateOptions\<lparr>coAutoSubmit := True\<rparr>) None None None demoWorld =
     (Inl e, demoWorld)"
  by (rule misconfigured_creation_asks_no_passkey) (simp add: demoKit_def)

lemma upgraded_wallet_stays_usable_witness:
  "\<exists>h s. assertAcceptedCode (ExecWasm h) demoWallet (ktAcceptedWasm demoKit) = Inr () \<and>
     resolveAuthDigestScheme (Inr (ExecWasm h)) (ktSchemes demoKit) demoWallet = Inr s"
proof -
  have "\<exists>tx w'. kitUpgrade demoPlatform demoKit (HashBytes (replicate 32 1)) demoWorld = (Inr tx, w')"
  proof -
    have "assertUpgradeTarget (kitPolicy demoKit) (HashBytes (replicate 32 1)) = Inr (replicate 32 1)"
      by (simp add: assertUpgradeTarget_ok kitPolicy_def demoKit_def)
    then show ?thesis
      by (simp add: kitUpgrade_def bindA_def requireWallet_def demoWorld_def demoWallet_def run_simps demoPlatform_def
          demoSignerDeps_def)
  qed
  then obtain tx w' where r: "kitUpgrade demoPlatform demoKit (HashBytes (replicate 32 1)) demoWorld = (Inr tx, w')" by blast
  have c: "wContractId demoWorld = Some demoWallet" by (simp add: demoWorld_def)
  from upgraded_wallet_stays_usable [OF r] c show ?thesis by auto
qed

definition demoSnapshot :: "context_rule list" where
  "demoSnapshot = [demoRule 2 DefaultRule [External ''Cv'' (replicate 65 4 @ utf8 ''id'')]]"



end
