(* ===== verification/Kit_ProxyState.thy ===== *)
theory Kit_ProxyState
  imports Kit_Json
begin

text \<open>
  \<^verbatim>\<open>src/relayer-proxy/src/index.ts\<close>, the Cloudflare worker between the kit and a relayer, in three
  theories. Here are its settings, its state and effects, and the rate limiter; then follow the
  checks of a submission (\<open>Kit_ProxyChecks\<close>) and the request handlers (\<open>Kit_Proxy\<close>).

  As in \<open>Kit_World\<close>, a computation maps the world (the key-value namespace of API keys, the limiters'
  states, the trace of effects) to a result and the world after it, and the services answer as
  functions of the trace.
\<close>

section \<open>Errors\<close>

text \<open>
  What the worker throws or catches: its own \<^verbatim>\<open>RequestError\<close> with a status, the two errors of the
  Channels plugin, another \<^verbatim>\<open>Error\<close>, and a thrown value that is no \<^verbatim>\<open>Error\<close>.
\<close>

datatype proxy_error =
    RequestError string nat
  | PluginExecutionError string "json option" "json option"
  | PluginTransportError string "nat option"
  | PlainError string
  | NotAnError string

type_synonym 'a presult = "proxy_error + 'a"

definition badRequest :: "string \<Rightarrow> 'a presult" where
  "badRequest message = Inl (RequestError message 400)"

definition forbidden :: "string \<Rightarrow> 'a presult" where
  "forbidden message = Inl (RequestError message 403)"

section \<open>Settings\<close>

text \<open>The variables of \<^verbatim>\<open>Env\<close>; \<open>None\<close> is an unset one.\<close>

record proxy_settings =
  pvNetwork :: string
  pvRpcUrl :: string
  pvOrigins :: "string option"
  pvDeployers :: "string option"
  pvAccountHashes :: "string option"
  pvDeployHashes :: "string option"
  pvWallets :: "string option"
  pvTokens :: "string option"
  pvFunctions :: "string option"
  pvMaxResourceFee :: "string option"
  pvMaxTotalFee :: "string option"
  pvWindowSeconds :: "string option"
  pvPerIp :: "string option"
  pvGlobal :: "string option"

fun splitOn :: "char \<Rightarrow> string \<Rightarrow> string list" where
  "splitOn c [] = [[]]"
| "splitOn c (x # xs) = (if x = c then [] # splitOn c xs
     else (case splitOn c xs of [] \<Rightarrow> [[x]] | y # ys \<Rightarrow> (x # y) # ys))"

definition orEmpty :: "string option \<Rightarrow> string" where
  "orEmpty v = (case v of Some s \<Rightarrow> s | None \<Rightarrow> [])"

definition csvSet :: "string option \<Rightarrow> bool \<Rightarrow> string list" where
  "csvSet value lowercase = map (\<lambda>item. if lowercase then toLower item else item)
     (filter (\<lambda>item. item \<noteq> []) (map trim (splitOn CHR '','' (orEmpty value))))"

definition positiveSetting :: "string option \<Rightarrow> nat \<Rightarrow> string \<Rightarrow> int presult" where
  "positiveSetting value fallback name =
     (let parsed = (case value of None \<Rightarrow> Fin (of_nat fallback) | Some s \<Rightarrow> textNumber s);
          refused = Inl (RequestError (name @ '' must be a positive integer'') 500) in
      (case safeInteger parsed of
         None \<Rightarrow> refused
       | Some n \<Rightarrow> if n \<le> 0 then refused else Inr n))"

text \<open>\<^verbatim>\<open>BigInt(text)\<close>: \<open>None\<close> is its \<^verbatim>\<open>SyntaxError\<close>.\<close>

definition signedDigits :: "string \<Rightarrow> int option" where
  "signedDigits s = (case s of
     [] \<Rightarrow> None
   | c # ds \<Rightarrow>
       if c = CHR ''-'' then (if isDigits ds then Some (- int (digitsValue ds)) else None)
       else if c = CHR ''+'' then (if isDigits ds then Some (int (digitsValue ds)) else None)
       else if isDigits s then Some (int (digitsValue s)) else None)"

definition bigIntText :: "string \<Rightarrow> int option" where
  "bigIntText text = (let s = trim text; p = take 2 s; r = drop 2 s in
     if s = [] then Some 0
     else if p = ''0x'' \<or> p = ''0X'' then map_option int (baseValue 16 r)
     else if p = ''0o'' \<or> p = ''0O'' then map_option int (baseValue 8 r)
     else if p = ''0b'' \<or> p = ''0B'' then map_option int (baseValue 2 r)
     else signedDigits s)"

definition DEFAULT_MAX_RESOURCE_FEE_STROOPS :: int where "DEFAULT_MAX_RESOURCE_FEE_STROOPS = 1000000"
definition DEFAULT_MAX_TOTAL_FEE_STROOPS :: int where "DEFAULT_MAX_TOTAL_FEE_STROOPS = 1100000"

definition maxResourceFee :: "proxy_settings \<Rightarrow> int presult" where
  "maxResourceFee V =
     (let refused = Inl (RequestError ''MAX_RESOURCE_FEE_STROOPS must be a non-negative integer'' 500) in
      (case pvMaxResourceFee V of
         None \<Rightarrow> Inr DEFAULT_MAX_RESOURCE_FEE_STROOPS
       | Some s \<Rightarrow> (case bigIntText s of
           None \<Rightarrow> refused
         | Some value \<Rightarrow> if value < 0 then refused else Inr value)))"

definition maxTotalFee :: "proxy_settings \<Rightarrow> int presult" where
  "maxTotalFee V =
     (let refused = Inl (RequestError ''MAX_TOTAL_FEE_STROOPS must be a non-negative integer'' 500) in
      (case pvMaxTotalFee V of
         None \<Rightarrow> Inr DEFAULT_MAX_TOTAL_FEE_STROOPS
       | Some s \<Rightarrow> (case bigIntText s of
           None \<Rightarrow> refused
         | Some value \<Rightarrow> if value < 0 then refused else Inr value)))"

definition networkPassphrase :: "proxy_settings \<Rightarrow> string presult" where
  "networkPassphrase V =
     (if pvNetwork V = ''testnet'' then Inr ''Test SDF Network ; September 2015''
      else if pvNetwork V = ''mainnet'' then Inr ''Public Global Stellar Network ; September 2015''
      else Inl (RequestError ''NETWORK must be testnet or mainnet'' 500))"

definition isHashText :: "string \<Rightarrow> bool" where
  "isHashText h \<longleftrightarrow> length h = 64 \<and> list_all (\<lambda>c. c \<in> set hexDigits) h"

definition wasmHashSet :: "string option \<Rightarrow> string \<Rightarrow> string list presult" where
  "wasmHashSet value name = (let hashes = csvSet value True in
     if list_all isHashText hashes then Inr hashes
     else Inl (RequestError (name @ '' contains an invalid hash'') 500))"

definition allowedWasmHashes :: "proxy_settings \<Rightarrow> string list presult" where
  "allowedWasmHashes V = wasmHashSet (pvAccountHashes V) ''ALLOWED_ACCOUNT_WASM_HASHES''"

definition allowedDeployWasmHashes :: "proxy_settings \<Rightarrow> string list presult" where
  "allowedDeployWasmHashes V = (if trim (orEmpty (pvDeployHashes V)) = [] then allowedWasmHashes V
     else wasmHashSet (pvDeployHashes V) ''ALLOWED_DEPLOY_WASM_HASHES'')"

section \<open>The world of the worker\<close>

datatype submission_body = XdrBody string | FuncBody string "string list"

text \<open>What is simulated: a call on the zero account, or a signed envelope.\<close>

datatype simulated_call = SimulateFunc host_function "auth_entry list" | SimulateSigned string

datatype proxy_effect =
    PxLimiter string
  | PxLedgerEntries string
  | PxSimulate simulated_call
  | PxKvGet string
  | PxKvPut string string
  | PxKvDelete string
  | PxGenerate
  | PxSubmit string submission_body
  | PxFriendbot string

record rate_state =
  rsStartedAt :: int
  rsCount :: nat

record proxy_world =
  pwKv :: "string \<Rightarrow> string option"
  pwRates :: "string \<Rightarrow> rate_state option"
  pwTrace :: "proxy_effect list"

text \<open>\<^verbatim>\<open>SorobanTransactionData\<close>: the resource fee and the footprint, its keys as their encodings.\<close>

record soroban_data =
  sdResourceFee :: int
  sdReadOnly :: "buffer list"
  sdReadWrite :: "buffer list"

text \<open>
  A decoded transaction envelope: its operations with their own sources, its hash and signatures, and
  the Soroban data of a version 1 envelope that has them.
\<close>

record decoded_tx =
  dtSource :: string
  dtFee :: nat
  dtOps :: "(string option \<times> operation) list"
  dtHash :: buffer
  dtSignatures :: "buffer list"
  dtData :: "soroban_data option"

datatype ledger_answer = LedgerThrows | NoLedgerEntry | LedgerInstance executable

text \<open>A simulation; on success its minimum fee as text and its resource data, where they can be built.\<close>

datatype simulation = SimulationFailed | SimulationRestore | SimulationOk string "soroban_data option"

record submit_reply =
  spTransactionId :: "string option"
  spHash :: "string option"
  spStatus :: "string option"

text \<open>
  The services: the clock, failures of the limiter and of the key-value namespace, the ledger entry of
  a contract, simulations, the key generator (whether the response was ok, and its text), the relayer
  and Friendbot. \<open>None\<close> is a request that throws, where the code does not look at the error.
\<close>

record proxy_services =
  svcNow :: "proxy_effect list \<Rightarrow> int"
  svcLimiterFault :: "proxy_effect list \<Rightarrow> proxy_error option"
  svcLedger :: "proxy_effect list \<Rightarrow> string \<Rightarrow> ledger_answer"
  svcSimulate :: "proxy_effect list \<Rightarrow> simulated_call \<Rightarrow> simulation presult"
  svcKvFault :: "proxy_effect list \<Rightarrow> proxy_error option"
  svcGenerate :: "proxy_effect list \<Rightarrow> (bool \<times> string) option"
  svcSubmit :: "proxy_effect list \<Rightarrow> string \<Rightarrow> submission_body \<Rightarrow> submit_reply presult"
  svcFriendbot :: "proxy_effect list \<Rightarrow> bool option"

text \<open>
  The decoders: JSON, base64 XDR of functions, entries and envelopes (\<open>None\<close> where they throw, and for
  a fee-bump envelope), the check of a signature by an account, and whether the Channels client has
  the HTTP client that the worker configures.
\<close>

record proxy_codec =
  pcSdk :: sdk
  pcParse :: "string \<Rightarrow> json option"
  pcStringify :: "json \<Rightarrow> string"
  pcHostFunction :: "string \<Rightarrow> host_function option"
  pcAuthEntry :: "string \<Rightarrow> auth_entry option"
  pcTransaction :: "string \<Rightarrow> string \<Rightarrow> decoded_tx option"
  pcVerify :: "string \<Rightarrow> buffer \<Rightarrow> buffer \<Rightarrow> bool"
  pcHttpClient :: bool

record proxy =
  prSettings :: proxy_settings
  prServices :: proxy_services
  prCodec :: proxy_codec

section \<open>Computations\<close>

type_synonym 'a pact = "proxy_world \<Rightarrow> 'a presult \<times> proxy_world"

definition returnP :: "'a \<Rightarrow> 'a pact" where
  "returnP x w = (Inr x, w)"

definition liftP :: "'a presult \<Rightarrow> 'a pact" where
  "liftP r w = (r, w)"

definition bindP :: "'a pact \<Rightarrow> ('a \<Rightarrow> 'b pact) \<Rightarrow> 'b pact" where
  "bindP m f w = (case m w of (r, w') \<Rightarrow> (case r of Inl e \<Rightarrow> (Inl e, w') | Inr x \<Rightarrow> f x w'))"

definition settleP :: "'a pact \<Rightarrow> 'a presult pact" where
  "settleP m w = (case m w of (r, w') \<Rightarrow> (Inr r, w'))"

definition requestP :: "proxy_effect \<Rightarrow> (proxy_effect list \<Rightarrow> 'a presult) \<Rightarrow> 'a pact" where
  "requestP x answer w = (answer (pwTrace w), w\<lparr>pwTrace := pwTrace w @ [x]\<rparr>)"

fun forP :: "('a \<Rightarrow> unit pact) \<Rightarrow> 'a list \<Rightarrow> unit pact" where
  "forP f [] = returnP ()"
| "forP f (x # xs) = bindP (f x) (\<lambda>_. forP f xs)"

named_theorems pact_simps \<open>the result and the world of a computation of the worker\<close>

lemma runP_simps [pact_simps]:
  "returnP y w = (Inr y, w)" "liftP r w = (r, w)" "settleP m w = (Inr (fst (m w)), snd (m w))"
  "requestP x a w = (a (pwTrace w), w\<lparr>pwTrace := pwTrace w @ [x]\<rparr>)"
  by (simp_all add: returnP_def liftP_def settleP_def requestP_def split: prod.splits)

lemma bindP_Inr [pact_simps]:
  "bindP m f w = (Inr y, w') \<longleftrightarrow> (\<exists>x w1. m w = (Inr x, w1) \<and> f x w1 = (Inr y, w'))"
  by (auto simp: bindP_def split: prod.splits sum.splits)

lemma bindP_Inl:
  "bindP m f w = (Inl e, w') \<longleftrightarrow> m w = (Inl e, w') \<or> (\<exists>x w1. m w = (Inr x, w1) \<and> f x w1 = (Inl e, w'))"
  by (auto simp: bindP_def split: prod.splits sum.splits)

lemma bindP_cases:
  assumes "bindP m f w = (r, w')"
  obtains e where "m w = (Inl e, w')" "r = Inl e" | x w1 where "m w = (Inr x, w1)" "f x w1 = (r, w')"
  using assms by (auto simp: bindP_def split: prod.splits sum.splits)

text \<open>
  \<open>emits X m\<close>: however \<open>m\<close> ends, it only appends effects of \<open>X\<close> to the trace.
\<close>

definition emits :: "(proxy_effect \<Rightarrow> bool) \<Rightarrow> 'a pact \<Rightarrow> bool" where
  "emits X m \<longleftrightarrow> (\<forall>w. \<exists>es. pwTrace (snd (m w)) = pwTrace w @ es \<and> list_all X es)"

named_theorems emits_rules \<open>rules for \<open>emits\<close>\<close>

lemma emitsD: "emits X m \<Longrightarrow> m w = (r, w') \<Longrightarrow> \<exists>es. pwTrace w' = pwTrace w @ es \<and> list_all X es"
  by (metis emits_def snd_conv)

lemma emits_basic [emits_rules]: "emits X (returnP x)" "emits X (liftP r)"
  by (simp_all add: emits_def runP_simps)

lemma emits_request [emits_rules]: "X x \<Longrightarrow> emits X (requestP x a)"
  by (simp add: emits_def runP_simps)

lemma emits_settle [emits_rules]: "emits X m \<Longrightarrow> emits X (settleP m)"
  by (simp add: emits_def runP_simps)

lemma emits_bind [emits_rules]:
  assumes "emits X m" "\<And>x. emits X (f x)"
  shows "emits X (bindP m f)"
  unfolding emits_def
proof
  fix w
  obtain r w1 where m: "m w = (r, w1)" by (cases "m w")
  obtain es where es: "pwTrace w1 = pwTrace w @ es" "list_all X es" using emitsD [OF assms(1) m] by blast
  show "\<exists>es. pwTrace (snd (bindP m f w)) = pwTrace w @ es \<and> list_all X es"
  proof (cases r)
    case (Inr x)
    obtain r2 w2 where f: "f x w1 = (r2, w2)" by (cases "f x w1")
    then obtain es2 where "pwTrace w2 = pwTrace w1 @ es2" "list_all X es2" using emitsD [OF assms(2) f] by blast
    with m f es Inr show ?thesis by (simp add: bindP_def)
  qed (use m es in \<open>simp add: bindP_def\<close>)
qed

lemma emits_forP [emits_rules]: "(\<And>x. emits X (f x)) \<Longrightarrow> emits X (forP f xs)"
  by (induction xs) (auto intro: emits_rules)

section \<open>The rate limiter\<close>

text \<open>
  \<^verbatim>\<open>RequestRateLimiter\<close>: a fixed window. The numbers arrive as the decimal texts of numbers, which read
  back as the same numbers. Times are integers of milliseconds; the waiting time is exact for windows
  below \<open>2 ^ 43\<close> of them.
\<close>

record rate_decision =
  rdAllowed :: bool
  rdRetryAfter :: int

definition retryAfterSeconds :: "int \<Rightarrow> int" where
  "retryAfterSeconds ms = max 1 (- (- ms div 1000))"

definition limiterDecide :: "int \<Rightarrow> int \<Rightarrow> int \<Rightarrow> rate_state option \<Rightarrow> rate_decision \<times> rate_state option" where
  "limiterDecide limit windowMs now stored =
     (let fresh = \<lparr>rsStartedAt = now, rsCount = 0\<rparr>;
          current = (case stored of None \<Rightarrow> fresh
            | Some s \<Rightarrow> if windowMs \<le> now - rsStartedAt s then fresh else s) in
      if limit \<le> int (rsCount current)
      then (\<lparr>rdAllowed = False, rdRetryAfter = retryAfterSeconds (rsStartedAt current + windowMs - now)\<rparr>, stored)
      else (\<lparr>rdAllowed = True, rdRetryAfter = 0\<rparr>, Some (current\<lparr>rsCount := Suc (rsCount current)\<rparr>)))"

definition limiterFetch ::
    "jsnum \<Rightarrow> jsnum \<Rightarrow> int \<Rightarrow> rate_state option \<Rightarrow> (rate_decision \<times> rate_state option) option" where
  "limiterFetch limit windowMs now stored = (case (safeInteger limit, safeInteger windowMs) of
     (Some l, Some m) \<Rightarrow> if l \<le> 0 \<or> m \<le> 0 then None else Some (limiterDecide l m now stored)
   | _ \<Rightarrow> None)"

definition rateDecision :: "proxy_services \<Rightarrow> string \<Rightarrow> int \<Rightarrow> jsnum \<Rightarrow> rate_decision pact" where
  "rateDecision S name limit windowMs w =
     (let t = pwTrace w; w1 = w\<lparr>pwTrace := t @ [PxLimiter name]\<rparr> in
      (case svcLimiterFault S t of
         Some e \<Rightarrow> (Inl e, w1)
       | None \<Rightarrow> (case limiterFetch (Fin (of_int limit)) windowMs (svcNow S t) (pwRates w name) of
           None \<Rightarrow> (Inl (RequestError ''Rate limiter is unavailable'' 503), w1)
         | Some (d, s) \<Rightarrow> (Inr d, w1\<lparr>pwRates := (pwRates w)(name := s)\<rparr>))))"

definition GLOBAL_RATE_LIMITER :: string where "GLOBAL_RATE_LIMITER = ''global''"

definition ipLimiter :: "string \<Rightarrow> string" where "ipLimiter ip = ''ip:'' @ ip"

definition DEFAULT_RATE_LIMIT_WINDOW_SECONDS :: nat where "DEFAULT_RATE_LIMIT_WINDOW_SECONDS = 60"
definition DEFAULT_RATE_LIMIT_PER_IP :: nat where "DEFAULT_RATE_LIMIT_PER_IP = 10"
definition DEFAULT_RATE_LIMIT_GLOBAL :: nat where "DEFAULT_RATE_LIMIT_GLOBAL = 100"

text \<open>
  Both limiters are asked at once: the request to the second is made even when the first refuses or
  fails, and the failure of the first is the one reported when both fail.
\<close>

definition enforceRateLimit :: "proxy \<Rightarrow> string \<Rightarrow> int option pact" where
  "enforceRateLimit P ip = (let V = prSettings P in
     bindP (liftP (positiveSetting (pvWindowSeconds V) DEFAULT_RATE_LIMIT_WINDOW_SECONDS ''RATE_LIMIT_WINDOW_SECONDS'')) (\<lambda>seconds.
     bindP (liftP (positiveSetting (pvGlobal V) DEFAULT_RATE_LIMIT_GLOBAL ''RATE_LIMIT_GLOBAL'')) (\<lambda>globalLimit.
     bindP (settleP (rateDecision (prServices P) GLOBAL_RATE_LIMITER globalLimit (toDouble (nat (seconds * 1000))))) (\<lambda>global.
     bindP (liftP (positiveSetting (pvPerIp V) DEFAULT_RATE_LIMIT_PER_IP ''RATE_LIMIT_PER_IP'')) (\<lambda>ipLimit.
     bindP (settleP (rateDecision (prServices P) (ipLimiter ip) ipLimit (toDouble (nat (seconds * 1000))))) (\<lambda>perIp.
     bindP (liftP global) (\<lambda>globalDecision.
     bindP (liftP perIp) (\<lambda>ipDecision.
       returnP (if rdAllowed globalDecision \<and> rdAllowed ipDecision then None
         else Some (max (rdRetryAfter globalDecision) (rdRetryAfter ipDecision)))))))))))"

section \<open>What the limiter lets through\<close>

text \<open>
  The times it allows of a sequence of requests, and the reference: the requests fall into windows,
  each opened by the first request after the one before has ended, and of each window the first
  \<open>limit\<close> requests pass.
\<close>

fun allowedTimes :: "int \<Rightarrow> int \<Rightarrow> int list \<Rightarrow> rate_state option \<Rightarrow> int list" where
  "allowedTimes limit windowMs [] stored = []"
| "allowedTimes limit windowMs (now # later) stored =
     (case limiterDecide limit windowMs now stored of (decision, stored') \<Rightarrow>
        (if rdAllowed decision then [now] else []) @ allowedTimes limit windowMs later stored')"

function (sequential) windowsOf :: "int \<Rightarrow> int list \<Rightarrow> int list list" where
  "windowsOf windowMs [] = []"
| "windowsOf windowMs (start # later) =
     (start # takeWhile (\<lambda>t. t - start < windowMs) later) #
     windowsOf windowMs (dropWhile (\<lambda>t. t - start < windowMs) later)"
  by pat_completeness auto

termination
  by (relation "measure (length \<circ> snd)") (auto simp: less_Suc_eq_le length_dropWhile_le)

lemma allowedTimes_window:
  assumes "int c \<le> limit" "0 < limit"
  shows "allowedTimes limit windowMs ts (Some \<lparr>rsStartedAt = start, rsCount = c\<rparr>) =
    take (nat limit - c) (takeWhile (\<lambda>t. t - start < windowMs) ts) @
    allowedTimes limit windowMs (dropWhile (\<lambda>t. t - start < windowMs) ts) None"
  using assms(1)
proof (induction ts arbitrary: c)
  case (Cons t ts)
  show ?case
  proof (cases "t - start < windowMs")
    case True
    show ?thesis
    proof (cases "limit \<le> int c")
      case True
      with Cons.prems have "nat limit - c = 0" by simp
      with \<open>t - start < windowMs\<close> True Cons.IH [OF Cons.prems] show ?thesis by (simp add: limiterDecide_def Let_def)
    next
      case False
      then have "nat limit - c = Suc (nat limit - Suc c)" "int (Suc c) \<le> limit" by auto
      with \<open>t - start < windowMs\<close> False Cons.IH [of "Suc c"] show ?thesis by (simp add: limiterDecide_def Let_def)
    qed
  next
    case False
    then show ?thesis using assms(2) by (simp add: limiterDecide_def Let_def)
  qed
qed simp

lemma served_eq:
  assumes "0 < limit"
  shows "allowedTimes limit windowMs ts None = concat (map (take (nat limit)) (windowsOf windowMs ts))"
proof (induction windowMs ts rule: windowsOf.induct)
  case (2 m start later)
  have "nat limit = Suc (nat limit - 1)" using assms(1) by simp
  moreover have "allowedTimes limit m (start # later) None =
      start # allowedTimes limit m later (Some \<lparr>rsStartedAt = start, rsCount = 1\<rparr>)"
    using assms(1) by (simp add: limiterDecide_def Let_def)
  ultimately show ?case using 2 allowedTimes_window [of 1 limit m later start] assms(1)
    by (metis (no_types, lifting) append_Cons concat.simps(2) list.simps(9) take_Suc_Cons of_nat_1 int_one_le_iff_zero_less windowsOf.simps(2))
qed simp

text \<open>
  C33. Equivalence: started without a state, the limiter allows of any sequence of requests, whatever
  their times, exactly the first \<open>limit\<close> of every window.
\<close>

theorem limiter_serves_windows:
  assumes "0 < limit"
  shows "allowedTimes limit windowMs ts None = concat (map (take (nat limit)) (windowsOf windowMs ts))"
  by (rule served_eq [OF assms])

lemma limiter_serves_windows_witness: "allowedTimes 2 10 [0, 1, 2, 12, 13] None = [0, 1, 12, 13]"
  using limiter_serves_windows [of 2 10 "[0, 1, 2, 12, 13]"] by (simp add: numeral_eq_Suc)

text \<open>How many of some times lie in the span of \<open>windowMs\<close> from \<open>a\<close>.\<close>

definition inSpan :: "int \<Rightarrow> int \<Rightarrow> int list \<Rightarrow> nat" where
  "inSpan windowMs a ts = length (filter (\<lambda>t. a \<le> t \<and> t < a + windowMs) ts)"

lemma inSpan_take: "inSpan m a (take n ts) \<le> n"
  unfolding inSpan_def by (metis length_filter_le length_take min.cobounded2 order.trans)

lemma inSpan_append [simp]: "inSpan m a (xs @ ys) = inSpan m a xs + inSpan m a ys"
  by (simp add: inSpan_def)

lemma inSpan_none: "(\<And>t. t \<in> set ts \<Longrightarrow> t < a \<or> a + m \<le> t) \<Longrightarrow> inSpan m a ts = 0"
  by (auto simp: inSpan_def filter_empty_conv) fastforce

lemma windowsOf_members: "w \<in> set (windowsOf m ts) \<Longrightarrow> set w \<subseteq> set ts"
  by (induction m ts arbitrary: w rule: windowsOf.induct) (auto dest: set_takeWhileD set_dropWhileD)

lemma served_members: "set (concat (map (take n) (windowsOf m ts))) \<subseteq> set ts"
  using windowsOf_members by (fastforce dest: in_set_takeD)

lemma later_windows:
  fixes m :: int
  assumes "sorted (start # later)" "t \<in> set (dropWhile (\<lambda>t. t - start < m) later)"
  shows "start + m \<le> t"
proof -
  from assms(2) obtain x xs where d: "dropWhile (\<lambda>t. t - start < m) later = x # xs" by (cases "dropWhile (\<lambda>t. t - start < m) later") auto
  have "start + m \<le> x" using hd_dropWhile [of "\<lambda>t. t - start < m" later] d by simp
  moreover have "sorted (x # xs)" using assms(1) d sorted_wrt_dropWhile by (metis sorted_wrt.simps(2) sorted_dropWhile)
  ultimately show ?thesis using assms(2) d by auto
qed

text \<open>A span that starts no later than the first request meets one window only.\<close>

lemma inSpan_first:
  assumes "sorted (start # later)" "a \<le> start"
  shows "inSpan m a (concat (map (take n) (windowsOf m (start # later)))) \<le> n"
proof -
  let ?rest = "dropWhile (\<lambda>t. t - start < m) later"
  have "inSpan m a (concat (map (take n) (windowsOf m ?rest))) = 0"
    using served_members [of n m ?rest] later_windows [OF assms(1)] assms(2) by (intro inSpan_none) fastforce
  then show ?thesis using inSpan_take [of m a n] by simp
qed

lemma served_inSpan:
  assumes "sorted ts" "0 < n"
  shows "inSpan m a (concat (map (take n) (windowsOf m ts))) \<le> 2 * n - 1"
  using assms
proof (induction m ts rule: windowsOf.induct)
  case (1 m)
  show ?case by (simp add: inSpan_def)
next
  case (2 m start later)
  let ?first = "start # takeWhile (\<lambda>t. t - start < m) later" and ?rest = "dropWhile (\<lambda>t. t - start < m) later"
  have rest: "sorted ?rest" using 2 by (simp add: sorted_dropWhile)
  have s: "inSpan m a (concat (map (take n) (windowsOf m (start # later)))) =
      inSpan m a (take n ?first) + inSpan m a (concat (map (take n) (windowsOf m ?rest)))" by simp
  show ?case
  proof (cases "a < start + m")
    case True
    show ?thesis
    proof (cases "a \<le> start")
      case True
      show ?thesis using inSpan_first [OF 2(2) True, of m n] 2(3) by simp
    next
      case False
      obtain k where k: "n = Suc k" using 2(3) by (cases n) auto
      have f: "inSpan m a (take n ?first) \<le> k"
        using False inSpan_take [of m a k "takeWhile (\<lambda>t. t - start < m) later"] by (simp add: k inSpan_def)
      have "inSpan m a (concat (map (take n) (windowsOf m ?rest))) \<le> n"
      proof (cases ?rest)
        case Nil
        then show ?thesis by (simp only: Nil windowsOf.simps list.map concat.simps) (simp add: inSpan_def)
      next
        case (Cons x xs)
        then have "a \<le> x" using later_windows [OF 2(2), of x m] True by simp
        then show ?thesis using inSpan_first [of x xs a m n] rest Cons by simp
      qed
      with s f k show ?thesis by linarith
    qed
  next
    case False
    have "inSpan m a (take n ?first) = 0"
      using False 2 by (intro inSpan_none) (auto dest!: in_set_takeD set_takeWhileD)
    then show ?thesis using s 2 rest by simp
  qed
qed

text \<open>
  While the clock does not run backwards, no span of time as long as the window, wherever it
  starts, holds twice the limit of allowed requests: one less at most.
\<close>

theorem limiter_bounds_every_span:
  assumes "0 < limit" "0 < windowMs" "sorted ts"
  shows "inSpan windowMs a (allowedTimes limit windowMs ts None) \<le> 2 * nat limit - 1"
proof -
  have "allowedTimes limit windowMs ts None = concat (map (take (nat limit)) (windowsOf windowMs ts))"
    by (rule served_eq [OF assms(1)])
  then show ?thesis using served_inSpan [OF assms(3), of "nat limit"] assms(1) by simp
qed

text \<open>The bound is reached: one request at the end of a window and two at the start of the next.\<close>

lemma limiter_bounds_every_span_witness:
  "inSpan 10 8 (allowedTimes 2 10 [0, 9, 9, 10, 10, 11] None) \<le> 3 \<and>
   inSpan 10 8 (allowedTimes 2 10 [0, 9, 9, 10, 10, 11] None) = 3"
  using limiter_bounds_every_span [of 2 10 "[0, 9, 9, 10, 10, 11]" 8] by (simp add: limiterDecide_def Let_def inSpan_def)

end
