(* ===== verification/Kit_ProxyChecks.thy ===== *)
theory Kit_ProxyChecks
  imports Kit_ProxyState
begin

text \<open>
  The checks a submission passes before the worker reads an API key: the shape of the body, and for
  each kind of submission what it creates or calls, who authorizes it, and what it may cost. Also
  \<^verbatim>\<open>soroban-data.ts\<close>, the comparison of declared with simulated resources.
\<close>

section \<open>The body\<close>

definition MAX_AUTH_ENTRIES :: nat where "MAX_AUTH_ENTRIES = 8"

text \<open>Texts that are not empty: \<^verbatim>\<open>typeof v === "string" && v.length > 0\<close>.\<close>

definition filledText :: "json option \<Rightarrow> string option" where
  "filledText v = (case v of Some (JStr s) \<Rightarrow> if s = [] then None else Some s | _ \<Rightarrow> None)"

fun filledTexts :: "json list \<Rightarrow> string list option" where
  "filledTexts [] = Some []"
| "filledTexts (v # vs) = (case (filledText (Some v), filledTexts vs) of
     (Some s, Some ss) \<Rightarrow> Some (s # ss) | _ \<Rightarrow> None)"

definition funcAuth :: "json \<Rightarrow> (string \<times> string list) option" where
  "funcAuth body = (case (filledText (field ''func'' body), arrayOf (field ''auth'' body)) of
     (Some func, Some (v # vs)) \<Rightarrow> map_option (\<lambda>auth. (func, auth)) (filledTexts (v # vs))
   | _ \<Rightarrow> None)"

definition readSubmission :: "(string \<times> json) list \<Rightarrow> submission_body presult" where
  "readSubmission fs = (case (filledText (field ''xdr'' (JObj fs)), funcAuth (JObj fs)) of
     (None, None) \<Rightarrow> badRequest ''Request must include 'xdr' OR ('func' and 'auth')''
   | (Some xdr, Some fa) \<Rightarrow> badRequest ''Request must include 'xdr' OR ('func' and 'auth'), not both''
   | (Some xdr, None) \<Rightarrow>
       if list_ex (\<lambda>key. key \<noteq> ''xdr'') (map fst fs) then badRequest ''The xdr mode accepts only the 'xdr' field''
       else Inr (XdrBody xdr)
   | (None, Some (func, auth)) \<Rightarrow>
       if list_ex (\<lambda>key. key \<noteq> ''func'' \<and> key \<noteq> ''auth'') (map fst fs)
       then badRequest (''The func mode accepts only 'func' and 'auth'' @ [CHR 0x27])
       else if MAX_AUTH_ENTRIES < length auth
       then badRequest (''At most '' @ decimal MAX_AUTH_ENTRIES @ '' auth entries are allowed'')
       else Inr (FuncBody func auth))"

definition parseSubmissionBody :: "proxy_codec \<Rightarrow> string \<Rightarrow> submission_body presult" where
  "parseSubmissionBody C body = (case pcParse C body of
     None \<Rightarrow> badRequest ''Invalid JSON body''
   | Some (JObj fs) \<Rightarrow> readSubmission fs
   | Some v \<Rightarrow> badRequest ''Request body must be a JSON object'')"

section \<open>Addresses and bytes\<close>

definition proxyBytesEqual :: "buffer \<Rightarrow> buffer \<Rightarrow> bool" where
  "proxyBytesEqual left right \<longleftrightarrow> length left = length right \<and>
     list_all (\<lambda>i. left ! i = right ! i) [0 ..< length left]"

lemma proxyBytesEqual_eq [simp]: "proxyBytesEqual left right \<longleftrightarrow> left = right"
  unfolding proxyBytesEqual_def list_eq_iff_nth_eq [of left right] list_all_iff by auto

definition strkeyOf :: "sdk \<Rightarrow> scaddress \<Rightarrow> string presult" where
  "strkeyOf K address = (case fromScAddress K address of
     Some s \<Rightarrow> Inr s | None \<Rightarrow> Inl (PlainError ''Unsupported address type''))"

definition contractIdOf :: "sdk \<Rightarrow> scaddress \<Rightarrow> string \<Rightarrow> string presult" where
  "contractIdOf K address message = (case address of
     AddrContract b \<Rightarrow> strkeyOf K address | _ \<Rightarrow> forbidden message)"

definition accountOrContractIdOf :: "sdk \<Rightarrow> scaddress \<Rightarrow> string \<Rightarrow> string presult" where
  "accountOrContractIdOf K address message = (case address of
     AddrAccount b \<Rightarrow> strkeyOf K address | AddrContract b \<Rightarrow> strkeyOf K address | _ \<Rightarrow> forbidden message)"

definition requireP :: "bool \<Rightarrow> string \<Rightarrow> unit presult" where
  "requireP condition message = (if condition then Inr () else forbidden message)"

section \<open>Contracts on the ledger\<close>

definition ledgerEntry :: "proxy \<Rightarrow> string \<Rightarrow> string \<Rightarrow> executable option pact" where
  "ledgerEntry P contractId message = requestP (PxLedgerEntries contractId)
     (\<lambda>t. case svcLedger (prServices P) t contractId of
        LedgerThrows \<Rightarrow> Inl (RequestError message 503)
      | NoLedgerEntry \<Rightarrow> Inr None
      | LedgerInstance e \<Rightarrow> Inr (Some e))"

definition walletContractIsAllowed :: "proxy \<Rightarrow> string \<Rightarrow> bool pact" where
  "walletContractIsAllowed P contractId = (let V = prSettings P; K = pcSdk (prCodec P) in
     if \<not> isValidContract K contractId then returnP False
     else if contractId \<in> set (csvSet (pvWallets V) False) then returnP True
     else bindP (liftP (allowedWasmHashes V)) (\<lambda>hashes.
       if hashes = [] then returnP False
       else if pvRpcUrl V = []
       then liftP (Inl (RequestError ''STELLAR_RPC_URL is required for wallet verification'' 500))
       else bindP (ledgerEntry P contractId ''Could not verify wallet contract'') (\<lambda>entry.
         returnP (case entry of Some (ExecWasm h) \<Rightarrow> toHex h \<in> set hashes | _ \<Rightarrow> False))))"

definition tokenContractIsAllowed :: "proxy \<Rightarrow> string \<Rightarrow> bool pact" where
  "tokenContractIsAllowed P contractId = (let V = prSettings P in
     if contractId \<in> set (csvSet (pvTokens V) False) then returnP True
     else if pvRpcUrl V = []
     then liftP (Inl (RequestError ''STELLAR_RPC_URL is required for token verification'' 500))
     else bindP (ledgerEntry P contractId ''Could not verify token contract'') (\<lambda>entry.
       returnP (case entry of Some ExecStellarAsset \<Rightarrow> True | _ \<Rightarrow> False)))"

section \<open>What an entry authorizes\<close>

definition validateCall :: "sdk \<Rightarrow> string \<Rightarrow> auth_function \<Rightarrow> unit presult" where
  "validateCall K contractId fn = (case fn of
     ContractFn args \<Rightarrow>
       bindE (contractIdOf K (iaContract args) ''Auth entry target must be a contract'') (\<lambda>invokedContract.
         requireP (invokedContract = contractId) ''Auth entry targets a non-allowlisted contract'')
   | _ \<Rightarrow> forbidden ''Auth entries may authorize only wallet contract calls'')"

fun validateAuthorizedInvocation :: "sdk \<Rightarrow> string \<Rightarrow> invocation \<Rightarrow> unit presult"
  and validateInvocations :: "sdk \<Rightarrow> string \<Rightarrow> invocation list \<Rightarrow> unit presult" where
  "validateAuthorizedInvocation K contractId (Invocation fn subs) =
     bindE (validateCall K contractId fn) (\<lambda>_. validateInvocations K contractId subs)"
| "validateInvocations K contractId [] = Inr ()"
| "validateInvocations K contractId (child # children) =
     bindE (validateAuthorizedInvocation K contractId child) (\<lambda>_. validateInvocations K contractId children)"

definition walletAuthAddress :: "sdk \<Rightarrow> auth_entry \<Rightarrow> string presult" where
  "walletAuthAddress K entry = (let message = ''Auth credential address must be an account or contract'' in
     (case aeCredentials entry of
        CredAddress c \<Rightarrow> accountOrContractIdOf K (acAddress c) message
      | CredAddressV2 c \<Rightarrow> accountOrContractIdOf K (acAddress c) message
      | _ \<Rightarrow> forbidden ''Only address credentials are allowed for wallet auth''))"

section \<open>Deployments\<close>

text \<open>The contract type of a policy key is checked after its being an address.\<close>

fun validatePolicyKeys :: "sdk \<Rightarrow> (scval \<times> scval) list \<Rightarrow> unit presult" where
  "validatePolicyKeys K [] = Inr ()"
| "validatePolicyKeys K ((key, val) # entries) = (case key of
     ScvAddress a \<Rightarrow> bindE (contractIdOf K a ''Deploy policy key must be a contract address'') (\<lambda>_. validatePolicyKeys K entries)
   | _ \<Rightarrow> forbidden ''Deploy policy key must be a contract address'')"

definition validateKeyData :: "sdk \<Rightarrow> id_preimage \<Rightarrow> buffer \<Rightarrow> unit presult" where
  "validateKeyData K preimage keyData =
     bindE (requireP (65 < length keyData \<and> keyData ! 0 = 4) ''Deploy initial signer has invalid WebAuthn key data'') (\<lambda>_.
       (case preimage of
          FromAddress address salt \<Rightarrow>
            requireP (proxyBytesEqual (hash K (drop 65 keyData)) salt) ''Deploy salt does not match the signer credential id''
        | FromAsset b \<Rightarrow> Inl (PlainError ''fromAddress not set'')))"

definition validateDeployConstructor :: "sdk \<Rightarrow> create_args \<Rightarrow> unit presult" where
  "validateDeployConstructor K deploy = (case caConstructorArgs deploy of
     [ScvVec signers, ScvMap policies] \<Rightarrow>
       (case items signers of
          [ScvVec signer] \<Rightarrow>
            (case items signer of
               [ScvSymbol tag, ScvAddress verifier, ScvBytes keyData] \<Rightarrow>
                 if tag \<noteq> ''External'' then forbidden ''Deploy initial signer must be External''
                 else bindE (contractIdOf K verifier ''Deploy initial signer verifier must be a contract'') (\<lambda>_.
                   bindE (validateKeyData K (caPreimage deploy) keyData) (\<lambda>_. validatePolicyKeys K (items policies)))
             | _ \<Rightarrow> forbidden ''Deploy initial signer must be External'')
        | _ \<Rightarrow> forbidden ''Deploy must contain exactly one initial signer'')
   | _ \<Rightarrow> forbidden ''Deploy constructor has an invalid argument shape'')"

definition validateDeployer :: "sdk \<Rightarrow> proxy_settings \<Rightarrow> create_args \<Rightarrow> bool \<Rightarrow> string presult" where
  "validateDeployer K V deploy requireAllowedDeployer = (case caPreimage deploy of
     FromAddress address salt \<Rightarrow>
       bindE (accountOrContractIdOf K address ''Deploy preimage address must be an account or contract'') (\<lambda>deployer.
       bindE (requireP (\<not> requireAllowedDeployer \<or> deployer \<in> set (csvSet (pvDeployers V) False))
           ''Deploy preimage address is not allowlisted'') (\<lambda>_.
       bindE (validateDeployConstructor K deploy) (\<lambda>_. Inr deployer)))
   | FromAsset b \<Rightarrow> forbidden ''Deploy must use an address contract-id preimage'')"

definition validateDeployFunction :: "sdk \<Rightarrow> proxy_settings \<Rightarrow> host_function \<Rightarrow> bool \<Rightarrow> string presult" where
  "validateDeployFunction K V func requireAllowedDeployer = (case func of
     CreateContractV2 deploy \<Rightarrow>
       (case caExecutable deploy of
          ExecWasm h \<Rightarrow>
            bindE (allowedDeployWasmHashes V) (\<lambda>allowed.
            bindE (requireP (toHex h \<in> set allowed) ''Deploy WASM hash is not allowlisted'') (\<lambda>_.
              validateDeployer K V deploy requireAllowedDeployer))
        | _ \<Rightarrow> forbidden ''Deploy executable must be approved WASM'')
   | _ \<Rightarrow> forbidden ''Only createContractV2 deployments are allowed'')"

text \<open>The root of an entry is exactly this creation, without sub-invocations.\<close>

definition authorizesCreate :: "sdk \<Rightarrow> invocation \<Rightarrow> create_args \<Rightarrow> bool" where
  "authorizesCreate K rootInv deploy \<longleftrightarrow> subInvocations rootInv = [] \<and> (case invFunction rootInv of
     CreateContractV2HostFn c \<Rightarrow> proxyBytesEqual (createToXDR K c) (createToXDR K deploy)
   | _ \<Rightarrow> False)"

definition validateFuncDeploy :: "sdk \<Rightarrow> proxy_settings \<Rightarrow> create_args \<Rightarrow> auth_entry list \<Rightarrow> unit presult" where
  "validateFuncDeploy K V deploy auth = (case auth of
     [entry] \<Rightarrow>
       bindE (validateDeployFunction K V (CreateContractV2 deploy) True) (\<lambda>deployer.
         (case aeCredentials entry of
            CredAddress c \<Rightarrow>
              bindE (accountOrContractIdOf K (acAddress c) ''Deploy credential address must be an account or contract'') (\<lambda>signer.
                requireP (signer = deployer \<and> authorizesCreate K (aeRoot entry) deploy)
                  ''Deploy auth does not exactly match func and deployer'')
          | _ \<Rightarrow> forbidden ''Deploy requires V1 address credentials''))
   | _ \<Rightarrow> forbidden ''Deploy must contain exactly one auth entry'')"

section \<open>Calls\<close>

definition DEFAULT_WALLET_FUNCTIONS :: "string list" where
  "DEFAULT_WALLET_FUNCTIONS = [''execute'', ''upgrade'', ''add_policy'', ''remove_policy'', ''add_signer'', ''remove_signer'',
     ''add_context_rule'', ''remove_context_rule'', ''batch_add_signer'', ''update_context_rule_name'',
     ''update_context_rule_valid_until'']"

definition joinComma :: "string list \<Rightarrow> string" where
  "joinComma xs = concat (map (\<lambda>x. CHR '','' # x) xs)"

definition walletFunctions :: "proxy_settings \<Rightarrow> string list" where
  "walletFunctions V = csvSet (case pvFunctions V of Some s \<Rightarrow> Some s
     | None \<Rightarrow> Some (drop 1 (joinComma DEFAULT_WALLET_FUNCTIONS))) False"

text \<open>The root of an entry is a contract call with the encoding of this one.\<close>

definition sameCall :: "sdk \<Rightarrow> invocation \<Rightarrow> invoke_args \<Rightarrow> bool" where
  "sameCall K rootInv invoke = (case invFunction rootInv of
     ContractFn args \<Rightarrow> proxyBytesEqual (invokeToXDR K args) (invokeToXDR K invoke) | _ \<Rightarrow> False)"

definition validateWalletEntry :: "sdk \<Rightarrow> string \<Rightarrow> invoke_args \<Rightarrow> auth_entry \<Rightarrow> unit presult" where
  "validateWalletEntry K contractId invoke entry =
     bindE (walletAuthAddress K entry) (\<lambda>signer.
     bindE (requireP (signer = contractId) ''Auth credential is not for the invoked wallet'') (\<lambda>_.
     bindE (validateAuthorizedInvocation K contractId (aeRoot entry)) (\<lambda>_.
       requireP (sameCall K (aeRoot entry) invoke) ''Auth root invocation does not match func'')))"

definition validateWalletInvocation :: "proxy \<Rightarrow> invoke_args \<Rightarrow> auth_entry list \<Rightarrow> unit pact" where
  "validateWalletInvocation P invoke auth = (let K = pcSdk (prCodec P) in
     bindP (liftP (contractIdOf K (iaContract invoke) ''Wallet invocation target must be a contract'')) (\<lambda>contractId.
     bindP (walletContractIsAllowed P contractId) (\<lambda>allowed.
     bindP (liftP (requireP allowed ''Wallet contract is not allowlisted'')) (\<lambda>_.
     bindP (liftP (requireP (iaFunction invoke \<in> set (walletFunctions (prSettings P))) ''Wallet function is not allowlisted'')) (\<lambda>_.
       forP (\<lambda>entry. liftP (validateWalletEntry K contractId invoke entry)) auth)))))"

text \<open>The conditions of the transfer are tested in this order; the ledger is asked only for the right wallet.\<close>

definition validateTransferEntry :: "proxy \<Rightarrow> string \<Rightarrow> invoke_args \<Rightarrow> auth_entry \<Rightarrow> unit pact" where
  "validateTransferEntry P wallet_from invoke entry = (let K = pcSdk (prCodec P); rootInv = aeRoot entry in
     bindP (liftP (walletAuthAddress K entry)) (\<lambda>wallet.
     bindP (if wallet \<noteq> wallet_from then returnP False else walletContractIsAllowed P wallet) (\<lambda>allowed.
       liftP (requireP (allowed \<and> subInvocations rootInv = [] \<and> sameCall K rootInv invoke)
         ''Transfer auth does not exactly match func and wallet''))))"

definition validateDirectTokenTransfer :: "proxy \<Rightarrow> invoke_args \<Rightarrow> auth_entry list \<Rightarrow> unit pact" where
  "validateDirectTokenTransfer P invoke auth = (let K = pcSdk (prCodec P) in
     bindP (liftP (requireP (length auth = 1) ''Transfer must contain exactly one auth entry'')) (\<lambda>_.
     bindP (liftP (case iaArgs invoke of
         [ScvAddress source, recipient, amount] \<Rightarrow> contractIdOf K source ''Token transfer source must be a contract''
       | _ \<Rightarrow> forbidden ''Token transfer has an invalid argument shape'')) (\<lambda>wallet_from.
     bindP (forP (validateTransferEntry P wallet_from invoke) auth) (\<lambda>_.
     bindP (liftP (contractIdOf K (iaContract invoke) ''Token transfer target must be a contract'')) (\<lambda>token.
     bindP (tokenContractIsAllowed P token) (\<lambda>allowed.
       liftP (requireP allowed ''Token contract is not allowed'')))))))"

section \<open>Costs\<close>

definition simulateWithinFeeCeiling :: "proxy \<Rightarrow> simulated_call \<Rightarrow> (int \<times> soroban_data option) pact" where
  "simulateWithinFeeCeiling P call = (let V = prSettings P in
     if pvRpcUrl V = [] then liftP (Inl (RequestError ''STELLAR_RPC_URL is required for fee validation'' 500))
     else bindP (requestP (PxSimulate call) (\<lambda>t. svcSimulate (prServices P) t call)) (\<lambda>simulated.
       liftP (case simulated of
          SimulationOk fee simData \<Rightarrow>
            (case bigIntText fee of
               None \<Rightarrow> Inl (PlainError (''Cannot convert '' @ fee @ '' to a BigInt''))
             | Some minResourceFee \<Rightarrow> bindE (maxResourceFee V) (\<lambda>ceiling.
                 if ceiling < minResourceFee then Inl (RequestError ''Resource fee exceeds configured maximum'' 413)
                 else Inr (minResourceFee, simData)))
        | _ \<Rightarrow> badRequest ''Submission simulation failed'')))"

definition decodeFunc :: "proxy_codec \<Rightarrow> string \<Rightarrow> string list \<Rightarrow> (host_function \<times> auth_entry list) presult" where
  "decodeFunc C func auth = (case (pcHostFunction C func, those (map (pcAuthEntry C) auth)) of
     (Some f, Some entries) \<Rightarrow> Inr (f, entries) | _ \<Rightarrow> badRequest ''func/auth contains invalid XDR'')"

definition validateCallOrDeploy :: "proxy \<Rightarrow> host_function \<Rightarrow> auth_entry list \<Rightarrow> unit pact" where
  "validateCallOrDeploy P func auth = (case func of
     CreateContractV2 deploy \<Rightarrow> liftP (validateFuncDeploy (pcSdk (prCodec P)) (prSettings P) deploy auth)
   | InvokeContract invoke \<Rightarrow>
       if iaFunction invoke = ''transfer'' then validateDirectTokenTransfer P invoke auth
       else validateWalletInvocation P invoke auth
   | _ \<Rightarrow> liftP (forbidden ''Only invokeContract and createContractV2 host functions are allowed''))"

definition validateFuncSubmission :: "proxy \<Rightarrow> string \<Rightarrow> string list \<Rightarrow> unit pact" where
  "validateFuncSubmission P func auth =
     bindP (liftP (decodeFunc (prCodec P) func auth)) (\<lambda>(f, entries).
     bindP (validateCallOrDeploy P f entries) (\<lambda>_.
     bindP (liftP (networkPassphrase (prSettings P))) (\<lambda>_.
     bindP (simulateWithinFeeCeiling P (SimulateFunc f entries)) (\<lambda>_. returnP ()))))"

section \<open>Signed envelopes\<close>

definition SHARED_DEPLOYER :: "sdk \<Rightarrow> string" where
  "SHARED_DEPLOYER K = publicKeyOfSeed K (hash K (utf8 ''openzeppelin-smart-account-kit''))"

definition validateSourceSignature :: "proxy_codec \<Rightarrow> decoded_tx \<Rightarrow> unit presult" where
  "validateSourceSignature C tx =
     bindE (requireP (isValidEd25519PublicKey (pcSdk C) (dtSource tx)) ''Deploy transaction source must be a G-address'') (\<lambda>_.
       requireP (list_ex (pcVerify C (dtSource tx) (dtHash tx)) (dtSignatures tx))
         ''Deploy transaction lacks a valid source signature'')"

definition validateXdrDeployAuth :: "sdk \<Rightarrow> create_args \<Rightarrow> auth_entry list \<Rightarrow> unit presult" where
  "validateXdrDeployAuth K deploy auth = (case auth of
     [entry] \<Rightarrow> (case aeCredentials entry of
         SourceAccount \<Rightarrow> requireP (authorizesCreate K (aeRoot entry) deploy) ''Deploy auth does not exactly match the operation''
       | _ \<Rightarrow> forbidden ''Signed xdr deploy requires source-account credentials'')
   | _ \<Rightarrow> forbidden ''Deploy must contain exactly one auth entry'')"

text \<open>\<^verbatim>\<open>soroban-data.ts\<close>: \<open>None\<close> is no problem.\<close>

definition DECLARED_RESOURCE_FEE_SLACK_STROOPS :: int where "DECLARED_RESOURCE_FEE_SLACK_STROOPS = 10000"

definition maxDeclaredResourceFee :: "int \<Rightarrow> int" where
  "maxDeclaredResourceFee minResourceFee = 2 * minResourceFee + DECLARED_RESOURCE_FEE_SLACK_STROOPS"

definition declaredSorobanDataProblem :: "soroban_data \<Rightarrow> soroban_data \<Rightarrow> int \<Rightarrow> string option" where
  "declaredSorobanDataProblem declared simulated minResourceFee =
     (if maxDeclaredResourceFee minResourceFee < sdResourceFee declared
      then Some ''Declared resource fee is too far above the simulated minimum''
      else if list_ex (\<lambda>key. key \<notin> set (sdReadWrite declared)) (sdReadWrite simulated)
      then Some ''Declared footprint is missing a simulated read-write key''
      else if list_ex (\<lambda>key. key \<notin> set (sdReadOnly declared) \<and> key \<notin> set (sdReadWrite declared)) (sdReadOnly simulated)
      then Some ''Declared footprint is missing a simulated read-only key''
      else None)"

text \<open>An unknown network is reported as an undecodable envelope, since it is read while decoding.\<close>

definition decodeEnvelope :: "proxy \<Rightarrow> string \<Rightarrow> decoded_tx presult" where
  "decodeEnvelope P xdr = (case networkPassphrase (prSettings P) of
     Inl e \<Rightarrow> badRequest ''xdr must be a signed transaction envelope''
   | Inr passphrase \<Rightarrow> (case pcTransaction (prCodec P) xdr passphrase of
       None \<Rightarrow> badRequest ''xdr must be a signed transaction envelope'' | Some tx \<Rightarrow> Inr tx))"

definition sourceConflict :: "string option \<Rightarrow> string \<Rightarrow> bool" where
  "sourceConflict operationSource source = (case operationSource of
     None \<Rightarrow> False | Some s \<Rightarrow> s \<noteq> [] \<and> s \<noteq> source)"

definition validateDeployOperation :: "proxy \<Rightarrow> decoded_tx \<Rightarrow> string option \<times> operation \<Rightarrow> unit presult" where
  "validateDeployOperation P tx operation = (let K = pcSdk (prCodec P) in (case operation of
     (operationSource, InvokeHostFunction func auth) \<Rightarrow>
       bindE (requireP (\<not> sourceConflict operationSource (dtSource tx)) ''Operation source must match transaction source'') (\<lambda>_.
       bindE (validateDeployFunction K (prSettings P) func False) (\<lambda>deployer.
       bindE (requireP (deployer = dtSource tx) ''Deploy preimage address is not the allowlisted source'') (\<lambda>_.
         (case func of
            CreateContractV2 deploy \<Rightarrow> validateXdrDeployAuth K deploy (items auth)
          | _ \<Rightarrow> Inl (PlainError ''createContractV2 not set'')))))
   | (operationSource, OtherOperation t) \<Rightarrow> forbidden ''Only invokeHostFunction deploy operations are allowed''))"

definition validateEnvelope :: "proxy \<Rightarrow> decoded_tx \<Rightarrow> soroban_data presult" where
  "validateEnvelope P tx = (let C = prCodec P; V = prSettings P in
     bindE (requireP (dtSource tx \<noteq> SHARED_DEPLOYER (pcSdk C)) ''Shared deployer may not source signed xdr'') (\<lambda>_.
     bindE (maxTotalFee V) (\<lambda>total.
       if total < int (dtFee tx) then Inl (RequestError ''Transaction fee exceeds configured maximum'' 413)
       else (case dtOps tx of
         [operation] \<Rightarrow>
           bindE (validateSourceSignature C tx) (\<lambda>_.
           bindE (validateDeployOperation P tx operation) (\<lambda>_.
             (case dtData tx of
                None \<Rightarrow> badRequest ''Deploy transaction is missing Soroban resource data''
              | Some declared \<Rightarrow> bindE (maxResourceFee V) (\<lambda>ceiling.
                  if ceiling < sdResourceFee declared
                  then Inl (RequestError ''Resource fee exceeds configured maximum'' 413)
                  else Inr declared))))
       | _ \<Rightarrow> forbidden ''Deploy transaction must contain exactly one operation''))))"

definition validateXdrSubmission :: "proxy \<Rightarrow> string \<Rightarrow> unit pact" where
  "validateXdrSubmission P xdr =
     bindP (liftP (decodeEnvelope P xdr)) (\<lambda>tx.
     bindP (liftP (validateEnvelope P tx)) (\<lambda>declared.
     bindP (simulateWithinFeeCeiling P (SimulateSigned xdr)) (\<lambda>(minResourceFee, built).
       liftP (case built of
          None \<Rightarrow> badRequest ''Submission simulation returned no resource data''
        | Some simulated \<Rightarrow> (case declaredSorobanDataProblem declared simulated minResourceFee of
            Some problem \<Rightarrow> badRequest problem | None \<Rightarrow> Inr ())))))"

definition validateSubmission :: "proxy \<Rightarrow> submission_body \<Rightarrow> unit pact" where
  "validateSubmission P body = (case body of
     XdrBody xdr \<Rightarrow> validateXdrSubmission P xdr
   | FuncBody func auth \<Rightarrow> validateFuncSubmission P func auth)"

section \<open>What the checks accept\<close>

lemma checks_ok [simp]:
  "forbidden m \<noteq> Inr x" "badRequest m \<noteq> Inr x" "requireP c m = Inr u \<longleftrightarrow> c"
  by (simp_all add: forbidden_def badRequest_def requireP_def)

lemma strkeyOf_ok [simp]: "strkeyOf K a = Inr s \<longleftrightarrow> fromScAddress K a = Some s"
  by (simp add: strkeyOf_def split: option.splits)

lemma contractIdOf_ok [simp]: "contractIdOf K a m = Inr s \<longleftrightarrow> (\<exists>b. a = AddrContract b) \<and> fromScAddress K a = Some s"
  by (cases a) (simp_all add: contractIdOf_def)

lemma accountOrContractIdOf_ok [simp]:
  "accountOrContractIdOf K a m = Inr s \<longleftrightarrow> ((\<exists>b. a = AddrAccount b) \<or> (\<exists>b. a = AddrContract b)) \<and> fromScAddress K a = Some s"
  by (cases a) (simp_all add: accountOrContractIdOf_def)

text \<open>The functions of all nodes of an invocation, and those that call one contract.\<close>

fun nodesOf :: "invocation \<Rightarrow> auth_function list" where
  "nodesOf (Invocation fn subs) = fn # concat (map nodesOf subs)"

definition callsContract :: "sdk \<Rightarrow> string \<Rightarrow> auth_function \<Rightarrow> bool" where
  "callsContract K contractId fn \<longleftrightarrow> (case fn of
     ContractFn args \<Rightarrow> (case iaContract args of AddrContract b \<Rightarrow> fromScAddress K (AddrContract b) = Some contractId | _ \<Rightarrow> False)
   | _ \<Rightarrow> False)"

lemma validateCall_ok: "validateCall K c fn = Inr u \<longleftrightarrow> callsContract K c fn"
proof (cases fn)
  case (ContractFn args)
  then show ?thesis by (cases "iaContract args") (auto simp: validateCall_def callsContract_def bindE_Inr)
qed (simp_all add: validateCall_def callsContract_def)

lemma validateInvocation_ok:
  "validateAuthorizedInvocation K c t = Inr u \<longleftrightarrow> list_all (callsContract K c) (nodesOf t)"
  "validateInvocations K c ts = Inr u \<longleftrightarrow> list_all (callsContract K c) (concat (map nodesOf ts))"
  by (induction K c t and K c ts rule: validateAuthorizedInvocation_validateInvocations.induct)
    (auto simp: bindE_Inr validateCall_ok)

lemma forP_lift: "forP (\<lambda>x. liftP (f x)) xs w = (Inr u, w') \<longleftrightarrow> w' = w \<and> (\<forall>x\<in>set xs. f x = Inr ())"
  by (induction xs arbitrary: w) (auto simp: pact_simps)

text \<open>
  \<open>runs P t c e\<close>: the ledger, asked during \<open>t\<close>, answered that the contract \<open>c\<close> runs \<open>e\<close>. A wallet is
  sponsored when it is listed or runs accepted code, a token when it is listed or of the network.
\<close>

definition runs :: "proxy \<Rightarrow> proxy_effect list \<Rightarrow> string \<Rightarrow> executable \<Rightarrow> bool" where
  "runs P t c e \<longleftrightarrow> (\<exists>n<length t. t ! n = PxLedgerEntries c \<and> svcLedger (prServices P) (take n t) c = LedgerInstance e)"

definition sponsoredWallet :: "proxy \<Rightarrow> proxy_effect list \<Rightarrow> string \<Rightarrow> bool" where
  "sponsoredWallet P t c \<longleftrightarrow> isValidContract (pcSdk (prCodec P)) c \<and>
     (c \<in> set (csvSet (pvWallets (prSettings P)) False) \<or>
      (\<exists>hashes h. allowedWasmHashes (prSettings P) = Inr hashes \<and> toHex h \<in> set hashes \<and> runs P t c (ExecWasm h)))"

definition sponsoredToken :: "proxy \<Rightarrow> proxy_effect list \<Rightarrow> string \<Rightarrow> bool" where
  "sponsoredToken P t c \<longleftrightarrow> c \<in> set (csvSet (pvTokens (prSettings P)) False) \<or> runs P t c ExecStellarAsset"

lemma sponsored_later:
  assumes "t' = t @ es"
  shows "sponsoredWallet P t c \<Longrightarrow> sponsoredWallet P t' c" "sponsoredToken P t c \<Longrightarrow> sponsoredToken P t' c"
proof -
  have "runs P t c e \<Longrightarrow> runs P t' c e" for e
    unfolding runs_def assms by (metis length_append nth_append take_append trans_less_add1 less_imp_le diff_is_0_eq take_0 append_Nil2)
  then show "sponsoredWallet P t c \<Longrightarrow> sponsoredWallet P t' c" "sponsoredToken P t c \<Longrightarrow> sponsoredToken P t' c"
    unfolding sponsoredWallet_def sponsoredToken_def by blast+
qed

lemma ledgerEntry_ok:
  assumes "ledgerEntry P c m w = (Inr (Some e), w')"
  shows "runs P (pwTrace w') c e"
proof -
  have "svcLedger (prServices P) (pwTrace w) c = LedgerInstance e" "pwTrace w' = pwTrace w @ [PxLedgerEntries c]"
    using assms by (auto simp: ledgerEntry_def runP_simps split: ledger_answer.splits)
  then show ?thesis unfolding runs_def by (intro exI [of _ "length (pwTrace w)"]) simp
qed

lemma walletContractIsAllowed_ok:
  assumes "walletContractIsAllowed P c w = (Inr True, w')"
  shows "sponsoredWallet P (pwTrace w') c"
proof -
  have v: "isValidContract (pcSdk (prCodec P)) c" using assms by (auto simp: walletContractIsAllowed_def Let_def runP_simps split: if_splits)
  show ?thesis
  proof (cases "c \<in> set (csvSet (pvWallets (prSettings P)) False)")
    case False
    then obtain hashes entry where h: "allowedWasmHashes (prSettings P) = Inr hashes"
      and l: "ledgerEntry P c ''Could not verify wallet contract'' w = (Inr entry, w')"
      and e: "case entry of Some (ExecWasm h) \<Rightarrow> toHex h \<in> set hashes | _ \<Rightarrow> False"
      using assms v by (auto simp: walletContractIsAllowed_def Let_def pact_simps split: if_splits)
    from e obtain h' where "entry = Some (ExecWasm h')" "toHex h' \<in> set hashes"
      by (auto split: option.splits executable.splits)
    with l have "runs P (pwTrace w') c (ExecWasm h')" by (auto dest: ledgerEntry_ok)
    with v h \<open>toHex h' \<in> set hashes\<close> show ?thesis unfolding sponsoredWallet_def by blast
  qed (use v in \<open>simp add: sponsoredWallet_def\<close>)
qed

lemma tokenContractIsAllowed_ok:
  assumes "tokenContractIsAllowed P c w = (Inr True, w')"
  shows "sponsoredToken P (pwTrace w') c"
proof (cases "c \<in> set (csvSet (pvTokens (prSettings P)) False)")
  case False
  then obtain entry where l: "ledgerEntry P c ''Could not verify token contract'' w = (Inr entry, w')"
    and e: "case entry of Some ExecStellarAsset \<Rightarrow> True | _ \<Rightarrow> False"
    using assms by (auto simp: tokenContractIsAllowed_def Let_def pact_simps split: if_splits)
  from e have "entry = Some ExecStellarAsset" by (auto split: option.splits executable.splits)
  with l have "runs P (pwTrace w') c ExecStellarAsset" by (auto dest: ledgerEntry_ok)
  then show ?thesis by (simp add: sponsoredToken_def)
qed (simp add: sponsoredToken_def)

section \<open>Deployments that are accepted\<close>

text \<open>The constructor arguments of a wallet with one passkey and its policies.\<close>

definition passkeyWallet :: "sdk \<Rightarrow> create_args \<Rightarrow> bool" where
  "passkeyWallet K deploy \<longleftrightarrow> (\<exists>signers signer verifier keyData policies address.
     caConstructorArgs deploy = [ScvVec signers, ScvMap policies] \<and> items signers = [ScvVec signer] \<and>
     items signer = [ScvSymbol ''External'', ScvAddress (AddrContract verifier), ScvBytes keyData] \<and>
     fromScAddress K (AddrContract verifier) \<noteq> None \<and> 65 < length keyData \<and> keyData ! 0 = 4 \<and>
     caPreimage deploy = FromAddress address (hash K (drop 65 keyData)) \<and>
     (\<forall>entry\<in>set (items policies). \<exists>b. fst entry = ScvAddress (AddrContract b) \<and> fromScAddress K (AddrContract b) \<noteq> None))"

lemma validatePolicyKeys_ok: "validatePolicyKeys K entries = Inr u \<longleftrightarrow>
    (\<forall>entry\<in>set entries. \<exists>b. fst entry = ScvAddress (AddrContract b) \<and> fromScAddress K (AddrContract b) \<noteq> None)"
  by (induction K entries rule: validatePolicyKeys.induct) (auto simp: bindE_Inr split: scval.splits)

lemma validateKeyData_ok: "validateKeyData K preimage keyData = Inr u \<longleftrightarrow>
    65 < length keyData \<and> keyData ! 0 = 4 \<and> (\<exists>address. preimage = FromAddress address (hash K (drop 65 keyData)))"
  by (cases preimage) (auto simp: validateKeyData_def bindE_Inr)

lemma one_item [simp]: "(case xs of [x] \<Rightarrow> f x | _ \<Rightarrow> Inl e) = Inr u \<longleftrightarrow> (\<exists>x. xs = [x] \<and> f x = Inr u)"
  by (auto split: list.splits)

lemma signer_ok: "(case xs of [ScvSymbol tag, ScvAddress a, ScvBytes b] \<Rightarrow> f tag a b | _ \<Rightarrow> Inl e) = Inr u \<longleftrightarrow>
    (\<exists>tag a b. xs = [ScvSymbol tag, ScvAddress a, ScvBytes b] \<and> f tag a b = Inr u)"
  by (auto split: list.splits scval.splits)

lemma constructor_ok: "(case xs of [ScvVec s, ScvMap p] \<Rightarrow> f s p | _ \<Rightarrow> Inl e) = Inr u \<longleftrightarrow>
    (\<exists>s p. xs = [ScvVec s, ScvMap p] \<and> f s p = Inr u)"
  by (auto split: list.splits scval.splits)

lemma vec_ok: "(case xs of [ScvVec s] \<Rightarrow> f s | _ \<Rightarrow> Inl e) = Inr u \<longleftrightarrow> (\<exists>s. xs = [ScvVec s] \<and> f s = Inr u)"
  by (auto split: list.splits scval.splits)

lemma validateDeployConstructor_ok: "validateDeployConstructor K deploy = Inr u \<longleftrightarrow> passkeyWallet K deploy"
  unfolding validateDeployConstructor_def passkeyWallet_def forbidden_def constructor_ok vec_ok signer_ok
  by (auto simp: bindE_Inr validateKeyData_ok validatePolicyKeys_ok)


text \<open>
  A deployment the worker pays for: its code is allowed, its deployer named by the preimage, and its
  constructor that of a passkey wallet, at an address derived from the passkey's credential.
\<close>

definition sponsoredDeploy :: "sdk \<Rightarrow> proxy_settings \<Rightarrow> create_args \<Rightarrow> string \<Rightarrow> bool" where
  "sponsoredDeploy K V deploy deployer \<longleftrightarrow> passkeyWallet K deploy \<and>
     (\<exists>h allowed. caExecutable deploy = ExecWasm h \<and> allowedDeployWasmHashes V = Inr allowed \<and> toHex h \<in> set allowed) \<and>
     (\<exists>address salt. caPreimage deploy = FromAddress address salt \<and> fromScAddress K address = Some deployer \<and>
        ((\<exists>b. address = AddrAccount b) \<or> (\<exists>b. address = AddrContract b)))"

lemma validateDeployer_ok: "validateDeployer K V deploy r = Inr deployer \<longleftrightarrow>
    (\<exists>address salt. caPreimage deploy = FromAddress address salt \<and> fromScAddress K address = Some deployer \<and>
       ((\<exists>b. address = AddrAccount b) \<or> (\<exists>b. address = AddrContract b))) \<and>
    (r \<longrightarrow> deployer \<in> set (csvSet (pvDeployers V) False)) \<and> passkeyWallet K deploy"
  by (cases "caPreimage deploy") (auto simp: validateDeployer_def bindE_Inr validateDeployConstructor_ok)

lemma validateDeployFunction_ok: "validateDeployFunction K V func r = Inr deployer \<longleftrightarrow>
    (\<exists>deploy. func = CreateContractV2 deploy \<and> sponsoredDeploy K V deploy deployer) \<and>
    (r \<longrightarrow> deployer \<in> set (csvSet (pvDeployers V) False))"
proof (cases func)
  case (CreateContractV2 deploy)
  then show ?thesis
    by (cases "caExecutable deploy")
      (auto simp: validateDeployFunction_def sponsoredDeploy_def bindE_Inr validateDeployer_ok)
qed (simp_all add: validateDeployFunction_def)

lemma authorizesCreate_ok:
  assumes "sdk_xdr_ok K"
  shows "authorizesCreate K t deploy \<longleftrightarrow> t = Invocation (CreateContractV2HostFn deploy) []"
proof (cases t)
  case (Invocation fn subs)
  then show ?thesis by (cases fn) (auto simp: authorizesCreate_def sdk_xdr_okD [OF assms])
qed

lemma sameCall_ok:
  assumes "sdk_xdr_ok K"
  shows "sameCall K t invoke \<longleftrightarrow> invFunction t = ContractFn invoke"
  by (cases "invFunction t") (auto simp: sameCall_def sdk_xdr_okD [OF assms])

lemma v1_ok: "(case c of CredAddress a \<Rightarrow> f a | _ \<Rightarrow> Inl e) = Inr u \<longleftrightarrow> (\<exists>a. c = CredAddress a \<and> f a = Inr u)"
  by (cases c) auto

lemma validateFuncDeploy_ok:
  assumes "sdk_xdr_ok K"
  shows "validateFuncDeploy K V deploy auth = Inr u \<longleftrightarrow> (\<exists>entry c deployer. auth = [entry] \<and>
    sponsoredDeploy K V deploy deployer \<and> deployer \<in> set (csvSet (pvDeployers V) False) \<and>
    aeCredentials entry = CredAddress c \<and> ((\<exists>b. acAddress c = AddrAccount b) \<or> (\<exists>b. acAddress c = AddrContract b)) \<and>
    fromScAddress K (acAddress c) = Some deployer \<and> aeRoot entry = Invocation (CreateContractV2HostFn deploy) [])"
  unfolding validateFuncDeploy_def forbidden_def one_item v1_ok bindE_Inr
  by (auto simp: validateDeployFunction_ok authorizesCreate_ok [OF assms] v1_ok)

text \<open>The wallet an entry acts for.\<close>

lemma walletAuthAddress_ok: "walletAuthAddress K entry = Inr s \<longleftrightarrow>
    (\<exists>c. (aeCredentials entry = CredAddress c \<or> aeCredentials entry = CredAddressV2 c) \<and>
      ((\<exists>b. acAddress c = AddrAccount b) \<or> (\<exists>b. acAddress c = AddrContract b)) \<and> fromScAddress K (acAddress c) = Some s)"
  by (cases "aeCredentials entry") (auto simp: walletAuthAddress_def)

text \<open>An entry whose credentials name \<open>wallet\<close>.\<close>

definition actsFor :: "sdk \<Rightarrow> string \<Rightarrow> auth_entry \<Rightarrow> bool" where
  "actsFor K wallet entry \<longleftrightarrow> walletAuthAddress K entry = Inr wallet"

lemma validateWalletEntry_ok:
  assumes "sdk_xdr_ok K"
  shows "validateWalletEntry K wallet invoke entry = Inr u \<longleftrightarrow> actsFor K wallet entry \<and>
    invFunction (aeRoot entry) = ContractFn invoke \<and> list_all (callsContract K wallet) (nodesOf (aeRoot entry))"
  by (auto simp: validateWalletEntry_def bindE_Inr actsFor_def validateInvocation_ok sameCall_ok [OF assms])

section \<open>Calls that are accepted\<close>

definition sponsoredCall :: "proxy \<Rightarrow> proxy_effect list \<Rightarrow> invoke_args \<Rightarrow> auth_entry list \<Rightarrow> bool" where
  "sponsoredCall P t invoke auth \<longleftrightarrow> (let K = pcSdk (prCodec P) in
     (\<exists>b wallet. iaContract invoke = AddrContract b \<and> fromScAddress K (AddrContract b) = Some wallet \<and>
        sponsoredWallet P t wallet \<and> iaFunction invoke \<in> set (walletFunctions (prSettings P)) \<and>
        (\<forall>entry\<in>set auth. actsFor K wallet entry \<and> invFunction (aeRoot entry) = ContractFn invoke \<and>
           list_all (callsContract K wallet) (nodesOf (aeRoot entry)))))"

definition sponsoredTransfer :: "proxy \<Rightarrow> proxy_effect list \<Rightarrow> invoke_args \<Rightarrow> auth_entry list \<Rightarrow> bool" where
  "sponsoredTransfer P t invoke auth \<longleftrightarrow> (let K = pcSdk (prCodec P) in
     (\<exists>b source recipient amount entry wallet token. iaContract invoke = AddrContract b \<and>
        fromScAddress K (AddrContract b) = Some token \<and> sponsoredToken P t token \<and>
        iaArgs invoke = [ScvAddress (AddrContract source), recipient, amount] \<and>
        fromScAddress K (AddrContract source) = Some wallet \<and> sponsoredWallet P t wallet \<and>
        auth = [entry] \<and> actsFor K wallet entry \<and> aeRoot entry = Invocation (ContractFn invoke) []))"

lemma wallet_invocation_accepted:
  assumes "sdk_xdr_ok (pcSdk (prCodec P))" "validateWalletInvocation P invoke auth w = (Inr (), w')"
  shows "sponsoredCall P (pwTrace w') invoke auth"
  using assms(2) unfolding validateWalletInvocation_def sponsoredCall_def Let_def
  by (auto simp: pact_simps forP_lift validateWalletEntry_ok [OF assms(1)] dest!: walletContractIsAllowed_ok)

text \<open>The trace only grows.\<close>

lemma requests_append [emits_rules]: "emits (\<lambda>x. True) (ledgerEntry P c m)"
  unfolding ledgerEntry_def by (intro emits_rules) simp

lemma token_appends: "emits (\<lambda>x. True) (tokenContractIsAllowed P c)"
  unfolding tokenContractIsAllowed_def Let_def by (auto intro!: emits_rules)

lemma transfer_entry_accepted:
  assumes "sdk_xdr_ok (pcSdk (prCodec P))" "validateTransferEntry P source invoke entry w = (Inr (), w')"
  shows "sponsoredWallet P (pwTrace w') source \<and> actsFor (pcSdk (prCodec P)) source entry \<and>
    aeRoot entry = Invocation (ContractFn invoke) []"
  using assms(2) unfolding validateTransferEntry_def Let_def
  by (cases "aeRoot entry") (auto simp: pact_simps actsFor_def sameCall_ok [OF assms(1)] split: if_splits
      dest!: walletContractIsAllowed_ok)

lemma transfer_source: "(case xs of [ScvAddress a, x, y] \<Rightarrow> f a x y | _ \<Rightarrow> Inl e) = Inr s \<longleftrightarrow>
    (\<exists>a x y. xs = [ScvAddress a, x, y] \<and> f a x y = Inr s)"
  by (auto split: list.splits scval.splits)

lemma transfer_accepted:
  assumes "sdk_xdr_ok (pcSdk (prCodec P))" "validateDirectTokenTransfer P invoke auth w = (Inr (), w')"
  shows "sponsoredTransfer P (pwTrace w') invoke auth"
proof -
  let ?K = "pcSdk (prCodec P)"
  obtain source recipient amount wallet_from w1 token where a: "length auth = 1"
    and s: "iaArgs invoke = [ScvAddress source, recipient, amount]" "\<exists>b. source = AddrContract b" "fromScAddress ?K source = Some wallet_from"
    and f: "forP (validateTransferEntry P wallet_from invoke) auth w = (Inr (), w1)"
    and t: "\<exists>b. iaContract invoke = AddrContract b" "fromScAddress ?K (iaContract invoke) = Some token"
      "tokenContractIsAllowed P token w1 = (Inr True, w')"
    using assms(2) unfolding validateDirectTokenTransfer_def Let_def forbidden_def transfer_source
    by (auto simp: pact_simps transfer_source)
  obtain entry where e: "auth = [entry]" using a by (cases auth) auto
  have "validateTransferEntry P wallet_from invoke entry w = (Inr (), w1)" using f by (auto simp: e pact_simps)
  from transfer_entry_accepted [OF assms(1) this] have c: "sponsoredWallet P (pwTrace w1) wallet_from"
    "actsFor ?K wallet_from entry" "aeRoot entry = Invocation (ContractFn invoke) []" by simp_all
  obtain es where "pwTrace w' = pwTrace w1 @ es" using emitsD [OF token_appends t(3)] by blast
  then have "sponsoredWallet P (pwTrace w') wallet_from" using sponsored_later c(1) by blast
  with s t c e tokenContractIsAllowed_ok [OF t(3)] show ?thesis unfolding sponsoredTransfer_def Let_def by auto
qed


section \<open>Costs that are accepted\<close>

lemma simulateWithinFeeCeiling_ok: "simulateWithinFeeCeiling P call w = (Inr (least, simData), w') \<longleftrightarrow>
    pvRpcUrl (prSettings P) \<noteq> [] \<and> w' = w\<lparr>pwTrace := pwTrace w @ [PxSimulate call]\<rparr> \<and>
    (\<exists>fee ceiling. svcSimulate (prServices P) (pwTrace w) call = Inr (SimulationOk fee simData) \<and> bigIntText fee = Some least \<and>
       maxResourceFee (prSettings P) = Inr ceiling \<and> least \<le> ceiling)"
proof -
  have s: "(case a of SimulationOk fee d \<Rightarrow> f fee d | _ \<Rightarrow> Inl e) = Inr u \<longleftrightarrow> (\<exists>fee d. a = SimulationOk fee d \<and> f fee d = Inr u)" for a f e u
    by (cases a) auto
  have o: "(case a of None \<Rightarrow> Inl e | Some x \<Rightarrow> f x) = Inr u \<longleftrightarrow> (\<exists>x. a = Some x \<and> f x = Inr u)" for a f e u
    by (cases a) auto
  show ?thesis unfolding simulateWithinFeeCeiling_def Let_def badRequest_def
    by (auto simp: pact_simps s o bindE_Inr) (metis not_less)+
qed

lemma declaredSorobanDataProblem_ok: "declaredSorobanDataProblem declared simulated least = None \<longleftrightarrow>
    sdResourceFee declared \<le> 2 * least + 10000 \<and> set (sdReadWrite simulated) \<subseteq> set (sdReadWrite declared) \<and>
    set (sdReadOnly simulated) \<subseteq> set (sdReadOnly declared) \<union> set (sdReadWrite declared)"
  by (auto simp: declaredSorobanDataProblem_def maxDeclaredResourceFee_def DECLARED_RESOURCE_FEE_SLACK_STROOPS_def list_ex_iff)

lemma validateDeployOperation_ok:
  assumes "sdk_xdr_ok (pcSdk (prCodec P))"
  shows "validateDeployOperation P tx operation = Inr u \<longleftrightarrow> (\<exists>source deploy auth entry.
    operation = (source, InvokeHostFunction (CreateContractV2 deploy) auth) \<and> \<not> sourceConflict source (dtSource tx) \<and>
    sponsoredDeploy (pcSdk (prCodec P)) (prSettings P) deploy (dtSource tx) \<and> items auth = [entry] \<and>
    aeCredentials entry = SourceAccount \<and> aeRoot entry = Invocation (CreateContractV2HostFn deploy) [])"
proof -
  have c: "(case d of SourceAccount \<Rightarrow> f | _ \<Rightarrow> Inl e) = Inr v \<longleftrightarrow> d = SourceAccount \<and> f = Inr v" for d f e v
    by (cases d) auto
  have a: "validateXdrDeployAuth K deploy auth = Inr v \<longleftrightarrow> (\<exists>entry. auth = [entry] \<and> aeCredentials entry = SourceAccount \<and>
      authorizesCreate K (aeRoot entry) deploy)" for K deploy auth v
    unfolding validateXdrDeployAuth_def forbidden_def one_item c by auto
  show ?thesis
    by (cases operation; cases "snd operation")
      (auto simp: validateDeployOperation_def Let_def bindE_Inr validateDeployFunction_ok a authorizesCreate_ok [OF assms])
qed

lemma validateEnvelope_ok:
  assumes "validateEnvelope P tx = Inr declared"
  shows "dtSource tx \<noteq> SHARED_DEPLOYER (pcSdk (prCodec P)) \<and> (\<exists>total. maxTotalFee (prSettings P) = Inr total \<and> int (dtFee tx) \<le> total) \<and>
    (\<exists>signature\<in>set (dtSignatures tx). pcVerify (prCodec P) (dtSource tx) (dtHash tx) signature) \<and> dtData tx = Some declared \<and>
    (\<exists>ceiling. maxResourceFee (prSettings P) = Inr ceiling \<and> sdResourceFee declared \<le> ceiling) \<and>
    (\<exists>operation. dtOps tx = [operation] \<and> validateDeployOperation P tx operation = Inr ())"
proof -
  obtain total operation ceiling where t: "dtSource tx \<noteq> SHARED_DEPLOYER (pcSdk (prCodec P))"
      "maxTotalFee (prSettings P) = Inr total" "\<not> total < int (dtFee tx)"
    and op: "dtOps tx = [operation]" "validateSourceSignature (prCodec P) tx = Inr ()" "validateDeployOperation P tx operation = Inr ()"
    and d: "dtData tx = Some declared" "maxResourceFee (prSettings P) = Inr ceiling" "\<not> ceiling < sdResourceFee declared"
    using assms unfolding validateEnvelope_def Let_def forbidden_def badRequest_def
    by (auto simp: bindE_Inr split: if_splits option.splits list.splits)
  then show ?thesis by (auto simp: validateSourceSignature_def bindE_Inr list_ex_iff not_less)
qed

section \<open>Submissions that are accepted\<close>

lemma accepted_call:
  assumes "sdk_xdr_ok (pcSdk (prCodec P))" "validateCallOrDeploy P f entries w = (Inr (), w')"
  shows "case f of
      CreateContractV2 deploy \<Rightarrow> \<exists>entry c deployer. entries = [entry] \<and>
        sponsoredDeploy (pcSdk (prCodec P)) (prSettings P) deploy deployer \<and>
        deployer \<in> set (csvSet (pvDeployers (prSettings P)) False) \<and> aeCredentials entry = CredAddress c \<and>
        fromScAddress (pcSdk (prCodec P)) (acAddress c) = Some deployer \<and>
        aeRoot entry = Invocation (CreateContractV2HostFn deploy) []
    | InvokeContract invoke \<Rightarrow> if iaFunction invoke = ''transfer'' then sponsoredTransfer P (pwTrace w') invoke entries
        else sponsoredCall P (pwTrace w') invoke entries
    | _ \<Rightarrow> False"
  using assms(2) transfer_accepted [OF assms(1), of _ entries w w'] wallet_invocation_accepted [OF assms(1), of _ entries w w']
  by (cases f) (auto simp: validateCallOrDeploy_def runP_simps validateFuncDeploy_ok [OF assms(1)])

text \<open>
  C12. A function the worker accepts for submission is a deployment of a passkey wallet from allowed code,
  for an allowed deployer whose one entry authorizes exactly that creation; or a transfer of an
  allowed token out of a sponsored wallet, authorized exactly; or an allowed function of a sponsored
  wallet, all of whose entries act for the wallet and authorize calls to it alone. And its
  simulation succeeded within the fee ceiling, as the last thing the check did.
\<close>

theorem func_submission_is_confined:
  assumes "sdk_xdr_ok (pcSdk (prCodec P))" "validateFuncSubmission P func auth w = (Inr (), w')"
  shows "\<exists>f entries t fee simData least ceiling. decodeFunc (prCodec P) func auth = Inr (f, entries) \<and>
    (case f of
      CreateContractV2 deploy \<Rightarrow> \<exists>entry c deployer. entries = [entry] \<and>
        sponsoredDeploy (pcSdk (prCodec P)) (prSettings P) deploy deployer \<and>
        deployer \<in> set (csvSet (pvDeployers (prSettings P)) False) \<and> aeCredentials entry = CredAddress c \<and>
        fromScAddress (pcSdk (prCodec P)) (acAddress c) = Some deployer \<and>
        aeRoot entry = Invocation (CreateContractV2HostFn deploy) []
    | InvokeContract invoke \<Rightarrow> if iaFunction invoke = ''transfer'' then sponsoredTransfer P t invoke entries
        else sponsoredCall P t invoke entries
    | _ \<Rightarrow> False) \<and>
    pwTrace w' = t @ [PxSimulate (SimulateFunc f entries)] \<and>
    svcSimulate (prServices P) t (SimulateFunc f entries) = Inr (SimulationOk fee simData) \<and> bigIntText fee = Some least \<and>
    maxResourceFee (prSettings P) = Inr ceiling \<and> least \<le> ceiling"
proof -
  obtain f entries w1 least simData where d: "decodeFunc (prCodec P) func auth = Inr (f, entries)"
    and v: "validateCallOrDeploy P f entries w = (Inr (), w1)"
    and s: "simulateWithinFeeCeiling P (SimulateFunc f entries) w1 = (Inr (least, simData), w')"
    using assms(2) unfolding validateFuncSubmission_def by (auto simp: pact_simps)
  from s obtain fee ceiling where "pwTrace w' = pwTrace w1 @ [PxSimulate (SimulateFunc f entries)]"
      "svcSimulate (prServices P) (pwTrace w1) (SimulateFunc f entries) = Inr (SimulationOk fee simData)" "bigIntText fee = Some least"
      "maxResourceFee (prSettings P) = Inr ceiling" "least \<le> ceiling"
    by (auto simp: simulateWithinFeeCeiling_ok)
  with d accepted_call [OF assms(1) v] show ?thesis by blast
qed

text \<open>
  C29. A signed envelope the worker accepts is not the shared deployer's: its source signed it, pays
  no more than the ceiling, and its one operation creates a passkey wallet from allowed code with
  itself as the deployer, authorized by its source alone. The resources it declares cover what the
  simulation touched, for at most twice the simulated fee and a slack.
\<close>

theorem xdr_submission_is_confined:
  assumes "sdk_xdr_ok (pcSdk (prCodec P))" "validateXdrSubmission P xdr w = (Inr (), w')"
  shows "\<exists>tx source deploy auth entry declared simulated fee least total ceiling signature.
    decodeEnvelope P xdr = Inr tx \<and> dtSource tx \<noteq> DEFAULT_DEPLOYER_PUBLIC_KEY (pcSdk (prCodec P)) \<and>
    signature \<in> set (dtSignatures tx) \<and> pcVerify (prCodec P) (dtSource tx) (dtHash tx) signature \<and>
    maxTotalFee (prSettings P) = Inr total \<and> int (dtFee tx) \<le> total \<and>
    dtOps tx = [(source, InvokeHostFunction (CreateContractV2 deploy) auth)] \<and> \<not> sourceConflict source (dtSource tx) \<and>
    sponsoredDeploy (pcSdk (prCodec P)) (prSettings P) deploy (dtSource tx) \<and> items auth = [entry] \<and>
    aeCredentials entry = SourceAccount \<and> aeRoot entry = Invocation (CreateContractV2HostFn deploy) [] \<and>
    svcSimulate (prServices P) (pwTrace w) (SimulateSigned xdr) = Inr (SimulationOk fee (Some simulated)) \<and>
    bigIntText fee = Some least \<and> maxResourceFee (prSettings P) = Inr ceiling \<and> least \<le> ceiling \<and>
    dtData tx = Some declared \<and> sdResourceFee declared \<le> min ceiling (2 * least + 10000) \<and>
    set (sdReadWrite simulated) \<subseteq> set (sdReadWrite declared) \<and>
    set (sdReadOnly simulated) \<subseteq> set (sdReadOnly declared) \<union> set (sdReadWrite declared)"
proof -
  obtain tx declared least built where d: "decodeEnvelope P xdr = Inr tx" and e: "validateEnvelope P tx = Inr declared"
    and s: "simulateWithinFeeCeiling P (SimulateSigned xdr) w = (Inr (least, built), w')"
    and b: "(case built of None \<Rightarrow> badRequest ''Submission simulation returned no resource data''
        | Some simulated \<Rightarrow> (case declaredSorobanDataProblem declared simulated least of
            Some problem \<Rightarrow> badRequest problem | None \<Rightarrow> Inr ())) = Inr ()"
    using assms(2) unfolding validateXdrSubmission_def by (auto simp: pact_simps)
  from b obtain simulated where sim: "built = Some simulated" "declaredSorobanDataProblem declared simulated least = None"
    by (auto split: option.splits)
  have k: "SHARED_DEPLOYER K = DEFAULT_DEPLOYER_PUBLIC_KEY K" for K
    by (simp add: SHARED_DEPLOYER_def DEFAULT_DEPLOYER_PUBLIC_KEY_def DEFAULT_DEPLOYER_SEED_def)
  from validateEnvelope_ok [OF e] obtain total signature ceiling operation where
    v: "dtSource tx \<noteq> DEFAULT_DEPLOYER_PUBLIC_KEY (pcSdk (prCodec P))" "maxTotalFee (prSettings P) = Inr total" "int (dtFee tx) \<le> total"
      "signature \<in> set (dtSignatures tx)" "pcVerify (prCodec P) (dtSource tx) (dtHash tx) signature" "dtData tx = Some declared"
      "maxResourceFee (prSettings P) = Inr ceiling" "sdResourceFee declared \<le> ceiling"
      "dtOps tx = [operation]" "validateDeployOperation P tx operation = Inr ()"
    unfolding k by blast
  from v(10) obtain source deploy auth entry where o: "operation = (source, InvokeHostFunction (CreateContractV2 deploy) auth)"
      "\<not> sourceConflict source (dtSource tx)" "sponsoredDeploy (pcSdk (prCodec P)) (prSettings P) deploy (dtSource tx)"
      "items auth = [entry]" "aeCredentials entry = SourceAccount" "aeRoot entry = Invocation (CreateContractV2HostFn deploy) []"
    unfolding validateDeployOperation_ok [OF assms(1)] by blast
  from s obtain fee where f: "svcSimulate (prServices P) (pwTrace w) (SimulateSigned xdr) = Inr (SimulationOk fee (Some simulated))"
      "bigIntText fee = Some least" "least \<le> ceiling"
    using v(7) sim(1) by (auto simp: simulateWithinFeeCeiling_ok)
  have l: "sdResourceFee declared \<le> min ceiling (2 * least + 10000)" "set (sdReadWrite simulated) \<subseteq> set (sdReadWrite declared)"
      "set (sdReadOnly simulated) \<subseteq> set (sdReadOnly declared) \<union> set (sdReadWrite declared)"
    using sim(2) v(8) by (simp_all add: declaredSorobanDataProblem_ok)
  show ?thesis using d v o f l by blast
qed

text \<open>The checks ask the ledger and simulate; they touch no key and submit nothing.\<close>

definition checkEffect :: "proxy_effect \<Rightarrow> bool" where
  "checkEffect x \<longleftrightarrow> (case x of PxLimiter n \<Rightarrow> True | PxLedgerEntries c \<Rightarrow> True | PxSimulate s \<Rightarrow> True | _ \<Rightarrow> False)"

lemma ledgerEntry_checks [emits_rules]: "emits checkEffect (ledgerEntry P c m)"
  unfolding ledgerEntry_def by (intro emits_rules) (simp add: checkEffect_def)

lemma wallet_checks [emits_rules]: "emits checkEffect (walletContractIsAllowed P c)"
  unfolding walletContractIsAllowed_def Let_def by (auto intro!: emits_rules)

lemma token_checks [emits_rules]: "emits checkEffect (tokenContractIsAllowed P c)"
  unfolding tokenContractIsAllowed_def Let_def by (auto intro!: emits_rules)

lemma simulate_checks [emits_rules]: "emits checkEffect (simulateWithinFeeCeiling P c)"
  unfolding simulateWithinFeeCeiling_def Let_def by (auto intro!: emits_rules simp: checkEffect_def)

lemma call_checks [emits_rules]: "emits checkEffect (validateCallOrDeploy P f entries)"
  unfolding validateCallOrDeploy_def validateDirectTokenTransfer_def validateTransferEntry_def validateWalletInvocation_def Let_def
  by (cases f) (auto intro!: emits_rules)

lemma validateSubmission_checks: "emits checkEffect (validateSubmission P body)"
  unfolding validateSubmission_def validateFuncSubmission_def validateXdrSubmission_def
  by (cases body) (auto intro!: emits_rules split: prod.splits)

section \<open>A worker that sponsors one deployment\<close>

definition demoKeyData :: buffer where "demoKeyData = 4 # replicate 64 0 @ utf8 ''credential''"

definition demoSponsored :: create_args where
  "demoSponsored = \<lparr>caPreimage = FromAddress (AddrAccount (utf8 ''D'')) (utf8 ''credential''),
     caExecutable = ExecWasm (replicate 32 17),
     caConstructorArgs = [ScvVec (Some [ScvVec (Some [ScvSymbol ''External'', ScvAddress (AddrContract (utf8 ''V'')),
       ScvBytes demoKeyData])]), ScvMap (Some [])]\<rparr>"

definition demoSponsoredEntry :: "credentials \<Rightarrow> auth_entry" where
  "demoSponsoredEntry c = \<lparr>aeCredentials = c, aeRoot = Invocation (CreateContractV2HostFn demoSponsored) []\<rparr>"

definition demoSettings :: proxy_settings where
  "demoSettings = \<lparr>pvNetwork = ''testnet'', pvRpcUrl = ''https://rpc'', pvOrigins = None,
     pvDeployers = Some (''X, '' @ the (demoStrkey (AddrAccount (utf8 ''D'')))), pvAccountHashes = Some (replicate 64 CHR ''1''), pvDeployHashes = None,
     pvWallets = None, pvTokens = None, pvFunctions = None, pvMaxResourceFee = None, pvMaxTotalFee = None,
     pvWindowSeconds = None, pvPerIp = None, pvGlobal = None\<rparr>"

definition demoEnvelope :: decoded_tx where
  "demoEnvelope = \<lparr>dtSource = the (demoStrkey (AddrAccount (utf8 ''D''))), dtFee = 100,
     dtOps = [(None, InvokeHostFunction (CreateContractV2 demoSponsored) (Some [demoSponsoredEntry SourceAccount]))],
     dtHash = [1], dtSignatures = [[2]], dtData = Some \<lparr>sdResourceFee = 900, sdReadOnly = [[1]], sdReadWrite = [[2]]\<rparr>\<rparr>"

definition demoCodecP :: proxy_codec where
  "demoCodecP = \<lparr>pcSdk = demoSdk, pcParse = (\<lambda>s. if s = ''B'' then Some (JObj [(''func'', JStr ''F''), (''auth'', JArr [JStr ''A''])]) else None),
     pcStringify = (\<lambda>j. ''B''),
     pcHostFunction = (\<lambda>s. if s = ''F'' then Some (CreateContractV2 demoSponsored) else None),
     pcAuthEntry = (\<lambda>s. if s = ''A'' then Some (demoSponsoredEntry (CredAddress \<lparr>acAddress = AddrAccount (utf8 ''D''),
       acNonce = 1, acExpiration = 10, acSignature = ScvVoid\<rparr>)) else None),
     pcTransaction = (\<lambda>s n. if s = ''T'' then Some demoEnvelope else None),
     pcVerify = (\<lambda>k h s. h = [1] \<and> s = [2]), pcHttpClient = True\<rparr>"

definition demoProxyServices :: proxy_services where
  "demoProxyServices = \<lparr>svcNow = (\<lambda>t. int (length t)), svcLimiterFault = (\<lambda>t. None), svcLedger = (\<lambda>t c. NoLedgerEntry),
     svcSimulate = (\<lambda>t c. Inr (SimulationOk ''1000'' (Some \<lparr>sdResourceFee = 0, sdReadOnly = [[1]], sdReadWrite = [[2]]\<rparr>))),
     svcKvFault = (\<lambda>t. None), svcGenerate = (\<lambda>t. Some (True, ''generated-key'')),
     svcSubmit = (\<lambda>t k b. Inr \<lparr>spTransactionId = Some ''id'', spHash = None, spStatus = Some ''confirmed''\<rparr>),
     svcFriendbot = (\<lambda>t. Some True)\<rparr>"

definition demoProxy :: proxy where
  "demoProxy = \<lparr>prSettings = demoSettings, prServices = demoProxyServices, prCodec = demoCodecP\<rparr>"

definition emptyProxyWorld :: proxy_world where
  "emptyProxyWorld = \<lparr>pwKv = (\<lambda>k. None), pwRates = (\<lambda>n. None), pwTrace = []\<rparr>"

lemma demo_lists:
  "wasmHashSet (Some (replicate 64 CHR ''1'')) n = Inr [replicate 64 CHR ''1'']"
  "toHex (replicate 32 17) = replicate 64 CHR ''1''" "csvSet (Some ''X, GD'') False = [''X'', ''GD'']"
proof -
  have "csvSet (Some (replicate 64 CHR ''1'')) True = [replicate 64 CHR ''1'']" by code_simp
  moreover have "isHashText (replicate 64 CHR ''1'')" by code_simp
  ultimately show "wasmHashSet (Some (replicate 64 CHR ''1'')) n = Inr [replicate 64 CHR ''1'']"
    by (simp add: wasmHashSet_def)
qed code_simp+

lemma demo_sponsored: "sponsoredDeploy demoSdk demoSettings demoSponsored ''GD''" "''GD'' \<in> set (csvSet (pvDeployers demoSettings) False)"
proof -
  have "allowedDeployWasmHashes demoSettings = Inr [replicate 64 CHR ''1'']"
    using demo_lists(1) by (simp add: allowedDeployWasmHashes_def allowedWasmHashes_def demoSettings_def orEmpty_def trim_def)
  moreover have "passkeyWallet demoSdk demoSponsored"
    by (simp add: passkeyWallet_def demoSponsored_def items_def demoKeyData_def demoSdk_def demoStrkey_def utf8_def)
  ultimately show "sponsoredDeploy demoSdk demoSettings demoSponsored ''GD''"
    using demo_lists(2) by (auto simp: sponsoredDeploy_def demoSponsored_def demoSdk_def demoStrkey_def)
  show "''GD'' \<in> set (csvSet (pvDeployers demoSettings) False)"
    using demo_lists(3) by (simp add: demoSettings_def demoStrkey_def)
qed

lemma demo_proxy_simps [simp]: "prCodec demoProxy = demoCodecP" "prSettings demoProxy = demoSettings" "pcSdk demoCodecP = demoSdk"
  by (simp_all add: demoProxy_def demoCodecP_def)

lemmas demo_proxy_parts = demoProxy_def demoCodecP_def demoProxyServices_def

lemma demo_fee: "bigIntText ''1000'' = Some 1000"
  by code_simp

lemma demo_simulation: "simulateWithinFeeCeiling demoProxy call w = (Inr (1000, Some \<lparr>sdResourceFee = 0, sdReadOnly = [[1]], sdReadWrite = [[2]]\<rparr>),
    w\<lparr>pwTrace := pwTrace w @ [PxSimulate call]\<rparr>)"
  unfolding simulateWithinFeeCeiling_ok
  by (simp add: demo_proxy_parts demoSettings_def demo_fee maxResourceFee_def DEFAULT_MAX_RESOURCE_FEE_STROOPS_def)

lemma demo_func_accepted: "\<exists>w'. validateFuncSubmission demoProxy ''F'' [''A''] w = (Inr (), w')"
proof -
  let ?e = "demoSponsoredEntry (CredAddress \<lparr>acAddress = AddrAccount (utf8 ''D''), acNonce = 1, acExpiration = 10, acSignature = ScvVoid\<rparr>)"
  have d: "decodeFunc demoCodecP ''F'' [''A''] = Inr (CreateContractV2 demoSponsored, [?e])"
    by (simp add: decodeFunc_def demoCodecP_def)
  have v: "validateFuncDeploy demoSdk demoSettings demoSponsored [?e] = Inr ()"
    unfolding validateFuncDeploy_ok [OF demoSdk_xdr]
    using demo_sponsored by (auto simp: demoSponsoredEntry_def demoSdk_def demoStrkey_def)
  have n: "networkPassphrase demoSettings = Inr ''Test SDF Network ; September 2015''"
    by (simp add: networkPassphrase_def demoSettings_def)
  show ?thesis using d v n by (auto simp: validateFuncSubmission_def validateCallOrDeploy_def pact_simps demo_simulation)
qed

lemma func_submission_is_confined_witness:
  "\<exists>f entries. decodeFunc demoCodecP ''F'' [''A''] = Inr (f, entries) \<and> length entries = 1 \<and> isOk (maxResourceFee demoSettings)"
proof -
  obtain w' where "validateFuncSubmission demoProxy ''F'' [''A''] emptyProxyWorld = (Inr (), w')"
    using demo_func_accepted by blast
  from func_submission_is_confined [OF _ this] demoSdk_xdr
  show ?thesis by (auto simp: decodeFunc_def demoCodecP_def)
qed

lemma xdr_submission_is_confined_witness:
  "\<exists>tx signature. decodeEnvelope demoProxy ''T'' = Inr tx \<and> signature \<in> set (dtSignatures tx) \<and>
     pcVerify demoCodecP (dtSource tx) (dtHash tx) signature \<and> int (dtFee tx) \<le> 1100000"
proof -
  have t: "decodeEnvelope demoProxy ''T'' = Inr demoEnvelope"
    by (simp add: decodeEnvelope_def demoSettings_def networkPassphrase_def demoCodecP_def)
  have s: "SHARED_DEPLOYER demoSdk \<noteq> ''GD''" by (simp add: SHARED_DEPLOYER_def demoSdk_def)
  have o: "validateDeployOperation demoProxy demoEnvelope (hd (dtOps demoEnvelope)) = Inr ()"
    using demo_sponsored(1) by (subst validateDeployOperation_ok)
      (auto simp: demoSdk_xdr demoEnvelope_def demoSponsoredEntry_def sourceConflict_def items_def demoStrkey_def)
  have e: "validateEnvelope demoProxy demoEnvelope = Inr \<lparr>sdResourceFee = 900, sdReadOnly = [[1]], sdReadWrite = [[2]]\<rparr>"
  proof -
    have "dtSource demoEnvelope = ''GD''" "isValidEd25519PublicKey demoSdk ''GD''" "pcVerify demoCodecP ''GD'' [1] [2]"
      "dtOps demoEnvelope = [hd (dtOps demoEnvelope)]"
      by (simp_all add: demoEnvelope_def demoStrkey_def demoSdk_def demoCodecP_def)
    moreover have "dtFee demoEnvelope = 100" "dtHash demoEnvelope = [1]" "dtSignatures demoEnvelope = [[2]]"
      "dtData demoEnvelope = Some \<lparr>sdResourceFee = 900, sdReadOnly = [[1]], sdReadWrite = [[2]]\<rparr>"
      by (simp_all add: demoEnvelope_def)
    moreover have "maxTotalFee demoSettings = Inr 1100000" "maxResourceFee demoSettings = Inr 1000000"
      by (simp_all add: demoSettings_def maxTotalFee_def DEFAULT_MAX_TOTAL_FEE_STROOPS_def maxResourceFee_def DEFAULT_MAX_RESOURCE_FEE_STROOPS_def)
    ultimately show ?thesis using s o
      by (auto simp: validateEnvelope_def Let_def requireP_def validateSourceSignature_def split: list.splits)
  qed
  have "validateXdrSubmission demoProxy ''T'' emptyProxyWorld = (Inr (),
      emptyProxyWorld\<lparr>pwTrace := pwTrace emptyProxyWorld @ [PxSimulate (SimulateSigned ''T'')]\<rparr>)"
    using t e by (simp add: validateXdrSubmission_def pact_simps demo_simulation declaredSorobanDataProblem_def
      maxDeclaredResourceFee_def DECLARED_RESOURCE_FEE_SLACK_STROOPS_def)
  from xdr_submission_is_confined [OF _ this] demoSdk_xdr show ?thesis
    by (auto simp: demoSettings_def maxTotalFee_def DEFAULT_MAX_TOTAL_FEE_STROOPS_def)
qed

end
