(* ===== verification/Kit_Proxy.thy ===== *)
theory Kit_Proxy
  imports Kit_ProxyChecks Kit_Relayer Kit_Deploy
begin

text \<open>
  The request handlers of the relayer proxy: API keys per client address in the key-value namespace,
  the POST that checks a submission, obtains a key and submits with retries, the status, and the
  routing with its origin check. The loop of a submission may run on; it is a partial function, and
  its end is proved from the progress of the clock.
\<close>

section \<open>API keys\<close>

definition API_KEY_PREFIX :: string where "API_KEY_PREFIX = ''api-key:''"
definition API_KEY_FIELD_NAMES :: "string list" where "API_KEY_FIELD_NAMES = [''apiKey'', ''api_key'', ''key'', ''token'']"
definition API_KEY_MIN_LENGTH :: nat where "API_KEY_MIN_LENGTH = 10"
definition API_KEY_MAX_LENGTH :: nat where "API_KEY_MAX_LENGTH = 200"
definition UNKNOWN_IP :: string where "UNKNOWN_IP = ''unknown''"
definition STELLAR_ADDRESS_LENGTH :: nat where "STELLAR_ADDRESS_LENGTH = 56"
definition TESTNET_RETRY_DURATION_MS :: int where "TESTNET_RETRY_DURATION_MS = 5 * 60 * 1000"

text \<open>The header of the client address; \<open>None\<close> where it is missing.\<close>

definition getClientIP :: "string option \<Rightarrow> string" where
  "getClientIP header = (if trim (orEmpty header) = [] then UNKNOWN_IP else trim (orEmpty header))"

definition getKVKey :: "string \<Rightarrow> string" where
  "getKVKey ip = API_KEY_PREFIX @ ip"

definition isValidApiKey :: "string \<Rightarrow> bool" where
  "isValidApiKey apiKey \<longleftrightarrow> API_KEY_MIN_LENGTH \<le> length (trim apiKey) \<and> length (trim apiKey) \<le> API_KEY_MAX_LENGTH"

record stored_key =
  skApiKey :: string
  skCreatedAt :: jsnum

definition isStoredApiKey :: "json \<Rightarrow> stored_key option" where
  "isStoredApiKey value = (case (field ''apiKey'' value, field ''createdAt'' value) of
     (Some (JStr k), Some (JNum t)) \<Rightarrow> if isValidApiKey k then Some \<lparr>skApiKey = k, skCreatedAt = t\<rparr> else None
   | _ \<Rightarrow> None)"

definition storedKeyJson :: "stored_key \<Rightarrow> json" where
  "storedKeyJson k = JObj [(''apiKey'', JStr (skApiKey k)), (''createdAt'', JNum (skCreatedAt k))]"

text \<open>
  Access to the namespace. A failing access is an effect that leaves the namespace alone.
\<close>

definition kvAccess :: "proxy_services \<Rightarrow> proxy_effect \<Rightarrow> ((string \<Rightarrow> string option) \<Rightarrow> (string \<Rightarrow> string option)) \<Rightarrow>
    ((string \<Rightarrow> string option) \<Rightarrow> 'a) \<Rightarrow> 'a pact" where
  "kvAccess S x change answer w = (let w1 = w\<lparr>pwTrace := pwTrace w @ [x]\<rparr> in
     (case svcKvFault S (pwTrace w) of
        Some e \<Rightarrow> (Inl e, w1)
      | None \<Rightarrow> (Inr (answer (pwKv w)), w1\<lparr>pwKv := change (pwKv w)\<rparr>)))"

definition kvGet :: "proxy_services \<Rightarrow> string \<Rightarrow> string option pact" where
  "kvGet S k = kvAccess S (PxKvGet k) (\<lambda>m. m) (\<lambda>m. m k)"

definition kvPut :: "proxy_services \<Rightarrow> string \<Rightarrow> string \<Rightarrow> unit pact" where
  "kvPut S k v = kvAccess S (PxKvPut k v) (\<lambda>m. m(k \<mapsto> v)) (\<lambda>m. ())"

definition kvDelete :: "proxy_services \<Rightarrow> string \<Rightarrow> unit pact" where
  "kvDelete S k = kvAccess S (PxKvDelete k) (\<lambda>m. m(k := None)) (\<lambda>m. ())"

definition nowP :: "proxy_services \<Rightarrow> int pact" where
  "nowP S w = (Inr (svcNow S (pwTrace w)), w)"

text \<open>What a stored text is read as: a key with the need of rewriting it, or nothing.\<close>

definition storedKeyOf :: "proxy_codec \<Rightarrow> string \<Rightarrow> int \<Rightarrow> (stored_key \<times> bool) option" where
  "storedKeyOf C raw now = (let trimmed = trim raw;
       fresh = (\<lambda>k. Some (\<lparr>skApiKey = k, skCreatedAt = Fin (of_int now)\<rparr>, True)) in
     (case pcParse C trimmed of
        None \<Rightarrow> if isValidApiKey trimmed then fresh trimmed else None
      | Some parsed \<Rightarrow>
          (case isStoredApiKey parsed of
             Some k \<Rightarrow> Some (k, False)
           | None \<Rightarrow> (case parsed of
               JStr s \<Rightarrow> if isValidApiKey s then fresh (trim s) else None
             | _ \<Rightarrow> None))))"

definition readStoredApiKey :: "proxy \<Rightarrow> string \<Rightarrow> (stored_key \<times> bool) option pact" where
  "readStoredApiKey P kvKey = (let S = prServices P in
     bindP (settleP (
       bindP (kvGet S kvKey) (\<lambda>raw.
         if orEmpty raw = [] then returnP None
         else bindP (nowP S) (\<lambda>now. (case storedKeyOf (prCodec P) (orEmpty raw) now of
           Some k \<Rightarrow> returnP (Some k)
         | None \<Rightarrow> bindP (kvDelete S kvKey) (\<lambda>_. returnP None)))))) (\<lambda>r.
       returnP (case r of Inl e \<Rightarrow> None | Inr k \<Rightarrow> k)))"

text \<open>\<^verbatim>\<open>null\<close> has no properties, so that it is read like a text that is no JSON.\<close>

definition generatedKeyOf :: "proxy_codec \<Rightarrow> string \<Rightarrow> string option" where
  "generatedKeyOf C text = (let plain = (if isValidApiKey text then Some (trim text) else None) in
     (case pcParse C text of
        None \<Rightarrow> plain
      | Some JNull \<Rightarrow> plain
      | Some parsed \<Rightarrow>
          (case List.find (\<lambda>v. case v of None \<Rightarrow> False | Some j \<Rightarrow> truthyJson j)
              (map (\<lambda>name. field name parsed) API_KEY_FIELD_NAMES) of
             Some (Some (JStr k)) \<Rightarrow> if isValidApiKey k then Some (trim k) else None
           | _ \<Rightarrow> None)))"

definition generateApiKey :: "proxy \<Rightarrow> string option pact" where
  "generateApiKey P = requestP PxGenerate (\<lambda>t. Inr (case svcGenerate (prServices P) t of
     None \<Rightarrow> None
   | Some (ok, text) \<Rightarrow> if ok then generatedKeyOf (prCodec P) text else None))"

definition getOrCreateApiKey :: "proxy \<Rightarrow> string \<Rightarrow> stored_key option pact" where
  "getOrCreateApiKey P ip = (let S = prServices P; kvKey = getKVKey ip;
       put = (\<lambda>k. kvPut S kvKey (pcStringify (prCodec P) (storedKeyJson k))) in
     bindP (readStoredApiKey P kvKey) (\<lambda>cached. (case cached of
       Some (k, needsMigration) \<Rightarrow>
         bindP (if needsMigration then put k else returnP ()) (\<lambda>_. returnP (Some k))
     | None \<Rightarrow> bindP (generateApiKey P) (\<lambda>apiKey. (case apiKey of
         None \<Rightarrow> returnP None
       | Some k \<Rightarrow> bindP (nowP S) (\<lambda>now. let new = \<lparr>skApiKey = k, skCreatedAt = Fin (of_int now)\<rparr> in
           bindP (put new) (\<lambda>_. returnP (Some new))))))))"

section \<open>Submitting\<close>

fun afterMarker :: "string \<Rightarrow> string \<Rightarrow> string option" where
  "afterMarker marker [] = (if marker = [] then Some [] else None)"
| "afterMarker marker (c # cs) = (if take (length marker) (c # cs) = marker then Some (drop (length marker) (c # cs))
     else afterMarker marker cs)"

definition extractMissingAccount :: "sdk \<Rightarrow> string \<Rightarrow> string option" where
  "extractMissingAccount K message = (case afterMarker ''Account not found:'' message of
     None \<Rightarrow> None
   | Some rest \<Rightarrow> let candidate = take STELLAR_ADDRESS_LENGTH (dropWhile isWhite rest) in
       if isValidEd25519PublicKey K candidate then Some candidate else None)"

definition proxyErrorMessage :: "proxy_error \<Rightarrow> string" where
  "proxyErrorMessage e = (case e of
     RequestError m s \<Rightarrow> m | PluginExecutionError m c d \<Rightarrow> m | PluginTransportError m s \<Rightarrow> m | PlainError m \<Rightarrow> m | NotAnError m \<Rightarrow> m)"

text \<open>The account to fund before another attempt: on testnet, before the deadline, never the shared deployer.\<close>

definition retryAccount :: "proxy \<Rightarrow> int \<Rightarrow> proxy_error \<Rightarrow> int \<Rightarrow> string option" where
  "retryAccount P deadline err now = (let K = pcSdk (prCodec P) in
     (case extractMissingAccount K (proxyErrorMessage err) of
        None \<Rightarrow> None
      | Some account \<Rightarrow> if pvNetwork (prSettings P) \<noteq> ''testnet'' \<or> deadline \<le> now \<or> account = SHARED_DEPLOYER K
          then None else Some account))"

definition fundWithFriendbot :: "proxy \<Rightarrow> string \<Rightarrow> bool pact" where
  "fundWithFriendbot P account = requestP (PxFriendbot account) (\<lambda>t. Inr (svcFriendbot (prServices P) t = Some True))"

text \<open>One attempt: the reply, or the error with the account to fund where there will be another attempt.\<close>

definition attempt :: "proxy \<Rightarrow> string \<Rightarrow> submission_body \<Rightarrow> int \<Rightarrow> (proxy_error \<times> string option + submit_reply) pact" where
  "attempt P apiKey body deadline =
     bindP (settleP (requestP (PxSubmit apiKey body) (\<lambda>t. svcSubmit (prServices P) t apiKey body))) (\<lambda>r.
       (case r of
          Inr reply \<Rightarrow> returnP (Inr reply)
        | Inl e \<Rightarrow> bindP (nowP (prServices P)) (\<lambda>now. returnP (Inl (e, retryAccount P deadline e now)))))"

definition fundOnce :: "proxy \<Rightarrow> string \<Rightarrow> string list \<Rightarrow> string list pact" where
  "fundOnce P account funded = (if account \<in> set funded then returnP funded
     else bindP (fundWithFriendbot P account) (\<lambda>ok. returnP (if ok then account # funded else funded)))"

partial_function (option) submitLoop ::
    "proxy \<Rightarrow> string \<Rightarrow> submission_body \<Rightarrow> int \<Rightarrow> string list \<Rightarrow> proxy_world \<Rightarrow>
     (submit_reply presult \<times> proxy_world) option" where
  "submitLoop P apiKey body deadline funded w = (case attempt P apiKey body deadline w of
     (Inl e, w1) \<Rightarrow> Some (Inl e, w1)
   | (Inr (Inr reply), w1) \<Rightarrow> Some (Inr reply, w1)
   | (Inr (Inl (e, None)), w1) \<Rightarrow> Some (Inl e, w1)
   | (Inr (Inl (e, Some account)), w1) \<Rightarrow> (case fundOnce P account funded w1 of
       (Inl e, w2) \<Rightarrow> Some (Inl e, w2)
     | (Inr funded', w2) \<Rightarrow> submitLoop P apiKey body deadline funded' w2))"

definition submitWithRetries :: "proxy \<Rightarrow> string \<Rightarrow> submission_body \<Rightarrow> proxy_world \<Rightarrow>
    (submit_reply presult \<times> proxy_world) option" where
  "submitWithRetries P apiKey body w = (
     let deadline = (if pvNetwork (prSettings P) = ''testnet''
       then svcNow (prServices P) (pwTrace w) + TESTNET_RETRY_DURATION_MS else 0) in
     submitLoop P apiKey body deadline [] w)"

section \<open>Responses\<close>

record proxy_response =
  prsStatus :: nat
  prsBody :: "json option"
  prsRetryAfter :: "int option"
  prsAllowOrigin :: "string option"

definition respond :: "nat \<Rightarrow> json \<Rightarrow> proxy_response" where
  "respond status v = \<lparr>prsStatus = status, prsBody = Some v, prsRetryAfter = None, prsAllowOrigin = None\<rparr>"

definition failureJson :: "string \<Rightarrow> (string \<times> json) list \<Rightarrow> json" where
  "failureJson message extra = JObj ([(''success'', JBool False), (''error'', JStr message)] @ extra)"

text \<open>A property that is \<^verbatim>\<open>undefined\<close> is left out of the JSON text.\<close>

definition optField :: "string \<Rightarrow> json option \<Rightarrow> (string \<times> json) list" where
  "optField name v = (case v of None \<Rightarrow> [] | Some j \<Rightarrow> [(name, j)])"

definition successJson :: "submit_reply \<Rightarrow> json" where
  "successJson r = JObj [(''success'', JBool True), (''data'', JObj
     (optField ''transactionId'' (map_option JStr (spTransactionId r)) @ optField ''hash'' (map_option JStr (spHash r)) @
      optField ''status'' (map_option JStr (spStatus r))))]"

definition errorResponse :: "proxy_error \<Rightarrow> proxy_response" where
  "errorResponse e = (case e of
     RequestError message status \<Rightarrow> respond status (failureJson message [])
   | PluginExecutionError message code details \<Rightarrow> respond 400 (failureJson message
       [(''data'', JObj (optField ''code'' code @ optField ''details'' details))])
   | PluginTransportError message status \<Rightarrow>
       respond (case status of Some s \<Rightarrow> if s = 0 then 500 else s | None \<Rightarrow> 500) (failureJson message [])
   | PlainError message \<Rightarrow> respond 500 (failureJson message [])
   | NotAnError s \<Rightarrow> respond 500 (failureJson ''Relayer request failed'' []))"

definition rateLimited :: "int \<Rightarrow> proxy_response" where
  "rateLimited retryAfter = (respond 429 (failureJson ''Rate limit exceeded'' []))\<lparr>prsRetryAfter := Some retryAfter\<rparr>"

section \<open>The handlers\<close>

record proxy_request =
  rqMethod :: string
  rqPath :: string
  rqOrigin :: "string option"
  rqClientIp :: "string option"
  rqBody :: "string presult"

text \<open>Everything before the submission: a response that ends the request, or the body and the key.\<close>

definition acceptSubmission :: "proxy \<Rightarrow> proxy_request \<Rightarrow> (proxy_response + submission_body \<times> stored_key) pact" where
  "acceptSubmission P q = (let ip = getClientIP (rqClientIp q) in
     if ip = UNKNOWN_IP then liftP (badRequest ''Cloudflare client IP is required'')
     else bindP (enforceRateLimit P ip) (\<lambda>retryAfter. (case retryAfter of
       Some seconds \<Rightarrow> returnP (Inl (rateLimited seconds))
     | None \<Rightarrow>
         bindP (liftP (rqBody q)) (\<lambda>text.
         bindP (liftP (parseSubmissionBody (prCodec P) text)) (\<lambda>body.
         bindP (validateSubmission P body) (\<lambda>_.
         bindP (getOrCreateApiKey P ip) (\<lambda>storedKey. (case storedKey of
           None \<Rightarrow> liftP (Inl (RequestError ''Could not obtain API key. Service may be misconfigured.'' 500))
         | Some k \<Rightarrow> if pcHttpClient (prCodec P) then returnP (Inr (body, k))
             else liftP (Inl (RequestError ''Channels client has no HTTP client'' 500))))))))))"

definition handlePost :: "proxy \<Rightarrow> proxy_request \<Rightarrow> proxy_world \<Rightarrow> (proxy_response \<times> proxy_world) option" where
  "handlePost P q w = (case acceptSubmission P q w of
     (Inl e, w1) \<Rightarrow> Some (errorResponse e, w1)
   | (Inr (Inl response), w1) \<Rightarrow> Some (response, w1)
   | (Inr (Inr (body, k)), w1) \<Rightarrow> (case submitWithRetries P (skApiKey k) body w1 of
       None \<Rightarrow> None
     | Some (Inl e, w2) \<Rightarrow> Some (errorResponse e, w2)
     | Some (Inr reply, w2) \<Rightarrow> Some (respond 200 (successJson reply), w2)))"

definition handleStatus :: "proxy \<Rightarrow> proxy_request \<Rightarrow> proxy_world \<Rightarrow> proxy_response \<times> proxy_world" where
  "handleStatus P q w = (let ip = getClientIP (rqClientIp q) in
     (case readStoredApiKey P (getKVKey ip) w of
        (Inl e, w1) \<Rightarrow> (respond 500 (failureJson ''Could not read status'' []), w1)
      | (Inr k, w1) \<Rightarrow> (respond 200 (JObj [(''success'', JBool True), (''data'', JObj
          ([(''clientIP'', JStr ip), (''network'', JStr (pvNetwork (prSettings P))), (''hasKey'', JBool (k \<noteq> None))] @
           optField ''keyCreatedAt'' (map_option (\<lambda>(s, m). JNum (skCreatedAt s)) k)))]), w1)))"

definition SERVICE_NAME :: string where "SERVICE_NAME = ''smart-account-relayer-proxy''"

definition route :: "proxy \<Rightarrow> proxy_request \<Rightarrow> proxy_world \<Rightarrow> (proxy_response \<times> proxy_world) option" where
  "route P q w =
     (if rqMethod q = ''GET'' \<and> rqPath q = ''/'' then Some (respond 200 (JObj [(''status'', JStr ''ok''),
        (''service'', JStr SERVICE_NAME), (''network'', JStr (pvNetwork (prSettings P)))]), w)
      else if rqMethod q = ''POST'' \<and> rqPath q = ''/'' then handlePost P q w
      else if rqMethod q = ''GET'' \<and> rqPath q = ''/status'' then Some (handleStatus P q w)
      else Some (\<lparr>prsStatus = 404, prsBody = None, prsRetryAfter = None, prsAllowOrigin = None\<rparr>, w))"

text \<open>The middleware: an unknown origin is refused, a preflight answered, and the rest routed.\<close>

definition proxyFetch :: "proxy \<Rightarrow> proxy_request \<Rightarrow> proxy_world \<Rightarrow> (proxy_response \<times> proxy_world) option" where
  "proxyFetch P q w = (let origin = orEmpty (rqOrigin q); allow = (if origin = [] then None else Some origin) in
     if origin \<noteq> [] \<and> origin \<notin> set (csvSet (pvOrigins (prSettings P)) False)
     then Some (respond 403 (failureJson ''Origin is not allowed'' []), w)
     else if rqMethod q = ''OPTIONS''
     then Some (\<lparr>prsStatus = 204, prsBody = None, prsRetryAfter = None, prsAllowOrigin = allow\<rparr>, w)
     else map_option (\<lambda>(response, w'). (response\<lparr>prsAllowOrigin := allow\<rparr>, w')) (route P q w))"

section \<open>The order of checks and keys\<close>

text \<open>
  What may happen once a submission has passed its checks: key access, the submission of that body,
  and on testnet the funding of an account other than the shared deployer.
\<close>

definition afterChecks :: "proxy \<Rightarrow> submission_body \<Rightarrow> proxy_effect \<Rightarrow> bool" where
  "afterChecks P body x \<longleftrightarrow> (case x of
     PxKvGet k \<Rightarrow> True | PxKvPut k v \<Rightarrow> True | PxKvDelete k \<Rightarrow> True | PxGenerate \<Rightarrow> True
   | PxSubmit k b \<Rightarrow> b = body
   | PxFriendbot a \<Rightarrow> pvNetwork (prSettings P) = ''testnet'' \<and> a \<noteq> DEFAULT_DEPLOYER_PUBLIC_KEY (pcSdk (prCodec P))
   | _ \<Rightarrow> False)"

lemma shared_is_default: "SHARED_DEPLOYER K = DEFAULT_DEPLOYER_PUBLIC_KEY K"
  by (simp add: SHARED_DEPLOYER_def DEFAULT_DEPLOYER_PUBLIC_KEY_def DEFAULT_DEPLOYER_SEED_def)

definition keyEffect :: "proxy_effect \<Rightarrow> bool" where
  "keyEffect x \<longleftrightarrow> (case x of PxKvGet k \<Rightarrow> True | PxKvPut k v \<Rightarrow> True | PxKvDelete k \<Rightarrow> True | PxGenerate \<Rightarrow> True | _ \<Rightarrow> False)"

lemma emits_mono: "emits X m \<Longrightarrow> (\<And>x. X x \<Longrightarrow> Y x) \<Longrightarrow> emits Y m"
  unfolding emits_def list_all_iff by blast

lemma nowP_emits [emits_rules]: "emits X (nowP S)"
  by (simp add: emits_def nowP_def)

lemma kv_keys [emits_rules]: "emits keyEffect (kvGet S k)" "emits keyEffect (kvPut S k v)" "emits keyEffect (kvDelete S k)"
  by (simp_all add: emits_def kvGet_def kvPut_def kvDelete_def kvAccess_def Let_def keyEffect_def split: option.splits)

lemma getOrCreateApiKey_keys: "emits keyEffect (getOrCreateApiKey P ip)"
  unfolding getOrCreateApiKey_def readStoredApiKey_def generateApiKey_def Let_def
  by (auto intro!: emits_rules simp: keyEffect_def split: option.splits sum.splits prod.splits)

lemma key_after [emits_rules]: "emits (afterChecks P b) (getOrCreateApiKey Q ip)"
  by (rule emits_mono [OF getOrCreateApiKey_keys]) (simp add: keyEffect_def afterChecks_def split: proxy_effect.splits)

lemma attempt_after: "emits (afterChecks P body) (attempt P k body d)"
  unfolding attempt_def by (auto intro!: emits_rules simp: afterChecks_def split: sum.splits)

lemma attempt_retry:
  assumes "attempt P k body d w = (Inr (Inl (e, Some account)), w')"
  shows "pvNetwork (prSettings P) = ''testnet'' \<and> account \<noteq> DEFAULT_DEPLOYER_PUBLIC_KEY (pcSdk (prCodec P)) \<and>
    svcNow (prServices P) (pwTrace w') < d \<and> pwTrace w' = pwTrace w @ [PxSubmit k body]"
  using assms unfolding attempt_def
  by (auto simp: pact_simps nowP_def retryAccount_def shared_is_default Let_def split: sum.splits option.splits if_splits)

lemma fundOnce_after:
  assumes "pvNetwork (prSettings P) = ''testnet''" "account \<noteq> DEFAULT_DEPLOYER_PUBLIC_KEY (pcSdk (prCodec P))"
  shows "emits (afterChecks P body) (fundOnce P account funded)"
  using assms unfolding fundOnce_def fundWithFriendbot_def by (auto intro!: emits_rules simp: afterChecks_def)

text \<open>
  Induction over the attempts of a submission, for what relates the world before and after: one that
  ends, and one that another attempt follows.
\<close>

lemma submitLoop_induct:
  assumes run: "submitLoop P k body d funded w = Some (r, w')"
    and stop: "\<And>w x w1. attempt P k body d w = (x, w1) \<Longrightarrow> Q w w1"
    and again: "\<And>w e account w1 funded y w2. attempt P k body d w = (Inr (Inl (e, Some account)), w1) \<Longrightarrow>
      fundOnce P account funded w1 = (y, w2) \<Longrightarrow> Q w w2"
    and trans: "\<And>a b c. Q a b \<Longrightarrow> Q b c \<Longrightarrow> Q a c"
  shows "Q w w'"
proof -
  let ?X = "\<lambda>(((((P', k'), body'), d'), funded), w) res. P' = P \<longrightarrow> k' = k \<longrightarrow> body' = body \<longrightarrow> d' = d \<longrightarrow> Q w (snd res)"
  have "?X (((((P, k), body), d), funded), w) (r, w')"
  proof (rule submitLoop.raw_induct [OF _ run])
    fix loop P' k' body' d' funded w res
    assume IH: "\<And>P k body d funded w y. loop P k body d funded w = Some y \<Longrightarrow> ?X (((((P, k), body), d), funded), w) y"
      and step: "(case attempt P' k' body' d' w of
       (Inl e, w1) \<Rightarrow> Some (Inl e, w1)
     | (Inr (Inr reply), w1) \<Rightarrow> Some (Inr reply, w1)
     | (Inr (Inl (e, None)), w1) \<Rightarrow> Some (Inl e, w1)
     | (Inr (Inl (e, Some account)), w1) \<Rightarrow> (case fundOnce P' account funded w1 of
         (Inl e, w2) \<Rightarrow> Some (Inl e, w2)
       | (Inr funded', w2) \<Rightarrow> loop P' k' body' d' funded' w2)) = Some res"
    have "Q w (snd res)" if same: "P' = P" "k' = k" "body' = body" "d' = d"
    proof -
      obtain x w1 where a: "attempt P k body d w = (x, w1)" by (cases "attempt P k body d w")
      show ?thesis
      proof (cases "\<exists>e account. x = Inr (Inl (e, Some account))")
        case False
        then have "snd res = w1" using step a same by (auto split: sum.splits prod.splits option.splits)
        with stop [OF a] show ?thesis by simp
      next
        case True
        then obtain e account where x: "x = Inr (Inl (e, Some account))" by blast
        obtain y w2 where f: "fundOnce P account funded w1 = (y, w2)" by (cases "fundOnce P account funded w1")
        have q: "Q w w2" using again a x f by blast
        show ?thesis
        proof (cases y)
          case (Inl e2)
          with step a x f q same show ?thesis by auto
        next
          case (Inr funded')
          with step a x f same have "loop P k body d funded' w2 = Some res" by simp
          from IH [OF this] trans [OF q] show ?thesis by simp
        qed
      qed
    qed
    then show "?X (((((P', k'), body'), d'), funded), w) res" by simp
  qed
  then show ?thesis by simp
qed

lemma submitLoop_after:
  assumes "submitLoop P k body d funded w = Some (r, w')"
  shows "\<exists>es. pwTrace w' = pwTrace w @ es \<and> list_all (afterChecks P body) es"
proof (rule submitLoop_induct [OF assms])
  show "\<exists>es. pwTrace w1 = pwTrace w @ es \<and> list_all (afterChecks P body) es"
    if "attempt P k body d w = (x, w1)" for w x w1 by (rule emitsD [OF attempt_after that])
  show "\<exists>es. pwTrace w2 = pwTrace w @ es \<and> list_all (afterChecks P body) es"
    if "attempt P k body d w = (Inr (Inl (e, Some account)), w1)" "fundOnce P account funded w1 = (y, w2)" for w e account w1 funded y w2
  proof -
    have "emits (afterChecks P body) (fundOnce P account funded)" using attempt_retry [OF that(1)] by (simp add: fundOnce_after)
    from emitsD [OF this that(2)] emitsD [OF attempt_after that(1)] show ?thesis by auto
  qed
  show "\<exists>es. pwTrace c = pwTrace a @ es \<and> list_all (afterChecks P body) es"
    if "\<exists>es. pwTrace b = pwTrace a @ es \<and> list_all (afterChecks P body) es"
      "\<exists>es. pwTrace c = pwTrace b @ es \<and> list_all (afterChecks P body) es" for a b c
    using that by (metis append.assoc list_all_append)
qed

lemma enforce_checks [emits_rules]: "emits checkEffect (enforceRateLimit P ip)"
proof -
  have r: "emits checkEffect (rateDecision S name limit m)" for S name limit m
    by (simp add: emits_def rateDecision_def Let_def checkEffect_def split: option.splits prod.splits)
  show ?thesis unfolding enforceRateLimit_def Let_def by (intro emits_rules r)
qed

text \<open>Either nothing but checks happened, or the body was checked first.\<close>

lemma acceptSubmission_order:
  assumes "acceptSubmission P q w = (r, w')"
  shows "(\<exists>es. pwTrace w' = pwTrace w @ es \<and> list_all checkEffect es \<and> (\<forall>b k. r \<noteq> Inr (Inr (b, k)))) \<or>
    (\<exists>sent body w1 w2 checks later. rqBody q = Inr sent \<and> parseSubmissionBody (prCodec P) sent = Inr body \<and>
       validateSubmission P body w1 = (Inr (), w2) \<and> pwTrace w2 = pwTrace w @ checks \<and> list_all checkEffect checks \<and>
       pwTrace w' = pwTrace w2 @ later \<and> list_all (afterChecks P body) later \<and> (\<forall>b k. r = Inr (Inr (b, k)) \<longrightarrow> b = body))"
proof -
  let ?ip = "getClientIP (rqClientIp q)"
  have quiet: "?thesis" if "r = Inl e \<or> r = Inr (Inl s)" "pwTrace w' = pwTrace w @ es" "list_all checkEffect es" for e s es
    using that by blast
  show ?thesis
  proof (cases "?ip = UNKNOWN_IP")
    case True
    with assms show ?thesis by (auto simp: acceptSubmission_def runP_simps badRequest_def)
  next
    case False
    note run = assms [unfolded acceptSubmission_def Let_def, unfolded if_not_P [OF False]]
    obtain x w1 where l: "enforceRateLimit P ?ip w = (x, w1)" by (cases "enforceRateLimit P ?ip w")
    from emitsD [OF enforce_checks l] obtain es1 where es1: "pwTrace w1 = pwTrace w @ es1" "list_all checkEffect es1" by blast
    show ?thesis
    proof (cases "x = Inr None \<and> (\<exists>sent body. rqBody q = Inr sent \<and> parseSubmissionBody (prCodec P) sent = Inr body)")
      case False
      then have "(\<exists>e. r = Inl e) \<or> (\<exists>s. r = Inr (Inl s))" "w' = w1"
        using run l by (auto simp: bindP_def runP_simps split: sum.splits option.splits)
      with quiet es1 show ?thesis by blast
    next
      case True
      then obtain sent body where t: "x = Inr None" "rqBody q = Inr sent" "parseSubmissionBody (prCodec P) sent = Inr body" by blast
      obtain y w2 where v: "validateSubmission P body w1 = (y, w2)" by (cases "validateSubmission P body w1")
      from emitsD [OF validateSubmission_checks v] obtain es2 where es2: "pwTrace w2 = pwTrace w1 @ es2" "list_all checkEffect es2" by blast
      show ?thesis
      proof (cases y)
        case (Inl e)
        with run l t v have "r = Inl e" "w' = w2" by (simp_all add: bindP_def runP_simps)
        with quiet [of e _ "es1 @ es2"] es1 es2 show ?thesis by simp
      next
        case (Inr u)
        let ?rest = "bindP (getOrCreateApiKey P ?ip) (\<lambda>storedKey. (case storedKey of
           None \<Rightarrow> liftP (Inl (RequestError ''Could not obtain API key. Service may be misconfigured.'' 500))
         | Some k \<Rightarrow> if pcHttpClient (prCodec P) then returnP (Inr (body, k))
             else liftP (Inl (RequestError ''Channels client has no HTTP client'' 500))))"
        have g: "?rest w2 = (r, w')" using run l t v Inr by (simp add: bindP_def runP_simps)
        have "emits (afterChecks P body) ?rest" by (auto intro!: emits_rules split: option.splits)
        from emitsD [OF this g] obtain later where later: "pwTrace w' = pwTrace w2 @ later" "list_all (afterChecks P body) later" by blast
        have b: "b = body" if "r = Inr (Inr (b, k))" for b k
          using g that by (auto simp: pact_simps split: option.splits if_splits)
        have c: "pwTrace w2 = pwTrace w @ (es1 @ es2)" "list_all checkEffect (es1 @ es2)" using es1 es2 by simp_all
        have y: "validateSubmission P body w1 = (Inr (), w2)" using v Inr by simp
        show ?thesis
          by (rule disjI2, intro exI [of _ sent] exI [of _ body] exI [of _ w1] exI [of _ w2] exI [of _ "es1 @ es2"] exI [of _ later] conjI)
            (use t y c later b in auto)
      qed
    qed
  qed
qed

text \<open>
  C11. A request to submit first only asks the limiters and the ledger and simulates. When it does more
  (reads, mints or stores an API key, submits, or funds an account), the body it carries has passed
  every check before; what is submitted is that body; and an account is funded only on testnet and is
  not the shared deployer.
\<close>

theorem key_follows_validation:
  assumes "handlePost P q w = Some (response, w')"
  shows "\<exists>checks later. pwTrace w' = pwTrace w @ checks @ later \<and> list_all checkEffect checks \<and>
    (later = [] \<or> (\<exists>sent body w1 w2. rqBody q = Inr sent \<and> parseSubmissionBody (prCodec P) sent = Inr body \<and>
       validateSubmission P body w1 = (Inr (), w2) \<and> pwTrace w2 = pwTrace w @ checks \<and> list_all (afterChecks P body) later))"
proof -
  obtain r w1 where a: "acceptSubmission P q w = (r, w1)" by (cases "acceptSubmission P q w")
  show ?thesis
  proof (cases "\<exists>b k. r = Inr (Inr (b, k))")
    case False
    then have "w' = w1" using assms a by (auto simp: handlePost_def split: sum.splits)
    then show ?thesis using acceptSubmission_order [OF a] by (metis append_Nil2 append.assoc)
  next
    case True
    then obtain b k where b: "r = Inr (Inr (b, k))" by blast
    then obtain res where s: "submitWithRetries P (skApiKey k) b w1 = Some (res, w')"
      using assms a by (auto simp: handlePost_def split: option.splits sum.splits)
    then obtain es where es: "pwTrace w' = pwTrace w1 @ es" "list_all (afterChecks P b) es"
      by (auto simp: submitWithRetries_def Let_def dest!: submitLoop_after)
    from acceptSubmission_order [OF a] b obtain sent v1 v2 checks later where o: "rqBody q = Inr sent"
      "parseSubmissionBody (prCodec P) sent = Inr b" "validateSubmission P b v1 = (Inr (), v2)" "pwTrace v2 = pwTrace w @ checks"
      "list_all checkEffect checks" "pwTrace w1 = pwTrace v2 @ later" "list_all (afterChecks P b) later" by blast
    have "pwTrace w' = pwTrace w @ checks @ (later @ es)" "list_all (afterChecks P b) (later @ es)" using o es by simp_all
    with o show ?thesis by blast
  qed
qed

section \<open>The end of a submission\<close>

definition isSubmit :: "proxy_effect \<Rightarrow> bool" where
  "isSubmit x \<longleftrightarrow> (case x of PxSubmit k b \<Rightarrow> True | _ \<Rightarrow> False)"

lemma isSubmit_PxSubmit [simp]: "isSubmit (PxSubmit k b)"
  by (simp add: isSubmit_def)

text \<open>Every request takes a millisecond at least.\<close>

definition clockRuns :: "proxy_services \<Rightarrow> bool" where
  "clockRuns S \<longleftrightarrow> (\<forall>t x. svcNow S t + 1 \<le> svcNow S (t @ [x]))"

lemma attempt_trace: "attempt P k body d w = (x, w1) \<Longrightarrow> pwTrace w1 = pwTrace w @ [PxSubmit k body]"
  unfolding attempt_def by (auto simp: bindP_def runP_simps nowP_def split: sum.splits)

lemma fundOnce_trace:
  assumes "clockRuns (prServices P)" "fundOnce P account funded w = (y, w1)"
  shows "\<exists>es funded'. y = Inr funded' \<and> pwTrace w1 = pwTrace w @ es \<and> filter isSubmit es = [] \<and>
    svcNow (prServices P) (pwTrace w) \<le> svcNow (prServices P) (pwTrace w1)"
proof -
  have "svcNow (prServices P) (pwTrace w) \<le> svcNow (prServices P) (pwTrace w @ [x])" for x
    using assms(1) by (smt (verit) clockRuns_def)
  with assms(2) show ?thesis
    by (auto simp: fundOnce_def fundWithFriendbot_def bindP_def runP_simps isSubmit_def split: if_splits)
qed

lemma submitLoop_ends:
  assumes "clockRuns (prServices P)"
  shows "nat (d - svcNow (prServices P) (pwTrace w)) \<le> n \<Longrightarrow> \<exists>r w' es. submitLoop P k body d funded w = Some (r, w') \<and>
    pwTrace w' = pwTrace w @ es \<and> length (filter isSubmit es) \<le> max 1 n"
proof (induction n arbitrary: w funded)
  case (0 w)
  obtain x w1 where a: "attempt P k body d w = (x, w1)" by (cases "attempt P k body d w")
  note t = attempt_trace [OF a]
  have "svcNow (prServices P) (pwTrace w) + 1 \<le> svcNow (prServices P) (pwTrace w1)" using assms t by (simp add: clockRuns_def)
  then have "x \<noteq> Inr (Inl (e, Some account))" for e account using 0 attempt_retry [of P k body d w e account w1] a by auto
  then have "\<exists>r. submitLoop P k body d funded w = Some (r, w1)"
    by (subst submitLoop.simps) (auto simp: a split: sum.splits option.splits)
  then show ?case using t by (auto simp: isSubmit_def)
next
  case (Suc n)
  obtain x w1 where a: "attempt P k body d w = (x, w1)" by (cases "attempt P k body d w")
  note t = attempt_trace [OF a]
  have c: "svcNow (prServices P) (pwTrace w) + 1 \<le> svcNow (prServices P) (pwTrace w1)" using assms t by (simp add: clockRuns_def)
  show ?case
  proof (cases "\<exists>e account. x = Inr (Inl (e, Some account))")
    case False
    then have "\<exists>r. submitLoop P k body d funded w = Some (r, w1)"
      by (subst submitLoop.simps) (auto simp: a split: sum.splits option.splits)
    then show ?thesis using t by (auto simp: isSubmit_def)
  next
    case True
    then obtain e account where x: "x = Inr (Inl (e, Some account))" by blast
    have l: "svcNow (prServices P) (pwTrace w1) < d" using attempt_retry a x by blast
    obtain y w2 where f: "fundOnce P account funded w1 = (y, w2)" by (cases "fundOnce P account funded w1")
    from fundOnce_trace [OF assms f] obtain es funded' where f2: "y = Inr funded'" "pwTrace w2 = pwTrace w1 @ es"
      "filter isSubmit es = []" "svcNow (prServices P) (pwTrace w1) \<le> svcNow (prServices P) (pwTrace w2)" by blast
    have "nat (d - svcNow (prServices P) (pwTrace w2)) \<le> n" "1 \<le> n" using Suc.prems c l f2(4) by auto
    with Suc.IH [of w2 funded'] obtain r w' es2 where r: "submitLoop P k body d funded' w2 = Some (r, w')"
      "pwTrace w' = pwTrace w2 @ es2" "length (filter isSubmit es2) \<le> n" by fastforce
    have "submitLoop P k body d funded w = Some (r, w')" using r(1) by (subst submitLoop.simps) (simp add: a x f f2(1))
    with t f2(2,3) r(2,3) show ?thesis by auto
  qed
qed

lemma acceptSubmission_unsubmitted: "emits (\<lambda>x. \<not> isSubmit x) (acceptSubmission P q)"
proof -
  have c: "emits (\<lambda>x. \<not> isSubmit x) (enforceRateLimit P ip)" "emits (\<lambda>x. \<not> isSubmit x) (validateSubmission P body)"
    "emits (\<lambda>x. \<not> isSubmit x) (getOrCreateApiKey P ip)" for ip body
    using emits_mono [OF enforce_checks] emits_mono [OF validateSubmission_checks] emits_mono [OF getOrCreateApiKey_keys]
    by (force simp: checkEffect_def keyEffect_def isSubmit_def split: proxy_effect.splits)+
  show ?thesis unfolding acceptSubmission_def Let_def by (auto intro!: emits_rules c split: option.splits)
qed

lemma handlePost_ends:
  assumes "clockRuns (prServices P)"
  shows "\<exists>response w' es. handlePost P q w = Some (response, w') \<and> pwTrace w' = pwTrace w @ es \<and>
    length (filter isSubmit es) \<le> (if pvNetwork (prSettings P) = ''testnet'' then 300000 else 1)"
proof -
  obtain r w1 where a: "acceptSubmission P q w = (r, w1)" by (cases "acceptSubmission P q w")
  from emitsD [OF acceptSubmission_unsubmitted a] obtain es1 where es1: "pwTrace w1 = pwTrace w @ es1" "filter isSubmit es1 = []"
    by (auto simp: list_all_iff filter_empty_conv)
  show ?thesis
  proof (cases "\<exists>b k. r = Inr (Inr (b, k))")
    case False
    then have "\<exists>response. handlePost P q w = Some (response, w1)" using a by (auto simp: handlePost_def split: sum.splits)
    with es1 show ?thesis by (auto simp: filter_empty_conv)
  next
    case True
    then obtain b k where b: "r = Inr (Inr (b, k))" by blast
    have "\<exists>x w' es. submitWithRetries P (skApiKey k) b w1 = Some (x, w') \<and> pwTrace w' = pwTrace w1 @ es \<and>
      length (filter isSubmit es) \<le> (if pvNetwork (prSettings P) = ''testnet'' then 300000 else 1)"
    proof (cases "pvNetwork (prSettings P) = ''testnet''")
      case True
      then show ?thesis
        using submitLoop_ends [OF assms, of "svcNow (prServices P) (pwTrace w1) + 300000" w1 300000 "skApiKey k" b "[]"]
        by (simp add: submitWithRetries_def TESTNET_RETRY_DURATION_MS_def)
    next
      case False
      obtain x w2 where x: "attempt P (skApiKey k) b 0 w1 = (x, w2)" by (cases "attempt P (skApiKey k) b 0 w1")
      have "x \<noteq> Inr (Inl (e, Some account))" for e account using attempt_retry [of P "skApiKey k" b 0 w1 e account w2] x False by auto
      then have "\<exists>r. submitLoop P (skApiKey k) b 0 [] w1 = Some (r, w2)"
        by (subst submitLoop.simps) (auto simp: x split: sum.splits option.splits)
      with False attempt_trace [OF x] show ?thesis by (auto simp: submitWithRetries_def)
    qed
    then obtain x w' es where s: "submitWithRetries P (skApiKey k) b w1 = Some (x, w')" "pwTrace w' = pwTrace w1 @ es"
      "length (filter isSubmit es) \<le> (if pvNetwork (prSettings P) = ''testnet'' then 300000 else 1)" by blast
    have "\<exists>response. handlePost P q w = Some (response, w')"
      using a b s(1) by (cases x) (auto simp: handlePost_def)
    with s es1 show ?thesis by auto
  qed
qed

text \<open>
  C31. The loop of a submission ends: while every request takes a millisecond at least, a POST is
  answered, after at most 300000 attempts to submit (the five minutes of a retry on testnet), and on
  another network after one.
\<close>

theorem submission_ends:
  assumes "clockRuns (prServices P)"
  shows "\<exists>response w' es. handlePost P q w = Some (response, w') \<and> pwTrace w' = pwTrace w @ es \<and>
    length (filter isSubmit es) \<le> (if pvNetwork (prSettings P) = ''testnet'' then 300000 else 1)"
  by (rule handlePost_ends [OF assms])

section \<open>The kit and its relayer\<close>

text \<open>
  C32. What the relayer client of the kit posts is read by the worker as the function and entries it was
  given exactly when there is a function and there are one to eight entries, all with text; it is
  never read as anything else. (The worker parses the text the client serialized.)
\<close>

theorem client_request_is_read:
  assumes "pcParse C (pcStringify C (JObj [(''func'', JStr func), (''auth'', JArr (map JStr auth))])) =
      Some (JObj [(''func'', JStr func), (''auth'', JArr (map JStr auth))])"
  shows "\<exists>r body. relayerSend S R func auth w = (Inr r, w\<lparr>wTrace := wTrace w @ [FxFetch (rcUrl R) (Some body)]\<rparr>) \<and>
    (if func \<noteq> [] \<and> auth \<noteq> [] \<and> [] \<notin> set auth \<and> length auth \<le> 8
     then parseSubmissionBody C (pcStringify C body) = Inr (FuncBody func auth)
     else \<exists>m. parseSubmissionBody C (pcStringify C body) = badRequest m)"
proof -
  let ?body = "JObj [(''func'', JStr func), (''auth'', JArr (map JStr auth))]"
  have t: "filledTexts (map JStr xs) = (if [] \<in> set xs then None else Some xs)" for xs
    by (induction xs) (auto simp: filledText_def)
  obtain r where r: "relayerSend S R func auth w = (Inr r, w\<lparr>wTrace := wTrace w @ [FxFetch (rcUrl R) (Some ?body)]\<rparr>)"
    by (simp add: relayerSend_def submit_def bindA_def run_simps)
  have "funcAuth ?body = (if func \<noteq> [] \<and> auth \<noteq> [] \<and> [] \<notin> set auth then Some (func, auth) else None)"
    using t [of auth] by (cases auth) (auto simp: funcAuth_def field_def filledText_def arrayOf_def simp del: filledTexts.simps)
  moreover have "filledText (field ''xdr'' ?body) = None" by (simp add: field_def filledText_def)
  moreover have "parseSubmissionBody C (pcStringify C ?body) = readSubmission [(''func'', JStr func), (''auth'', JArr (map JStr auth))]"
    by (simp add: parseSubmissionBody_def assms)
  ultimately have "if func \<noteq> [] \<and> auth \<noteq> [] \<and> [] \<notin> set auth \<and> length auth \<le> 8
     then parseSubmissionBody C (pcStringify C ?body) = Inr (FuncBody func auth)
     else \<exists>m. parseSubmissionBody C (pcStringify C ?body) = badRequest m"
    by (auto simp: readSubmission_def MAX_AUTH_ENTRIES_def)
  with r show ?thesis by blast
qed

text \<open>
  What the kit relies on of the generated client: the creation it assembles installs the code it was
  given, with the given signers and policies as constructor arguments.
\<close>

definition deploysAsTold :: "sdk \<Rightarrow> (deploy_args \<Rightarrow> assembled act) \<Rightarrow> deploy_args \<Rightarrow> bool" where
  "deploysAsTold K client args \<longleftrightarrow> (\<forall>w t w' create. client args w = (Inr t, w') \<longrightarrow>
     deployFunction (DeployAssembled t) = Some (CreateContractV2 create) \<longrightarrow>
     (\<exists>wasm signers policies. caExecutable create = ExecWasm wasm \<and> toHex wasm = toLower (daWasmHash args) \<and>
        mapE (signerToScVal K) (daSigners args) = Inr signers \<and>
        caConstructorArgs create = [ScvVec (Some signers), ScvMap (Some policies)] \<and>
        (\<forall>e\<in>set policies. \<exists>p\<in>set (daPolicies args). \<exists>a. fromStrkey K (fst p) = Some a \<and> fst e = ScvAddress a)))"

text \<open>
  C30. The kit and the worker agree: a deployment that the kit builds with the shared deployer for a
  65-byte key and a credential passes every check the worker makes of a deployment, when the worker
  allows the kit's code and deployer, and the verifier and the policies are contracts.
\<close>

theorem sdk_deployment_is_sponsored:
  assumes "sdk_xdr_ok (keSdk E)" "sdk_strkey_ok (keSdk E)" "btShared B"
    and build: "buildDeployTransaction E decode B credentialId publicKey policies w = (Inr d, w')"
    and client: "\<And>entries. deploysAsTold (keSdk E) (btClientDeploy B) (deployArgs E B credentialId publicKey entries)"
    and "length publicKey = 65" "publicKey ! 0 = 4" "credentialId \<noteq> []"
    and verifier: "fromStrkey (keSdk E) (btVerifier B) = Some (AddrContract v)"
    and contracts: "\<And>p. p \<in> set (items policies) \<Longrightarrow> \<exists>b. fromStrkey (keSdk E) (pcAddress p) = Some (AddrContract b)"
    and deployer: "fromStrkey (keSdk E) (keDeployer E) = Some (AddrAccount g)" "keDeployer E \<in> set (csvSet (pvDeployers V) False)"
    and code: "allowedDeployWasmHashes V = Inr hashes" "toLower (btWasmHash B) \<in> set hashes"
  shows "\<exists>create entry. d = DeployAuthEntry (CreateContractV2 create) [entry] \<and>
    validateFuncDeploy (keSdk E) V create [entry] = Inr ()"
proof -
  let ?K = "keSdk E"
  obtain entries w1 w2 deployment discovered latestLedger create address entry k where
    e: "(if items policies = [] then Inr [] else buildConstructorPolicies ?K decode (items policies)) = Inr entries"
    and x: "btClientDeploy B (deployArgs E B credentialId publicKey entries) w1 = (Inr deployment, w2)"
    and f: "discoveredAuthorization deployment = Inr (CreateContractV2 create, discovered, latestLedger)"
    and d: "d = DeployAuthEntry (CreateContractV2 create) [entry]" "aeRoot entry = Invocation (CreateContractV2HostFn create) []"
    and p: "caPreimage create = FromAddress address (hash ?K credentialId)" "fromScAddress ?K address = Some (keDeployer E)"
    and k: "aeCredentials entry = CredAddress k" "fromStrkey ?K (keDeployer E) = Some (acAddress k)"
    by (rule shared_deployment_parts [OF assms(1,3) build]) blast
  have sf: "deployFunction (DeployAssembled deployment) = Some (CreateContractV2 create)"
    using f by (auto simp: discoveredAuthorization_def split: option.splits list.splits)
  have args: "daSigners (deployArgs E B credentialId publicKey entries) = [External (btVerifier B) (buildKeyData publicKey credentialId)]"
    "daPolicies (deployArgs E B credentialId publicKey entries) = entries" "daWasmHash (deployArgs E B credentialId publicKey entries) = btWasmHash B"
    by (simp_all add: deployArgs_def)
  obtain wasm signers keys where c: "caExecutable create = ExecWasm wasm" "toHex wasm = toLower (btWasmHash B)"
    "mapE (signerToScVal ?K) [External (btVerifier B) (buildKeyData publicKey credentialId)] = Inr signers"
    "caConstructorArgs create = [ScvVec (Some signers), ScvMap (Some keys)]"
    and keys: "\<forall>y\<in>set keys. \<exists>q\<in>set entries. \<exists>a. fromStrkey ?K (fst q) = Some a \<and> fst y = ScvAddress a"
    using client [of entries] x sf unfolding deploysAsTold_def args by blast
  have s: "signers = [ScvVec (Some [ScvSymbol ''External'', ScvAddress (AddrContract v), ScvBytes (publicKey @ credentialId)])]"
    using c(3) by (auto simp: signerToScVal_def bindE_Inr addressFromString_ok verifier buildKeyData_def)
  have q: "\<exists>b. fromStrkey ?K (fst y) = Some (AddrContract b)" if "y \<in> set entries" for y
  proof -
    have ne: "items policies \<noteq> []" using e that by auto
    then have "buildConstructorPolicies ?K decode (items policies) = Inr entries" using e by simp
    from buildConstructorPolicies_content [OF assms(1,2) this, of "fst y"] that
    have "map_of (rev (map (\<lambda>c. (pcAddress c, c)) (items policies))) (fst y) \<noteq> None"
      by (auto split: option.splits) (metis map_of_eq_None_iff image_eqI)
    then obtain c where "(fst y, c) \<in> set (rev (map (\<lambda>c. (pcAddress c, c)) (items policies)))" by (auto dest: map_of_SomeD)
    then show ?thesis using contracts by auto
  qed
  have strkey: "fromScAddress ?K a = Some t \<longleftrightarrow> fromStrkey ?K t = Some a" for a t using sdk_strkeyD [OF assms(2)] by simp
  have keys2: "\<exists>b. fst y = ScvAddress (AddrContract b) \<and> fromScAddress ?K (AddrContract b) \<noteq> None" if "y \<in> set keys" for y
    using bspec [OF keys that] q strkey by (metis option.inject option.distinct(1))
  have a: "address = AddrAccount g" using p(2) deployer(1) strkey by simp
  have "passkeyWallet ?K create"
    unfolding passkeyWallet_def using c(4) s p a keys2 assms(6-8) verifier strkey
    by (auto simp: items_def nth_append)
  with c(1,2) code p a deployer(1) strkey have "sponsoredDeploy ?K V create (keDeployer E)"
    unfolding sponsoredDeploy_def by auto
  moreover have "acAddress k = AddrAccount g" using k(2) deployer(1) by simp
  ultimately have "validateFuncDeploy ?K V create [entry] = Inr ()"
    unfolding validateFuncDeploy_ok [OF assms(1)] using k d(2) deployer strkey by auto
  with d(1) show ?thesis by blast
qed

section \<open>Witnesses\<close>

definition demoRequest :: proxy_request where
  "demoRequest = \<lparr>rqMethod = ''POST'', rqPath = ''/'', rqOrigin = None, rqClientIp = Some ''10.0.0.1'', rqBody = Inr ''B''\<rparr>"

lemma demo_clock: "clockRuns (prServices demoProxy)"
  by (simp add: clockRuns_def demo_proxy_parts)

lemma key_follows_validation_witness:
  "\<exists>response w' checks later. handlePost demoProxy demoRequest emptyProxyWorld = Some (response, w') \<and>
     pwTrace w' = checks @ later \<and> list_all checkEffect checks"
proof -
  obtain response w' where h: "handlePost demoProxy demoRequest emptyProxyWorld = Some (response, w')"
    using handlePost_ends [OF demo_clock] by blast
  from key_follows_validation [OF h] h show ?thesis by (auto simp: emptyProxyWorld_def)
qed

lemma submission_ends_witness:
  "\<exists>response w'. handlePost demoProxy demoRequest emptyProxyWorld = Some (response, w') \<and>
     length (filter isSubmit (pwTrace w')) \<le> 300000"
  using submission_ends [OF demo_clock, of demoRequest emptyProxyWorld] by (auto simp: emptyProxyWorld_def demoSettings_def)

lemma client_request_is_read_witness:
  "parseSubmissionBody demoCodecP ''B'' = Inr (FuncBody ''F'' [''A''])"
  using client_request_is_read [of demoCodecP "''F''" "[''A'']" demoServices "\<lparr>rcUrl = ''u'', rcTimeout = 1\<rparr>" demoWorld]
  by (auto simp: demoCodecP_def)

definition sponsoredCreate :: "deploy_args \<Rightarrow> create_args" where
  "sponsoredCreate a = \<lparr>caPreimage = FromAddress (AddrAccount (utf8 ''D'')) (daSalt a), caExecutable = ExecWasm (replicate 32 17),
     caConstructorArgs = [ScvVec (Some (map (\<lambda>s. projr (signerToScVal demoSdk s)) (daSigners a))), ScvMap (Some [])]\<rparr>"

definition sponsoredBuild :: build_deps where
  "sponsoredBuild = demoBuild\<lparr>btWasmHash := replicate 64 CHR ''1'', btVerifier := ''CV'',
     btClientDeploy := (\<lambda>a. returnA \<lparr>atBuilt = Some \<lparr>txSource = ''GS'',
         txOps = [InvokeHostFunction (CreateContractV2 (sponsoredCreate a)) None], txBody = []\<rparr>,
       atSimAuth = Some [\<lparr>aeCredentials = SourceAccount, aeRoot = Invocation (CreateContractV2HostFn (sponsoredCreate a)) []\<rparr>],
       atLatestLedger = Some 5, atSigned = None\<rparr>)\<rparr>"

lemma sponsored_builds: "\<exists>d w'. buildDeployTransaction demoEnv (\<lambda>b. None) sponsoredBuild [9] (replicate 65 4) None demoWorld = (Inr d, w')"
  by (simp add: buildDeployTransaction_def sponsoredBuild_def demoBuild_def sponsoredCreate_def Let_def bindA_def run_simps discoveredAuthorization_def
      deployFunction_def deployArgs_def checkAuthorizedCreate_def demoEnv_def demoSdk_def demoStrkey_def
      signDeployment_def bindE_def addressFromString_def demoFromStrkey_def buildSignaturePreimage_def
      createAddressCredentials_def normalizeSignatureExpirationLedger_def U32_MAX_def LEDGERS_PER_HOUR_def items_def)

lemma sdk_deployment_is_sponsored_witness:
  "\<exists>create entry w'. buildDeployTransaction demoEnv (\<lambda>b. None) sponsoredBuild [9] (replicate 65 4) None demoWorld =
       (Inr (DeployAuthEntry (CreateContractV2 create) [entry]), w') \<and>
     validateFuncDeploy demoSdk demoSettings create [entry] = Inr ()"
proof -
  obtain d w' where r: "buildDeployTransaction demoEnv (\<lambda>b. None) sponsoredBuild [9] (replicate 65 4) None demoWorld = (Inr d, w')"
    using sponsored_builds by blast
  have e: "keSdk demoEnv = demoSdk" "keDeployer demoEnv = ''GD''" "btShared sponsoredBuild" "btVerifier sponsoredBuild = ''CV''"
    "btWasmHash sponsoredBuild = replicate 64 CHR ''1''"
    by (simp_all add: demoEnv_def sponsoredBuild_def demoBuild_def)
  have f: "fromStrkey demoSdk ''CV'' = Some (AddrContract (utf8 ''V''))" "fromStrkey demoSdk ''GD'' = Some (AddrAccount (utf8 ''D''))"
    by (simp_all add: demoSdk_def demoFromStrkey_def)
  have l: "toLower (replicate 64 CHR ''1'') = replicate 64 CHR ''1''" by code_simp
  have c: "deploysAsTold demoSdk (btClientDeploy sponsoredBuild) (deployArgs demoEnv sponsoredBuild [9] (replicate 65 4) entries)" for entries
    unfolding deploysAsTold_def
    by (auto simp: sponsoredBuild_def returnA_def deployFunction_def sponsoredCreate_def deployArgs_def demo_lists(2) l
        signerToScVal_def addressFromString_def f)
  have w: "allowedDeployWasmHashes demoSettings = Inr [replicate 64 CHR ''1'']"
    using demo_lists(1) by (simp add: allowedDeployWasmHashes_def allowedWasmHashes_def demoSettings_def orEmpty_def trim_def)
  from sdk_deployment_is_sponsored [OF _ _ e(3) r, where V = demoSettings, unfolded e(1,2,4,5) f l, OF demoSdk_xdr demoSdk_strkey c]
    demo_sponsored(2) w r
  show ?thesis by (auto simp: items_def)
qed

end
