(* ===== verification/Kit_PolicyForm.thy ===== *)
theory Kit_PolicyForm
  imports Kit_Facade
begin

text \<open>
  The forms of the demo for policies and expirations (\<^verbatim>\<open>rule-builder/policyParams.ts\<close>,
  \<^verbatim>\<open>utils/policyLiveParams.ts\<close>, \<^verbatim>\<open>utils/expiration.ts\<close>, \<^verbatim>\<open>rule-builder/types.ts\<close>): the number
  arithmetic they use, the parameters a staged policy is installed with, and how the parameters of
  an existing rule are read back into the form. \<^verbatim>\<open>JSON.parse\<close> and the SDK's conversion of native
  values are parameters.
\<close>

section \<open>Numbers\<close>

text \<open>\<^verbatim>\<open>x || d\<close> of an optional number.\<close>

definition orNumber :: "jsnum option \<Rightarrow> jsnum \<Rightarrow> jsnum" where
  "orNumber x d = (case x of None \<Rightarrow> d | Some n \<Rightarrow> if n = NaN \<or> n = Fin 0 then d else n)"

definition scaleNum :: "jsnum \<Rightarrow> rat \<Rightarrow> jsnum" where
  "scaleNum x c = (case x of Fin q \<Rightarrow> nearest (q * c) | _ \<Rightarrow> x)"

definition plusNum :: "jsnum \<Rightarrow> jsnum \<Rightarrow> jsnum" where
  "plusNum x y = (case (x, y) of
     (Fin p, Fin q) \<Rightarrow> nearest (p + q)
   | (Fin p, _) \<Rightarrow> y
   | (_, Fin q) \<Rightarrow> x
   | _ \<Rightarrow> if x = y then x else NaN)"

text \<open>\<^verbatim>\<open>Math.floor\<close>, \<^verbatim>\<open>trunc\<close>, \<^verbatim>\<open>ceil\<close> and \<^verbatim>\<open>round\<close>, which rounds halves up; \<^verbatim>\<open>Math.max\<close>.\<close>

definition wholeNum :: "(rat \<Rightarrow> int) \<Rightarrow> jsnum \<Rightarrow> jsnum" where
  "wholeNum f x = (case x of Fin q \<Rightarrow> Fin (of_int (f q)) | _ \<Rightarrow> x)"

definition truncate :: "rat \<Rightarrow> int" where
  "truncate q = (if q < 0 then \<lceil>q\<rceil> else \<lfloor>q\<rfloor>)"

definition roundHalfUp :: "rat \<Rightarrow> int" where
  "roundHalfUp q = \<lfloor>q + 1 / 2\<rfloor>"

definition maxNum :: "jsnum \<Rightarrow> jsnum \<Rightarrow> jsnum" where
  "maxNum x y = (if x = NaN \<or> y = NaN then NaN else if jsLess x y then y else x)"

text \<open>\<^verbatim>\<open>parseFloat\<close>: the longest prefix that is a decimal literal, after white space and a sign.\<close>

definition longestNumber :: "string \<Rightarrow> jsnum" where
  "longestNumber t = (case List.find (\<lambda>p. decimalLiteral p \<noteq> NaN) (map (\<lambda>k. take k t) (rev [0..<Suc (length t)])) of
     None \<Rightarrow> NaN | Some p \<Rightarrow> decimalLiteral p)"

definition parseFloat :: "string \<Rightarrow> jsnum" where
  "parseFloat s = (case dropWhile isWhite s of
     [] \<Rightarrow> NaN
   | c # cs \<Rightarrow> if c = CHR ''-'' then negateNum (longestNumber cs)
       else if c = CHR ''+'' then longestNumber cs else longestNumber (c # cs))"

text \<open>\<^verbatim>\<open>parseInt\<close> of a text, with its radix or without one: then \<^verbatim>\<open>0x\<close> asks for sixteen.\<close>

definition wholePrefix :: "nat \<Rightarrow> string \<Rightarrow> jsnum" where
  "wholePrefix b s = (case baseValue b (takeWhile (\<lambda>c. case hexValue c of Some d \<Rightarrow> d < b | None \<Rightarrow> False) s) of
     None \<Rightarrow> NaN | Some n \<Rightarrow> toDouble n)"

definition signedText :: "(string \<Rightarrow> jsnum) \<Rightarrow> string \<Rightarrow> jsnum" where
  "signedText f s = (case dropWhile isWhite s of [] \<Rightarrow> f []
   | c # cs \<Rightarrow> if c = CHR ''-'' then negateNum (f cs) else if c = CHR ''+'' then f cs else f (c # cs))"

definition parseInt :: "string \<Rightarrow> jsnum" where
  "parseInt = signedText (\<lambda>t. if take 2 t = ''0x'' \<or> take 2 t = ''0X'' then wholePrefix 16 (drop 2 t) else wholePrefix 10 t)"

definition parseInt10 :: "string \<Rightarrow> jsnum" where
  "parseInt10 = signedText (wholePrefix 10)"

text \<open>
  \<^verbatim>\<open>Number.prototype.toString\<close>: the fewest significant digits, seventeen at most, that read back as
  the double, and the closer one of two such decimals.
\<close>

definition decimalPoint :: "rat \<Rightarrow> int" where
  "decimalPoint q = (if 1 \<le> q then int (length (decimal (nat \<lfloor>q\<rfloor>))) else 1 - int (length (decimal (nat \<lfloor>1 / q\<rfloor>))))"

definition digitsFor :: "rat \<Rightarrow> nat \<Rightarrow> nat option" where
  "digitsFor q k = (let unit = tenPow (decimalPoint q - int k); s = nat \<lfloor>q / unit\<rfloor>;
       readsBack = (\<lambda>d. 10 ^ (k - 1) \<le> d \<and> d < 10 ^ k \<and> nearestDouble (of_nat d * unit) = Fin q);
       up = 2 * (q - of_nat s * unit) > unit in
     if readsBack s \<and> \<not> (up \<and> readsBack (s + 1)) then Some s
     else if readsBack (s + 1) then Some (s + 1) else None)"

definition shortestDecimal :: "rat \<Rightarrow> dec_number" where
  "shortestDecimal q = (case List.map_filter (digitsFor q) [1..<18] of
     [] \<Rightarrow> \<lparr>dnDigits = 0, dnPoint = 0\<rparr>
   | d # _ \<Rightarrow> \<lparr>dnDigits = d, dnPoint = decimalPoint q\<rparr>)"

definition numberText :: "jsnum \<Rightarrow> string" where
  "numberText x = (case x of NaN \<Rightarrow> ''NaN'' | PosInf \<Rightarrow> ''Infinity'' | NegInf \<Rightarrow> ''-Infinity''
     | Fin q \<Rightarrow> if q = 0 then ''0''
         else if q < 0 then ''-'' @ numberToString (shortestDecimal (- q))
         else numberToString (shortestDecimal q))"

section \<open>Expirations\<close>

definition LEDGERS_PER_DAY :: nat where "LEDGERS_PER_DAY = 17280"
definition DEFAULT_EXPIRATION_DAYS :: nat where "DEFAULT_EXPIRATION_DAYS = 30"

definition DEFAULT_EXPIRATION_LEDGER_DELTA :: jsnum where
  "DEFAULT_EXPIRATION_LEDGER_DELTA = Fin (of_nat (DEFAULT_EXPIRATION_DAYS * LEDGERS_PER_DAY))"

definition expirationDaysToLedgerDelta :: "jsnum \<Rightarrow> jsnum" where
  "expirationDaysToLedgerDelta days =
     scaleNum (maxNum (Fin 1) (orNumber (Some (wholeNum truncate days)) (Fin 1))) (of_nat LEDGERS_PER_DAY)"

definition expirationLedgerDeltaToDays :: "jsnum \<Rightarrow> jsnum" where
  "expirationLedgerDeltaToDays ledgerDelta =
     maxNum (Fin 1) (wholeNum ceiling (scaleNum ledgerDelta (1 / of_nat LEDGERS_PER_DAY)))"

definition absoluteValidUntilToLedgerDelta :: "jsnum \<Rightarrow> jsnum \<Rightarrow> jsnum" where
  "absoluteValidUntilToLedgerDelta validUntil currentLedger =
     maxNum (Fin (of_nat LEDGERS_PER_DAY)) (plusNum validUntil (negateNum currentLedger))"

section \<open>Staged signers and policies\<close>

datatype entry_type = DelegatedEntry | PasskeyEntry | Ed25519Entry

record signer_entry =
  enId :: string
  enType :: entry_type
  enAddress :: "string option"
  enCredentialId :: "string option"
  enPublicKey :: "buffer option"
  enVerifier :: "string option"
  enLabel :: string
  enSigner :: "signer_object option"
  enActive :: "bool option"

record policy_info =
  piType :: policy_type
  piName :: string
  piAddress :: string

text \<open>\<open>pfModified\<close> is only ever tested, so \<^verbatim>\<open>undefined\<close> is \<open>False\<close>.\<close>

record selected_policy =
  pfPolicy :: policy_info
  pfThreshold :: "jsnum option"
  pfSpendingLimit :: "string option"
  pfPeriodDays :: "jsnum option"
  pfWeightedThreshold :: "jsnum option"
  pfWeights :: "(string \<times> jsnum) list option"
  pfCustomParams :: "string option"
  pfModified :: bool

definition signerEntryToContractSigner :: "sdk \<Rightarrow> string \<Rightarrow> string \<Rightarrow> signer_entry \<Rightarrow> signer option result" where
  "signerEntryToContractSigner K webauthn ed25519 e = (case enSigner e of
     Some so \<Rightarrow> Inr (Some (snd so))
   | None \<Rightarrow>
       let built = (\<lambda>r. bindE r (\<lambda>s. Inr (Some s))) in
       if enType e = DelegatedEntry \<and> truthy (enAddress e)
       then built (createDelegatedSigner K (the (enAddress e)))
       else if enType e = PasskeyEntry \<and> enPublicKey e \<noteq> None \<and> truthy (enCredentialId e)
       then built (createWebAuthnSigner K webauthn (the (enPublicKey e)) (base64urlToBuffer K (the (enCredentialId e))))
       else if enType e = Ed25519Entry \<and> enPublicKey e \<noteq> None
       then built (createEd25519Signer K (case enVerifier e of Some v \<Rightarrow> v | None \<Rightarrow> ed25519) (the (enPublicKey e)))
       else Inr None)"

section \<open>Install parameters\<close>

text \<open>
  The weights are a \<^verbatim>\<open>Map\<close> keyed by signer objects: those of the chain keep their reference, a
  fresh one, built for the entry at its position, equals no other.
\<close>

fun stageWeights :: "(signer_entry \<Rightarrow> signer option result) \<Rightarrow> (string \<times> jsnum) list \<Rightarrow> nat \<Rightarrow>
    ((object_ref + nat) \<times> (signer \<times> jsnum)) list \<Rightarrow> signer_entry list \<Rightarrow> (signer \<times> jsnum) list result" where
  "stageWeights conv weights i acc [] = Inr (map snd acc)"
| "stageWeights conv weights i acc (e # es) = (case map_of weights (enId e) of
     None \<Rightarrow> stageWeights conv weights (i + 1) acc es
   | Some weight \<Rightarrow>
       if \<not> jsLess (Fin 0) weight then stageWeights conv weights (i + 1) acc es
       else bindE (conv e) (\<lambda>s. (case s of
          None \<Rightarrow> stageWeights conv weights (i + 1) acc es
        | Some s \<Rightarrow> stageWeights conv weights (i + 1)
            (AList.update (case enSigner e of Some so \<Rightarrow> Inl (fst so) | None \<Rightarrow> Inr i) (s, weight) acc) es)))"

datatype native_params = KnownParams js_value | CustomParams json

text \<open>\<open>parse\<close> is \<^verbatim>\<open>JSON.parse\<close>; \<open>None\<close> is its \<^verbatim>\<open>SyntaxError\<close>.\<close>

definition buildNativePolicyParams ::
    "(string \<Rightarrow> json option) \<Rightarrow> (signer_entry \<Rightarrow> signer option result) \<Rightarrow> selected_policy \<Rightarrow> signer_entry list \<Rightarrow>
     native_params result" where
  "buildNativePolicyParams parse conv sp signers = (case piType (pfPolicy sp) of
     ThresholdPolicy \<Rightarrow>
       bindE (createThresholdParams (orNumber (pfThreshold sp) (Fin 1))) (\<lambda>t.
         Inr (KnownParams (JsObject [(''threshold'', JsNumber t)] NoToXdr)))
   | SpendingLimitPolicy \<Rightarrow>
       let text = (if truthy (pfSpendingLimit sp) then the (pfSpendingLimit sp) else ''1000'');
           limit = wholeNum floor (scaleNum (parseFloat text) (of_nat STROOPS_PER_XLM));
           period = scaleNum (orNumber (pfPeriodDays sp) (Fin 1)) (of_nat LEDGERS_PER_DAY) in
       bindE (toBigInt (NumAmount limit)) (\<lambda>limitStroops.
       bindE (createSpendingLimitParams (BigAmount limitStroops) period) (\<lambda>p.
         Inr (KnownParams (JsObject [(''period_ledgers'', JsNumber (spPeriodLedgers p)),
           (''spending_limit'', JsBigInt (spSpendingLimit p))] NoToXdr))))
   | WeightedThresholdPolicy \<Rightarrow>
       bindE (case pfWeights sp of None \<Rightarrow> Inr [] | Some ws \<Rightarrow> stageWeights conv ws 0 [] signers) (\<lambda>weights.
       bindE (createWeightedThresholdParams (orNumber (pfWeightedThreshold sp) (Fin 1)) weights) (\<lambda>p.
         Inr (KnownParams (JsObject [(''signer_weights'', JsMapOf (map (\<lambda>(s, n). (s, JsNumber n)) (wpSignerWeights p))),
           (''threshold'', JsNumber (wpThreshold p))] NoToXdr))))
   | CustomPolicy \<Rightarrow>
       Inr (CustomParams (if truthy (pfCustomParams sp)
         then (case parse (the (pfCustomParams sp)) of Some j \<Rightarrow> j | None \<Rightarrow> JObj []) else JObj [])))"

datatype install_param = EncodedParam scval | NativeParam json

definition encodePolicyInstallParam ::
    "sdk \<Rightarrow> (string \<Rightarrow> json option) \<Rightarrow> (signer_entry \<Rightarrow> signer option result) \<Rightarrow> selected_policy \<Rightarrow> signer_entry list \<Rightarrow>
     install_param result" where
  "encodePolicyInstallParam K parse conv sp signers =
     bindE (buildNativePolicyParams parse conv sp signers) (\<lambda>native. (case native of
        KnownParams v \<Rightarrow> bindE (convertPolicyParams K (piType (pfPolicy sp)) v) (\<lambda>e. Inr (EncodedParam e))
      | CustomParams j \<Rightarrow> Inr (NativeParam j)))"

section \<open>Live parameters\<close>

text \<open>\<open>field v name\<close> is \<^verbatim>\<open>Number(data[name])\<close> of the value \<^verbatim>\<open>data\<close> that \<^verbatim>\<open>scValToNative\<close> makes of \<open>v\<close>.\<close>

record live_spending_limit =
  lsLimitXlm :: jsnum
  lsPeriodDays :: jsnum
  lsSpentXlm :: jsnum

definition readSpendingLimitParams ::
    "kit_env \<Rightarrow> (scval \<Rightarrow> string \<Rightarrow> jsnum result) \<Rightarrow> string \<Rightarrow> nat \<Rightarrow> live_spending_limit act" where
  "readSpendingLimitParams E fieldNumber policyAddress ruleId =
     bindA (getSpendingLimitData E policyAddress ruleId) (\<lambda>data.
     let xlm = (\<lambda>n. scaleNum n (1 / of_nat STROOPS_PER_XLM)) in
     bindA (liftA (fieldNumber data ''spending_limit'')) (\<lambda>limit.
     bindA (liftA (fieldNumber data ''period_ledgers'')) (\<lambda>period.
     bindA (liftA (fieldNumber data ''cached_total_spent'')) (\<lambda>spent.
       returnA \<lparr>lsLimitXlm = xlm limit,
         lsPeriodDays = orNumber (Some (wholeNum roundHalfUp (scaleNum period (1 / of_nat LEDGERS_PER_DAY)))) (Fin 1),
         lsSpentXlm = xlm spent\<rparr>))))"

definition DEFAULT_POLICY_FORM :: "policy_info \<Rightarrow> selected_policy" where
  "DEFAULT_POLICY_FORM p = \<lparr>pfPolicy = p, pfThreshold = Some (Fin 1), pfSpendingLimit = Some ''1000'',
     pfPeriodDays = Some (Fin 1), pfWeightedThreshold = Some (Fin 1), pfWeights = Some [],
     pfCustomParams = Some ''{}'', pfModified = False\<rparr>"

definition unknownPolicy :: "string \<Rightarrow> selected_policy" where
  "unknownPolicy address = \<lparr>pfPolicy = \<lparr>piType = CustomPolicy, piName = ''Policy '' @ take 8 address @ ''...'',
     piAddress = address\<rparr>, pfThreshold = None, pfSpendingLimit = None, pfPeriodDays = None,
     pfWeightedThreshold = None, pfWeights = None, pfCustomParams = Some ''{}'', pfModified = True\<rparr>"

definition readPolicyForm ::
    "kit_env \<Rightarrow> policy_deps \<Rightarrow> (scval \<Rightarrow> string \<Rightarrow> jsnum result) \<Rightarrow> nat \<Rightarrow> policy_info \<Rightarrow> selected_policy act" where
  "readPolicyForm E D fieldNumber ruleId known = (case piType known of
     ThresholdPolicy \<Rightarrow> bindA (getThreshold E D (piAddress known) ruleId) (\<lambda>t.
       returnA ((DEFAULT_POLICY_FORM known)\<lparr>pfThreshold := Some t\<rparr>))
   | SpendingLimitPolicy \<Rightarrow> bindA (readSpendingLimitParams E fieldNumber (piAddress known) ruleId) (\<lambda>l.
       returnA ((DEFAULT_POLICY_FORM known)\<lparr>pfSpendingLimit := Some (numberText (lsLimitXlm l)),
         pfPeriodDays := Some (lsPeriodDays l)\<rparr>))
   | WeightedThresholdPolicy \<Rightarrow> bindA (getThreshold E D (piAddress known) ruleId) (\<lambda>t.
       returnA ((DEFAULT_POLICY_FORM known)\<lparr>pfWeightedThreshold := Some t\<rparr>))
   | CustomPolicy \<Rightarrow> returnA (DEFAULT_POLICY_FORM known))"

definition readRulePolicyParams ::
    "kit_env \<Rightarrow> policy_deps \<Rightarrow> (scval \<Rightarrow> string \<Rightarrow> jsnum result) \<Rightarrow> context_rule \<Rightarrow> policy_info list \<Rightarrow>
     selected_policy list act" where
  "readRulePolicyParams E D fieldNumber rule knownPolicies = mapA (\<lambda>policyAddress.
     (case List.find (\<lambda>p. piAddress p = policyAddress) knownPolicies of
        None \<Rightarrow> returnA (unknownPolicy policyAddress)
      | Some known \<Rightarrow> catchA (readPolicyForm E D fieldNumber (crId rule) known)
          (\<lambda>_. returnA ((DEFAULT_POLICY_FORM known)\<lparr>pfModified := True\<rparr>)))) (crPolicies rule)"

end
