(* ===== verification/Kit_RuleEditor.thy ===== *)
theory Kit_RuleEditor
  imports Kit_PolicyForm
begin

text \<open>
  The rule editor of the demo (\<^verbatim>\<open>ContextRuleBuilder.tsx\<close>, \<^verbatim>\<open>useMultiSignerSubmit.ts\<close>, \<^verbatim>\<open>utils/tx.ts\<close>):
  the form as a record, its handlers as functions on it, and the submission, which turns the
  difference between a form and a rule into a sequence of separately signed transactions. The
  specification is the rule as the chain holds it and what each of these transactions does to it.
  Logging, rendering and the fields only shown are left out.
\<close>

section \<open>Submitting one transaction\<close>

record simple_result =
  srSuccess :: bool
  srError :: "string option"

definition toSimpleResult :: "tx_result \<Rightarrow> simple_result" where
  "toSimpleResult result = (case result of
     TxSuccess h l \<Rightarrow> \<lparr>srSuccess = True, srError = None\<rparr>
   | TxFailure e h \<Rightarrow> \<lparr>srSuccess = False, srError = Some (errorMessage e)\<rparr>)"

definition txErrorMessage :: "tx_result \<Rightarrow> string" where
  "txErrorMessage result = (case result of TxSuccess h l \<Rightarrow> [] | TxFailure e h \<Rightarrow> errorMessage e)"

text \<open>\<open>admin\<close> is the kit's \<^verbatim>\<open>signAndSubmitAdmin\<close>.\<close>

definition useMultiSignerSubmit ::
    "kit_env \<Rightarrow> 'a multi_deps \<Rightarrow> (assembled \<Rightarrow> tx_result act) \<Rightarrow> signer_object list option \<Rightarrow> string option \<Rightarrow>
     assembled \<Rightarrow> selected_signer list option \<Rightarrow> simple_result act" where
  "useMultiSignerSubmit E M admin ruleSigners activeCredentialId tx selectedSigners =
     (if selectedSigners = None \<and>
         (ruleSigners = None \<or> \<not> needsMultiSigner (keSdk E) (map snd (items ruleSigners)))
      then bindA (admin tx) (\<lambda>r. returnA (toSimpleResult r))
      else let signers = (case selectedSigners of Some ss \<Rightarrow> ss
             | None \<Rightarrow> buildSelectedSigners (keSdk E) (mdOps M) (mdManager M) (items ruleSigners) activeCredentialId) in
        bindA (adminOperation E M tx signers \<lparr>moForceMethod = None, moResolveRuleIds = None\<rparr>) (\<lambda>r.
          returnA (toSimpleResult r)))"

section \<open>The form\<close>

datatype context_option = DefaultOption | CallContractOption | CreateContractOption | ExternalRefOption

record rule_form =
  rfName :: string
  rfContext :: context_option
  rfContract :: string
  rfWasmHash :: string
  rfOwner :: string
  rfTag :: string
  rfSigners :: "signer_entry list"
  rfPolicies :: "selected_policy list"
  rfHasExpiration :: bool
  rfExpirationLedgers :: jsnum
  rfError :: "string option"

record rule_editor =
  reEnv :: kit_env
  reSigners :: signer_deps
  reRules :: rule_deps
  rePolicies :: policy_deps
  reField :: "scval \<Rightarrow> string \<Rightarrow> jsnum result"
  reNative :: "json \<Rightarrow> scval"
  reParse :: "string \<Rightarrow> json option"
  reVerifier :: string
  reEd25519 :: string
  reActive :: "string option"
  reExisting :: "signer_object list"
  reAvailable :: "policy_info list"
  reRecognized :: "policy_info list"
  reWeighted :: bool
  reSubmit :: "assembled \<Rightarrow> selected_signer list option \<Rightarrow> simple_result act"

abbreviation reSdk :: "rule_editor \<Rightarrow> sdk" where
  "reSdk D \<equiv> keSdk (reEnv D)"

definition visiblePolicies :: "rule_editor \<Rightarrow> policy_info list" where
  "visiblePolicies D = filter (\<lambda>p. piType p \<noteq> WeightedThresholdPolicy \<or> reWeighted D) (reAvailable D)"

definition readablePolicies :: "rule_editor \<Rightarrow> policy_info list" where
  "readablePolicies D = visiblePolicies D @
     filter (\<lambda>p. \<not> list_ex (\<lambda>v. piAddress v = piAddress p) (visiblePolicies D)) (reRecognized D)"

definition formatSignerLabel :: "sdk \<Rightarrow> signer \<Rightarrow> string" where
  "formatSignerLabel K s = (let d = formatSignerForDisplay K s in
     if sdType d = ''Passkey'' then ''Passkey '' @ sdDisplay d else sdDisplay d)"

text \<open>\<open>uuid i\<close> is the \<open>i\<close>-th \<^verbatim>\<open>crypto.randomUUID()\<close>.\<close>

definition loadedSigner :: "rule_editor \<Rightarrow> string \<Rightarrow> signer_object \<Rightarrow> signer_entry" where
  "loadedSigner D uuid so = (let s = snd so; cred = getCredentialIdFromSigner (reSdk D) s in
     \<lparr>enId = uuid,
      enType = (case s of Delegated a \<Rightarrow> DelegatedEntry | _ \<Rightarrow> if truthy cred then PasskeyEntry else Ed25519Entry),
      enAddress = (case s of Delegated a \<Rightarrow> Some a | _ \<Rightarrow> None),
      enCredentialId = (if truthy cred then cred else None), enPublicKey = None, enVerifier = None,
      enLabel = formatSignerLabel (reSdk D) s, enSigner = Some so, enActive = Some (cred = reActive D)\<rparr>)"

definition emptyForm :: "rule_form \<Rightarrow> rule_form" where
  "emptyForm form = form\<lparr>rfName := [], rfContext := DefaultOption, rfContract := [], rfWasmHash := [], rfOwner := [],
     rfTag := [], rfSigners := [], rfPolicies := [], rfHasExpiration := False, rfError := None\<rparr>"

definition loadContext :: "context_rule_type \<Rightarrow> rule_form \<Rightarrow> rule_form" where
  "loadContext t form = (case t of
     CallContract c \<Rightarrow> form\<lparr>rfContext := CallContractOption, rfContract := c\<rparr>
   | CreateContractRule h \<Rightarrow> form\<lparr>rfContext := CreateContractOption, rfWasmHash := toHex h\<rparr>
   | CreateContractExternalRef owner tag \<Rightarrow> form\<lparr>rfContext := ExternalRefOption, rfOwner := owner, rfTag := tag\<rparr>
   | DefaultRule \<Rightarrow> form\<lparr>rfContext := DefaultOption, rfContract := [], rfWasmHash := [], rfOwner := [], rfTag := []\<rparr>)"

definition currentLedger :: "rule_editor \<Rightarrow> jsnum act" where
  "currentLedger D = bindA (requestA FxRpcLatestLedger (svRpcLatestLedger (keServices (reEnv D)))) (\<lambda>n.
     returnA (Fin (of_nat n)))"

text \<open>\<^verbatim>\<open>!!valid_until\<close>: the ledger 0 counts as none.\<close>

definition ledgerOf :: "jsnum option \<Rightarrow> jsnum option" where
  "ledgerOf v = (case v of None \<Rightarrow> None | Some n \<Rightarrow> if n = NaN \<or> n = Fin 0 then None else v)"

definition ruleUntil :: "context_rule \<Rightarrow> jsnum option" where
  "ruleUntil rule = ledgerOf (map_option (\<lambda>n. Fin (of_nat n)) (crValidUntil rule))"

text \<open>
  Opening the editor on a rule. The two background loads, of the ledger and of the policies, are
  run one after the other; neither reads what the other sets.
\<close>

definition loadExpiration :: "rule_editor \<Rightarrow> context_rule \<Rightarrow> jsnum act" where
  "loadExpiration D rule = (case ruleUntil rule of
     None \<Rightarrow> returnA DEFAULT_EXPIRATION_LEDGER_DELTA
   | Some v \<Rightarrow> catchA (bindA (currentLedger D) (\<lambda>l. returnA (absoluteValidUntilToLedgerDelta v l)))
       (\<lambda>_. returnA DEFAULT_EXPIRATION_LEDGER_DELTA))"

definition openEditor :: "rule_editor \<Rightarrow> (nat \<Rightarrow> string) \<Rightarrow> (nat \<Rightarrow> object_ref) \<Rightarrow> context_rule \<Rightarrow> rule_form \<Rightarrow> rule_form act" where
  "openEditor D uuid ref rule form =
     bindA (loadExpiration D rule) (\<lambda>ledgers.
     bindA (catchA (readRulePolicyParams (reEnv D) (rePolicies D) (reField D) rule (readablePolicies D)) (\<lambda>_. returnA []))
       (\<lambda>policies.
       returnA ((loadContext (crType rule) form)\<lparr>rfName := crName rule,
         rfSigners := map (\<lambda>i. loadedSigner D (uuid i) (ref i, crSigners rule ! i)) [0..<length (crSigners rule)],
         rfPolicies := policies, rfHasExpiration := ruleUntil rule \<noteq> None,
         rfExpirationLedgers := ledgers, rfError := None\<rparr>)))"

section \<open>Staging signers\<close>

record existing_entry =
  eeId :: string
  eeSigner :: "signer_object option"
  eeLabel :: string
  eeType :: entry_type
  eeCredentialId :: "string option"
  eeAddress :: "string option"
  eePublicKey :: "buffer option"
  eeActive :: bool
  eePending :: bool

definition onChainEntry :: "rule_editor \<Rightarrow> string \<Rightarrow> signer_object \<Rightarrow> existing_entry" where
  "onChainEntry D uuid so = (let s = snd so; credId = getCredentialIdFromSigner (reSdk D) s;
       address = (case s of Delegated a \<Rightarrow> Some a | _ \<Rightarrow> None) in
     \<lparr>eeId = (if truthy credId then the credId else if truthy address then the address else uuid),
      eeSigner = Some so, eeLabel = formatSignerLabel (reSdk D) s,
      eeType = (case s of Delegated a \<Rightarrow> DelegatedEntry | _ \<Rightarrow> PasskeyEntry),
      eeCredentialId = credId, eeAddress = address, eePublicKey = None,
      eeActive = (truthy credId \<and> credId = reActive D), eePending = False\<rparr>)"

definition pendingEntry :: "stored_credential \<Rightarrow> existing_entry" where
  "pendingEntry pc = \<lparr>eeId = scCredentialId pc, eeSigner = None,
     eeLabel = (if truthy (scNickname pc) then the (scNickname pc) else take 8 (scCredentialId pc)) @ '' (pending)'',
     eeType = PasskeyEntry, eeCredentialId = Some (scCredentialId pc), eeAddress = None,
     eePublicKey = Some (scPublicKey pc), eeActive = False, eePending = True\<rparr>"

definition existingSignerEntries :: "rule_editor \<Rightarrow> (nat \<Rightarrow> string) \<Rightarrow> stored_credential list \<Rightarrow> existing_entry list" where
  "existingSignerEntries D uuid pending =
     (let onChain = map (\<lambda>i. onChainEntry D (uuid i) (reExisting D ! i)) [0..<length (reExisting D)] in
      onChain @ map pendingEntry (filter (\<lambda>pc. \<not> list_ex (\<lambda>e. eeCredentialId e = Some (scCredentialId pc)) onChain) pending))"

definition alreadyStaged :: "existing_entry \<Rightarrow> signer_entry list \<Rightarrow> bool" where
  "alreadyStaged e signers \<longleftrightarrow>
     (truthy (eeCredentialId e) \<and> list_ex (\<lambda>s. enCredentialId s = eeCredentialId e) signers) \<or>
     (truthy (eeAddress e) \<and> list_ex (\<lambda>s. enAddress s = eeAddress e) signers)"

text \<open>\<^verbatim>\<open>label.replace(" (pending)", "")\<close>: the first occurrence only.\<close>

fun dropPendingMark :: "string \<Rightarrow> string" where
  "dropPendingMark [] = []"
| "dropPendingMark (c # cs) =
     (if take 10 (c # cs) = '' (pending)'' then drop 10 (c # cs) else c # dropPendingMark cs)"

definition stagedFromExisting :: "string \<Rightarrow> existing_entry \<Rightarrow> signer_entry" where
  "stagedFromExisting uuid e =
     (if eePending e \<and> eePublicKey e \<noteq> None
      then \<lparr>enId = uuid, enType = PasskeyEntry, enAddress = None,
        enCredentialId = (if truthy (eeCredentialId e) then eeCredentialId e else None), enPublicKey = eePublicKey e,
        enVerifier = None, enLabel = dropPendingMark (eeLabel e), enSigner = None, enActive = Some False\<rparr>
      else \<lparr>enId = uuid, enType = eeType e, enAddress = eeAddress e,
        enCredentialId = (if truthy (eeCredentialId e) then eeCredentialId e else None), enPublicKey = None,
        enVerifier = None, enLabel = eeLabel e @ (if eeActive e then '' (active)'' else []),
        enSigner = eeSigner e, enActive = Some (eeActive e)\<rparr>)"

definition handleAddExistingSigner :: "string \<Rightarrow> string \<Rightarrow> existing_entry list \<Rightarrow> rule_form \<Rightarrow> rule_form" where
  "handleAddExistingSigner uuid selectedSignerId entries form =
     (case List.find (\<lambda>e. eeId e = selectedSignerId) entries of
        None \<Rightarrow> form\<lparr>rfError := Some ''Please select a signer''\<rparr>
      | Some e \<Rightarrow>
          if alreadyStaged e (rfSigners form) then form\<lparr>rfError := Some ''This signer is already added''\<rparr>
          else form\<lparr>rfSigners := rfSigners form @ [stagedFromExisting uuid e], rfError := None\<rparr>)"

definition blankEntry :: "string \<Rightarrow> entry_type \<Rightarrow> string \<Rightarrow> signer_entry" where
  "blankEntry uuid t label = \<lparr>enId = uuid, enType = t, enAddress = None, enCredentialId = None, enPublicKey = None,
     enVerifier = None, enLabel = label, enSigner = None, enActive = None\<rparr>"

definition shortAddress :: "string \<Rightarrow> string" where
  "shortAddress a = take 8 a @ ''...'' @ drop (length a - 8) a"

definition stagedAddress :: "string \<Rightarrow> rule_form \<Rightarrow> bool" where
  "stagedAddress address form \<longleftrightarrow> list_ex (\<lambda>s. enType s = DelegatedEntry \<and> enAddress s = Some address) (rfSigners form)"

definition handleAddGAddress :: "string \<Rightarrow> string \<Rightarrow> rule_form \<Rightarrow> rule_form" where
  "handleAddGAddress uuid gAddress form = (let address = trim gAddress in
     if take 1 address \<noteq> ''G'' \<or> length address \<noteq> 56
     then form\<lparr>rfError := Some ''Invalid Stellar address. Must start with G and be 56 characters.''\<rparr>
     else if stagedAddress address form then form\<lparr>rfError := Some ''This signer is already added''\<rparr>
     else form\<lparr>rfSigners := rfSigners form @ [(blankEntry uuid DelegatedEntry (shortAddress address))
         \<lparr>enAddress := Some address\<rparr>], rfError := None\<rparr>)"

definition handleAddConnectedWallet :: "string \<Rightarrow> string \<Rightarrow> string \<Rightarrow> rule_form \<Rightarrow> rule_form" where
  "handleAddConnectedWallet uuid walletName address form =
     (if stagedAddress address form then form\<lparr>rfError := Some ''This wallet is already added as a signer''\<rparr>
      else form\<lparr>rfSigners := rfSigners form @ [(blankEntry uuid DelegatedEntry (walletName @ '': '' @ shortAddress address))
         \<lparr>enAddress := Some address\<rparr>], rfError := None\<rparr>)"

text \<open>\<open>register\<close> registers the key pair of a secret key and returns its address and hex public key.\<close>

definition handleAddEd25519 ::
    "rule_editor \<Rightarrow> string \<Rightarrow> (string \<Rightarrow> (string \<times> string) option result) option \<Rightarrow> string \<Rightarrow> rule_form \<Rightarrow> rule_form" where
  "handleAddEd25519 D uuid register ed25519Secret form = (let secret = trim ed25519Secret in
     if take 1 secret \<noteq> ''S'' \<or> length secret \<noteq> 56
     then form\<lparr>rfError := Some ''Invalid secret key. Must start with S and be 56 characters.''\<rparr>
     else if reEd25519 D = [] then form\<lparr>rfError := Some ''No Ed25519 verifier is configured.''\<rparr>
     else (case register of
        None \<Rightarrow> form\<lparr>rfError := Some ''Ed25519 signing is not available.''\<rparr>
      | Some reg \<Rightarrow> (case reg secret of
          Inl e \<Rightarrow> form\<lparr>rfError := Some (case e of JsThrown m \<Rightarrow> ''Failed to add Ed25519 signer'' | _ \<Rightarrow> errorMessage e)\<rparr>
        | Inr None \<Rightarrow> form\<lparr>rfError := Some ''Failed to register Ed25519 signer''\<rparr>
        | Inr (Some (address, publicKey)) \<Rightarrow>
            if list_ex (\<lambda>s. enType s = Ed25519Entry \<and> map_option toHex (enPublicKey s) = Some publicKey) (rfSigners form)
            then form\<lparr>rfError := Some ''This Ed25519 signer is already added''\<rparr>
            else form\<lparr>rfSigners := rfSigners form @
                [(blankEntry uuid Ed25519Entry (''Ed25519 '' @ take 8 publicKey @ ''...''))
                   \<lparr>enPublicKey := Some (fromHex publicKey), enVerifier := Some (reEd25519 D)\<rparr>],
              rfError := None\<rparr>)))"

definition handleCreateNewPasskey ::
    "rule_editor \<Rightarrow> credential_deps \<Rightarrow> string \<Rightarrow> string \<Rightarrow> rule_form \<Rightarrow> rule_form act" where
  "handleCreateNewPasskey D C uuid newPasskeyName form =
     (let label = orElse (trim newPasskeyName) (''Signer '' @ decimal (length (rfSigners form) + 1)) in
      catchA (bindA (credCreate (keServices (reEnv D)) C (Some label) (Some ''Smart Account Demo'')) (\<lambda>credential.
          returnA (form\<lparr>rfSigners := rfSigners form @ [(blankEntry uuid PasskeyEntry label)
             \<lparr>enCredentialId := Some (scCredentialId credential), enPublicKey := Some (scPublicKey credential)\<rparr>],
           rfError := None\<rparr>)))
        (\<lambda>e. returnA (form\<lparr>rfError := Some (case e of JsThrown m \<Rightarrow> ''Failed to create passkey'' | _ \<Rightarrow> errorMessage e)\<rparr>)))"

definition handleRemoveSigner :: "string \<Rightarrow> rule_form \<Rightarrow> rule_form" where
  "handleRemoveSigner entryId form = form\<lparr>rfSigners := filter (\<lambda>s. enId s \<noteq> entryId) (rfSigners form)\<rparr>"

section \<open>Submitting the form\<close>

definition contractSigner :: "rule_editor \<Rightarrow> signer_entry \<Rightarrow> signer option result" where
  "contractSigner D = signerEntryToContractSigner (reSdk D) (reVerifier D) (reEd25519 D)"

definition formContext :: "rule_editor \<Rightarrow> rule_form \<Rightarrow> context_rule_type result" where
  "formContext D form = (case rfContext form of
     CallContractOption \<Rightarrow> createCallContractContext (reSdk D) (rfContract form)
   | CreateContractOption \<Rightarrow> createCreateContractContext (HexText (rfWasmHash form))
   | ExternalRefOption \<Rightarrow> createCreateContractExternalRefContext (reSdk D) (trim (rfOwner form)) (Some (rfTag form))
   | DefaultOption \<Rightarrow> Inr createDefaultContext)"

definition builtSigners :: "rule_editor \<Rightarrow> signer_entry list \<Rightarrow> signer list result" where
  "builtSigners D entries = bindE (mapE (contractSigner D) entries) (\<lambda>ss. Inr (List.map_filter id ss))"

definition formUntil :: "rule_editor \<Rightarrow> rule_form \<Rightarrow> jsnum option act" where
  "formUntil D form = (if rfHasExpiration form
     then bindA (currentLedger D) (\<lambda>l. returnA (Some (plusNum l (rfExpirationLedgers form))))
     else returnA None)"

text \<open>One change: build its transaction, submit it, and throw unless it succeeded.\<close>

definition submitChange :: "rule_editor \<Rightarrow> selected_signer list option \<Rightarrow> string \<Rightarrow> assembled act \<Rightarrow> unit act" where
  "submitChange D selected failure build = bindA build (\<lambda>tx. bindA (reSubmit D tx selected) (\<lambda>result.
     if srSuccess result then returnA ()
     else throwA (JsError (if truthy (srError result) then the (srError result) else failure))))"

definition installValue :: "rule_editor \<Rightarrow> install_param \<Rightarrow> scval" where
  "installValue D p = (case p of EncodedParam v \<Rightarrow> v | NativeParam j \<Rightarrow> reNative D j)"

definition encodedPolicy :: "rule_editor \<Rightarrow> rule_form \<Rightarrow> selected_policy \<Rightarrow> install_param result" where
  "encodedPolicy D form sp = encodePolicyInstallParam (reSdk D) (reParse D) (contractSigner D) sp (rfSigners form)"

definition newEntries :: "rule_form \<Rightarrow> signer_entry list" where
  "newEntries form = filter (\<lambda>e. enSigner e = None) (rfSigners form)"

definition removedSigners :: "context_rule \<Rightarrow> rule_form \<Rightarrow> signer list" where
  "removedSigners rule form = filter (\<lambda>original. \<not> list_ex (\<lambda>e. case enSigner e of None \<Rightarrow> False
       | Some so \<Rightarrow> signersEqual (snd so) original) (rfSigners form)) (crSigners rule)"

definition policiesToAdd :: "context_rule \<Rightarrow> rule_form \<Rightarrow> selected_policy list" where
  "policiesToAdd rule form = filter (\<lambda>sp. piAddress (pfPolicy sp) \<notin> set (crPolicies rule)) (rfPolicies form)"

definition policiesToRemove :: "context_rule \<Rightarrow> rule_form \<Rightarrow> string list" where
  "policiesToRemove rule form = filter (\<lambda>a. a \<notin> set (map (piAddress \<circ> pfPolicy) (rfPolicies form))) (crPolicies rule)"

definition policiesToUpdate :: "context_rule \<Rightarrow> rule_form \<Rightarrow> selected_policy list" where
  "policiesToUpdate rule form =
     filter (\<lambda>sp. piAddress (pfPolicy sp) \<in> set (crPolicies rule) \<and> pfModified sp) (rfPolicies form)"

definition forA :: "('a \<Rightarrow> unit act) \<Rightarrow> 'a list \<Rightarrow> unit act" where
  "forA f xs = bindA (mapA f xs) (\<lambda>_. returnA ())"

definition editName :: "rule_editor \<Rightarrow> selected_signer list option \<Rightarrow> context_rule \<Rightarrow> rule_form \<Rightarrow> unit act" where
  "editName D selected rule form = (if trim (rfName form) = crName rule then returnA ()
     else submitChange D selected ''Failed to update rule name''
       (updateRuleName (reRules D) (crId rule) (trim (rfName form))))"

definition editSigners :: "rule_editor \<Rightarrow> selected_signer list option \<Rightarrow> context_rule \<Rightarrow> rule_form \<Rightarrow> unit act" where
  "editSigners D selected rule form =
     bindA (liftA (builtSigners D (newEntries form))) (\<lambda>contractSigners.
     bindA (if contractSigners = [] then returnA ()
       else submitChange D selected ''Failed to add signers''
         (addBatch (reSdk D) (reSigners D) (crId rule) contractSigners None)) (\<lambda>_.
       forA (\<lambda>s. submitChange D selected ''Failed to remove signer'' (removeSigner (reSigners D) (crId rule) s))
         (removedSigners rule form)))"

definition addStagedPolicy ::
    "rule_editor \<Rightarrow> selected_signer list option \<Rightarrow> context_rule \<Rightarrow> rule_form \<Rightarrow> selected_policy \<Rightarrow> unit act" where
  "addStagedPolicy D selected rule form sp = bindA (liftA (encodedPolicy D form sp)) (\<lambda>encoded.
     submitChange D selected (''Failed to add policy '' @ piName (pfPolicy sp))
       (addPolicy (rdWallet (reRules D)) (crId rule) (piAddress (pfPolicy sp)) (installValue D encoded)))"

definition editPolicies :: "rule_editor \<Rightarrow> selected_signer list option \<Rightarrow> context_rule \<Rightarrow> rule_form \<Rightarrow> unit act" where
  "editPolicies D selected rule form =
     (if newEntries form \<noteq> [] then returnA ()
      else let drop_it = (\<lambda>failure address. submitChange D selected failure
             (removePolicy (rdWallet (reRules D)) (crId rule) address)) in
        bindA (forA (\<lambda>a. drop_it (''Failed to remove policy '' @ a) a) (policiesToRemove rule form)) (\<lambda>_.
        bindA (forA (\<lambda>sp. drop_it (''Failed to update policy '' @ piName (pfPolicy sp)) (piAddress (pfPolicy sp)))
            (policiesToUpdate rule form)) (\<lambda>_.
        bindA (forA (addStagedPolicy D selected rule form) (policiesToUpdate rule form)) (\<lambda>_.
          forA (addStagedPolicy D selected rule form) (policiesToAdd rule form)))))"

definition editExpiration ::
    "rule_editor \<Rightarrow> selected_signer list option \<Rightarrow> context_rule \<Rightarrow> rule_form \<Rightarrow> jsnum option \<Rightarrow> unit act" where
  "editExpiration D selected rule form validUntil =
     (if ruleUntil rule \<noteq> ledgerOf validUntil \<and> newEntries form = []
      then submitChange D selected ''Failed to update expiration''
        (updateRuleExpiration (reRules D) (crId rule) validUntil)
      else returnA ())"

definition editRule ::
    "rule_editor \<Rightarrow> selected_signer list option \<Rightarrow> context_rule \<Rightarrow> rule_form \<Rightarrow> jsnum option \<Rightarrow> unit act" where
  "editRule D selected rule form validUntil =
     bindA (editName D selected rule form) (\<lambda>_.
     bindA (editSigners D selected rule form) (\<lambda>_.
     bindA (editPolicies D selected rule form) (\<lambda>_.
       editExpiration D selected rule form validUntil)))"

text \<open>The policies of a new rule are a \<^verbatim>\<open>Map\<close> by address: a repeated one keeps its place.\<close>

fun collectStaged :: "rule_editor \<Rightarrow> rule_form \<Rightarrow> (string \<times> scval) list \<Rightarrow> selected_policy list \<Rightarrow> (string \<times> scval) list result" where
  "collectStaged D form acc [] = Inr acc"
| "collectStaged D form acc (sp # sps) = bindE (encodedPolicy D form sp) (\<lambda>p.
     collectStaged D form (AList.update (piAddress (pfPolicy sp)) (installValue D p) acc) sps)"

definition createRule ::
    "rule_editor \<Rightarrow> selected_signer list option \<Rightarrow> rule_form \<Rightarrow> context_rule_type \<Rightarrow> signer list \<Rightarrow> jsnum option \<Rightarrow> unit act" where
  "createRule D selected form ctxType signers validUntil =
     bindA (liftA (collectStaged D form [] (rfPolicies form))) (\<lambda>policies.
       submitChange D selected ''Failed to create rule''
         (addRule (reSdk D) (reRules D) ctxType (trim (rfName form)) signers policies validUntil))"

definition cleanUp :: "rule_editor \<Rightarrow> rule_form \<Rightarrow> unit act" where
  "cleanUp D form = forA (\<lambda>e. credDelete (reEnv D) (the (enCredentialId e)))
     (filter (\<lambda>e. enType e = PasskeyEntry \<and> truthy (enCredentialId e) \<and> enSigner e = None) (rfSigners form))"

text \<open>\<open>None\<close>: the editor closes. A message: it stays open and shows it.\<close>

definition saveForm :: "rule_editor \<Rightarrow> context_rule option \<Rightarrow> selected_signer list option \<Rightarrow> rule_form \<Rightarrow> unit act" where
  "saveForm D editing selected form =
     bindA (liftA (formContext D form)) (\<lambda>ctxType.
     bindA (liftA (builtSigners D (rfSigners form))) (\<lambda>signers.
     bindA (formUntil D form) (\<lambda>validUntil.
     bindA (case editing of
         Some rule \<Rightarrow> editRule D selected rule form validUntil
       | None \<Rightarrow> createRule D selected form ctxType signers validUntil) (\<lambda>_.
       cleanUp D form))))"

definition executeSubmit ::
    "rule_editor \<Rightarrow> context_rule option \<Rightarrow> selected_signer list option \<Rightarrow> rule_form \<Rightarrow> string option act" where
  "executeSubmit D editing selected form =
     catchA (bindA (saveForm D editing selected form) (\<lambda>_. returnA None))
       (\<lambda>e. returnA (Some (case e of JsThrown m \<Rightarrow> ''Unknown error'' | _ \<Rightarrow> errorMessage e)))"

section \<open>Checking the form\<close>

datatype submit_choice = FormRejected string | ChooseSigners | SubmitNow

definition invalidAddressText :: "string \<Rightarrow> bool" where
  "invalidAddressText a \<longleftrightarrow> take 1 a \<noteq> ''C'' \<or> length a \<noteq> 56"

definition hexText :: "string \<Rightarrow> bool" where
  "hexText s \<longleftrightarrow> s \<noteq> [] \<and> list_all (\<lambda>c. hexValue c \<noteq> None) s"

definition contextProblem :: "rule_form \<Rightarrow> string option" where
  "contextProblem form = (case rfContext form of
     CallContractOption \<Rightarrow> if invalidAddressText (rfContract form)
       then Some ''Invalid contract address. Must start with C and be 56 characters.'' else None
   | CreateContractOption \<Rightarrow>
       let cleanHash = (if take 2 (rfWasmHash form) = ''0x'' then drop 2 (rfWasmHash form) else rfWasmHash form) in
       if length cleanHash \<noteq> 64 \<or> \<not> hexText cleanHash
       then Some ''Invalid WASM hash. Must be 64 hex characters (32 bytes).'' else None
   | ExternalRefOption \<Rightarrow> if invalidAddressText (trim (rfOwner form))
       then Some ''Invalid executable owner. Must start with C and be 56 characters.'' else None
   | DefaultOption \<Rightarrow> None)"

text \<open>The demo's thresholds are shown as the number of a form field.\<close>

fun thresholdProblem :: "nat \<Rightarrow> selected_policy list \<Rightarrow> string option" where
  "thresholdProblem n [] = None"
| "thresholdProblem n (sp # sps) = (let t = orNumber (pfThreshold sp) (Fin 1) in
     if piType (pfPolicy sp) = ThresholdPolicy \<and> jsLess (Fin (of_nat n)) t
     then Some (''Threshold ('' @ numberText t @ '') cannot exceed number of signers ('' @ decimal n @ '').'')
     else thresholdProblem n sps)"

definition handleSubmit :: "rule_editor \<Rightarrow> rule_form \<Rightarrow> submit_choice" where
  "handleSubmit D form =
     (if trim (rfName form) = [] then FormRejected ''Rule name is required.''
      else if \<not> isOk (validateContextRuleName (trim (rfName form)))
      then FormRejected (''Rule name must be at most '' @ decimal MAX_NAME_SIZE @ '' bytes (UTF-8).'')
      else (case contextProblem form of
         Some m \<Rightarrow> FormRejected m
       | None \<Rightarrow>
           if rfSigners form = [] \<and> rfPolicies form = [] then FormRejected ''At least one signer or policy is required.''
           else (case thresholdProblem (length (rfSigners form)) (rfPolicies form) of
               Some m \<Rightarrow> FormRejected m
             | None \<Rightarrow> if needsMultiSigner (reSdk D) (map snd (reExisting D)) then ChooseSigners else SubmitNow)))"

section \<open>The rule on the chain\<close>

record chain_rule =
  ocName :: string
  ocSigners :: "signer set"
  ocPolicies :: "string \<Rightarrow> scval option"
  ocUntil :: "jsnum option"

datatype rule_change = SetName string | AddSigners "signer list" | DropSigner signer | DropPolicy string
  | PutPolicy string scval | SetUntil "jsnum option"

fun applyChange :: "rule_change \<Rightarrow> chain_rule \<Rightarrow> chain_rule" where
  "applyChange (SetName n) r = r\<lparr>ocName := n\<rparr>"
| "applyChange (AddSigners ss) r = r\<lparr>ocSigners := ocSigners r \<union> set ss\<rparr>"
| "applyChange (DropSigner s) r = r\<lparr>ocSigners := ocSigners r - {s}\<rparr>"
| "applyChange (DropPolicy a) r = r\<lparr>ocPolicies := (ocPolicies r)(a := None)\<rparr>"
| "applyChange (PutPolicy a v) r = r\<lparr>ocPolicies := (ocPolicies r)(a := Some v)\<rparr>"
| "applyChange (SetUntil v) r = r\<lparr>ocUntil := ledgerOf v\<rparr>"

text \<open>The transaction of a change, and a sequence of changes each of which succeeded.\<close>

fun buildChange :: "rule_editor \<Rightarrow> nat \<Rightarrow> rule_change \<Rightarrow> assembled act" where
  "buildChange D i (SetName n) = updateRuleName (reRules D) i n"
| "buildChange D i (AddSigners ss) = addBatch (reSdk D) (reSigners D) i ss None"
| "buildChange D i (DropSigner s) = removeSigner (reSigners D) i s"
| "buildChange D i (DropPolicy a) = removePolicy (rdWallet (reRules D)) i a"
| "buildChange D i (PutPolicy a v) = addPolicy (rdWallet (reRules D)) i a v"
| "buildChange D i (SetUntil v) = updateRuleExpiration (reRules D) i v"

inductive performed :: "rule_editor \<Rightarrow> selected_signer list option \<Rightarrow> nat \<Rightarrow> rule_change list \<Rightarrow> world \<Rightarrow> world \<Rightarrow> bool"
  for D selected i where
  none: "performed D selected i [] w w"
| change: "buildChange D i c w = (Inr tx, w1) \<Longrightarrow> reSubmit D tx selected w1 = (Inr r, w2) \<Longrightarrow> srSuccess r \<Longrightarrow>
    performed D selected i cs w2 w' \<Longrightarrow> performed D selected i (c # cs) w w'"

inductive_simps performed_simps: "performed D selected i [] w w'" "performed D selected i (c # cs) w w'"

definition putPolicy :: "rule_editor \<Rightarrow> rule_form \<Rightarrow> selected_policy \<Rightarrow> rule_change result" where
  "putPolicy D form sp = bindE (encodedPolicy D form sp) (\<lambda>p. Inr (PutPolicy (piAddress (pfPolicy sp)) (installValue D p)))"

definition changePlan :: "rule_editor \<Rightarrow> context_rule \<Rightarrow> rule_form \<Rightarrow> jsnum option \<Rightarrow> rule_change list result" where
  "changePlan D rule form until =
     bindE (builtSigners D (newEntries form)) (\<lambda>added.
     bindE (if newEntries form \<noteq> [] then Inr []
       else mapE (putPolicy D form) (policiesToUpdate rule form @ policiesToAdd rule form)) (\<lambda>puts.
       Inr ((if trim (rfName form) = crName rule then [] else [SetName (trim (rfName form))]) @
         (if added = [] then [] else [AddSigners added]) @ map DropSigner (removedSigners rule form) @
         (if newEntries form \<noteq> [] then []
          else map DropPolicy (policiesToRemove rule form @ map (piAddress \<circ> pfPolicy) (policiesToUpdate rule form))) @
         puts @ (if ruleUntil rule \<noteq> ledgerOf until \<and> newEntries form = [] then [SetUntil until] else []))))"

lemma performed_append:
  "performed D selected i (xs @ ys) w w' \<longleftrightarrow>
     (\<exists>w1. performed D selected i xs w w1 \<and> performed D selected i ys w1 w')"
  by (induction xs arbitrary: w) (auto simp: performed_simps)

text \<open>A computation that goes through exactly by performing a plan.\<close>

definition performs ::
    "rule_editor \<Rightarrow> selected_signer list option \<Rightarrow> nat \<Rightarrow> unit act \<Rightarrow> rule_change list result \<Rightarrow> bool" where
  "performs D selected i m plan \<longleftrightarrow>
     (\<forall>u w w'. m w = (Inr u, w') \<longleftrightarrow> (\<exists>cs. plan = Inr cs \<and> performed D selected i cs w w'))"

named_theorems performs_intros \<open>what the steps of an edit perform\<close>

lemma performs_none [performs_intros]: "performs D selected i (returnA ()) (Inr [])"
  by (auto simp: performs_def run_simps performed_simps)

lemma performs_change [performs_intros]:
  "build = buildChange D i c \<Longrightarrow> performs D selected i (submitChange D selected f build) (Inr [c])"
  by (auto simp: performs_def submitChange_def bindA_Inr performed_simps run_simps split: if_splits)

lemma performs_bind [performs_intros]:
  assumes "performs D selected i m p" "performs D selected i n q"
  shows "performs D selected i (bindA m (\<lambda>_. n)) (bindE p (\<lambda>a. bindE q (\<lambda>b. Inr (a @ b))))"
proof -
  have m: "m w = (Inr u, w') \<longleftrightarrow> (\<exists>a. p = Inr a \<and> performed D selected i a w w')" for u w w'
    using assms(1) by (simp add: performs_def)
  have n: "n w = (Inr u, w') \<longleftrightarrow> (\<exists>b. q = Inr b \<and> performed D selected i b w w')" for u w w'
    using assms(2) by (simp add: performs_def)
  show ?thesis
    by (cases p; cases q) (auto simp: performs_def bindA_Inr m n performed_append)
qed

lemma performs_lift [performs_intros]:
  "(\<And>x. performs D selected i (m x) (p x)) \<Longrightarrow> performs D selected i (bindA (liftA r) m) (bindE r p)"
  by (cases r) (auto simp: performs_def bindA_Inr run_simps)

lemma performs_if [performs_intros]:
  "(b \<Longrightarrow> performs D selected i m p) \<Longrightarrow> (\<not> b \<Longrightarrow> performs D selected i n q) \<Longrightarrow>
     performs D selected i (if b then m else n) (if b then p else q)"
  by simp

lemma performs_forA:
  assumes "\<And>x. performs D selected i (f x) (bindE (g x) (\<lambda>c. Inr [c]))"
  shows "performs D selected i (forA f xs) (mapE g xs)"
proof (induction xs)
  case Nil
  show ?case by (auto simp: performs_def forA_def bindA_Inr run_simps performed_simps)
next
  case (Cons x xs)
  have e: "forA f (x # xs) = bindA (f x) (\<lambda>_. forA f xs)"
    by (rule ext) (simp add: forA_def bindA_def run_simps split: prod.splits sum.splits)
  have "bindE (bindE (g x) (\<lambda>c. Inr [c])) (\<lambda>a. bindE (mapE g xs) (\<lambda>b. Inr (a @ b))) = mapE g (x # xs)"
    by (cases "g x") simp_all
  with performs_bind [OF assms Cons] show ?case by (metis e)
qed

lemma performs_each:
  "(\<And>x. build x = buildChange D i (c x)) \<Longrightarrow>
     performs D selected i (forA (\<lambda>x. submitChange D selected (f x) (build x)) xs) (Inr (map c xs))"
  using performs_forA [where f = "\<lambda>x. submitChange D selected (f x) (build x)" and g = "\<lambda>x. Inr (c x)"
      and D = D and selected = selected and i = i and xs = xs]
  by (simp add: performs_change mapE_total)

lemma addStagedPolicy_performs [performs_intros]:
  "performs D selected (crId rule) (addStagedPolicy D selected rule form sp) (bindE (putPolicy D form sp) (\<lambda>c. Inr [c]))"
proof -
  have "bindE (putPolicy D form sp) (\<lambda>c. Inr [c]) =
      bindE (encodedPolicy D form sp) (\<lambda>p. Inr [PutPolicy (piAddress (pfPolicy sp)) (installValue D p)])"
    by (cases "encodedPolicy D form sp") (simp_all add: putPolicy_def)
  then show ?thesis by (simp add: addStagedPolicy_def performs_lift performs_change)
qed

lemma editName_performs [performs_intros]:
  "performs D selected (crId rule) (editName D selected rule form)
     (if trim (rfName form) = crName rule then Inr [] else Inr [SetName (trim (rfName form))])"
  unfolding editName_def by (intro performs_intros) simp

lemma editSigners_performs [performs_intros]:
  "performs D selected (crId rule) (editSigners D selected rule form)
     (bindE (builtSigners D (newEntries form)) (\<lambda>added.
        Inr ((if added = [] then [] else [AddSigners added]) @ map DropSigner (removedSigners rule form))))"
proof -
  have r: "performs D selected (crId rule) (forA (\<lambda>s. submitChange D selected ''Failed to remove signer''
      (removeSigner (reSigners D) (crId rule) s)) (removedSigners rule form)) (Inr (map DropSigner (removedSigners rule form)))"
    by (rule performs_each) simp
  have a: "performs D selected (crId rule) (if added = [] then returnA () else submitChange D selected ''Failed to add signers''
      (addBatch (reSdk D) (reSigners D) (crId rule) added None)) (Inr (if added = [] then [] else [AddSigners added]))" for added
    by (simp add: performs_intros)
  show ?thesis unfolding editSigners_def using performs_lift [OF performs_bind [OF a r]] by simp
qed

lemma editPolicies_performs [performs_intros]:
  "performs D selected (crId rule) (editPolicies D selected rule form)
     (if newEntries form \<noteq> [] then Inr []
      else bindE (mapE (putPolicy D form) (policiesToUpdate rule form @ policiesToAdd rule form)) (\<lambda>puts.
        Inr (map DropPolicy (policiesToRemove rule form @ map (piAddress \<circ> pfPolicy) (policiesToUpdate rule form)) @ puts)))"
proof (cases "newEntries form = []")
  case True
  let ?D = "\<lambda>xs. Inr (map DropPolicy xs) :: rule_change list result"
  let ?m = "mapE (putPolicy D form)"
  let ?r = "policiesToRemove rule form" and ?u = "policiesToUpdate rule form" and ?n = "policiesToAdd rule form"
  have d: "performs D selected (crId rule) (forA (\<lambda>a. submitChange D selected (f a)
      (removePolicy (rdWallet (reRules D)) (crId rule) a)) xs) (?D xs)" for f xs
    by (rule performs_each) simp
  have u: "performs D selected (crId rule) (forA (\<lambda>sp. submitChange D selected (f sp)
      (removePolicy (rdWallet (reRules D)) (crId rule) (piAddress (pfPolicy sp)))) xs) (?D (map (piAddress \<circ> pfPolicy) xs))" for f xs
    using performs_each [where c = "DropPolicy \<circ> piAddress \<circ> pfPolicy" and D = D and i = "crId rule" and f = f
        and build = "\<lambda>sp. removePolicy (rdWallet (reRules D)) (crId rule) (piAddress (pfPolicy sp))"]
    by (simp add: o_assoc)
  have p: "performs D selected (crId rule) (forA (addStagedPolicy D selected rule form) xs) (?m xs)" for xs
    by (rule performs_forA) (rule addStagedPolicy_performs)
  have "performs D selected (crId rule) (editPolicies D selected rule form)
      (bindE (?D ?r) (\<lambda>a. bindE (bindE (?D (map (piAddress \<circ> pfPolicy) ?u)) (\<lambda>a. bindE (bindE (?m ?u) (\<lambda>a. bindE (?m ?n) (\<lambda>b. Inr (a @ b))))
        (\<lambda>b. Inr (a @ b)))) (\<lambda>b. Inr (a @ b))))"
    unfolding editPolicies_def Let_def by (simp only: True simp_thms if_False) (intro performs_bind d u p)
  then show ?thesis
    by (cases "?m ?u"; cases "?m ?n") (simp_all add: True mapE_append)
qed (simp add: editPolicies_def performs_none)

lemma editExpiration_performs [performs_intros]:
  "performs D selected (crId rule) (editExpiration D selected rule form until)
     (if ruleUntil rule \<noteq> ledgerOf until \<and> newEntries form = [] then Inr [SetUntil until] else Inr [])"
  unfolding editExpiration_def by (intro performs_intros) simp

text \<open>An edit goes through exactly when its whole plan is performed, change by change and in order.\<close>

lemma editRule_performs: "performs D selected (crId rule) (editRule D selected rule form until) (changePlan D rule form until)"
proof -
  note steps = performs_bind [OF editName_performs [of D selected rule form]
      performs_bind [OF editSigners_performs [of D selected rule form]
        performs_bind [OF editPolicies_performs [of D selected rule form] editExpiration_performs [of D selected rule form until]]]]
  show ?thesis
    using steps [folded editRule_def] unfolding changePlan_def
    by (cases "builtSigners D (newEntries form)"; cases "mapE (putPolicy D form) (policiesToUpdate rule form @ policiesToAdd rule form)")
      (auto split: if_splits)
qed

end
