(* ===== verification/Kit_RuleSpec.thy ===== *)
theory Kit_RuleSpec
  imports Kit_RuleEditor
begin

text \<open>
  What a successful save of the rule editor has done to the rule on the chain: the effect of its plan
  on the specification of \<open>Kit_RuleEditor\<close>, and the edits whose effect is not what the form shows.
\<close>

section \<open>The effect of a plan\<close>

definition chainRule :: "context_rule \<Rightarrow> (string \<Rightarrow> scval option) \<Rightarrow> chain_rule" where
  "chainRule rule P = \<lparr>ocName = crName rule, ocSigners = set (crSigners rule), ocPolicies = P, ocUntil = ruleUntil rule\<rparr>"

definition afterPlan :: "rule_change list \<Rightarrow> chain_rule \<Rightarrow> chain_rule" where
  "afterPlan plan r = fold applyChange plan r"

definition stagedSigners :: "rule_editor \<Rightarrow> rule_form \<Rightarrow> signer set" where
  "stagedSigners D form = {s. \<exists>e \<in> set (rfSigners form). contractSigner D e = Inr (Some s)}"

definition stagedValue :: "rule_editor \<Rightarrow> rule_form \<Rightarrow> selected_policy \<Rightarrow> scval option" where
  "stagedValue D form sp = (case encodedPolicy D form sp of Inr p \<Rightarrow> Some (installValue D p) | Inl e \<Rightarrow> None)"

abbreviation stagedAt :: "selected_policy \<Rightarrow> string" where
  "stagedAt sp \<equiv> piAddress (pfPolicy sp)"

text \<open>The policies the form shows: those kept with the parameters they had, the others as staged.\<close>

definition showsPolicies ::
    "rule_editor \<Rightarrow> context_rule \<Rightarrow> rule_form \<Rightarrow> (string \<Rightarrow> scval option) \<Rightarrow> (string \<Rightarrow> scval option) \<Rightarrow> bool" where
  "showsPolicies D rule form P Q \<longleftrightarrow>
     (\<forall>sp \<in> set (rfPolicies form). Q (stagedAt sp) =
        (if stagedAt sp \<in> set (crPolicies rule) \<and> \<not> pfModified sp then P (stagedAt sp) else stagedValue D form sp)) \<and>
     (\<forall>a. a \<notin> stagedAt ` set (rfPolicies form) \<longrightarrow> Q a = None)"

lemma afterPlan_simps [simp]:
  "afterPlan [] r = r" "afterPlan (c # cs) r = afterPlan cs (applyChange c r)"
  "afterPlan (xs @ ys) r = afterPlan ys (afterPlan xs r)"
  by (simp_all add: afterPlan_def)

lemma afterPlan_dropSigners: "afterPlan (map DropSigner ss) r = r\<lparr>ocSigners := ocSigners r - set ss\<rparr>"
  by (induction ss arbitrary: r) (auto intro: chain_rule.equality)

lemma afterPlan_dropPolicies:
  "afterPlan (map DropPolicy as) r = r\<lparr>ocPolicies := (\<lambda>a. if a \<in> set as then None else ocPolicies r a)\<rparr>"
  by (induction as arbitrary: r) (auto intro!: chain_rule.equality)

lemma afterPlan_puts:
  assumes "mapE (putPolicy D form) sps = Inr puts" "distinct (map stagedAt sps)"
  shows "\<exists>Q. afterPlan puts r = r\<lparr>ocPolicies := Q\<rparr> \<and> (\<forall>sp \<in> set sps. Q (stagedAt sp) = stagedValue D form sp) \<and>
     (\<forall>a. a \<notin> stagedAt ` set sps \<longrightarrow> Q a = ocPolicies r a)"
  using assms
proof (induction sps arbitrary: puts r)
  case Nil
  then show ?case by (intro exI [of _ "ocPolicies r"]) simp
next
  case (Cons sp sps)
  obtain c cs where c: "putPolicy D form sp = Inr c" "mapE (putPolicy D form) sps = Inr cs" "puts = c # cs"
    using Cons.prems(1) by (auto simp: bindE_Inr)
  then obtain v where v: "c = PutPolicy (stagedAt sp) v" "stagedValue D form sp = Some v"
    by (auto simp: putPolicy_def stagedValue_def bindE_Inr)
  obtain Q where Q: "afterPlan cs (applyChange c r) = (applyChange c r)\<lparr>ocPolicies := Q\<rparr>"
      "\<forall>sp \<in> set sps. Q (stagedAt sp) = stagedValue D form sp"
      "\<forall>a. a \<notin> stagedAt ` set sps \<longrightarrow> Q a = ocPolicies (applyChange c r) a"
    using Cons.IH [OF c(2), of "applyChange c r"] Cons.prems(2) by auto
  have "stagedAt sp \<notin> stagedAt ` set sps" using Cons.prems(2) by simp
  then show ?case using Q c(3) v by (intro exI [of _ Q]) auto
qed

lemma plan_effect:
  assumes plan: "changePlan D rule form until = Inr plan"
    and unique: "distinct (map stagedAt (rfPolicies form))" and known: "dom P = set (crPolicies rule)"
  shows "\<exists>added. builtSigners D (newEntries form) = Inr added \<and>
     ocName (afterPlan plan (chainRule rule P)) = trim (rfName form) \<and>
     ocSigners (afterPlan plan (chainRule rule P)) = (set (crSigners rule) \<union> set added) - set (removedSigners rule form) \<and>
     (if newEntries form = []
      then showsPolicies D rule form P (ocPolicies (afterPlan plan (chainRule rule P))) \<and>
        ocUntil (afterPlan plan (chainRule rule P)) = ledgerOf until
      else ocPolicies (afterPlan plan (chainRule rule P)) = P \<and>
        ocUntil (afterPlan plan (chainRule rule P)) = ruleUntil rule)"
proof -
  let ?up = "policiesToUpdate rule form" and ?new = "policiesToAdd rule form" and ?rm = "policiesToRemove rule form"
  obtain added puts where a: "builtSigners D (newEntries form) = Inr added"
    and p: "(if newEntries form \<noteq> [] then Inr [] else mapE (putPolicy D form) (?up @ ?new)) = Inr puts"
    and e: "plan = (if trim (rfName form) = crName rule then [] else [SetName (trim (rfName form))]) @
         (if added = [] then [] else [AddSigners added]) @ map DropSigner (removedSigners rule form) @
         (if newEntries form \<noteq> [] then [] else map DropPolicy (?rm @ map stagedAt ?up)) @
         puts @ (if ruleUntil rule \<noteq> ledgerOf until \<and> newEntries form = [] then [SetUntil until] else [])"
    using plan by (auto simp: changePlan_def bindE_Inr o_def)
  define r1 where "r1 = \<lparr>ocName = trim (rfName form), ocSigners = (set (crSigners rule) \<union> set added) - set (removedSigners rule form),
    ocPolicies = P, ocUntil = ruleUntil rule\<rparr>"
  have r1: "afterPlan (map DropSigner (removedSigners rule form)) (afterPlan (if added = [] then [] else [AddSigners added])
      (afterPlan (if trim (rfName form) = crName rule then [] else [SetName (trim (rfName form))]) (chainRule rule P))) = r1"
    by (simp add: afterPlan_dropSigners chainRule_def r1_def)
  show ?thesis
  proof (cases "newEntries form = []")
    case False
    then have "afterPlan plan (chainRule rule P) = r1" using p r1 by (simp add: e)
    then show ?thesis using a False by (simp add: r1_def)
  next
    case True
    define R where "R = (\<lambda>a. if a \<in> set (?rm @ map stagedAt ?up) then None else P a)"
    have "distinct (map stagedAt (?up @ ?new))"
      using unique unfolding policiesToUpdate_def policiesToAdd_def
      by (auto simp: distinct_map inj_on_def)
    then obtain Q where Q: "afterPlan puts (r1\<lparr>ocPolicies := R\<rparr>) = r1\<lparr>ocPolicies := Q\<rparr>"
        "\<forall>sp \<in> set (?up @ ?new). Q (stagedAt sp) = stagedValue D form sp"
        "\<forall>a. a \<notin> stagedAt ` set (?up @ ?new) \<longrightarrow> Q a = R a"
      using afterPlan_puts [of D form "?up @ ?new" puts "r1\<lparr>ocPolicies := R\<rparr>"] p True by auto
    have s: "showsPolicies D rule form P Q"
      unfolding showsPolicies_def
    proof (intro conjI ballI allI impI)
      fix sp assume sp: "sp \<in> set (rfPolicies form)"
      show "Q (stagedAt sp) = (if stagedAt sp \<in> set (crPolicies rule) \<and> \<not> pfModified sp then P (stagedAt sp) else stagedValue D form sp)"
      proof (cases "stagedAt sp \<in> set (crPolicies rule) \<and> \<not> pfModified sp")
        case True
        have "x = sp" if "x \<in> set (rfPolicies form)" "stagedAt x = stagedAt sp" for x
          using unique sp that by (auto simp: distinct_map inj_on_def)
        then have "stagedAt sp \<notin> stagedAt ` set (?up @ ?new)" "stagedAt sp \<notin> set (?rm @ map stagedAt ?up)"
          using True sp by (auto simp: policiesToUpdate_def policiesToAdd_def policiesToRemove_def)
        with True Q(3) show ?thesis by (simp add: R_def)
      next
        case False
        then have "sp \<in> set (?up @ ?new)" using sp by (auto simp: policiesToUpdate_def policiesToAdd_def)
        with False Q(2) show ?thesis by (simp only: if_False simp_thms)
      qed
    next
      fix a assume a: "a \<notin> stagedAt ` set (rfPolicies form)"
      then have "a \<notin> stagedAt ` set (?up @ ?new)" by (auto simp: policiesToUpdate_def policiesToAdd_def)
      moreover have "a \<in> set ?rm \<or> P a = None" using a known by (auto simp: policiesToRemove_def)
      ultimately show "Q a = None" using Q(3) by (auto simp: R_def)
    qed
    have "afterPlan (map DropPolicy (?rm @ map stagedAt ?up)) r1 = r1\<lparr>ocPolicies := R\<rparr>"
      unfolding afterPlan_dropPolicies by (simp only: R_def r1_def chain_rule.simps)
    then have "afterPlan plan (chainRule rule P) = r1\<lparr>ocPolicies := Q, ocUntil := ledgerOf until\<rparr>"
      using True r1 Q(1) by (auto simp: e r1_def)
    then show ?thesis using a True s by (simp add: r1_def)
  qed
qed

lemma plan_shape:
  assumes "changePlan D rule form until = Inr plan" "newEntries form = []"
  shows "\<exists>xs puts. mapE (putPolicy D form) (policiesToUpdate rule form @ policiesToAdd rule form) = Inr puts \<and>
     plan = xs @ map DropPolicy (policiesToRemove rule form @ map stagedAt (policiesToUpdate rule form)) @ puts @
       (if ruleUntil rule \<noteq> ledgerOf until then [SetUntil until] else [])"
proof -
  obtain added puts where "mapE (putPolicy D form) (policiesToUpdate rule form @ policiesToAdd rule form) = Inr puts"
    and "plan = (if trim (rfName form) = crName rule then [] else [SetName (trim (rfName form))]) @
         (if added = [] then [] else [AddSigners added]) @ map DropSigner (removedSigners rule form) @
         map DropPolicy (policiesToRemove rule form @ map stagedAt (policiesToUpdate rule form)) @
         puts @ (if ruleUntil rule \<noteq> ledgerOf until then [SetUntil until] else [])"
    using assms by (auto simp: changePlan_def bindE_Inr o_def)
  then show ?thesis
    by (intro exI [of _ "(if trim (rfName form) = crName rule then [] else [SetName (trim (rfName form))]) @
        (if added = [] then [] else [AddSigners added]) @ map DropSigner (removedSigners rule form)"] exI [of _ puts]) simp
qed

lemma saved_edit_performs:
  assumes "executeSubmit D (Some rule) selected form w = (Inr None, w')"
  shows "\<exists>until plan w1 w2. formUntil D form w = (Inr until, w1) \<and> changePlan D rule form until = Inr plan \<and>
     performed D selected (crId rule) plan w1 w2 \<and> cleanUp D form w2 = (Inr (), w')"
proof -
  have "saveForm D (Some rule) selected form w = (Inr (), w')"
    using assms by (auto simp: executeSubmit_def catchA_def bindA_def run_simps split: prod.splits sum.splits)
  then show ?thesis
    using editRule_performs [of D selected rule form]
    by (fastforce simp: saveForm_def bindA_Inr run_simps performs_def)
qed

lemma built_new:
  assumes "builtSigners D (newEntries form) = Inr added"
  shows "set added = {s. \<exists>e \<in> set (rfSigners form). enSigner e = None \<and> contractSigner D e = Inr (Some s)}"
proof -
  obtain ss where ss: "list_all2 (\<lambda>e s. contractSigner D e = Inr s) (newEntries form) ss" "added = List.map_filter id ss"
    using assms by (auto simp: builtSigners_def bindE_Inr mapE_Inr)
  have e: "set ss = {s. \<exists>e \<in> set (newEntries form). contractSigner D e = Inr s}"
    using ss(1) by (induction rule: list_all2_induct) auto
  have "set added = {s. Some s \<in> set ss}"
    unfolding ss(2) by (induction ss) (auto simp: List.map_filter_simps split: option.splits)
  then show ?thesis by (auto simp: e newEntries_def)
qed

lemma removed_set: "set (removedSigners rule form) =
    {s \<in> set (crSigners rule). \<not> (\<exists>e \<in> set (rfSigners form). \<exists>r. enSigner e = Some (r, s))}"
  by (auto simp: removedSigners_def list_ex_iff split: option.splits)

lemma staged_signers: "stagedSigners D form = {s. \<exists>e \<in> set (rfSigners form). (\<exists>r. enSigner e = Some (r, s)) \<or>
    (enSigner e = None \<and> contractSigner D e = Inr (Some s))}"
proof -
  have "contractSigner D e = Inr (Some s) \<longleftrightarrow> (\<exists>r. enSigner e = Some (r, s)) \<or>
      (enSigner e = None \<and> contractSigner D e = Inr (Some s))" for e s
    by (cases "enSigner e") (auto simp: contractSigner_def signerEntryToContractSigner_def)
  then show ?thesis unfolding stagedSigners_def by (intro Collect_cong) blast
qed

section \<open>Saving an edit\<close>


text \<open>
  C35. A signer of another rule that is staged while a rule is edited is left out: the editor closes as
  if it had saved, but no change adds the signer, and the rule does not have it afterwards.
\<close>

theorem borrowed_signer_is_left_out:
  assumes run: "executeSubmit D (Some rule) selected form w = (Inr None, w')"
    and e: "e \<in> set (rfSigners form)" "enSigner e = Some (r, s)" "s \<notin> set (crSigners rule)"
    and new: "\<And>e. e \<in> set (rfSigners form) \<Longrightarrow> enSigner e = None \<Longrightarrow> contractSigner D e \<noteq> Inr (Some s)"
    and unique: "distinct (map (piAddress \<circ> pfPolicy) (rfPolicies form))" and known: "dom P = set (crPolicies rule)"
  shows "s \<in> stagedSigners D form \<and> (\<exists>plan w1 w2. performed D selected (crId rule) plan w1 w2 \<and>
     cleanUp D form w2 = (Inr (), w') \<and> s \<notin> ocSigners (afterPlan plan (chainRule rule P)))"
proof -
  obtain until plan w1 w2 where r: "changePlan D rule form until = Inr plan"
      "performed D selected (crId rule) plan w1 w2" "cleanUp D form w2 = (Inr (), w')"
    using saved_edit_performs [OF run] by blast
  obtain added where a: "builtSigners D (newEntries form) = Inr added"
    and f: "ocSigners (afterPlan plan (chainRule rule P)) = (set (crSigners rule) \<union> set added) - set (removedSigners rule form)"
    using plan_effect [OF r(1) _ known] unique by (auto simp: o_def)
  have "s \<notin> set added" using new unfolding built_new [OF a] by blast
  then have "s \<notin> ocSigners (afterPlan plan (chainRule rule P))" using e(3) f by simp
  moreover have "s \<in> stagedSigners D form" using e unfolding staged_signers by blast
  ultimately show ?thesis using r by blast
qed

section \<open>Reopening a rule\<close>

lemma mapA_isOk: "(\<And>x w. isOk (fst (f x w))) \<Longrightarrow> isOk (fst (mapA f xs w))"
proof (induction xs arbitrary: w)
  case (Cons x xs)
  obtain y w1 where y: "f x w = (Inr y, w1)" using Cons.prems [of x w] by (cases "f x w") (auto simp: isOk_iff)
  obtain ys w2 where "mapA f xs w1 = (Inr ys, w2)"
    using Cons.IH [OF Cons.prems, of w1] by (cases "mapA f xs w1") (auto simp: isOk_iff)
  with y show ?case by (simp add: bindA_def run_simps)
qed (simp add: run_simps)

lemma readRulePolicyParams_isOk: "isOk (fst (readRulePolicyParams E D f rule known w))"
  unfolding readRulePolicyParams_def
  by (rule mapA_isOk) (auto simp: run_simps catchA_def split: option.splits prod.splits sum.splits)

lemma opened_form:
  assumes "openEditor D uuid ref rule form0 w0 = (Inr form, w1)"
  shows "newEntries form = []" "rfHasExpiration form \<longleftrightarrow> ruleUntil rule \<noteq> None"
    "\<exists>wl. loadExpiration D rule w0 = (Inr (rfExpirationLedgers form), wl)"
    "a \<in> set (crPolicies rule) \<Longrightarrow> a \<notin> piAddress ` set (readablePolicies D) \<Longrightarrow> unknownPolicy a \<in> set (rfPolicies form)"
proof -
  let ?read = "readRulePolicyParams (reEnv D) (rePolicies D) (reField D) rule (readablePolicies D)"
  obtain l wl ps where l: "loadExpiration D rule w0 = (Inr l, wl)" and ps: "catchA ?read (\<lambda>_. returnA []) wl = (Inr ps, w1)"
    and f: "form = (loadContext (crType rule) form0)\<lparr>rfName := crName rule,
         rfSigners := map (\<lambda>i. loadedSigner D (uuid i) (ref i, crSigners rule ! i)) [0..<length (crSigners rule)],
         rfPolicies := ps, rfHasExpiration := ruleUntil rule \<noteq> None, rfExpirationLedgers := l, rfError := None\<rparr>"
    using assms by (auto simp: openEditor_def bindA_Inr run_simps)
  show "newEntries form = []" by (simp add: f newEntries_def loadedSigner_def Let_def filter_empty_conv)
  show "rfHasExpiration form \<longleftrightarrow> ruleUntil rule \<noteq> None" by (simp add: f)
  show "\<exists>wl. loadExpiration D rule w0 = (Inr (rfExpirationLedgers form), wl)" using l by (simp add: f)
  have "?read wl = (Inr ps, w1)"
    using ps readRulePolicyParams_isOk [of "reEnv D" "rePolicies D" "reField D" rule "readablePolicies D" wl]
    by (auto simp: catchA_def run_simps split: prod.splits sum.splits)
  note each = mapA_results [OF this [unfolded readRulePolicyParams_def]]
  assume a: "a \<in> set (crPolicies rule)" "a \<notin> piAddress ` set (readablePolicies D)"
  then obtain sp where sp: "sp \<in> set ps" "\<exists>w1 w2. (case List.find (\<lambda>p. piAddress p = a) (readablePolicies D) of
        None \<Rightarrow> returnA (unknownPolicy a)
      | Some known \<Rightarrow> catchA (readPolicyForm (reEnv D) (rePolicies D) (reField D) (crId rule) known)
          (\<lambda>_. returnA ((DEFAULT_POLICY_FORM known)\<lparr>pfModified := True\<rparr>))) w1 = (Inr sp, w2)"
    using list_all2_in (2) [OF each a(1)] by blast
  moreover have "List.find (\<lambda>p. piAddress p = a) (readablePolicies D) = None"
    using a(2) by (auto simp: find_None_iff)
  ultimately show "unknownPolicy a \<in> set (rfPolicies form)" by (auto simp: f run_simps)
qed

text \<open>
  Saving a rule that was only reopened and renamed reinstalls every policy the demo does not know:
  the policy is removed from the rule and added again with empty parameters, whatever it was
  installed with.
\<close>

theorem reopened_rule_reinstalls_unknown_policy:
  assumes opened: "openEditor D uuid ref rule form0 w0 = (Inr form, w1)"
    and run: "executeSubmit D (Some rule) selected (form\<lparr>rfName := n\<rparr>) w = (Inr None, w')"
    and a: "a \<in> set (crPolicies rule)" "a \<notin> piAddress ` set (readablePolicies D)"
    and json: "reParse D ''{}'' = Some (JObj [])"
  shows "\<exists>plan w1 w2. performed D selected (crId rule) plan w1 w2 \<and>
     DropPolicy a \<in> set plan \<and> PutPolicy a (reNative D (JObj [])) \<in> set plan"
proof -
  let ?form = "form\<lparr>rfName := n\<rparr>"
  obtain until plan w1 w2 where r: "changePlan D rule ?form until = Inr plan" "performed D selected (crId rule) plan w1 w2"
    using saved_edit_performs [OF run] by blast
  have none: "newEntries ?form = []" using opened_form(1) [OF opened] by (simp add: newEntries_def)
  have u: "unknownPolicy a \<in> set (policiesToUpdate rule ?form)"
    using opened_form(4) [OF opened a] a(1) by (simp add: policiesToUpdate_def unknownPolicy_def)
  obtain xs puts ys where p: "mapE (putPolicy D ?form) (policiesToUpdate rule ?form @ policiesToAdd rule ?form) = Inr puts"
    and e: "plan = xs @ map DropPolicy (policiesToRemove rule ?form @ map stagedAt (policiesToUpdate rule ?form)) @ puts @ ys"
    using plan_shape [OF r(1) none] by blast
  have "putPolicy D ?form (unknownPolicy a) = Inr (PutPolicy a (reNative D (JObj [])))"
    by (simp add: putPolicy_def encodedPolicy_def encodePolicyInstallParam_def buildNativePolicyParams_def
        unknownPolicy_def truthy_def json installValue_def)
  then have "PutPolicy a (reNative D (JObj [])) \<in> set puts"
    using list_all2_in (2) [OF p [unfolded mapE_Inr], of "unknownPolicy a"] u by auto
  then have "PutPolicy a (reNative D (JObj [])) \<in> set plan" by (simp add: e)
  moreover have "stagedAt (unknownPolicy a) = a" by (simp add: unknownPolicy_def)
  then have "DropPolicy a \<in> set plan" unfolding e using u by force
  ultimately show ?thesis using r(2) by blast
qed

lemma nearest_whole: "\<bar>z\<bar> < 2 ^ 53 \<Longrightarrow> nearest (of_int z) = Fin (of_int z)"
proof (cases "z < 0")
  case True
  assume b: "\<bar>z\<bar> < 2 ^ 53"
  have "nearestDouble (of_int (- z)) = Fin (of_int (- z))"
    using True b nearestDouble_nat [of "nat (- z)"] toDouble_safe [of "nat (- z)"] by (simp add: nat_less_iff)
  then show ?thesis using True by (simp add: nearest_def negateNum_def)
next
  case False
  assume b: "\<bar>z\<bar> < 2 ^ 53"
  have "nearestDouble (of_int z) = Fin (of_int z)"
    using False b nearestDouble_nat [of "nat z"] toDouble_safe [of "nat z"] by (simp add: nat_less_iff)
  then show ?thesis using False by (simp add: nearest_def)
qed

lemma plusNum_whole: "\<bar>x + y\<bar> < 2 ^ 53 \<Longrightarrow> plusNum (Fin (of_int x)) (Fin (of_int y)) = Fin (of_int (x + y))"
  using nearest_whole [of "x + y"] by (simp add: plusNum_def)

lemma remaining_ledgers:
  assumes "v < 2 ^ 52" "c < 2 ^ 52"
  shows "absoluteValidUntilToLedgerDelta (Fin (of_nat v)) (Fin (of_nat c)) = Fin (of_int (max 17280 (int v - int c)))"
proof -
  have "plusNum (Fin (of_nat v)) (negateNum (Fin (of_nat c))) = Fin (of_int (int v - int c))"
    using plusNum_whole [of "int v" "- int c"] assms by (simp add: negateNum_def)
  then show ?thesis
    by (simp add: absoluteValidUntilToLedgerDelta_def maxNum_def LEDGERS_PER_DAY_def max_def of_int_less_iff [symmetric, where 'a = rat] del: of_int_less_iff)
qed

text \<open>
  C34. Saving a rule that was only reopened and renamed puts its expiration off: by the ledgers that
  closed since it was opened, or to a day from now where less than a day was left, an expired rule
  included.
\<close>

theorem reopened_rule_expires_later:
  assumes opened: "openEditor D uuid ref rule form0 w0 = (Inr form, w1)"
    and run: "executeSubmit D (Some rule) selected (form\<lparr>rfName := n\<rparr>) w = (Inr None, w')"
    and v: "crValidUntil rule = Some v" "0 < v" "v < 2 ^ 32"
    and load: "svRpcLatestLedger (keServices (reEnv D)) (wTrace w0) = Inr c"
    and save: "svRpcLatestLedger (keServices (reEnv D)) (wTrace w) = Inr d"
    and later: "c \<le> d" "d < 2 ^ 32" and moved: "c < d \<or> v < c + 17280"
  shows "\<exists>plan w1 w2 u. performed D selected (crId rule) plan w1 w2 \<and> v < u \<and> u = d + max 17280 (v - c) \<and>
     last plan = SetUntil (Some (Fin (of_nat u))) \<and> plan \<noteq> []"
proof -
  let ?form = "form\<lparr>rfName := n\<rparr>" and ?u = "d + max 17280 (v - c)"
  obtain until plan w2 w3 where r: "formUntil D ?form w = (Inr until, w2)" "changePlan D rule ?form until = Inr plan"
      "performed D selected (crId rule) plan w2 w3"
    using saved_edit_performs [OF run] by blast
  have none: "newEntries ?form = []" using opened_form(1) [OF opened] by (simp add: newEntries_def)
  have rule: "ruleUntil rule = Some (Fin (of_nat v))" using v by (simp add: ruleUntil_def ledgerOf_def)
  then obtain wl where "loadExpiration D rule w0 = (Inr (rfExpirationLedgers form), wl)" "rfHasExpiration form"
    using opened_form(2,3) [OF opened] by auto
  then have l: "rfExpirationLedgers form = Fin (of_int (max 17280 (int v - int c)))" "rfHasExpiration form"
    using remaining_ledgers [of v c] v(3) later rule load
    by (auto simp: loadExpiration_def currentLedger_def catchA_def bindA_def run_simps)
  have max: "max 17280 (int v - int c) = int (max 17280 (v - c))" by linarith
  have "until = Some (Fin (of_nat ?u))"
    using r(1) l save later v(3) plusNum_whole [of "int d" "int (max 17280 (v - c))"]
    by (auto simp: formUntil_def currentLedger_def bindA_def run_simps max)
  moreover have "v < ?u" using later moved by linarith
  moreover have "ledgerOf until = until" using calculation by (simp add: ledgerOf_def)
  ultimately have "plan \<noteq> [] \<and> last plan = SetUntil (Some (Fin (of_nat ?u)))"
    using plan_shape [OF r(2) none] rule by auto
  with r(3) \<open>v < ?u\<close> show ?thesis by blast
qed

section \<open>Witnesses\<close>

definition demoClient :: wallet_client where
  "demoClient = (sdWallet (demoSignerDeps 65) [])\<lparr>clGetSignerId := (\<lambda>s. returnA (Plain (Some 1))),
     clGetPolicyId := (\<lambda>a. returnA (Plain (Some 1)))\<rparr>"

definition demoEditor :: rule_editor where
  "demoEditor = \<lparr>reEnv = demoEnv, reSigners = (demoSignerDeps 65)\<lparr>sdWallet := (\<lambda>c. demoClient)\<rparr>,
     reRules = demoRuleDeps\<lparr>rdWallet := (\<lambda>c. demoClient)\<rparr>,
     rePolicies = \<lparr>pyEncodeRule = (\<lambda>c r. Inr ScvVoid), pyExecute = (\<lambda>t f a. returnA demoAssembled), pyNumber = (\<lambda>v. NaN)\<rparr>,
     reField = (\<lambda>v n. Inr NaN), reNative = (\<lambda>j. ScvMap None), reParse = (\<lambda>t. if t = ''{}'' then Some (JObj []) else None),
     reVerifier = ''Cv'', reEd25519 = [], reActive = None, reExisting = [], reAvailable = [], reRecognized = [],
     reWeighted = True, reSubmit = (\<lambda>tx sel. returnA \<lparr>srSuccess = True, srError = None\<rparr>)\<rparr>"

definition demoRule :: context_rule where
  "demoRule = \<lparr>crType = DefaultRule, crId = 3, crName = ''old'', crPolicies = [''Cp''], crPolicyIds = [1],
     crSignerIds = [1, 2], crSigners = [Delegated ''GA'', Delegated ''GB''], crValidUntil = Some 100\<rparr>"

definition demoForm :: "signer list \<Rightarrow> rule_form" where
  "demoForm ss = \<lparr>rfName = ''new'', rfContext = DefaultOption, rfContract = [], rfWasmHash = [], rfOwner = [], rfTag = [],
     rfSigners = map (\<lambda>s. (blankEntry ''1'' DelegatedEntry [])\<lparr>enSigner := Some (Caller 0, s)\<rparr>) ss, rfPolicies = [],
     rfHasExpiration = False, rfExpirationLedgers = Fin 1, rfError = None\<rparr>"

lemmas demo_editing = demoEditor_def demoRule_def demoForm_def demoClient_def demoSignerDeps_def demoRuleDeps_def
  demoEnv_def demoServices_def blankEntry_def

text \<open>Every change of the demo rule goes through at a world whose wallet is connected.\<close>

lemma demo_performs:
  assumes "wContractId w = Some demoWallet" "wWallet w \<noteq> None" "list_all (\<lambda>c. case c of
      SetName n \<Rightarrow> n = ''new'' | SetUntil v \<Rightarrow> isOk (validateValidUntil v None) | AddSigners ss \<Rightarrow> False | _ \<Rightarrow> True) cs"
  shows "performed demoEditor selected i cs w w"
  using assms(3)
proof (induction cs)
  case (Cons c cs)
  have "buildChange demoEditor i c w = (Inr demoAssembled, w)"
    using Cons.prems assms(1,2)
    by (cases c) (auto simp: updateRuleName_def updateRuleExpiration_def removeSigner_def removePolicy_def addPolicy_def
        idFrom_def bindA_def run_simps requireWallet_def demoEditor_def demoClient_def demoSignerDeps_def demoRuleDeps_def
        validateContextRuleName_def MAX_NAME_SIZE_def demoWallet_def isOk_iff)
  moreover have "reSubmit demoEditor demoAssembled selected w = (Inr \<lparr>srSuccess = True, srError = None\<rparr>, w)"
    by (simp add: demoEditor_def run_simps)
  ultimately show ?case using Cons by (auto simp: performed_simps)
qed (simp add: performed_simps)

lemma demo_saves:
  assumes "formUntil demoEditor form demoWorld = (Inr until, w)" "rfContext form = DefaultOption" "newEntries form = []"
    and "wContractId w = Some demoWallet" "wWallet w \<noteq> None"
    and "changePlan demoEditor demoRule form until = Inr plan" "list_all (\<lambda>c. case c of
      SetName n \<Rightarrow> n = ''new'' | SetUntil v \<Rightarrow> isOk (validateValidUntil v None) | AddSigners ss \<Rightarrow> False | _ \<Rightarrow> True) plan"
  shows "\<exists>w'. executeSubmit demoEditor (Some demoRule) None form demoWorld = (Inr None, w')"
proof -
  have "isOk (mapE (contractSigner D) es)" if "filter (\<lambda>e. enSigner e = None) es = []" for D es
    using that by (induction es) (auto simp: contractSigner_def signerEntryToContractSigner_def isOk_iff split: if_splits)
  then obtain ss where s: "mapE (contractSigner demoEditor) (rfSigners form) = Inr ss"
    using assms(3) unfolding newEntries_def isOk_iff by blast
  have "editRule demoEditor None demoRule form until w = (Inr (), w)"
    using editRule_performs [of demoEditor None demoRule form until] assms(6) demo_performs [OF assms(4,5,7), of None "crId demoRule"]
    unfolding performs_def by blast
  moreover have "cleanUp demoEditor form w = (Inr (), w)"
    using assms(3) by (simp add: cleanUp_def forA_def bindA_def run_simps newEntries_def filter_empty_conv)
  ultimately show ?thesis
    using assms(1,2) s by (simp add: executeSubmit_def saveForm_def catchA_def bindA_def run_simps formContext_def builtSigners_def)
qed

lemma trim_new: "trim ''new'' = ''new''"
  by (simp add: trim_def isWhite_def)

lemma demo_edit:
  assumes "Delegated ''GB'' \<notin> set ss"
  shows "\<exists>w'. executeSubmit demoEditor (Some demoRule) None (demoForm (Delegated ''GA'' # ss)) demoWorld = (Inr None, w')"
proof -
  let ?f = "demoForm (Delegated ''GA'' # ss)"
  have n: "newEntries ?f = []" by (simp add: newEntries_def demo_editing)
  have removed: "removedSigners demoRule ?f = [Delegated ''GB'']"
    using assms by (auto simp: removedSigners_def demo_editing list_ex_iff)
  have p: "changePlan demoEditor demoRule ?f None = Inr [SetName ''new'', DropSigner (Delegated ''GB''), DropPolicy ''Cp'', SetUntil None]"
    by (simp add: changePlan_def builtSigners_def n removed policiesToUpdate_def policiesToAdd_def policiesToRemove_def
        List.map_filter_simps ruleUntil_def ledgerOf_def) (simp add: demo_editing trim_new)
  show ?thesis
    by (rule demo_saves [where w = demoWorld, OF _ _ n _ _ p])
      (simp_all add: formUntil_def run_simps demo_editing demoWorld_def validateValidUntil_def)
qed


lemma borrowed_signer_is_left_out_witness:
  "\<exists>plan w1 w2. performed demoEditor None 3 plan w1 w2 \<and>
     Delegated ''GC'' \<notin> ocSigners (afterPlan plan (chainRule demoRule [''Cp'' \<mapsto> ScvVoid]))"
proof -
  let ?f = "demoForm [Delegated ''GA'', Delegated ''GC'']"
  let ?e = "(blankEntry ''1'' DelegatedEntry [])\<lparr>enSigner := Some (Caller 0, Delegated ''GC'')\<rparr>"
  obtain w' where r: "executeSubmit demoEditor (Some demoRule) None ?f demoWorld = (Inr None, w')"
    using demo_edit [of "[Delegated ''GC'']"] by auto
  have "\<exists>plan w1 w2. performed demoEditor None (crId demoRule) plan w1 w2 \<and>
     cleanUp demoEditor ?f w2 = (Inr (), w') \<and> Delegated ''GC'' \<notin> ocSigners (afterPlan plan (chainRule demoRule [''Cp'' \<mapsto> ScvVoid]))"
    by (rule conjunct2 [OF borrowed_signer_is_left_out [OF r, of ?e "Caller 0"]]) (auto simp: demo_editing)
  moreover have "crId demoRule = 3" by (simp add: demo_editing)
  ultimately show ?thesis by metis
qed

text \<open>The demo rule reopened: one policy the editor does not know, and less than a day left.\<close>

lemma demo_reopened:
  "\<exists>form w1 w'. openEditor demoEditor (\<lambda>i. []) Caller demoRule (demoForm []) demoWorld = (Inr form, w1) \<and>
     executeSubmit demoEditor (Some demoRule) None (form\<lparr>rfName := ''new''\<rparr>) demoWorld = (Inr None, w')"
proof -
  have d: "absoluteValidUntilToLedgerDelta (Fin 100) (Fin 10) = Fin 17280" using remaining_ledgers [of 100 10] by simp
  have u: "plusNum (Fin 10) (Fin 17280) = Fin 17290" using plusNum_whole [of 10 17280] by simp
  have l: "currentLedger demoEditor w = (Inr (Fin 10), w\<lparr>wTrace := wTrace w @ [FxRpcLatestLedger]\<rparr>)" for w
    by (simp add: currentLedger_def bindA_def run_simps demoEditor_def demoEnv_def demoServices_def)
  have e: "ruleUntil demoRule = Some (Fin 100)" by (simp add: ruleUntil_def ledgerOf_def demoRule_def)
  have r: "readRulePolicyParams (reEnv demoEditor) (rePolicies demoEditor) (reField demoEditor) demoRule
      (readablePolicies demoEditor) w = (Inr [unknownPolicy ''Cp''], w)" for w
    by (simp add: readRulePolicyParams_def readablePolicies_def visiblePolicies_def bindA_def run_simps demoRule_def)
      (simp add: demoEditor_def bindA_def run_simps)
  have "\<exists>form w1. openEditor demoEditor (\<lambda>i. []) Caller demoRule (demoForm []) demoWorld = (Inr form, w1) \<and>
      rfContext form = DefaultOption \<and> rfPolicies form = [unknownPolicy ''Cp''] \<and> rfHasExpiration form \<and>
      rfExpirationLedgers form = Fin 17280 \<and>
      rfSigners form = map (\<lambda>i. loadedSigner demoEditor [] (Caller i, crSigners demoRule ! i)) [0..<2]"
    by (simp add: openEditor_def loadExpiration_def e l d r bindA_def catchA_def run_simps)
      (simp add: loadContext_def demoRule_def demoForm_def upt_rec)
  then obtain form w1 where o: "openEditor demoEditor (\<lambda>i. []) Caller demoRule (demoForm []) demoWorld = (Inr form, w1)"
    and f: "rfContext form = DefaultOption" "rfPolicies form = [unknownPolicy ''Cp'']" "rfHasExpiration form"
      "rfExpirationLedgers form = Fin 17280"
      "rfSigners form = map (\<lambda>i. loadedSigner demoEditor [] (Caller i, crSigners demoRule ! i)) [0..<2]"
    by blast
  let ?f = "form\<lparr>rfName := ''new''\<rparr>"
  have n: "newEntries ?f = []" using opened_form(1) [OF o] by (simp add: newEntries_def)
  have kept: "removedSigners demoRule ?f = []"
    by (simp add: removedSigners_def f upt_rec loadedSigner_def Let_def demoRule_def)
  have put: "putPolicy demoEditor ?f (unknownPolicy ''Cp'') = Inr (PutPolicy ''Cp'' (ScvMap None))"
    by (simp add: putPolicy_def encodedPolicy_def encodePolicyInstallParam_def buildNativePolicyParams_def
        unknownPolicy_def truthy_def installValue_def demoEditor_def)
  have p: "changePlan demoEditor demoRule ?f (Some (Fin 17290)) =
      Inr [SetName ''new'', DropPolicy ''Cp'', PutPolicy ''Cp'' (ScvMap None), SetUntil (Some (Fin 17290))]"
    by (simp add: changePlan_def builtSigners_def n kept policiesToUpdate_def policiesToAdd_def policiesToRemove_def f put
        List.map_filter_simps ruleUntil_def ledgerOf_def trim_new) (simp add: demoRule_def unknownPolicy_def put [unfolded unknownPolicy_def])
  obtain w2 where w: "formUntil demoEditor ?f demoWorld = (Inr (Some (Fin 17290)), w2)"
      "wContractId w2 = Some demoWallet" "wWallet w2 \<noteq> None"
    by (simp add: formUntil_def l bindA_def run_simps f u demoWorld_def)
  have v: "isOk (validateValidUntil (Some (Fin 17290)) None)"
    by (simp add: validateValidUntil_def U32_MAX_def)
  have "\<exists>w'. executeSubmit demoEditor (Some demoRule) None ?f demoWorld = (Inr None, w')"
    by (rule demo_saves [OF w(1) _ n w(2,3) p]) (simp_all add: f v)
  with o show ?thesis by blast
qed

lemma reopened_rule_reinstalls_unknown_policy_witness:
  "\<exists>plan w1 w2. performed demoEditor None 3 plan w1 w2 \<and> PutPolicy ''Cp'' (ScvMap None) \<in> set plan"
proof -
  obtain form w1 w' where o: "openEditor demoEditor (\<lambda>i. []) Caller demoRule (demoForm []) demoWorld = (Inr form, w1)"
    and r: "executeSubmit demoEditor (Some demoRule) None (form\<lparr>rfName := ''new''\<rparr>) demoWorld = (Inr None, w')"
    using demo_reopened by blast
  have "\<exists>plan w1 w2. performed demoEditor None (crId demoRule) plan w1 w2 \<and>
      DropPolicy ''Cp'' \<in> set plan \<and> PutPolicy ''Cp'' (reNative demoEditor (JObj [])) \<in> set plan"
    by (rule reopened_rule_reinstalls_unknown_policy [OF o r])
      (simp_all add: readablePolicies_def visiblePolicies_def demoEditor_def demoRule_def)
  moreover have "crId demoRule = 3" "reNative demoEditor (JObj []) = ScvMap None" by (simp_all add: demoRule_def demoEditor_def)
  ultimately show ?thesis by metis
qed

lemma reopened_rule_expires_later_witness:
  "\<exists>plan w1 w2. performed demoEditor None 3 plan w1 w2 \<and> last plan = SetUntil (Some (Fin 17290)) \<and> plan \<noteq> []"
proof -
  obtain form w1 w' where o: "openEditor demoEditor (\<lambda>i. []) Caller demoRule (demoForm []) demoWorld = (Inr form, w1)"
    and r: "executeSubmit demoEditor (Some demoRule) None (form\<lparr>rfName := ''new''\<rparr>) demoWorld = (Inr None, w')"
    using demo_reopened by blast
  have "\<exists>plan w1 w2 u. performed demoEditor None (crId demoRule) plan w1 w2 \<and> 100 < u \<and> u = 10 + max 17280 (100 - 10) \<and>
     last plan = SetUntil (Some (Fin (of_nat u))) \<and> plan \<noteq> []"
    by (rule reopened_rule_expires_later [OF o r]) (simp_all add: demoEditor_def demoRule_def demoEnv_def demoServices_def)
  then show ?thesis by (auto simp: demoRule_def)
qed

end
