(* ===== verification/Kit_Connected.thy ===== *)
theory Kit_Connected
  imports Kit_PolicyForm
begin

text \<open>
  Which operations of the kit touch its connection (the private \<^verbatim>\<open>_contractId\<close>, \<^verbatim>\<open>_credentialId\<close> and
  \<^verbatim>\<open>wallet\<close> of \<^verbatim>\<open>kit.ts\<close>): signing, submitting, funding and reading leave it alone, and an operation
  that connects leaves the wallet it returns connected. The reading client is not part of the kit and
  cannot reach the private fields; \<open>sealReader\<close> says so of any client.
\<close>

section \<open>The connection and who cannot reach it\<close>

definition activeWallet :: "world \<Rightarrow> string option \<times> string option \<times> string option" where
  "activeWallet w = (wContractId w, wCredentialId w, wWallet w)"

abbreviation activeOn :: "string \<Rightarrow> string \<Rightarrow> string option \<times> string option \<times> string option" where
  "activeOn contractId credentialId \<equiv> (Some contractId, Some credentialId, Some contractId)"

definition privately :: "'a act \<Rightarrow> 'a act" where
  "privately m w = (case m w of (r, w') \<Rightarrow>
     (r, w'\<lparr>wContractId := wContractId w, wCredentialId := wCredentialId w, wWallet := wWallet w\<rparr>))"

definition sealReader :: "query_client \<Rightarrow> query_client" where
  "sealReader c = c\<lparr>qcGetContextRule := (\<lambda>i. privately (qcGetContextRule c i)),
     qcGetPolicyId := map_option (\<lambda>get p. privately (get p)) (qcGetPolicyId c),
     qcGetSignerId := map_option (\<lambda>get s. privately (get s)) (qcGetSignerId c)\<rparr>"

definition sealed :: "platform \<Rightarrow> platform" where
  "sealed P = P\<lparr>plReader := (\<lambda>c. sealReader (plReader P c))\<rparr>"

lemma activeWallet_simps [simp]:
  "activeWallet (w\<lparr>wTrace := es\<rparr>) = activeWallet w" "activeWallet (w\<lparr>wStorage := m\<rparr>) = activeWallet w"
  "activeWallet (w\<lparr>wRules := r\<rparr>) = activeWallet w" "activeWallet (w\<lparr>wSigner := s\<rparr>) = activeWallet w"
  by (simp_all add: activeWallet_def)

lemma keeps_privately [keeps_rules]: "keeps activeWallet (privately m)"
  by (simp add: keeps_def privately_def activeWallet_def split: prod.splits)

lemma keeps_let [keeps_rules]: "(\<And>y. y = x \<Longrightarrow> keeps f (g y)) \<Longrightarrow> keeps f (let y = x in g y)"
  by simp

lemma keeps_active_storage [keeps_rules]:
  "keeps activeWallet (storageGet k)" "keeps activeWallet storageGetAll" "keeps activeWallet (storageGetByContract k)"
  "keeps activeWallet (storageSave c)" "keeps activeWallet (storageDelete k)" "keeps activeWallet (storageUpdate k u)"
  "keeps activeWallet (storageSaveSession s)" "keeps activeWallet storageGetSession" "keeps activeWallet storageClearSession"
  by (simp_all add: storageGet_def storageGetAll_def storageGetByContract_def storageSave_def storageDelete_def
      storageUpdate_def storageSaveSession_def storageGetSession_def storageClearSession_def keeps_rules)

lemma keeps_requireWallet [keeps_rules]: "keeps f requireWallet"
  by (auto simp: keeps_def requireWallet_def split: option.splits)

lemma keeps_nowA [keeps_rules]: "keeps f (nowA S)"
  by (simp add: nowA_def keeps_rules)

section \<open>Reading\<close>

lemma readContextRule_keeps [keeps_rules]: "keeps activeWallet (readContextRule E (sealReader c) contractId i)"
proof -
  have h: "keeps activeWallet (hydrateContextRuleIds (sealReader c) rule)" for rule
    unfolding hydrateContextRuleIds_def Let_def resolvedId_def sealReader_def
    by (auto intro!: keeps_rules split: option.splits bool.splits)
  have g: "qcGetContextRule (sealReader c) i = privately (qcGetContextRule c i)" by (simp add: sealReader_def)
  show ?thesis unfolding readContextRule_def readContextRuleFromRpc_def g
    by (auto intro!: keeps_rules h split: simulate_response.splits option.splits)
qed

lemma probeLoop_keeps: "(\<And>i. keeps f (read i)) \<Longrightarrow> keeps f (probeLoop read n m found probed ids)"
  by (induction ids arbitrary: m found probed) (auto intro!: keeps_rules split: option.splits)

lemma listWith_keeps:
  assumes "\<And>i. keeps f (read i)" "\<And>get. ddIndexer d = Some get \<Longrightarrow> keeps f get"
    and "\<And>get. ddLatestLedger d = Some get \<Longrightarrow> keeps f get"
  shows "keeps f (listWith read d)"
proof -
  have i: "keeps f (indexerRuleIds d)"
  proof (cases "ddIndexer d")
    case (Some get)
    show ?thesis using assms(2) [OF Some] by (auto simp: indexerRuleIds_def Some intro!: keeps_rules)
  qed (simp add: indexerRuleIds_def keeps_rules)
  have l: "keeps f (case ddLatestLedger d of None \<Rightarrow> returnA None | Some get \<Rightarrow> bindA get (\<lambda>l. returnA (Some l)))"
    using assms(3) by (cases "ddLatestLedger d") (auto intro!: keeps_rules)
  show ?thesis unfolding listWith_def ruleUnlessMissing_def
    by (auto intro!: keeps_rules i l probeLoop_keeps assms(1) intro: assms(3) split: option.splits)
qed

lemma indexedDetails_keeps [keeps_rules]: "keeps activeWallet (getContractDetailsFromIndexer S I c)"
  unfolding getContractDetailsFromIndexer_def thrown_def getContractDetails_def indexerFetch_def Let_def
  by (auto intro!: keeps_rules split: option.splits sum.splits indexer_failure.splits)

lemma indexedRuleIds_keeps [keeps_rules]: "keeps activeWallet (indexedRuleIds P kt c)"
  unfolding indexedRuleIds_def by (intro keeps_rules)

lemma latestLedger_keeps [keeps_rules]:
  "keeps activeWallet (latestLedger S)" "keeps activeWallet (kitLatestLedger P kt)"
  by (simp_all add: latestLedger_def kitLatestLedger_def keeps_rules)

lemma listRules_keeps [keeps_rules]: "keeps activeWallet (listRules E (kitRuleDeps (sealed P) kt))"
  unfolding listRules_def listContextRules_def
  by (intro keeps_rules listWith_keeps)
    (auto simp: kitRuleDeps_def ruleDiscovery_def sealed_def activeRuleIds_def intro!: keeps_rules)

section \<open>Signing\<close>

lemma freshCache_keeps [keeps_rules]: "keeps activeWallet freshCache"
  by (simp add: freshCache_def keeps_rules)

lemma cachedRules_keeps [keeps_rules]: "keeps activeWallet (cachedRules (sealed P) kt c)"
proof -
  have "keeps activeWallet (listContextRules (kitEnv (sealed P) kt) (plReader (sealed P) c) (kitDiscovery (sealed P) kt c))"
    unfolding listContextRules_def
    by (rule listWith_keeps) (auto simp: kitDiscovery_def sealed_def intro!: keeps_rules)
  then show ?thesis unfolding cachedRules_def by (auto intro!: keeps_rules split: option.splits)
qed

lemma resolveConnected_keeps [keeps_rules]: "keeps activeWallet (resolveConnectedContextRuleIds (sealed P) kt k e)"
  unfolding resolveConnectedContextRuleIds_def cachedSigner_def Let_def
  by (auto intro!: keeps_rules split: option.splits)

lemma findInRules_keeps: "(\<And>i. keeps f (read i)) \<Longrightarrow> keeps f (findWebAuthnSignerInRules K read asked ids k)"
  by (induction ids) (auto intro!: keeps_rules split: option.splits)

lemma digestScheme_keeps [keeps_rules]: "keeps activeWallet (kitDigestScheme P kt c)"
  by (auto simp: kitDigestScheme_def intro!: keeps_rules)

lemma signInternal_keeps [keeps_rules]: "keeps activeWallet (signAuthEntryInternal (sealed P) kt e o1)"
proof -
  have r: "keeps activeWallet (pdReadRule (kitSignDeps (sealed P) kt) i)" for i
    by (auto simp: kitSignDeps_def sealed_def intro!: keeps_rules)
  have s: "keeps activeWallet (pdScheme (kitSignDeps (sealed P) kt) c)" for c
    by (auto simp: kitSignDeps_def intro!: keeps_rules)
  have x: "keeps activeWallet (pdExpiration (kitSignDeps (sealed P) kt))"
    by (auto simp: kitSignDeps_def calculateExpiration_def intro!: keeps_rules)
  have w: "keeps activeWallet (signWithPasskey K S net (kitSignDeps (sealed P) kt) o2 en n p c key ids)" for K S net o2 en n p c key ids
    unfolding signWithPasskey_def bothA_def Let_def
    by (auto intro!: keeps_rules findInRules_keeps r s split: option.splits)
  show ?thesis
    unfolding signAuthEntryInternal_def signAuthEntry_def chooseExpiration_def Let_def
    by (auto intro!: keeps_rules w x split: option.splits credentials.splits)
qed

section \<open>Submitting\<close>

lemma submission_keeps [keeps_rules]:
  "keeps activeWallet (signFeePayer E tx fm)" "keeps activeWallet (resimulateAndAssemble E src func es)"
  "keeps activeWallet (resolveResimSource E fm)" "keeps activeWallet (sendAndPoll S tx fm)"
  unfolding signFeePayer_def resimulateAndAssemble_def resolveResimSource_def sendAndPoll_def submitOnly_def Let_def
  by (auto intro!: keeps_rules split: simulate_response.splits send_response.splits sum.splits option.splits
      submission_method.splits list.splits operation.splits)

lemma signAndSubmit_keeps:
  assumes "\<And>e o1. keeps activeWallet (signer e o1)" "\<And>f e i. soResolveRuleIds options = Some f \<Longrightarrow> keeps activeWallet (f e i)"
  shows "keeps activeWallet (signAndSubmit E signer tx options)"
proof -
  have r: "keeps activeWallet (resolveIds (soResolveRuleIds options) e i)" for e i
    using assms(2) by (auto simp: resolveIds_def intro!: keeps_rules split: option.splits)
  have s: "keeps activeWallet (signResimulateAndPrepare E signer func es options)" for func es
    unfolding signResimulateAndPrepare_def signEntryAt_def Let_def by (auto intro!: keeps_rules r assms(1))
  have "keeps activeWallet (prepareSubmission E signer tx options)"
    unfolding prepareSubmission_def Let_def
    by (auto intro!: keeps_rules s split: option.splits list.splits operation.splits)
  then show ?thesis unfolding signAndSubmit_def by (auto intro!: keeps_rules split: sum.splits option.splits)
qed

lemma prepareTransfer_keeps [keeps_rules]: "keeps activeWallet (prepareTransfer E b n t r a)"
  unfolding prepareTransfer_def resolveTokenAmount_def readTokenDecimals_def buildDirectTokenTransfer_def Let_def
  by (auto intro!: keeps_rules split: sum.splits option.splits simulate_response.splits)

lemma transfer_keeps:
  assumes "koResolveRuleIds options = None"
  shows "keeps activeWallet (kitTransfer (sealed P) kt token recipient amount options)"
proof -
  have "keeps activeWallet (kitSignAndSubmit (sealed P) kt tx (options\<lparr>koExpiration := None\<rparr>))" for tx
    unfolding kitSignAndSubmit_def kitSigner_def using assms
    by (auto intro!: keeps_rules signAndSubmit_keeps simp: resolvedOptions_def)
  then show ?thesis unfolding kitTransfer_def by (auto intro!: keeps_rules split: sum.splits)
qed

lemma lookupAccount_keeps: "keeps activeWallet (lookupAccount S p n e)"
  by (induction n arbitrary: e) (auto intro!: keeps_rules)

lemma signFunding_keeps: "(\<And>e. keeps f (one e)) \<Longrightarrow> keeps f (signFunding one es)"
  by (induction es) (auto intro!: keeps_rules split: sum.splits)

lemma fundWallet_keeps [keeps_rules]: "keeps activeWallet (kitFundWallet P kt token fm)"
proof -
  have e: "keeps activeWallet (signFundingEntry E F key n e)" for E F key n e
    unfolding signFundingEntry_def by (auto intro!: keeps_rules split: credentials.splits)
  have t: "keeps activeWallet (transferFunds E F key token c m a)" for E F key c m a
    unfolding transferFunds_def Let_def
    by (auto intro!: keeps_rules signFunding_keeps e split: funding_simulation.splits sum.splits)
  have f: "keeps activeWallet (askFriendbot S p)" for S p
    unfolding askFriendbot_def Let_def by (auto intro!: keeps_rules split: fetch_answer.splits option.splits)
  have "keeps activeWallet (fundTemporary E F token c m)" for E F c m
    unfolding fundTemporary_def getAccountWithRetry_def Let_def
    by (auto intro!: keeps_rules lookupAccount_keeps t f split: sum.splits)
  then show ?thesis unfolding kitFundWallet_def fundWallet_def by (auto intro!: keeps_rules split: option.splits)
qed

section \<open>Several signers\<close>

definition sealedMulti :: "platform \<Rightarrow> kit \<Rightarrow> 'a wallet_ops \<Rightarrow> 'a ext_manager \<Rightarrow> (string \<Rightarrow> buffer) \<Rightarrow> (buffer \<Rightarrow> string) \<Rightarrow> 'a multi_deps" where
  "sealedMulti P = kitMultiDeps (sealed P)"

lemma signPasskeys_keeps: "(\<And>e o1. keeps f (mdSignEntry D e o1)) \<Longrightarrow> keeps f (signPasskeys D g e ss)"
  by (induction ss arbitrary: e) (auto intro!: keeps_rules)

lemma signAll_keeps: "(\<And>s i e. keeps f (one s i e)) \<Longrightarrow> keeps f (signAll one scheme es)"
  by (induction one scheme es rule: signAll.induct) (auto intro!: keeps_rules split: sum.splits)

lemma walletSign_keeps [keeps_rules]: "keeps activeWallet (walletSign K D e b a)"
  unfolding walletSign_def by (auto intro!: keeps_rules)

lemma signOne_keeps:
  fixes M :: "'a ext_manager"
  assumes "moResolveRuleIds options = None"
  shows "keeps activeWallet (signOne E (sealedMulti P kt W M ft tt) func selected options allow c n scheme i e)"
proof -
  let ?D = "sealedMulti P kt W M ft tt"
  have d: "mdSignEntry ?D = signAuthEntryInternal (sealed P) kt" "mdScheme ?D = kitDigestScheme (sealed P) kt"
      "mdIndexer ?D = Some (activeRuleIds (sealed P) kt)" "mdClient ?D = (\<lambda>c. sealReader (plReader P c))"
    by (simp_all add: sealedMulti_def kitMultiDeps_def sealed_def)
  have r: "keeps activeWallet (contextRuleIdsFor E ?D options selected c' e' j)" for c' e' j
    unfolding contextRuleIdsFor_def assms listContextRules_def option.case d
    by (intro keeps_rules listWith_keeps)
      (auto simp: discoveryDeps_def d activeRuleIds_def intro!: keeps_rules)
  have w: "keeps activeWallet (signWalletAddressAuthEntry E ?D e' a m)" for e' a m
    unfolding signWalletAddressAuthEntry_def by (auto intro!: keeps_rules split: credentials.splits)
  have g: "keeps activeWallet (delegate E ?D c' args m a)" for c' args m a
    unfolding delegate_def Let_def by (auto intro!: keeps_rules)
  have "keeps activeWallet (signSelected E ?D selected mu c' m scheme' ids e')" for mu c' m scheme' ids e'
    unfolding signSelected_def by (auto intro!: keeps_rules signPasskeys_keeps g simp: d split: option.splits)
  then have "keeps activeWallet (signAccountEntry E ?D func selected options allow c' m scheme' j e')" for c' m scheme' j e'
    unfolding signAccountEntry_def Let_def by (auto intro!: keeps_rules r simp: d split: option.splits)
  then show ?thesis unfolding signOne_def Let_def by (auto intro!: keeps_rules w split: credentials.splits)
qed

lemma multiTransfer_keeps:
  assumes "moResolveRuleIds options = None"
  shows "keeps activeWallet (multiTransfer E (sealedMulti P kt W M ft tt) n token recipient amount selected options)"
proof -
  let ?D = "sealedMulti P kt W M ft tt"
  have p: "keeps activeWallet (prepareSelected E ?D func es selected options allow c)" for func es allow c
    unfolding prepareSelected_def
    by (auto intro!: keeps_rules signAll_keeps signOne_keeps [OF assms] split: sum.splits)
  have "keeps activeWallet (submitWithSelectedSigners E ?D func es selected options allow)" for func es allow
    unfolding submitWithSelectedSigners_def by (auto intro!: keeps_rules p split: option.splits sum.splits)
  then have "keeps activeWallet (multiOperation E ?D tx selected options)" for tx
    unfolding multiOperation_def submitOperation_def Let_def
    by (auto intro!: keeps_rules split: option.splits list.splits operation.splits sum.splits)
  then show ?thesis unfolding multiTransfer_def by (auto intro!: keeps_rules split: sum.splits)
qed

section \<open>Connecting\<close>

lemma connectWith_active:
  "connectWithCredentials E D k c given allow w = (Inr r, w') \<Longrightarrow> activeWallet w' = activeOn (crrContractId r) (crrCredentialId r)"
  by (auto simp: connectWithCredentials_def establish_def Let_def bindA_Inr run_simps setConnectedState_def activeWallet_def
      emitA_def doA_def saveSession_def nowA_def storageSaveSession_def split: prod.splits)

lemma connect_active:
  "kitConnectWallet P kt options w = (Inr (Some r), w') \<Longrightarrow> activeWallet w' = activeOn (crrContractId r) (crrCredentialId r)"
  unfolding kitConnectWallet_def connectWallet_def promptAndConnect_def Let_def restoreSession_def
  by (auto simp: bindA_Inr run_simps catchA_Inr dest!: connectWith_active split: if_splits option.splits)

lemma created_active:
  assumes "kitCreateWallet P kt app name options att res policies w = (Inr r, w')" "succeeded (cwrSubmit r)"
  shows "activeWallet w' = activeOn (cwrContractId r) (cwrCredentialId r)"
proof -
  have f: "keeps activeWallet (fundNew (kitCreateDeps P kt att res ps) options s)" for ps s
    unfolding fundNew_def kitCreateDeps_def by (auto intro!: keeps_rules)
  have c: "activeWallet w3 = activeOn c k" if "setConnectedState c k w0 = (Inr u1, w1)" "emitA x w1 = (Inr u2, w2)"
      "saveSession S n c k w2 = (Inr u3, w3)" for c k x S n w0 w1 w2 w3 u1 u2 u3
    using that by (auto simp: bindA_Inr run_simps setConnectedState_def activeWallet_def emitA_def doA_def saveSession_def
        nowA_def storageSaveSession_def)
  show ?thesis using assms unfolding kitCreateWallet_def createWallet_def
    by (auto simp: bindA_Inr [where m = "if b then m else n" for b m n] bindA_Inr run_simps dest!: keepsD [OF f] dest: c split: prod.splits)
qed

lemma deployed_active:
  assumes "credDeploy E D k auto fm policies w = (Inr r, w')" "succeeded (dwSubmit r)"
  shows "activeWallet w' = activeOn (dwContractId r) k"
  using assms unfolding credDeploy_def
  by (auto simp: bindA_Inr run_simps setConnectedIds_def initializeWallet_def activeWallet_def emitA_def doA_def split: prod.splits)

lemma disconnect_active: "disconnect w = (r, w') \<Longrightarrow> isOk r \<and> activeWallet w' = (None, None, None)"
  by (auto simp: disconnect_def clearConnectedState_def bindA_def run_simps activeWallet_def storageClearSession_def emitA_def doA_def
      isOk_def split: if_splits)

lemma pending_keeps [keeps_rules]: "keeps activeWallet credGetPending"
  unfolding credGetPending_def by (intro keeps_rules)

end
