(* ===== verification/Kit_Session.thy ===== *)
theory Kit_Session
  imports Kit_Connected
begin

text \<open>
  The wallet session of the demo (\<^verbatim>\<open>demo/src/hooks/useWalletSession.ts\<close>, with the guards of
  \<^verbatim>\<open>App.tsx\<close> and its panels): the state of the page, one handler per action over the kit's operations,
  and the steps of the page as a relation. A handler runs to its end in one step, so \<^verbatim>\<open>loading\<close> is
  \<^verbatim>\<open>null\<close> between steps and is left out; what a handler starts and does not await (the balance and the
  signers of the wallet) is an outstanding load, delivered by a later step in any order.
\<close>

section \<open>What the session asks of the kit\<close>

record session_kit =
  skSdk :: sdk
  skVerifier :: string
  skConnect :: "connect_options \<Rightarrow> connect_result option act"
  skCreate :: "string \<Rightarrow> created_wallet act"
  skAuthenticate :: "string act"
  skDiscover :: "string \<Rightarrow> summary list option act"
  skRuleCount :: "string \<Rightarrow> nat option act"
  skRules :: "context_rule list act"
  skDisconnect :: "unit act"
  skDeploy :: "string \<Rightarrow> deployed_wallet act"
  skDelete :: "string \<Rightarrow> unit act"
  skPending :: "stored_credential list act"
  skFund :: "tx_result act"
  skTransfer :: "string \<Rightarrow> jsnum \<Rightarrow> tx_result act"
  skMultiTransfer :: "string \<Rightarrow> jsnum \<Rightarrow> selected_signer list \<Rightarrow> tx_result act"
  skBalance :: "string \<Rightarrow> jsnum option act"

text \<open>The kit's operations; a number is passed on by its shortest decimal.\<close>

definition numberArg :: "jsnum \<Rightarrow> number_arg" where
  "numberArg n = (case n of Fin q \<Rightarrow> if 0 < q then PositiveNumber (shortestDecimal q) else OtherNumber n | _ \<Rightarrow> OtherNumber n)"

definition kitSession ::
    "platform \<Rightarrow> kit \<Rightarrow> 'a wallet_ops \<Rightarrow> 'a ext_manager \<Rightarrow> (string \<Rightarrow> buffer) \<Rightarrow> (buffer \<Rightarrow> string) \<Rightarrow> string \<Rightarrow>
     (effect list \<Rightarrow> string \<Rightarrow> jsnum option result) \<Rightarrow> session_kit" where
  "kitSession P0 kt W M fromText toText nativeToken balance = (let P = sealed P0; E = kitEnv P kt in
     \<lparr>skSdk = plSdk P, skVerifier = ktVerifier kt, skConnect = kitConnectWallet P kt,
      skCreate = (\<lambda>name. kitCreateWallet P kt ''Smart Account Demo'' name \<lparr>coNickname = None, coAutoSubmit = True,
        coAutoFund = False, coNativeToken = None, coForceMethod = None\<rparr> None None None),
      skAuthenticate = bindA (kitAuthenticatePasskey P kt) (\<lambda>r. returnA (fst r)),
      skDiscover = kitDiscoverByCredential P kt,
      skRuleCount = (\<lambda>c. bindA (indexedRuleIds P kt c) (\<lambda>ids. returnA (map_option length ids))),
      skRules = listRules E (kitRuleDeps P kt), skDisconnect = disconnect,
      skDeploy = (\<lambda>k. credDeploy E (kitCredentialDeps P kt) k True None None), skDelete = credDelete E,
      skPending = credGetPending,
      skFund = bindA (kitFundWallet P kt nativeToken None) (\<lambda>r. returnA (fst r)),
      skTransfer = (\<lambda>recipient amount. kitTransfer P kt nativeToken recipient (numberArg amount)
        \<lparr>koCredentialId = None, koExpiration = None, koForceMethod = None, koResolveRuleIds = None\<rparr>),
      skMultiTransfer = (\<lambda>recipient amount selected. multiTransfer E (sealedMulti P0 kt W M fromText toText) (plNumber P)
        nativeToken recipient (numberArg amount) selected \<lparr>moForceMethod = None, moResolveRuleIds = None\<rparr>),
      skBalance = (\<lambda>c. requestA (FxRpcGetContractData c) (\<lambda>t. balance t c))\<rparr>)"

section \<open>The state of the page\<close>

text \<open>A load that was started: its answer, not yet shown.\<close>

datatype load = BalanceLoad "jsnum option result" | SignersLoad "string option" "context_rule list result"

record session =
  vsConnected :: bool
  vsContract :: "string option"
  vsCredential :: "string option"
  vsBalance :: "string option"
  vsSigners :: "signer list"
  vsActive :: "signer option"
  vsDiscovered :: "summary list"
  vsPicking :: bool
  vsPickerCredential :: "string option"
  vsChoosing :: bool
  vsTransfer :: "(string \<times> jsnum) option"
  vsUnresolved :: "stored_credential list"
  vsLoads :: "load list"

definition initSession :: session where
  "initSession = \<lparr>vsConnected = False, vsContract = None, vsCredential = None, vsBalance = None, vsSigners = [],
     vsActive = None, vsDiscovered = [], vsPicking = False, vsPickerCredential = None, vsChoosing = False,
     vsTransfer = None, vsUnresolved = [], vsLoads = []\<rparr>"

type_synonym page = "session \<times> world"

section \<open>Loads\<close>

text \<open>\<^verbatim>\<open>toFixed(2)\<close>: the nearest hundredth, the larger of two; from 10^21 on it is \<^verbatim>\<open>toString\<close>.\<close>

definition toFixed2 :: "jsnum \<Rightarrow> string" where
  "toFixed2 x = (case x of
     Fin q \<Rightarrow> if 10 ^ 21 \<le> \<bar>q\<bar> then numberText x
       else let t = decimal (nat \<lfloor>\<bar>q\<bar> * 100 + 1 / 2\<rfloor>); d = replicate (3 - length t) (CHR ''0'') @ t in
         (if q < 0 then ''-'' else []) @ take (length d - 2) d @ ''.'' @ drop (length d - 2) d
   | _ \<Rightarrow> numberText x)"

definition showSigners :: "sdk \<Rightarrow> string option \<Rightarrow> context_rule list \<Rightarrow> session \<Rightarrow> session" where
  "showSigners K activeCredId rules s = (let uniqueSigners = collectUniqueSigners (concat (map crSigners rules)) in
     s\<lparr>vsSigners := uniqueSigners, vsActive := (if truthy activeCredId
       then List.find (\<lambda>x. getCredentialIdFromSigner K x = activeCredId) uniqueSigners else None)\<rparr>)"

definition applyLoad :: "sdk \<Rightarrow> load \<Rightarrow> session \<Rightarrow> session" where
  "applyLoad K l s = (case l of
     BalanceLoad r \<Rightarrow> s\<lparr>vsBalance := (case r of
         Inl e \<Rightarrow> None
       | Inr None \<Rightarrow> Some ''0.00''
       | Inr (Some amount) \<Rightarrow> Some (toFixed2 (scaleNum amount (1 / of_nat STROOPS_PER_XLM))))\<rparr>
   | SignersLoad activeCredId r \<Rightarrow> (case r of Inl e \<Rightarrow> s | Inr rules \<Rightarrow> showSigners K activeCredId rules s))"

definition fetchBalance :: "session_kit \<Rightarrow> string \<Rightarrow> page \<Rightarrow> page" where
  "fetchBalance K walletContractId = (\<lambda>(s, w). case skBalance K walletContractId w of (r, w') \<Rightarrow>
     (s\<lparr>vsLoads := vsLoads s @ [BalanceLoad r]\<rparr>, w'))"

text \<open>With rules at hand nothing is awaited, and the signers are shown at once.\<close>

definition fetchAllSigners :: "session_kit \<Rightarrow> string option \<Rightarrow> context_rule list option \<Rightarrow> page \<Rightarrow> page" where
  "fetchAllSigners K activeCredId prefetchedRules = (\<lambda>(s, w). case prefetchedRules of
     Some rules \<Rightarrow> (showSigners (skSdk K) activeCredId rules s, w)
   | None \<Rightarrow> (case skRules K w of (r, w') \<Rightarrow> (s\<lparr>vsLoads := vsLoads s @ [SignersLoad activeCredId r]\<rparr>, w')))"

definition refreshSigners :: "session_kit \<Rightarrow> page \<Rightarrow> page" where
  "refreshSigners K = (\<lambda>(s, w). fetchAllSigners K (vsCredential s) None (s, w))"

text \<open>Whether the unresolved credentials were read, and the page after it.\<close>

definition refreshPending :: "session_kit \<Rightarrow> page \<Rightarrow> bool \<times> page" where
  "refreshPending K = (\<lambda>(s, w). case skPending K w of
     (Inr credentials, w') \<Rightarrow> (True, s\<lparr>vsUnresolved := credentials\<rparr>, w')
   | (Inl e, w') \<Rightarrow> (False, s, w'))"

text \<open>Inside a \<^verbatim>\<open>try\<close> whose \<^verbatim>\<open>catch\<close> refreshes as well.\<close>

definition refreshOrRetry :: "session_kit \<Rightarrow> page \<Rightarrow> page" where
  "refreshOrRetry K p = (case refreshPending K p of (ok, p') \<Rightarrow> if ok then p' else snd (refreshPending K p'))"

section \<open>Connecting\<close>

definition applyConnection :: "session_kit \<Rightarrow> string \<Rightarrow> string \<Rightarrow> context_rule list option \<Rightarrow> page \<Rightarrow> page" where
  "applyConnection K nextContractId nextCredentialId prefetchedRules = (\<lambda>(s, w).
     fetchAllSigners K (Some nextCredentialId) prefetchedRules (fetchBalance K nextContractId
       (s\<lparr>vsContract := Some nextContractId, vsCredential := Some nextCredentialId, vsConnected := True\<rparr>, w)))"

definition ensureCurrentWalletShape :: "session_kit \<Rightarrow> string \<Rightarrow> string option \<Rightarrow> context_rule list option act" where
  "ensureCurrentWalletShape K restoredContractId activeCredentialId =
     bindA (skRuleCount K restoredContractId) (\<lambda>details.
     bindA (askA wWallet) (\<lambda>wallet.
       if details = None \<or> wallet = None then returnA None
       else bindA (skRules K) (\<lambda>rules.
         if 0 < the details \<and> rules = []
         then throwA (JsError ''Failed to decode active context rules for the restored wallet'')
         else if \<not> truthy activeCredentialId then returnA (Some rules)
         else (case List.find (\<lambda>s. getCredentialIdFromSigner (skSdk K) s = activeCredentialId) (concat (map crSigners rules)) of
            None \<Rightarrow> throwA (JsError ''The authenticated passkey is not an active signer on this wallet'')
          | Some (Delegated a) \<Rightarrow> throwA (JsError ''The authenticated signer is not a current WebAuthn signer'')
          | Some (External verifierAddress keyData) \<Rightarrow>
              if verifierAddress \<noteq> skVerifier K
              then throwA (JsError (''This wallet uses an older WebAuthn verifier ('' @ verifierAddress @
                '') instead of the current demo verifier ('' @ skVerifier K @ '')''))
              else returnA (Some rules)))))"

definition noPrompt :: connect_options where
  "noPrompt = \<lparr>cnCredentialId = None, cnContractId = None, cnFresh = False, cnPrompt = False\<rparr>"

definition resetSession :: "session \<Rightarrow> session" where
  "resetSession s = s\<lparr>vsConnected := False, vsContract := None, vsCredential := None, vsBalance := None,
     vsSigners := [], vsActive := None\<rparr>"

text \<open>A connection that was made is checked; it is undone when it has another shape.\<close>

definition useConnection :: "session_kit \<Rightarrow> connect_result \<Rightarrow> page \<Rightarrow> page" where
  "useConnection K r = (\<lambda>(s, w). case ensureCurrentWalletShape K (crrContractId r) (Some (crrCredentialId r)) w of
     (Inr shapeRules, w') \<Rightarrow> applyConnection K (crrContractId r) (crrCredentialId r) shapeRules (s, w')
   | (Inl e, w') \<Rightarrow> (s, snd (skDisconnect K w')))"

definition autoConnect :: "session_kit \<Rightarrow> page \<Rightarrow> page" where
  "autoConnect K = (\<lambda>(s, w). case skConnect K noPrompt w of
     (Inr (Some r), w') \<Rightarrow> useConnection K r (s, w')
   | (_, w') \<Rightarrow> (s, w'))"

definition createSession :: "session_kit \<Rightarrow> string \<Rightarrow> page \<Rightarrow> page" where
  "createSession K userName = (\<lambda>(s, w). case skCreate K (orElse (trim userName) ''Demo User'') w of
     (Inr r, w') \<Rightarrow>
       if succeeded (cwrSubmit r) then applyConnection K (cwrContractId r) (cwrCredentialId r) None (s, w')
       else if cwrSubmit r \<noteq> None then refreshOrRetry K (s, w') else (s, w')
   | (Inl e, w') \<Rightarrow> snd (refreshPending K (s, w')))"

definition connectExisting :: "session_kit \<Rightarrow> page \<Rightarrow> page" where
  "connectExisting K = (\<lambda>(s, w). case skAuthenticate K w of
     (Inl e, w') \<Rightarrow> (s, snd (skDisconnect K w'))
   | (Inr authCredentialId, w') \<Rightarrow> (case skDiscover K authCredentialId w' of
       (Inr contracts, w'') \<Rightarrow>
         if items contracts = [] then (s, w'')
         else (s\<lparr>vsDiscovered := items contracts, vsPickerCredential := Some authCredentialId, vsPicking := True\<rparr>, w'')
     | (Inl e, w'') \<Rightarrow> (s, w'')))"

definition cancelContractPicker :: "page \<Rightarrow> page" where
  "cancelContractPicker = (\<lambda>(s, w). (s\<lparr>vsPicking := False, vsPickerCredential := None, vsDiscovered := []\<rparr>, w))"

definition summaryContract :: "summary \<Rightarrow> string option" where
  "summaryContract c = (case map_of c ''contract_id'' of Some (JStr a) \<Rightarrow> Some a | _ \<Rightarrow> None)"

definition selectContract :: "session_kit \<Rightarrow> summary \<Rightarrow> page \<Rightarrow> page" where
  "selectContract K selectedContract = (\<lambda>(s, w).
     if \<not> truthy (vsPickerCredential s) then (s, w)
     else let s0 = s\<lparr>vsPicking := False\<rparr> in
       cancelContractPicker (case skConnect K \<lparr>cnCredentialId = vsPickerCredential s,
           cnContractId = summaryContract selectedContract, cnFresh = False, cnPrompt = False\<rparr> w of
         (Inr (Some r), w') \<Rightarrow> useConnection K r (s0, w')
       | (Inr None, w') \<Rightarrow> (s0, w')
       | (Inl e, w') \<Rightarrow> (s0, snd (skDisconnect K w'))))"

definition disconnectSession :: "session_kit \<Rightarrow> page \<Rightarrow> page" where
  "disconnectSession K = (\<lambda>(s, w). case skDisconnect K w of
     (Inr u, w') \<Rightarrow> (resetSession s, w') | (Inl e, w') \<Rightarrow> (s, w'))"

section \<open>Funding and transfers\<close>

definition isTxSuccess :: "tx_result result \<Rightarrow> bool" where
  "isTxSuccess r = (case r of Inr (TxSuccess h l) \<Rightarrow> True | _ \<Rightarrow> False)"

text \<open>After a successful transaction the balance is fetched again.\<close>

definition thenBalance :: "session_kit \<Rightarrow> tx_result act \<Rightarrow> page \<Rightarrow> page" where
  "thenBalance K send = (\<lambda>(s, w). case send w of (r, w') \<Rightarrow>
     if isTxSuccess r then fetchBalance K (the (vsContract s)) (s, w') else (s, w'))"

definition fundSession :: "session_kit \<Rightarrow> page \<Rightarrow> page" where
  "fundSession K = (\<lambda>(s, w). if \<not> truthy (vsContract s) then (s, w) else thenBalance K (skFund K) (s, w))"

definition checkTransferForm :: "sdk \<Rightarrow> string \<Rightarrow> jsnum \<Rightarrow> unit result" where
  "checkTransferForm K recipient amount =
     bindE (validateAddress K recipient ''recipient address'') (\<lambda>_. validateAmount amount ''transfer amount'')"

definition requestTransfer :: "session_kit \<Rightarrow> string \<Rightarrow> string \<Rightarrow> page \<Rightarrow> page" where
  "requestTransfer K recipientRaw amountRaw = (\<lambda>(s, w).
     if \<not> vsConnected s \<or> \<not> truthy (vsContract s) then (s, w)
     else let recipient = trim recipientRaw; amount = parseFloat (trim amountRaw) in
       if \<not> isOk (checkTransferForm (skSdk K) recipient amount) then (s, w)
       else if 1 < length (vsSigners s) then (s\<lparr>vsTransfer := Some (recipient, amount), vsChoosing := True\<rparr>, w)
       else thenBalance K (skTransfer K recipient amount) (s, w))"

definition cancelTransferSigners :: "page \<Rightarrow> page" where
  "cancelTransferSigners = (\<lambda>(s, w). (s\<lparr>vsChoosing := False, vsTransfer := None\<rparr>, w))"

definition confirmTransferSigners :: "session_kit \<Rightarrow> selected_signer list \<Rightarrow> page \<Rightarrow> page" where
  "confirmTransferSigners K selectedSigners = (\<lambda>(s, w). case vsTransfer s of
     None \<Rightarrow> (s, w)
   | Some (recipient, amount) \<Rightarrow>
       if \<not> truthy (vsContract s) then (s, w)
       else thenBalance K (skMultiTransfer K recipient amount selectedSigners) (cancelTransferSigners (s, w)))"

section \<open>Unresolved credentials\<close>

definition deployPending :: "session_kit \<Rightarrow> stored_credential \<Rightarrow> page \<Rightarrow> page" where
  "deployPending K credential = (\<lambda>(s, w). case skDeploy K (scCredentialId credential) w of
     (Inr r, w') \<Rightarrow>
       if succeeded (dwSubmit r)
       then refreshOrRetry K (applyConnection K (dwContractId r) (scCredentialId credential) None (s, w'))
       else if dwSubmit r \<noteq> None then refreshOrRetry K (s, w') else (s, w')
   | (Inl e, w') \<Rightarrow> snd (refreshPending K (s, w')))"

definition deletePending :: "session_kit \<Rightarrow> stored_credential \<Rightarrow> page \<Rightarrow> page" where
  "deletePending K credential = (\<lambda>(s, w). case skDelete K (scCredentialId credential) w of
     (Inr u, w') \<Rightarrow> snd (refreshPending K (s, w'))
   | (Inl e, w') \<Rightarrow> (s, w'))"

section \<open>Steps\<close>

text \<open>
  The page offers an action only where the guards of \<^verbatim>\<open>App.tsx\<close>, \<^verbatim>\<open>WalletPanel\<close> and
  \<^verbatim>\<open>PendingCredentialsPanel\<close> do, and behind an open dialog none but the dialog's own. A kit that is
  created anew is connected to nothing; what the rest of the demo does with the kit (\<open>elsewhere\<close>)
  leaves its connection alone.
\<close>

definition noDialog :: "session \<Rightarrow> bool" where
  "noDialog s \<longleftrightarrow> \<not> vsPicking s \<and> \<not> vsChoosing s"

inductive session_step :: "session_kit \<Rightarrow> page \<Rightarrow> page \<Rightarrow> bool" for K where
  started: "noDialog s \<Longrightarrow> activeWallet w' = (None, None, None) \<Longrightarrow> session_step K (s, w) (autoConnect K (resetSession s, w'))"
| created: "noDialog s \<Longrightarrow> \<not> vsConnected s \<Longrightarrow> session_step K (s, w) (createSession K name (s, w))"
| connecting: "noDialog s \<Longrightarrow> \<not> vsConnected s \<Longrightarrow> session_step K (s, w) (connectExisting K (s, w))"
| picked: "vsPicking s \<Longrightarrow> c \<in> set (vsDiscovered s) \<Longrightarrow> session_step K (s, w) (selectContract K c (s, w))"
| cancelled: "vsPicking s \<Longrightarrow> session_step K (s, w) (cancelContractPicker (s, w))"
| disconnected: "noDialog s \<Longrightarrow> vsConnected s \<Longrightarrow> session_step K (s, w) (disconnectSession K (s, w))"
| funded: "noDialog s \<Longrightarrow> vsConnected s \<Longrightarrow> session_step K (s, w) (fundSession K (s, w))"
| requested: "noDialog s \<Longrightarrow> vsConnected s \<Longrightarrow> session_step K (s, w) (requestTransfer K recipient amount (s, w))"
| confirmed: "vsChoosing s \<Longrightarrow> session_step K (s, w) (confirmTransferSigners K selected (s, w))"
| declined: "vsChoosing s \<Longrightarrow> session_step K (s, w) (cancelTransferSigners (s, w))"
| deployed: "noDialog s \<Longrightarrow> \<not> vsConnected s \<Longrightarrow> session_step K (s, w) (deployPending K credential (s, w))"
| deleted: "noDialog s \<Longrightarrow> \<not> vsConnected s \<Longrightarrow> session_step K (s, w) (deletePending K credential (s, w))"
| refreshed: "session_step K (s, w) (refreshSigners K (s, w))"
| pending: "session_step K (s, w) (snd (refreshPending K (s, w)))"
| loaded: "vsLoads s = xs @ l # ys \<Longrightarrow> session_step K (s, w) (applyLoad (skSdk K) l (s\<lparr>vsLoads := xs @ ys\<rparr>), w)"
| elsewhere: "activeWallet w' = activeWallet w \<Longrightarrow> session_step K (s, w) (s, w')"

abbreviation session_run :: "session_kit \<Rightarrow> page \<Rightarrow> page \<Rightarrow> bool" where
  "session_run K \<equiv> (session_step K)\<^sup>*\<^sup>*"

section \<open>The connection a session shows\<close>

text \<open>
  A session that shows itself as connected shows the wallet and the passkey the kit is connected with;
  no dialog of another wallet is open, and a transfer that waits for its signers has a valid
  recipient and amount.
\<close>

definition sessionOk :: "session_kit \<Rightarrow> page \<Rightarrow> bool" where
  "sessionOk K = (\<lambda>(s, w).
     (if vsConnected s then \<exists>c k. vsContract s = Some c \<and> vsCredential s = Some k \<and> activeWallet w = activeOn c k
      else vsContract s = None) \<and>
     (vsPicking s \<longrightarrow> \<not> vsConnected s \<and> vsPickerCredential s \<noteq> None) \<and> (vsChoosing s \<longleftrightarrow> vsTransfer s \<noteq> None) \<and>
     (\<forall>r a. vsTransfer s = Some (r, a) \<longrightarrow> vsConnected s \<and> isOk (checkTransferForm (skSdk K) r a)))"

locale connection_provider =
  fixes K :: session_kit
  assumes connects: "skConnect K options w = (Inr (Some r), w') \<Longrightarrow> activeWallet w' = activeOn (crrContractId r) (crrCredentialId r)"
    and creates: "skCreate K name w = (Inr d, w') \<Longrightarrow> succeeded (cwrSubmit d) \<Longrightarrow>
      activeWallet w' = activeOn (cwrContractId d) (cwrCredentialId d)"
    and deploys: "skDeploy K k w = (Inr g, w') \<Longrightarrow> succeeded (dwSubmit g) \<Longrightarrow> activeWallet w' = activeOn (dwContractId g) k"
    and disconnects: "skDisconnect K w = (q, w') \<Longrightarrow> isOk q"
    and rules: "keeps activeWallet (skRules K)" and details: "keeps activeWallet (skRuleCount K c)"
    and pending: "keeps activeWallet (skPending K)" and balance: "keeps activeWallet (skBalance K c)"
    and fund: "keeps activeWallet (skFund K)" and transfer: "keeps activeWallet (skTransfer K r' a)"
    and multi: "keeps activeWallet (skMultiTransfer K r' a selected)"
begin

lemma fetchBalance_ok: "sessionOk K p \<Longrightarrow> sessionOk K (fetchBalance K c p)"
  using keepsD [OF balance [of c]]
  by (cases p) (auto simp: fetchBalance_def sessionOk_def split: prod.splits)

lemma fetchAllSigners_ok: "sessionOk K p \<Longrightarrow> sessionOk K (fetchAllSigners K k pre p)"
  using keepsD [OF rules]
  by (cases p) (auto simp: fetchAllSigners_def sessionOk_def showSigners_def Let_def split: prod.splits option.splits)

lemma refreshPending_ok: "sessionOk K p \<Longrightarrow> sessionOk K (snd (refreshPending K p))"
  using keepsD [OF pending]
  by (cases p) (auto simp: refreshPending_def sessionOk_def split: prod.splits sum.splits)

lemma refreshOrRetry_ok: "sessionOk K p \<Longrightarrow> sessionOk K (refreshOrRetry K p)"
  using refreshPending_ok [of p] refreshPending_ok [of "snd (refreshPending K p)"]
  by (auto simp: refreshOrRetry_def split: prod.splits)

lemma applyConnection_ok:
  assumes "activeWallet w = activeOn c k" "noDialog s" "vsTransfer s = None"
  shows "sessionOk K (applyConnection K c k pre (s, w))"
  unfolding applyConnection_def split
  by (intro fetchAllSigners_ok fetchBalance_ok) (use assms in \<open>auto simp: sessionOk_def noDialog_def\<close>)

lemma disconnected_world: "\<not> vsConnected s \<Longrightarrow> sessionOk K (s, w) \<Longrightarrow> sessionOk K (s, w')"
  by (auto simp: sessionOk_def)

lemma noTransfer: "sessionOk K (s, w) \<Longrightarrow> noDialog s \<Longrightarrow> vsTransfer s = None"
  by (cases "vsTransfer s") (simp_all add: sessionOk_def noDialog_def)

lemma shape_keeps: "keeps activeWallet (ensureCurrentWalletShape K c k)"
  unfolding ensureCurrentWalletShape_def
  by (auto intro!: keeps_rules rules details split: option.splits signer.splits)

lemma useConnection_ok:
  assumes "activeWallet w = activeOn (crrContractId r) (crrCredentialId r)" "\<not> vsConnected s" "noDialog s" "sessionOk K (s, w1)"
  shows "sessionOk K (useConnection K r (s, w))"
proof -
  obtain q w' where q: "ensureCurrentWalletShape K (crrContractId r) (Some (crrCredentialId r)) w = (q, w')" by fastforce
  show ?thesis
  proof (cases q)
    case (Inl e)
    then show ?thesis using q disconnected_world [OF assms(2,4)] by (simp add: useConnection_def)
  next
    case (Inr shape)
    have "activeWallet w' = activeOn (crrContractId r) (crrCredentialId r)" using keepsD [OF shape_keeps q] assms(1) by simp
    then show ?thesis using q Inr applyConnection_ok noTransfer assms(3,4) by (simp add: useConnection_def)
  qed
qed

lemma same_connection: "activeWallet w' = activeWallet w \<Longrightarrow> sessionOk K (s, w) \<Longrightarrow> sessionOk K (s, w')"
  by (auto simp: sessionOk_def)

lemma thenBalance_ok:
  assumes "keeps activeWallet m" "sessionOk K (s, w)"
  shows "sessionOk K (thenBalance K m (s, w))"
proof -
  obtain q w' where q: "m w = (q, w')" by fastforce
  then show ?thesis
    using fetchBalance_ok same_connection [OF keepsD [OF assms(1) q] assms(2)] by (simp add: thenBalance_def)
qed

lemma cancelTransfer_ok: "sessionOk K p \<Longrightarrow> sessionOk K (cancelTransferSigners p)"
  by (cases p) (auto simp: sessionOk_def cancelTransferSigners_def)

lemma cancelPicker_ok: "sessionOk K p \<Longrightarrow> sessionOk K (cancelContractPicker p)"
  by (cases p) (auto simp: sessionOk_def cancelContractPicker_def)

lemma autoConnect_ok:
  assumes "noDialog s" "\<not> vsConnected s" "sessionOk K (s, w0)"
  shows "sessionOk K (autoConnect K (s, w))"
proof -
  obtain q w' where c: "skConnect K noPrompt w = (q, w')" by fastforce
  show ?thesis
  proof (cases "\<exists>r. q = Inr (Some r)")
    case True
    then obtain r where r: "q = Inr (Some r)" by blast
    then show ?thesis using useConnection_ok [OF connects assms(2,1,3)] c by (simp add: autoConnect_def)
  next
    case False
    then have "autoConnect K (s, w) = (s, w')" using c by (auto simp: autoConnect_def split: sum.splits option.splits)
    then show ?thesis using disconnected_world [OF assms(2,3)] by simp
  qed
qed

lemma createSession_ok:
  assumes "noDialog s" "\<not> vsConnected s" "sessionOk K (s, w)"
  shows "sessionOk K (createSession K name (s, w))"
proof -
  obtain q w' where c: "skCreate K (orElse (trim name) ''Demo User'') w = (q, w')" by fastforce
  note stay = disconnected_world [OF assms(2,3), of w']
  show ?thesis
    using c stay refreshPending_ok refreshOrRetry_ok applyConnection_ok [OF creates assms(1) noTransfer [OF assms(3,1)]]
    by (cases q) (simp_all add: createSession_def)
qed

lemma deployPending_ok:
  assumes "noDialog s" "\<not> vsConnected s" "sessionOk K (s, w)"
  shows "sessionOk K (deployPending K credential (s, w))"
proof -
  obtain q w' where c: "skDeploy K (scCredentialId credential) w = (q, w')" by fastforce
  note stay = disconnected_world [OF assms(2,3), of w']
  show ?thesis
    using c stay refreshPending_ok refreshOrRetry_ok applyConnection_ok [OF deploys assms(1) noTransfer [OF assms(3,1)]]
    by (cases q) (simp_all add: deployPending_def)
qed

lemma selectContract_ok:
  assumes "vsPicking s" "sessionOk K (s, w)"
  shows "sessionOk K (selectContract K c (s, w))"
proof -
  let ?s = "s\<lparr>vsPicking := False\<rparr>"
  have s: "\<not> vsConnected ?s" "noDialog ?s" "sessionOk K (?s, w)"
    using assms by (auto simp: sessionOk_def noDialog_def)
  let ?o = "\<lparr>cnCredentialId = vsPickerCredential s, cnContractId = summaryContract c, cnFresh = False, cnPrompt = False\<rparr>"
  obtain q w' where q: "skConnect K ?o w = (q, w')" by fastforce
  show ?thesis
  proof (cases "\<exists>r. q = Inr (Some r)")
    case True
    then obtain r where r: "q = Inr (Some r)" by blast
    then show ?thesis using useConnection_ok [OF connects s] q assms(2) cancelPicker_ok by (simp add: selectContract_def Let_def)
  next
    case False
    then have "selectContract K c (s, w) \<in> {(s, w)} \<union> {cancelContractPicker (?s, w2) | w2. True}"
      using q by (auto simp: selectContract_def Let_def split: sum.splits option.splits)
    then consider "selectContract K c (s, w) = (s, w)" | w2 where "selectContract K c (s, w) = cancelContractPicker (?s, w2)"
      by blast
    then show ?thesis using disconnected_world [OF s(1,3)] cancelPicker_ok assms(2) by cases simp_all
  qed
qed

lemma step_ok:
  assumes "session_step K p p'" "sessionOk K p"
  shows "sessionOk K p'"
  using assms
proof induction
  case (started s w' w)
  have "sessionOk K (resetSession s, w')" "\<not> vsConnected (resetSession s)" "noDialog (resetSession s)"
    using started by (auto simp: sessionOk_def resetSession_def noDialog_def)
  then show ?case by (intro autoConnect_ok)
next
  case (created s w name)
  then show ?case by (blast intro: createSession_ok)
next
  case (connecting s w)
  then show ?case by (auto simp: connectExisting_def sessionOk_def noDialog_def split: prod.splits sum.splits)
next
  case (picked s c w)
  then show ?case by (blast intro: selectContract_ok)
next
  case (disconnected s w)
  then show ?case
    using disconnects by (fastforce simp: disconnectSession_def sessionOk_def resetSession_def noDialog_def isOk_def split: prod.splits sum.splits)
next
  case (funded s w)
  then show ?case using thenBalance_ok [OF fund] by (simp add: fundSession_def)
next
  case (requested s w recipient amount)
  then show ?case using thenBalance_ok [OF transfer] unfolding requestTransfer_def Let_def
    by (auto simp: sessionOk_def noDialog_def)
next
  case (confirmed s w selected)
  have "sessionOk K (s\<lparr>vsChoosing := False, vsTransfer := None\<rparr>, w)"
    using cancelTransfer_ok [OF confirmed(2)] by (simp add: cancelTransferSigners_def)
  then show ?case using confirmed(2) thenBalance_ok [OF multi]
    by (auto simp: confirmTransferSigners_def cancelTransferSigners_def split: option.splits)
next
  case (deployed s w credential)
  then show ?case by (blast intro: deployPending_ok)
next
  case (deleted s w credential)
  obtain q w' where c: "skDelete K (scCredentialId credential) w = (q, w')" by fastforce
  then show ?case using disconnected_world [OF deleted(2,3)] refreshPending_ok
    by (cases q) (simp_all add: deletePending_def)
next
  case (loaded s xs l ys w)
  then show ?case by (auto simp: applyLoad_def showSigners_def Let_def sessionOk_def split: load.splits sum.splits option.splits)
next
  case (refreshed s w)
  then show ?case by (simp add: refreshSigners_def fetchAllSigners_ok)
next
  case (elsewhere w' w s)
  then show ?case by (rule same_connection)
qed (blast intro: cancelPicker_ok cancelTransfer_ok refreshPending_ok)+

lemma runs_ok: "session_run K p p' \<Longrightarrow> sessionOk K p \<Longrightarrow> sessionOk K p'"
  by (induction rule: rtranclp_induct) (auto intro: step_ok)

end

interpretation kit_connection: connection_provider "kitSession P kt W M fromText toText nativeToken balance"
  for P kt W M fromText toText nativeToken balance
  by unfold_locales
    (auto simp: kitSession_def Let_def dest: connect_active created_active deployed_active disconnect_active
      intro!: keeps_rules transfer_keeps multiTransfer_keeps)


section \<open>Late loads\<close>

lemma run_step: "session_step K p p1 \<Longrightarrow> session_run K p1 p2 \<Longrightarrow> session_run K p p2"
  by (rule converse_rtranclp_into_rtranclp)

text \<open>
  The signers of a wallet that was left replace those of the wallet that is connected, when they
  arrive late: a wallet is created, its signers are requested, the user disconnects and connects to
  another wallet, and then the answer for the first one is shown as the signers of the second.
\<close>

theorem late_signers_replace_current:
  assumes idle: "noDialog s" "\<not> vsConnected s" "vsLoads s = []"
    and created: "skCreate K (orElse (trim name) ''Demo User'') w = (Inr A, w1)" "succeeded (cwrSubmit A)"
    and loads: "skBalance K (cwrContractId A) w1 = (b, w2)" "skRules K w2 = (Inr rulesA, w3)"
    and left: "skDisconnect K w3 = (Inr (), w4)"
    and found: "skAuthenticate K w4 = (Inr k, w5)" "k \<noteq> []" "skDiscover K k w5 = (Inr (Some cs), w6)" "c \<in> set cs"
    and connected: "skConnect K \<lparr>cnCredentialId = Some k, cnContractId = summaryContract c, cnFresh = False, cnPrompt = False\<rparr> w6
      = (Inr (Some B), w7)"
    and shape: "ensureCurrentWalletShape K (crrContractId B) (Some (crrCredentialId B)) w7 = (Inr (Some rulesB), w8)"
  shows "\<exists>s' w'. session_run K (s, w) (s', w') \<and> vsConnected s' \<and> vsContract s' = Some (crrContractId B) \<and>
     vsSigners s' = collectUniqueSigners (concat (map crSigners rulesA))"
proof -
  let ?late = "SignersLoad (Some (cwrCredentialId A)) (Inr rulesA)"
  obtain b' w9 where b: "skBalance K (crrContractId B) w8 = (b', w9)" by fastforce
  obtain s1 where s1: "createSession K name (s, w) = (s1, w3)" "vsLoads s1 = [BalanceLoad b, ?late]" "vsConnected s1" "noDialog s1"
    using created loads idle by (auto simp: createSession_def applyConnection_def fetchBalance_def fetchAllSigners_def noDialog_def)
  obtain s2 where s2: "disconnectSession K (s1, w3) = (s2, w4)" "vsLoads s2 = [BalanceLoad b, ?late]" "\<not> vsConnected s2" "noDialog s2"
    using left s1 by (auto simp: disconnectSession_def resetSession_def noDialog_def)
  obtain s3 where s3: "connectExisting K (s2, w4) = (s3, w6)" "vsLoads s3 = [BalanceLoad b, ?late]" "vsPicking s3"
      "vsDiscovered s3 = cs" "vsPickerCredential s3 = Some k"
    using found s2 by (cases cs) (auto simp: connectExisting_def)
  obtain s4 where s4: "selectContract K c (s3, w6) = (s4, w9)" "vsLoads s4 = [BalanceLoad b, ?late, BalanceLoad b']" "vsConnected s4"
      "vsContract s4 = Some (crrContractId B)"
    using connected shape b s3 found(2)
    by (auto simp: selectContract_def truthy_def useConnection_def applyConnection_def fetchBalance_def fetchAllSigners_def
        showSigners_def Let_def cancelContractPicker_def)
  let ?s5 = "applyLoad (skSdk K) ?late (s4\<lparr>vsLoads := [BalanceLoad b] @ [BalanceLoad b']\<rparr>)"
  have last: "session_step K (s4, w9) (?s5, w9)" by (rule loaded) (simp add: s4(2))
  have "session_run K (s, w) (?s5, w9)"
    using session_step.created [OF idle(1,2), of K w name] session_step.disconnected [OF s1(4,3), of K w3]
      session_step.connecting [OF s2(4,3), of K w4] session_step.picked [OF s3(3), of c K w6] found(4) last
    by (auto simp: s1(1) s2(1) s3(1,4) s4(1) intro: run_step)
  moreover have "vsConnected ?s5" "vsContract ?s5 = Some (crrContractId B)"
      "vsSigners ?s5 = collectUniqueSigners (concat (map crSigners rulesA))"
    using s4 by (simp_all add: applyLoad_def showSigners_def Let_def)
  ultimately show ?thesis by blast
qed

section \<open>Witnesses\<close>

abbreviation demoKitSession :: session_kit where
  "demoKitSession \<equiv> kitSession demoPlatform demoKit demoOps (demoManager True) (\<lambda>t. []) (\<lambda>b. []) [] (\<lambda>t c. Inr None)"


definition demoRules :: "signer \<Rightarrow> context_rule list" where
  "demoRules s = [\<lparr>crType = DefaultRule, crId = 0, crName = ''r'', crPolicies = [], crPolicyIds = [],
     crSignerIds = [1], crSigners = [s], crValidUntil = None\<rparr>]"

text \<open>A kit whose wallets are the created one and another one, with a delegated signer each.\<close>

definition demoSession :: session_kit where
  "demoSession = \<lparr>skSdk = demoSdk, skVerifier = ''Cv'',
     skConnect = (\<lambda>o1. bindA (setConnectedState ''CB'' []) (\<lambda>_. returnA (Some \<lparr>crrCredentialId = [], crrContractId = ''CB'',
       crrCredential = verifiedDemo\<rparr>))),
     skCreate = (\<lambda>name. bindA (setConnectedState ''CA'' ''id'') (\<lambda>_. returnA \<lparr>cwrCredentialId = ''id'', cwrPublicKey = [],
       cwrContractId = ''CA'', cwrArtifacts = RelayerArtifact demoFunction [], cwrSubmit = Some (TxSuccess ''h'' None), cwrFund = None\<rparr>)),
     skAuthenticate = returnA ''id2'', skDiscover = (\<lambda>k. returnA (Some [[(''contract_id'', JStr ''CB'')]])),
     skRuleCount = (\<lambda>c. returnA (Some 1)),
     skRules = bindA (askA wContractId) (\<lambda>c. returnA (demoRules (Delegated (if c = Some ''CA'' then ''GA'' else ''GB'')))),
     skDisconnect = disconnect, skDeploy = (\<lambda>k. throwA (JsError [])), skDelete = (\<lambda>k. returnA ()), skPending = returnA [],
     skFund = throwA (JsError []), skTransfer = (\<lambda>r a. throwA (JsError [])), skMultiTransfer = (\<lambda>r a x. throwA (JsError [])),
     skBalance = (\<lambda>c. returnA None)\<rparr>"

lemma late_signers_replace_current_witness:
  "\<exists>s w. session_run demoSession (initSession, demoWorld) (s, w) \<and> vsConnected s \<and> vsContract s = Some ''CB'' \<and>
     vsSigners s = [Delegated ''GA'']"
proof -
  let ?A = "\<lparr>cwrCredentialId = ''id'', cwrPublicKey = [], cwrContractId = ''CA'', cwrArtifacts = RelayerArtifact demoFunction [],
    cwrSubmit = Some (TxSuccess ''h'' None), cwrFund = None\<rparr>"
  let ?B = "\<lparr>crrCredentialId = [], crrContractId = ''CB'', crrCredential = verifiedDemo\<rparr>"
  let ?w1 = "demoWorld\<lparr>wContractId := Some ''CA'', wCredentialId := Some ''id'', wWallet := Some ''CA''\<rparr>"
  obtain w4 where d: "skDisconnect demoSession ?w1 = (Inr (), w4)"
    by (simp add: demoSession_def disconnect_def bindA_def run_simps clearConnectedState_def storageClearSession_def emitA_def doA_def truthy_def)
  let ?w7 = "w4\<lparr>wContractId := Some ''CB'', wCredentialId := Some [], wWallet := Some ''CB''\<rparr>"
  have c: "wContractId ?w1 = Some ''CA''" "wContractId ?w7 = Some ''CB''" "wWallet ?w7 = Some ''CB''" by simp_all
  have r: "skRules demoSession ?w1 = (Inr (demoRules (Delegated ''GA'')), ?w1)"
    unfolding demoSession_def by (simp add: bindA_def run_simps)
  have e: "ensureCurrentWalletShape demoSession (crrContractId ?B) (Some (crrCredentialId ?B)) ?w7 =
      (Inr (Some (demoRules (Delegated ''GB''))), ?w7)"
    unfolding ensureCurrentWalletShape_def demoSession_def
    by (simp add: bindA_def run_simps truthy_def demoRules_def)
  have "\<exists>s w. session_run demoSession (initSession, demoWorld) (s, w) \<and> vsConnected s \<and> vsContract s = Some (crrContractId ?B) \<and>
      vsSigners s = collectUniqueSigners (concat (map crSigners (demoRules (Delegated ''GA''))))"
    by (rule late_signers_replace_current [where A = ?A and B = ?B and k = "''id2''" and rulesB = "demoRules (Delegated ''GB'')"
          and cs = "[[(''contract_id'', JStr ''CB'')]]" and b = "Inr None" and name = "[]", OF _ _ _ _ _ _ r d _ _ _ _ _ e])
      (simp_all add: noDialog_def initSession_def demoSession_def bindA_def run_simps setConnectedState_def succeeded_def
        truthy_def summaryContract_def orElse_def)
  moreover have "collectUniqueSigners (concat (map crSigners (demoRules (Delegated ''GA'')))) = [Delegated ''GA'']"
    by (simp add: demoRules_def collectUniqueSigners_def)
  ultimately show ?thesis by simp
qed

end
