(* ===== verification/Kit_Picker.thy ===== *)
theory Kit_Picker
  imports Kit_PolicyForm Kit_MultiSigner
begin

text \<open>
  Choosing who signs in the demo: the list of connected wallets it mirrors from the external signers
  of the kit (\<^verbatim>\<open>hooks/useExternalWallets.ts\<close>) and the dialog that selects signers
  (\<^verbatim>\<open>components/SignerPicker.tsx\<close>), with what the multi-signer manager makes of its selection.
\<close>

section \<open>The connected wallets\<close>

record 'a wallet_list =
  wlManager :: "'a ext_manager"
  wlWallets :: "ext_wallet list"

definition typeName :: "signer_type \<Rightarrow> string" where
  "typeName t = (case t of TypeKeypair \<Rightarrow> ''keypair'' | TypeWallet \<Rightarrow> ''wallet'' | TypeEd25519 \<Rightarrow> ''ed25519'')"

definition walletNameForType :: "signer_type \<Rightarrow> string" where
  "walletNameForType t = (case t of TypeKeypair \<Rightarrow> ''Secret Key'' | TypeEd25519 \<Rightarrow> ''Ed25519 Key'' | TypeWallet \<Rightarrow> ''Unknown Wallet'')"

definition shownWallet :: "ext_signer \<Rightarrow> ext_wallet" where
  "shownWallet s = \<lparr>xwAddress = xsAddress s,
     xwId = (if truthy (xsWalletId s) then the (xsWalletId s) else typeName (xsType s)),
     xwName = (if truthy (xsWalletName s) then the (xsWalletName s) else walletNameForType (xsType s))\<rparr>"

definition refreshConnectedWallets :: "'a wallet_ops \<Rightarrow> 'a wallet_list \<Rightarrow> 'a wallet_list" where
  "refreshConnectedWallets W l = l\<lparr>wlWallets := map shownWallet (xmGetAll W (wlManager l))\<rparr>"

text \<open>What a change of the manager answered; the list is refreshed unless it threw.\<close>

definition mirrored :: "'a wallet_ops \<Rightarrow> 'r result \<times> 'a ext_manager \<Rightarrow> 'a wallet_list \<Rightarrow> 'r result \<times> 'a wallet_list" where
  "mirrored W answer l = (let l' = l\<lparr>wlManager := snd answer\<rparr> in
     (fst answer, case fst answer of Inl e \<Rightarrow> l' | Inr r \<Rightarrow> refreshConnectedWallets W l'))"

definition connectExternal :: "'a wallet_ops \<Rightarrow> nat \<Rightarrow> 'a wallet_list \<Rightarrow> ext_wallet option result \<times> 'a wallet_list" where
  "connectExternal W now l = mirrored W (xmAddFromWallet W now (wlManager l)) l"

definition disconnectExternal :: "'a wallet_ops \<Rightarrow> 'a wallet_list \<Rightarrow> unit result \<times> 'a wallet_list" where
  "disconnectExternal W l = (case xmRemoveAll W (wlManager l) of (r, m) \<Rightarrow>
     (r, l\<lparr>wlManager := m, wlWallets := (case r of Inl e \<Rightarrow> wlWallets l | Inr u \<Rightarrow> [])\<rparr>))"

definition disconnectWalletByAddress :: "'a wallet_ops \<Rightarrow> string \<Rightarrow> 'a wallet_list \<Rightarrow> 'a wallet_list" where
  "disconnectWalletByAddress W address l = refreshConnectedWallets W (l\<lparr>wlManager := xmRemove W address (wlManager l)\<rparr>)"

definition addFromSecret :: "'a wallet_ops \<Rightarrow> key_functions \<Rightarrow> string \<Rightarrow> 'a wallet_list \<Rightarrow> string result \<times> 'a wallet_list" where
  "addFromSecret W F secretKey l = mirrored W (xmAddFromSecret F secretKey (wlManager l)) l"

definition addEd25519FromSecret ::
    "'a wallet_ops \<Rightarrow> key_functions \<Rightarrow> string \<Rightarrow> object_ref \<Rightarrow> 'a wallet_list \<Rightarrow> (string \<times> string) result \<times> 'a wallet_list" where
  "addEd25519FromSecret W F secretKey ref l = mirrored W (xmAddEd25519 F secretKey None ref (wlManager l)) l"

section \<open>The dialog\<close>

text \<open>
  \<open>pcSelected\<close> is a \<^verbatim>\<open>Set\<close> of positions, in the order they were added. The signers offered are those of
  the context rules; \<open>pkCanSign\<close> is \<^verbatim>\<open>canSignEd25519\<close> of the key data.
\<close>

record picker =
  pcSelected :: "nat list"
  pcConnectError :: "string option"
  pcSecretAddress :: "string option"
  pcSecret :: string
  pcSecretError :: "string option"
  pcEdKey :: "string option"
  pcEdSecret :: string
  pcEdError :: "string option"

record picker_props =
  pkSdk :: sdk
  pkSigners :: "signer_object list"
  pkActive :: "string option"
  pkWallets :: "ext_wallet list"
  pkCanSign :: "buffer \<Rightarrow> bool"

definition canSignFor :: "picker_props \<Rightarrow> string \<Rightarrow> bool" where
  "canSignFor P address \<longleftrightarrow> address \<in> xwAddress ` set (pkWallets P)"

definition getWalletForAddress :: "picker_props \<Rightarrow> string \<Rightarrow> ext_wallet option" where
  "getWalletForAddress P address = List.find (\<lambda>w. xwAddress w = address) (pkWallets P)"

abbreviation credentialOf :: "picker_props \<Rightarrow> signer_object \<Rightarrow> string option" where
  "credentialOf P so \<equiv> getCredentialIdFromSigner (pkSdk P) (snd so)"

definition passkeySigners :: "picker_props \<Rightarrow> signer_object list" where
  "passkeySigners P = filter (\<lambda>so. credentialOf P so \<noteq> None) (pkSigners P)"

definition delegatedChoices :: "picker_props \<Rightarrow> signer_object list" where
  "delegatedChoices P = filter (\<lambda>so. case snd so of Delegated a \<Rightarrow> True | _ \<Rightarrow> False) (pkSigners P)"

definition ed25519Signers :: "picker_props \<Rightarrow> signer_object list" where
  "ed25519Signers P = filter (\<lambda>so. case snd so of Delegated a \<Rightarrow> False
     | External v keyData \<Rightarrow> credentialOf P so = None \<and> length keyData = 32) (pkSigners P)"

text \<open>\<^verbatim>\<open>findIndex\<close>, and adding a position to the set.\<close>

definition positionOf :: "('b \<Rightarrow> bool) \<Rightarrow> 'b list \<Rightarrow> nat option" where
  "positionOf p xs = List.find (\<lambda>i. p (xs ! i)) [0..<length xs]"

definition addIndex :: "nat option \<Rightarrow> nat list \<Rightarrow> nat list" where
  "addIndex i xs = (case i of None \<Rightarrow> xs | Some n \<Rightarrow> if n \<in> set xs then xs else xs @ [n])"

definition delegatedIndex :: "picker_props \<Rightarrow> string \<Rightarrow> nat option" where
  "delegatedIndex P address = positionOf (\<lambda>so. snd so = Delegated address) (pkSigners P)"

definition selectActive :: "picker_props \<Rightarrow> picker \<Rightarrow> picker" where
  "selectActive P s = (if \<not> truthy (pkActive P) then s
     else case positionOf (\<lambda>so. credentialOf P so = pkActive P) (pkSigners P) of
        None \<Rightarrow> s | Some i \<Rightarrow> s\<lparr>pcSelected := [i]\<rparr>)"

definition selectConnected :: "picker_props \<Rightarrow> picker \<Rightarrow> picker" where
  "selectConnected P s = s\<lparr>pcSelected := fold (\<lambda>w. addIndex (delegatedIndex P (xwAddress w))) (pkWallets P) (pcSelected s)\<rparr>"

definition openPicker :: "picker_props \<Rightarrow> picker \<Rightarrow> picker" where
  "openPicker P s = selectConnected P (selectActive P s)"

definition toggleSigner :: "nat \<Rightarrow> picker \<Rightarrow> picker" where
  "toggleSigner i s = s\<lparr>pcSelected := (if i \<in> set (pcSelected s) then filter (\<lambda>n. n \<noteq> i) (pcSelected s)
     else pcSelected s @ [i])\<rparr>"

definition handleConnectWallet :: "'r result \<Rightarrow> picker \<Rightarrow> picker" where
  "handleConnectWallet answer s = s\<lparr>pcConnectError := (case answer of Inr r \<Rightarrow> None
     | Inl e \<Rightarrow> Some (case e of JsThrown m \<Rightarrow> m | _ \<Rightarrow> errorMessage e))\<rparr>"

text \<open>\<open>register\<close> is the handler of the list of wallets above; \<open>None\<close> where the page has none.\<close>

definition handleAddSecretKey :: "picker_props \<Rightarrow> (string \<Rightarrow> string option result) option \<Rightarrow> picker \<Rightarrow> picker" where
  "handleAddSecretKey P register s = (case (register, pcSecretAddress s) of
     (Some add, Some address) \<Rightarrow>
       if address = [] then s
       else let secretKey = trim (pcSecret s) in
         if secretKey = [] then s\<lparr>pcSecretError := Some ''Please enter a secret key''\<rparr>
         else if take 1 secretKey \<noteq> ''S'' \<or> length secretKey \<noteq> 56
         then s\<lparr>pcSecretError := Some ''Invalid secret key. Must start with S and be 56 characters.''\<rparr>
         else (case add secretKey of
            Inl e \<Rightarrow> s\<lparr>pcSecretError := Some (case e of JsThrown m \<Rightarrow> ''Failed to add secret key'' | _ \<Rightarrow> errorMessage e)\<rparr>
          | Inr None \<Rightarrow> s\<lparr>pcSecretError := None\<rparr>
          | Inr (Some derived) \<Rightarrow>
              if derived \<noteq> address
              then s\<lparr>pcSecretError := Some (''Secret key doesn'' @ [CHR 39] @ ''t match this address. Got '' @ take 8 derived @ ''...'')\<rparr>
              else s\<lparr>pcSelected := addIndex (delegatedIndex P address) (pcSelected s), pcSecretError := None,
                pcSecretAddress := None, pcSecret := []\<rparr>)
   | _ \<Rightarrow> s)"

definition cancelSecretKeyInput :: "picker \<Rightarrow> picker" where
  "cancelSecretKeyInput s = s\<lparr>pcSecretAddress := None, pcSecret := [], pcSecretError := None\<rparr>"

definition ed25519Index :: "picker_props \<Rightarrow> string \<Rightarrow> nat option" where
  "ed25519Index P key = positionOf (\<lambda>so. case snd so of Delegated a \<Rightarrow> False
     | External v keyData \<Rightarrow> credentialOf P so = None \<and> toLower (toHex keyData) = toLower key) (pkSigners P)"

definition handleAddEd25519Secret :: "picker_props \<Rightarrow> (string \<Rightarrow> (string \<times> string) option result) option \<Rightarrow> picker \<Rightarrow> picker" where
  "handleAddEd25519Secret P register s = (case (register, pcEdKey s) of
     (Some add, Some key) \<Rightarrow>
       if key = [] then s
       else let secretKey = trim (pcEdSecret s) in
         if take 1 secretKey \<noteq> ''S'' \<or> length secretKey \<noteq> 56
         then s\<lparr>pcEdError := Some ''Invalid secret key. Must start with S and be 56 characters.''\<rparr>
         else (case add secretKey of
            Inl e \<Rightarrow> s\<lparr>pcEdError := Some (case e of JsThrown m \<Rightarrow> ''Failed to add Ed25519 key'' | _ \<Rightarrow> errorMessage e)\<rparr>
          | Inr None \<Rightarrow> s\<lparr>pcEdError := None\<rparr>
          | Inr (Some (a, publicKey)) \<Rightarrow>
              if toLower publicKey \<noteq> toLower key
              then s\<lparr>pcEdError := Some (''Secret key doesn'' @ [CHR 39] @ ''t match this signer. Got '' @ take 8 publicKey @ ''...'')\<rparr>
              else s\<lparr>pcSelected := addIndex (ed25519Index P key) (pcSelected s), pcEdError := None,
                pcEdKey := None, pcEdSecret := []\<rparr>)
   | _ \<Rightarrow> s)"

definition cancelEd25519Input :: "picker \<Rightarrow> picker" where
  "cancelEd25519Input s = s\<lparr>pcEdKey := None, pcEdSecret := [], pcEdError := None\<rparr>"

section \<open>Confirming\<close>

definition confirmSigner :: "picker_props \<Rightarrow> signer_object \<Rightarrow> selected_signer option" where
  "confirmSigner P so = (case snd so of
     External v keyData \<Rightarrow>
       if truthy (credentialOf P so)
       then Some \<lparr>slType = PasskeySigner, slCredentialId = credentialOf P so, slWalletAddress = None, slEd25519Key = None,
         slSigner = Some so\<rparr>
       else if pkCanSign P keyData
       then Some \<lparr>slType = Ed25519Signer, slCredentialId = None, slWalletAddress = None, slEd25519Key = Some (toHex keyData),
         slSigner = Some so\<rparr>
       else None
   | Delegated address \<Rightarrow>
       if canSignFor P address
       then Some \<lparr>slType = WalletSigner, slCredentialId = None, slWalletAddress = Some address, slEd25519Key = None,
         slSigner = Some so\<rparr>
       else None)"

definition handleConfirm :: "picker_props \<Rightarrow> picker \<Rightarrow> selected_signer list" where
  "handleConfirm P s = List.map_filter (\<lambda>i. if i < length (pkSigners P) then confirmSigner P (pkSigners P ! i) else None)
     (pcSelected s)"

definition hasUnmatchedDelegatedSigners :: "picker_props \<Rightarrow> bool" where
  "hasUnmatchedDelegatedSigners P = list_ex (\<lambda>so. case snd so of Delegated a \<Rightarrow> \<not> canSignFor P a | _ \<Rightarrow> False) (delegatedChoices P)"

text \<open>
  What the picker reads of a manager: the wallets it mirrors from it and the keys it answers for.
\<close>

definition picksFrom :: "'a wallet_ops \<Rightarrow> 'a ext_manager \<Rightarrow> picker_props \<Rightarrow> bool" where
  "picksFrom W m P \<longleftrightarrow> pkWallets P = map shownWallet (xmGetAll W m) \<and> pkCanSign P = (\<lambda>k. canSignEd25519 k m)"

lemma canSignFor_listed: "picksFrom W m P \<Longrightarrow> canSignFor P a \<longleftrightarrow> (\<exists>x \<in> set (xmGetAll W m). xsAddress x = a)"
  by (auto simp: picksFrom_def canSignFor_def shownWallet_def image_image)

lemma set_map_filter: "set (List.map_filter f xs) = {y. \<exists>x \<in> set xs. f x = Some y}"
  by (induction xs) (auto simp: List.map_filter_simps split: option.splits)

lemma set_handleConfirm:
  "set (handleConfirm P s) =
     {x. \<exists>i \<in> set (pcSelected s). i < length (pkSigners P) \<and> confirmSigner P (pkSigners P ! i) = Some x}"
  by (auto simp: handleConfirm_def set_map_filter split: if_splits)

lemma confirmSigner_wallet:
  "confirmSigner P so = Some x \<and> slType x = WalletSigner \<longleftrightarrow>
     (\<exists>a. snd so = Delegated a \<and> canSignFor P a \<and>
       x = \<lparr>slType = WalletSigner, slCredentialId = None, slWalletAddress = Some a, slEd25519Key = None, slSigner = Some so\<rparr>)"
  by (auto simp: confirmSigner_def split: signer.splits if_splits)

lemma confirmSigner_ed25519:
  "confirmSigner P so = Some x \<Longrightarrow> slType x = Ed25519Signer \<Longrightarrow>
     \<exists>k. pkCanSign P k \<and> slEd25519Key x = Some (toHex k)"
  by (auto simp: confirmSigner_def split: signer.splits if_splits)

lemma refused_none: "(case x of None \<Rightarrow> z | Some a \<Rightarrow> Some (f a)) = None \<longleftrightarrow> x = None \<and> z = None"
  by (cases x) simp_all

lemma cannotSign_none:
  "cannotSign D selected = None \<longleftrightarrow>
     (\<forall>x \<in> set selected. (slType x = WalletSigner \<and> truthy (slWalletAddress x) \<longrightarrow>
         xmCanSignFor (mdOps D) (the (slWalletAddress x)) (mdManager D)) \<and>
       (slType x = Ed25519Signer \<and> truthy (slEd25519Key x) \<longrightarrow>
         canSignEd25519 (fromHex (the (slEd25519Key x))) (mdManager D)))"
  unfolding cannotSign_def refused_none by (auto simp: ofType_def find_None_iff)

lemma confirmed_can_sign:
  assumes "picksFrom (mdOps D) (mdManager D) P"
  shows "cannotSign D (handleConfirm P s) = None \<longleftrightarrow>
     (\<forall>i \<in> set (pcSelected s). \<forall>a. i < length (pkSigners P) \<and> snd (pkSigners P ! i) = Delegated a \<and> a \<noteq> [] \<and>
        canSignFor P a \<longrightarrow> xmCanSignFor (mdOps D) a (mdManager D))" (is "?l \<longleftrightarrow> ?r")
proof
  assume l: ?l
  show ?r
  proof (intro ballI allI impI)
    fix i a
    assume i: "i \<in> set (pcSelected s)"
      and a: "i < length (pkSigners P) \<and> snd (pkSigners P ! i) = Delegated a \<and> a \<noteq> [] \<and> canSignFor P a"
    obtain x where x: "confirmSigner P (pkSigners P ! i) = Some x" "slType x = WalletSigner" "slWalletAddress x = Some a"
      using a by (auto simp: confirmSigner_def)
    then have "x \<in> set (handleConfirm P s)" using i a by (auto simp: set_handleConfirm)
    with l x a show "xmCanSignFor (mdOps D) a (mdManager D)" by (auto simp: cannotSign_none truthy_def)
  qed
next
  assume r: ?r
  have "slType x = WalletSigner \<and> truthy (slWalletAddress x) \<longrightarrow> xmCanSignFor (mdOps D) (the (slWalletAddress x)) (mdManager D)"
    if "x \<in> set (handleConfirm P s)" for x
  proof
    assume w: "slType x = WalletSigner \<and> truthy (slWalletAddress x)"
    obtain i where i: "i \<in> set (pcSelected s)" "i < length (pkSigners P)" "confirmSigner P (pkSigners P ! i) = Some x"
      using \<open>x \<in> _\<close> by (auto simp: set_handleConfirm)
    with w obtain a where "snd (pkSigners P ! i) = Delegated a" "canSignFor P a" "slWalletAddress x = Some a"
      using confirmSigner_wallet [of P "pkSigners P ! i" x] by auto
    then show "xmCanSignFor (mdOps D) (the (slWalletAddress x)) (mdManager D)" using r i w by (auto simp: truthy_def)
  qed
  moreover have "slType x = Ed25519Signer \<and> truthy (slEd25519Key x) \<longrightarrow> canSignEd25519 (fromHex (the (slEd25519Key x))) (mdManager D)"
    if "x \<in> set (handleConfirm P s)" for x
  proof
    assume e: "slType x = Ed25519Signer \<and> truthy (slEd25519Key x)"
    obtain i where "confirmSigner P (pkSigners P ! i) = Some x" using \<open>x \<in> _\<close> by (auto simp: set_handleConfirm)
    then obtain k where "pkCanSign P k" "slEd25519Key x = Some (toHex k)" using confirmSigner_ed25519 e by blast
    with assms show "canSignEd25519 (fromHex (the (slEd25519Key x))) (mdManager D)" by (simp add: picksFrom_def)
  qed
  ultimately show ?l by (simp add: cannotSign_none)
qed

text \<open>
  C37. The multi-signer manager accepts what the picker confirms exactly when every selected delegated
  signer that the picker shows as connected is held as a secret key or by a connected wallet, and not
  only listed as the account address of a registered Ed25519 key: passkeys and Ed25519 signers are
  never refused, and such a delegated signer always is.
\<close>

theorem confirmed_selection_can_sign:
  assumes "managerOk adapterOk (mdManager D)" "mdOps D = adapterOps modal disconnected getAddress signEntryText"
    "picksFrom (mdOps D) (mdManager D) P"
  shows "cannotSign D (handleConfirm P s) = None \<longleftrightarrow>
     (\<forall>i \<in> set (pcSelected s). \<forall>a. i < length (pkSigners P) \<and> snd (pkSigners P ! i) = Delegated a \<and> a \<noteq> [] \<and>
        canSignFor P a \<longrightarrow> (\<exists>x \<in> set (xmGetAll (mdOps D) (mdManager D)). xsAddress x = a \<and> xsType x \<noteq> TypeEd25519))"
  unfolding confirmed_can_sign [OF assms(3)]
  by (simp add: swk.canSign_listed [OF assms(1)] assms(2))

definition demoPicker :: "signer_object list \<Rightarrow> picker_props" where
  "demoPicker signers = \<lparr>pkSdk = demoSdk, pkSigners = signers, pkActive = None,
     pkWallets = map shownWallet (xmGetAll demoOps (mdManager demoMulti)),
     pkCanSign = (\<lambda>k. canSignEd25519 k (mdManager demoMulti))\<rparr>"

definition demoChoice :: "picker_props \<Rightarrow> picker" where
  "demoChoice P = openPicker P \<lparr>pcSelected = [], pcConnectError = None, pcSecretAddress = None, pcSecret = [], pcSecretError = None,
     pcEdKey = None, pcEdSecret = [], pcEdError = None\<rparr>"

lemma demoMulti_picks:
  "managerOk adapterOk (mdManager demoMulti) \<and> mdOps demoMulti = adapterOps (Inr (None, None)) (Inr ())
       (\<lambda>i. Inr (Some ''GA'', None)) (\<lambda>_ _ _. Inr (''sig'', None)) \<and>
     picksFrom (mdOps demoMulti) (mdManager demoMulti) (demoPicker signers)"
  using demoManager_ok [of True] by (simp add: managerOk_def demoMulti_def demoOps_def picksFrom_def demoPicker_def)

lemma demo_listed: "map (\<lambda>x. (xsAddress x, xsType x)) (xmGetAll demoOps (mdManager demoMulti)) = [(''Cv'', TypeEd25519), (''GA'', TypeWallet)]"
  by (simp add: xmGetAll_def demoMulti_def demoManager_def demoOps_def adapterOps_def connectedOf_def newAdapter_def adConnected_def)

lemma demo_wallets: "map xwAddress (pkWallets (demoPicker signers)) = [''Cv'', ''GA'']"
  using arg_cong [OF demo_listed, of "map fst"] by (simp add: demoPicker_def shownWallet_def comp_def)

lemma demo_choice:
  assumes "a = ''Cv'' \<or> a = ''GA''"
  shows "pcSelected (demoChoice (demoPicker [(Caller 0, Delegated a)])) = [0] \<and>
     canSignFor (demoPicker [(Caller 0, Delegated a)]) a \<and> pkSigners (demoPicker [(Caller 0, Delegated a)]) = [(Caller 0, Delegated a)]"
proof -
  have f: "fold (\<lambda>w. addIndex (delegatedIndex P (xwAddress w))) ws = fold (\<lambda>x. addIndex (delegatedIndex P x)) (map xwAddress ws)"
    for P and ws :: "ext_wallet list" by (simp add: fold_map comp_def)
  have d: "delegatedIndex (demoPicker [(Caller 0, Delegated a)]) x = (if x = a then Some 0 else None)" for x
    by (simp add: delegatedIndex_def positionOf_def demoPicker_def)
  have active: "selectActive (demoPicker [(Caller 0, Delegated a)]) c = c" for c
    by (simp add: selectActive_def demoPicker_def truthy_def)
  have "canSignFor (demoPicker [(Caller 0, Delegated a)]) a"
    using assms arg_cong [OF demo_wallets, of set] by (auto simp: canSignFor_def)
  with assms show ?thesis
    unfolding demoChoice_def openPicker_def active selectConnected_def f demo_wallets
    by (auto simp: d addIndex_def) (simp_all add: demoPicker_def)
qed

lemma confirmed_selection_can_sign_witness:
  "cannotSign demoMulti (handleConfirm (demoPicker [(Caller 0, Delegated ''GA'')]) (demoChoice (demoPicker [(Caller 0, Delegated ''GA'')]))) = None \<and>
   cannotSign demoMulti (handleConfirm (demoPicker [(Caller 0, Delegated ''Cv'')]) (demoChoice (demoPicker [(Caller 0, Delegated ''Cv'')]))) \<noteq> None"
proof -
  have ops: "mdOps demoMulti = demoOps" by (simp add: demoMulti_def)
  have listed: "(\<exists>x \<in> set (xmGetAll demoOps (mdManager demoMulti)). xsAddress x = a \<and> xsType x \<noteq> TypeEd25519) \<longleftrightarrow> a = ''GA''" for a
    using arg_cong [OF demo_listed, of "\<lambda>xs. \<exists>p \<in> set xs. fst p = a \<and> snd p \<noteq> TypeEd25519"] by auto
  show ?thesis
    using confirmed_selection_can_sign [of demoMulti "Inr (None, None)" "Inr ()" "\<lambda>i. Inr (Some ''GA'', None)"
        "\<lambda>_ _ _. Inr (''sig'', None)"] demoMulti_picks demo_choice [of "''GA''"] demo_choice [of "''Cv''"]
    by (simp add: ops listed)
qed

section \<open>Entering a secret key\<close>

definition registerSecret :: "'a wallet_ops \<Rightarrow> key_functions \<Rightarrow> 'a wallet_list \<Rightarrow> string \<Rightarrow> string option result" where
  "registerSecret W F l secretKey = bindE (fst (addFromSecret W F secretKey l)) (\<lambda>a. Inr (Some a))"

lemma addFromSecret_listed:
  "addFromSecret W F secretKey l = (Inr a, l') \<Longrightarrow>
     xmCanSignFor W a (wlManager l') \<and> wlWallets l' = map shownWallet (xmGetAll W (wlManager l')) \<and>
     a \<in> xwAddress ` set (wlWallets l')"
proof -
  assume r: "addFromSecret W F secretKey l = (Inr a, l')"
  then obtain kp where k: "a = kfAddress F kp" "wlManager l' = (wlManager l)\<lparr>xmKeypairs := AList.update a kp (xmKeypairs (wlManager l))\<rparr>"
    and w: "wlWallets l' = map shownWallet (xmGetAll W (wlManager l'))"
    by (auto simp: addFromSecret_def xmAddFromSecret_def mirrored_def refreshConnectedWallets_def Let_def split: option.splits)
  have "(a, kp) \<in> set (xmKeypairs (wlManager l'))"
    using k by (auto intro: map_of_SomeD simp: update_conv')
  then have "a \<in> xwAddress ` set (wlWallets l')"
    unfolding w by (force simp: xmGetAll_def shownWallet_def image_image image_Un)
  with k w show ?thesis by (simp add: xmCanSignFor_def update_conv')
qed

lemma mem_addIndex [simp]: "set (addIndex i xs) = set_option i \<union> set xs"
  by (auto simp: addIndex_def split: option.splits)

text \<open>
  A secret key entered for a delegated signer is registered whatever account it belongs to: the
  manager signs for that account and the list of wallets shows it. Only when it is the expected account
  does the dialog select the signer and close the input; otherwise the selection and the
  input stay and an error is shown, but the key of the other account stays registered.
\<close>

theorem entered_secret_is_registered:
  assumes "addFromSecret W F (trim (pcSecret s)) l = (Inr a, l')" "pcSecretAddress s = Some expected" "expected \<noteq> []"
    "take 1 (trim (pcSecret s)) = ''S''" "length (trim (pcSecret s)) = 56"
  shows "xmCanSignFor W a (wlManager l') \<and> a \<in> xwAddress ` set (wlWallets l') \<and>
    (let s' = handleAddSecretKey P (Some (registerSecret W F l)) s in
       if a = expected
       then set (pcSelected s') = set (pcSelected s) \<union> set_option (delegatedIndex P expected) \<and>
         pcSecretAddress s' = None \<and> pcSecret s' = [] \<and> pcSecretError s' = None
       else pcSelected s' = pcSelected s \<and> pcSecretAddress s' = Some expected \<and> pcSecret s' = pcSecret s \<and>
         pcSecretError s' \<noteq> None)"
proof -
  have n: "trim (pcSecret s) \<noteq> []" using assms(5) by auto
  have r: "registerSecret W F l (trim (pcSecret s)) = Inr (Some a)" using assms(1) by (simp add: registerSecret_def)
  from addFromSecret_listed [OF assms(1)] show ?thesis
    using assms(2-5) n r by (auto simp: handleAddSecretKey_def Let_def)
qed

definition demoSecrets :: key_functions where
  "demoSecrets = \<lparr>kfFromSecret = (\<lambda>secretKey. Some \<lparr>kpPublic = [5], kpSign = (\<lambda>d. [9])\<rparr>), kfAddress = (\<lambda>kp. ''GO'')\<rparr>"

lemma entered_secret_is_registered_witness:
  "\<exists>l'. addFromSecret demoOps demoSecrets (CHR ''S'' # replicate 55 CHR ''A'') \<lparr>wlManager = demoManager True, wlWallets = []\<rparr> =
      (Inr ''GO'', l') \<and> ''GO'' \<in> xwAddress ` set (wlWallets l')"
proof -
  let ?k = "CHR ''S'' # replicate 55 CHR ''A''"
  let ?s = "\<lparr>pcSelected = [], pcConnectError = None, pcSecretAddress = Some ''GA'', pcSecret = ?k, pcSecretError = None,
     pcEdKey = None, pcEdSecret = [], pcEdError = None\<rparr>"
  have t: "trim ?k = ?k" by code_simp
  obtain l' where l: "addFromSecret demoOps demoSecrets ?k \<lparr>wlManager = demoManager True, wlWallets = []\<rparr> = (Inr ''GO'', l')"
    by (simp add: addFromSecret_def xmAddFromSecret_def demoSecrets_def mirrored_def Let_def)
  then have "''GO'' \<in> xwAddress ` set (wlWallets l')"
    using entered_secret_is_registered [of demoOps demoSecrets ?s "\<lparr>wlManager = demoManager True, wlWallets = []\<rparr>" "''GO''" l' "''GA''"]
    by (simp add: t)
  with l show ?thesis by blast
qed

end
