(* ===== verification/Kit_DemoConfig.thy ===== *)
theory Kit_DemoConfig
  imports Kit_PolicyForm
begin

text \<open>
  The configuration of the demo (\<^verbatim>\<open>demo/src/config.ts\<close>, with the kit that \<^verbatim>\<open>hooks/useKit.ts\<close> builds
  from it): the account builds it accepts, the policies it knows, the name of its store. The
  environment of the build is a parameter, from variable names to texts.
\<close>

section \<open>Account builds\<close>

definition V080_ACCOUNT_WASM_HASH :: string where
  "V080_ACCOUNT_WASM_HASH = ''c514d35ea67eaea9bfc1fb3327854c0c06111bc1ddebd4fe217c504c1004b9e1''"

definition V073_ACCOUNT_WASM_HASH :: string where
  "V073_ACCOUNT_WASM_HASH = ''203e2970d9fed24fb5fca2e0aeebb3c1e4648b76dd6601567178e6474c9fec6f''"

definition LEGACY_ACCOUNT_WASM_HASH :: string where
  "LEGACY_ACCOUNT_WASM_HASH = ''1b5f4534a76322da2ad7c745f6900857a6802b0ca79850c35a03561df997785a''"

definition ACCEPTED_WASM_HASHES :: "string list" where
  "ACCEPTED_WASM_HASHES = [V080_ACCOUNT_WASM_HASH, V073_ACCOUNT_WASM_HASH, LEGACY_ACCOUNT_WASM_HASH]"

definition ACCEPTED_BIRTH_WASM_HASHES :: "string list" where
  "ACCEPTED_BIRTH_WASM_HASHES = [V080_ACCOUNT_WASM_HASH, LEGACY_ACCOUNT_WASM_HASH]"

definition withAccountWasmHash :: "string list \<Rightarrow> string \<Rightarrow> string list" where
  "withAccountWasmHash hashes accountWasmHash = (let normalized = toLower accountWasmHash in
     if normalized \<in> set hashes then hashes else normalized # hashes)"

section \<open>The environment\<close>

record demo_config =
  dcRpcUrl :: string
  dcNetwork :: string
  dcWasmHash :: string
  dcVerifier :: string
  dcToken :: string
  dcEd25519 :: string
  dcIndexerUrl :: "string option"
  dcIndexerToken :: "string option"
  dcRelayerUrl :: string

type_synonym build_env = "string \<Rightarrow> string option"

text \<open>\<^verbatim>\<open>a || b\<close> of a variable and its default.\<close>

definition orText :: "string option \<Rightarrow> string \<Rightarrow> string" where
  "orText x d = (if truthy x then the x else d)"

definition CONFIG :: "build_env \<Rightarrow> demo_config" where
  "CONFIG env = \<lparr>
     dcRpcUrl = orText (env ''VITE_RPC_URL'') ''https://soroban-testnet.stellar.org'',
     dcNetwork = orText (env ''VITE_NETWORK_PASSPHRASE'') TESTNET,
     dcWasmHash = orText (env ''VITE_ACCOUNT_WASM_HASH'') V080_ACCOUNT_WASM_HASH,
     dcVerifier = orText (env ''VITE_WEBAUTHN_VERIFIER_ADDRESS'') ''CC7EKIHQP3TN4CARQDND6CEOY2UXLWWC2X5GHTD5NLAT7BG5GPZIOM3F'',
     dcToken = orText (env ''VITE_NATIVE_TOKEN_CONTRACT'') ''CDLZFC3SYJYDZT7K67VZ75HPJVIEUVNIXF47ZG2FB2RMQQVU2HHGCYSC'',
     dcEd25519 = orText (env ''VITE_ED25519_VERIFIER_ADDRESS'') ''CAAVTMCBXEIBPR64EAASKFXERVPYFZA2JYP5A3BG6PESWEFUJX5IHKN4'',
     dcIndexerUrl = (if truthy (env ''VITE_INDEXER_URL'') then env ''VITE_INDEXER_URL'' else None),
     dcIndexerToken = (if truthy (env ''VITE_INDEXER_AUTH_TOKEN'') then env ''VITE_INDEXER_AUTH_TOKEN'' else None),
     dcRelayerUrl = (case env ''VITE_RELAYER_URL'' of Some u \<Rightarrow> u
       | None \<Rightarrow> ''https://smart-account-relayer-proxy.sdf-ecosystem.workers.dev'')\<rparr>"

section \<open>Policies\<close>

definition ALL_POLICIES :: "build_env \<Rightarrow> policy_info list" where
  "ALL_POLICIES env =
     [\<lparr>piType = ThresholdPolicy, piName = ''Threshold (M-of-N)'', piAddress = orText (env ''VITE_THRESHOLD_POLICY_ADDRESS'')
         ''CAZ2WFUDXGX265LOEARFEOYYUL6F4BYWXZLGUAWZNJY3MRFPNLSZVS4S''\<rparr>,
      \<lparr>piType = SpendingLimitPolicy, piName = ''Spending Limit'', piAddress = orText (env ''VITE_SPENDING_LIMIT_POLICY_ADDRESS'')
         ''CC3CEYQAP6NPNFIYSWL5MVZRCPJZGWX4XO7WDEJOUVGO2FZX5OONYPA5''\<rparr>,
      \<lparr>piType = WeightedThresholdPolicy, piName = ''Weighted Threshold'',
        piAddress = orText (env ''VITE_WEIGHTED_THRESHOLD_POLICY_ADDRESS'') []\<rparr>]"

definition KNOWN_POLICIES :: "build_env \<Rightarrow> policy_info list" where
  "KNOWN_POLICIES env = filter (\<lambda>p. piAddress p \<noteq> []) (ALL_POLICIES env)"

definition legacyAddresses :: "(policy_type \<times> string) list" where
  "legacyAddresses =
     [(ThresholdPolicy, ''CB3FATQKCIRIQOCYRUPCQ2KREQ7T4RPKS7EAEOZWPEPUKWEDRVROBCEG''),
      (ThresholdPolicy, ''CCEJBH26V7REDWKKAV5TYF3M7NF2OZBELBK2DZTVX3BRNEPVCOAZXJUF''),
      (SpendingLimitPolicy, ''CABXBYJNZ7IUW4G3D6BND5YCAQF3ASSDMDAOKQQ63UYFSO7WUU2TIP5G''),
      (SpendingLimitPolicy, ''CBCGTERZ6W2M6SMKVKQDTNKWFQXEPXEQO6ZCEKNZHT3QMA4X7Z2IYUS4''),
      (WeightedThresholdPolicy, ''CCMZ6X4KM3RC7HXWCZDTH7CMWIJXFPN6HLGKJBM63MCOW2AJ2V5W7YXY''),
      (WeightedThresholdPolicy, ''CDY6CPMPVGQ6GI5UG4BK2HHTQF5ASFYTV23CLFUZJB43DSKZVD5HN4UT'')]"

definition LEGACY_POLICIES :: "build_env \<Rightarrow> policy_info list" where
  "LEGACY_POLICIES env = map (\<lambda>(t, address).
     let current = the (List.find (\<lambda>p. piType p = t) (ALL_POLICIES env)) in
     current\<lparr>piName := piName current @ '' (1e513890)'', piAddress := address\<rparr>) legacyAddresses"

definition RECOGNIZED_POLICIES :: "build_env \<Rightarrow> policy_info list" where
  "RECOGNIZED_POLICIES env = KNOWN_POLICIES env @
     filter (\<lambda>l. \<not> list_ex (\<lambda>p. piAddress p = piAddress l) (KNOWN_POLICIES env)) (LEGACY_POLICIES env)"

definition WEIGHTED_THRESHOLD_ENABLED :: "build_env \<Rightarrow> bool" where
  "WEIGHTED_THRESHOLD_ENABLED env \<longleftrightarrow> truthy (map_option trim (env ''VITE_WEIGHTED_THRESHOLD_POLICY_ADDRESS''))"

section \<open>The store\<close>

text \<open>Every maximal run of other characters becomes one dash; dashes at the ends are dropped.\<close>

definition keyChar :: "char \<Rightarrow> bool" where
  "keyChar c \<longleftrightarrow> c \<in> set ''abcdefghijklmnopqrstuvwxyz0123456789''"

fun dashRuns :: "bool \<Rightarrow> string \<Rightarrow> string" where
  "dashRuns inRun [] = []"
| "dashRuns inRun (c # cs) = (if keyChar c then c # dashRuns False cs
     else if inRun then dashRuns True cs else CHR ''-'' # dashRuns True cs)"

definition networkKey :: "string \<Rightarrow> string" where
  "networkKey networkPassphrase = (let dropDashes = dropWhile (\<lambda>c. c = CHR ''-'') in
     rev (dropDashes (rev (dropDashes (dashRuns False (toLower networkPassphrase))))))"

definition storageWasmHash :: "string \<Rightarrow> string" where
  "storageWasmHash accountWasmHash =
     (if toLower accountWasmHash \<in> set ACCEPTED_WASM_HASHES then LEGACY_ACCOUNT_WASM_HASH else accountWasmHash)"

definition buildDemoStorageName :: "string \<Rightarrow> string \<Rightarrow> string \<Rightarrow> string" where
  "buildDemoStorageName networkPassphrase accountWasmHash webauthnVerifierAddress =
     ''smart-account-kit-demo:'' @ networkKey networkPassphrase @ '':'' @ take 16 (storageWasmHash accountWasmHash) @ '':'' @
     toLower (take 16 webauthnVerifierAddress)"

section \<open>The kit of the demo\<close>

definition demoKitConfig :: "demo_config \<Rightarrow> string \<Rightarrow> string \<Rightarrow> kit_config" where
  "demoKitConfig c accountWasmHash webauthnVerifier =
     \<lparr>cfRpcUrl = Some (dcRpcUrl c), cfNetwork = Some (dcNetwork c), cfWasmHash = Some accountWasmHash,
      cfVerifier = Some webauthnVerifier,
      cfAcceptedWasm = Some (withAccountWasmHash ACCEPTED_WASM_HASHES accountWasmHash),
      cfAcceptedBirth = Some (withAccountWasmHash ACCEPTED_BIRTH_WASM_HASHES accountWasmHash),
      cfSchemes = [], cfEd25519 = Some (dcEd25519 c), cfPolicies = None, cfTimeout = None, cfExpirationLedgers = None,
      cfProbe = None, cfRpId = None, cfOrigins = None, cfRpName = Some ''Smart Account Kit Demo'', cfHorizon = DefaultUrl,
      cfSessionExpiry = None,
      cfIndexer = (case dcIndexerUrl c of None \<Rightarrow> DefaultUrl | Some u \<Rightarrow> UrlText u), cfIndexerToken = dcIndexerToken c,
      cfRelayerUrl = (if dcRelayerUrl c = [] then None else Some (dcRelayerUrl c)), cfDeployerSecret = None\<rparr>"

section \<open>Which code the demo deploys and connects\<close>

lemma accepted_toLower: "h \<in> set ACCEPTED_WASM_HASHES \<union> set ACCEPTED_BIRTH_WASM_HASHES \<Longrightarrow> toLower h = h"
  by (auto simp: ACCEPTED_WASM_HASHES_def ACCEPTED_BIRTH_WASM_HASHES_def V080_ACCOUNT_WASM_HASH_def
      V073_ACCOUNT_WASM_HASH_def LEGACY_ACCOUNT_WASM_HASH_def; code_simp)

lemma known_schemes_accepted: "map_of KNOWN_AUTH_DIGEST_SCHEMES h = None \<longleftrightarrow> h \<notin> set ACCEPTED_WASM_HASHES"
  by (auto simp: KNOWN_AUTH_DIGEST_SCHEMES_def ACCEPTED_WASM_HASHES_def V080_ACCOUNT_WASM_HASH_def
      V073_ACCOUNT_WASM_HASH_def LEGACY_ACCOUNT_WASM_HASH_def map_of_eq_None_iff)

lemma set_withAccountWasmHash: "set (withAccountWasmHash hashes h) = insert (toLower h) (set hashes)"
  by (auto simp: withAccountWasmHash_def Let_def)

lemma accepted_with:
  assumes "set hashes \<subseteq> set ACCEPTED_WASM_HASHES"
  shows "set (acceptedHashes (Some (withAccountWasmHash hashes h)) x) = insert (toLower h) (set hashes)"
proof -
  have "withAccountWasmHash hashes h \<noteq> []" by (metis empty_set insert_not_empty set_withAccountWasmHash)
  moreover have "toLower ` set hashes = set hashes"
    using assms accepted_toLower by (force simp: image_iff)
  ultimately show ?thesis by (simp add: acceptedHashes_def set_withAccountWasmHash)
qed

lemma demo_kit_fields:
  assumes "newKit K B (demoKitConfig c accountWasmHash webauthnVerifier) = Inr kt"
  shows "ktWasmHash kt = accountWasmHash \<and> ktSchemes kt = KNOWN_AUTH_DIGEST_SCHEMES \<and>
     set (ktAcceptedWasm kt) = insert (toLower accountWasmHash) (set ACCEPTED_WASM_HASHES) \<and>
     set (ktAcceptedBirth kt) = insert (toLower accountWasmHash) (set ACCEPTED_BIRTH_WASM_HASHES)"
proof -
  have "set ACCEPTED_BIRTH_WASM_HASHES \<subseteq> set ACCEPTED_WASM_HASHES"
    by (simp add: ACCEPTED_BIRTH_WASM_HASHES_def ACCEPTED_WASM_HASHES_def)
  moreover have "ktWasmHash kt = accountWasmHash \<and> ktSchemes kt = KNOWN_AUTH_DIGEST_SCHEMES \<and>
     ktAcceptedWasm kt = acceptedHashes (Some (withAccountWasmHash ACCEPTED_WASM_HASHES accountWasmHash)) accountWasmHash \<and>
     ktAcceptedBirth kt = acceptedHashes (Some (withAccountWasmHash ACCEPTED_BIRTH_WASM_HASHES accountWasmHash)) accountWasmHash"
    using assms unfolding newKit_def Let_def requireConfig_def
    by (auto simp: bindE_Inr demoKitConfig_def buildAuthDigestSchemeTable_def split: if_splits)
  ultimately show ?thesis by (simp add: accepted_with)
qed


definition demoBuilders :: sdk_builders where
  "demoBuilders = \<lparr>sbRpc = (\<lambda>u. Inr ()), sbHorizon = (\<lambda>u. Inr ()), sbFromSecret = (\<lambda>s. Inr ''GD''), sbLocation = None\<rparr>"

lemma demo_kit_exists:
  assumes "h \<noteq> []"
  shows "\<exists>kt. newKit demoSdk demoBuilders (demoKitConfig (CONFIG (\<lambda>v. None)) h ''CV'') = Inr kt"
  using assms by (simp add: newKit_def demoKitConfig_def CONFIG_def orText_def requireConfig_def truthy_def demoBuilders_def
      buildAuthDigestSchemeTable_def horizonUrl_def TESTNET_def kitRelayer_def newRelayerClient_def V080_ACCOUNT_WASM_HASH_def)


section \<open>Recognized policies\<close>

text \<open>A configured policy is found under its address before a legacy one, and no legacy address is missing.\<close>

lemma recognized_policies:
  "set (map piAddress (RECOGNIZED_POLICIES env)) = set (map piAddress (KNOWN_POLICIES env)) \<union> set (map snd legacyAddresses) \<and>
   (a \<in> set (map piAddress (KNOWN_POLICIES env)) \<longrightarrow>
     List.find (\<lambda>p. piAddress p = a) (RECOGNIZED_POLICIES env) = List.find (\<lambda>p. piAddress p = a) (KNOWN_POLICIES env))"
proof
  have l: "map piAddress (LEGACY_POLICIES env) = map snd legacyAddresses"
    by (simp add: LEGACY_POLICIES_def comp_def case_prod_beta Let_def)
  have u: "piAddress ` set (ks @ filter (\<lambda>l. \<not> list_ex (\<lambda>p. piAddress p = piAddress l) ks) ls) = piAddress ` set ks \<union> piAddress ` set ls"
    (is "?l = ?r") for ks ls
  proof
    show "?l \<subseteq> ?r" by auto
    show "?r \<subseteq> ?l"
    proof
      fix a assume "a \<in> ?r"
      then consider "a \<in> piAddress ` set ks" | x where "x \<in> set ls" "a = piAddress x" "a \<notin> piAddress ` set ks" by auto
      then show "a \<in> ?l"
      proof cases
        case 2
        then have "x \<in> set (ks @ filter (\<lambda>l. \<not> list_ex (\<lambda>p. piAddress p = piAddress l) ks) ls)"
          using \<open>a \<notin> _\<close> by (simp add: list_ex_iff image_iff) metis
        with 2(2) show ?thesis by (simp only: imageI)
      qed auto
    qed
  qed
  have "piAddress ` set (LEGACY_POLICIES env) = snd ` set legacyAddresses" using arg_cong [OF l, of set] by (simp only: set_map)
  then show "set (map piAddress (RECOGNIZED_POLICIES env)) = set (map piAddress (KNOWN_POLICIES env)) \<union> set (map snd legacyAddresses)"
    by (simp only: RECOGNIZED_POLICIES_def set_map u)
  have "a \<in> piAddress ` set ks \<Longrightarrow> List.find (\<lambda>p. piAddress p = a) (ks @ ls) = List.find (\<lambda>p. piAddress p = a) ks" for ks ls :: "policy_info list"
    by (induction ks) auto
  then show "a \<in> set (map piAddress (KNOWN_POLICIES env)) \<longrightarrow>
     List.find (\<lambda>p. piAddress p = a) (RECOGNIZED_POLICIES env) = List.find (\<lambda>p. piAddress p = a) (KNOWN_POLICIES env)"
    by (simp add: RECOGNIZED_POLICIES_def)
qed

text \<open>The accepted builds share one store.\<close>

lemma accepted_builds_share_store:
  "toLower h \<in> set ACCEPTED_WASM_HASHES \<Longrightarrow> toLower h' \<in> set ACCEPTED_WASM_HASHES \<Longrightarrow>
     buildDemoStorageName n h v = buildDemoStorageName n h' v"
  by (simp add: buildDemoStorageName_def storageWasmHash_def)

end
