(* ===== verification/Kit_PolicyList.thy ===== *)
theory Kit_PolicyList
  imports Kit_RuleSpec
begin

text \<open>
  The policy section of the rule editor (\<^verbatim>\<open>rule-builder/PolicyConfigList.tsx\<close>): the changes of staged
  policies, and what becomes of a policy on the chain when its changed parameters cannot be encoded.
\<close>

section \<open>Changing staged policies\<close>

definition changeStaged :: "nat \<Rightarrow> (selected_policy \<Rightarrow> selected_policy) \<Rightarrow> selected_policy list \<Rightarrow> selected_policy list" where
  "changeStaged i f ps = (if i < length ps then ps[i := (f (ps ! i))\<lparr>pfModified := True\<rparr>] else ps)"

definition changeThreshold :: "nat \<Rightarrow> string \<Rightarrow> selected_policy list \<Rightarrow> selected_policy list" where
  "changeThreshold i text = changeStaged i (\<lambda>sp. sp\<lparr>pfThreshold := Some (orNumber (Some (parseInt text)) (Fin 1))\<rparr>)"

definition changeLimit :: "nat \<Rightarrow> string \<Rightarrow> selected_policy list \<Rightarrow> selected_policy list" where
  "changeLimit i text = changeStaged i (\<lambda>sp. sp\<lparr>pfSpendingLimit := Some text\<rparr>)"

definition changePeriod :: "nat \<Rightarrow> string \<Rightarrow> selected_policy list \<Rightarrow> selected_policy list" where
  "changePeriod i text = changeStaged i (\<lambda>sp. sp\<lparr>pfPeriodDays := Some (orNumber (Some (parseInt text)) (Fin 1))\<rparr>)"

definition changeRequiredWeight :: "nat \<Rightarrow> string \<Rightarrow> selected_policy list \<Rightarrow> selected_policy list" where
  "changeRequiredWeight i text =
     changeStaged i (\<lambda>sp. sp\<lparr>pfWeightedThreshold := Some (orNumber (Some (parseInt text)) (Fin 1))\<rparr>)"

definition changeWeight :: "nat \<Rightarrow> string \<Rightarrow> string \<Rightarrow> selected_policy list \<Rightarrow> selected_policy list" where
  "changeWeight i signerId text = changeStaged i (\<lambda>sp.
     sp\<lparr>pfWeights := Some (AList.update signerId (orNumber (Some (parseInt text)) (Fin 0)) (items (pfWeights sp)))\<rparr>)"

definition changeCustom :: "nat \<Rightarrow> string \<Rightarrow> selected_policy list \<Rightarrow> selected_policy list" where
  "changeCustom i text = changeStaged i (\<lambda>sp. sp\<lparr>pfCustomParams := Some text\<rparr>)"

definition removeStaged :: "nat \<Rightarrow> selected_policy list \<Rightarrow> selected_policy list" where
  "removeStaged i ps = take i ps @ drop (Suc i) ps"

definition totalWeight :: "signer_entry list \<Rightarrow> selected_policy \<Rightarrow> jsnum" where
  "totalWeight signers sp = foldl (\<lambda>sum e. plusNum sum (orNumber (map_of (items (pfWeights sp)) (enId e)) (Fin 0))) (Fin 0) signers"

text \<open>The policies not staged yet, the one the dropdown shows, and adding it.\<close>

definition unselectedPolicies :: "policy_info list \<Rightarrow> selected_policy list \<Rightarrow> policy_info list" where
  "unselectedPolicies visible ps = filter (\<lambda>p. \<not> list_ex (\<lambda>sp. piAddress (pfPolicy sp) = piAddress p) ps) visible"

definition effectiveSelection :: "policy_info list \<Rightarrow> selected_policy list \<Rightarrow> string \<Rightarrow> string" where
  "effectiveSelection visible ps chosen = (let rest = unselectedPolicies visible ps in
     if chosen \<noteq> [] \<and> list_ex (\<lambda>p. piAddress p = chosen) rest then chosen
     else case rest of [] \<Rightarrow> [] | p # _ \<Rightarrow> piAddress p)"

definition addChosen :: "policy_info list \<Rightarrow> string \<Rightarrow> selected_policy list \<Rightarrow> selected_policy list" where
  "addChosen visible chosen ps = (if unselectedPolicies visible ps = [] then ps
     else case List.find (\<lambda>p. piAddress p = effectiveSelection visible ps chosen) visible of
        None \<Rightarrow> ps | Some p \<Rightarrow> ps @ [DEFAULT_POLICY_FORM p])"

section \<open>Staged addresses stay distinct\<close>

lemma staged_changeStaged: "(\<And>sp. pfPolicy (f sp) = pfPolicy sp) \<Longrightarrow> map stagedAt (changeStaged i f ps) = map stagedAt ps"
  by (auto simp: changeStaged_def map_update intro!: list_update_same_conv [THEN iffD2])

lemma addChosen_unstaged:
  assumes "addChosen visible chosen ps \<noteq> ps"
  shows "\<exists>p \<in> set (unselectedPolicies visible ps). map stagedAt (addChosen visible chosen ps) = map stagedAt ps @ [piAddress p]"
proof -
  let ?rest = "unselectedPolicies visible ps" and ?a = "effectiveSelection visible ps chosen"
  have r: "?rest \<noteq> []" using assms by (auto simp: addChosen_def)
  have "\<exists>q \<in> set ?rest. piAddress q = ?a"
  proof (cases "chosen \<noteq> [] \<and> list_ex (\<lambda>p. piAddress p = chosen) ?rest")
    case True
    then show ?thesis by (auto simp: effectiveSelection_def Let_def list_ex_iff)
  next
    case False
    then have "?a = piAddress (hd ?rest)" using r by (auto simp: effectiveSelection_def Let_def split: list.splits)
    then show ?thesis using r by (metis hd_in_set)
  qed
  then obtain q where q: "q \<in> set ?rest" "piAddress q = ?a" by blast
  obtain p where p: "List.find (\<lambda>p. piAddress p = ?a) visible = Some p"
    using assms r by (auto simp: addChosen_def split: option.splits)
  have "addChosen visible chosen ps = ps @ [DEFAULT_POLICY_FORM p]" using r p by (simp add: addChosen_def)
  moreover have "piAddress p = piAddress q" using p q by (auto simp: find_Some_iff)
  ultimately have "addChosen visible chosen ps = ps @ [DEFAULT_POLICY_FORM p]" "piAddress p = piAddress q" .
  then have "map stagedAt (addChosen visible chosen ps) = map stagedAt ps @ [piAddress q]" by (simp add: DEFAULT_POLICY_FORM_def)
  with q(1) show ?thesis by blast
qed

lemma addChosen_distinct:
  assumes "distinct (map stagedAt ps)"
  shows "distinct (map stagedAt (addChosen visible chosen ps))"
proof (cases "addChosen visible chosen ps = ps")
  case False
  then obtain p where "p \<in> set (unselectedPolicies visible ps)" "map stagedAt (addChosen visible chosen ps) = map stagedAt ps @ [piAddress p]"
    using addChosen_unstaged by blast
  with assms show ?thesis by (auto simp: unselectedPolicies_def list_ex_iff)
qed (use assms in simp)

section \<open>Parameters that do not encode\<close>

lemma opened_policies:
  assumes "openEditor D uuid ref rule form0 w0 = (Inr form, w1)"
  shows "list_all2 (\<lambda>a sp. stagedAt sp = a \<and> (piType (pfPolicy sp) = WeightedThresholdPolicy \<longrightarrow> items (pfWeights sp) = []))
      (crPolicies rule) (rfPolicies form)"
    "removedSigners rule form = []" "isOk (builtSigners D (rfSigners form))"
proof -
  let ?read = "readRulePolicyParams (reEnv D) (rePolicies D) (reField D) rule (readablePolicies D)"
  obtain wl ps ledgers where ps: "catchA ?read (\<lambda>_. returnA []) wl = (Inr ps, w1)"
    and f: "form = (loadContext (crType rule) form0)\<lparr>rfName := crName rule,
         rfSigners := map (\<lambda>i. loadedSigner D (uuid i) (ref i, crSigners rule ! i)) [0..<length (crSigners rule)],
         rfPolicies := ps, rfHasExpiration := ruleUntil rule \<noteq> None, rfExpirationLedgers := ledgers, rfError := None\<rparr>"
    using assms by (auto simp: openEditor_def bindA_Inr run_simps)
  have r: "?read wl = (Inr ps, w1)"
    using ps readRulePolicyParams_isOk [of "reEnv D" "rePolicies D" "reField D" rule "readablePolicies D" wl]
    by (auto simp: catchA_def run_simps split: prod.splits sum.splits)
  have one: "stagedAt sp = a \<and> (piType (pfPolicy sp) = WeightedThresholdPolicy \<longrightarrow> items (pfWeights sp) = [])"
    if "(case List.find (\<lambda>p. piAddress p = a) (readablePolicies D) of
        None \<Rightarrow> returnA (unknownPolicy a)
      | Some known \<Rightarrow> catchA (readPolicyForm (reEnv D) (rePolicies D) (reField D) (crId rule) known)
          (\<lambda>_. returnA ((DEFAULT_POLICY_FORM known)\<lparr>pfModified := True\<rparr>))) w1 = (Inr sp, w2)" for a sp w1 w2
    using that by (auto simp: readPolicyForm_def unknownPolicy_def DEFAULT_POLICY_FORM_def find_Some_iff catchA_def bindA_Inr run_simps
        split: option.splits prod.splits sum.splits policy_type.splits)
  show "list_all2 (\<lambda>a sp. stagedAt sp = a \<and> (piType (pfPolicy sp) = WeightedThresholdPolicy \<longrightarrow> items (pfWeights sp) = []))
      (crPolicies rule) (rfPolicies form)"
    using mapA_results [OF r [unfolded readRulePolicyParams_def]] one by (auto simp: f elim!: list_all2_mono)
  show "removedSigners rule form = []"
    by (force simp: f removedSigners_def filter_empty_conv list_ex_iff in_set_conv_nth [of _ "crSigners rule"] loadedSigner_def Let_def)
  have "isOk (mapE (contractSigner D) es)" if "\<forall>e \<in> set es. enSigner e \<noteq> None" for es
    using that by (induction es) (auto simp: contractSigner_def signerEntryToContractSigner_def isOk_iff)
  then have "isOk (mapE (contractSigner D) (rfSigners form))" by (auto simp: f loadedSigner_def Let_def)
  then show "isOk (builtSigners D (rfSigners form))" by (auto simp: builtSigners_def isOk_iff)
qed

lemma stageWeights_none: "stageWeights conv [] i acc es = Inr (map snd acc)"
  by (induction es arbitrary: i) auto

lemma weightless_params:
  assumes "piType (pfPolicy sp) = WeightedThresholdPolicy" "items (pfWeights sp) = []"
  shows "\<exists>e. encodedPolicy D form sp = Inl e"
proof -
  have t: "\<exists>e. createWeightedThresholdParams t [] = Inl e" for t
    by (cases "positiveThreshold t") (simp_all add: createWeightedThresholdParams_def)
  have w: "(case pfWeights sp of None \<Rightarrow> Inr [] | Some ws \<Rightarrow> stageWeights conv ws 0 [] es) = Inr []" for conv es
    using assms(2) by (cases "pfWeights sp") (simp_all add: stageWeights_none)
  obtain e where "createWeightedThresholdParams (orNumber (pfWeightedThreshold sp) (Fin 1)) [] = Inl e" using t by blast
  then show ?thesis
    using assms(1) by (simp add: encodedPolicy_def encodePolicyInstallParam_def buildNativePolicyParams_def w)
qed

lemma only_changed:
  assumes "i < length ps" "\<forall>sp \<in> set ps. \<not> pfModified sp" "\<And>sp. pfPolicy (f sp) = pfPolicy sp" "stagedAt (ps ! i) \<in> set as"
  shows "filter (\<lambda>sp. stagedAt sp \<in> set as \<and> pfModified sp) (changeStaged i f ps) = [(f (ps ! i))\<lparr>pfModified := True\<rparr>]"
proof -
  have n: "filter (\<lambda>sp. stagedAt sp \<in> set as \<and> pfModified sp) xs = []" if "set xs \<subseteq> set ps" for xs
    using that assms(2) by (auto simp: filter_empty_conv)
  have "set (take i ps) \<subseteq> set ps" "set (drop (Suc i) ps) \<subseteq> set ps" by (rule set_take_subset set_drop_subset)+
  note this [THEN n]
  then show ?thesis using assms(1,3,4) by (simp add: changeStaged_def upd_conv_take_nth_drop)
qed

text \<open>
  C36. In an editor opened on a rule, typing another required weight for a weighted-threshold policy, and
  nothing else, loses the policy: the form holds no signer weights for it, so saving removes the policy
  from the rule, cannot encode the new parameters, and stops with an error, leaving the rule without
  the policy.
\<close>

theorem edited_weights_lose_policy:
  assumes opened: "openEditor D uuid ref rule form0 w0 = (Inr form, w1)" and same: "trim (crName rule) = crName rule"
    and i: "i < length (rfPolicies form)" "piType (pfPolicy (rfPolicies form ! i)) = WeightedThresholdPolicy"
    and others: "\<forall>sp \<in> set (rfPolicies form). \<not> pfModified sp"
    and form': "form' = form\<lparr>rfPolicies := changeRequiredWeight i text (rfPolicies form)\<rparr>"
    and before: "formContext D form' = Inr ctx" "formUntil D form' w = (Inr until, w2)"
    and dropped: "performed D selected (crId rule) [DropPolicy a] w2 w3" and a: "a = stagedAt (rfPolicies form ! i)"
  shows "(\<exists>m. executeSubmit D (Some rule) selected form' w = (Inr (Some m), w3)) \<and>
     ocPolicies (afterPlan [DropPolicy a] (chainRule rule P)) a = None"
proof -
  note o = opened_policies [OF opened]
  let ?sp = "(rfPolicies form ! i)\<lparr>pfWeightedThreshold := Some (orNumber (Some (parseInt text)) (Fin 1)), pfModified := True\<rparr>"
  have all: "map stagedAt (rfPolicies form) = crPolicies rule"
    using o(1) by (induction rule: list_all2_induct) auto
  then have ain: "a \<in> set (crPolicies rule)" using i(1) a by (metis length_map nth_map nth_mem)
  have w: "items (pfWeights (rfPolicies form ! i)) = []"
    using o(1) i by (auto simp: list_all2_conv_all_nth)
  have "policiesToUpdate rule form' = [?sp]"
    using only_changed [of i "rfPolicies form" "\<lambda>sp. sp\<lparr>pfWeightedThreshold := Some (orNumber (Some (parseInt text)) (Fin 1))\<rparr>"]
      i(1) others ain a by (simp add: form' policiesToUpdate_def changeRequiredWeight_def)
  moreover have "map stagedAt (rfPolicies form') = crPolicies rule"
    using all staged_changeStaged by (simp add: form' changeRequiredWeight_def)
  then have "policiesToRemove rule form' = []" by (simp add: policiesToRemove_def filter_empty_conv comp_def)
  moreover have new: "newEntries form' = []" using opened_form(1) [OF opened] by (simp add: form' newEntries_def)
  moreover obtain e where bad: "encodedPolicy D form' ?sp = Inl e" using weightless_params [of ?sp] i(2) w by auto
  moreover obtain tx r wx where "removePolicy (rdWallet (reRules D)) (crId rule) a w2 = (Inr tx, wx)"
      "reSubmit D tx selected wx = (Inr r, w3)" "srSuccess r"
    using dropped by (auto simp: performed_simps)
  ultimately have "editPolicies D selected rule form' w2 = (Inl e, w3)"
    using a by (simp add: editPolicies_def forA_def submitChange_def addStagedPolicy_def bindA_def run_simps)
  moreover have "editName D selected rule form' w2 = (Inr (), w2)"
    using opened same by (auto simp: editName_def form' openEditor_def bindA_Inr run_simps)
  moreover have "editSigners D selected rule form' w2 = (Inr (), w2)"
    using new o(2) by (simp add: editSigners_def builtSigners_def forA_def bindA_def run_simps List.map_filter_simps removedSigners_def form')
  ultimately have "editRule D selected rule form' until w2 = (Inl e, w3)"
    by (simp add: editRule_def bindA_def run_simps)
  moreover obtain ss where "builtSigners D (rfSigners form') = Inr ss" using o(3) by (auto simp: isOk_iff form')
  ultimately show ?thesis using before
    by (simp add: executeSubmit_def saveForm_def catchA_def bindA_def run_simps)
qed

section \<open>Witnesses\<close>

definition demoWeightedEditor :: rule_editor where
  "demoWeightedEditor = demoEditor\<lparr>
     reEnv := demoEnv\<lparr>keServices := demoServices\<lparr>svRpcSimulate := (\<lambda>t x. Inr (SimOk [1] (Some ScvVoid)))\<rparr>\<rparr>,
     rePolicies := (rePolicies demoEditor)\<lparr>pyNumber := (\<lambda>v. Fin 2)\<rparr>,
     reRecognized := [\<lparr>piType = WeightedThresholdPolicy, piName = ''W'', piAddress = ''Cp''\<rparr>]\<rparr>"

definition demoWeightedRule :: context_rule where
  "demoWeightedRule = demoRule\<lparr>crValidUntil := None\<rparr>"

lemma demo_weighted_opened:
  "\<exists>form w1. openEditor demoWeightedEditor (\<lambda>i. []) Caller demoWeightedRule (demoForm []) demoWorld = (Inr form, w1) \<and>
     rfContext form = DefaultOption \<and> \<not> rfHasExpiration form \<and>
     rfPolicies form = [(DEFAULT_POLICY_FORM \<lparr>piType = WeightedThresholdPolicy, piName = ''W'', piAddress = ''Cp''\<rparr>)\<lparr>pfWeightedThreshold := Some (Fin 2)\<rparr>]"
proof -
  have e: "ruleUntil demoWeightedRule = None" by (simp add: ruleUntil_def ledgerOf_def demoWeightedRule_def)
  have a: "\<exists>a. addressFromString demoSdk ''CW'' = Inr a" "\<exists>a. addressFromString demoSdk ''Cp'' = Inr a"
    by (simp_all add: addressFromString_def demoSdk_def demoFromStrkey_def)
  have t: "\<exists>w1. getThreshold (reEnv demoWeightedEditor) (rePolicies demoWeightedEditor) ''Cp'' i demoWorld = (Inr (Fin 2), w1)" for i
    using a by (auto simp: getThreshold_def smartAccountScVal_def simulateGetter_def bindA_def run_simps requireWallet_def Let_def
        demoWeightedEditor_def demoEditor_def demoEnv_def demoServices_def demoWorld_def demoWallet_def)
  obtain w1 where t: "getThreshold (reEnv demoWeightedEditor) (rePolicies demoWeightedEditor) ''Cp'' (crId demoWeightedRule) demoWorld = (Inr (Fin 2), w1)"
    using t by blast
  have k: "List.find (\<lambda>p. piAddress p = ''Cp'') (readablePolicies demoWeightedEditor) =
      Some \<lparr>piType = WeightedThresholdPolicy, piName = ''W'', piAddress = ''Cp''\<rparr>"
    by (simp add: readablePolicies_def visiblePolicies_def demoWeightedEditor_def demoEditor_def)
  have c: "crPolicies demoWeightedRule = [''Cp'']" "crType demoWeightedRule = DefaultRule"
    by (simp_all add: demoWeightedRule_def demoRule_def)
  have r: "readRulePolicyParams (reEnv demoWeightedEditor) (rePolicies demoWeightedEditor) (reField demoWeightedEditor) demoWeightedRule
      (readablePolicies demoWeightedEditor) demoWorld =
      (Inr [(DEFAULT_POLICY_FORM \<lparr>piType = WeightedThresholdPolicy, piName = ''W'', piAddress = ''Cp''\<rparr>)\<lparr>pfWeightedThreshold := Some (Fin 2)\<rparr>], w1)"
    by (simp add: readRulePolicyParams_def c k readPolicyForm_def bindA_def run_simps catchA_def t)
  show ?thesis
    by (simp add: openEditor_def loadExpiration_def e r bindA_def catchA_def run_simps loadContext_def c)
qed

lemma edited_weights_lose_policy_witness:
  "\<exists>form m w2. executeSubmit demoWeightedEditor (Some demoWeightedRule) None
       (form\<lparr>rfPolicies := changeRequiredWeight 0 ''3'' (rfPolicies form)\<rparr>) demoWorld = (Inr (Some m), w2) \<and>
     ocPolicies (afterPlan [DropPolicy ''Cp''] (chainRule demoWeightedRule [''Cp'' \<mapsto> ScvVoid])) ''Cp'' = None"
proof -
  obtain form w1 where o: "openEditor demoWeightedEditor (\<lambda>i. []) Caller demoWeightedRule (demoForm []) demoWorld = (Inr form, w1)"
    and f: "rfContext form = DefaultOption" "\<not> rfHasExpiration form"
      "rfPolicies form = [(DEFAULT_POLICY_FORM \<lparr>piType = WeightedThresholdPolicy, piName = ''W'', piAddress = ''Cp''\<rparr>)\<lparr>pfWeightedThreshold := Some (Fin 2)\<rparr>]"
    using demo_weighted_opened by blast
  have d: "performed demoWeightedEditor None (crId demoWeightedRule) [DropPolicy ''Cp''] demoWorld demoWorld"
    by (simp add: performed_simps removePolicy_def idFrom_def bindA_def run_simps requireWallet_def demoWeightedEditor_def demoEditor_def
        demoClient_def demoSignerDeps_def demoRuleDeps_def demoWorld_def demoWallet_def)
  let ?f = "form\<lparr>rfPolicies := changeRequiredWeight 0 ''3'' (rfPolicies form)\<rparr>"
  have b: "formContext demoWeightedEditor ?f = Inr DefaultRule" "formUntil demoWeightedEditor ?f demoWorld = (Inr None, demoWorld)"
    using f by (simp_all add: formContext_def createDefaultContext_def formUntil_def run_simps)
  have n: "trim (crName demoWeightedRule) = crName demoWeightedRule"
    by (simp add: demoWeightedRule_def demoRule_def trim_def isWhite_def)
  have x: "0 < length (rfPolicies form)" "piType (pfPolicy (rfPolicies form ! 0)) = WeightedThresholdPolicy"
    "\<forall>sp \<in> set (rfPolicies form). \<not> pfModified sp" "''Cp'' = stagedAt (rfPolicies form ! 0)"
    by (simp_all add: f DEFAULT_POLICY_FORM_def)
  from edited_weights_lose_policy [OF o n x(1-3) refl b d x(4), of "[''Cp'' \<mapsto> ScvVoid]"] show ?thesis by blast
qed

end
