(* ===== verification/Kit_Panels.thy ===== *)
theory Kit_Panels
  imports Kit_PolicyList Kit_Double
begin

text \<open>
  The panels of the demo that change the wallet outside the rule editor: the list of rules
  (\<^verbatim>\<open>ContextRulesPanel.tsx\<close>), the live parameters of a policy (\<^verbatim>\<open>PolicyInspector.tsx\<close>) and the upgrade
  (\<^verbatim>\<open>AdvancedPanel.tsx\<close>). Flags only shown while an operation runs are left out.
\<close>

section \<open>Inspecting a policy\<close>

record live_params =
  lpThreshold :: "jsnum option"
  lpWeights :: "(signer \<times> string \<times> jsnum) list option"
  lpLimit :: "string option"
  lpPeriod :: "jsnum option"
  lpSpent :: "string option"

record inspector =
  ipExpanded :: bool
  ipParams :: "live_params option"
  ipThreshold :: string
  ipLimit :: string

text \<open>
  \<open>icSubmit\<close> is the submission hook with the signers of the rule; \<open>icNotU32\<close> is what the policy client makes of
  a number that is no unsigned 32-bit integer.
\<close>

record inspector_props =
  icEnv :: kit_env
  icPolicies :: policy_deps
  icField :: "scval \<Rightarrow> string \<Rightarrow> jsnum result"
  icRule :: context_rule
  icAddress :: string
  icKnown :: "policy_info option"
  icSubmit :: "assembled \<Rightarrow> simple_result act"
  icNotU32 :: "jsnum \<Rightarrow> assembled act"

definition noParams :: live_params where
  "noParams = \<lparr>lpThreshold = None, lpWeights = None, lpLimit = None, lpPeriod = None, lpSpent = None\<rparr>"

definition readLiveParams :: "inspector_props \<Rightarrow> policy_type \<Rightarrow> (inspector \<Rightarrow> inspector) act" where
  "readLiveParams P t = (case t of
     ThresholdPolicy \<Rightarrow>
       bindA (getThreshold (icEnv P) (icPolicies P) (icAddress P) (crId (icRule P))) (\<lambda>threshold.
         returnA (\<lambda>s. s\<lparr>ipParams := Some (noParams\<lparr>lpThreshold := Some threshold\<rparr>), ipThreshold := numberText threshold\<rparr>))
   | WeightedThresholdPolicy \<Rightarrow>
       bindA (getThreshold (icEnv P) (icPolicies P) (icAddress P) (crId (icRule P))) (\<lambda>threshold.
       bindA (getSignerWeights (icEnv P) (icPolicies P) (icAddress P) (icRule P)) (\<lambda>weights.
         returnA (\<lambda>s. s\<lparr>ipParams := Some (noParams\<lparr>lpThreshold := Some threshold,
             lpWeights := Some (map (\<lambda>(x, n). (x, sdDisplay (formatSignerForDisplay (keSdk (icEnv P)) x), n)) weights)\<rparr>),
           ipThreshold := numberText threshold\<rparr>)))
   | SpendingLimitPolicy \<Rightarrow>
       bindA (readSpendingLimitParams (icEnv P) (icField P) (icAddress P) (crId (icRule P))) (\<lambda>l.
         returnA (\<lambda>s. s\<lparr>ipParams := Some (noParams\<lparr>lpLimit := Some (numberText (lsLimitXlm l)),
             lpPeriod := Some (lsPeriodDays l), lpSpent := Some (numberText (lsSpentXlm l))\<rparr>),
           ipLimit := numberText (lsLimitXlm l)\<rparr>))
   | CustomPolicy \<Rightarrow> returnA id)"

definition loadParams :: "inspector_props \<Rightarrow> inspector \<times> world \<Rightarrow> inspector \<times> world" where
  "loadParams P = (\<lambda>(s, w). case icKnown P of
     None \<Rightarrow> (s, w)
   | Some known \<Rightarrow> (case readLiveParams P (piType known) w of
       (Inr shown, w') \<Rightarrow> (shown s, w')
     | (Inl e, w') \<Rightarrow> (s\<lparr>ipParams := None\<rparr>, w')))"

definition toggleInspector :: "inspector_props \<Rightarrow> inspector \<times> world \<Rightarrow> inspector \<times> world" where
  "toggleInspector P = (\<lambda>(s, w). let s' = s\<lparr>ipExpanded := \<not> ipExpanded s\<rparr> in
     if ipExpanded s' \<and> ipParams s = None \<and> icKnown P \<noteq> None then loadParams P (s', w) else (s', w))"

text \<open>Whether the setter went through, after which the parameters and the rules are read again.\<close>

definition runSetter :: "inspector_props \<Rightarrow> assembled act \<Rightarrow> inspector \<times> world \<Rightarrow> bool \<times> inspector \<times> world" where
  "runSetter P build = (\<lambda>(s, w). case bindA build (icSubmit P) w of
     (Inr result, w') \<Rightarrow> if srSuccess result then (True, loadParams P (s, w')) else (False, s, w')
   | (Inl e, w') \<Rightarrow> (False, s, w'))"

definition asU32 :: "inspector_props \<Rightarrow> (nat \<Rightarrow> assembled act) \<Rightarrow> jsnum \<Rightarrow> assembled act" where
  "asU32 P build n = (case n of
     Fin q \<Rightarrow> if of_nat (nat \<lfloor>q\<rfloor>) = q \<and> nat \<lfloor>q\<rfloor> \<le> U32_MAX then build (nat \<lfloor>q\<rfloor>) else icNotU32 P n
   | _ \<Rightarrow> icNotU32 P n)"

definition submitThreshold :: "inspector_props \<Rightarrow> inspector \<times> world \<Rightarrow> bool \<times> inspector \<times> world" where
  "submitThreshold P = (\<lambda>(s, w). let value = parseInt10 (ipThreshold s) in
     if icKnown P = None \<or> \<not> isFinite value \<or> jsLess value (Fin 1) then (False, s, w)
     else runSetter P (asU32 P (\<lambda>n. setThreshold (icEnv P) (icPolicies P) (icAddress P) n (icRule P)) value) (s, w))"

definition submitLimit :: "inspector_props \<Rightarrow> inspector \<times> world \<Rightarrow> bool \<times> inspector \<times> world" where
  "submitLimit P = (\<lambda>(s, w). let xlm = parseFloat (ipLimit s) in
     if \<not> isFinite xlm \<or> \<not> jsLess (Fin 0) xlm then (False, s, w)
     else (case toBigInt (NumAmount (wholeNum floor (scaleNum xlm (of_nat STROOPS_PER_XLM)))) of
         Inl e \<Rightarrow> (False, s, w)
       | Inr stroops \<Rightarrow>
           runSetter P (setSpendingLimit (icEnv P) (icPolicies P) (icAddress P) stroops (icRule P)) (s, w)))"

text \<open>A weight is submitted when its field is left with another number.\<close>

definition leaveWeight :: "inspector_props \<Rightarrow> signer \<times> string \<times> jsnum \<Rightarrow> string \<Rightarrow> inspector \<times> world \<Rightarrow> bool \<times> inspector \<times> world" where
  "leaveWeight P = (\<lambda>(x, label, weight) text (s, w). let value = parseInt10 text in
     if isFinite value \<and> value \<noteq> weight
     then runSetter P (asU32 P (\<lambda>n. setSignerWeight (icEnv P) (icPolicies P) (icAddress P) x n (icRule P)) value) (s, w)
     else (False, s, w))"

section \<open>The list of rules\<close>

record rules_panel =
  rpRules :: "context_rule list"
  rpCount :: "nat option"
  rpRetry :: bool

record rules_props =
  rkEnv :: kit_env
  rkRules :: rule_deps
  rkConnected :: bool
  rkWallets :: "ext_wallet list"
  rkConnect :: "ext_wallet option result"
  rkSubmit :: "assembled \<Rightarrow> signer_object list \<Rightarrow> simple_result act"
  rkObject :: "signer \<Rightarrow> object_ref"

text \<open>\<open>rpRetry\<close>: a timer is set that fetches the rules once more, without another retry.\<close>

definition fetchRules :: "rules_props \<Rightarrow> bool \<Rightarrow> rules_panel \<times> world \<Rightarrow> rules_panel \<times> world" where
  "fetchRules P allowRetry = (\<lambda>(p, w).
     if \<not> rkConnected P \<or> wWallet w = None then (p, w)
     else (case listRules (rkEnv P) (rkRules P) w of
         (Inl e, w') \<Rightarrow> (p\<lparr>rpRetry := False\<rparr>, w')
       | (Inr activeRules, w') \<Rightarrow> (case ruleCount (rkRules P) w' of
           (r, w2) \<Rightarrow> (p\<lparr>rpRules := activeRules, rpCount := (case r of Inr n \<Rightarrow> Some n | Inl e \<Rightarrow> rpCount p),
             rpRetry := (activeRules = [] \<and> allowRetry)\<rparr>, w2))))"

definition retryFires :: "rules_props \<Rightarrow> rules_panel \<times> world \<Rightarrow> rules_panel \<times> world" where
  "retryFires P = (\<lambda>(p, w). if rpRetry p then fetchRules P False (p\<lparr>rpRetry := False\<rparr>, w) else (p, w))"

definition signAndSubmitWithMultiSigner ::
    "kit_env \<Rightarrow> 'a multi_deps \<Rightarrow> (assembled \<Rightarrow> tx_result act) \<Rightarrow> assembled \<Rightarrow> signer_object list \<Rightarrow> simple_result act" where
  "signAndSubmitWithMultiSigner E M admin tx ruleSigners =
     (if \<not> needsMultiSigner (keSdk E) (map snd ruleSigners)
      then bindA (admin tx) (\<lambda>r. returnA (toSimpleResult r))
      else bindA (adminOperation E M tx (buildSelectedSigners (keSdk E) (mdOps M) (mdManager M) ruleSigners None)
          \<lparr>moForceMethod = None, moResolveRuleIds = None\<rparr>) (\<lambda>r. returnA (toSimpleResult r)))"

text \<open>Delegated signers ask for a wallet when none is connected; without an address the removal is given up.\<close>

definition walletReady :: "rules_props \<Rightarrow> context_rule \<Rightarrow> bool" where
  "walletReady P rule \<longleftrightarrow>
     \<not> (list_ex (\<lambda>s. case s of Delegated a \<Rightarrow> True | External v k \<Rightarrow> False) (crSigners rule) \<and> rkWallets P = []) \<or>
     (case rkConnect P of Inr (Some x) \<Rightarrow> xwAddress x \<noteq> [] | _ \<Rightarrow> False)"

definition handleRemoveRule :: "rules_props \<Rightarrow> bool \<Rightarrow> nat \<Rightarrow> rules_panel \<times> world \<Rightarrow> rules_panel \<times> world" where
  "handleRemoveRule P confirmed ruleId = (\<lambda>(p, w).
     if \<not> confirmed then (p, w)
     else (case List.find (\<lambda>r. crId r = ruleId) (rpRules p) of
         None \<Rightarrow> (p, w)
       | Some rule \<Rightarrow>
           if \<not> walletReady P rule then (p, w)
           else (case bindA (removeRule (rkRules P) ruleId) (\<lambda>tx. rkSubmit P tx (map (\<lambda>s. (rkObject P s, s)) (crSigners rule))) w of
               (Inr result, w') \<Rightarrow> if srSuccess result then fetchRules P True (p, w') else (p, w')
             | (Inl e, w') \<Rightarrow> (p, w'))))"

section \<open>Upgrading\<close>

definition handleUpgrade :: "(hash_input \<Rightarrow> assembled act) \<Rightarrow> (assembled \<Rightarrow> simple_result act) \<Rightarrow> string \<times> world \<Rightarrow> string \<times> world" where
  "handleUpgrade upgrade submit_tx = (\<lambda>(newWasmHash, w).
     let t = trim newWasmHash; h = (if take 2 t = ''0x'' then drop 2 t else t) in
     if length h \<noteq> 64 \<or> \<not> hexText h then (newWasmHash, w)
     else (case bindA (upgrade (HexText h)) submit_tx w of
         (Inr result, w') \<Rightarrow> (if srSuccess result then [] else newWasmHash, w')
       | (Inl e, w') \<Rightarrow> (newWasmHash, w')))"

section \<open>Properties\<close>

text \<open>The panel's own submission is the shared hook without an active passkey.\<close>

lemma panel_submission_is_hook:
  "signAndSubmitWithMultiSigner E M admin tx ruleSigners = useMultiSignerSubmit E M admin (Some ruleSigners) None tx None"
  by (simp add: signAndSubmitWithMultiSigner_def useMultiSignerSubmit_def Let_def)

lemma removal_is_confirmed:
  assumes "handleRemoveRule P confirmed ruleId (p, w) = (p', w')" "(p', w') \<noteq> (p, w)"
  shows "confirmed \<and> (\<exists>rule \<in> set (rpRules p). crId rule = ruleId \<and> walletReady P rule)"
  using assms by (auto simp: handleRemoveRule_def find_Some_iff split: if_splits option.splits)

text \<open>Two roundings of an amount of at most \<open>2 ^ 51\<close> stroops move it by less than one.\<close>

lemma typed_stroops:
  assumes s: "1 \<le> s" "s \<le> 2 ^ 51" and x: "x = nearestDouble (of_nat s / of_nat STROOPS_PER_XLM)"
  shows "\<exists>q v. x = Fin q \<and> 0 < q \<and> wholeNum floor (scaleNum x (of_nat STROOPS_PER_XLM)) = Fin (of_int v) \<and>
     (v = int s - 1 \<or> v = int s)"
proof -
  let ?c = "of_nat STROOPS_PER_XLM :: rat" and ?s = "of_nat s :: rat"
  have c: "?c = 10000000" by (simp add: STROOPS_PER_XLM_def)
  have sr: "1 \<le> ?s" "?s \<le> 2 ^ 51"
  proof -
    show "1 \<le> ?s" using s(1) by simp
    have "(of_nat s :: rat) \<le> of_nat (2 ^ 51)" using s(2) by (simp only: of_nat_le_iff)
    then show "?s \<le> 2 ^ 51" by simp
  qed
  have small: "pow2 (- 100) \<le> 1 / 20000000" by (simp add: pow2_def)
  have "pow2 (- 100) \<le> ?s / ?c" "?s / ?c \<le> 2 ^ 53" using small sr by (simp_all add: c)
  then obtain q where q: "x = Fin q" "\<bar>q - ?s / ?c\<bar> \<le> ?s / ?c / 2 ^ 53"
    using nearestDouble_error [of "?s / ?c"] x by auto
  have "\<bar>q * ?c - ?s\<bar> \<le> ?s / 2 ^ 53"
  proof -
    have "\<bar>q - ?s / ?c\<bar> * ?c \<le> ?s / ?c / 2 ^ 53 * ?c" using q(2) by (rule mult_right_mono) (simp add: c)
    moreover have "\<bar>q - ?s / ?c\<bar> * ?c = \<bar>(q - ?s / ?c) * ?c\<bar>" by (subst abs_mult) (simp add: c)
    moreover have "(q - ?s / ?c) * ?c = q * ?c - ?s" by (simp add: left_diff_distrib c)
    moreover have "?s / ?c / 2 ^ 53 * ?c = ?s / 2 ^ 53" by (simp add: c)
    ultimately show ?thesis by simp
  qed
  then have a: "q * ?c - ?s \<le> ?s / 2 ^ 53" "?s - q * ?c \<le> ?s / 2 ^ 53" by (simp_all only: abs_le_iff) linarith+
  have d: "?s / 2 ^ 53 \<le> 1 / 4" "?s / 2 ^ 53 \<le> ?s / 4" using sr by simp_all
  have big: "(2 :: rat) ^ 51 + 1 / 4 \<le> 2 ^ 52" "(2 :: rat) ^ 51 + 1 / 4 \<le> 2 ^ 53" by simp_all
  have p: "pow2 (- 100) \<le> q * ?c" "q * ?c \<le> 2 ^ 53" using a d sr small big by linarith+
  obtain v where v: "nearestDouble (q * ?c) = Fin v" "\<bar>v - q * ?c\<bar> \<le> q * ?c / 2 ^ 53"
    using nearestDouble_error [OF p] by blast
  have b: "q * ?c / 2 ^ 53 \<le> 1 / 2"
  proof -
    have "q * ?c \<le> 2 ^ 52" using a(1) d(1) sr(2) big(1) by linarith
    then show ?thesis by simp
  qed
  have "v - q * ?c \<le> q * ?c / 2 ^ 53" "q * ?c - v \<le> q * ?c / 2 ^ 53" using v(2) by (simp_all only: abs_le_iff) linarith+
  then have "?s - 1 < v" "v < ?s + 1" using a b d(1) by linarith+
  then have f: "\<lfloor>v\<rfloor> = int s - 1 \<or> \<lfloor>v\<rfloor> = int s" by linarith
  have pos: "0 < q * ?c" using p(1) pow2_pos [of "- 100"] by linarith
  then have "0 < q" by (simp add: c zero_less_mult_iff)
  moreover have "wholeNum floor (scaleNum x ?c) = Fin (of_int \<lfloor>v\<rfloor>)"
    using q(1) v(1) pos by (simp add: wholeNum_def scaleNum_def nearest_def)
  ultimately show ?thesis using q(1) f by blast
qed

text \<open>
  C38. A spending limit typed in the demo that reads as the double nearest to some amount of stroops is
  installed with a new rule, and set by the inspector, as that amount or one stroop less, up to
  \<open>2 ^ 51\<close> stroops; never more, and the parameters always encode.
\<close>

theorem typed_limit_within_a_stroop:
  assumes s: "2 \<le> s" "s \<le> 2 ^ 51" and typed: "parseFloat text = nearestDouble (of_nat s / of_nat STROOPS_PER_XLM)" "text \<noteq> []"
    and sp: "piType (pfPolicy sp) = SpendingLimitPolicy" "pfSpendingLimit sp = Some text"
    and days: "pfPeriodDays sp = Some (Fin (of_nat d))" "0 < d" "d < 2 ^ 32"
  shows "\<exists>v. (v = int s - 1 \<or> v = int s) \<and>
     buildNativePolicyParams parse conv sp signers = Inr (KnownParams (JsObject
       [(''period_ledgers'', JsNumber (Fin (of_nat (d * LEDGERS_PER_DAY)))), (''spending_limit'', JsBigInt v)] NoToXdr)) \<and>
     submitLimit P (ins\<lparr>ipLimit := text\<rparr>, w) =
       runSetter P (setSpendingLimit (icEnv P) (icPolicies P) (icAddress P) v (icRule P)) (ins\<lparr>ipLimit := text\<rparr>, w)"
proof -
  have one: "1 \<le> s" using s(1) by simp
  obtain q v where v: "parseFloat text = Fin q" "0 < q"
      "wholeNum floor (scaleNum (parseFloat text) (of_nat STROOPS_PER_XLM)) = Fin (of_int v)" "v = int s - 1 \<or> v = int s"
    using typed_stroops [OF one s(2) typed(1)] by blast
  have l: "1 \<le> v" using v(4) s(1) by linarith
  have n: "int (d * 17280) < 2 ^ 53" using days(3) by simp
  have "scaleNum (Fin (of_nat d)) (of_nat LEDGERS_PER_DAY) = Fin (of_nat (d * LEDGERS_PER_DAY))"
    using nearest_whole [of "int (d * 17280)"] n by (simp add: scaleNum_def LEDGERS_PER_DAY_def)
  then have "scaleNum (orNumber (pfPeriodDays sp) (Fin 1)) (of_nat LEDGERS_PER_DAY) = Fin (of_nat (d * LEDGERS_PER_DAY))"
    using days by (simp add: orNumber_def)
  moreover have "createSpendingLimitParams (BigAmount v) (Fin (of_nat (d * LEDGERS_PER_DAY))) =
      Inr \<lparr>spPeriodLedgers = Fin (of_nat (d * LEDGERS_PER_DAY)), spSpendingLimit = v\<rparr>"
  proof -
    have "1 \<le> d * LEDGERS_PER_DAY" using days(2) by (simp add: LEDGERS_PER_DAY_def)
    then have "(1 :: rat) \<le> of_nat (d * LEDGERS_PER_DAY)" by (metis of_nat_1 of_nat_le_iff)
    then have "\<not> jsLess (Fin (of_nat (d * LEDGERS_PER_DAY))) (Fin 1)" by simp
    moreover have "isIntegerNum (Fin (of_nat (d * LEDGERS_PER_DAY)))" by (simp add: isIntegerNum_def)
    ultimately show ?thesis using l by (simp add: createSpendingLimitParams_def toBigInt_def)
  qed
  ultimately have "buildNativePolicyParams parse conv sp signers = Inr (KnownParams (JsObject
       [(''period_ledgers'', JsNumber (Fin (of_nat (d * LEDGERS_PER_DAY)))), (''spending_limit'', JsBigInt v)] NoToXdr))"
    using sp typed(2) v(3) by (simp add: buildNativePolicyParams_def truthy_def toBigInt_def Let_def)
  moreover have "submitLimit P (ins\<lparr>ipLimit := text\<rparr>, w) =
       runSetter P (setSpendingLimit (icEnv P) (icPolicies P) (icAddress P) v (icRule P)) (ins\<lparr>ipLimit := text\<rparr>, w)"
    using v(1-3) by (simp add: submitLimit_def isFinite_def toBigInt_def)
  ultimately show ?thesis using v(4) by blast
qed

section \<open>Witnesses\<close>

text \<open>Rounding a fraction, from its terms and exponent; the two roundings of the amount 0.41.\<close>

lemma floorlog_at: "2 ^ k \<le> n \<Longrightarrow> n < 2 ^ Suc k \<Longrightarrow> floorlog 2 n = Suc k"
  by (rule antisym) (rule floorlog_leI floorlog_geI; simp)+

lemma quotient_at:
  assumes "0 < d" "gcd n d = (1 :: int)"
  shows "quotient_of (of_int n / of_int d) = (n, d)"
  using assms by (simp add: Fract_of_int_quotient [symmetric] quotient_of_Fract Rat.normalize_def)

lemma roundFraction_at:
  assumes n: "0 < d" "gcd n d = (1 :: int)" "2 ^ a \<le> nat n" "nat n < 2 ^ Suc a" "2 ^ b \<le> nat d" "nat d < 2 ^ Suc b"
    and q: "q = of_int n / of_int d" and k: "k = int a - int b - 53"
    and e: "q < 2 ^ 53 * pow2 k \<and> e = k \<or> 2 ^ 53 * pow2 k \<le> q \<and> e = k + 1" "- 1074 \<le> e"
    and x: "x = q / pow2 e" "of_int m \<le> x" "x - of_int m < 1 / 2" and v: "v = of_int m * pow2 e" "v < 2 ^ 1024"
  shows "roundFraction q = Fin v"
proof -
  have f: "floorlog 2 (nat n) = Suc a" "floorlog 2 (nat d) = Suc b" using floorlog_at n(3-6) by simp_all
  have fl: "\<lfloor>x\<rfloor> = m" using x(2,3) by linarith
  have i: "(if q < 2 ^ 53 * pow2 k then k else k + 1) = e" using e(1) by (auto simp: not_less)
  have m1: "max e (- 1074) = e" using e(2) by (rule max_absorb1)
  have z: "int (Suc a) - int (Suc b) - 53 = k" using k by simp
  have h: "\<not> (1 / 2 < x - of_int m \<or> x - of_int m = 1 / 2 \<and> odd m)" using x(3) by linarith
  have lt: "\<not> 2 ^ 1024 \<le> v" using v(2) by (simp only: not_le)
  have "quotient_of q = (n, d)" unfolding q using n(1,2) by (rule quotient_at)
  then show ?thesis
    unfolding roundFraction_def by (simp only: prod.case Let_def f z i m1 x(1) [symmetric] fl if_not_P [OF h] v(1) [symmetric] if_not_P [OF lt])
qed


lemma round_041: "roundFraction (41 / 100) = Fin (7385903388887613 / 18014398509481984)"
proof -
  have p: "pow2 (- 54) = 1 / 18014398509481984" by (simp add: pow2_def)
  have g: "gcd 41 (100 :: int) = 1" by code_simp
  show ?thesis
    by (rule roundFraction_at [where n = 41 and d = 100 and a = 5 and b = 6 and k = "- 54" and e = "- 54" and m = 7385903388887613
        and x = "41 / 100 * 18014398509481984"]) (simp_all add: p g)
qed

lemma round_041_stroops: "roundFraction (577023702256844765625 / 140737488355328) = Fin (8804682956799999 / 2147483648)"
proof -
  have p: "pow2 (- 32) = 1 / 4294967296" "pow2 (- 31) = 1 / 2147483648" by (simp_all add: pow2_def)
  have g: "gcd 577023702256844765625 (140737488355328 :: int) = 1" by code_simp
  show ?thesis
    by (rule roundFraction_at [where n = 577023702256844765625 and d = 140737488355328 and a = 68 and b = 47 and k = "- 32" and e = "- 31"
        and m = 8804682956799999 and x = "577023702256844765625 / 140737488355328 * 2147483648"]) (simp_all add: p g)
qed

lemma nearest_041:
  "nearestDouble (41 / 100) = Fin (7385903388887613 / 18014398509481984)"
  "nearestDouble (577023702256844765625 / 140737488355328) = Fin (8804682956799999 / 2147483648)"
proof -
  have "\<lfloor>41 / 100 :: rat\<rfloor> = 0" "\<lfloor>577023702256844765625 / 140737488355328 :: rat\<rfloor> = 4099999" by (rule floor_unique; simp)+
  then show "nearestDouble (41 / 100) = Fin (7385903388887613 / 18014398509481984)"
    "nearestDouble (577023702256844765625 / 140737488355328) = Fin (8804682956799999 / 2147483648)"
    by (simp_all add: nearestDouble_def round_041 round_041_stroops)
qed

lemma parse_041: "parseFloat ''0.41'' = nearestDouble (41 / 100)"
proof -
  have d: "digitsValue ''041'' = 41" by code_simp
  have "decimalLiteral ''0.41'' = nearestDouble (41 / 100)"
    by (simp add: decimalLiteral_def isDigit_def exponentOf_def d pow10_def)
  then show ?thesis by (simp add: parseFloat_def isWhite_def longestNumber_def upt_rec nearest_041)
qed

lemma floor_041: "wholeNum floor (scaleNum (parseFloat ''0.41'') 10000000) = Fin 4099999"
proof -
  have "\<lfloor>8804682956799999 / 2147483648 :: rat\<rfloor> = 4099999" by (rule floor_unique) simp_all
  then show ?thesis by (simp add: parse_041 nearest_041 scaleNum_def nearest_def wholeNum_def)
qed

definition demoInspector :: inspector_props where
  "demoInspector = \<lparr>icEnv = demoEnv, icPolicies = rePolicies demoEditor, icField = (\<lambda>v n. Inr NaN), icRule = demoRule,
     icAddress = ''Cp'', icKnown = None, icSubmit = (\<lambda>tx. returnA \<lparr>srSuccess = True, srError = None\<rparr>),
     icNotU32 = (\<lambda>n. throwA (JsError ''not a u32''))\<rparr>"

text \<open>The amount 0.41 is installed as 4099999 stroops.\<close>

lemma typed_limit_within_a_stroop_witness:
  "buildNativePolicyParams (\<lambda>t. None) (\<lambda>e. Inr None)
     ((DEFAULT_POLICY_FORM \<lparr>piType = SpendingLimitPolicy, piName = [], piAddress = ''Cp''\<rparr>)\<lparr>pfSpendingLimit := Some ''0.41''\<rparr>) [] =
     Inr (KnownParams (JsObject [(''period_ledgers'', JsNumber (Fin 17280)), (''spending_limit'', JsBigInt 4099999)] NoToXdr))"
proof -
  let ?sp = "(DEFAULT_POLICY_FORM \<lparr>piType = SpendingLimitPolicy, piName = [], piAddress = ''Cp''\<rparr>)\<lparr>pfSpendingLimit := Some ''0.41''\<rparr>"
  have p: "parseFloat ''0.41'' = nearestDouble (of_nat 4100000 / of_nat STROOPS_PER_XLM)"
    by (simp only: parse_041) (simp add: STROOPS_PER_XLM_def)
  obtain v where v: "v = 4099999 \<or> v = 4100000" "buildNativePolicyParams (\<lambda>t. None) (\<lambda>e. Inr None) ?sp [] =
      Inr (KnownParams (JsObject [(''period_ledgers'', JsNumber (Fin 17280)), (''spending_limit'', JsBigInt v)] NoToXdr))"
    using typed_limit_within_a_stroop [of 4100000 "''0.41''" ?sp 1 "\<lambda>t. None" "\<lambda>e. Inr None" "[]" demoInspector
        "\<lparr>ipExpanded = True, ipParams = None, ipThreshold = [], ipLimit = []\<rparr>" demoWorld] p
    by (auto simp: DEFAULT_POLICY_FORM_def LEDGERS_PER_DAY_def)
  have "(v :: int) = 4099999"
  proof -
    have "toBigInt (NumAmount (wholeNum floor (scaleNum (parseFloat ''0.41'') (of_nat STROOPS_PER_XLM)))) = Inr 4099999"
      using floor_041 by (simp add: STROOPS_PER_XLM_def toBigInt_def)
    then show ?thesis using v(2)
      by (simp add: buildNativePolicyParams_def DEFAULT_POLICY_FORM_def truthy_def Let_def)
        (auto simp: bindE_Inr createSpendingLimitParams_def toBigInt_def split: if_splits)
  qed
  with v(2) show ?thesis by simp
qed

end
