(* ===== verification/Kit_Html.thy ===== *)
theory Kit_Html
  imports Kit_PolicyForm
begin

text \<open>
  The text of JSON values (\<^verbatim>\<open>String(value)\<close>) and its escaping into HTML (\<^verbatim>\<open>indexer/demo/src/html.ts\<close>),
  with what a browser reads back: \<open>unescapeHtml\<close> decodes the character references of a text, and
  \<open>tagsOf\<close> lists the tags of a page, each by the text between its brackets.
\<close>

section \<open>The text of a value\<close>

fun joinTexts :: "string \<Rightarrow> string list \<Rightarrow> string" where
  "joinTexts sep [] = []"
| "joinTexts sep [t] = t"
| "joinTexts sep (t # u # ts) = t @ sep @ joinTexts sep (u # ts)"

text \<open>
  An array is its elements joined by commas, \<^verbatim>\<open>null\<close> as the empty text; an object with a property
  \<^verbatim>\<open>toString\<close> of its own, which JSON cannot make a function, has no text.
\<close>

fun jsString :: "json \<Rightarrow> string result" and elementTexts :: "json list \<Rightarrow> string list result" where
  "jsString JNull = Inr ''null''"
| "jsString (JBool b) = Inr (if b then ''true'' else ''false'')"
| "jsString (JNum x) = Inr (numberText x)"
| "jsString (JStr s) = Inr s"
| "jsString (JArr xs) = bindE (elementTexts xs) (\<lambda>ts. Inr (joinTexts '','' ts))"
| "jsString (JObj fs) = (if map_of fs ''toString'' = None then Inr ''[object Object]''
     else Inl (JsError ''Cannot convert object to primitive value''))"
| "elementTexts [] = Inr []"
| "elementTexts (x # xs) = bindE (if x = JNull then Inr [] else jsString x) (\<lambda>t. bindE (elementTexts xs) (\<lambda>ts. Inr (t # ts)))"

definition jsText :: "json option \<Rightarrow> string result" where
  "jsText v = (case v of None \<Rightarrow> Inr ''undefined'' | Some j \<Rightarrow> jsString j)"

section \<open>Escaping\<close>

definition HTML_ENTITIES :: "(char \<times> string) list" where
  "HTML_ENTITIES = [(CHR ''&'', ''&amp;''), (CHR ''<'', ''&lt;''), (CHR ''>'', ''&gt;''), (CHR 0x22, ''&quot;''), (CHR 0x27, ''&#39;'')]"

definition escapeChar :: "char \<Rightarrow> string" where
  "escapeChar c = (case map_of HTML_ENTITIES c of Some e \<Rightarrow> e | None \<Rightarrow> [c])"

definition escapeText :: "string \<Rightarrow> string" where
  "escapeText s = concat (map escapeChar s)"

definition escapeHtml :: "json option \<Rightarrow> string result" where
  "escapeHtml value = (case value of
     None \<Rightarrow> Inr []
   | Some JNull \<Rightarrow> Inr []
   | Some j \<Rightarrow> bindE (jsString j) (\<lambda>s. Inr (escapeText s)))"

section \<open>Reading it back\<close>

text \<open>\<open>decodeRef s\<close>: the character that a reference at the start of \<open>s\<close> stands for, and what follows it.\<close>

definition decodeRef :: "string \<Rightarrow> (char \<times> string) option" where
  "decodeRef s = map_option (\<lambda>(c, e). (c, drop (length e) s)) (List.find (\<lambda>(c, e). take (length e) s = e) HTML_ENTITIES)"

function unescapeHtml :: "string \<Rightarrow> string" where
  "unescapeHtml [] = []"
| "unescapeHtml (c # s) = (case decodeRef (c # s) of
     Some (d, r) \<Rightarrow> d # unescapeHtml r | None \<Rightarrow> c # unescapeHtml s)"
  by pat_completeness auto

lemma find_found: "List.find P xs = Some x \<Longrightarrow> x \<in> set xs \<and> P x"
  by (induction xs) (auto split: if_splits)

lemma decodeRef_shorter: "decodeRef s = Some (c, r) \<Longrightarrow> length r < length s"
proof -
  assume "decodeRef s = Some (c, r)"
  then obtain d e where "List.find (\<lambda>(c, e). take (length e) s = e) HTML_ENTITIES = Some (d, e)" "r = drop (length e) s"
    by (auto simp: decodeRef_def)
  then have "(d, e) \<in> set HTML_ENTITIES" "take (length e) s = e" "r = drop (length e) s"
    by (auto dest: find_found)
  moreover have "\<forall>(d, e) \<in> set HTML_ENTITIES. e \<noteq> []" by (simp add: HTML_ENTITIES_def)
  ultimately show ?thesis by (cases "s = []") auto
qed

termination unescapeHtml
  by (relation "measure length") (auto dest: decodeRef_shorter)

lemma decodeRef_escape: "decodeRef (escapeChar c @ r) = (if map_of HTML_ENTITIES c = None then None else Some (c, r))"
  by (auto simp: decodeRef_def escapeChar_def HTML_ENTITIES_def)

lemma escape_roundtrip: "unescapeHtml (escapeText s) = s"
proof (induction s)
  case (Cons c s)
  have "escapeChar c \<noteq> []" by (auto simp: escapeChar_def HTML_ENTITIES_def split: if_splits)
  then obtain d t where e: "escapeChar c = d # t" by (cases "escapeChar c") auto
  have "unescapeHtml (escapeChar c @ escapeText s) = c # unescapeHtml (escapeText s)"
  proof (cases "map_of HTML_ENTITIES c")
    case None
    then show ?thesis using decodeRef_escape [of c "escapeText s"] by (simp add: escapeChar_def)
  next
    case (Some a)
    then show ?thesis using decodeRef_escape [of c "escapeText s"] e by simp
  qed
  then show ?case using Cons by (simp add: escapeText_def)
qed (simp add: escapeText_def)

section \<open>The tags of a page\<close>

text \<open>\<open>scanTags\<close> is outside of tags, or inside of one of which it has read \<open>t\<close>, last character first.\<close>

fun scanTags :: "string option \<Rightarrow> string \<Rightarrow> string list" where
  "scanTags t [] = []"
| "scanTags None (c # s) = (if c = CHR ''<'' then scanTags (Some []) s else scanTags None s)"
| "scanTags (Some t) (c # s) = (if c = CHR ''>'' then rev t # scanTags None s else scanTags (Some (c # t)) s)"

definition tagsOf :: "string \<Rightarrow> string list" where
  "tagsOf = scanTags None"

text \<open>\<open>onlyTags T s\<close>: wherever \<open>s\<close> stands between tags, it adds whole tags of \<open>T\<close> and nothing else.\<close>

definition onlyTags :: "string set \<Rightarrow> string \<Rightarrow> bool" where
  "onlyTags T s \<longleftrightarrow> (\<forall>r. \<exists>ts. set ts \<subseteq> T \<and> scanTags None (s @ r) = ts @ scanTags None r)"

named_theorems tag_rules \<open>pieces of a page and the tags they add\<close>

lemma onlyTags_tagsOf: "onlyTags T s \<Longrightarrow> set (tagsOf s) \<subseteq> T"
  unfolding onlyTags_def tagsOf_def by (metis append_Nil2 scanTags.simps(1))

lemma onlyTags_Nil [tag_rules]: "onlyTags T []"
  by (auto simp: onlyTags_def intro: exI [of _ "[]"])

lemma onlyTags_append [tag_rules]:
  assumes "onlyTags T s" "onlyTags T u"
  shows "onlyTags T (s @ u)"
  unfolding onlyTags_def
proof
  fix r
  obtain a where a: "set a \<subseteq> T" "scanTags None (s @ u @ r) = a @ scanTags None (u @ r)"
    using assms(1) by (auto simp: onlyTags_def)
  obtain b where b: "set b \<subseteq> T" "scanTags None (u @ r) = b @ scanTags None r" using assms(2) by (auto simp: onlyTags_def)
  show "\<exists>ts. set ts \<subseteq> T \<and> scanTags None ((s @ u) @ r) = ts @ scanTags None r"
    using a b by (intro exI [of _ "a @ b"]) simp
qed

lemma onlyTags_concat: "(\<And>s. s \<in> set ss \<Longrightarrow> onlyTags T s) \<Longrightarrow> onlyTags T (concat ss)"
  by (induction ss) (simp_all add: tag_rules)

lemma onlyTags_if [tag_rules]: "(b \<Longrightarrow> onlyTags T s) \<Longrightarrow> (\<not> b \<Longrightarrow> onlyTags T u) \<Longrightarrow> onlyTags T (if b then s else u)"
  by simp

lemma scanTags_plain: "CHR ''<'' \<notin> set s \<Longrightarrow> scanTags None (s @ r) = scanTags None r"
  by (induction s) auto

lemma scanTags_inside: "CHR ''>'' \<notin> set s \<Longrightarrow> scanTags (Some t) (s @ r) = scanTags (Some (rev s @ t)) r"
  by (induction s arbitrary: t) auto

lemma onlyTags_plain: "CHR ''<'' \<notin> set s \<Longrightarrow> onlyTags T s"
  by (auto simp: onlyTags_def scanTags_plain intro: exI [of _ "[]"])

lemma onlyTags_tag:
  assumes "t \<in> T" "CHR ''>'' \<notin> set t"
  shows "onlyTags T (''<'' @ t @ ''>'')"
  using assms by (auto simp: onlyTags_def scanTags_inside intro: exI [of _ "[t]"])

text \<open>No character that could end a text or an attribute survives the escaping.\<close>

definition MARKUP :: string where
  "MARKUP = [CHR ''<'', CHR ''>'', CHR 0x22, CHR 0x27]"

definition markup :: "string \<Rightarrow> string" where
  "markup = filter (\<lambda>c. c \<in> set MARKUP)"

lemma markup_append [simp]: "markup (s @ t) = markup s @ markup t"
  by (simp add: markup_def)

lemma markup_concat: "markup (concat ss) = concat (map markup ss)"
  by (simp add: markup_def filter_concat)

lemma markup_escapeText [simp]: "markup (escapeText s) = []"
proof -
  have "markup (escapeChar c) = []" for c
    by (auto simp: escapeChar_def HTML_ENTITIES_def MARKUP_def markup_def)
  then show ?thesis by (simp add: escapeText_def markup_concat comp_def)
qed

lemma escapeHtml_text: "escapeHtml v = Inr t \<Longrightarrow> \<exists>s. t = escapeText s"
  by (auto simp: escapeHtml_def bindE_Inr escapeText_def split: option.splits json.splits intro: exI [of _ "[]"])

lemma markup_escapeHtml: "escapeHtml v = Inr t \<Longrightarrow> markup t = []"
  by (auto dest: escapeHtml_text)

lemma markup_plain: "markup s = [] \<Longrightarrow> CHR ''<'' \<notin> set s"
  by (auto simp: markup_def MARKUP_def filter_empty_conv)

lemma onlyTags_escaped: "escapeHtml v = Inr t \<Longrightarrow> onlyTags T t"
  by (simp add: markup_escapeHtml markup_plain onlyTags_plain)

end
