(* ===== verification/Kit_IndexerPage.thy ===== *)
theory Kit_IndexerPage
  imports Kit_DemoConfig Kit_Html
begin

text \<open>
  The page of the indexer demo (\<^verbatim>\<open>indexer/demo/src/main.ts\<close> and \<^verbatim>\<open>constants.ts\<close>): its lookups, the HTML
  it renders from the answers of the indexer, and its event handlers over the state of the page and
  the world of the kit. The answers are JSON values of any shape; reading one that lacks what the page
  needs throws as it does there. Requests that the page makes at the same time are made in order.
\<close>

section \<open>Constants\<close>

definition OTHER_POLICY_ADDRESSES :: "(policy_type \<times> string list) list" where
  "OTHER_POLICY_ADDRESSES =
     [(ThresholdPolicy,
        [''CA5YFFXY2ZKR3676EYNKEH6T7QEMWVGGPV7J2POZ27FNHCQGFKD6AIEN'', ''CB3FATQKCIRIQOCYRUPCQ2KREQ7T4RPKS7EAEOZWPEPUKWEDRVROBCEG'',
         ''CCEJBH26V7REDWKKAV5TYF3M7NF2OZBELBK2DZTVX3BRNEPVCOAZXJUF'']),
      (SpendingLimitPolicy,
        [''CDB2CVES2QMAL73US4EEAM43B4V3MBEP4K6I2UM7XZ25O4GGQE5CY3UG'', ''CABXBYJNZ7IUW4G3D6BND5YCAQF3ASSDMDAOKQQ63UYFSO7WUU2TIP5G'',
         ''CBCGTERZ6W2M6SMKVKQDTNKWFQXEPXEQO6ZCEKNZHT3QMA4X7Z2IYUS4'']),
      (WeightedThresholdPolicy,
        [''CD4U2LCISSOJ4JL3OKQDD7F732D67BG3CGHIOSTPWKUNLCYKE4G4MFOT'', ''CCMZ6X4KM3RC7HXWCZDTH7CMWIJXFPN6HLGKJBM63MCOW2AJ2V5W7YXY'',
         ''CDY6CPMPVGQ6GI5UG4BK2HHTQF5ASFYTV23CLFUZJB43DSKZVD5HN4UT''])]"

definition registerPolicyType :: "string \<Rightarrow> policy_type \<Rightarrow> (string \<times> policy_type) list \<Rightarrow> (string \<times> policy_type) list" where
  "registerPolicyType address t types = (if address \<noteq> [] then AList.update address t types else types)"

definition POLICY_TYPES :: "build_env \<Rightarrow> (string \<times> policy_type) list" where
  "POLICY_TYPES env = fold (\<lambda>(t, address). registerPolicyType address t)
     ([(ThresholdPolicy, orText (env ''VITE_THRESHOLD_POLICY_ADDRESS'') ''CAZ2WFUDXGX265LOEARFEOYYUL6F4BYWXZLGUAWZNJY3MRFPNLSZVS4S''),
       (SpendingLimitPolicy,
         orText (env ''VITE_SPENDING_LIMIT_POLICY_ADDRESS'') ''CC3CEYQAP6NPNFIYSWL5MVZRCPJZGWX4XO7WDEJOUVGO2FZX5OONYPA5''),
       (WeightedThresholdPolicy,
         orText (env ''VITE_WEIGHTED_THRESHOLD_POLICY_ADDRESS'') ''CDBYLFLUNPAYGE3AHZSMB4TFWECFCCHX6CJFMFO6HRPKK2W5PFU2LCKE'')] @
      concat (map (\<lambda>(t, addresses). map (Pair t) addresses) OTHER_POLICY_ADDRESSES)) []"

section \<open>The state of the page\<close>

record account_info =
  aiContractId :: "json option"
  aiContextRules :: jsnum
  aiExternalSigners :: jsnum
  aiDelegatedSigners :: jsnum
  aiNativeSigners :: jsnum
  aiFirstSeen :: jsnum
  aiLastSeen :: jsnum
  aiContextRuleIds :: "json option"
  aiExists :: "bool option"

datatype status_class = SuccessStatus | ErrorStatus | InfoStatus

text \<open>
  The variables of the script and what it shows. \<open>xpCards\<close> is the HTML of the list with, for each
  card in it, the text of its attribute \<^verbatim>\<open>data-contract-id\<close> as it was rendered.
\<close>

record explorer =
  xpSelected :: "string option"
  xpDiscovered :: "account_info list"
  xpCredential :: "string option"
  xpSigner :: "string option"
  xpKit :: "(string \<times> kit) option"
  xpIndexerUrl :: string
  xpRpcUrl :: string
  xpKeyInput :: string
  xpStatus :: "string \<times> status_class"
  xpStatusShown :: bool
  xpCards :: "string \<times> string list"
  xpDetails :: string
  xpDetailsShown :: bool

text \<open>The page as it is loaded, with its two URLs from the build environment or the defaults.\<close>

definition initialExplorer :: "build_env \<Rightarrow> explorer" where
  "initialExplorer env = \<lparr>xpSelected = None, xpDiscovered = [], xpCredential = None, xpSigner = None, xpKit = None,
     xpIndexerUrl = orText (env ''VITE_INDEXER_URL'') ''https://testnet.mercurydata.app/rest/smart-account-indexer'',
     xpRpcUrl = orText (env ''VITE_RPC_URL'') ''https://soroban-testnet.stellar.org'', xpKeyInput = [],
     xpStatus = ([], InfoStatus), xpStatusShown = False, xpCards = ([], []), xpDetails = [], xpDetailsShown = False\<rparr>"

text \<open>
  What the script finds around it: the build environment, the host name, the packages and services of
  the kit, the number of entries the RPC has for a contract instance (\<open>None\<close>: no list), the numbers of
  a decoded spending limit, and the text of a number in the language of the browser.
\<close>

record explorer_env =
  xeBuild :: build_env
  xeHost :: string
  xeBuilders :: sdk_builders
  xePlatform :: platform
  xeEntries :: "effect list \<Rightarrow> string \<Rightarrow> nat option result"
  xeSpending :: "scval \<Rightarrow> (jsnum \<times> jsnum) result"
  xeLocale :: "jsnum \<Rightarrow> string"

type_synonym 'a xact = "explorer \<Rightarrow> world \<Rightarrow> 'a result \<times> explorer \<times> world"

definition returnX :: "'a \<Rightarrow> 'a xact" where "returnX x p w = (Inr x, p, w)"

definition bindX :: "'a xact \<Rightarrow> ('a \<Rightarrow> 'b xact) \<Rightarrow> 'b xact" where
  "bindX m f p w = (case m p w of (r, p', w') \<Rightarrow> (case r of Inl e \<Rightarrow> (Inl e, p', w') | Inr x \<Rightarrow> f x p' w'))"

definition catchX :: "'a xact \<Rightarrow> (kit_error \<Rightarrow> 'a xact) \<Rightarrow> 'a xact" where
  "catchX m h p w = (case m p w of (r, p', w') \<Rightarrow> (case r of Inl e \<Rightarrow> h e p' w' | Inr x \<Rightarrow> (Inr x, p', w')))"

definition liftX :: "(explorer \<Rightarrow> 'a act) \<Rightarrow> 'a xact" where
  "liftX m p w = (case m p w of (r, w') \<Rightarrow> (r, p, w'))"

definition updateX :: "(explorer \<Rightarrow> explorer) \<Rightarrow> unit xact" where
  "updateX f p w = (Inr (), f p, w)"

definition showStatus :: "string \<Rightarrow> status_class \<Rightarrow> unit xact" where
  "showStatus message c = updateX (\<lambda>p. p\<lparr>xpStatus := (message, c), xpStatusShown := True\<rparr>)"

definition hideStatus :: "unit xact" where
  "hideStatus = updateX (\<lambda>p. p\<lparr>xpStatusShown := False\<rparr>)"

definition authKitConfig :: "explorer_env \<Rightarrow> explorer \<Rightarrow> kit_config" where
  "authKitConfig X p = (let env = xeBuild X in
     \<lparr>cfRpcUrl = Some (xpRpcUrl p), cfNetwork = Some (orText (env ''VITE_NETWORK_PASSPHRASE'') TESTNET),
      cfWasmHash = Some (orText (env ''VITE_ACCOUNT_WASM_HASH'') V080_ACCOUNT_WASM_HASH),
      cfVerifier = Some (orText (env ''VITE_WEBAUTHN_VERIFIER_ADDRESS'') ''CC7EKIHQP3TN4CARQDND6CEOY2UXLWWC2X5GHTD5NLAT7BG5GPZIOM3F''),
      cfAcceptedWasm = None, cfAcceptedBirth = None, cfSchemes = [], cfEd25519 = None, cfPolicies = None, cfTimeout = None,
      cfExpirationLedgers = None, cfProbe = None, cfRpId = Some (xeHost X), cfOrigins = None,
      cfRpName = Some ''Smart Account Indexer Demo'', cfHorizon = DefaultUrl, cfSessionExpiry = None,
      cfIndexer = UrlText (xpIndexerUrl p),
      cfIndexerToken = (if truthy (env ''VITE_INDEXER_AUTH_TOKEN'') then env ''VITE_INDEXER_AUTH_TOKEN'' else None),
      cfRelayerUrl = None, cfDeployerSecret = None\<rparr>)"

definition getAuthKit :: "explorer_env \<Rightarrow> kit xact" where
  "getAuthKit X p w = (let
       configKey = joinTexts ''|'' [xpRpcUrl p, xpIndexerUrl p, orText (xeBuild X ''VITE_INDEXER_AUTH_TOKEN'') [], xeHost X];
       create = (case newKit (plSdk (xePlatform X)) (xeBuilders X) (authKitConfig X p) of
           Inl e \<Rightarrow> (Inl e, p, w)
         | Inr kt \<Rightarrow> (Inr kt, p\<lparr>xpKit := Some (configKey, kt)\<rparr>, w)) in
     case xpKit p of
       Some (key, kt) \<Rightarrow> if key = configKey then (Inr kt, p, w) else create
     | None \<Rightarrow> create)"

section \<open>Live policy parameters\<close>

text \<open>\<^verbatim>\<open>for (const x of value)\<close>\<close>

definition iterated :: "json option \<Rightarrow> json list result" where
  "iterated v = (case v of
     Some (JArr xs) \<Rightarrow> Inr xs
   | Some (JStr s) \<Rightarrow> Inr (map (\<lambda>c. JStr [c]) s)
   | _ \<Rightarrow> Inl (JsError ''value is not iterable''))"

definition explorerKitEnv :: "explorer_env \<Rightarrow> kit_env" where
  "explorerKitEnv X = \<lparr>keSdk = plSdk (xePlatform X), keServices = plServices (xePlatform X),
     keNetwork = orText (xeBuild X ''VITE_NETWORK_PASSPHRASE'') TESTNET, keDeployer = []\<rparr>"

text \<open>A getter of a policy client: the rule id must be a 32-bit number and the account a contract address.\<close>

definition ruleIdArg :: "json option \<Rightarrow> scval result" where
  "ruleIdArg v = (case v of
     Some (JNum x) \<Rightarrow> (case safeInteger x of
         Some n \<Rightarrow> if 0 \<le> n \<and> n < 2 ^ 32 then Inr (ScvU32 (nat n)) else Inl (JsError ''XDR Write Error'')
       | None \<Rightarrow> Inl (JsError ''XDR Write Error''))
   | _ \<Rightarrow> Inl (JsError ''XDR Write Error''))"

definition accountArg :: "sdk \<Rightarrow> json option \<Rightarrow> scval result" where
  "accountArg K v = (case stringOf v of
     None \<Rightarrow> Inl (JsError ''Unsupported address type'')
   | Some a \<Rightarrow> bindE (addressFromString K a) (\<lambda>x. Inr (ScvAddress x)))"

definition readGetter :: "explorer_env \<Rightarrow> json option \<Rightarrow> string \<Rightarrow> string \<Rightarrow> json option \<Rightarrow> scval act" where
  "readGetter X contractId policyAddress fnName ruleId =
     bindA (liftA (accountArg (plSdk (xePlatform X)) contractId)) (\<lambda>account.
     bindA (liftA (ruleIdArg ruleId)) (\<lambda>i. simulateGetter (explorerKitEnv X) policyAddress fnName [i, account]))"

definition spendingText :: "jsnum \<Rightarrow> jsnum \<Rightarrow> string" where
  "spendingText limit period = (let days = wholeNum roundHalfUp (scaleNum period (1 / of_nat LEDGERS_PER_DAY)) in
     ''limit: '' @ numberText (scaleNum limit (1 / of_nat STROOPS_PER_XLM)) @ '' XLM, period: '' @ numberText days @ '' day'' @
     (if days \<noteq> Fin 1 then ''s'' else []))"

definition readPolicyText :: "explorer_env \<Rightarrow> json option \<Rightarrow> json option \<Rightarrow> string \<Rightarrow> policy_type \<Rightarrow> string act" where
  "readPolicyText X contractId ruleId policyAddress t =
     (if t = SpendingLimitPolicy
      then bindA (readGetter X contractId policyAddress ''get_spending_limit_data'' ruleId) (\<lambda>v.
        bindA (liftA (xeSpending X v)) (\<lambda>(limit, period). returnA (spendingText limit period)))
      else bindA (readGetter X contractId policyAddress ''get_threshold'' ruleId) (\<lambda>v.
        returnA (''threshold: '' @ numberText (plNumber (xePlatform X) v))))"

definition policyKey :: "json \<Rightarrow> json \<Rightarrow> string result" where
  "policyKey rule policy = bindE (jsText (field ''context_rule_id'' rule)) (\<lambda>i.
     bindE (jsText (field ''policy_address'' policy)) (\<lambda>a. Inr (i @ '':'' @ a)))"

text \<open>An unreadable policy is left out; its parameters are then those the indexer recorded.\<close>

definition readPolicy :: "explorer_env \<Rightarrow> json option \<Rightarrow> json \<Rightarrow> json \<Rightarrow> (string \<times> string) list \<Rightarrow> (string \<times> string) list act" where
  "readPolicy X contractId rule policy found =
     bindA (liftA (nonNull (Some policy))) (\<lambda>p.
     bindA (liftA (jsText (field ''policy_address'' p))) (\<lambda>address.
     (case (map_of (POLICY_TYPES (xeBuild X)) address, stringOf (field ''policy_address'' p)) of
        (Some t, Some a) \<Rightarrow> bindA (liftA (policyKey rule p)) (\<lambda>key.
          catchA (bindA (readPolicyText X contractId (field ''context_rule_id'' rule) a t) (\<lambda>s. returnA (AList.update key s found)))
            (\<lambda>e. returnA found))
      | _ \<Rightarrow> returnA found)))"

fun foldA :: "('a \<Rightarrow> 'b \<Rightarrow> 'b act) \<Rightarrow> 'a list \<Rightarrow> 'b \<Rightarrow> 'b act" where
  "foldA f [] y = returnA y"
| "foldA f (x # xs) y = bindA (f x y) (foldA f xs)"

definition readRulePolicies :: "explorer_env \<Rightarrow> json option \<Rightarrow> json \<Rightarrow> (string \<times> string) list \<Rightarrow> (string \<times> string) list act" where
  "readRulePolicies X contractId rule found = bindA (liftA (nonNull (Some rule))) (\<lambda>r.
     bindA (liftA (case field ''policies'' r of None \<Rightarrow> Inr [] | Some JNull \<Rightarrow> Inr [] | v \<Rightarrow> iterated v)) (\<lambda>policies.
       foldA (readPolicy X contractId r) policies found))"

definition readTypedPolicyParams :: "explorer_env \<Rightarrow> explorer \<Rightarrow> json option \<Rightarrow> json option \<Rightarrow> (string \<times> string) list act" where
  "readTypedPolicyParams X p contractId contextRules = bindA (liftA (sbRpc (xeBuilders X) (xpRpcUrl p))) (\<lambda>_.
     bindA (liftA (iterated contextRules)) (\<lambda>rules. foldA (readRulePolicies X contractId) rules []))"

section \<open>Asking the indexer\<close>

definition pageFetch :: "explorer_env \<Rightarrow> string \<Rightarrow> string \<Rightarrow> json xact" where
  "pageFetch X path failure = liftX (\<lambda>p. let url = xpIndexerUrl p @ path in
     requestA (FxFetch url None) (\<lambda>t. case svFetch (plServices (xePlatform X)) t url None of
         Fetched response \<Rightarrow>
           if \<not> hrOk response then Inl (JsError (failure @ '': '' @ hrStatusText response)) else hrJson response
       | FetchAborted \<Rightarrow> Inl (JsError ''The operation was aborted'')
       | FetchFailed e \<Rightarrow> Inl e))"

definition parsedInt :: "json option \<Rightarrow> jsnum result" where
  "parsedInt v = bindE (jsText v) (\<lambda>s. Inr (parseInt s))"

definition orZeroText :: "json option \<Rightarrow> json option" where
  "orZeroText v = (case v of Some j \<Rightarrow> if truthyJson j then v else Some (JStr ''0'') | None \<Rightarrow> Some (JStr ''0''))"

definition readAccountInfo :: "json option \<Rightarrow> account_info result" where
  "readAccountInfo v = bindE (nonNull v) (\<lambda>c.
     bindE (parsedInt (field ''context_rule_count'' c)) (\<lambda>rules.
     bindE (parsedInt (field ''external_signer_count'' c)) (\<lambda>externals.
     bindE (parsedInt (field ''delegated_signer_count'' c)) (\<lambda>delegated.
     bindE (parsedInt (orZeroText (field ''native_signer_count'' c))) (\<lambda>natives.
     bindE (parsedInt (field ''first_seen_ledger'' c)) (\<lambda>firstSeen.
     bindE (parsedInt (field ''last_seen_ledger'' c)) (\<lambda>lastSeen.
       Inr \<lparr>aiContractId = field ''contract_id'' c, aiContextRules = rules, aiExternalSigners = externals,
         aiDelegatedSigners = delegated, aiNativeSigners = natives, aiFirstSeen = firstSeen, aiLastSeen = lastSeen,
         aiContextRuleIds = field ''context_rule_ids'' c, aiExists = None\<rparr>)))))))"

text \<open>\<^verbatim>\<open>data.contracts.map(...)\<close>\<close>

definition listedAccounts :: "json \<Rightarrow> account_info list result" where
  "listedAccounts data = bindE (nonNull (Some data)) (\<lambda>d. bindE (nonNull (field ''contracts'' d)) (\<lambda>contracts.
     case contracts of
       JArr cs \<Rightarrow> mapE (\<lambda>c. readAccountInfo (Some c)) cs
     | _ \<Rightarrow> Inl (JsError ''data.contracts.map is not a function'')))"

definition liftR :: "'a result \<Rightarrow> 'a xact" where
  "liftR r p w = (r, p, w)"

definition lookupContractsByCredentialId :: "explorer_env \<Rightarrow> string \<Rightarrow> account_info list xact" where
  "lookupContractsByCredentialId X credentialId =
     bindX (pageFetch X (''/api/lookup/'' @ normalizeId credentialId) ''Indexer lookup failed'') (\<lambda>data. liftR (listedAccounts data))"

text \<open>\<open>left\<close> attempts remain of \<open>attempts\<close>; the delay between two of them is not carried.\<close>

fun retryLookup :: "explorer_env \<Rightarrow> string \<Rightarrow> nat \<Rightarrow> nat \<Rightarrow> account_info list xact" where
  "retryLookup X credentialId attempts 0 = returnX []"
| "retryLookup X credentialId attempts (Suc left) = bindX (lookupContractsByCredentialId X credentialId) (\<lambda>contracts.
     if contracts \<noteq> [] \<or> left = 0 then returnX contracts
     else bindX (showStatus (''Passkey response received. Waiting for indexer sync ('' @ decimal (attempts - left) @ ''/'' @
         decimal (attempts - 1) @ '')...'') InfoStatus) (\<lambda>_. retryLookup X credentialId attempts left))"

definition lookupContractsByCredentialIdWithRetry :: "explorer_env \<Rightarrow> string \<Rightarrow> nat option \<Rightarrow> account_info list xact" where
  "lookupContractsByCredentialIdWithRetry X credentialId options = (let attempts = (case options of Some n \<Rightarrow> n | None \<Rightarrow> 20) in
     retryLookup X credentialId attempts attempts)"

definition lookupContractsByAddress :: "explorer_env \<Rightarrow> string \<Rightarrow> account_info list xact" where
  "lookupContractsByAddress X address =
     bindX (pageFetch X (''/api/lookup/address/'' @ address) ''Indexer lookup failed'') (\<lambda>data. liftR (listedAccounts data))"

definition fetchDetails :: "explorer_env \<Rightarrow> string \<Rightarrow> json xact" where
  "fetchDetails X contractId = pageFetch X (''/api/contract/'' @ contractId) ''Failed to fetch contract details''"

definition lookupContractById :: "explorer_env \<Rightarrow> string \<Rightarrow> account_info xact" where
  "lookupContractById X contractId = bindX (fetchDetails X contractId) (\<lambda>details.
     liftR (bindE (nonNull (Some details)) (\<lambda>d. readAccountInfo (field ''summary'' d))))"

text \<open>A check that fails, or an address that is none, leaves the account as it is.\<close>

definition enrichWithContractCheck :: "explorer_env \<Rightarrow> account_info \<Rightarrow> account_info xact" where
  "enrichWithContractCheck X account = liftX (\<lambda>p. catchA
     (bindA (liftA (sbRpc (xeBuilders X) (xpRpcUrl p))) (\<lambda>_.
      bindA (liftA (case stringOf (aiContractId account) of
          None \<Rightarrow> Inl (JsError ''Unsupported address type'')
        | Some c \<Rightarrow> bindE (addressFromString (plSdk (xePlatform X)) c) (\<lambda>_. Inr c))) (\<lambda>c.
      bindA (requestA (FxRpcGetContractData c) (\<lambda>t. xeEntries X t c)) (\<lambda>entries.
        returnA (account\<lparr>aiExists := Some ((case entries of Some n \<Rightarrow> n | None \<Rightarrow> 0) > 0)\<rparr>)))))
     (\<lambda>e. returnA account))"

fun mapX :: "('a \<Rightarrow> 'b xact) \<Rightarrow> 'a list \<Rightarrow> 'b list xact" where
  "mapX f [] = returnX []"
| "mapX f (x # xs) = bindX (f x) (\<lambda>y. bindX (mapX f xs) (\<lambda>ys. returnX (y # ys)))"

section \<open>Rendering the list\<close>

definition quote :: "string \<Rightarrow> string" where
  "quote s = CHR 0x22 # s @ [CHR 0x22]"

definition attr :: "string \<Rightarrow> string \<Rightarrow> string" where
  "attr name v = name @ ''='' @ quote v"

definition tag :: "string \<Rightarrow> string" where
  "tag t = ''<'' @ t @ ''>''"

text \<open>A line break of a template, with the indentation of the next line.\<close>

definition nl :: "nat \<Rightarrow> string" where
  "nl n = CHR 0x0A # replicate n CHR '' ''"

definition shortAddress :: "string \<Rightarrow> string" where
  "shortAddress s = (if length s \<le> 19 then s else take 8 s @ ''...'' @ sliceEnd 8 s)"

text \<open>The same of any value, which has a \<^verbatim>\<open>length\<close> and a \<^verbatim>\<open>slice\<close> or throws.\<close>

definition truncateForDisplay :: "json option \<Rightarrow> json result" where
  "truncateForDisplay v = bindE (nonNull v) (\<lambda>address. (case address of
     JStr s \<Rightarrow> Inr (JStr (shortAddress s))
   | JArr xs \<Rightarrow> if length xs \<le> 19 then Inr address
       else bindE (jsString (JArr (take 8 xs))) (\<lambda>front. bindE (jsString (JArr (drop (length xs - 8) xs))) (\<lambda>back.
         Inr (JStr (front @ ''...'' @ back))))
   | JObj fs \<Rightarrow> (case jsonNumber (map_of fs ''length'') of
         Fin q \<Rightarrow> if q \<le> 19 then Inr address else Inl (JsError ''address.slice is not a function'')
       | NegInf \<Rightarrow> Inr address
       | _ \<Rightarrow> Inl (JsError ''address.slice is not a function''))
   | _ \<Rightarrow> Inl (JsError ''address.slice is not a function'')))"

definition plural :: "jsnum \<Rightarrow> string" where
  "plural n = (if n \<noteq> Fin 1 then ''s'' else [])"

text \<open>The two marks are characters of three bytes in UTF-8.\<close>

definition CHECK_MARK :: string where "CHECK_MARK = [CHR 0xE2, CHR 0x9C, CHR 0x93]"
definition CROSS_MARK :: string where "CROSS_MARK = [CHR 0xE2, CHR 0x9C, CHR 0x97]"

definition visibility :: "bool \<Rightarrow> string" where
  "visibility there = tag (''span '' @ attr ''class'' (if there then ''balance'' else ''activity'') @ '' '' @
     attr ''style'' ''white-space: nowrap;'') @
     (if there then CHECK_MARK @ '' Instance visible'' else CROSS_MARK @ '' Instance unavailable'') @ tag ''/span''"

text \<open>The template of a card, from the texts that are put into it.\<close>

definition cardTemplate :: "bool \<Rightarrow> bool option \<Rightarrow> string \<Rightarrow> string \<Rightarrow> string \<Rightarrow> string \<Rightarrow> string \<Rightarrow> string \<Rightarrow> string" where
  "cardTemplate isSelected there contractId index shown rules signers ledger =
     nl 6 @ tag (''div '' @ attr ''class'' (''contract-card '' @ (if isSelected then ''selected'' else [])) @
       nl 11 @ attr ''data-contract-id'' contractId @ nl 11 @ attr ''data-index'' index) @
     nl 8 @ tag (''div '' @ attr ''style'' ''display: flex; justify-content: space-between; align-items: flex-start;'') @
     nl 10 @ tag ''div'' @
     nl 12 @ tag (''div '' @ attr ''class'' ''contract-id'') @ shown @ tag ''/div'' @
     nl 12 @ tag (''div '' @ attr ''class'' ''activity'') @ ''Unverified indexer candidate'' @ tag ''/div'' @
     nl 12 @ tag (''div '' @ attr ''style'' ''margin-top: 0.5rem; display: flex; gap: 1rem; flex-wrap: wrap;'') @
     nl 14 @ tag (''span '' @ attr ''class'' ''activity'') @ rules @ tag ''/span'' @
     nl 14 @ tag (''span '' @ attr ''class'' ''activity'') @ signers @ tag ''/span'' @
     nl 12 @ tag ''/div'' @
     nl 12 @ tag (''div '' @ attr ''class'' ''activity'' @ '' '' @ attr ''style'' ''margin-top: 0.25rem;'') @
     nl 14 @ ''Last activity: ledger '' @ ledger @ nl 12 @ tag ''/div'' @
     nl 10 @ tag ''/div'' @
     nl 14 @ (case there of Some b \<Rightarrow> if isSelected then visibility b else [] | None \<Rightarrow> []) @
     nl 8 @ tag ''/div'' @
     nl 6 @ tag ''/div'' @ nl 4"

definition isSelected :: "string option \<Rightarrow> account_info \<Rightarrow> bool" where
  "isSelected selected c \<longleftrightarrow> (case aiContractId c of
     None \<Rightarrow> False | Some JNull \<Rightarrow> selected = None | Some (JStr s) \<Rightarrow> selected = Some s | _ \<Rightarrow> False)"

text \<open>One card, with the text of its attribute \<^verbatim>\<open>data-contract-id\<close>.\<close>

definition contractCard :: "explorer_env \<Rightarrow> string option \<Rightarrow> nat \<times> account_info \<Rightarrow> (string \<times> string) result" where
  "contractCard X selected = (\<lambda>(index, c).
     bindE (escapeHtml (aiContractId c)) (\<lambda>contractId.
     bindE (bindE (truncateForDisplay (aiContractId c)) (\<lambda>t. escapeHtml (Some t))) (\<lambda>shown.
       let signers = plusNum (aiExternalSigners c) (aiDelegatedSigners c) in
       Inr (cardTemplate (isSelected selected c) (aiExists c) contractId (decimal index) shown
         (numberText (aiContextRules c) @ '' context rule'' @ plural (aiContextRules c))
         (numberText signers @ '' signer'' @ plural signers) (xeLocale X (aiLastSeen c)), contractId))))"

definition emptyState :: string where
  "emptyState = nl 6 @ tag (''div '' @ attr ''class'' ''empty-state'') @ nl 8 @ ''No contracts found for this credential.'' @
     nl 6 @ tag ''/div'' @ nl 4"

definition renderContracts :: "explorer_env \<Rightarrow> account_info list \<Rightarrow> unit xact" where
  "renderContracts X contracts p w =
     (if contracts = [] then (Inr (), p\<lparr>xpCards := (emptyState, [])\<rparr>, w)
      else (case mapE (contractCard X (xpSelected p)) (zip [0..<length contracts] contracts) of
          Inl e \<Rightarrow> (Inl e, p, w)
        | Inr cards \<Rightarrow> (Inr (), p\<lparr>xpCards := (concat (map fst cards), map snd cards)\<rparr>, w)))"

end
