(* ===== verification/Kit_IndexerDetails.thy ===== *)
theory Kit_IndexerDetails
  imports Kit_IndexerPage
begin

text \<open>
  The details view of the indexer demo and its event handlers (\<^verbatim>\<open>indexer/demo/src/main.ts\<close>), with the
  tags that a page can have whatever the indexer answers.
\<close>

section \<open>Rendering the details\<close>

definition divTag :: "string \<Rightarrow> string" where
  "divTag c = ''div '' @ attr ''class'' c"

definition spanTag :: "string \<Rightarrow> string" where
  "spanTag c = ''span '' @ attr ''class'' c"

text \<open>A line with one value, indented by \<open>n\<close>; \<open>marked\<close> is a match with what was looked up.\<close>

definition credentialItem :: "nat \<Rightarrow> bool \<Rightarrow> string \<Rightarrow> string" where
  "credentialItem n marked value =
     nl n @ tag (divTag (''credential-item '' @ (if marked then ''highlight'' else []))) @
     nl (n + 2) @ (if marked then tag (spanTag ''match-badge'') @ ''LOOKUP MATCH'' @ tag ''/span'' else []) @
     nl (n + 2) @ tag (spanTag ''address-full'') @ value @ tag ''/span'' @
     nl n @ tag ''/div'' @ nl (n - 2)"

definition matchesCredential :: "string option \<Rightarrow> json \<Rightarrow> bool result" where
  "matchesCredential current s = (if \<not> truthy current then Inr False
     else (case field ''credential_id'' s of
         None \<Rightarrow> Inr False
       | Some JNull \<Rightarrow> Inr False
       | Some (JStr i) \<Rightarrow> Inr (toLower i = toLower (the current))
       | _ \<Rightarrow> Inl (JsError ''signer.credential_id.toLowerCase is not a function'')))"

definition matchesAddress :: "string option \<Rightarrow> json \<Rightarrow> bool" where
  "matchesAddress current s \<longleftrightarrow> truthy current \<and> field ''signer_address'' s = Some (JStr (the current))"

text \<open>
  The signers of a kind. Those with passkeys are grouped by verifier in a plain object: a name it
  inherits finds something without \<^verbatim>\<open>push\<close>, and \<^verbatim>\<open>Object.entries\<close> has the array indices first.
\<close>

definition signersOfKind :: "json \<Rightarrow> string \<Rightarrow> json list result" where
  "signersOfKind rule kind = bindE (nonNull (field ''signers'' rule)) (\<lambda>signers. (case signers of
     JArr xs \<Rightarrow> bindE (mapE (\<lambda>s. nonNull (Some s)) xs) (\<lambda>ys. Inr (filter (\<lambda>s. field ''signer_type'' s = Some (JStr kind)) ys))
   | _ \<Rightarrow> Inl (JsError ''rule.signers.filter is not a function'')))"

definition OBJECT_PROPERTIES :: "string list" where
  "OBJECT_PROPERTIES = [''constructor'', ''toString'', ''valueOf'', ''toLocaleString'', ''hasOwnProperty'', ''isPrototypeOf'',
     ''propertyIsEnumerable'', ''__proto__'', ''__defineGetter__'', ''__defineSetter__'', ''__lookupGetter__'', ''__lookupSetter__'']"

fun groupByVerifier :: "json list \<Rightarrow> (string \<times> json list) list \<Rightarrow> (string \<times> json list) list result" where
  "groupByVerifier [] groups = Inr groups"
| "groupByVerifier (s # ss) groups = (case field ''signer_address'' s of
     v \<Rightarrow> bindE (case v of Some j \<Rightarrow> if truthyJson j then jsString j else Inr ''unknown'' | None \<Rightarrow> Inr ''unknown'') (\<lambda>verifier.
       if verifier \<in> set OBJECT_PROPERTIES then Inl (JsError ''byVerifier[verifier].push is not a function'')
       else groupByVerifier ss (AList.update verifier ((case map_of groups verifier of Some g \<Rightarrow> g | None \<Rightarrow> []) @ [s]) groups)))"

definition isArrayIndex :: "string \<Rightarrow> bool" where
  "isArrayIndex k \<longleftrightarrow> isDigits k \<and> (k = ''0'' \<or> hd k \<noteq> CHR ''0'') \<and> digitsValue k < 2 ^ 32 - 1"

definition objectEntries :: "(string \<times> 'a) list \<Rightarrow> (string \<times> 'a) list" where
  "objectEntries es = sort_key (\<lambda>e. digitsValue (fst e)) (filter (\<lambda>e. isArrayIndex (fst e)) es) @
     filter (\<lambda>e. \<not> isArrayIndex (fst e)) es"

definition verifierGroup :: "string option \<Rightarrow> string \<times> json list \<Rightarrow> string result" where
  "verifierGroup current = (\<lambda>(verifier, signers).
     bindE (escapeHtml (Some (JStr verifier))) (\<lambda>v.
     bindE (mapE (\<lambda>s. bindE (matchesCredential current s) (\<lambda>m. bindE (escapeHtml (field ''credential_id'' s)) (\<lambda>i.
         Inr (credentialItem 12 m i)))) signers) (\<lambda>entries.
       Inr (nl 10 @ tag (divTag ''signer-group'') @ nl 12 @ tag (divTag ''signer-group-header'') @
         nl 14 @ tag (spanTag ''signer-type External'') @ ''External'' @ tag ''/span'' @
         nl 14 @ tag (spanTag ''verifier-label'') @ ''Verifier:'' @ tag ''/span'' @
         nl 14 @ tag (spanTag ''address-full'') @ v @ tag ''/span'' @
         nl 12 @ tag ''/div'' @ nl 12 @ tag (divTag ''signer-group-items'') @ nl 8 @
         concat entries @ nl 12 @ tag ''/div'' @ nl 10 @ tag ''/div'' @ nl 8))))"

text \<open>A group under a heading: of class \<open>kind\<close>, labelled \<open>label\<close>.\<close>

definition itemGroup :: "string \<Rightarrow> string \<Rightarrow> string list \<Rightarrow> string" where
  "itemGroup kind label entries =
     nl 8 @ tag (divTag ''signer-group'') @ nl 10 @ tag (divTag ''signer-group-header'') @
     nl 12 @ tag (spanTag (''signer-type '' @ kind)) @ label @ tag ''/span'' @ nl 10 @ tag ''/div'' @
     nl 10 @ tag (divTag ''signer-group-items'') @ nl 6 @
     concat entries @ nl 10 @ tag ''/div'' @ nl 8 @ tag ''/div'' @ nl 6"

definition addressGroup :: "string option \<Rightarrow> string \<Rightarrow> json list \<Rightarrow> string result" where
  "addressGroup current kind signers = (if signers = [] then Inr []
     else bindE (mapE (\<lambda>s. bindE (escapeHtml (field ''signer_address'' s)) (\<lambda>a.
         Inr (credentialItem 10 (matchesAddress current s) a))) signers) (\<lambda>entries. Inr (itemGroup kind kind entries)))"

text \<open>\<^verbatim>\<open>item.key?.symbol\<close>, and \<^verbatim>\<open>??\<close> of two values.\<close>

definition optionalField :: "string \<Rightarrow> json option \<Rightarrow> json option" where
  "optionalField name v = (case v of None \<Rightarrow> None | Some j \<Rightarrow> field name j)"

definition orNullish :: "json option \<Rightarrow> json option \<Rightarrow> json option" where
  "orNullish v d = (if v = None \<or> v = Some JNull then d else v)"

definition paramPart :: "json \<Rightarrow> string list result" where
  "paramPart item = bindE (nonNull (Some item)) (\<lambda>i. let key = optionalField ''symbol'' (field ''key'' i);
       val = orNullish (optionalField ''u32'' (field ''val'' i)) (optionalField ''i128'' (field ''val'' i)) in
     (case key of
        None \<Rightarrow> Inr []
      | Some k \<Rightarrow> if \<not> truthyJson k \<or> val = None then Inr []
          else bindE (jsString k) (\<lambda>ks. bindE (jsText val) (\<lambda>vs. Inr [ks @ '': '' @ vs]))))"

text \<open>An array has a \<^verbatim>\<open>map\<close> too, a function, over which there is no iteration.\<close>

definition formatPolicyParams :: "json option \<Rightarrow> string result" where
  "formatPolicyParams params = (case params of
     Some (JArr xs) \<Rightarrow> Inl (JsError ''params.map is not iterable'')
   | Some j \<Rightarrow> (case field ''map'' j of
         None \<Rightarrow> Inr []
       | Some m \<Rightarrow> if \<not> truthyJson m then Inr []
           else bindE (iterated (Some m)) (\<lambda>xs. bindE (mapE paramPart xs) (\<lambda>parts. Inr (joinTexts '', '' (concat parts)))))
   | None \<Rightarrow> Inr [])"

definition policyItem :: "(string \<times> string) list \<Rightarrow> json \<Rightarrow> json \<Rightarrow> string result" where
  "policyItem typed rule policy = bindE (nonNull (Some policy)) (\<lambda>p.
     bindE (policyKey rule p) (\<lambda>key.
     bindE (case map_of typed key of Some s \<Rightarrow> Inr s | None \<Rightarrow> formatPolicyParams (field ''install_params'' p)) (\<lambda>params.
     bindE (escapeHtml (field ''policy_address'' p)) (\<lambda>address.
       Inr (nl 10 @ tag (divTag ''credential-item'') @ nl 12 @ tag (spanTag ''address-full'') @ address @ tag ''/span'' @
         nl 12 @ (if params \<noteq> [] then tag (spanTag ''policy-params'') @ escapeText params @ tag ''/span'' else []) @
         nl 10 @ tag ''/div'' @ nl 8)))))"

text \<open>\<^verbatim>\<open>rule.policies && rule.policies.length > 0\<close>\<close>

definition hasPolicies :: "json option \<Rightarrow> bool" where
  "hasPolicies v = (case v of
     Some (JArr xs) \<Rightarrow> xs \<noteq> []
   | Some (JStr s) \<Rightarrow> s \<noteq> []
   | Some (JObj fs) \<Rightarrow> (case jsonNumber (map_of fs ''length'') of Fin q \<Rightarrow> q > 0 | PosInf \<Rightarrow> True | _ \<Rightarrow> False)
   | _ \<Rightarrow> False)"

definition policiesHtml :: "(string \<times> string) list \<Rightarrow> json \<Rightarrow> string result" where
  "policiesHtml typed rule = (if \<not> hasPolicies (field ''policies'' rule) then Inr []
     else bindE (iterated (field ''policies'' rule)) (\<lambda>policies.
       bindE (mapE (policyItem typed rule) policies) (\<lambda>entries. Inr (itemGroup ''Policy'' ''Policies'' entries))))"

definition ruleHtml :: "explorer \<Rightarrow> (string \<times> string) list \<Rightarrow> json \<Rightarrow> string result" where
  "ruleHtml p typed r = bindE (nonNull (Some r)) (\<lambda>rule.
     bindE (escapeHtml (field ''context_rule_id'' rule)) (\<lambda>i.
     bindE (signersOfKind rule ''External'') (\<lambda>externals.
     bindE (signersOfKind rule ''Delegated'') (\<lambda>delegated.
     bindE (signersOfKind rule ''Native'') (\<lambda>natives.
     bindE (groupByVerifier externals []) (\<lambda>groups.
     bindE (mapE (verifierGroup (xpCredential p)) (objectEntries groups)) (\<lambda>passkeys.
     bindE (addressGroup (xpSigner p) ''Delegated'' delegated) (\<lambda>accounts.
     bindE (addressGroup (xpSigner p) ''Native'' natives) (\<lambda>others.
     bindE (policiesHtml typed rule) (\<lambda>policies.
       Inr (nl 6 @ tag (divTag ''context-rule'') @ nl 8 @ tag ''h4'' @ ''Context Rule #'' @ i @ tag ''/h4'' @ nl 4 @
         concat passkeys @ accounts @ others @ policies @ tag ''/div'')))))))))))"

definition detailsHtml :: "explorer \<Rightarrow> (string \<times> string) list \<Rightarrow> json option \<Rightarrow> json option \<Rightarrow> string result" where
  "detailsHtml p typed contractId contextRules =
     bindE (escapeHtml contractId) (\<lambda>i.
     bindE (iterated contextRules) (\<lambda>rules.
     bindE (mapE (ruleHtml p typed) rules) (\<lambda>parts.
       Inr (nl 4 @ tag (divTag ''contract-full-id'') @ i @ tag ''/div'' @ nl 2 @ concat parts))))"

definition renderContractDetails :: "explorer_env \<Rightarrow> json \<Rightarrow> unit xact" where
  "renderContractDetails X details = bindX (liftR (nonNull (Some details))) (\<lambda>d.
     let contractId = field ''contractId'' d; contextRules = field ''contextRules'' d in
     bindX (updateX (\<lambda>p. p\<lparr>xpDetailsShown := True\<rparr>)) (\<lambda>_.
     bindX (liftX (\<lambda>p. readTypedPolicyParams X p contractId contextRules)) (\<lambda>typed.
     bindX (liftX (\<lambda>p. liftA (detailsHtml p typed contractId contextRules))) (\<lambda>html.
       updateX (\<lambda>p. p\<lparr>xpDetails := html\<rparr>)))))"

definition hideContractDetails :: "unit xact" where
  "hideContractDetails = updateX (\<lambda>p. p\<lparr>xpDetailsShown := False\<rparr>)"

section \<open>Event handlers\<close>

definition viewContractDetails :: "explorer_env \<Rightarrow> string \<Rightarrow> unit xact" where
  "viewContractDetails X contractId = (let shown = shortAddress contractId in
     bindX (showStatus (''Loading contract details for '' @ shown @ ''...'') InfoStatus) (\<lambda>_.
     catchX
       (bindX (fetchDetails X contractId) (\<lambda>details. bindX (renderContractDetails X details) (\<lambda>_.
         showStatus (''Viewing details for '' @ shown) SuccessStatus)))
       (\<lambda>e. showStatus (''Failed to load contract details: '' @ errorMessage e) ErrorStatus)))"

text \<open>A click on a card: the browser reads the attribute, decoding its character references.\<close>

definition clickCard :: "explorer_env \<Rightarrow> nat \<Rightarrow> unit xact" where
  "clickCard X i p w = (if i < length (snd (xpCards p)) then
     (let contractId = unescapeHtml (snd (xpCards p) ! i) in
      if contractId = [] then (Inr (), p, w)
      else bindX (updateX (\<lambda>p. p\<lparr>xpSelected := Some contractId\<rparr>)) (\<lambda>_.
        bindX (\<lambda>p. renderContracts X (xpDiscovered p) p) (\<lambda>_. viewContractDetails X contractId)) p w)
     else (Inr (), p, w))"

text \<open>
  What the three lookups by signer share once a lookup is started: nothing found, or the candidates
  found, checked one by one and listed; none is selected.
\<close>

definition listCandidates :: "explorer_env \<Rightarrow> account_info list xact \<Rightarrow> string \<Rightarrow> string \<Rightarrow> unit xact" where
  "listCandidates X search nothing found = bindX search (\<lambda>contracts.
     bindX (updateX (\<lambda>p. p\<lparr>xpDiscovered := contracts\<rparr>)) (\<lambda>_.
     if contracts = [] then bindX (showStatus nothing InfoStatus) (\<lambda>_. renderContracts X [])
     else bindX (showStatus (''Found '' @ decimal (length contracts) @ found) SuccessStatus) (\<lambda>_.
       bindX (mapX (enrichWithContractCheck X) contracts) (\<lambda>enriched.
       bindX (updateX (\<lambda>p. p\<lparr>xpDiscovered := enriched\<rparr>)) (\<lambda>_. renderContracts X enriched)))))"

definition startSearch :: "string option \<Rightarrow> string option \<Rightarrow> unit xact" where
  "startSearch credential signer_address =
     updateX (\<lambda>p. p\<lparr>xpSelected := None, xpCredential := credential, xpSigner := signer_address\<rparr>)"

definition reportFailure :: "string \<Rightarrow> unit xact \<Rightarrow> unit xact" where
  "reportFailure what m = catchX m (\<lambda>e. showStatus (what @ '': '' @ errorMessage e) ErrorStatus)"

text \<open>\<^verbatim>\<open>atob\<close>: at most two padding signs, no length of one more than a multiple of four, no other characters.\<close>

definition BASE64_DIGITS :: string where
  "BASE64_DIGITS = ''ABCDEFGHIJKLMNOPQRSTUVWXYZabcdefghijklmnopqrstuvwxyz0123456789+/''"

definition sextet :: "char \<Rightarrow> nat option" where
  "sextet c = map_option fst (List.find (\<lambda>(i, d). d = c) (zip [0..<64] BASE64_DIGITS))"

fun sextetBytes :: "nat list \<Rightarrow> buffer" where
  "sextetBytes (a # b # c # d # ss) =
     word_of_nat (a * 4 + b div 16) # word_of_nat (b mod 16 * 16 + c div 4) # word_of_nat (c mod 4 * 64 + d) # sextetBytes ss"
| "sextetBytes [a, b, c] = [word_of_nat (a * 4 + b div 16), word_of_nat (b mod 16 * 16 + c div 4)]"
| "sextetBytes [a, b] = [word_of_nat (a * 4 + b div 16)]"
| "sextetBytes _ = []"

definition atob :: "string \<Rightarrow> buffer result" where
  "atob data = (let s = filter (\<lambda>c. c \<notin> set [CHR 0x09, CHR 0x0A, CHR 0x0C, CHR 0x0D, CHR '' '']) data;
       unpad = (\<lambda>t. if t \<noteq> [] \<and> last t = CHR ''='' then butlast t else t);
       body = (if 4 dvd length s then unpad (unpad s) else s) in
     if length body mod 4 = 1 \<or> \<not> list_all (\<lambda>c. sextet c \<noteq> None) body
     then Inl (JsError ''The string to be decoded is not correctly encoded.'')
     else Inr (sextetBytes (List.map_filter sextet body)))"

definition base64UrlToBytes :: "string \<Rightarrow> buffer result" where
  "base64UrlToBytes base64url = (let padding = replicate ((4 - length base64url mod 4) mod 4) CHR ''='' in
     atob (map (\<lambda>c. if c = CHR ''-'' then CHR ''+'' else if c = CHR ''_'' then CHR ''/'' else c) base64url @ padding))"

definition authClicked :: "explorer_env \<Rightarrow> unit xact" where
  "authClicked X = reportFailure ''Authentication failed''
     (bindX hideStatus (\<lambda>_. bindX (showStatus ''Authenticating with passkey...'' InfoStatus) (\<lambda>_.
      bindX (getAuthKit X) (\<lambda>kt. bindX (liftX (\<lambda>p. kitAuthenticatePasskey (xePlatform X) kt)) (\<lambda>(credentialId, response).
      bindX (showStatus ''Passkey response received. Looking up candidates...'' InfoStatus) (\<lambda>_.
      bindX (updateX (\<lambda>p. p\<lparr>xpSelected := None\<rparr>)) (\<lambda>_.
      bindX (liftR (base64UrlToBytes credentialId)) (\<lambda>rawIdBytes. let hex = toHex rawIdBytes in
      bindX (startSearch (Some hex) None) (\<lambda>_.
      bindX (updateX (\<lambda>p. p\<lparr>xpKeyInput := hex\<rparr>)) (\<lambda>_.
        listCandidates X (lookupContractsByCredentialIdWithRetry X hex None)
          (''No contracts found for credential ID: '' @ take 16 hex @ ''...'') '' unverified candidate(s)''))))))))))"

definition lookupClicked :: "explorer_env \<Rightarrow> unit xact" where
  "lookupClicked X p w = (let credentialId = trim (xpKeyInput p) in
     if credentialId = [] then showStatus ''Please enter a credential ID'' ErrorStatus p w
     else reportFailure ''Lookup failed''
       (bindX hideStatus (\<lambda>_. bindX (showStatus ''Looking up contracts...'' InfoStatus) (\<lambda>_.
        bindX (startSearch (Some (toLower credentialId)) None) (\<lambda>_.
          listCandidates X (lookupContractsByCredentialId X credentialId)
            ''No contracts found for this public key'' '' contract(s)'')))) p w)"

definition addressLookupClicked :: "explorer_env \<Rightarrow> string \<Rightarrow> unit xact" where
  "addressLookupClicked X input = (let address = trim input in
     if address = [] then showStatus ''Please enter a Stellar address'' ErrorStatus
     else reportFailure ''Lookup failed''
       (bindX hideStatus (\<lambda>_. bindX (showStatus ''Looking up contracts by address...'' InfoStatus) (\<lambda>_.
        bindX (startSearch None (Some address)) (\<lambda>_.
          listCandidates X (lookupContractsByAddress X address) ''No contracts found for this address'' '' contract(s)'')))))"

definition contractLookupClicked :: "explorer_env \<Rightarrow> string \<Rightarrow> unit xact" where
  "contractLookupClicked X input = (let contractId = trim input;
       shown = shortAddress contractId in
     if contractId = [] then showStatus ''Please enter a contract ID'' ErrorStatus
     else catchX
       (bindX hideStatus (\<lambda>_. bindX (showStatus (''Looking up contract '' @ shown @ ''...'') InfoStatus) (\<lambda>_.
        bindX (updateX (\<lambda>p. p\<lparr>xpSelected := Some contractId, xpCredential := None, xpSigner := None\<rparr>)) (\<lambda>_.
        bindX (lookupContractById X contractId) (\<lambda>contract.
        bindX (enrichWithContractCheck X contract) (\<lambda>enriched.
        bindX (updateX (\<lambda>p. p\<lparr>xpDiscovered := [enriched]\<rparr>)) (\<lambda>_.
        bindX (renderContracts X [enriched]) (\<lambda>_. viewContractDetails X contractId))))))))
       (\<lambda>e. bindX (showStatus (''Lookup failed: '' @ errorMessage e) ErrorStatus) (\<lambda>_.
         bindX (renderContracts X []) (\<lambda>_. hideContractDetails))))"

definition backClicked :: "unit xact" where
  "backClicked = bindX hideContractDetails (\<lambda>_. bindX (showStatus [] InfoStatus) (\<lambda>_. hideStatus))"

section \<open>What a page can be made of\<close>

definition DETAILS_TAGS :: "string list" where
  "DETAILS_TAGS = [''h4'', ''/h4'', ''/div'', ''/span'', divTag ''contract-full-id'', divTag ''context-rule'', divTag ''signer-group'',
     divTag ''signer-group-header'', divTag ''signer-group-items'', divTag ''credential-item'', divTag ''credential-item '',
     divTag ''credential-item highlight'', spanTag ''signer-type External'', spanTag ''signer-type Delegated'',
     spanTag ''signer-type Native'', spanTag ''signer-type Policy'', spanTag ''verifier-label'', spanTag ''address-full'',
     spanTag ''match-badge'', spanTag ''policy-params'']"

abbreviation plainDetails :: "string \<Rightarrow> bool" where
  "plainDetails \<equiv> onlyTags (set DETAILS_TAGS)"

lemma details_tag [tag_rules]: "t \<in> set DETAILS_TAGS \<Longrightarrow> plainDetails (tag t)"
  unfolding tag_def
  by (rule onlyTags_tag) (auto simp: DETAILS_TAGS_def divTag_def spanTag_def attr_def quote_def)

lemma nl_plain [tag_rules]: "onlyTags T (nl n)"
  by (rule onlyTags_plain) (simp add: nl_def)

lemma details_members [simp]:
  "''h4'' \<in> set DETAILS_TAGS" "''/h4'' \<in> set DETAILS_TAGS" "''/div'' \<in> set DETAILS_TAGS" "''/span'' \<in> set DETAILS_TAGS"
  "divTag ''contract-full-id'' \<in> set DETAILS_TAGS" "divTag ''context-rule'' \<in> set DETAILS_TAGS"
  "divTag ''signer-group'' \<in> set DETAILS_TAGS" "divTag ''signer-group-header'' \<in> set DETAILS_TAGS"
  "divTag ''signer-group-items'' \<in> set DETAILS_TAGS" "divTag ''credential-item'' \<in> set DETAILS_TAGS"
  "divTag ''credential-item '' \<in> set DETAILS_TAGS" "divTag ''credential-item highlight'' \<in> set DETAILS_TAGS"
  "spanTag ''signer-type External'' \<in> set DETAILS_TAGS" "spanTag ''signer-type Delegated'' \<in> set DETAILS_TAGS"
  "spanTag ''signer-type Native'' \<in> set DETAILS_TAGS" "spanTag ''signer-type Policy'' \<in> set DETAILS_TAGS"
  "spanTag ''verifier-label'' \<in> set DETAILS_TAGS" "spanTag ''address-full'' \<in> set DETAILS_TAGS"
  "spanTag ''match-badge'' \<in> set DETAILS_TAGS" "spanTag ''policy-params'' \<in> set DETAILS_TAGS"
  by (simp_all add: DETAILS_TAGS_def)

lemma concat_details: "mapE f xs = Inr ys \<Longrightarrow> (\<And>x y. f x = Inr y \<Longrightarrow> onlyTags T y) \<Longrightarrow> onlyTags T (concat ys)"
  by (rule onlyTags_concat) (auto simp: mapE_Inr list_all2_conv_all_nth in_set_conv_nth)

lemma credentialItem_details: "plainDetails value \<Longrightarrow> plainDetails (credentialItem n marked value)"
  unfolding credentialItem_def by (intro tag_rules) (simp_all add: onlyTags_plain)

lemma itemGroup_details:
  "spanTag (''signer-type '' @ kind) \<in> set DETAILS_TAGS \<Longrightarrow> CHR ''<'' \<notin> set label \<Longrightarrow> plainDetails (concat entries) \<Longrightarrow>
     plainDetails (itemGroup kind label entries)"
  unfolding itemGroup_def by (intro tag_rules) (simp_all add: onlyTags_plain)

lemma verifierGroup_details:
  assumes "verifierGroup current (verifier, signers) = Inr s"
  shows "plainDetails s"
proof -
  obtain v entries where v: "escapeHtml (Some (JStr verifier)) = Inr v" and e: "mapE (\<lambda>s. bindE (matchesCredential current s)
      (\<lambda>m. bindE (escapeHtml (field ''credential_id'' s)) (\<lambda>i. Inr (credentialItem 12 m i)))) signers = Inr entries"
    and s: "s = nl 10 @ tag (divTag ''signer-group'') @ nl 12 @ tag (divTag ''signer-group-header'') @
         nl 14 @ tag (spanTag ''signer-type External'') @ ''External'' @ tag ''/span'' @
         nl 14 @ tag (spanTag ''verifier-label'') @ ''Verifier:'' @ tag ''/span'' @
         nl 14 @ tag (spanTag ''address-full'') @ v @ tag ''/span'' @
         nl 12 @ tag ''/div'' @ nl 12 @ tag (divTag ''signer-group-items'') @ nl 8 @
         concat entries @ nl 12 @ tag ''/div'' @ nl 10 @ tag ''/div'' @ nl 8"
    using assms by (auto simp: verifierGroup_def bindE_Inr simp del: append_assoc)
  have "plainDetails (concat entries)"
    by (rule concat_details [OF e]) (auto simp: bindE_Inr intro: credentialItem_details onlyTags_escaped)
  moreover have "plainDetails v" using v by (rule onlyTags_escaped)
  ultimately show ?thesis unfolding s by (intro tag_rules) (simp_all add: onlyTags_plain)
qed

lemma addressGroup_details:
  assumes "addressGroup current kind signers = Inr s" "kind \<in> {''Delegated'', ''Native''}"
  shows "plainDetails s"
proof (cases "signers = []")
  case False
  then obtain entries where e: "mapE (\<lambda>s. bindE (escapeHtml (field ''signer_address'' s)) (\<lambda>a.
      Inr (credentialItem 10 (matchesAddress current s) a))) signers = Inr entries" "s = itemGroup kind kind entries"
    using assms(1) by (auto simp: addressGroup_def bindE_Inr)
  have "plainDetails (concat entries)"
    by (rule concat_details [OF e(1)]) (auto simp: bindE_Inr intro: credentialItem_details onlyTags_escaped)
  with assms(2) e(2) show ?thesis by (auto intro!: itemGroup_details)
qed (use assms(1) in \<open>simp add: addressGroup_def tag_rules\<close>)

lemma policyItem_details: "policyItem typed rule policy = Inr s \<Longrightarrow> plainDetails s"
  unfolding policyItem_def bindE_Inr
  by (elim exE conjE, drule onlyTags_escaped [where T = "set DETAILS_TAGS"], drule sym [of "Inr _" "Inr s"],
      simp only: sum.inject, intro tag_rules)
    (simp_all add: onlyTags_plain markup_plain)

lemma policiesHtml_details: "policiesHtml typed rule = Inr s \<Longrightarrow> plainDetails s"
  by (auto simp: policiesHtml_def bindE_Inr split: if_splits
      intro!: tag_rules itemGroup_details intro: concat_details policyItem_details)

lemma ruleHtml_details:
  assumes "ruleHtml p typed r = Inr s"
  shows "plainDetails s"
proof -
  obtain rule i groups passkeys delegated accounts natives others policies where
      v: "escapeHtml (field ''context_rule_id'' rule) = Inr i"
        "mapE (verifierGroup (xpCredential p)) (objectEntries groups) = Inr passkeys"
        "addressGroup (xpSigner p) ''Delegated'' delegated = Inr accounts"
        "addressGroup (xpSigner p) ''Native'' natives = Inr others" "policiesHtml typed rule = Inr policies"
    and s: "s = nl 6 @ tag (divTag ''context-rule'') @ nl 8 @ tag ''h4'' @ ''Context Rule #'' @ i @ tag ''/h4'' @ nl 4 @
         concat passkeys @ accounts @ others @ policies @ tag ''/div''"
    using assms by (auto simp: ruleHtml_def bindE_Inr simp del: append_assoc)
  have "plainDetails i" "plainDetails (concat passkeys)" "plainDetails accounts" "plainDetails others" "plainDetails policies"
    using v by (auto intro: onlyTags_escaped concat_details verifierGroup_details policiesHtml_details addressGroup_details)
  then show ?thesis unfolding s by (intro tag_rules) (simp_all add: onlyTags_plain)
qed

lemma detailsHtml_details:
  assumes "detailsHtml p typed contractId contextRules = Inr s"
  shows "plainDetails s"
proof -
  obtain i rules parts where v: "escapeHtml contractId = Inr i" "mapE (ruleHtml p typed) rules = Inr parts"
    and s: "s = nl 4 @ tag (divTag ''contract-full-id'') @ i @ tag ''/div'' @ nl 2 @ concat parts"
    using assms by (auto simp: detailsHtml_def bindE_Inr simp del: append_assoc)
  have "plainDetails i" "plainDetails (concat parts)"
    using v by (auto intro: onlyTags_escaped concat_details ruleHtml_details)
  then show ?thesis unfolding s by (intro tag_rules) (simp_all add: onlyTags_plain)
qed

lemma bindX_Inr: "bindX m f p w = (Inr y, q) \<longleftrightarrow> (\<exists>x p' w'. m p w = (Inr x, p', w') \<and> f x p' w' = (Inr y, q))"
  by (auto simp: bindX_def split: prod.splits sum.splits)

lemma explorer_run [simp]:
  "returnX x p w = (Inr x, p, w)" "updateX f p w = (Inr (), f p, w)" "liftR r p w = (r, p, w)"
  by (simp_all add: returnX_def updateX_def liftR_def)

lemma liftX_Inr: "liftX m p w = (Inr x, p', w') \<longleftrightarrow> p' = p \<and> m p w = (Inr x, w')"
  by (auto simp: liftX_def split: prod.splits)

lemma rendered_details:
  assumes "renderContractDetails X d p w = (Inr (), p', w')"
  shows "\<exists>html typed q. detailsHtml q typed (field ''contractId'' d) (field ''contextRules'' d) = Inr html \<and>
     p' = p\<lparr>xpDetailsShown := True, xpDetails := html\<rparr>"
proof -
  have "d \<noteq> JNull" using assms by (auto simp: renderContractDetails_def bindX_Inr nonNull_def)
  then have n: "nonNull (Some d) = Inr d" by (cases d) (simp_all add: nonNull_def)
  then show ?thesis using assms
    by (auto simp: renderContractDetails_def bindX_Inr liftX_Inr run_simps Let_def)
qed

text \<open>
  C40. Whatever the indexer answers and whatever the policy clients read, the details it is rendered to
  hold no tag but those of the templates, attributes included: no value of the answer adds one.
\<close>

theorem details_hold_no_foreign_tag:
  assumes "renderContractDetails X d p w = (Inr (), p', w')"
  shows "set (tagsOf (xpDetails p')) \<subseteq> set DETAILS_TAGS"
proof -
  obtain html where "plainDetails html" "xpDetails p' = html"
    using rendered_details [OF assms] detailsHtml_details by fastforce
  then show ?thesis by (simp add: onlyTags_tagsOf)
qed

definition hostileDetails :: json where
  "hostileDetails = JObj [(''contractId'', JStr ''<b>''), (''contextRules'', JArr [JObj [(''context_rule_id'', JStr ''<i>''),
     (''signers'', JArr [JObj [(''signer_type'', JStr ''External''), (''credential_id'', JStr ''<script>'')]]),
     (''policies'', JArr [JObj [(''policy_address'', JStr ''P''), (''install_params'', JObj [(''map'', JArr [JObj
       [(''key'', JObj [(''symbol'', JStr ''<u>'')]), (''val'', JObj [(''u32'', JStr ''>'')])]])])]])]])]"

definition demoExplorerEnv :: explorer_env where
  "demoExplorerEnv = \<lparr>xeBuild = (\<lambda>v. None), xeHost = ''localhost'', xeBuilders = demoBuilders, xePlatform = demoPlatform,
     xeEntries = (\<lambda>t c. Inr (Some 1)), xeSpending = (\<lambda>v. Inr (NaN, NaN)), xeLocale = numberText\<rparr>"

definition demoExplorer :: explorer where
  "demoExplorer = initialExplorer (\<lambda>v. None)"

lemma details_hold_no_foreign_tag_witness:
  "let (r, p, w) = renderContractDetails demoExplorerEnv hostileDetails demoExplorer demoWorld in
     r = Inr () \<and> set (tagsOf (xpDetails p)) \<subseteq> set DETAILS_TAGS \<and> length (tagsOf (xpDetails p)) = 36"
proof -
  obtain r p w where d: "renderContractDetails demoExplorerEnv hostileDetails demoExplorer demoWorld = (r, p, w)"
    by (metis prod_cases3)
  have "fst (renderContractDetails demoExplorerEnv hostileDetails demoExplorer demoWorld) = Inr ()"
    by code_simp
  with d have r: "r = Inr ()" by simp
  have "length (tagsOf (xpDetails (fst (snd (renderContractDetails demoExplorerEnv hostileDetails demoExplorer demoWorld))))) = 36"
    by code_simp
  then show ?thesis using details_hold_no_foreign_tag [OF d [unfolded r]] d r by simp
qed

end
