(* ===== verification/Kit_IndexerShown.thy ===== *)
theory Kit_IndexerShown
  imports Kit_IndexerDetails
begin

text \<open>
  What the indexer demo shows after its handlers ran: the cards of the list and the contract a click on
  one selects, the marks of a lookup, the number of requests of a lookup with retries, and which answer
  fills the details view.
\<close>

section \<open>Cards\<close>

text \<open>The markup of a card, which holds no value of an account.\<close>

definition cardMarkup :: "bool \<Rightarrow> bool option \<Rightarrow> string" where
  "cardMarkup selected there = markup (cardTemplate selected there [] [] [] [] [] [])"

lemma cardTemplate_markup:
  assumes "markup a = []" "markup b = []" "markup c = []" "markup d = []" "markup e = []" "markup f = []"
  shows "markup (cardTemplate selected there a b c d e f) = cardMarkup selected there"
proof -
  have t: "markup (tag s) = CHR ''<'' # markup s @ [CHR ''>'']" for s by (simp add: tag_def markup_def MARKUP_def)
  have q: "markup (attr n v) = markup n @ CHR 0x22 # markup v @ [CHR 0x22]" for n v
    by (simp add: attr_def quote_def markup_def MARKUP_def)
  show ?thesis using assms by (simp only: cardMarkup_def cardTemplate_def markup_append t q append_Nil) (simp add: markup_def)
qed

lemma markup_set: "set s \<inter> set MARKUP = {} \<Longrightarrow> markup s = []"
  by (auto simp: markup_def filter_empty_conv)

lemma decimal_chars: "set (decimal n) \<subseteq> Collect isDigit"
  using isDigits_decimal [of n] by (auto simp: isDigits_def list_all_iff)

lemma MARKUP_chars: "set MARKUP \<inter> (Collect isDigit \<union> set ''-+.eInfityNa'') = {}"
  by (auto simp: MARKUP_def isDigit_def)

lemma numberToString_chars: "set (numberToString x) \<subseteq> Collect isDigit \<union> set ''-+.e''"
proof -
  let ?ok = "list_all (\<lambda>c. isDigit c \<or> c \<in> set ''-+.e'')"
  have d: "?ok (decimal n)" for n using decimal_chars by (auto simp: list_all_iff)
  then have t: "?ok (take k (decimal n))" "?ok (drop k (decimal n))" for k n
    by (auto simp: list_all_iff dest: in_set_takeD in_set_dropD)
  have z: "?ok (zeros n)" for n by (simp add: zeros_def list_all_iff isDigit_def)
  have e: "?ok (exponentText n)" for n using d by (simp add: exponentText_def)
  have "CHR ''.'' \<in> set ''-+.e''" "CHR ''e'' \<in> set ''-+.e''" by simp_all
  with d t z e have "?ok (numberToString x)"
    by (simp add: numberToString_def Let_def isDigit_def [of "CHR ''0''"] del: set_simps list.set)
  then show ?thesis by (auto simp: list_all_iff)
qed

lemma numberText_markup: "markup (numberText x) = []"
proof (rule markup_set)
  have "set (numberText x) \<subseteq> Collect isDigit \<union> set ''-+.eInfityNa''"
    using numberToString_chars by (auto simp: numberText_def isDigit_def split: jsnum.splits)
  then show "set (numberText x) \<inter> set MARKUP = {}" using MARKUP_chars by blast
qed

lemma decimal_markup: "markup (decimal n) = []"
  by (rule markup_set) (use decimal_chars MARKUP_chars in blast)

lemma plural_markup: "markup (plural n) = []"
  by (simp add: plural_def markup_def MARKUP_def)

lemma markup_Cons: "markup (c # s) = (if c \<in> set MARKUP then c # markup s else markup s)"
  by (simp add: markup_def)

lemma escapeHtml_Some: "escapeHtml (Some j) = Inr t \<Longrightarrow> j \<noteq> JNull \<Longrightarrow> \<exists>s. jsString j = Inr s \<and> t = escapeText s"
  by (cases j) (auto simp: escapeHtml_def bindE_Inr split: if_splits)

lemma truncated_value: "truncateForDisplay v = Inr t \<Longrightarrow> \<exists>j. v = Some j \<and> j \<noteq> JNull"
  by (cases v) (auto simp: truncateForDisplay_def nonNull_def)

lemma contractCard_shape:
  assumes "contractCard X selected (i, c) = Inr (html, attribute)" "\<forall>n. markup (xeLocale X n) = []"
  shows "markup html = cardMarkup (isSelected selected c) (aiExists c) \<and> jsText (aiContractId c) = Inr (unescapeHtml attribute)"
proof -
  obtain t shown where e: "escapeHtml (aiContractId c) = Inr attribute" "truncateForDisplay (aiContractId c) = Inr t"
      "escapeHtml (Some t) = Inr shown"
    and h: "html = cardTemplate (isSelected selected c) (aiExists c) attribute (decimal i) shown
         (numberText (aiContextRules c) @ '' context rule'' @ plural (aiContextRules c))
         (numberText (plusNum (aiExternalSigners c) (aiDelegatedSigners c)) @ '' signer'' @
            plural (plusNum (aiExternalSigners c) (aiDelegatedSigners c))) (xeLocale X (aiLastSeen c))"
    using assms(1) by (auto simp: contractCard_def bindE_Inr Let_def)
  obtain j where j: "aiContractId c = Some j" "j \<noteq> JNull"
    using truncated_value [OF e(2)] by auto
  obtain s where s: "jsString j = Inr s" "attribute = escapeText s" using escapeHtml_Some e(1) j by metis
  have "markup html = cardMarkup (isSelected selected c) (aiExists c)"
    unfolding h using assms(2) e
    by (intro cardTemplate_markup) (simp_all add: numberText_markup decimal_markup plural_markup markup_escapeHtml markup_Cons MARKUP_def)
  with s j show ?thesis by (simp add: jsText_def escape_roundtrip)
qed

lemma renderContracts_cards:
  assumes "renderContracts X cs p w = (Inr (), p', w')" "cs \<noteq> []"
  obtains cards where "mapE (contractCard X (xpSelected p)) (zip [0..<length cs] cs) = Inr cards" "w' = w"
    "p' = p\<lparr>xpCards := (concat (map fst cards), map snd cards)\<rparr>"
  using assms by (auto simp: renderContracts_def split: sum.splits)

text \<open>
  In the list of candidates the markup is that of the template, the same for every account up to its
  selection and visibility; and the attribute from which a click reads the contract decodes to the
  contract id of the account in that place.
\<close>

theorem cards_show_and_select_their_contract:
  assumes "renderContracts X cs p w = (Inr (), p', w')" "cs \<noteq> []" "\<forall>n. markup (xeLocale X n) = []"
  shows "markup (fst (xpCards p')) = concat (map (\<lambda>c. cardMarkup (isSelected (xpSelected p) c) (aiExists c)) cs) \<and>
     map (\<lambda>c. jsText (aiContractId c)) cs = map (\<lambda>a. Inr (unescapeHtml a)) (snd (xpCards p'))"
proof -
  obtain cards where m: "mapE (contractCard X (xpSelected p)) (zip [0..<length cs] cs) = Inr cards"
    and p': "p' = p\<lparr>xpCards := (concat (map fst cards), map snd cards)\<rparr>"
    using renderContracts_cards [OF assms(1,2)] by metis
  then have l: "length cards = length cs" by (auto simp: mapE_Inr dest: list_all2_lengthD)
  have c: "contractCard X (xpSelected p) (i, cs ! i) = Inr (cards ! i)" if "i < length cs" for i
    using m that by (auto simp: mapE_Inr list_all2_conv_all_nth)
  have s: "markup (fst (cards ! i)) = cardMarkup (isSelected (xpSelected p) (cs ! i)) (aiExists (cs ! i)) \<and>
       jsText (aiContractId (cs ! i)) = Inr (unescapeHtml (snd (cards ! i)))" if "i < length cs" for i
    using contractCard_shape [of X "xpSelected p" i "cs ! i" "fst (cards ! i)" "snd (cards ! i)"] c [OF that] assms(3) by simp
  have "map (\<lambda>k. markup (fst k)) cards = map (\<lambda>c. cardMarkup (isSelected (xpSelected p) c) (aiExists c)) cs"
    by (rule nth_equalityI) (use l s in simp_all)
  moreover have "map (\<lambda>c. jsText (aiContractId c)) cs = map (\<lambda>k. Inr (unescapeHtml (snd k))) cards"
    by (rule nth_equalityI) (use l s in simp_all)
  ultimately show ?thesis unfolding p' by (simp add: markup_concat comp_def)
qed

definition demoAccount :: account_info where
  "demoAccount = \<lparr>aiContractId = Some (JStr (CHR 0x22 # ''><b>'')), aiContextRules = NaN, aiExternalSigners = NaN, aiDelegatedSigners = NaN,
     aiNativeSigners = NaN, aiFirstSeen = NaN, aiLastSeen = NaN, aiContextRuleIds = None, aiExists = None\<rparr>"

lemma cards_show_and_select_their_contract_witness:
  "let (r, p, w) = renderContracts demoExplorerEnv [demoAccount] demoExplorer demoWorld in
     r = Inr () \<and> markup (fst (xpCards p)) = concat (map (\<lambda>c. cardMarkup False None) [demoAccount]) \<and>
     [Inr (CHR 0x22 # ''><b>'')] = map (\<lambda>a. Inr (unescapeHtml a) :: string result) (snd (xpCards p))"
proof -
  obtain r p w where d: "renderContracts demoExplorerEnv [demoAccount] demoExplorer demoWorld = (r, p, w)"
    by (metis prod_cases3)
  have "fst (renderContracts demoExplorerEnv [demoAccount] demoExplorer demoWorld) = Inr ()" by code_simp
  with d have r: "r = Inr ()" by simp
  have m: "\<forall>n. markup (xeLocale demoExplorerEnv n) = []" by (simp add: demoExplorerEnv_def numberText_markup)
  have "isSelected (xpSelected demoExplorer) demoAccount = False" "aiExists demoAccount = None"
    "jsText (aiContractId demoAccount) = Inr (CHR 0x22 # ''><b>'')"
    by (simp_all add: isSelected_def demoExplorer_def initialExplorer_def demoAccount_def jsText_def)
  with cards_show_and_select_their_contract [OF d [unfolded r] _ m] d r show ?thesis by simp
qed

section \<open>Marks of a lookup\<close>

definition keepsX :: "(explorer \<Rightarrow> 'b) \<Rightarrow> 'a xact \<Rightarrow> bool" where
  "keepsX f m \<longleftrightarrow> (\<forall>p w. f (fst (snd (m p w))) = f p)"

named_theorems keepsX_rules \<open>rules for \<open>keepsX\<close>\<close>

lemma keepsX_bind [keepsX_rules]: "keepsX f m \<Longrightarrow> (\<And>x. keepsX f (g x)) \<Longrightarrow> keepsX f (bindX m g)"
  unfolding keepsX_def bindX_def by (auto split: prod.splits sum.splits) (metis fst_conv snd_conv)+

lemma keepsX_catch [keepsX_rules]: "keepsX f m \<Longrightarrow> (\<And>e. keepsX f (h e)) \<Longrightarrow> keepsX f (catchX m h)"
  unfolding keepsX_def catchX_def by (auto split: prod.splits sum.splits) (metis fst_conv snd_conv)+

lemma keepsX_basic [keepsX_rules]: "keepsX f (returnX x)" "keepsX f (liftR r)" "keepsX f (liftX m)"
  by (simp_all add: keepsX_def liftX_def split: prod.splits)

lemma keepsX_update: "(\<And>p. f (g p) = f p) \<Longrightarrow> keepsX f (updateX g)"
  by (simp add: keepsX_def)

lemma keepsX_if [keepsX_rules]: "keepsX f m \<Longrightarrow> keepsX f n \<Longrightarrow> keepsX f (if b then m else n)"
  by simp

lemma keepsX_map [keepsX_rules]: "(\<And>x. keepsX f (g x)) \<Longrightarrow> keepsX f (mapX g xs)"
  by (induction xs) (simp_all add: keepsX_rules)

lemma keeps_credential [keepsX_rules]:
  "keepsX xpCredential (showStatus s c)" "keepsX xpCredential hideStatus" "keepsX xpCredential (renderContracts X cs)"
  "keepsX xpCredential (enrichWithContractCheck X a)" "keepsX xpCredential (lookupContractsByCredentialId X k)"
  by (auto simp: showStatus_def hideStatus_def renderContracts_def enrichWithContractCheck_def lookupContractsByCredentialId_def
      pageFetch_def keepsX_def split: sum.splits intro: keepsX_update) (auto simp: bindX_def liftX_def split: prod.splits sum.splits)

lemma listCandidates_keeps: "keepsX xpCredential m \<Longrightarrow> keepsX xpCredential (listCandidates X m nothing found)"
  unfolding listCandidates_def by (intro keepsX_rules keepsX_update) auto

text \<open>After a lookup, the signers marked are those whose id is the text that was entered.\<close>

lemma lookup_marks_entered_text:
  assumes "lookupClicked X p w = (r, p', w')" "trim (xpKeyInput p) \<noteq> []" "field ''credential_id'' s = Some (JStr i)"
  shows "matchesCredential (xpCredential p') s = Inr (toLower i = toLower (trim (xpKeyInput p)))"
proof -
  let ?k = "trim (xpKeyInput p)"
  let ?rest = "listCandidates X (lookupContractsByCredentialId X ?k) ''No contracts found for this public key'' '' contract(s)''"
  let ?p = "p\<lparr>xpStatus := (''Looking up contracts...'', InfoStatus), xpStatusShown := True, xpSelected := None,
     xpCredential := Some (toLower ?k), xpSigner := None\<rparr>"
  have "lookupClicked X p w = reportFailure ''Lookup failed'' ?rest ?p w"
    using assms(2) by (simp add: lookupClicked_def reportFailure_def catchX_def bindX_def hideStatus_def showStatus_def startSearch_def Let_def)
  moreover have "keepsX xpCredential (reportFailure ''Lookup failed'' ?rest)"
    unfolding reportFailure_def by (intro keepsX_rules listCandidates_keeps)
  then have "xpCredential (fst (snd (reportFailure ''Lookup failed'' ?rest ?p w))) = xpCredential ?p" by (simp only: keepsX_def)
  ultimately have "xpCredential (fst (snd (r, p', w'))) = Some (toLower ?k)" by (simp add: assms(1) [symmetric])
  then have "xpCredential p' = Some (toLower ?k)" by simp
  then show ?thesis using assms(2,3) by (simp add: matchesCredential_def truthy_def toLower_def comp_def)
qed

text \<open>
  A credential id may be entered with the prefix \<^verbatim>\<open>0x\<close>, which the request to the indexer drops, so that
  the same wallets are found; but the signer that has this credential is then not marked in their details.
\<close>

theorem prefixed_lookup_marks_nothing:
  assumes "lookupClicked X p w = (r, p', w')" "trim (xpKeyInput p) = ''0x'' @ k" "take 2 (toLower k) \<noteq> ''0x''"
    "field ''credential_id'' s = Some (JStr k)"
  shows "lookupContractsByCredentialId X (''0x'' @ k) = lookupContractsByCredentialId X k \<and>
     matchesCredential (xpCredential p') s = Inr False"
proof
  have "toLower (''0x'' @ k) = ''0x'' @ toLower k" by (simp add: toLower_def toLowerChar_def)
  then have "normalizeId (''0x'' @ k) = normalizeId k" using assms(3) by (simp add: normalizeId_def strip0x_def)
  then show "lookupContractsByCredentialId X (''0x'' @ k) = lookupContractsByCredentialId X k"
    by (simp only: lookupContractsByCredentialId_def)
  have "length (toLower k) \<noteq> length (toLower (''0x'' @ k))" by (simp add: toLower_def)
  then have "toLower k \<noteq> toLower (''0x'' @ k)" by metis
  then show "matchesCredential (xpCredential p') s = Inr False"
    using lookup_marks_entered_text [OF assms(1) _ assms(4)] assms(2) by simp
qed

lemma prefixed_lookup_marks_nothing_witness:
  "let p = demoExplorer\<lparr>xpKeyInput := ''0xAb''\<rparr>; (r, p', w') = lookupClicked demoExplorerEnv p demoWorld in
     lookupContractsByCredentialId demoExplorerEnv (''0x'' @ ''Ab'') = lookupContractsByCredentialId demoExplorerEnv ''Ab'' \<and>
     matchesCredential (xpCredential p') (JObj [(''credential_id'', JStr ''Ab'')]) = Inr False"
proof -
  let ?p = "demoExplorer\<lparr>xpKeyInput := ''0xAb''\<rparr>" and ?s = "JObj [(''credential_id'', JStr ''Ab'')]"
  obtain r p' w' where d: "lookupClicked demoExplorerEnv ?p demoWorld = (r, p', w')" by (metis prod_cases3)
  have t: "trim (xpKeyInput ?p) = ''0x'' @ ''Ab''" by code_simp
  have l: "take 2 (toLower ''Ab'') \<noteq> ''0x''" by code_simp
  have f: "field ''credential_id'' ?s = Some (JStr ''Ab'')" by (simp add: field_def)
  show ?thesis using prefixed_lookup_marks_nothing [OF d t l f] d by (simp only: Let_def prod.case)
qed

section \<open>Lookups with retries\<close>

text \<open>
  A lookup with retries makes the same request at most as often as it may, stops at the first answer that
  lists a contract or fails, and changes nothing of the page but the status.
\<close>

lemma one_lookup:
  "\<exists>r. lookupContractsByCredentialId X k p w =
     (r, p, w\<lparr>wTrace := wTrace w @ [FxFetch (xpIndexerUrl p @ ''/api/lookup/'' @ normalizeId k) None]\<rparr>)"
  by (auto simp: lookupContractsByCredentialId_def pageFetch_def bindX_def liftX_def Let_def run_simps split: sum.splits)

lemma retries_are_bounded:
  "retryLookup X k attempts left p w = (r, p', w') \<Longrightarrow>
     \<exists>n s b. n \<le> left \<and> (r = Inr [] \<longrightarrow> n = left) \<and> p' = p\<lparr>xpStatus := s, xpStatusShown := b\<rparr> \<and>
       w' = w\<lparr>wTrace := wTrace w @ replicate n (FxFetch (xpIndexerUrl p @ ''/api/lookup/'' @ normalizeId k) None)\<rparr>"
proof (induction left arbitrary: p w)
  case 0
  then show ?case by (intro exI [of _ 0] exI [of _ "xpStatus p"] exI [of _ "xpStatusShown p"]) simp
next
  case (Suc left)
  let ?fx = "FxFetch (xpIndexerUrl p @ ''/api/lookup/'' @ normalizeId k) None"
  obtain a where a: "lookupContractsByCredentialId X k p w = (a, p, w\<lparr>wTrace := wTrace w @ [?fx]\<rparr>)" using one_lookup by blast
  show ?case
  proof (cases "a = Inr [] \<and> left \<noteq> 0")
    case False
    then have "(r, p', w') = (a, p, w\<lparr>wTrace := wTrace w @ [?fx]\<rparr>)" using Suc.prems a by (cases a) (auto simp: bindX_def)
    then show ?thesis using False
      by (intro exI [of _ 1] exI [of _ "xpStatus p"] exI [of _ "xpStatusShown p"]) auto
  next
    case True
    then obtain s where "retryLookup X k attempts left (p\<lparr>xpStatus := s, xpStatusShown := True\<rparr>) (w\<lparr>wTrace := wTrace w @ [?fx]\<rparr>) = (r, p', w')"
      using Suc.prems a by (auto simp: bindX_def showStatus_def)
    from Suc.IH [OF this] obtain n t b where n: "n \<le> left" "r = Inr [] \<longrightarrow> n = left"
        "p' = p\<lparr>xpStatus := t, xpStatusShown := b\<rparr>" "w' = w\<lparr>wTrace := (wTrace w @ [?fx]) @ replicate n ?fx\<rparr>" by auto
    then show ?thesis by (intro exI [of _ "Suc n"] exI [of _ t] exI [of _ b]) simp
  qed
qed

section \<open>Answers of the details view\<close>

text \<open>An answer fills and opens the details view whatever card is selected by then, or although the user went back.\<close>

lemma details_ignore_selection:
  assumes "renderContractDetails X d p w = (Inr (), p', w')" "field ''contractId'' d = Some (JStr a)"
  shows "xpSelected p' = xpSelected p \<and> xpDetailsShown p' \<and>
     (\<exists>rest. xpDetails p' = nl 4 @ tag (divTag ''contract-full-id'') @ escapeText a @ tag ''/div'' @ rest)"
  using rendered_details [OF assms(1)] assms(2) by (auto simp: detailsHtml_def bindE_Inr escapeHtml_def)

text \<open>A verifier named like a property of every object makes the rendering of its rule fail.\<close>

lemma inherited_verifier_fails:
  "s \<in> set externals \<Longrightarrow> field ''signer_address'' s = Some (JStr v) \<Longrightarrow> v \<in> set OBJECT_PROPERTIES \<Longrightarrow>
     \<exists>e. groupByVerifier externals groups = Inl e"
proof (induction externals arbitrary: groups)
  case (Cons x xs)
  have "truthyJson (JStr v)" using Cons.prems(3) by (auto simp: truthyJson_def OBJECT_PROPERTIES_def)
  with Cons show ?case by (cases "s = x") (auto simp: bindE_def split: sum.splits)
qed simp

end
