(* ===== verification/Spec2Isabelle.thy ===== *)
theory Spec2Isabelle
  imports Kit_Errors Kit_Validation Kit_TokenAmount Kit_TxOps Kit_ContextRules Kit_Signing Kit_WebAuthn Kit_Provenance
    Kit_Deploy Kit_Wallet Kit_Credentials Kit_Events Kit_WalletAdapter Kit_ExternalSigners
    Kit_Relayer Kit_Indexer Kit_MultiSigner Kit_Funding Kit_Managers Kit_Facade Kit_Proxy
    Kit_RuleSpec Kit_Session Kit_Picker Kit_DemoConfig Kit_Panels Kit_IndexerShown
begin

text \<open>
  A verification library for the smart account kit, the TypeScript SDK under \<^verbatim>\<open>src/src\<close> that creates
  and operates passkey-controlled smart accounts on Stellar, for its demos under \<^verbatim>\<open>src/demo\<close> and \<^verbatim>\<open>src/indexer/demo\<close>, and for the
  relayer proxy under \<^verbatim>\<open>src/relayer-proxy\<close>, the worker that pays for its transactions.

  \<^bold>\<open>The program.\<close> A smart account is a contract whose signers are grouped in context rules. The kit
  keeps passkey credentials and a session in a storage adapter (\<^verbatim>\<open>storage/\<close>), deploys accounts
  (\<^verbatim>\<open>kit/deploy-ops.ts\<close>, \<^verbatim>\<open>kit/wallet-ops.ts\<close>), reconnects to them after checking their birth and live
  signer (\<^verbatim>\<open>kit/wallet-provenance.ts\<close>), resolves which context rules a call needs
  (\<^verbatim>\<open>kit/context-rules.ts\<close>), signs authorization entries with passkeys, Ed25519 keys and account
  wallets (\<^verbatim>\<open>kit/webauthn-ops.ts\<close>, \<^verbatim>\<open>signers.ts\<close>, \<^verbatim>\<open>managers/multi-signer-manager.ts\<close>) and submits
  transactions over the RPC or a fee-sponsoring relayer (\<^verbatim>\<open>kit/tx-ops.ts\<close>, \<^verbatim>\<open>relayer.ts\<close>). The class
  \<^verbatim>\<open>SmartAccountKit\<close> (\<^verbatim>\<open>kit.ts\<close>) holds the configuration and hands the operations what they need. The proxy
  (\<^verbatim>\<open>relayer-proxy/src/index.ts\<close>) limits requests, checks every submission, and only then obtains an API
  key for the client address and submits. The wallet demo (\<^verbatim>\<open>demo/src\<close>) is a client of the kit: it
  keeps one wallet session, lets the user choose who signs, and its rule editor turns a form into a
  sequence of separately signed changes of a context rule. The indexer demo (\<^verbatim>\<open>indexer/demo/src\<close>) only
  reads: it asks the indexer for wallet candidates and renders its answers.

  \<^bold>\<open>How it is modelled.\<close> Pure functions are HOL functions; what throws returns \<open>kit_error + 'a\<close>
  (\<open>Inl\<close> the error, with the constructor and text of the class in \<^verbatim>\<open>errors.ts\<close>). Code with effects is an
  \<open>'a act\<close> of \<open>Kit_World\<close>: a function from the world (storage, connected wallet, trace) to a result
  and the world after it. Every request to a service is an \<open>effect\<close> recorded in the trace, and the
  services answer as functions of the trace before the request, so that answers may change over
  time and nothing is assumed about them. Numbers of JavaScript are \<open>jsnum\<close> (finite rationals,
  infinities, NaN) with the rounding of doubles where it matters; bytes are \<open>8 word\<close>.

  \<^bold>\<open>Packages that are not in the repository\<close> are parameters: the record \<open>sdk\<close> of \<open>Kit_Xdr\<close> holds the XDR
  encodings, strkeys and hashes of the Stellar SDK. Theorems that rely on them name what they rely on:
  \<open>sdk_xdr_ok\<close> (encodings are injective), \<open>sdk_strkey_ok\<close> (addresses and their texts correspond),
  \<open>preimage_ignores_signature\<close> (what is hashed for an entry leaves out its signature). \<open>demoSdk\<close>
  satisfies all of them, and the witnesses run on it. Passkeys, WebCrypto, random bytes, \<^verbatim>\<open>fetch\<close>, the
  browser storage and the generated contract client are arguments of the definitions that use them.

  \<^bold>\<open>Theories\<close>, from the bottom:
  \<^item> \<open>Kit_Prelude\<close>, \<open>Kit_Order\<close>, \<open>Kit_Text\<close>, \<open>Kit_Json\<close>, \<open>Kit_Xdr\<close>, \<open>Kit_Store\<close>: results, hexadecimal and decimal
    texts, orders and insertion sort, JSON values and number parsing, the data of the SDK, and the
    contract of a keyed store as a locale, instantiated by the auth payload.
  \<^item> \<open>Kit_Errors\<close>, \<open>Kit_Signers\<close>, \<open>Kit_Validation\<close>, \<open>Kit_Builders\<close>, \<open>Kit_Policies\<close>, \<open>Kit_TokenAmount\<close>,
    \<open>Kit_DigestScheme\<close>: \<^verbatim>\<open>errors.ts\<close>, \<^verbatim>\<open>contract-errors.ts\<close>, \<^verbatim>\<open>utils.ts\<close>, \<^verbatim>\<open>signer-utils.ts\<close>,
    \<^verbatim>\<open>validation.ts\<close>, \<^verbatim>\<open>builders.ts\<close>, \<^verbatim>\<open>kit/policies-ops.ts\<close>, the amounts of \<^verbatim>\<open>kit/tx-ops.ts\<close> and
    \<^verbatim>\<open>kit/auth-digest-scheme.ts\<close>, with exact characterisations of what each accepts.
  \<^item> \<open>Kit_Storage\<close>: the three adapters, each a refinement of one abstract map, through a locale.
  \<^item> \<open>Kit_World\<close>: the world, its monad, what a computation may do (\<open>onlyDoes\<close>) and keeps (\<open>keeps\<close>).
  \<^item> \<open>Kit_ScVal\<close>, \<open>Kit_AuthPayload\<close>, \<open>Kit_Mutation\<close>: \<^verbatim>\<open>kit/auth-payload.ts\<close>: the host order of values, payloads
    and their round trip, and the guard against changes of the account's authority.
  \<^item> \<open>Kit_TxOps\<close>, \<open>Kit_ContextRules\<close>, \<open>Kit_Signing\<close>, \<open>Kit_WebAuthn\<close>: signing and submission.
  \<^item> \<open>Kit_Provenance\<close>, \<open>Kit_Deploy\<close>, \<open>Kit_Wallet\<close>, \<open>Kit_Credentials\<close>: birth, deployment, connection and
    the stored credentials.
  \<^item> \<open>Kit_Events\<close>, \<open>Kit_WalletAdapter\<close>, \<open>Kit_ExternalSigners\<close>, \<open>Kit_MultiSigner\<close>: listeners, account wallets
    behind the interface of \<^verbatim>\<open>ExternalWalletAdapter\<close> (a locale), and signing with several signers.
  \<^item> \<open>Kit_Relayer\<close>, \<open>Kit_Indexer\<close>: the two HTTP clients.
  \<^item> \<open>Kit_Double\<close>, \<open>Kit_Funding\<close>: the error of rounding to doubles, and the funding of a testnet wallet
    (\<^verbatim>\<open>kit/fund-ops.ts\<close>), whose amount is exact in spite of two conversions to floating point.
  \<^item> \<open>Kit_Managers\<close>: the signer, context-rule and policy managers and the policy clients
    (\<^verbatim>\<open>managers/*.ts\<close>, \<^verbatim>\<open>policy-clients.ts\<close>), over the generated client as a record of functions.
  \<^item> \<open>Kit_Facade\<close>: \<^verbatim>\<open>kit.ts\<close>: the constructor, the cache of one operation, and every public operation as
    the composition of the operations above; what holds of them end to end.
  \<^item> \<open>Kit_ProxyState\<close>, \<open>Kit_ProxyChecks\<close>, \<open>Kit_Proxy\<close>: the proxy: its settings and rate limiter (against a
    reference by windows), its checks (what an accepted submission is), and its handlers (the order of
    checks and keys, the end of the retries). Two theorems compose it with the kit: what the relayer
    client posts is read as sent, and what the kit deploys passes the checks.
  \<^item> \<open>Kit_PolicyForm\<close>, \<open>Kit_RuleEditor\<close>, \<open>Kit_RuleSpec\<close>: the rule editor of the demo
    (\<^verbatim>\<open>demo/src/components/ContextRuleBuilder.tsx\<close>, \<^verbatim>\<open>rule-builder/*.ts\<close>, \<^verbatim>\<open>demo/src/utils\<close>,
    \<^verbatim>\<open>demo/src/hooks/useMultiSignerSubmit.ts\<close>): its form, how policies are read into it and installed from
    it, and the changes it submits, against a specification of the rule on the chain and of what each
    change does to it. An edit goes through exactly when its plan of changes is performed.
  \<^item> \<open>Kit_PolicyList\<close>, \<open>Kit_Panels\<close>, \<open>Kit_DemoConfig\<close>: the policy section of the editor
    (\<^verbatim>\<open>PolicyConfigList.tsx\<close>), the panels for rules, live policy parameters and upgrades
    (\<^verbatim>\<open>ContextRulesPanel.tsx\<close>, \<^verbatim>\<open>PolicyInspector.tsx\<close>, \<^verbatim>\<open>AdvancedPanel.tsx\<close>), and the configuration
    (\<^verbatim>\<open>config.ts\<close>) with the kit it leads to: what a typed limit becomes on the chain, what is lost when
    parameters do not encode, which builds can be deployed.
  \<^item> \<open>Kit_Connected\<close>, \<open>Kit_Session\<close>: the wallet session (\<^verbatim>\<open>demo/src/hooks/useWalletSession.ts\<close>) as a step
    relation over the state of the page and the world of the kit. What it needs of the kit is the
    locale \<open>connection_provider\<close>, interpreted on the kit's own operations with the lemmas of
    \<open>Kit_Connected\<close>; its invariant is that a connected page shows the wallet of the kit. Loads that
    nobody awaits are delivered by later steps in any order.
  \<^item> \<open>Kit_Picker\<close>: the choice of signers (\<^verbatim>\<open>SignerPicker.tsx\<close>, \<^verbatim>\<open>useExternalWallets.ts\<close>), against what the
    multi-signer manager accepts.
  \<^item> \<open>Kit_Html\<close>, \<open>Kit_IndexerPage\<close>, \<open>Kit_IndexerDetails\<close>, \<open>Kit_IndexerShown\<close>: the indexer demo (\<^verbatim>\<open>main.ts\<close>,
    \<^verbatim>\<open>constants.ts\<close>, \<^verbatim>\<open>html.ts\<close>): the text of JSON values and its escaping, with what a browser reads back;
    lookups over answers of any shape, the HTML of the list and of the details, and the event handlers.
    No answer adds a tag to the details, a card selects the contract it shows, and lookups with retries
    make a bounded number of equal requests.

  \<^bold>\<open>Bounds.\<close> Loops of the source are structural recursions: over lists, over the ids of the probe
  (\<open>[0 ..< Suc maxRuleId]\<close>), over the attempts of a retry. The walk of an invocation tree follows the
  tree. No definition uses fuel; what the code may do forever (a listener that registers listeners while
  an event is emitted) is excluded by a hypothesis of the theorem that says so. The loop of the proxy,
  which repeats until a clock passes a deadline, is a partial function, and ends while every request
  takes a millisecond.

  \<^bold>\<open>Not modelled.\<close> The generated contract bindings, the rendering of the wallet demo (with the flags that
  are only shown while an operation runs), its resynchronisation when it starts, request headers, log
  calls, the timers themselves (a timeout is an answer of the service), and the types that carry
  no code. Promises run in the order the code awaits them; \<^verbatim>\<open>Promise.all\<close> starts its parts in order. A
  handler of the demos runs to its end in one step.
\<close>

end
